(* ===== verification/Prelude.thy ===== *)
theory Prelude
  imports Main "HOL-Library.Mapping" "HOL-Library.AList_Mapping" "HOL-Library.Char_ord"
    "HOL-Library.List_Lexorder" "HOL-Library.Sublist" "HOL-Library.Multiset"
begin

text \<open>
  Prelude of the kbind development: the parts of the Go language and of its standard library
  that the source uses, with the generic lemmas the components share.
  Go strings are byte strings and become \<^typ>\<open>string\<close>; the order \<open><\<close> on them is the
  lexicographic order of the bytes. Go maps with string keys are \<^typ>\<open>(string, 'v) mapping\<close>.
  A function that returns a Go \<open>error\<close> returns \<open>error option\<close> (\<open>None\<close> is
  \<open>nil\<close>), a function that returns a value and an error returns \<open>error + 'a\<close>.
  Calls that leave the process (the API servers, the informer caches) are parameters of the
  definitions; they take and return the state \<open>'w\<close> of the world.
  The package \<open>strings\<close>, \<open>fmt.Sprintf\<close>, \<open>sort.Slice\<close> and the
  \<open>time\<close> arithmetic are written out as far as the source uses them.
\<close>

named_theorems go_simps \<open>unfolding rules of the Go library functions\<close>

type_synonym smap = "(string, string) mapping"

section \<open>Errors\<close>

text \<open>
  An error is an API status error with its reason, an error made by \<open>errors.New\<close> or
  \<open>fmt.Errorf\<close> without an API reason, or the aggregate of \<open>utilerrors.NewAggregate\<close>.
  \<open>fmt.Errorf\<close> with the verb \<open>%w\<close> keeps the reason of the error it wraps.
\<close>

datatype StatusReason = ReasonNotFound | ReasonAlreadyExists | ReasonInvalid | ReasonConflict
  | ReasonUnauthorized | ReasonForbidden | ReasonBadRequest | ReasonOther

datatype error = StatusError StatusReason string | PlainError string | Aggregate "error list"

type_synonym 'a result = "error + 'a"

fun ErrorString :: "error \<Rightarrow> string" where
  "ErrorString (StatusError r m) = m"
| "ErrorString (PlainError m) = m"
| "ErrorString (Aggregate es) = concat (map ErrorString es)"

fun hasReason :: "StatusReason \<Rightarrow> error \<Rightarrow> bool" where
  "hasReason r (StatusError r' m) = (r = r')"
| "hasReason r (PlainError m) = False"
| "hasReason r (Aggregate es) = False"

abbreviation IsNotFound :: "error \<Rightarrow> bool" where
  "IsNotFound \<equiv> hasReason ReasonNotFound"

abbreviation IsAlreadyExists :: "error \<Rightarrow> bool" where
  "IsAlreadyExists \<equiv> hasReason ReasonAlreadyExists"

abbreviation IsInvalid :: "error \<Rightarrow> bool" where
  "IsInvalid \<equiv> hasReason ReasonInvalid"

fun wrapError :: "string \<Rightarrow> error \<Rightarrow> error" where
  "wrapError p (StatusError r m) = StatusError r (p @ '': '' @ m)"
| "wrapError p e = PlainError (p @ '': '' @ ErrorString e)"

definition NewAggregate :: "error list \<Rightarrow> error option" where
  "NewAggregate errs = (if errs = [] then None else Some (Aggregate errs))"

definition appendErr :: "error list \<Rightarrow> error option \<Rightarrow> error list" where
  "appendErr errs e = (case e of None \<Rightarrow> errs | Some x \<Rightarrow> errs @ [x])"

section \<open>Strings\<close>

definition HasPrefix :: "string \<Rightarrow> string \<Rightarrow> bool" where
  "HasPrefix s p = prefix p s"

definition TrimPrefix :: "string \<Rightarrow> string \<Rightarrow> string" where
  "TrimPrefix s p = (if prefix p s then drop (length p) s else s)"

fun Contains :: "string \<Rightarrow> string \<Rightarrow> bool" where
  "Contains [] sub = (sub = [])"
| "Contains (c # cs) sub = (prefix sub (c # cs) \<or> Contains cs sub)"

fun Join :: "string list \<Rightarrow> string \<Rightarrow> string" where
  "Join [] sep = []"
| "Join [x] sep = x"
| "Join (x # y # ys) sep = x @ sep @ Join (y # ys) sep"

text \<open>\<open>strings.SplitN\<close> for a one-byte separator and a positive limit.\<close>

fun SplitN1 :: "char \<Rightarrow> nat \<Rightarrow> string \<Rightarrow> string \<Rightarrow> string list" where
  "SplitN1 sep n acc [] = [rev acc]"
| "SplitN1 sep n acc (c # cs) =
     (if c = sep \<and> 1 < n then rev acc # SplitN1 sep (n - 1) [] cs
      else SplitN1 sep n (c # acc) cs)"

definition SplitN :: "string \<Rightarrow> char \<Rightarrow> nat \<Rightarrow> string list" where
  "SplitN s sep n = SplitN1 sep n [] s"

definition isSpace :: "char \<Rightarrow> bool" where
  "isSpace c = (c \<in> {CHR '' '', CHR 0x09, CHR 0x0A, CHR 0x0B, CHR 0x0C, CHR 0x0D})"

definition TrimSpace :: "string \<Rightarrow> string" where
  "TrimSpace s = rev (dropWhile isSpace (rev (dropWhile isSpace s)))"

fun digits :: "nat \<Rightarrow> string" where
  "digits n = (if n < 10 then [char_of (48 + n)] else digits (n div 10) @ [char_of (48 + n mod 10)])"

declare digits.simps [simp del]

definition Itoa :: "int \<Rightarrow> string" where
  "Itoa i = (if i < 0 then CHR ''-'' # digits (nat (- i)) else digits (nat i))"

text \<open>
  \<open>fmt.Sprintf\<close> for the verbs the source uses on strings and integers: \<open>%s\<close>,
  \<open>%v\<close>, \<open>%d\<close>, \<open>%q\<close> (quoting as for printable ASCII) and \<open>%%\<close>.
  A verb without an argument prints \<open>%!s(MISSING)\<close>, arguments that are left over print
  the \<open>%!(EXTRA ...)\<close> suffix.
\<close>

datatype fmtarg = FStr string | FInt int

fun fmtPlain :: "fmtarg \<Rightarrow> string" where
  "fmtPlain (FStr s) = s"
| "fmtPlain (FInt i) = Itoa i"

fun fmtExtra :: "fmtarg \<Rightarrow> string" where
  "fmtExtra (FStr s) = ''string='' @ s"
| "fmtExtra (FInt i) = ''int='' @ Itoa i"

definition quote :: "string \<Rightarrow> string" where
  "quote s = [CHR 0x22] @
     concat (map (\<lambda>c. if c = CHR 0x22 \<or> c = CHR 0x5C then [CHR 0x5C, c] else [c]) s) @ [CHR 0x22]"

fun fmtVerb :: "char \<Rightarrow> fmtarg \<Rightarrow> string" where
  "fmtVerb c a = (if c = CHR ''q'' then quote (fmtPlain a) else fmtPlain a)"

fun Sprintf :: "string \<Rightarrow> fmtarg list \<Rightarrow> string" where
  "Sprintf [] [] = []"
| "Sprintf [] (a # as) = ''%!(EXTRA '' @ Join (map fmtExtra (a # as)) '', '' @ '')''"
| "Sprintf [c] as = (if c = CHR ''%'' then ''%!(NOVERB)'' else [c]) @ Sprintf [] as"
| "Sprintf (c # d # cs) as =
     (if c \<noteq> CHR ''%'' then c # Sprintf (d # cs) as
      else if d = CHR ''%'' then CHR ''%'' # Sprintf cs as
      else case as of
        [] \<Rightarrow> ''%!'' @ [d] @ ''(MISSING)'' @ Sprintf cs []
      | a # as' \<Rightarrow> fmtVerb d a @ Sprintf cs as')"

section \<open>Maps\<close>

text \<open>Reading a Go map at an absent key gives the zero value, for strings the empty one.\<close>

definition mget :: "smap \<Rightarrow> string \<Rightarrow> string" where
  "mget m k = (case Mapping.lookup m k of None \<Rightarrow> [] | Some v \<Rightarrow> v)"

section \<open>Sorting\<close>

text \<open>
  \<open>sort.Slice\<close> and \<open>sort.Sort\<close>: for short slices Go runs an insertion sort, which
  inserts each element from left to right behind the elements that are not greater.
\<close>

fun insertLess :: "('a \<Rightarrow> 'a \<Rightarrow> bool) \<Rightarrow> 'a \<Rightarrow> 'a list \<Rightarrow> 'a list" where
  "insertLess lt x [] = [x]"
| "insertLess lt x (y # ys) = (if lt x y then x # y # ys else y # insertLess lt x ys)"

definition sortSlice :: "('a \<Rightarrow> 'a \<Rightarrow> bool) \<Rightarrow> 'a list \<Rightarrow> 'a list" where
  "sortSlice lt xs = fold (insertLess lt) xs []"

section \<open>Time and 64-bit durations\<close>

text \<open>
  A \<open>time.Time\<close> is its distance from Go's zero time in nanoseconds, so the zero time is
  0; a \<open>time.Duration\<close> is an int64, and its arithmetic wraps. \<open>Time.Sub\<close> (and so
  \<open>time.Since\<close>) saturates.
\<close>

type_synonym time = int
type_synonym duration = int

definition wrap64 :: "int \<Rightarrow> int" where
  "wrap64 i = (i + 2 ^ 63) mod 2 ^ 64 - 2 ^ 63"

definition IsZeroTime :: "time \<Rightarrow> bool" where
  "IsZeroTime t = (t = 0)"

definition Second :: duration where
  "Second = 1000000000"

definition Minute :: duration where
  "Minute = 60 * Second"

definition TimeSub :: "time \<Rightarrow> time \<Rightarrow> duration" where
  "TimeSub t u = max (- (2 ^ 63)) (min (2 ^ 63 - 1) (t - u))"

definition TruncateSecond :: "time \<Rightarrow> time" where
  "TruncateSecond t = t - t mod Second"

section \<open>Lemmas\<close>

lemma hasReason_simps [simp]:
  "hasReason r (wrapError p e) = hasReason r e"
  by (cases e) auto

lemma NewAggregate_None [simp]: "NewAggregate errs = None \<longleftrightarrow> errs = []"
  by (simp add: NewAggregate_def)

lemma NewAggregate_Some [simp]: "NewAggregate errs = Some e \<longleftrightarrow> errs \<noteq> [] \<and> e = Aggregate errs"
  by (auto simp: NewAggregate_def)

lemma appendErr_simps [simp]:
  "appendErr errs None = errs" "appendErr errs (Some e) = errs @ [e]"
  by (simp_all add: appendErr_def)

lemma appendErr_Nil [simp]: "appendErr errs e = [] \<longleftrightarrow> errs = [] \<and> e = None"
  by (cases e) auto

lemma HasPrefix_append [simp]: "HasPrefix (p @ s) p"
  by (simp add: HasPrefix_def)

lemma HasPrefix_trans: "HasPrefix s p \<Longrightarrow> HasPrefix p q \<Longrightarrow> HasPrefix s q"
  by (auto simp: HasPrefix_def)

lemma HasPrefix_eq_append: "HasPrefix s p \<longleftrightarrow> (\<exists>t. s = p @ t)"
  by (auto simp: HasPrefix_def prefix_def)

lemma TrimPrefix_append [simp]: "TrimPrefix (p @ s) p = s"
  by (simp add: TrimPrefix_def)

lemma TrimPrefix_no: "\<not> HasPrefix s p \<Longrightarrow> TrimPrefix s p = s"
  by (simp add: TrimPrefix_def HasPrefix_def)

lemma append_TrimPrefix: "HasPrefix s p \<Longrightarrow> p @ TrimPrefix s p = s"
  by (auto simp: TrimPrefix_def HasPrefix_def prefix_def)

text \<open>Two strings joined by a separator byte that is not in the first part split uniquely.\<close>

lemma append_sep_eq:
  assumes "c \<notin> set a" "c \<notin> set a'" "a @ c # s = a' @ c # s'"
  shows "a = a' \<and> s = s'"
  using assms
proof (induction a arbitrary: a')
  case Nil
  then show ?case by (cases a') auto
next
  case (Cons x a)
  then show ?case by (cases a') auto
qed

lemma mget_simps [simp]:
  "mget (Mapping.update k v m) k' = (if k = k' then v else mget m k')"
  "mget Mapping.empty k = []"
  by (simp_all add: mget_def lookup_update')

lemma digits_nonempty [simp]: "digits n \<noteq> []"
  by (subst digits.simps) simp

lemma lookup_update_if [simp]:
  "Mapping.lookup (Mapping.update k v m) k' = (if k = k' then Some v else Mapping.lookup m k')"
  by (rule lookup_update')

lemma lookup_delete_if [simp]:
  "Mapping.lookup (Mapping.delete k m) k' = (if k = k' then None else Mapping.lookup m k')"
  by transfer simp

lemma update_same: "Mapping.lookup m k = Some v \<Longrightarrow> Mapping.update k v m = m"
  by (rule mapping_eqI) auto

lemma find_filter: "find P xs = (case filter P xs of [] \<Rightarrow> None | x # _ \<Rightarrow> Some x)"
  by (induction xs) auto

lemma find_snoc: "P y \<Longrightarrow> find P (xs @ [y]) \<noteq> None"
  by (induction xs) auto

lemma find_member: "x \<in> set xs \<Longrightarrow> P x \<Longrightarrow> \<exists>y. find P xs = Some y \<and> y \<in> set xs \<and> P y"
  by (induction xs) auto

lemma find_eqI: "filter P xs = filter P ys \<Longrightarrow> find P xs = find P ys"
  by (simp add: find_filter)

subsection \<open>Sorting with a strict weak order\<close>

lemma mset_insertLess [simp]: "mset (insertLess lt x xs) = add_mset x (mset xs)"
  by (induction xs) auto

lemma mset_fold_insertLess: "mset (fold (insertLess lt) xs ys) = mset xs + mset ys"
  by (induction xs arbitrary: ys) auto

lemma mset_sortSlice [simp]: "mset (sortSlice lt xs) = mset xs"
  by (simp add: sortSlice_def mset_fold_insertLess)

lemma set_sortSlice [simp]: "set (sortSlice lt xs) = set xs"
  by (metis mset_sortSlice set_mset_mset)

lemma length_sortSlice [simp]: "length (sortSlice lt xs) = length xs"
  by (metis mset_sortSlice size_mset)

lemma sortSlice_Nil [simp]: "sortSlice lt xs = [] \<longleftrightarrow> xs = []"
  by (metis length_0_conv length_sortSlice)

lemma distinct_map_sortSlice [simp]: "distinct (map f (sortSlice lt xs)) = distinct (map f xs)"
  by (metis mset_map mset_sortSlice mset_eq_imp_distinct_iff)

lemma set_insertLess [simp]: "set (insertLess lt x xs) = insert x (set xs)"
  by (induction xs) auto

text \<open>
  The interface of \<open>sort.Interface\<close>: a strict weak order. The sorted slice has no
  inversion, and a slice that has none is left alone.
\<close>

locale strict_weak_order =
  fixes lt :: "'a \<Rightarrow> 'a \<Rightarrow> bool"
  assumes asym: "lt x y \<Longrightarrow> \<not> lt y x"
    and neg_trans: "\<not> lt x y \<Longrightarrow> \<not> lt y z \<Longrightarrow> \<not> lt x z"
begin

abbreviation noInversion :: "'a list \<Rightarrow> bool" where
  "noInversion \<equiv> sorted_wrt (\<lambda>x y. \<not> lt y x)"

lemma noInversion_insertLess: "noInversion xs \<Longrightarrow> noInversion (insertLess lt x xs)"
proof (induction xs)
  case Nil
  then show ?case by simp
next
  case (Cons y ys)
  show ?case
  proof (cases "lt x y")
    case True
    have "\<not> lt z x" if "z \<in> set ys" for z
    proof
      assume "lt z x"
      moreover have "\<not> lt z y" using Cons.prems that by simp
      ultimately show False using neg_trans [of z y x] asym True by blast
    qed
    with True Cons.prems asym show ?thesis by simp
  next
    case False
    with Cons show ?thesis by auto
  qed
qed

lemma noInversion_fold: "noInversion ys \<Longrightarrow> noInversion (fold (insertLess lt) xs ys)"
  by (induction xs arbitrary: ys) (simp_all add: noInversion_insertLess)

lemma noInversion_sortSlice: "noInversion (sortSlice lt xs)"
  unfolding sortSlice_def by (rule noInversion_fold) simp

lemma insertLess_last: "(\<And>y. y \<in> set ys \<Longrightarrow> \<not> lt x y) \<Longrightarrow> insertLess lt x ys = ys @ [x]"
  by (induction ys) auto

lemma fold_insertLess_sorted: "noInversion (ys @ xs) \<Longrightarrow> fold (insertLess lt) xs ys = ys @ xs"
proof (induction xs arbitrary: ys)
  case Nil
  then show ?case by simp
next
  case (Cons x xs)
  then have "insertLess lt x ys = ys @ [x]"
    by (intro insertLess_last) (auto simp: sorted_wrt_append)
  with Cons show ?case by simp
qed

lemma sortSlice_idem: "noInversion xs \<Longrightarrow> sortSlice lt xs = xs"
  using fold_insertLess_sorted [of "[]" xs] by (simp add: sortSlice_def)

text \<open>The sort is stable: elements that are not ordered keep their sequence.\<close>

lemma filter_insertLess:
  assumes "noInversion ys" and eqv: "\<And>x y. P x \<Longrightarrow> P y \<Longrightarrow> \<not> lt x y"
  shows "filter P (insertLess lt x ys) = filter P (ys @ [x])"
  using assms(1)
proof (induction ys)
  case Nil
  then show ?case by simp
next
  case (Cons y ys)
  show ?case
  proof (cases "lt x y")
    case True
    have "\<not> P z" if "P x" "z \<in> set (y # ys)" for z
    proof
      assume "P z"
      then have "\<not> lt x z" using eqv that(1) by blast
      moreover have "\<not> lt z y" using Cons.prems that(2) eqv asym by auto
      ultimately show False using neg_trans [of x z y] True by blast
    qed
    with True show ?thesis by (auto simp: filter_empty_conv)
  next
    case False
    with Cons show ?thesis by simp
  qed
qed

lemma filter_fold_insertLess:
  assumes "noInversion ys" and eqv: "\<And>x y. P x \<Longrightarrow> P y \<Longrightarrow> \<not> lt x y"
  shows "filter P (fold (insertLess lt) xs ys) = filter P (ys @ xs)"
  using assms(1)
  by (induction xs arbitrary: ys)
    (simp_all add: noInversion_insertLess filter_insertLess eqv del: filter_append,
     simp add: filter_insertLess eqv)

lemma filter_sortSlice:
  "(\<And>x y. P x \<Longrightarrow> P y \<Longrightarrow> \<not> lt x y) \<Longrightarrow> filter P (sortSlice lt xs) = filter P xs"
  using filter_fold_insertLess [of "[]" P xs] by (simp add: sortSlice_def)

lemma hd_sortSlice_min: "x \<in> set xs \<Longrightarrow> \<not> lt x (hd (sortSlice lt xs))"
proof -
  assume x: "x \<in> set xs"
  then obtain y ys where s: "sortSlice lt xs = y # ys"
    by (metis list.exhaust list.set_intros(1) set_sortSlice empty_iff list.set(1))
  have "x \<in> set (y # ys)" using x s by (metis set_sortSlice)
  with noInversion_sortSlice [of xs] s show ?thesis
    by (auto dest: asym)
qed

end

subsection \<open>Durations\<close>

lemma SplitN1_app:
  "sep \<notin> set a \<Longrightarrow> 1 < n \<Longrightarrow> SplitN1 sep n acc (a @ sep # s) = (rev acc @ a) # SplitN1 sep (n - 1) [] s"
  by (induction a arbitrary: acc) auto

lemma SplitN1_none: "sep \<notin> set a \<Longrightarrow> SplitN1 sep n acc a = [rev acc @ a]"
  by (induction a arbitrary: acc) auto

lemma SplitN1_last: "SplitN1 sep (Suc 0) acc a = [rev acc @ a]"
  by (induction a arbitrary: acc) auto

lemma wrap64_id: "- (2 ^ 63) \<le> i \<Longrightarrow> i < 2 ^ 63 \<Longrightarrow> wrap64 i = i"
  by (simp add: wrap64_def)

lemma wrap64_bounds: "- (2 ^ 63) \<le> wrap64 i \<and> wrap64 i < 2 ^ 63"
  by (auto simp: wrap64_def)

lemma TimeSub_bounds: "- (2 ^ 63) \<le> TimeSub t u \<and> TimeSub t u < 2 ^ 63"
  by (auto simp: TimeSub_def)

end
