(* ===== verification/Conditions.thy ===== *)
theory Conditions
  imports Prelude
begin

text \<open>
  The conditions package (\<open>src/sdk/apis/third_party/conditions\<close>), which every
  reconciler of the backend and of the konnector uses to report its state: the condition type,
  reading conditions, setting and deleting them, and the merge that computes the summary
  condition \<open>Ready\<close>.
  The Go interface \<open>Getter\<close> is the record \<open>Getter\<close> of what its methods return;
  the interface \<open>Setter\<close> is a record of the two methods of an object type, and the locale
  \<open>condition_object\<close> states the laws its implementations keep.
  The lemmas show that \<open>Set\<close> stores the state it is given, keeps every other condition and
  the transition time of an unchanged state, orders the slice with \<open>Ready\<close> first, and that
  the summary is \<open>Ready=True\<close> exactly when some condition is true and none is false with a
  severity.
\<close>

section \<open>Types and constants\<close>

type_synonym ConditionType = string
type_synonym ConditionStatus = string
type_synonym ConditionSeverity = string

abbreviation ConditionTrue :: ConditionStatus where "ConditionTrue \<equiv> ''True''"
abbreviation ConditionFalse :: ConditionStatus where "ConditionFalse \<equiv> ''False''"
abbreviation ConditionUnknown :: ConditionStatus where "ConditionUnknown \<equiv> ''Unknown''"

abbreviation ConditionSeverityError :: ConditionSeverity where
  "ConditionSeverityError \<equiv> ''Error''"

abbreviation ConditionSeverityWarning :: ConditionSeverity where
  "ConditionSeverityWarning \<equiv> ''Warning''"

abbreviation ConditionSeverityInfo :: ConditionSeverity where
  "ConditionSeverityInfo \<equiv> ''Info''"

abbreviation (input) ConditionSeverityNone :: ConditionSeverity where
  "ConditionSeverityNone \<equiv> []"

abbreviation ReadyCondition :: ConditionType where
  "ReadyCondition \<equiv> ''Ready''"

record Condition =
  c_Type :: ConditionType
  c_Status :: ConditionStatus
  c_Severity :: ConditionSeverity
  c_LastTransitionTime :: time
  c_Reason :: string
  c_Message :: string

type_synonym Conditions = "Condition list"

record Getter =
  g_Name :: string
  g_Kind :: string
  g_Conditions :: Conditions

record 'o Setter =
  s_getter :: "'o \<Rightarrow> Getter"
  s_SetConditions :: "Conditions \<Rightarrow> 'o \<Rightarrow> 'o"

section \<open>Getter\<close>

definition Get :: "Getter \<Rightarrow> ConditionType \<Rightarrow> Condition option" where
  "Get from t = find (\<lambda>c. c_Type c = t) (g_Conditions from)"

definition Has :: "Getter \<Rightarrow> ConditionType \<Rightarrow> bool" where
  "Has from t = (Get from t \<noteq> None)"

definition IsTrue :: "Getter \<Rightarrow> ConditionType \<Rightarrow> bool" where
  "IsTrue from t = (case Get from t of Some c \<Rightarrow> c_Status c = ConditionTrue | None \<Rightarrow> False)"

definition IsFalse :: "Getter \<Rightarrow> ConditionType \<Rightarrow> bool" where
  "IsFalse from t = (case Get from t of Some c \<Rightarrow> c_Status c = ConditionFalse | None \<Rightarrow> False)"

definition IsUnknown :: "Getter \<Rightarrow> ConditionType \<Rightarrow> bool" where
  "IsUnknown from t = (case Get from t of Some c \<Rightarrow> c_Status c = ConditionUnknown | None \<Rightarrow> True)"

definition GetReason :: "Getter \<Rightarrow> ConditionType \<Rightarrow> string" where
  "GetReason from t = (case Get from t of Some c \<Rightarrow> c_Reason c | None \<Rightarrow> [])"

definition GetMessage :: "Getter \<Rightarrow> ConditionType \<Rightarrow> string" where
  "GetMessage from t = (case Get from t of Some c \<Rightarrow> c_Message c | None \<Rightarrow> [])"

definition GetSeverity :: "Getter \<Rightarrow> ConditionType \<Rightarrow> ConditionSeverity option" where
  "GetSeverity from t = map_option c_Severity (Get from t)"

definition GetLastTransitionTime :: "Getter \<Rightarrow> ConditionType \<Rightarrow> time option" where
  "GetLastTransitionTime from t = map_option c_LastTransitionTime (Get from t)"

section \<open>Setter\<close>

definition TrueCondition :: "ConditionType \<Rightarrow> Condition" where
  "TrueCondition t = \<lparr>c_Type = t, c_Status = ConditionTrue, c_Severity = ConditionSeverityNone,
     c_LastTransitionTime = 0, c_Reason = [], c_Message = []\<rparr>"

definition FalseCondition ::
  "ConditionType \<Rightarrow> string \<Rightarrow> ConditionSeverity \<Rightarrow> string \<Rightarrow> fmtarg list \<Rightarrow> Condition" where
  "FalseCondition t reason severity messageFormat messageArgs =
     \<lparr>c_Type = t, c_Status = ConditionFalse, c_Severity = severity, c_LastTransitionTime = 0,
      c_Reason = reason, c_Message = Sprintf messageFormat messageArgs\<rparr>"

definition UnknownCondition ::
  "ConditionType \<Rightarrow> string \<Rightarrow> string \<Rightarrow> fmtarg list \<Rightarrow> Condition" where
  "UnknownCondition t reason messageFormat messageArgs =
     \<lparr>c_Type = t, c_Status = ConditionUnknown, c_Severity = ConditionSeverityNone,
      c_LastTransitionTime = 0, c_Reason = reason, c_Message = Sprintf messageFormat messageArgs\<rparr>"

definition lexicographicLess :: "Condition \<Rightarrow> Condition \<Rightarrow> bool" where
  "lexicographicLess i j =
     ((c_Type i = ReadyCondition \<or> c_Type i < c_Type j) \<and> c_Type j \<noteq> ReadyCondition)"

definition hasSameState :: "Condition \<Rightarrow> Condition \<Rightarrow> bool" where
  "hasSameState i j = (c_Type i = c_Type j \<and> c_Status i = c_Status j \<and> c_Reason i = c_Reason j \<and>
     c_Severity i = c_Severity j \<and> c_Message i = c_Message j)"

text \<open>
  The loop of \<open>Set\<close> over the existing conditions: whether the type exists, and the slice
  with the first condition of that type replaced when its state differs.
\<close>

fun updateExisting :: "time \<Rightarrow> Condition \<Rightarrow> Conditions \<Rightarrow> bool \<times> Conditions" where
  "updateExisting now condition [] = (False, [])"
| "updateExisting now condition (existingCondition # rest) =
     (if c_Type existingCondition = c_Type condition
      then (True, (if \<not> hasSameState existingCondition condition
                   then condition\<lparr>c_LastTransitionTime := TruncateSecond now\<rparr>
                   else existingCondition) # rest)
      else case updateExisting now condition rest of
        (exists, rest') \<Rightarrow> (exists, existingCondition # rest'))"

definition setConditions :: "time \<Rightarrow> Condition \<Rightarrow> Conditions \<Rightarrow> Conditions" where
  "setConditions now condition cs =
     (case updateExisting now condition cs of (exists, conditions) \<Rightarrow>
        let conditions = (if exists then conditions
              else conditions @
                [if IsZeroTime (c_LastTransitionTime condition)
                 then condition\<lparr>c_LastTransitionTime := TruncateSecond now\<rparr> else condition])
        in sortSlice lexicographicLess conditions)"

definition Set :: "'o Setter \<Rightarrow> time \<Rightarrow> 'o \<Rightarrow> Condition option \<Rightarrow> 'o" where
  "Set I now to condition =
     (case condition of
        None \<Rightarrow> to
      | Some c \<Rightarrow> s_SetConditions I (setConditions now c (g_Conditions (s_getter I to))) to)"

definition MarkTrue :: "'o Setter \<Rightarrow> time \<Rightarrow> 'o \<Rightarrow> ConditionType \<Rightarrow> 'o" where
  "MarkTrue I now to t = Set I now to (Some (TrueCondition t))"

definition MarkUnknown ::
  "'o Setter \<Rightarrow> time \<Rightarrow> 'o \<Rightarrow> ConditionType \<Rightarrow> string \<Rightarrow> string \<Rightarrow> fmtarg list \<Rightarrow> 'o" where
  "MarkUnknown I now to t reason fmt args = Set I now to (Some (UnknownCondition t reason fmt args))"

definition MarkFalse ::
  "'o Setter \<Rightarrow> time \<Rightarrow> 'o \<Rightarrow> ConditionType \<Rightarrow> string \<Rightarrow> ConditionSeverity \<Rightarrow> string \<Rightarrow> fmtarg list \<Rightarrow> 'o" where
  "MarkFalse I now to t reason severity fmt args =
     Set I now to (Some (FalseCondition t reason severity fmt args))"

definition Delete :: "'o Setter \<Rightarrow> 'o \<Rightarrow> ConditionType \<Rightarrow> 'o" where
  "Delete I to t =
     s_SetConditions I (filter (\<lambda>c. c_Type c \<noteq> t) (g_Conditions (s_getter I to))) to"

section \<open>Merge\<close>

record localizedCondition =
  lc_Condition :: "Condition option"
  lc_Getter :: Getter

record conditionGroup =
  cg_status :: ConditionStatus
  cg_severity :: ConditionSeverity
  cg_conditions :: "(Condition \<times> Getter) list"

type_synonym conditionGroups = "conditionGroup list"

record mergeOptions =
  mo_conditionTypes :: "ConditionType list option"
  mo_addSourceRef :: bool
  mo_addStepCounter :: bool
  mo_addStepCounterIfOnlyConditionTypes :: "ConditionType list option"
  mo_stepCounter :: int

type_synonym MergeOption = "mergeOptions \<Rightarrow> mergeOptions"

definition emptyMergeOptions :: mergeOptions where
  "emptyMergeOptions = \<lparr>mo_conditionTypes = None, mo_addSourceRef = False,
     mo_addStepCounter = False, mo_addStepCounterIfOnlyConditionTypes = None, mo_stepCounter = 0\<rparr>"

definition WithConditions :: "ConditionType list \<Rightarrow> MergeOption" where
  "WithConditions t c = c\<lparr>mo_conditionTypes := Some t\<rparr>"

definition WithStepCounter :: MergeOption where
  "WithStepCounter c = c\<lparr>mo_addStepCounter := True\<rparr>"

definition WithStepCounterIf :: "bool \<Rightarrow> MergeOption" where
  "WithStepCounterIf value c = c\<lparr>mo_addStepCounter := value\<rparr>"

definition WithStepCounterIfOnly :: "ConditionType list \<Rightarrow> MergeOption" where
  "WithStepCounterIfOnly t c = c\<lparr>mo_addStepCounterIfOnlyConditionTypes := Some t\<rparr>"

definition AddSourceRef :: MergeOption where
  "AddSourceRef c = c\<lparr>mo_addSourceRef := True\<rparr>"

text \<open>The priority of a group; a false condition without a severity falls through to 99.\<close>

definition mergePriority :: "conditionGroup \<Rightarrow> int" where
  "mergePriority g =
     (if cg_status g = ConditionFalse \<and> cg_severity g = ConditionSeverityError then 0
      else if cg_status g = ConditionFalse \<and> cg_severity g = ConditionSeverityWarning then 1
      else if cg_status g = ConditionFalse \<and> cg_severity g = ConditionSeverityInfo then 2
      else if cg_status g = ConditionTrue then 3
      else if cg_status g = ConditionUnknown then 4
      else 99)"

fun addToGroups :: "Condition \<times> Getter \<Rightarrow> conditionGroups \<Rightarrow> conditionGroups" where
  "addToGroups c [] =
     [\<lparr>cg_status = c_Status (fst c), cg_severity = c_Severity (fst c), cg_conditions = [c]\<rparr>]"
| "addToGroups c (g # gs) =
     (if cg_status g = c_Status (fst c) \<and> cg_severity g = c_Severity (fst c)
      then g\<lparr>cg_conditions := cg_conditions g @ [c]\<rparr> # gs
      else g # addToGroups c gs)"

fun collectGroups :: "localizedCondition list \<Rightarrow> conditionGroups \<Rightarrow> conditionGroups" where
  "collectGroups [] groups = groups"
| "collectGroups (lc # lcs) groups =
     (case lc_Condition lc of
        None \<Rightarrow> collectGroups lcs groups
      | Some c \<Rightarrow> collectGroups lcs (addToGroups (c, lc_Getter lc) groups))"

definition groupLess :: "conditionGroup \<Rightarrow> conditionGroup \<Rightarrow> bool" where
  "groupLess g h = (mergePriority g < mergePriority h)"

definition topGroupLess :: "Condition \<times> Getter \<Rightarrow> Condition \<times> Getter \<Rightarrow> bool" where
  "topGroupLess a b =
     (if c_Type (fst a) \<noteq> c_Type (fst b) then lexicographicLess (fst a) (fst b)
      else g_Name (snd a) < g_Name (snd b))"

definition getConditionGroups :: "localizedCondition list \<Rightarrow> conditionGroups" where
  "getConditionGroups conditions =
     (case sortSlice groupLess (collectGroups conditions []) of
        [] \<Rightarrow> []
      | g # gs \<Rightarrow> g\<lparr>cg_conditions := sortSlice topGroupLess (cg_conditions g)\<rparr> # gs)"

definition TopGroup :: "conditionGroups \<Rightarrow> conditionGroup option" where
  "TopGroup g = (case g of [] \<Rightarrow> None | x # _ \<Rightarrow> Some x)"

definition getByStatusAndSeverity ::
  "conditionGroups \<Rightarrow> ConditionStatus \<Rightarrow> ConditionSeverity \<Rightarrow> conditionGroup option" where
  "getByStatusAndSeverity g status severity =
     find (\<lambda>group. cg_status group = status \<and> cg_severity group = severity) g"

definition TrueGroup :: "conditionGroups \<Rightarrow> conditionGroup option" where
  "TrueGroup g = getByStatusAndSeverity g ConditionTrue ConditionSeverityNone"

definition ErrorGroup :: "conditionGroups \<Rightarrow> conditionGroup option" where
  "ErrorGroup g = getByStatusAndSeverity g ConditionFalse ConditionSeverityError"

definition WarningGroup :: "conditionGroups \<Rightarrow> conditionGroup option" where
  "WarningGroup g = getByStatusAndSeverity g ConditionFalse ConditionSeverityWarning"

fun firstOfTypes :: "ConditionType list \<Rightarrow> (Condition \<times> Getter) list \<Rightarrow> (Condition \<times> Getter) option" where
  "firstOfTypes [] cs = None"
| "firstOfTypes (p # ps) cs =
     (case find (\<lambda>c. c_Type (fst c) = p) cs of Some c \<Rightarrow> Some c | None \<Rightarrow> firstOfTypes ps cs)"

definition getFirstCondition ::
  "conditionGroups \<Rightarrow> ConditionType list \<Rightarrow> (Condition \<times> Getter) option" where
  "getFirstCondition g priority =
     (case TopGroup g of
        None \<Rightarrow> None
      | Some topGroup \<Rightarrow>
          (case cg_conditions topGroup of
             [] \<Rightarrow> None
           | [c] \<Rightarrow> Some c
           | c # _ \<Rightarrow>
               (case firstOfTypes priority (cg_conditions topGroup) of
                  Some d \<Rightarrow> Some d
                | None \<Rightarrow> Some c)))"

definition localizeReason :: "string \<Rightarrow> Getter \<Rightarrow> string" where
  "localizeReason reason from =
     (if Contains reason ''@'' then reason
      else Sprintf ''%s @ %s/%s'' [FStr reason, FStr (g_Kind from), FStr (g_Name from)])"

definition getFirstReason :: "conditionGroups \<Rightarrow> ConditionType list \<Rightarrow> bool \<Rightarrow> string" where
  "getFirstReason g order addSourceRef =
     (case getFirstCondition g order of
        Some c \<Rightarrow> (if addSourceRef then localizeReason (c_Reason (fst c)) (snd c) else c_Reason (fst c))
      | None \<Rightarrow> [])"

definition typesOf :: "ConditionType list option \<Rightarrow> ConditionType list" where
  "typesOf ts = (case ts of None \<Rightarrow> [] | Some l \<Rightarrow> l)"

definition getReason :: "conditionGroups \<Rightarrow> mergeOptions \<Rightarrow> string" where
  "getReason groups options =
     getFirstReason groups (typesOf (mo_conditionTypes options)) (mo_addSourceRef options)"

definition getStepCounterMessage :: "conditionGroups \<Rightarrow> int \<Rightarrow> string" where
  "getStepCounterMessage groups to =
     (let ct = (case TrueGroup groups of Some g \<Rightarrow> int (length (cg_conditions g)) | None \<Rightarrow> 0)
      in Sprintf ''%d of %d completed'' [FInt ct, FInt to])"

definition getFirstMessage :: "conditionGroups \<Rightarrow> ConditionType list \<Rightarrow> string" where
  "getFirstMessage groups order =
     (case getFirstCondition groups order of Some c \<Rightarrow> c_Message (fst c) | None \<Rightarrow> [])"

definition getMessage :: "conditionGroups \<Rightarrow> mergeOptions \<Rightarrow> string" where
  "getMessage groups options =
     (if mo_addStepCounter options then getStepCounterMessage groups (mo_stepCounter options)
      else getFirstMessage groups (typesOf (mo_conditionTypes options)))"

definition merge ::
  "localizedCondition list \<Rightarrow> ConditionType \<Rightarrow> mergeOptions \<Rightarrow> Condition option" where
  "merge conditions targetCondition options =
     (let g = getConditionGroups conditions in
      case TopGroup g of
        None \<Rightarrow> None
      | Some tg \<Rightarrow>
          if cg_status tg = ConditionTrue then Some (TrueCondition targetCondition)
          else if cg_status tg = ConditionFalse
          then Some (FalseCondition targetCondition (getReason g options) (cg_severity tg)
                       ''%s'' [FStr (getMessage g options)])
          else Some (UnknownCondition targetCondition (getReason g options)
                       ''%s'' [FStr (getMessage g options)]))"

section \<open>Summary, mirror and aggregate\<close>

definition conditionsInScope :: "Getter \<Rightarrow> mergeOptions \<Rightarrow> localizedCondition list" where
  "conditionsInScope from mergeOpt =
     map (\<lambda>c. \<lparr>lc_Condition = Some c, lc_Getter = from\<rparr>)
       (filter (\<lambda>c. c_Type c \<noteq> ReadyCondition \<and>
                  (case mo_conditionTypes mergeOpt of None \<Rightarrow> True | Some ts \<Rightarrow> c_Type c \<in> set ts))
         (g_Conditions from))"

definition stepCounterOptions :: "localizedCondition list \<Rightarrow> mergeOptions \<Rightarrow> mergeOptions" where
  "stepCounterOptions inScope mergeOpt =
     (let opt1 = (case mo_addStepCounterIfOnlyConditionTypes mergeOpt of
            None \<Rightarrow> mergeOpt
          | Some ts \<Rightarrow>
              if list_ex (\<lambda>lc. case lc_Condition lc of Some c \<Rightarrow> c_Type c \<notin> set ts | None \<Rightarrow> False) inScope
              then mergeOpt\<lparr>mo_addStepCounter := False\<rparr> else mergeOpt)
      in if mo_addStepCounter opt1
         then opt1\<lparr>mo_stepCounter :=
                (case mo_addStepCounterIfOnlyConditionTypes opt1 of
                   Some ts \<Rightarrow> int (length ts)
                 | None \<Rightarrow> (case mo_conditionTypes opt1 of
                              Some ts \<Rightarrow> int (length ts)
                            | None \<Rightarrow> int (length inScope)))\<rparr>
         else opt1)"

definition summary :: "Getter \<Rightarrow> MergeOption list \<Rightarrow> Condition option" where
  "summary from options =
     (let mergeOpt = fold (\<lambda>o' m. o' m) options emptyMergeOptions;
          inScope = conditionsInScope from mergeOpt
      in merge inScope ReadyCondition (stepCounterOptions inScope mergeOpt))"

record mirrorOptions =
  mi_fallbackTo :: "bool option"
  mi_fallbackReason :: string
  mi_fallbackSeverity :: ConditionSeverity
  mi_fallbackMessage :: string

type_synonym MirrorOption = "mirrorOptions \<Rightarrow> mirrorOptions"

definition WithFallbackValue ::
  "bool \<Rightarrow> string \<Rightarrow> ConditionSeverity \<Rightarrow> string \<Rightarrow> MirrorOption" where
  "WithFallbackValue fallbackValue reason severity message c =
     c\<lparr>mi_fallbackTo := Some fallbackValue, mi_fallbackReason := reason,
       mi_fallbackSeverity := severity, mi_fallbackMessage := message\<rparr>"

definition mirror :: "Getter \<Rightarrow> ConditionType \<Rightarrow> MirrorOption list \<Rightarrow> Condition option" where
  "mirror from targetCondition options =
     (let mirrorOpt = fold (\<lambda>o' m. o' m) options
            \<lparr>mi_fallbackTo = None, mi_fallbackReason = [], mi_fallbackSeverity = [],
             mi_fallbackMessage = []\<rparr>;
          condition = Get from ReadyCondition;
          condition =
            (case (mi_fallbackTo mirrorOpt, condition) of
               (Some True, None) \<Rightarrow> Some (TrueCondition targetCondition)
             | (Some False, None) \<Rightarrow>
                 Some (FalseCondition targetCondition (mi_fallbackReason mirrorOpt)
                   (mi_fallbackSeverity mirrorOpt) ''%s'' [FStr (mi_fallbackMessage mirrorOpt)])
             | _ \<Rightarrow> condition)
      in map_option (\<lambda>c. c\<lparr>c_Type := targetCondition\<rparr>) condition)"

definition aggregate :: "Getter list \<Rightarrow> ConditionType \<Rightarrow> MergeOption list \<Rightarrow> Condition option" where
  "aggregate from targetCondition options =
     (let inScope = map (\<lambda>g. \<lparr>lc_Condition = Get g ReadyCondition, lc_Getter = g\<rparr>) from;
          mergeOpt = fold (\<lambda>o' m. o' m) options
            (emptyMergeOptions\<lparr>mo_addStepCounter := True, mo_stepCounter := int (length from)\<rparr>)
      in merge inScope targetCondition mergeOpt)"

definition SetSummary :: "'o Setter \<Rightarrow> time \<Rightarrow> 'o \<Rightarrow> MergeOption list \<Rightarrow> 'o" where
  "SetSummary I now to options = Set I now to (summary (s_getter I to) options)"

definition SetMirror ::
  "'o Setter \<Rightarrow> time \<Rightarrow> 'o \<Rightarrow> ConditionType \<Rightarrow> Getter \<Rightarrow> MirrorOption list \<Rightarrow> 'o" where
  "SetMirror I now to targetCondition from options = Set I now to (mirror from targetCondition options)"

definition SetAggregate ::
  "'o Setter \<Rightarrow> time \<Rightarrow> 'o \<Rightarrow> ConditionType \<Rightarrow> Getter list \<Rightarrow> MergeOption list \<Rightarrow> 'o" where
  "SetAggregate I now to targetCondition from options =
     Set I now to (aggregate from targetCondition options)"

section \<open>The orders\<close>

lemma lexicographicLess_types:
  "c_Type a = c_Type a' \<Longrightarrow> c_Type b = c_Type b' \<Longrightarrow> lexicographicLess a b = lexicographicLess a' b'"
  by (simp add: lexicographicLess_def)

interpretation lex: strict_weak_order lexicographicLess
  by unfold_locales (auto simp: lexicographicLess_def)

interpretation grp: strict_weak_order groupLess
  by unfold_locales (auto simp: groupLess_def)

lemma lexicographicLess_total:
  "c_Type a \<noteq> c_Type b \<Longrightarrow> lexicographicLess a b \<or> lexicographicLess b a"
  by (auto simp: lexicographicLess_def)

lemma lexicographicLess_irrefl [simp]: "c_Type a = c_Type b \<Longrightarrow> \<not> lexicographicLess a b"
  by (auto simp: lexicographicLess_def)

interpretation top_order: strict_weak_order topGroupLess
proof
  fix x y
  assume "topGroupLess x y"
  then show "\<not> topGroupLess y x"
    by (auto simp: topGroupLess_def dest: lex.asym split: if_splits)
next
  fix x y z
  assume 1: "\<not> topGroupLess x y" and 2: "\<not> topGroupLess y z"
  show "\<not> topGroupLess x z"
  proof (cases "c_Type (fst x) = c_Type (fst y) \<or> c_Type (fst y) = c_Type (fst z)")
    case True
    with 1 2 show ?thesis
      by (auto simp: topGroupLess_def lexicographicLess_def split: if_splits)
  next
    case False
    with 1 2 have "lexicographicLess (fst y) (fst x)" "lexicographicLess (fst z) (fst y)"
      using lexicographicLess_total by (auto simp: topGroupLess_def)
    then show ?thesis
      by (auto simp: topGroupLess_def lexicographicLess_def)
  qed
qed

section \<open>Setting a condition\<close>

abbreviation ofType :: "ConditionType \<Rightarrow> Condition \<Rightarrow> bool" where
  "ofType t c \<equiv> c_Type c = t"

lemma hasSameState_refl [simp]: "hasSameState c c"
  by (simp add: hasSameState_def)

lemma hasSameState_ltt [simp]:
  "hasSameState (c\<lparr>c_LastTransitionTime := t\<rparr>) d = hasSameState c d"
  "hasSameState c (d\<lparr>c_LastTransitionTime := t\<rparr>) = hasSameState c d"
  by (simp_all add: hasSameState_def)

lemma updateExisting_exists: "fst (updateExisting now c cs) \<longleftrightarrow> c_Type c \<in> c_Type ` set cs"
  by (induction cs) (auto split: prod.splits)

lemma updateExisting_types: "map c_Type (snd (updateExisting now c cs)) = map c_Type cs"
  by (induction cs) (auto split: prod.splits)

lemma updateExisting_other:
  "t \<noteq> c_Type c \<Longrightarrow> filter (ofType t) (snd (updateExisting now c cs)) = filter (ofType t) cs"
  by (induction cs) (auto split: prod.splits)

lemma updateExisting_absent: "\<not> fst (updateExisting now c cs) \<Longrightarrow> snd (updateExisting now c cs) = cs"
  by (induction cs) (auto split: prod.splits)

lemma updateExisting_same:
  assumes "find (ofType (c_Type c)) cs = Some d"
  shows "find (ofType (c_Type c)) (snd (updateExisting now c cs)) =
    Some (if hasSameState d c then d else c\<lparr>c_LastTransitionTime := TruncateSecond now\<rparr>)"
  using assms by (induction cs) (auto split: prod.splits if_splits)

lemma filter_ofType_sort [simp]:
  "filter (ofType t) (sortSlice lexicographicLess cs) = filter (ofType t) cs"
  by (rule lex.filter_sortSlice) simp

lemma find_ofType_sort [simp]:
  "find (ofType t) (sortSlice lexicographicLess cs) = find (ofType t) cs"
  by (rule find_eqI) simp

lemma setConditions_alt:
  "setConditions now c cs = sortSlice lexicographicLess
     (if c_Type c \<in> c_Type ` set cs then snd (updateExisting now c cs)
      else cs @ [if IsZeroTime (c_LastTransitionTime c)
                 then c\<lparr>c_LastTransitionTime := TruncateSecond now\<rparr> else c])"
  using updateExisting_exists [of now c cs] updateExisting_absent [of now c cs]
  by (auto simp: setConditions_def Let_def split: prod.split)

lemma setConditions_other:
  "t \<noteq> c_Type c \<Longrightarrow> find (ofType t) (setConditions now c cs) = find (ofType t) cs"
  by (auto simp: setConditions_alt updateExisting_other intro!: find_eqI)

lemma find_ofType_None: "find (ofType t) cs = None \<longleftrightarrow> t \<notin> c_Type ` set cs"
  by (auto simp: find_None_iff)

lemma find_ofTypeD: "find (ofType t) cs = Some d \<Longrightarrow> c_Type d = t \<and> d \<in> set cs"
  by (auto simp: find_Some_iff)

lemma find_append_last: "t \<notin> c_Type ` set cs \<Longrightarrow> c_Type d = t \<Longrightarrow> find (ofType t) (cs @ [d]) = Some d"
  by (induction cs) auto

lemma setConditions_same:
  "find (ofType (c_Type c)) (setConditions now c cs) =
     Some (case find (ofType (c_Type c)) cs of
             None \<Rightarrow> if IsZeroTime (c_LastTransitionTime c)
                     then c\<lparr>c_LastTransitionTime := TruncateSecond now\<rparr> else c
           | Some d \<Rightarrow> if hasSameState d c then d
                     else c\<lparr>c_LastTransitionTime := TruncateSecond now\<rparr>)"
proof (cases "find (ofType (c_Type c)) cs")
  case None
  then have "c_Type c \<notin> c_Type ` set cs" by (simp add: find_ofType_None)
  with None show ?thesis by (simp add: setConditions_alt find_append_last)
next
  case (Some d)
  then have "c_Type c \<in> c_Type ` set cs" by (metis find_ofType_None option.distinct(1))
  with Some show ?thesis by (simp add: setConditions_alt updateExisting_same)
qed

lemma setConditions_sorted: "lex.noInversion (setConditions now c cs)"
  by (simp add: setConditions_alt lex.noInversion_sortSlice)

lemma setConditions_types: "set (map c_Type (setConditions now c cs)) = insert (c_Type c) (c_Type ` set cs)"
proof -
  have "c_Type ` set (snd (updateExisting now c cs)) = c_Type ` set cs"
    using updateExisting_types [of now c cs] by (metis list.set_map)
  then show ?thesis by (auto simp: setConditions_alt)
qed

definition distinctTypes :: "Conditions \<Rightarrow> bool" where
  "distinctTypes cs = distinct (map c_Type cs)"

lemma setConditions_distinct: "distinctTypes cs \<Longrightarrow> distinctTypes (setConditions now c cs)"
  unfolding distinctTypes_def setConditions_alt
  by (auto simp: updateExisting_types)

text \<open>Setting a state that is already there changes nothing but the order of the slice.\<close>

lemma updateExisting_noop:
  "find (ofType (c_Type c)) cs = Some d \<Longrightarrow> hasSameState d c \<Longrightarrow> snd (updateExisting now c cs) = cs"
  by (induction cs) (auto split: prod.splits if_splits)

lemma setConditions_noop:
  assumes "find (ofType (c_Type c)) cs = Some d" "hasSameState d c" "lex.noInversion cs"
  shows "setConditions now c cs = cs"
proof -
  have "c_Type c \<in> c_Type ` set cs" using assms(1) by (metis find_ofType_None option.distinct(1))
  with assms show ?thesis
    by (simp add: setConditions_alt updateExisting_noop lex.sortSlice_idem)
qed

lemma setConditions_idem: "setConditions now' c (setConditions now c cs) = setConditions now c cs"
proof (rule setConditions_noop)
  show "find (ofType (c_Type c)) (setConditions now c cs) =
    Some (case find (ofType (c_Type c)) cs of
             None \<Rightarrow> if IsZeroTime (c_LastTransitionTime c)
                     then c\<lparr>c_LastTransitionTime := TruncateSecond now\<rparr> else c
           | Some d \<Rightarrow> if hasSameState d c then d
                     else c\<lparr>c_LastTransitionTime := TruncateSecond now\<rparr>)"
    by (rule setConditions_same)
qed (auto simp: setConditions_sorted split: option.split)

section \<open>The interface of condition objects\<close>

text \<open>
  The laws of \<open>GetConditions\<close> and \<open>SetConditions\<close>: what was set is read back, the last
  write wins, writing back what was read changes nothing, and the name and the kind of the object
  are not touched.
\<close>

locale condition_object =
  fixes I :: "'o Setter"
  assumes get_set: "g_Conditions (s_getter I (s_SetConditions I cs x)) = cs"
    and set_set: "s_SetConditions I cs (s_SetConditions I ds x) = s_SetConditions I cs x"
    and set_get: "s_SetConditions I (g_Conditions (s_getter I x)) x = x"
    and name_set: "g_Name (s_getter I (s_SetConditions I cs x)) = g_Name (s_getter I x)"
    and kind_set: "g_Kind (s_getter I (s_SetConditions I cs x)) = g_Kind (s_getter I x)"
begin

lemma conditions_Set: "g_Conditions (s_getter I (Set I now x (Some c))) =
    setConditions now c (g_Conditions (s_getter I x))"
  by (simp add: Set_def get_set)

lemma Set_None [simp]: "Set I now x None = x"
  by (simp add: Set_def)

lemma Get_Set_other: "t \<noteq> c_Type c \<Longrightarrow> Get (s_getter I (Set I now x (Some c))) t = Get (s_getter I x) t"
  by (simp add: Get_def conditions_Set setConditions_other)

lemma Get_Set_same: "Get (s_getter I (Set I now x (Some c))) (c_Type c) =
    Some (case Get (s_getter I x) (c_Type c) of
            None \<Rightarrow> if IsZeroTime (c_LastTransitionTime c)
                    then c\<lparr>c_LastTransitionTime := TruncateSecond now\<rparr> else c
          | Some d \<Rightarrow> if hasSameState d c then d
                    else c\<lparr>c_LastTransitionTime := TruncateSecond now\<rparr>)"
  by (simp add: Get_def conditions_Set setConditions_same)

lemma Get_Set_state:
  obtains d where "Get (s_getter I (Set I now x (Some c))) (c_Type c) = Some d" "hasSameState d c"
  by (auto simp: Get_Set_same split: option.splits)

lemma status_Set: "map_option c_Status (Get (s_getter I (Set I now x (Some c))) (c_Type c)) =
    Some (c_Status c)"
  by (rule Get_Set_state [of now x c]) (simp add: hasSameState_def)

lemma IsTrue_Set: "IsTrue (s_getter I (Set I now x (Some c))) t =
    (if t = c_Type c then c_Status c = ConditionTrue else IsTrue (s_getter I x) t)"
  by (rule Get_Set_state [of now x c]) (auto simp: IsTrue_def Get_Set_other hasSameState_def)

lemma IsFalse_Set: "IsFalse (s_getter I (Set I now x (Some c))) t =
    (if t = c_Type c then c_Status c = ConditionFalse else IsFalse (s_getter I x) t)"
  by (rule Get_Set_state [of now x c]) (auto simp: IsFalse_def Get_Set_other hasSameState_def)

lemma GetReason_Set: "GetReason (s_getter I (Set I now x (Some c))) t =
    (if t = c_Type c then c_Reason c else GetReason (s_getter I x) t)"
  by (rule Get_Set_state [of now x c]) (auto simp: GetReason_def Get_Set_other hasSameState_def)

lemma GetMessage_Set: "GetMessage (s_getter I (Set I now x (Some c))) t =
    (if t = c_Type c then c_Message c else GetMessage (s_getter I x) t)"
  by (rule Get_Set_state [of now x c]) (auto simp: GetMessage_def Get_Set_other hasSameState_def)

lemma IsTrue_MarkTrue [simp]: "IsTrue (s_getter I (MarkTrue I now x t)) t' \<longleftrightarrow>
    t' = t \<or> IsTrue (s_getter I x) t'"
  by (auto simp: MarkTrue_def IsTrue_Set TrueCondition_def)

lemma IsTrue_MarkFalse [simp]: "IsTrue (s_getter I (MarkFalse I now x t r sv fm as)) t' \<longleftrightarrow>
    t' \<noteq> t \<and> IsTrue (s_getter I x) t'"
  by (auto simp: MarkFalse_def IsTrue_Set FalseCondition_def)

lemma IsFalse_MarkFalse [simp]: "IsFalse (s_getter I (MarkFalse I now x t r sv fm as)) t' \<longleftrightarrow>
    t' = t \<or> IsFalse (s_getter I x) t'"
  by (auto simp: MarkFalse_def IsFalse_Set FalseCondition_def)

lemma IsFalse_MarkTrue [simp]: "IsFalse (s_getter I (MarkTrue I now x t)) t' \<longleftrightarrow>
    t' \<noteq> t \<and> IsFalse (s_getter I x) t'"
  by (auto simp: MarkTrue_def IsFalse_Set TrueCondition_def)

lemma GetReason_MarkFalse [simp]: "GetReason (s_getter I (MarkFalse I now x t r sv fm as)) t' =
    (if t' = t then r else GetReason (s_getter I x) t')"
  by (simp add: MarkFalse_def GetReason_Set FalseCondition_def)

lemma GetReason_MarkTrue [simp]: "GetReason (s_getter I (MarkTrue I now x t)) t' =
    (if t' = t then [] else GetReason (s_getter I x) t')"
  by (simp add: MarkTrue_def GetReason_Set TrueCondition_def)

lemma GetMessage_MarkFalse [simp]: "GetMessage (s_getter I (MarkFalse I now x t r sv fm as)) t' =
    (if t' = t then Sprintf fm as else GetMessage (s_getter I x) t')"
  by (simp add: MarkFalse_def GetMessage_Set FalseCondition_def)

lemma GetMessage_MarkTrue [simp]: "GetMessage (s_getter I (MarkTrue I now x t)) t' =
    (if t' = t then [] else GetMessage (s_getter I x) t')"
  by (simp add: MarkTrue_def GetMessage_Set TrueCondition_def)

lemma Set_idem: "Set I now' (Set I now x (Some c)) (Some c) = Set I now x (Some c)"
  by (simp add: Set_def get_set set_set setConditions_idem)

lemma Get_Delete: "Get (s_getter I (Delete I x t)) t' = (if t' = t then None else Get (s_getter I x) t')"
proof -
  have "find (ofType t') (filter (\<lambda>c. c_Type c \<noteq> t) cs) = (if t' = t then None else find (ofType t') cs)" for cs
    by (induction cs) auto
  then show ?thesis by (simp add: Get_def Delete_def get_set)
qed

lemma Get_SetSummary_other:
  "t \<noteq> ReadyCondition \<Longrightarrow> (\<And>c. summary (s_getter I x) opts = Some c \<Longrightarrow> c_Type c = ReadyCondition) \<Longrightarrow>
   Get (s_getter I (SetSummary I now x opts)) t = Get (s_getter I x) t"
  by (cases "summary (s_getter I x) opts") (auto simp: SetSummary_def Get_Set_other)

end

section \<open>The summary condition\<close>

definition groupOf :: "Condition \<Rightarrow> conditionGroup" where
  "groupOf c = \<lparr>cg_status = c_Status c, cg_severity = c_Severity c, cg_conditions = []\<rparr>"

lemma mergePriority_conditions [simp]:
  "mergePriority (g\<lparr>cg_conditions := cs\<rparr>) = mergePriority g"
  by (simp add: mergePriority_def)

definition groupKeys :: "conditionGroups \<Rightarrow> (string \<times> string) set" where
  "groupKeys gs = (\<lambda>g. (cg_status g, cg_severity g)) ` set gs"

lemma groupKeys_Nil [simp]: "groupKeys [] = {}"
  by (simp add: groupKeys_def)

lemma groupKeys_addToGroups:
  "groupKeys (addToGroups c gs) = insert (c_Status (fst c), c_Severity (fst c)) (groupKeys gs)"
  by (induction gs) (auto simp: groupKeys_def)

lemma groupKeys_collectGroups:
  "groupKeys (collectGroups lcs gs) = groupKeys gs \<union>
     {(c_Status c, c_Severity c) | c lc. lc \<in> set lcs \<and> lc_Condition lc = Some c}"
  by (induction lcs arbitrary: gs) (auto simp: groupKeys_addToGroups split: option.splits)

lemma mergePriority_key:
  "cg_status g = cg_status h \<Longrightarrow> cg_severity g = cg_severity h \<Longrightarrow> mergePriority g = mergePriority h"
  by (simp add: mergePriority_def)

lemma TopGroup_None: "TopGroup (getConditionGroups lcs) = None \<longleftrightarrow> (\<forall>lc\<in>set lcs. lc_Condition lc = None)"
proof -
  have "TopGroup (getConditionGroups lcs) = None \<longleftrightarrow> collectGroups lcs [] = []"
    by (simp add: TopGroup_def getConditionGroups_def split: list.splits)
       (metis sortSlice_Nil list.distinct(1))
  also have "\<dots> \<longleftrightarrow> groupKeys (collectGroups lcs []) = {}" by (simp add: groupKeys_def)
  finally show ?thesis
    by (simp add: groupKeys_collectGroups) (metis not_Some_eq)
qed

lemma TopGroup_min:
  assumes "TopGroup (getConditionGroups lcs) = Some g" "lc \<in> set lcs" "lc_Condition lc = Some c"
  shows "mergePriority g \<le> mergePriority (groupOf c)"
proof -
  let ?gs = "collectGroups lcs []"
  obtain h hs where s: "sortSlice groupLess ?gs = h # hs" and g: "mergePriority g = mergePriority h"
    using assms(1) by (auto simp: TopGroup_def getConditionGroups_def split: list.splits)
  have "(c_Status c, c_Severity c) \<in> groupKeys ?gs"
    using assms(2,3) by (auto simp: groupKeys_collectGroups)
  then obtain k where k: "k \<in> set ?gs" "cg_status k = c_Status c" "cg_severity k = c_Severity c"
    by (auto simp: groupKeys_def)
  have "\<not> groupLess k h" using grp.hd_sortSlice_min [OF k(1)] s by simp
  moreover have "mergePriority k = mergePriority (groupOf c)"
    using k by (intro mergePriority_key) (simp_all add: groupOf_def)
  ultimately show ?thesis using g by (simp add: groupLess_def)
qed

lemma TopGroup_from:
  assumes "TopGroup (getConditionGroups lcs) = Some g"
  obtains lc c where "lc \<in> set lcs" "lc_Condition lc = Some c"
    "cg_status g = c_Status c" "cg_severity g = c_Severity c"
proof -
  let ?gs = "collectGroups lcs []"
  obtain h hs where s: "sortSlice groupLess ?gs = h # hs"
    and g: "cg_status g = cg_status h" "cg_severity g = cg_severity h"
    using assms(1) by (auto simp: TopGroup_def getConditionGroups_def split: list.splits)
  have "h \<in> set ?gs" by (metis s list.set_intros(1) set_sortSlice)
  then have "(cg_status h, cg_severity h) \<in> groupKeys ?gs" by (auto simp: groupKeys_def)
  then obtain c lc where "lc \<in> set lcs" "lc_Condition lc = Some c"
    "c_Status c = cg_status h" "c_Severity c = cg_severity h"
    by (auto simp: groupKeys_collectGroups)
  with g that show thesis by metis
qed

lemma merge_type: "merge lcs t opts = Some c \<Longrightarrow> c_Type c = t"
  by (auto simp: merge_def Let_def TrueCondition_def FalseCondition_def UnknownCondition_def
      split: option.splits if_splits)

lemma merge_status:
  "map_option c_Status (merge lcs t opts) =
     map_option (\<lambda>g. if cg_status g = ConditionTrue \<or> cg_status g = ConditionFalse then cg_status g
                     else ConditionUnknown) (TopGroup (getConditionGroups lcs))"
  by (auto simp: merge_def Let_def TrueCondition_def FalseCondition_def UnknownCondition_def
      split: option.splits)

lemma summary_type: "summary g opts = Some c \<Longrightarrow> c_Type c = ReadyCondition"
  by (simp add: summary_def Let_def merge_type)

text \<open>A condition that keeps an object from being ready: false with one of the three severities.\<close>

definition blocking :: "Condition \<Rightarrow> bool" where
  "blocking c = (c_Status c = ConditionFalse \<and>
     c_Severity c \<in> {ConditionSeverityError, ConditionSeverityWarning, ConditionSeverityInfo})"

lemma mergePriority_groupOf:
  "mergePriority (groupOf c) < 3 \<longleftrightarrow> blocking c"
  "c_Status c = ConditionTrue \<Longrightarrow> mergePriority (groupOf c) = 3"
  "\<not> blocking c \<Longrightarrow> c_Status c \<noteq> ConditionTrue \<Longrightarrow> 3 < mergePriority (groupOf c)"
  by (auto simp: mergePriority_def groupOf_def blocking_def)

definition nonReady :: "Getter \<Rightarrow> Conditions" where
  "nonReady g = filter (\<lambda>c. c_Type c \<noteq> ReadyCondition) (g_Conditions g)"

lemma conditionsInScope_default:
  "set (conditionsInScope g emptyMergeOptions) =
     (\<lambda>c. \<lparr>lc_Condition = Some c, lc_Getter = g\<rparr>) ` set (nonReady g)"
  by (auto simp: conditionsInScope_def nonReady_def emptyMergeOptions_def)

lemma summary_None: "summary g [] = None \<longleftrightarrow> nonReady g = []"
proof -
  have "summary g [] = None \<longleftrightarrow>
      TopGroup (getConditionGroups (conditionsInScope g emptyMergeOptions)) = None"
    by (simp add: summary_def Let_def merge_def split: option.split)
  then show ?thesis by (simp add: TopGroup_None conditionsInScope_default)
qed

text \<open>The summary takes its status from a condition of the least priority.\<close>

lemma summary_core:
  assumes "nonReady g \<noteq> []"
  obtains c where "c \<in> set (nonReady g)"
    and "\<And>d. d \<in> set (nonReady g) \<Longrightarrow> mergePriority (groupOf c) \<le> mergePriority (groupOf d)"
    and "map_option c_Status (summary g []) = Some (if c_Status c = ConditionTrue \<or>
           c_Status c = ConditionFalse then c_Status c else ConditionUnknown)"
proof -
  obtain tg where tg: "TopGroup (getConditionGroups (conditionsInScope g emptyMergeOptions)) = Some tg"
    using assms TopGroup_None [of "conditionsInScope g emptyMergeOptions"]
    by (auto simp: conditionsInScope_default)
  obtain lc c where c: "lc \<in> set (conditionsInScope g emptyMergeOptions)" "lc_Condition lc = Some c"
    "cg_status tg = c_Status c" "cg_severity tg = c_Severity c"
    using TopGroup_from [OF tg] .
  have pr: "mergePriority tg = mergePriority (groupOf c)"
    using c(3,4) by (intro mergePriority_key) (simp_all add: groupOf_def)
  show thesis
  proof
    show "c \<in> set (nonReady g)" using c(1,2) by (auto simp: conditionsInScope_default)
    show "mergePriority (groupOf c) \<le> mergePriority (groupOf d)" if "d \<in> set (nonReady g)" for d
      using TopGroup_min [OF tg, of "\<lparr>lc_Condition = Some d, lc_Getter = g\<rparr>" d] that pr
      by (auto simp: conditionsInScope_default)
    show "map_option c_Status (summary g []) = Some (if c_Status c = ConditionTrue \<or>
           c_Status c = ConditionFalse then c_Status c else ConditionUnknown)"
      using tg c(3) by (simp add: summary_def Let_def merge_status)
  qed
qed

lemma summary_blocked:
  assumes "list_ex blocking (nonReady g)"
  shows "map_option c_Status (summary g []) = Some ConditionFalse"
proof -
  obtain d where d: "d \<in> set (nonReady g)" "blocking d" using assms by (auto simp: list_ex_iff)
  then have "nonReady g \<noteq> []" by auto
  then obtain c where c: "c \<in> set (nonReady g)"
    "\<And>d. d \<in> set (nonReady g) \<Longrightarrow> mergePriority (groupOf c) \<le> mergePriority (groupOf d)"
    "map_option c_Status (summary g []) = Some (if c_Status c = ConditionTrue \<or>
           c_Status c = ConditionFalse then c_Status c else ConditionUnknown)"
    by (blast intro: summary_core)
  have "blocking c"
    using c(2) [OF d(1)] d(2) mergePriority_groupOf(1) [of d] mergePriority_groupOf(1) [of c] by simp
  with c(3) show ?thesis by (simp add: blocking_def)
qed

lemma summary_ready_iff:
  "map_option c_Status (summary g []) = Some ConditionTrue \<longleftrightarrow>
     list_ex (\<lambda>c. c_Status c = ConditionTrue) (nonReady g) \<and> \<not> list_ex blocking (nonReady g)"
  (is "?L \<longleftrightarrow> ?T \<and> \<not> ?B")
proof (cases "nonReady g = []")
  case True
  then show ?thesis using summary_None [of g] by simp
next
  case False
  then obtain c where c: "c \<in> set (nonReady g)"
    "\<And>d. d \<in> set (nonReady g) \<Longrightarrow> mergePriority (groupOf c) \<le> mergePriority (groupOf d)"
    "map_option c_Status (summary g []) = Some (if c_Status c = ConditionTrue \<or>
           c_Status c = ConditionFalse then c_Status c else ConditionUnknown)"
    by (blast intro: summary_core)
  have "?L \<Longrightarrow> ?T" using c(1,3) by (auto simp: list_ex_iff split: if_splits)
  moreover have "?L \<Longrightarrow> \<not> ?B" using summary_blocked [of g] by auto
  moreover have "?L" if T: ?T and B: "\<not> ?B"
  proof -
    obtain d where d: "d \<in> set (nonReady g)" "c_Status d = ConditionTrue"
      using T by (auto simp: list_ex_iff)
    have "\<not> blocking c" using B c(1) by (auto simp: list_ex_iff)
    then have "c_Status c = ConditionTrue"
      using c(2) [OF d(1)] mergePriority_groupOf(2) [OF d(2)] mergePriority_groupOf(3) [of c] by force
    with c(3) show ?L by simp
  qed
  ultimately show ?thesis by blast
qed

text \<open>Setting the summary changes the condition \<open>Ready\<close> only.\<close>

context condition_object
begin

lemma Get_SetSummary:
  "t \<noteq> ReadyCondition \<Longrightarrow> Get (s_getter I (SetSummary I now x opts)) t = Get (s_getter I x) t"
  by (rule Get_SetSummary_other) (auto dest: summary_type)

lemma SetSummary_read [simp]:
  assumes "t \<noteq> ReadyCondition"
  shows "IsTrue (s_getter I (SetSummary I now x opts)) t = IsTrue (s_getter I x) t"
    and "IsFalse (s_getter I (SetSummary I now x opts)) t = IsFalse (s_getter I x) t"
    and "GetReason (s_getter I (SetSummary I now x opts)) t = GetReason (s_getter I x) t"
    and "GetMessage (s_getter I (SetSummary I now x opts)) t = GetMessage (s_getter I x) t"
  using Get_SetSummary [OF assms, of now x opts]
  by (simp_all add: IsTrue_def IsFalse_def GetReason_def GetMessage_def)

end

end
