(* ===== verification/Api_Types.thy ===== *)
theory Api_Types
  imports Conditions
begin

text \<open>
  The API types of \<open>src/sdk/apis/kubebind/v1alpha2\<close> as records with the fields of the Go
  structs, the string enumerations and constants, the small methods of the types, and the
  implementations of the conditions interface. The Kubernetes types the structs embed
  (\<open>ObjectMeta\<close>, \<open>OwnerReference\<close>, \<open>Secret\<close>, \<open>Namespace\<close>,
  \<open>CustomResourceDefinition\<close>) carry the fields the source reads or writes; opaque data is
  a \<open>json\<close> value. The lemmas interpret the interface of condition objects for the five
  types that implement it, and relate the names under which a resource and its schema are stored.
\<close>

section \<open>Kubernetes data\<close>

datatype json = JNull | JBool bool | JNum int | JStr string | JArr "json list"
  | JObj "(string \<times> json) list"

record NamespacedName =
  nn_Namespace :: string
  nn_Name :: string

record OwnerReference =
  or_APIVersion :: string
  or_Kind :: string
  or_Name :: string
  or_UID :: string
  or_Controller :: bool

record ObjectMeta =
  m_Name :: string
  m_Namespace :: string
  m_UID :: string
  m_ResourceVersion :: string
  m_Generation :: int
  m_Labels :: smap
  m_Annotations :: smap
  m_OwnerReferences :: "OwnerReference list"
  m_Finalizers :: "string list"
  m_CreationTimestamp :: time
  m_DeletionTimestamp :: "time option"

definition emptyMeta :: ObjectMeta where
  "emptyMeta = \<lparr>m_Name = [], m_Namespace = [], m_UID = [], m_ResourceVersion = [],
     m_Generation = 0, m_Labels = Mapping.empty, m_Annotations = Mapping.empty,
     m_OwnerReferences = [], m_Finalizers = [], m_CreationTimestamp = 0,
     m_DeletionTimestamp = None\<rparr>"

record GroupVersionResource =
  gvr_Group :: string
  gvr_Version :: string
  gvr_Resource :: string

record Secret =
  sec_meta :: ObjectMeta
  sec_Data :: smap
  sec_Type :: string

record Namespace =
  ns_meta :: ObjectMeta

record CustomResourceDefinitionNames =
  crn_Plural :: string
  crn_Singular :: string
  crn_ShortNames :: "string list"
  crn_Kind :: string
  crn_ListKind :: string
  crn_Categories :: "string list"

text \<open>\<open>apiextensionsv1.ResourceScope\<close>.\<close>

type_synonym ResourceScope = string

abbreviation ClusterScoped :: ResourceScope where "ClusterScoped \<equiv> ''Cluster''"
abbreviation NamespaceScoped :: ResourceScope where "NamespaceScoped \<equiv> ''Namespaced''"

section \<open>Constants\<close>

definition GroupName :: string where
  "GroupName = ''kube-bind.io''"

definition SchemeGroupVersionString :: string where
  "SchemeGroupVersionString = GroupName @ ''/v1alpha2''"

definition SourceSpecHashAnnotationKey :: string where
  "SourceSpecHashAnnotationKey = ''kube-bind.io/source-spec-hash''"

definition ObjectOwnerLabel :: string where
  "ObjectOwnerLabel = ''kube-bind.io/owner''"

definition APIServiceNamespaceAnnotationKey :: string where
  "APIServiceNamespaceAnnotationKey = ''kube-bind.io/api-service-namespace''"

definition DownstreamFinalizer :: string where
  "DownstreamFinalizer = ''kubebind.io/syncer''"

abbreviation APIServiceExportConditionConnected :: ConditionType where
  "APIServiceExportConditionConnected \<equiv> ''Connected''"

abbreviation APIServiceExportConditionProviderInSync :: ConditionType where
  "APIServiceExportConditionProviderInSync \<equiv> ''ProviderInSync''"

abbreviation APIServiceExportConditionConsumerInSync :: ConditionType where
  "APIServiceExportConditionConsumerInSync \<equiv> ''ConsumerInSync''"

abbreviation APIServiceExportConditionPermissionClaim :: ConditionType where
  "APIServiceExportConditionPermissionClaim \<equiv> ''PermissionClaim''"

abbreviation APIServiceExportRequestConditionExportsReady :: ConditionType where
  "APIServiceExportRequestConditionExportsReady \<equiv> ''ExportsReady''"

abbreviation APIServiceBindingConditionSecretValid :: ConditionType where
  "APIServiceBindingConditionSecretValid \<equiv> ''SecretValid''"

abbreviation APIServiceBindingConditionConnected :: ConditionType where
  "APIServiceBindingConditionConnected \<equiv> ''Connected''"

abbreviation APIServiceBindingConditionSchemaInSync :: ConditionType where
  "APIServiceBindingConditionSchemaInSync \<equiv> ''SchemaInSync''"

abbreviation ClusterBindingConditionSecretValid :: ConditionType where
  "ClusterBindingConditionSecretValid \<equiv> ''SecretValid''"

abbreviation ClusterBindingConditionValidVersion :: ConditionType where
  "ClusterBindingConditionValidVersion \<equiv> ''ValidVersion''"

abbreviation ClusterBindingConditionHealthy :: ConditionType where
  "ClusterBindingConditionHealthy \<equiv> ''Healthy''"

text \<open>Enumerations are strings in Go, so a value outside the enumeration is possible.\<close>

type_synonym Isolation = string

abbreviation IsolationPrefixed :: Isolation where "IsolationPrefixed \<equiv> ''Prefixed''"
abbreviation IsolationNamespaced :: Isolation where "IsolationNamespaced \<equiv> ''Namespaced''"
abbreviation IsolationNone :: Isolation where "IsolationNone \<equiv> ''None''"

type_synonym InformerScope = string

abbreviation ClusterScope :: InformerScope where "ClusterScope \<equiv> ''Cluster''"
abbreviation NamespacedScope :: InformerScope where "NamespacedScope \<equiv> ''Namespaced''"

type_synonym Owner = string

abbreviation OwnerProvider :: Owner where "OwnerProvider \<equiv> ''provider''"
abbreviation OwnerConsumer :: Owner where "OwnerConsumer \<equiv> ''consumer''"

type_synonym SchemaUpdatePolicy = string

abbreviation SchemaUpdatePolicyNever :: SchemaUpdatePolicy where
  "SchemaUpdatePolicyNever \<equiv> ''Never''"

abbreviation SchemaUpdatePolicyAlways :: SchemaUpdatePolicy where
  "SchemaUpdatePolicyAlways \<equiv> ''Always''"

type_synonym APIServiceExportRequestPhase = string

abbreviation APIServiceExportRequestPhasePending :: APIServiceExportRequestPhase where
  "APIServiceExportRequestPhasePending \<equiv> ''Pending''"

abbreviation APIServiceExportRequestPhaseFailed :: APIServiceExportRequestPhase where
  "APIServiceExportRequestPhaseFailed \<equiv> ''Failed''"

abbreviation APIServiceExportRequestPhaseSucceeded :: APIServiceExportRequestPhase where
  "APIServiceExportRequestPhaseSucceeded \<equiv> ''Succeeded''"

section \<open>Requests, claims and exports\<close>

record GroupResource =
  gr_Group :: string
  gr_Resource :: string

definition GroupResource_String :: "GroupResource \<Rightarrow> string" where
  "GroupResource_String r = Sprintf ''%s.%s'' [FStr (gr_Resource r), FStr (gr_Group r)]"

record APIServiceExportRequestResource =
  rr_GroupResource :: GroupResource
  rr_Versions :: "string list"

type_synonym APIServiceExportResource = APIServiceExportRequestResource

definition ResourceGroupName :: "APIServiceExportRequestResource \<Rightarrow> string" where
  "ResourceGroupName r =
     (let group = (if gr_Group (rr_GroupResource r) = [] then ''core''
                   else gr_Group (rr_GroupResource r))
      in Sprintf ''%s.%s'' [FStr (gr_Resource (rr_GroupResource r)), FStr group])"

record NamedResource =
  nr_Name :: string
  nr_Namespace :: string

record JSONPath =
  jp_Name :: string
  jp_Namespace :: string

record SelectorReference =
  sr_GroupResource :: GroupResource
  sr_Versions :: "string list"
  sr_JSONPath :: JSONPath

record LabelSelectorRequirement =
  lr_Key :: string
  lr_Operator :: string
  lr_Values :: "string list"

record LabelSelector =
  ls_MatchLabels :: smap
  ls_MatchExpressions :: "LabelSelectorRequirement list"

record Selector =
  sel_NamedResources :: "NamedResource list"
  sel_LabelSelector :: "LabelSelector option"
  sel_References :: "SelectorReference list"

record PermissionClaim =
  pc_GroupResource :: GroupResource
  pc_Selector :: Selector

record APIServiceExportRequestSpec =
  rqs_Parameters :: "json option"
  rqs_Resources :: "APIServiceExportRequestResource list"
  rqs_PermissionClaims :: "PermissionClaim list"
  rqs_Namespaces :: "string list"
  rqs_SchemaUpdatePolicy :: SchemaUpdatePolicy

record APIServiceExportRequestStatus =
  rqt_Phase :: APIServiceExportRequestPhase
  rqt_TerminalMessage :: string
  rqt_Conditions :: Conditions

record APIServiceExportRequest =
  rq_Kind :: string
  rq_meta :: ObjectMeta
  rq_Spec :: APIServiceExportRequestSpec
  rq_Status :: APIServiceExportRequestStatus

record APIServiceExportSpec =
  exs_Resources :: "APIServiceExportResource list"
  exs_PermissionClaims :: "PermissionClaim list"
  exs_InformerScope :: InformerScope
  exs_ClusterScopedIsolation :: Isolation
  exs_Isolation :: Isolation

record APIServiceExportStatus =
  ext_Conditions :: Conditions

record APIServiceExport =
  ex_Kind :: string
  ex_meta :: ObjectMeta
  ex_Spec :: APIServiceExportSpec
  ex_Status :: APIServiceExportStatus

record APIServiceNamespaceStatus =
  snt_Namespace :: string

record APIServiceNamespace =
  sn_meta :: ObjectMeta
  sn_Status :: APIServiceNamespaceStatus

section \<open>Claimable APIs\<close>

record InternalAPI =
  ia_Names :: CustomResourceDefinitionNames
  ia_GroupVersionResource :: GroupVersionResource
  ia_ResourceScope :: ResourceScope
  ia_HasStatus :: bool

definition claimableAPI :: "string \<Rightarrow> string \<Rightarrow> string \<Rightarrow> InternalAPI" where
  "claimableAPI plural singular kind =
     \<lparr>ia_Names = \<lparr>crn_Plural = plural, crn_Singular = singular, crn_ShortNames = [],
        crn_Kind = kind, crn_ListKind = [], crn_Categories = []\<rparr>,
      ia_GroupVersionResource = \<lparr>gvr_Group = [], gvr_Version = ''v1'', gvr_Resource = plural\<rparr>,
      ia_ResourceScope = NamespaceScoped, ia_HasStatus = False\<rparr>"

definition ClaimableAPIs :: "InternalAPI list" where
  "ClaimableAPIs =
     [claimableAPI ''configmaps'' ''configmap'' ''ConfigMap'',
      claimableAPI ''secrets'' ''secret'' ''Secret'',
      claimableAPI ''serviceaccounts'' ''serviceaccount'' ''ServiceAccount'']"

definition ResolveClaimableAPI :: "PermissionClaim \<Rightarrow> GroupVersionResource result" where
  "ResolveClaimableAPI claim =
     (case find (\<lambda>api. crn_Plural (ia_Names api) = gr_Resource (pc_GroupResource claim) \<and>
             gvr_Group (ia_GroupVersionResource api) = gr_Group (pc_GroupResource claim)) ClaimableAPIs of
        Some api \<Rightarrow> Inr (ia_GroupVersionResource api)
      | None \<Rightarrow> Inl (PlainError ''no matching API found''))"

section \<open>Bound schemas\<close>

record WebhookClientConfig =
  wcc_URL :: "string option"
  wcc_CABundle :: string

record WebhookConversion =
  wc_ClientConfig :: "WebhookClientConfig option"
  wc_ConversionReviewVersions :: "string list"

record CustomResourceConversion =
  cc_Strategy :: string
  cc_Webhook :: "WebhookConversion option"

record APIResourceVersion =
  v_Name :: string
  v_Served :: bool
  v_Storage :: bool
  v_Deprecated :: bool
  v_DeprecationWarning :: "string option"
  v_Schema :: string
  v_Subresources :: json
  v_AdditionalPrinterColumns :: json

record APICRDSpec =
  cs_Group :: string
  cs_Names :: CustomResourceDefinitionNames
  cs_Scope :: ResourceScope
  cs_Versions :: "APIResourceVersion list"
  cs_Conversion :: "CustomResourceConversion option"

record BoundSchemaSpec =
  bss_InformerScope :: InformerScope
  bss_APICRDSpec :: APICRDSpec

record BoundSchemaStatus =
  bst_AcceptedNames :: CustomResourceDefinitionNames
  bst_StoredVersions :: "string list"
  bst_Conditions :: Conditions
  bst_Instantiations :: int

record BoundSchema =
  bs_Kind :: string
  bs_meta :: ObjectMeta
  bs_Spec :: BoundSchemaSpec
  bs_Status :: BoundSchemaStatus

definition BoundSchema_ResourceGroupName :: "BoundSchema \<Rightarrow> string" where
  "BoundSchema_ResourceGroupName b =
     (let spec = bss_APICRDSpec (bs_Spec b)
      in Sprintf ''%s.%s'' [FStr (crn_Plural (cs_Names spec)), FStr (cs_Group spec)])"

section \<open>Bindings\<close>

record ClusterSecretKeyRef =
  ck_Name :: string
  ck_Key :: string
  ck_Namespace :: string

record APIServiceBindingSpec =
  bds_KubeconfigSecretRef :: ClusterSecretKeyRef

record APIServiceBindingStatus =
  bdt_ProviderPrettyName :: string
  bdt_Conditions :: Conditions
  bdt_BoundSchemas :: "GroupResource list"
  bdt_PermissionClaims :: "PermissionClaim list"

record APIServiceBinding =
  bd_Kind :: string
  bd_meta :: ObjectMeta
  bd_Spec :: APIServiceBindingSpec
  bd_Status :: APIServiceBindingStatus

record LocalSecretKeyRef =
  lk_Name :: string
  lk_Key :: string

record LocalSecretRef =
  lr_Name :: string
  lr_Namespace :: string

record ClusterBindingSpec =
  cbs_KubeconfigSecretRef :: LocalSecretKeyRef
  cbs_ProviderPrettyName :: string
  cbs_ServiceProviderSpec :: json

record ClusterBindingStatus =
  cbt_LastHeartbeatTime :: time
  cbt_HeartbeatInterval :: duration
  cbt_KonnectorVersion :: string
  cbt_ConsumerSecretRef :: "LocalSecretRef option"
  cbt_Conditions :: Conditions

record ClusterBinding =
  cb_Kind :: string
  cb_meta :: ObjectMeta
  cb_Spec :: ClusterBindingSpec
  cb_Status :: ClusterBindingStatus

section \<open>The conditions methods\<close>

definition APIServiceExport_Setter :: "APIServiceExport Setter" where
  "APIServiceExport_Setter =
     \<lparr>s_getter = (\<lambda>e. \<lparr>g_Name = m_Name (ex_meta e), g_Kind = ex_Kind e,
                       g_Conditions = ext_Conditions (ex_Status e)\<rparr>),
      s_SetConditions = (\<lambda>cs e. e\<lparr>ex_Status := (ex_Status e)\<lparr>ext_Conditions := cs\<rparr>\<rparr>)\<rparr>"

definition APIServiceExportRequest_Setter :: "APIServiceExportRequest Setter" where
  "APIServiceExportRequest_Setter =
     \<lparr>s_getter = (\<lambda>r. \<lparr>g_Name = m_Name (rq_meta r), g_Kind = rq_Kind r,
                       g_Conditions = rqt_Conditions (rq_Status r)\<rparr>),
      s_SetConditions = (\<lambda>cs r. r\<lparr>rq_Status := (rq_Status r)\<lparr>rqt_Conditions := cs\<rparr>\<rparr>)\<rparr>"

definition BoundSchema_Setter :: "BoundSchema Setter" where
  "BoundSchema_Setter =
     \<lparr>s_getter = (\<lambda>b. \<lparr>g_Name = m_Name (bs_meta b), g_Kind = bs_Kind b,
                       g_Conditions = bst_Conditions (bs_Status b)\<rparr>),
      s_SetConditions = (\<lambda>cs b. b\<lparr>bs_Status := (bs_Status b)\<lparr>bst_Conditions := cs\<rparr>\<rparr>)\<rparr>"

definition APIServiceBinding_Setter :: "APIServiceBinding Setter" where
  "APIServiceBinding_Setter =
     \<lparr>s_getter = (\<lambda>b. \<lparr>g_Name = m_Name (bd_meta b), g_Kind = bd_Kind b,
                       g_Conditions = bdt_Conditions (bd_Status b)\<rparr>),
      s_SetConditions = (\<lambda>cs b. b\<lparr>bd_Status := (bd_Status b)\<lparr>bdt_Conditions := cs\<rparr>\<rparr>)\<rparr>"

definition ClusterBinding_Setter :: "ClusterBinding Setter" where
  "ClusterBinding_Setter =
     \<lparr>s_getter = (\<lambda>b. \<lparr>g_Name = m_Name (cb_meta b), g_Kind = cb_Kind b,
                       g_Conditions = cbt_Conditions (cb_Status b)\<rparr>),
      s_SetConditions = (\<lambda>cs b. b\<lparr>cb_Status := (cb_Status b)\<lparr>cbt_Conditions := cs\<rparr>\<rparr>)\<rparr>"

section \<open>Lemmas\<close>

interpretation exp_obj: condition_object APIServiceExport_Setter
  by unfold_locales (simp_all add: APIServiceExport_Setter_def)

interpretation req_obj: condition_object APIServiceExportRequest_Setter
  by unfold_locales (simp_all add: APIServiceExportRequest_Setter_def)

interpretation bs_obj: condition_object BoundSchema_Setter
  by unfold_locales (simp_all add: BoundSchema_Setter_def)

interpretation bd_obj: condition_object APIServiceBinding_Setter
  by unfold_locales (simp_all add: APIServiceBinding_Setter_def)

interpretation cb_obj: condition_object ClusterBinding_Setter
  by unfold_locales (simp_all add: ClusterBinding_Setter_def)

lemma Sprintf_literal: "CHR ''%'' \<notin> set s \<Longrightarrow> Sprintf s [] = s"
  by (induction s "[] :: fmtarg list" rule: Sprintf.induct) auto

lemma Sprintf_dot [simp]: "Sprintf ''%s.%s'' [FStr a, FStr b] = a @ ''.'' @ b"
  by simp

lemma GroupResource_String_eq: "GroupResource_String r = gr_Resource r @ ''.'' @ gr_Group r"
  by (simp add: GroupResource_String_def)

lemma ResourceGroupName_eq:
  "ResourceGroupName r = gr_Resource (rr_GroupResource r) @ ''.'' @
     (if gr_Group (rr_GroupResource r) = [] then ''core'' else gr_Group (rr_GroupResource r))"
  by (simp add: ResourceGroupName_def Let_def)

lemma BoundSchema_ResourceGroupName_eq:
  "BoundSchema_ResourceGroupName b =
     crn_Plural (cs_Names (bss_APICRDSpec (bs_Spec b))) @ ''.'' @ cs_Group (bss_APICRDSpec (bs_Spec b))"
  by (simp add: BoundSchema_ResourceGroupName_def Let_def)

text \<open>The frame of the condition operations: only the conditions of the status change.\<close>

lemma exp_Set_frame [simp]:
  "ex_meta (Set APIServiceExport_Setter now e c) = ex_meta e"
  "ex_Spec (Set APIServiceExport_Setter now e c) = ex_Spec e"
  by (simp_all add: Set_def APIServiceExport_Setter_def split: option.split)

lemma req_Set_frame [simp]:
  "rq_meta (Set APIServiceExportRequest_Setter now r c) = rq_meta r"
  "rq_Spec (Set APIServiceExportRequest_Setter now r c) = rq_Spec r"
  "rqt_Phase (rq_Status (Set APIServiceExportRequest_Setter now r c)) = rqt_Phase (rq_Status r)"
  "rqt_TerminalMessage (rq_Status (Set APIServiceExportRequest_Setter now r c)) =
     rqt_TerminalMessage (rq_Status r)"
  by (simp_all add: Set_def APIServiceExportRequest_Setter_def split: option.split)

lemma bs_Set_frame [simp]:
  "bs_meta (Set BoundSchema_Setter now b c) = bs_meta b"
  "bs_Spec (Set BoundSchema_Setter now b c) = bs_Spec b"
  by (simp_all add: Set_def BoundSchema_Setter_def split: option.split)

lemma bd_Set_frame [simp]:
  "bd_meta (Set APIServiceBinding_Setter now b c) = bd_meta b"
  "bd_Spec (Set APIServiceBinding_Setter now b c) = bd_Spec b"
  "bdt_ProviderPrettyName (bd_Status (Set APIServiceBinding_Setter now b c)) =
     bdt_ProviderPrettyName (bd_Status b)"
  "bdt_BoundSchemas (bd_Status (Set APIServiceBinding_Setter now b c)) = bdt_BoundSchemas (bd_Status b)"
  "bdt_PermissionClaims (bd_Status (Set APIServiceBinding_Setter now b c)) =
     bdt_PermissionClaims (bd_Status b)"
  by (simp_all add: Set_def APIServiceBinding_Setter_def split: option.split)

lemma cb_Set_frame [simp]:
  "cb_meta (Set ClusterBinding_Setter now b c) = cb_meta b"
  "cb_Spec (Set ClusterBinding_Setter now b c) = cb_Spec b"
  "cbt_LastHeartbeatTime (cb_Status (Set ClusterBinding_Setter now b c)) =
     cbt_LastHeartbeatTime (cb_Status b)"
  "cbt_HeartbeatInterval (cb_Status (Set ClusterBinding_Setter now b c)) =
     cbt_HeartbeatInterval (cb_Status b)"
  "cbt_KonnectorVersion (cb_Status (Set ClusterBinding_Setter now b c)) =
     cbt_KonnectorVersion (cb_Status b)"
  "cbt_ConsumerSecretRef (cb_Status (Set ClusterBinding_Setter now b c)) =
     cbt_ConsumerSecretRef (cb_Status b)"
  by (simp_all add: Set_def ClusterBinding_Setter_def split: option.split)

end
