(* ===== verification/Unstructured_Objects.thy ===== *)
theory Unstructured_Objects
  imports Api_Types
begin

text \<open>
  The dynamic objects the konnector synchronises (\<open>unstructured.Unstructured\<close>) with the
  accessors the source uses, and the annotations of \<open>src/pkg/konnector/types/types.go\<close>.
  The metadata is a record; every other top-level key (\<open>spec\<close>, \<open>status\<close>,
  \<open>data\<close>, \<open>kind\<close>, \<dots>) is in the map \<open>u_fields\<close>. JSON objects list
  their members in the order of the keys, so equality of values is \<open>reflect.DeepEqual\<close>.
\<close>

record Unstructured =
  u_meta :: ObjectMeta
  u_ManagedFields :: json
  u_DeletionGracePeriodSeconds :: "int option"
  u_fields :: "(string, json) mapping"

definition GetName :: "Unstructured \<Rightarrow> string" where "GetName u = m_Name (u_meta u)"
definition GetNamespace :: "Unstructured \<Rightarrow> string" where "GetNamespace u = m_Namespace (u_meta u)"
definition GetUID :: "Unstructured \<Rightarrow> string" where "GetUID u = m_UID (u_meta u)"
definition GetLabels :: "Unstructured \<Rightarrow> smap" where "GetLabels u = m_Labels (u_meta u)"
definition GetAnnotations :: "Unstructured \<Rightarrow> smap" where "GetAnnotations u = m_Annotations (u_meta u)"
definition GetFinalizers :: "Unstructured \<Rightarrow> string list" where
  "GetFinalizers u = m_Finalizers (u_meta u)"

definition SetName :: "string \<Rightarrow> Unstructured \<Rightarrow> Unstructured" where
  "SetName n u = u\<lparr>u_meta := (u_meta u)\<lparr>m_Name := n\<rparr>\<rparr>"

definition SetNamespace :: "string \<Rightarrow> Unstructured \<Rightarrow> Unstructured" where
  "SetNamespace n u = u\<lparr>u_meta := (u_meta u)\<lparr>m_Namespace := n\<rparr>\<rparr>"

definition SetLabels :: "smap \<Rightarrow> Unstructured \<Rightarrow> Unstructured" where
  "SetLabels l u = u\<lparr>u_meta := (u_meta u)\<lparr>m_Labels := l\<rparr>\<rparr>"

definition SetAnnotations :: "smap \<Rightarrow> Unstructured \<Rightarrow> Unstructured" where
  "SetAnnotations a u = u\<lparr>u_meta := (u_meta u)\<lparr>m_Annotations := a\<rparr>\<rparr>"

definition SetFinalizers :: "string list \<Rightarrow> Unstructured \<Rightarrow> Unstructured" where
  "SetFinalizers f u = u\<lparr>u_meta := (u_meta u)\<lparr>m_Finalizers := f\<rparr>\<rparr>"

definition SetOwnerReferences :: "OwnerReference list \<Rightarrow> Unstructured \<Rightarrow> Unstructured" where
  "SetOwnerReferences f u = u\<lparr>u_meta := (u_meta u)\<lparr>m_OwnerReferences := f\<rparr>\<rparr>"

text \<open>\<open>!obj.GetDeletionTimestamp().IsZero()\<close>, which is false on a nil timestamp.\<close>

definition IsDeleting :: "Unstructured \<Rightarrow> bool" where
  "IsDeleting u = (case m_DeletionTimestamp (u_meta u) of None \<Rightarrow> False | Some t \<Rightarrow> \<not> IsZeroTime t)"

definition keyOf :: "Unstructured \<Rightarrow> NamespacedName" where
  "keyOf u = \<lparr>nn_Namespace = GetNamespace u, nn_Name = GetName u\<rparr>"

text \<open>
  \<open>unstructured.NestedFieldNoCopy\<close>, \<open>SetNestedField\<close> and \<open>RemoveNestedField\<close>
  with one field name: none of them fails, as the object itself is a map. A missing field reads as
  nil, as an explicit null does.
\<close>

definition NestedField :: "Unstructured \<Rightarrow> string \<Rightarrow> json \<times> bool" where
  "NestedField u f = (case Mapping.lookup (u_fields u) f of None \<Rightarrow> (JNull, False) | Some v \<Rightarrow> (v, True))"

definition SetNestedField :: "json \<Rightarrow> string \<Rightarrow> Unstructured \<Rightarrow> Unstructured" where
  "SetNestedField v f u = u\<lparr>u_fields := Mapping.update f v (u_fields u)\<rparr>"

definition RemoveNestedField :: "string \<Rightarrow> Unstructured \<Rightarrow> Unstructured" where
  "RemoveNestedField f u = u\<lparr>u_fields := Mapping.delete f (u_fields u)\<rparr>"

definition specOf :: "Unstructured \<Rightarrow> json" where "specOf u = fst (NestedField u ''spec'')"
definition statusOf :: "Unstructured \<Rightarrow> json" where "statusOf u = fst (NestedField u ''status'')"

section \<open>Annotations of the konnector\<close>

definition ClusterNamespaceAnnotationKey :: string where
  "ClusterNamespaceAnnotationKey = ''kube-bind.io/cluster-namespace''"

definition ConsumerNamespaceAnnotationKey :: string where
  "ConsumerNamespaceAnnotationKey = ''kube-bind.io/consumer-namespace''"

definition ConsumerUIDAnnotationKey :: string where
  "ConsumerUIDAnnotationKey = ''kube-bind.io/consumer-uid''"

definition ProviderNamespaceAnnotationKey :: string where
  "ProviderNamespaceAnnotationKey = ''kube-bind.io/provider-namespace''"

definition ProviderUIDAnnotationKey :: string where
  "ProviderUIDAnnotationKey = ''kube-bind.io/provider-uid''"

definition SetSourceMetadataAnnotations ::
  "Unstructured \<Rightarrow> string \<Rightarrow> string \<Rightarrow> string \<Rightarrow> string \<Rightarrow> Unstructured" where
  "SetSourceMetadataAnnotations obj sourceNS sourceUID nsKey uidKey =
     SetAnnotations
       (Mapping.update uidKey sourceUID (Mapping.update nsKey sourceNS (GetAnnotations obj))) obj"

section \<open>Lemmas\<close>

lemmas accessor_defs = GetName_def GetNamespace_def GetUID_def GetLabels_def GetAnnotations_def
  GetFinalizers_def SetName_def SetNamespace_def SetLabels_def SetAnnotations_def
  SetFinalizers_def SetOwnerReferences_def

lemmas annotation_key_defs = ClusterNamespaceAnnotationKey_def ConsumerNamespaceAnnotationKey_def
  ConsumerUIDAnnotationKey_def ProviderNamespaceAnnotationKey_def ProviderUIDAnnotationKey_def

lemma annotation_keys_distinct [simp]:
  "distinct [ClusterNamespaceAnnotationKey, ConsumerNamespaceAnnotationKey, ConsumerUIDAnnotationKey,
     ProviderNamespaceAnnotationKey, ProviderUIDAnnotationKey]"
  by (simp add: annotation_key_defs)

lemma get_set_simps [simp]:
  "GetName (SetName n u) = n" "GetNamespace (SetName n u) = GetNamespace u"
  "GetName (SetNamespace n u) = GetName u" "GetNamespace (SetNamespace n u) = n"
  "GetName (SetLabels l u) = GetName u" "GetNamespace (SetLabels l u) = GetNamespace u"
  "GetName (SetAnnotations a u) = GetName u" "GetNamespace (SetAnnotations a u) = GetNamespace u"
  "GetName (SetFinalizers f u) = GetName u" "GetNamespace (SetFinalizers f u) = GetNamespace u"
  "GetName (SetOwnerReferences r u) = GetName u"
  "GetNamespace (SetOwnerReferences r u) = GetNamespace u"
  "GetAnnotations (SetAnnotations a u) = a" "GetAnnotations (SetName n u) = GetAnnotations u"
  "GetAnnotations (SetNamespace n u) = GetAnnotations u"
  "GetAnnotations (SetFinalizers f u) = GetAnnotations u"
  "GetAnnotations (SetOwnerReferences r u) = GetAnnotations u"
  "GetAnnotations (SetLabels l u) = GetAnnotations u"
  "GetLabels (SetLabels l u) = l" "GetLabels (SetAnnotations a u) = GetLabels u"
  "GetFinalizers (SetFinalizers f u) = f" "GetFinalizers (SetAnnotations a u) = GetFinalizers u"
  "GetFinalizers (SetName n u) = GetFinalizers u"
  "GetFinalizers (SetNamespace n u) = GetFinalizers u"
  "GetFinalizers (SetOwnerReferences r u) = GetFinalizers u"
  "GetUID (SetAnnotations a u) = GetUID u" "GetUID (SetFinalizers f u) = GetUID u"
  "GetUID (SetLabels l u) = GetUID u"
  by (simp_all add: accessor_defs)

lemma keyOf_simps [simp]:
  "keyOf (SetLabels l u) = keyOf u" "keyOf (SetAnnotations a u) = keyOf u"
  "keyOf (SetFinalizers f u) = keyOf u" "keyOf (SetOwnerReferences r u) = keyOf u"
  "keyOf (SetNamespace ns (SetName n u)) = \<lparr>nn_Namespace = ns, nn_Name = n\<rparr>"
  by (simp_all add: keyOf_def)

lemma field_simps_set [simp]:
  "u_fields (SetName n u) = u_fields u" "u_fields (SetNamespace n u) = u_fields u"
  "u_fields (SetLabels l u) = u_fields u" "u_fields (SetAnnotations a u) = u_fields u"
  "u_fields (SetFinalizers f u) = u_fields u" "u_fields (SetOwnerReferences r u) = u_fields u"
  by (simp_all add: accessor_defs)

lemma nested_simps [simp]:
  "u_meta (SetNestedField v f u) = u_meta u" "u_meta (RemoveNestedField f u) = u_meta u"
  "GetName (SetNestedField v f u) = GetName u" "GetName (RemoveNestedField f u) = GetName u"
  "GetNamespace (SetNestedField v f u) = GetNamespace u"
  "GetNamespace (RemoveNestedField f u) = GetNamespace u"
  "GetAnnotations (SetNestedField v f u) = GetAnnotations u"
  "GetAnnotations (RemoveNestedField f u) = GetAnnotations u"
  "keyOf (SetNestedField v f u) = keyOf u" "keyOf (RemoveNestedField f u) = keyOf u"
  "u_fields (SetNestedField v f u) = Mapping.update f v (u_fields u)"
  "u_fields (RemoveNestedField f u) = Mapping.delete f (u_fields u)"
  by (simp_all add: SetNestedField_def RemoveNestedField_def accessor_defs keyOf_def)

lemma specOf_cong: "u_fields u = u_fields v \<Longrightarrow> specOf u = specOf v"
  by (simp add: specOf_def NestedField_def)

lemma statusOf_cong: "u_fields u = u_fields v \<Longrightarrow> statusOf u = statusOf v"
  by (simp add: statusOf_def NestedField_def)

lemma specOf_nested [simp]:
  "specOf (SetNestedField v ''spec'' u) = v" "specOf (RemoveNestedField ''spec'' u) = JNull"
  "specOf (SetNestedField v ''status'' u) = specOf u"
  "specOf (RemoveNestedField ''status'' u) = specOf u"
  by (simp_all add: specOf_def NestedField_def)

lemma statusOf_nested [simp]:
  "statusOf (SetNestedField v ''status'' u) = v" "statusOf (RemoveNestedField ''status'' u) = JNull"
  "statusOf (SetNestedField v ''spec'' u) = statusOf u"
  "statusOf (RemoveNestedField ''spec'' u) = statusOf u"
  by (simp_all add: statusOf_def NestedField_def)

lemma source_annotations_frame [simp]:
  "keyOf (SetSourceMetadataAnnotations u ns uid k1 k2) = keyOf u"
  "u_fields (SetSourceMetadataAnnotations u ns uid k1 k2) = u_fields u"
  "GetFinalizers (SetSourceMetadataAnnotations u ns uid k1 k2) = GetFinalizers u"
  "GetUID (SetSourceMetadataAnnotations u ns uid k1 k2) = GetUID u"
  "GetLabels (SetSourceMetadataAnnotations u ns uid k1 k2) = GetLabels u"
  by (simp_all add: SetSourceMetadataAnnotations_def)

lemma source_annotations_lookup:
  "Mapping.lookup (GetAnnotations (SetSourceMetadataAnnotations u ns uid k1 k2)) k =
     (if k = k2 then Some uid else if k = k1 then Some ns else Mapping.lookup (GetAnnotations u) k)"
  by (simp add: SetSourceMetadataAnnotations_def)

lemma source_annotations_idem:
  "SetSourceMetadataAnnotations (SetSourceMetadataAnnotations u ns uid k1 k2) ns uid k1 k2 =
     SetSourceMetadataAnnotations u ns uid k1 k2"
proof -
  have "Mapping.update k2 uid (Mapping.update k1 ns (Mapping.update k2 uid (Mapping.update k1 ns m))) =
      Mapping.update k2 uid (Mapping.update k1 ns m)" for m
    by (rule mapping_eqI) simp
  then show ?thesis by (simp add: SetSourceMetadataAnnotations_def SetAnnotations_def GetAnnotations_def)
qed

end
