(* ===== verification/Isolation.thy ===== *)
theory Isolation
  imports Unstructured_Objects
begin

text \<open>
  The isolation strategies (\<open>src/pkg/konnector/controllers/cluster/serviceexport/isolation\<close>):
  how the name and namespace of an object of the consumer cluster translate to the provider cluster
  and back. The Go interface \<open>Strategy\<close> is the record \<open>Strategy\<close> of its methods,
  and the four implementations are values of it. The cache of \<open>APIServiceNamespaces\<close> is a
  parameter (\<open>sn_informer\<close>).
  The locale \<open>isolation_strategy\<close> states the contract of the interface: translating a key to
  the provider and back gives the key, a consumer key is only returned for the provider key it
  translates to, and the mutated object carries the translated key. Every strategy interprets it.
\<close>

section \<open>The interface\<close>

record 'w Strategy =
  st_ToProviderKey :: "'w \<Rightarrow> NamespacedName \<Rightarrow> NamespacedName option result"
  st_ToConsumerKey :: "'w \<Rightarrow> NamespacedName \<Rightarrow> NamespacedName option result"
  st_EnsureProviderKey :: "'w \<Rightarrow> NamespacedName \<Rightarrow> NamespacedName option result \<times> 'w"
  st_MutateMetadataAndSpec :: "Unstructured \<Rightarrow> NamespacedName \<Rightarrow> Unstructured result"
  st_MutateStatus :: "Unstructured \<Rightarrow> NamespacedName \<Rightarrow> Unstructured result"

section \<open>None\<close>

definition findOwnerReference :: "OwnerReference list \<Rightarrow> string \<Rightarrow> OwnerReference option" where
  "findOwnerReference refs clusterNamespace =
     find (\<lambda>ref. or_Kind ref = ''Namespace'' \<and> or_Name ref = clusterNamespace) refs"

definition setOwnerReference :: "Unstructured \<Rightarrow> string \<Rightarrow> string \<Rightarrow> Unstructured result" where
  "setOwnerReference obj clusterNamespace clusterNamespaceUID =
     (let ownerRefs = m_OwnerReferences (u_meta obj)
      in case findOwnerReference ownerRefs clusterNamespace of
           Some ownerRef \<Rightarrow>
             if or_Name ownerRef \<noteq> clusterNamespace
             then Inl (PlainError ''mismatch between existing cluster namespace and given cluster namespace'')
             else Inr obj
         | None \<Rightarrow>
             Inr (SetOwnerReferences (ownerRefs @
               [\<lparr>or_APIVersion = ''v1'', or_Kind = ''Namespace'', or_Name = clusterNamespace,
                 or_UID = clusterNamespaceUID, or_Controller = False\<rparr>]) obj))"

definition none_ToProviderKey :: "NamespacedName \<Rightarrow> NamespacedName option result" where
  "none_ToProviderKey consumerKey = Inr (Some consumerKey)"

definition none_ToConsumerKey :: "NamespacedName \<Rightarrow> NamespacedName option result" where
  "none_ToConsumerKey providerKey = Inr (Some providerKey)"

definition none_MutateMetadataAndSpec ::
  "string \<Rightarrow> string \<Rightarrow> Unstructured \<Rightarrow> NamespacedName \<Rightarrow> Unstructured result" where
  "none_MutateMetadataAndSpec clusterNamespace clusterNamespaceUID consumerObj providerKey =
     setOwnerReference consumerObj clusterNamespace clusterNamespaceUID"

definition none_MutateStatus :: "Unstructured \<Rightarrow> NamespacedName \<Rightarrow> Unstructured result" where
  "none_MutateStatus providerObj consumerKey = Inr providerObj"

definition NewNone :: "string \<Rightarrow> string \<Rightarrow> 'w Strategy" where
  "NewNone clusterNamespace clusterNamespaceUID =
     \<lparr>st_ToProviderKey = (\<lambda>w. none_ToProviderKey), st_ToConsumerKey = (\<lambda>w. none_ToConsumerKey),
      st_EnsureProviderKey = (\<lambda>w k. (none_ToProviderKey k, w)),
      st_MutateMetadataAndSpec = none_MutateMetadataAndSpec clusterNamespace clusterNamespaceUID,
      st_MutateStatus = none_MutateStatus\<rparr>"

section \<open>Prefixed\<close>

definition prefixed_ToProviderKey :: "string \<Rightarrow> NamespacedName \<Rightarrow> NamespacedName option result" where
  "prefixed_ToProviderKey clusterNamespace consumerKey =
     Inr (Some \<lparr>nn_Namespace = [], nn_Name = clusterNamespace @ ''-'' @ nn_Name consumerKey\<rparr>)"

definition prefixed_ToConsumerKey :: "string \<Rightarrow> NamespacedName \<Rightarrow> NamespacedName option result" where
  "prefixed_ToConsumerKey clusterNamespace providerKey =
     (let prefix = clusterNamespace @ ''-''
      in if \<not> HasPrefix (nn_Name providerKey) prefix then Inr None
         else Inr (Some \<lparr>nn_Namespace = [], nn_Name = TrimPrefix (nn_Name providerKey) prefix\<rparr>))"

definition prefixed_MutateMetadataAndSpec ::
  "string \<Rightarrow> string \<Rightarrow> Unstructured \<Rightarrow> NamespacedName \<Rightarrow> Unstructured result" where
  "prefixed_MutateMetadataAndSpec clusterNamespace clusterNamespaceUID consumerObj providerKey =
     none_MutateMetadataAndSpec clusterNamespace clusterNamespaceUID
       (SetNamespace (nn_Namespace providerKey) (SetName (nn_Name providerKey) consumerObj)) providerKey"

definition prefixed_MutateStatus :: "Unstructured \<Rightarrow> NamespacedName \<Rightarrow> Unstructured result" where
  "prefixed_MutateStatus providerObj consumerKey =
     none_MutateStatus
       (SetNamespace (nn_Namespace consumerKey) (SetName (nn_Name consumerKey) providerObj)) consumerKey"

definition NewPrefixed :: "string \<Rightarrow> string \<Rightarrow> 'w Strategy" where
  "NewPrefixed clusterNamespace clusterNamespaceUID =
     \<lparr>st_ToProviderKey = (\<lambda>w. prefixed_ToProviderKey clusterNamespace),
      st_ToConsumerKey = (\<lambda>w. prefixed_ToConsumerKey clusterNamespace),
      st_EnsureProviderKey = (\<lambda>w k. (prefixed_ToProviderKey clusterNamespace k, w)),
      st_MutateMetadataAndSpec = prefixed_MutateMetadataAndSpec clusterNamespace clusterNamespaceUID,
      st_MutateStatus = prefixed_MutateStatus\<rparr>"

section \<open>Namespaced\<close>

definition namespaced_ToProviderKey :: "string \<Rightarrow> NamespacedName \<Rightarrow> NamespacedName option result" where
  "namespaced_ToProviderKey clusterNamespace consumerKey =
     Inr (Some \<lparr>nn_Namespace = clusterNamespace, nn_Name = nn_Name consumerKey\<rparr>)"

definition namespaced_ToConsumerKey :: "string \<Rightarrow> NamespacedName \<Rightarrow> NamespacedName option result" where
  "namespaced_ToConsumerKey clusterNamespace providerKey =
     (if nn_Namespace providerKey \<noteq> clusterNamespace then Inr None
      else Inr (Some \<lparr>nn_Namespace = [], nn_Name = nn_Name providerKey\<rparr>))"

definition namespaced_MutateMetadataAndSpec :: "Unstructured \<Rightarrow> NamespacedName \<Rightarrow> Unstructured result" where
  "namespaced_MutateMetadataAndSpec consumerObj providerKey =
     Inr (SetNamespace (nn_Namespace providerKey) (SetName (nn_Name providerKey) consumerObj))"

definition namespaced_MutateStatus :: "Unstructured \<Rightarrow> NamespacedName \<Rightarrow> Unstructured result" where
  "namespaced_MutateStatus providerObj consumerKey =
     Inr (SetNamespace (nn_Namespace consumerKey) (SetName (nn_Name consumerKey) providerObj))"

definition NewNamespaced :: "string \<Rightarrow> 'w Strategy" where
  "NewNamespaced clusterNamespace =
     \<lparr>st_ToProviderKey = (\<lambda>w. namespaced_ToProviderKey clusterNamespace),
      st_ToConsumerKey = (\<lambda>w. namespaced_ToConsumerKey clusterNamespace),
      st_EnsureProviderKey = (\<lambda>w k. (namespaced_ToProviderKey clusterNamespace k, w)),
      st_MutateMetadataAndSpec = namespaced_MutateMetadataAndSpec,
      st_MutateStatus = namespaced_MutateStatus\<rparr>"

section \<open>ServiceNamespaced\<close>

text \<open>
  The dynamic informer of the \<open>APIServiceNamespaces\<close>: the lister's \<open>Get\<close> by
  namespace and name, and the lookup by the index \<open>ServiceNamespaceByNamespace\<close>, whose index
  function is \<open>IndexServiceNamespaceByNamespace\<close>.
\<close>

definition IndexServiceNamespaceByNamespace :: "APIServiceNamespace \<Rightarrow> string list" where
  "IndexServiceNamespaceByNamespace sn =
     (if snt_Namespace (sn_Status sn) = [] then [] else [snt_Namespace (sn_Status sn)])"

record 'w sn_informer =
  sni_Get :: "'w \<Rightarrow> string \<Rightarrow> string \<Rightarrow> APIServiceNamespace result"
  sni_ByIndex :: "'w \<Rightarrow> string \<Rightarrow> APIServiceNamespace list result"

record 'w ServiceNamespacedStrategy =
  sns_clusterNamespace :: string
  sns_serviceNamespaceInformer :: "'w sn_informer"
  sns_serviceNamespaceCreator :: "'w \<Rightarrow> string \<Rightarrow> APIServiceNamespace result \<times> 'w"

definition ProviderNamespace :: "'w ServiceNamespacedStrategy \<Rightarrow> 'w \<Rightarrow> string \<Rightarrow> string result" where
  "ProviderNamespace s w consumerNamespace =
     (case sni_Get (sns_serviceNamespaceInformer s) w (sns_clusterNamespace s) consumerNamespace of
        Inl err \<Rightarrow> if \<not> IsNotFound err then Inl err else Inr []
      | Inr sn \<Rightarrow> Inr (snt_Namespace (sn_Status sn)))"

definition ConsumerNamespace :: "'w ServiceNamespacedStrategy \<Rightarrow> 'w \<Rightarrow> string \<Rightarrow> string result" where
  "ConsumerNamespace s w namespace =
     (case sni_ByIndex (sns_serviceNamespaceInformer s) w namespace of
        Inl err \<Rightarrow> Inl err
      | Inr sns \<Rightarrow>
          (case find (\<lambda>sn. m_Namespace (sn_meta sn) = sns_clusterNamespace s) sns of
             Some sn \<Rightarrow> Inr (m_Name (sn_meta sn))
           | None \<Rightarrow> Inr []))"

definition sns_ToProviderKey ::
  "'w ServiceNamespacedStrategy \<Rightarrow> 'w \<Rightarrow> NamespacedName \<Rightarrow> NamespacedName option result" where
  "sns_ToProviderKey s w consumerKey =
     (case ProviderNamespace s w (nn_Namespace consumerKey) of
        Inl err \<Rightarrow> Inl err
      | Inr providerNs \<Rightarrow>
          if providerNs = [] then Inr None
          else Inr (Some \<lparr>nn_Namespace = providerNs, nn_Name = nn_Name consumerKey\<rparr>))"

definition sns_EnsureProviderKey ::
  "'w ServiceNamespacedStrategy \<Rightarrow> 'w \<Rightarrow> NamespacedName \<Rightarrow> NamespacedName option result \<times> 'w" where
  "sns_EnsureProviderKey s w consumerKey =
     (let ready = (\<lambda>sn. if snt_Namespace (sn_Status sn) = [] then Inr None
                       else Inr (Some \<lparr>nn_Namespace = snt_Namespace (sn_Status sn),
                                       nn_Name = nn_Name consumerKey\<rparr>))
      in case sni_Get (sns_serviceNamespaceInformer s) w (sns_clusterNamespace s)
                (nn_Namespace consumerKey) of
           Inl err \<Rightarrow>
             if \<not> IsNotFound err then (Inl err, w)
             else (case sns_serviceNamespaceCreator s w (nn_Namespace consumerKey) of
                     (Inl err, w') \<Rightarrow> (Inl err, w')
                   | (Inr sn, w') \<Rightarrow> (ready sn, w'))
         | Inr sn \<Rightarrow> (ready sn, w))"

definition sns_ToConsumerKey ::
  "'w ServiceNamespacedStrategy \<Rightarrow> 'w \<Rightarrow> NamespacedName \<Rightarrow> NamespacedName option result" where
  "sns_ToConsumerKey s w providerKey =
     (case ConsumerNamespace s w (nn_Namespace providerKey) of
        Inl err \<Rightarrow> Inl err
      | Inr consumerNs \<Rightarrow>
          if consumerNs = [] then Inr None
          else Inr (Some \<lparr>nn_Namespace = consumerNs, nn_Name = nn_Name providerKey\<rparr>))"

definition sns_MutateMetadataAndSpec :: "Unstructured \<Rightarrow> NamespacedName \<Rightarrow> Unstructured result" where
  "sns_MutateMetadataAndSpec consumerObj providerKey =
     Inr (SetNamespace (nn_Namespace providerKey) (SetName (nn_Name providerKey) consumerObj))"

definition sns_MutateStatus :: "Unstructured \<Rightarrow> NamespacedName \<Rightarrow> Unstructured result" where
  "sns_MutateStatus providerObj consumerKey =
     Inr (SetNamespace (nn_Namespace consumerKey) (SetName (nn_Name consumerKey) providerObj))"

definition NewServiceNamespaced ::
  "string \<Rightarrow> 'w sn_informer \<Rightarrow> ('w \<Rightarrow> string \<Rightarrow> APIServiceNamespace result \<times> 'w) \<Rightarrow> 'w Strategy" where
  "NewServiceNamespaced clusterNamespace serviceNamespaceInformer serviceNamespaceCreator =
     (let s = \<lparr>sns_clusterNamespace = clusterNamespace,
               sns_serviceNamespaceInformer = serviceNamespaceInformer,
               sns_serviceNamespaceCreator = serviceNamespaceCreator\<rparr>
      in \<lparr>st_ToProviderKey = sns_ToProviderKey s, st_ToConsumerKey = sns_ToConsumerKey s,
          st_EnsureProviderKey = sns_EnsureProviderKey s,
          st_MutateMetadataAndSpec = sns_MutateMetadataAndSpec,
          st_MutateStatus = sns_MutateStatus\<rparr>)"

section \<open>The contract of the interface\<close>

text \<open>
  What the synchronisation relies on, for the keys the strategy is used for
  (\<open>consumerOk\<close>, \<open>providerOk\<close>: cluster-scoped keys have an empty namespace, and
  the cache of service namespaces is consistent in the state \<open>w\<close>).
\<close>

locale isolation_strategy =
  fixes S :: "'w Strategy"
    and consumerOk :: "'w \<Rightarrow> NamespacedName \<Rightarrow> bool"
    and providerOk :: "'w \<Rightarrow> NamespacedName \<Rightarrow> bool"
  assumes provider_consumer: "consumerOk w k \<Longrightarrow> st_ToProviderKey S w k = Inr (Some pk) \<Longrightarrow>
      st_ToConsumerKey S w pk = Inr (Some k)"
    and consumer_provider: "providerOk w pk \<Longrightarrow> st_ToConsumerKey S w pk = Inr (Some k) \<Longrightarrow>
      st_ToProviderKey S w k = Inr (Some pk)"
    and mutate_key: "st_ToProviderKey S w (keyOf u) = Inr (Some pk) \<Longrightarrow>
      st_MutateMetadataAndSpec S u pk = Inr u' \<Longrightarrow> keyOf u' = pk"
    and ensure_mutate_key: "st_EnsureProviderKey S w (keyOf u) = (Inr (Some pk), w') \<Longrightarrow>
      st_MutateMetadataAndSpec S u pk = Inr u' \<Longrightarrow> keyOf u' = pk"
    and mutate_total: "\<exists>u'. st_MutateMetadataAndSpec S u pk = Inr u'"
    and mutate_content: "st_MutateMetadataAndSpec S u pk = Inr u' \<Longrightarrow>
      u_fields u' = u_fields u \<and> GetAnnotations u' = GetAnnotations u \<and> GetFinalizers u' = GetFinalizers u"
    and status_mutate: "keyOf u = k \<Longrightarrow> st_MutateStatus S u k = Inr u"
begin

text \<open>Two consumer objects never share a provider object.\<close>

lemma provider_key_inj:
  assumes "consumerOk w k" "consumerOk w k'"
    and "st_ToProviderKey S w k = Inr (Some pk)" "st_ToProviderKey S w k' = Inr (Some pk)"
  shows "k = k'"
  using provider_consumer [OF assms(1,3)] provider_consumer [OF assms(2,4)] by simp

lemma consumer_key_inj:
  assumes "providerOk w pk" "providerOk w pk'"
    and "st_ToConsumerKey S w pk = Inr (Some k)" "st_ToConsumerKey S w pk' = Inr (Some k)"
  shows "pk = pk'"
  using consumer_provider [OF assms(1,3)] consumer_provider [OF assms(2,4)] by simp

end

section \<open>Lemmas\<close>

lemma setOwnerReference_total: "\<exists>u'. setOwnerReference u cn uid = Inr u'"
  by (auto simp: setOwnerReference_def findOwnerReference_def Let_def find_Some_iff split: option.split)

lemma setOwnerReference_frame:
  "setOwnerReference u cn uid = Inr u' \<Longrightarrow>
     keyOf u' = keyOf u \<and> u_fields u' = u_fields u \<and> GetAnnotations u' = GetAnnotations u \<and>
     GetFinalizers u' = GetFinalizers u"
  by (auto simp: setOwnerReference_def Let_def split: option.splits if_splits)

lemma setOwnerReference_owner:
  "setOwnerReference u cn uid = Inr u' \<Longrightarrow> findOwnerReference (m_OwnerReferences (u_meta u')) cn \<noteq> None"
proof (cases "findOwnerReference (m_OwnerReferences (u_meta u)) cn")
  case None
  assume "setOwnerReference u cn uid = Inr u'"
  with None have "m_OwnerReferences (u_meta u') = m_OwnerReferences (u_meta u) @
      [\<lparr>or_APIVersion = ''v1'', or_Kind = ''Namespace'', or_Name = cn, or_UID = uid, or_Controller = False\<rparr>]"
    by (auto simp: setOwnerReference_def Let_def SetOwnerReferences_def)
  then show ?thesis by (simp add: findOwnerReference_def find_snoc)
next
  case (Some r)
  assume "setOwnerReference u cn uid = Inr u'"
  with Some show ?thesis by (auto simp: setOwnerReference_def Let_def split: if_splits)
qed

lemma SetName_same [simp]: "SetName (GetName u) u = u"
  by (simp add: SetName_def GetName_def)

lemma SetNamespace_same [simp]: "SetNamespace (GetNamespace u) u = u"
  by (simp add: SetNamespace_def GetNamespace_def)

lemma SetNames_key: "SetNamespace (nn_Namespace (keyOf u)) (SetName (nn_Name (keyOf u)) u) = u"
  by (simp add: keyOf_def)

interpretation none: isolation_strategy "NewNone cn uid" "\<lambda>w k. True" "\<lambda>w k. True" for cn uid
  using setOwnerReference_frame setOwnerReference_total
  by unfold_locales
    (auto simp: NewNone_def none_ToProviderKey_def none_ToConsumerKey_def
      none_MutateMetadataAndSpec_def none_MutateStatus_def)

abbreviation clusterScopedKey :: "'w \<Rightarrow> NamespacedName \<Rightarrow> bool" where
  "clusterScopedKey w k \<equiv> nn_Namespace k = []"

interpretation prefixed: isolation_strategy "NewPrefixed cn uid" clusterScopedKey clusterScopedKey
  for cn uid
proof
  fix w :: 'w and k pk
  assume "clusterScopedKey w k" "st_ToProviderKey (NewPrefixed cn uid) w k = Inr (Some pk)"
  then show "st_ToConsumerKey (NewPrefixed cn uid) w pk = Inr (Some k)"
    using HasPrefix_append [of "cn @ ''-''"] TrimPrefix_append [of "cn @ ''-''"]
    by (auto simp: NewPrefixed_def prefixed_ToProviderKey_def prefixed_ToConsumerKey_def Let_def)
next
  fix w :: 'w and k pk
  assume "clusterScopedKey w pk" "st_ToConsumerKey (NewPrefixed cn uid) w pk = Inr (Some k)"
  then show "st_ToProviderKey (NewPrefixed cn uid) w k = Inr (Some pk)"
    using append_TrimPrefix [of "nn_Name pk" "cn @ ''-''"]
    by (auto simp: NewPrefixed_def prefixed_ToProviderKey_def prefixed_ToConsumerKey_def Let_def
        split: if_splits)
qed (use setOwnerReference_frame setOwnerReference_total SetNames_key in
    \<open>auto simp: NewPrefixed_def prefixed_MutateMetadataAndSpec_def none_MutateMetadataAndSpec_def
       prefixed_MutateStatus_def none_MutateStatus_def\<close>)

interpretation namespaced: isolation_strategy "NewNamespaced cn" clusterScopedKey "\<lambda>w k. True" for cn
  using SetNames_key
  by unfold_locales
    (auto simp: NewNamespaced_def namespaced_ToProviderKey_def namespaced_ToConsumerKey_def
      namespaced_MutateMetadataAndSpec_def namespaced_MutateStatus_def split: if_splits)

text \<open>
  The cache of service namespaces is consistent for a cluster namespace when \<open>Get\<close> returns
  the object with the name it was asked for, the index lists exactly the objects whose status names
  the namespace, and no two objects of the cluster namespace have the same service namespace.
\<close>

definition sn_cache_ok :: "'w sn_informer \<Rightarrow> string \<Rightarrow> 'w \<Rightarrow> bool" where
  "sn_cache_ok snInf cn w \<longleftrightarrow>
     (\<forall>n sn. sni_Get snInf w cn n = Inr sn \<longrightarrow>
        m_Name (sn_meta sn) = n \<and> m_Namespace (sn_meta sn) = cn \<and>
        (snt_Namespace (sn_Status sn) \<noteq> [] \<longrightarrow>
           (\<exists>sns. sni_ByIndex snInf w (snt_Namespace (sn_Status sn)) = Inr sns \<and> sn \<in> set sns))) \<and>
     (\<forall>ns sns sn. sni_ByIndex snInf w ns = Inr sns \<longrightarrow> sn \<in> set sns \<longrightarrow>
        ns \<in> set (IndexServiceNamespaceByNamespace sn) \<and>
        (m_Namespace (sn_meta sn) = cn \<longrightarrow> sni_Get snInf w cn (m_Name (sn_meta sn)) = Inr sn) \<and>
        (\<forall>sn' \<in> set sns. m_Namespace (sn_meta sn) = cn \<longrightarrow> m_Namespace (sn_meta sn') = cn \<longrightarrow>
           m_Name (sn_meta sn) = m_Name (sn_meta sn')))"

lemma sn_cache_GetD:
  assumes "sn_cache_ok snInf cn w" "sni_Get snInf w cn n = Inr sn"
  shows "m_Name (sn_meta sn) = n" "m_Namespace (sn_meta sn) = cn"
    "snt_Namespace (sn_Status sn) \<noteq> [] \<Longrightarrow>
       \<exists>sns. sni_ByIndex snInf w (snt_Namespace (sn_Status sn)) = Inr sns \<and> sn \<in> set sns"
  using assms unfolding sn_cache_ok_def by blast+

lemma sn_cache_IndexD:
  assumes "sn_cache_ok snInf cn w" "sni_ByIndex snInf w ns = Inr sns" "sn \<in> set sns"
    "m_Namespace (sn_meta sn) = cn"
  shows "ns \<in> set (IndexServiceNamespaceByNamespace sn)"
    "sni_Get snInf w cn (m_Name (sn_meta sn)) = Inr sn"
    "sn' \<in> set sns \<Longrightarrow> m_Namespace (sn_meta sn') = cn \<Longrightarrow> m_Name (sn_meta sn') = m_Name (sn_meta sn)"
  using assms unfolding sn_cache_ok_def by metis+

interpretation service_namespaced: isolation_strategy "NewServiceNamespaced cn snInf creator"
  "\<lambda>w k. sn_cache_ok snInf cn w \<and> nn_Namespace k \<noteq> []" "\<lambda>w k. sn_cache_ok snInf cn w" for cn snInf creator
proof
  fix w k pk
  assume ok: "sn_cache_ok snInf cn w \<and> nn_Namespace k \<noteq> []"
    and to: "st_ToProviderKey (NewServiceNamespaced cn snInf creator) w k = Inr (Some pk)"
  from to obtain sn where sn: "sni_Get snInf w cn (nn_Namespace k) = Inr sn" "snt_Namespace (sn_Status sn) \<noteq> []"
    "pk = \<lparr>nn_Namespace = snt_Namespace (sn_Status sn), nn_Name = nn_Name k\<rparr>"
    by (auto simp: NewServiceNamespaced_def Let_def sns_ToProviderKey_def ProviderNamespace_def
        split: sum.splits if_splits)
  from ok have cache: "sn_cache_ok snInf cn w" ..
  obtain sns where sns: "sni_ByIndex snInf w (snt_Namespace (sn_Status sn)) = Inr sns" "sn \<in> set sns"
    using sn_cache_GetD(3) [OF cache sn(1,2)] by blast
  note names = sn_cache_GetD(1,2) [OF cache sn(1)]
  obtain sn' where sn': "find (\<lambda>sn. m_Namespace (sn_meta sn) = cn) sns = Some sn'"
    "sn' \<in> set sns" "m_Namespace (sn_meta sn') = cn"
    using find_member [OF sns(2), of "\<lambda>sn. m_Namespace (sn_meta sn) = cn"] names by auto
  have "m_Name (sn_meta sn') = nn_Namespace k"
    using sn_cache_IndexD(3) [OF cache sns(1,2) names(2) sn'(2,3)] names(1) by simp
  with sn sns sn' ok show "st_ToConsumerKey (NewServiceNamespaced cn snInf creator) w pk = Inr (Some k)"
    by (simp add: NewServiceNamespaced_def Let_def sns_ToConsumerKey_def ConsumerNamespace_def)
next
  fix w pk k
  assume ok: "sn_cache_ok snInf cn w"
    and to: "st_ToConsumerKey (NewServiceNamespaced cn snInf creator) w pk = Inr (Some k)"
  from to obtain sns sn where sn: "sni_ByIndex snInf w (nn_Namespace pk) = Inr sns"
    "find (\<lambda>sn. m_Namespace (sn_meta sn) = cn) sns = Some sn"
    "k = \<lparr>nn_Namespace = m_Name (sn_meta sn), nn_Name = nn_Name pk\<rparr>"
    by (auto simp: NewServiceNamespaced_def Let_def sns_ToConsumerKey_def ConsumerNamespace_def
        split: sum.splits option.splits if_splits)
  then have "sn \<in> set sns" "m_Namespace (sn_meta sn) = cn" by (auto simp: find_Some_iff)
  then have "sni_Get snInf w cn (m_Name (sn_meta sn)) = Inr sn"
    "nn_Namespace pk \<in> set (IndexServiceNamespaceByNamespace sn)"
    using sn_cache_IndexD(1,2) [OF ok sn(1)] by blast+
  with sn(3) show "st_ToProviderKey (NewServiceNamespaced cn snInf creator) w k = Inr (Some pk)"
    by (auto simp: NewServiceNamespaced_def Let_def sns_ToProviderKey_def ProviderNamespace_def
        IndexServiceNamespaceByNamespace_def split: if_splits)
qed (use SetNames_key in \<open>auto simp: NewServiceNamespaced_def Let_def sns_MutateMetadataAndSpec_def
      sns_MutateStatus_def\<close>)

text \<open>Without changing the world, ensuring a provider key is reading it.\<close>

lemma ensure_ready:
  assumes "st_ToProviderKey (NewServiceNamespaced cn snInf creator) w k = Inr (Some pk)"
  shows "st_EnsureProviderKey (NewServiceNamespaced cn snInf creator) w k = (Inr (Some pk), w)"
  using assms
  by (auto simp: NewServiceNamespaced_def Let_def sns_ToProviderKey_def sns_EnsureProviderKey_def
      ProviderNamespace_def split: sum.splits if_splits)

end
