(* ===== verification/Controllers.thy ===== *)
theory Controllers
  imports Unstructured_Objects
begin

text \<open>
  The part every controller of the program repeats: the work queue and the key functions of
  client-go, both parameters of the model, and the worker loop. The queue is a record of effects on
  the world. Each controller has its own \<open>processNextWorkItem\<close> and \<open>startWorker\<close>
  in the source; the theories of the controllers apply the definitions of this theory to their
  \<open>process\<close>. A worker that is never told to quit does not return, so the loop is a partial
  function.
\<close>

record 'w Queue =
  q_Add :: "string \<Rightarrow> 'w \<Rightarrow> 'w"
  q_AddAfter :: "string \<Rightarrow> duration \<Rightarrow> 'w \<Rightarrow> 'w"
  q_AddRateLimited :: "string \<Rightarrow> 'w \<Rightarrow> 'w"
  q_Forget :: "string \<Rightarrow> 'w \<Rightarrow> 'w"
  q_Done :: "string \<Rightarrow> 'w \<Rightarrow> 'w"
  q_Get :: "'w \<Rightarrow> (string \<times> bool) \<times> 'w"

text \<open>
  \<open>cache.DeletionHandlingMetaNamespaceKeyFunc\<close>, \<open>cache.MetaNamespaceKeyFunc\<close> and
  \<open>cache.SplitMetaNamespaceKey\<close>. An event carries an object, or the tombstone of one, as a
  value of type \<open>'e\<close>.
\<close>

record 'e KeyFuncs =
  kf_DeletionHandlingMetaNamespaceKeyFunc :: "'e \<Rightarrow> string result"
  kf_MetaNamespaceKeyFunc :: "'e \<Rightarrow> string result"
  kf_SplitMetaNamespaceKey :: "string \<Rightarrow> (string \<times> string) result"

text \<open>\<open>types.NamespacedName.String\<close>.\<close>

definition NamespacedName_String :: "NamespacedName \<Rightarrow> string" where
  "NamespacedName_String k = nn_Namespace k @ ''/'' @ nn_Name k"

definition processNextWorkItem ::
  "'w Queue \<Rightarrow> ('w \<Rightarrow> string \<Rightarrow> error option \<times> 'w) \<Rightarrow> 'w \<Rightarrow> bool \<times> 'w" where
  "processNextWorkItem q process w =
     (case q_Get q w of ((key, quit), w1) \<Rightarrow>
        if quit then (False, w1)
        else (case process w1 key of
            (Some err, w2) \<Rightarrow> (True, q_Done q key (q_AddRateLimited q key w2))
          | (None, w2) \<Rightarrow> (True, q_Done q key (q_Forget q key w2))))"

partial_function (option) startWorker ::
  "'w Queue \<Rightarrow> ('w \<Rightarrow> string \<Rightarrow> error option \<times> 'w) \<Rightarrow> 'w \<Rightarrow> 'w option" where
  "startWorker q process w =
     (case processNextWorkItem q process w of
        (continue, w1) \<Rightarrow> if continue then startWorker q process w1 else Some w1)"

text \<open>The key of an event, split into namespace and name, as the enqueue functions read it.\<close>

definition eventKey :: "'e KeyFuncs \<Rightarrow> 'e \<Rightarrow> (string \<times> string) result" where
  "eventKey kf e =
     (case kf_DeletionHandlingMetaNamespaceKeyFunc kf e of
        Inl err \<Rightarrow> Inl err
      | Inr key \<Rightarrow> kf_SplitMetaNamespaceKey kf key)"

text \<open>Queueing the keys of several objects; an object without a key is skipped.\<close>

fun enqueueAll :: "'w Queue \<Rightarrow> ('o \<Rightarrow> string result) \<Rightarrow> 'o list \<Rightarrow> 'w \<Rightarrow> 'w" where
  "enqueueAll q keyFunc [] w = w"
| "enqueueAll q keyFunc (ob # obs) w =
     (case keyFunc ob of
        Inl err \<Rightarrow> enqueueAll q keyFunc obs w
      | Inr key \<Rightarrow> enqueueAll q keyFunc obs (q_Add q key w))"

section \<open>Lemmas\<close>

text \<open>
  A queue that records what is done to it, over the world \<open>'w \<times> qevent list\<close>: the
  observer used to state what a controller enqueues.
\<close>

datatype qevent = QAdd string | QAddAfter string duration | QAddRateLimited string
  | QForget string | QDone string

definition recordingQueue :: "('w \<Rightarrow> (string \<times> bool) \<times> 'w) \<Rightarrow> ('w \<times> qevent list) Queue" where
  "recordingQueue get =
     \<lparr>q_Add = (\<lambda>k (w, l). (w, l @ [QAdd k])),
      q_AddAfter = (\<lambda>k d (w, l). (w, l @ [QAddAfter k d])),
      q_AddRateLimited = (\<lambda>k (w, l). (w, l @ [QAddRateLimited k])),
      q_Forget = (\<lambda>k (w, l). (w, l @ [QForget k])),
      q_Done = (\<lambda>k (w, l). (w, l @ [QDone k])),
      q_Get = (\<lambda>(w, l). case get w of (r, w') \<Rightarrow> (r, (w', l)))\<rparr>"

lemma recordingQueue_simps [simp]:
  "q_Add (recordingQueue get) k (w, l) = (w, l @ [QAdd k])"
  "q_AddAfter (recordingQueue get) k d (w, l) = (w, l @ [QAddAfter k d])"
  "q_AddRateLimited (recordingQueue get) k (w, l) = (w, l @ [QAddRateLimited k])"
  "q_Forget (recordingQueue get) k (w, l) = (w, l @ [QForget k])"
  "q_Done (recordingQueue get) k (w, l) = (w, l @ [QDone k])"
  "q_Get (recordingQueue get) (w, l) = (case get w of (r, w') \<Rightarrow> (r, (w', l)))"
  by (simp_all add: recordingQueue_def)

lemma enqueueAll_recording:
  "enqueueAll (recordingQueue get) keyFunc obs (w, l) =
     (w, l @ map QAdd [k. Inr k \<leftarrow> map keyFunc obs])"
  by (induction obs arbitrary: l) (auto split: sum.split)

text \<open>
  A key is retried exactly when its processing failed, and is released last in both cases.
\<close>

lemma processNextWorkItem_recording:
  assumes "get w = ((key, False), w1)" "process (w1, l) key = (r, (w2, l2))"
  shows "processNextWorkItem (recordingQueue get) process (w, l) =
     (True, (w2, l2 @ [if r = None then QForget key else QAddRateLimited key, QDone key]))"
  using assms by (cases r) (simp_all add: processNextWorkItem_def)

text \<open>The worker drains a queue that shuts down: it processes the keys in order and returns.\<close>

primrec drain :: "'w Queue \<Rightarrow> ('w \<Rightarrow> string \<Rightarrow> error option \<times> 'w) \<Rightarrow> nat \<Rightarrow> 'w \<Rightarrow> 'w option" where
  "drain q process 0 w = None"
| "drain q process (Suc n) w =
     (case processNextWorkItem q process w of
        (continue, w1) \<Rightarrow> if continue then drain q process n w1 else Some w1)"

lemma startWorker_drain: "drain q process n w = Some w' \<Longrightarrow> startWorker q process w = Some w'"
proof (induction n arbitrary: w)
  case 0
  then show ?case by simp
next
  case (Suc n)
  then show ?case
    by (subst startWorker.simps) (auto split: prod.splits if_splits)
qed

end
