(* ===== verification/Spec_Sync.thy ===== *)
theory Spec_Sync
  imports Isolation Controllers
begin

text \<open>
  The spec controller of the konnector
  (\<open>src/pkg/konnector/controllers/cluster/serviceexport/spec\<close>), which copies the metadata
  and the spec of consumer objects to the provider cluster and guards the deletion of the consumer
  object with a finalizer. The clients of the two clusters are function fields of the reconciler,
  as in the source; reads take the world, writes return it updated.
  The calls a reconciliation makes are observed by running it on a reconciler that records them.
\<close>

section \<open>The reconciler\<close>

record 'w spec_reconciler =
  sr_isolationStrategy :: "'w Strategy"
  sr_clusterNamespace :: string
  sr_getProviderObject :: "'w \<Rightarrow> string \<Rightarrow> string \<Rightarrow> Unstructured result"
  sr_createProviderObject :: "'w \<Rightarrow> Unstructured \<Rightarrow> Unstructured result \<times> 'w"
  sr_updateProviderObject :: "'w \<Rightarrow> Unstructured \<Rightarrow> error option \<times> 'w"
  sr_deleteProviderObject :: "'w \<Rightarrow> string \<Rightarrow> string \<Rightarrow> error option \<times> 'w"
  sr_updateConsumerObject :: "'w \<Rightarrow> Unstructured \<Rightarrow> Unstructured result \<times> 'w"
  sr_requeue :: "'w \<Rightarrow> Unstructured \<Rightarrow> duration \<Rightarrow> error option \<times> 'w"

definition ensureDownstreamFinalizer ::
  "'w spec_reconciler \<Rightarrow> 'w \<Rightarrow> Unstructured \<Rightarrow> Unstructured result \<times> 'w" where
  "ensureDownstreamFinalizer r w obj =
     (if DownstreamFinalizer \<notin> set (GetFinalizers obj)
      then sr_updateConsumerObject r w (SetFinalizers (GetFinalizers obj @ [DownstreamFinalizer]) obj)
      else (Inr obj, w))"

text \<open>The loop of \<open>removeDownstreamFinalizer\<close>: the other finalizers, and whether ours was there.\<close>

fun dropFinalizer :: "string list \<Rightarrow> string list \<times> bool" where
  "dropFinalizer [] = ([], False)"
| "dropFinalizer (f # fs) =
     (case dropFinalizer fs of (rest, found) \<Rightarrow>
        if f = DownstreamFinalizer then (rest, True) else (f # rest, found))"

definition removeDownstreamFinalizer ::
  "'w spec_reconciler \<Rightarrow> 'w \<Rightarrow> Unstructured \<Rightarrow> Unstructured result \<times> 'w" where
  "removeDownstreamFinalizer r w obj =
     (case dropFinalizer (GetFinalizers obj) of (finalizers, found) \<Rightarrow>
        if found then sr_updateConsumerObject r w (SetFinalizers finalizers obj)
        else (Inr obj, w))"

definition setClusterNamespaceAnnotation :: "string \<Rightarrow> Unstructured \<Rightarrow> Unstructured result" where
  "setClusterNamespaceAnnotation clusterNamespace obj =
     (case Mapping.lookup (GetAnnotations obj) ClusterNamespaceAnnotationKey of
        Some existing \<Rightarrow>
          if existing \<noteq> clusterNamespace
          then Inl (PlainError ''mismatch between existing cluster namespace and given cluster namespace'')
          else Inr obj
      | None \<Rightarrow>
          Inr (SetAnnotations (Mapping.update ClusterNamespaceAnnotationKey clusterNamespace
                 (GetAnnotations obj)) obj))"

text \<open>The object that is created on the provider: a cleaned copy of the consumer object.\<close>

definition cleanUpObject :: "Unstructured \<Rightarrow> Unstructured" where
  "cleanUpObject obj =
     RemoveNestedField ''status''
       (obj\<lparr>u_meta := (u_meta obj)\<lparr>m_UID := [], m_ResourceVersion := [], m_DeletionTimestamp := None,
                                   m_OwnerReferences := [], m_Finalizers := []\<rparr>,
            u_ManagedFields := JNull, u_DeletionGracePeriodSeconds := None\<rparr>)"

definition newUpstream ::
  "'w spec_reconciler \<Rightarrow> Unstructured \<Rightarrow> NamespacedName \<Rightarrow> Unstructured result" where
  "newUpstream r obj providerKey =
     (case setClusterNamespaceAnnotation (sr_clusterNamespace r) (cleanUpObject obj) of
        Inl err \<Rightarrow> Inl err
      | Inr upstream \<Rightarrow>
          st_MutateMetadataAndSpec (sr_isolationStrategy r)
            (SetSourceMetadataAnnotations upstream (GetNamespace obj) (GetUID obj)
               ConsumerNamespaceAnnotationKey ConsumerUIDAnnotationKey) providerKey)"

text \<open>The consumer object is going away: delete the provider object, then drop the finalizer.\<close>

definition syncDeletion ::
  "'w spec_reconciler \<Rightarrow> 'w \<Rightarrow> Unstructured \<Rightarrow> Unstructured \<Rightarrow> NamespacedName \<Rightarrow> error option \<times> 'w" where
  "syncDeletion r w obj upstream providerKey =
     (if IsDeleting upstream then (None, w)
      else (case sr_deleteProviderObject r w (nn_Namespace providerKey) (nn_Name providerKey) of
          (derr, w1) \<Rightarrow>
            (case derr of
               Some err \<Rightarrow>
                 if \<not> IsNotFound err then (Some err, w1)
                 else (case removeDownstreamFinalizer r w1 obj of
                     (Inl err, w2) \<Rightarrow> (Some err, w2) | (Inr _, w2) \<Rightarrow> (None, w2))
             | None \<Rightarrow>
                 (case removeDownstreamFinalizer r w1 obj of
                     (Inl err, w2) \<Rightarrow> (Some err, w2) | (Inr _, w2) \<Rightarrow> (None, w2)))))"

text \<open>The consumer object is live: bring annotations and spec of the provider object up to date.\<close>

definition syncSpec ::
  "'w spec_reconciler \<Rightarrow> 'w \<Rightarrow> Unstructured \<Rightarrow> Unstructured \<Rightarrow> error option \<times> 'w" where
  "syncSpec r w obj upstream =
     (case setClusterNamespaceAnnotation (sr_clusterNamespace r) upstream of
        Inl err \<Rightarrow> (Some err, w)
      | Inr upstream1 \<Rightarrow>
          let upstream2 = SetSourceMetadataAnnotations upstream1 (GetNamespace obj) (GetUID obj)
                ConsumerNamespaceAnnotationKey ConsumerUIDAnnotationKey
          in case ensureDownstreamFinalizer r w obj of
               (Inl err, w1) \<Rightarrow> (Some err, w1)
             | (Inr obj1, w1) \<Rightarrow>
                 (case NestedField obj1 ''spec'' of (downstreamSpec, foundDownstreamSpec) \<Rightarrow>
                    if downstreamSpec = fst (NestedField upstream2 ''spec'') then (None, w1)
                    else sr_updateProviderObject r w1
                           (if foundDownstreamSpec then SetNestedField downstreamSpec ''spec'' upstream2
                            else RemoveNestedField ''spec'' upstream2)))"

definition syncExisting ::
  "'w spec_reconciler \<Rightarrow> 'w \<Rightarrow> Unstructured \<Rightarrow> Unstructured \<Rightarrow> NamespacedName \<Rightarrow> error option \<times> 'w" where
  "syncExisting r w obj upstream providerKey =
     (if IsDeleting obj then syncDeletion r w obj upstream providerKey
      else syncSpec r w obj upstream)"

definition spec_reconcile :: "'w spec_reconciler \<Rightarrow> 'w \<Rightarrow> Unstructured \<Rightarrow> error option \<times> 'w" where
  "spec_reconcile r w obj =
     (case st_EnsureProviderKey (sr_isolationStrategy r) w (keyOf obj) of
        (Inl err, w1) \<Rightarrow> (Some err, w1)
      | (Inr None, w1) \<Rightarrow> sr_requeue r w1 obj Second
      | (Inr (Some providerKey), w1) \<Rightarrow>
          (case sr_getProviderObject r w1 (nn_Namespace providerKey) (nn_Name providerKey) of
             Inr upstream \<Rightarrow> syncExisting r w1 obj upstream providerKey
           | Inl err \<Rightarrow>
               if \<not> IsNotFound err then (Some err, w1)
               else if IsDeleting obj then
                 (case removeDownstreamFinalizer r w1 obj of
                    (Inl err, w2) \<Rightarrow> (Some err, w2) | (Inr _, w2) \<Rightarrow> (None, w2))
               else
                 (case ensureDownstreamFinalizer r w1 obj of
                    (Inl err, w2) \<Rightarrow> (Some err, w2)
                  | (Inr obj1, w2) \<Rightarrow>
                      (case newUpstream r obj1 providerKey of
                         Inl err \<Rightarrow> (Some err, w2)
                       | Inr upstream \<Rightarrow>
                           (case sr_createProviderObject r w2 upstream of
                              (Inl err, w3) \<Rightarrow>
                                if \<not> IsAlreadyExists err then (Some err, w3)
                                else syncExisting r w3 obj1 upstream providerKey
                            | (Inr _, w3) \<Rightarrow> syncExisting r w3 obj1 upstream providerKey)))))"

section \<open>The controller\<close>

text \<open>
  \<open>NewController\<close> wires the reconciler to the dynamic clients of the resource: a provider
  update is a forced server-side apply of the object without managed fields.
\<close>

record 'w spec_clients =
  cl_informerGet :: "'w \<Rightarrow> string \<Rightarrow> string \<Rightarrow> Unstructured result"
  cl_providerCreate :: "'w \<Rightarrow> string \<Rightarrow> Unstructured \<Rightarrow> Unstructured result \<times> 'w"
  cl_providerApply :: "'w \<Rightarrow> string \<Rightarrow> string \<Rightarrow> Unstructured \<Rightarrow> string \<Rightarrow> bool \<Rightarrow> Unstructured result \<times> 'w"
  cl_providerDelete :: "'w \<Rightarrow> string \<Rightarrow> string \<Rightarrow> error option \<times> 'w"
  cl_consumerUpdate :: "'w \<Rightarrow> string \<Rightarrow> Unstructured \<Rightarrow> Unstructured result \<times> 'w"

definition applyManager :: string where
  "applyManager = ''kube-bind.io''"

definition spec_NewController ::
  "'w Strategy \<Rightarrow> string \<Rightarrow> 'w spec_clients \<Rightarrow> 'w Queue \<Rightarrow> Unstructured KeyFuncs \<Rightarrow> 'w spec_reconciler" where
  "spec_NewController isolationStrategy providerNamespace cl queue kf =
     \<lparr>sr_isolationStrategy = isolationStrategy,
      sr_clusterNamespace = providerNamespace,
      sr_getProviderObject = cl_informerGet cl,
      sr_createProviderObject = (\<lambda>w obj. cl_providerCreate cl w (GetNamespace obj) obj),
      sr_updateProviderObject = (\<lambda>w obj.
        let obj1 = obj\<lparr>u_ManagedFields := JNull\<rparr>
        in case cl_providerApply cl w (GetNamespace obj1) (GetName obj1) obj1 applyManager True of
             (Inl err, w1) \<Rightarrow> (Some err, w1) | (Inr _, w1) \<Rightarrow> (None, w1)),
      sr_deleteProviderObject = cl_providerDelete cl,
      sr_updateConsumerObject = (\<lambda>w obj. cl_consumerUpdate cl w (GetNamespace obj) obj),
      sr_requeue = (\<lambda>w obj after.
        case kf_MetaNamespaceKeyFunc kf obj of
          Inl err \<Rightarrow> (Some err, w)
        | Inr key \<Rightarrow> (None, q_AddAfter queue key after w))\<rparr>"

record ('w, 'e) spec_controller =
  sc_queue :: "'w Queue"
  sc_keys :: "'e KeyFuncs"
  sc_objectKey :: "Unstructured \<Rightarrow> string result"
  sc_providerNamespace :: string
  sc_listerGet :: "'w \<Rightarrow> string \<Rightarrow> Unstructured result"
  sc_listerNamespaceGet :: "'w \<Rightarrow> string \<Rightarrow> string \<Rightarrow> Unstructured result"
  sc_byNamespaceIndex :: "'w \<Rightarrow> string \<Rightarrow> Unstructured list result"
  sc_reconciler :: "'w spec_reconciler"

definition spec_enqueueConsumer :: "('w, 'e) spec_controller \<Rightarrow> 'w \<Rightarrow> 'e \<Rightarrow> 'w" where
  "spec_enqueueConsumer c w ob =
     (case kf_DeletionHandlingMetaNamespaceKeyFunc (sc_keys c) ob of
        Inl err \<Rightarrow> w | Inr key \<Rightarrow> q_Add (sc_queue c) key w)"

definition spec_enqueueProvider :: "('w, 'e) spec_controller \<Rightarrow> 'w \<Rightarrow> 'e \<Rightarrow> 'w" where
  "spec_enqueueProvider c w ob =
     (case eventKey (sc_keys c) ob of
        Inl err \<Rightarrow> w
      | Inr (ns, name) \<Rightarrow>
          (case st_ToConsumerKey (sr_isolationStrategy (sc_reconciler c)) w
                  \<lparr>nn_Namespace = ns, nn_Name = name\<rparr> of
             Inl err \<Rightarrow> w
           | Inr None \<Rightarrow> w
           | Inr (Some consumerKey) \<Rightarrow> q_Add (sc_queue c) (NamespacedName_String consumerKey) w))"

definition spec_enqueueServiceNamespace :: "('w, 'e) spec_controller \<Rightarrow> 'w \<Rightarrow> 'e \<Rightarrow> 'w" where
  "spec_enqueueServiceNamespace c w ob =
     (case eventKey (sc_keys c) ob of
        Inl err \<Rightarrow> w
      | Inr (ns, name) \<Rightarrow>
          if ns \<noteq> sc_providerNamespace c then w
          else (case sc_byNamespaceIndex c w name of
              Inl err \<Rightarrow> w
            | Inr objs \<Rightarrow> enqueueAll (sc_queue c) (sc_objectKey c) objs w))"

definition spec_process :: "('w, 'e) spec_controller \<Rightarrow> 'w \<Rightarrow> string \<Rightarrow> error option \<times> 'w" where
  "spec_process c w key =
     (case kf_SplitMetaNamespaceKey (sc_keys c) key of
        Inl err \<Rightarrow> (None, w)
      | Inr (ns, name) \<Rightarrow>
          (case (if ns = [] then sc_listerGet c w name else sc_listerNamespaceGet c w ns name) of
             Inl err \<Rightarrow> if \<not> IsNotFound err then (Some err, w) else (None, w)
           | Inr obj \<Rightarrow> spec_reconcile (sc_reconciler c) w obj))"

definition spec_processNextWorkItem :: "('w, 'e) spec_controller \<Rightarrow> 'w \<Rightarrow> bool \<times> 'w" where
  "spec_processNextWorkItem c = processNextWorkItem (sc_queue c) (spec_process c)"

section \<open>Observing the calls\<close>

text \<open>
  A reconciler that records the calls it makes to the two API servers, in their order. Forgetting
  the record gives the run of the reconciler itself (\<open>spec_logged_erase\<close>).
\<close>

datatype spec_call = CreateProvider Unstructured | UpdateProvider Unstructured
  | DeleteProvider NamespacedName | UpdateConsumer Unstructured | Requeue Unstructured duration

definition liftStrategy :: "'w Strategy \<Rightarrow> ('w \<times> 'l) Strategy" where
  "liftStrategy S =
     \<lparr>st_ToProviderKey = (\<lambda>(w, l). st_ToProviderKey S w),
      st_ToConsumerKey = (\<lambda>(w, l). st_ToConsumerKey S w),
      st_EnsureProviderKey = (\<lambda>(w, l) k. case st_EnsureProviderKey S w k of (x, w1) \<Rightarrow> (x, (w1, l))),
      st_MutateMetadataAndSpec = st_MutateMetadataAndSpec S,
      st_MutateStatus = st_MutateStatus S\<rparr>"

definition spec_logged :: "'w spec_reconciler \<Rightarrow> ('w \<times> spec_call list) spec_reconciler" where
  "spec_logged r =
     \<lparr>sr_isolationStrategy = liftStrategy (sr_isolationStrategy r),
      sr_clusterNamespace = sr_clusterNamespace r,
      sr_getProviderObject = (\<lambda>(w, l). sr_getProviderObject r w),
      sr_createProviderObject = (\<lambda>(w, l) u.
        case sr_createProviderObject r w u of (x, w1) \<Rightarrow> (x, (w1, l @ [CreateProvider u]))),
      sr_updateProviderObject = (\<lambda>(w, l) u.
        case sr_updateProviderObject r w u of (x, w1) \<Rightarrow> (x, (w1, l @ [UpdateProvider u]))),
      sr_deleteProviderObject = (\<lambda>(w, l) ns n.
        case sr_deleteProviderObject r w ns n of
          (x, w1) \<Rightarrow> (x, (w1, l @ [DeleteProvider \<lparr>nn_Namespace = ns, nn_Name = n\<rparr>]))),
      sr_updateConsumerObject = (\<lambda>(w, l) u.
        case sr_updateConsumerObject r w u of (x, w1) \<Rightarrow> (x, (w1, l @ [UpdateConsumer u]))),
      sr_requeue = (\<lambda>(w, l) u d. case sr_requeue r w u d of (x, w1) \<Rightarrow> (x, (w1, l @ [Requeue u d])))\<rparr>"

definition spec_calls :: "'w spec_reconciler \<Rightarrow> 'w \<Rightarrow> Unstructured \<Rightarrow> spec_call list" where
  "spec_calls r w obj = snd (snd (spec_reconcile (spec_logged r) (w, []) obj))"

section \<open>Lemmas\<close>

lemma spec_logged_simps [simp]:
  "st_EnsureProviderKey (sr_isolationStrategy (spec_logged r)) (w, l) k =
     (case st_EnsureProviderKey (sr_isolationStrategy r) w k of (x, w1) \<Rightarrow> (x, (w1, l)))"
  "st_MutateMetadataAndSpec (sr_isolationStrategy (spec_logged r)) =
     st_MutateMetadataAndSpec (sr_isolationStrategy r)"
  "sr_clusterNamespace (spec_logged r) = sr_clusterNamespace r"
  "sr_getProviderObject (spec_logged r) (w, l) ns n = sr_getProviderObject r w ns n"
  "sr_createProviderObject (spec_logged r) (w, l) u =
     (case sr_createProviderObject r w u of (x, w1) \<Rightarrow> (x, (w1, l @ [CreateProvider u])))"
  "sr_updateProviderObject (spec_logged r) (w, l) u =
     (case sr_updateProviderObject r w u of (x, w1) \<Rightarrow> (x, (w1, l @ [UpdateProvider u])))"
  "sr_deleteProviderObject (spec_logged r) (w, l) ns n =
     (case sr_deleteProviderObject r w ns n of
        (x, w1) \<Rightarrow> (x, (w1, l @ [DeleteProvider \<lparr>nn_Namespace = ns, nn_Name = n\<rparr>])))"
  "sr_updateConsumerObject (spec_logged r) (w, l) u =
     (case sr_updateConsumerObject r w u of (x, w1) \<Rightarrow> (x, (w1, l @ [UpdateConsumer u])))"
  "sr_requeue (spec_logged r) (w, l) u d =
     (case sr_requeue r w u d of (x, w1) \<Rightarrow> (x, (w1, l @ [Requeue u d])))"
  by (simp_all add: spec_logged_def liftStrategy_def)

lemma dropFinalizer_eq:
  "dropFinalizer fs = (filter (\<lambda>f. f \<noteq> DownstreamFinalizer) fs, DownstreamFinalizer \<in> set fs)"
  by (induction fs) auto

lemma removeDownstreamFinalizer_eq:
  "removeDownstreamFinalizer r w obj =
     (if DownstreamFinalizer \<in> set (GetFinalizers obj)
      then sr_updateConsumerObject r w
             (SetFinalizers (filter (\<lambda>f. f \<noteq> DownstreamFinalizer) (GetFinalizers obj)) obj)
      else (Inr obj, w))"
  by (simp add: removeDownstreamFinalizer_def dropFinalizer_eq)

lemma newUpstream_logged [simp]: "newUpstream (spec_logged r) = newUpstream r"
  by (intro ext) (simp add: newUpstream_def split: sum.split)

text \<open>The logged run of each part is its run, with the calls appended.\<close>

lemma ensureDownstreamFinalizer_logged:
  "ensureDownstreamFinalizer (spec_logged r) (w, l) obj =
     (case ensureDownstreamFinalizer r w obj of (x, w1) \<Rightarrow>
        (x, (w1, l @ (if DownstreamFinalizer \<in> set (GetFinalizers obj) then []
           else [UpdateConsumer (SetFinalizers (GetFinalizers obj @ [DownstreamFinalizer]) obj)]))))"
  by (simp add: ensureDownstreamFinalizer_def split: prod.split)

lemma removeDownstreamFinalizer_logged:
  "removeDownstreamFinalizer (spec_logged r) (w, l) obj =
     (case removeDownstreamFinalizer r w obj of (x, w1) \<Rightarrow>
        (x, (w1, l @ (if DownstreamFinalizer \<in> set (GetFinalizers obj)
           then [UpdateConsumer (SetFinalizers
                  (filter (\<lambda>f. f \<noteq> DownstreamFinalizer) (GetFinalizers obj)) obj)]
           else []))))"
  by (simp add: removeDownstreamFinalizer_eq split: prod.split)

lemma setClusterNamespaceAnnotation_ok:
  assumes "setClusterNamespaceAnnotation cn u = Inr u'"
  shows "Mapping.lookup (GetAnnotations u') ClusterNamespaceAnnotationKey = Some cn"
    and "keyOf u' = keyOf u" "u_fields u' = u_fields u" "GetFinalizers u' = GetFinalizers u"
    and "IsDeleting u' = IsDeleting u" "GetUID u' = GetUID u"
    and "k \<noteq> ClusterNamespaceAnnotationKey \<Longrightarrow>
      Mapping.lookup (GetAnnotations u') k = Mapping.lookup (GetAnnotations u) k"
  using assms
  by (auto simp: setClusterNamespaceAnnotation_def IsDeleting_def SetAnnotations_def GetUID_def
      GetAnnotations_def GetFinalizers_def keyOf_def GetName_def GetNamespace_def
      split: option.splits if_splits)

lemma cleanUpObject_simps [simp]:
  "keyOf (cleanUpObject u) = keyOf u" "GetFinalizers (cleanUpObject u) = []"
  "GetAnnotations (cleanUpObject u) = GetAnnotations u"
  "u_fields (cleanUpObject u) = Mapping.delete ''status'' (u_fields u)"
  "IsDeleting (cleanUpObject u) = False" "GetUID (cleanUpObject u) = []"
  by (simp_all add: cleanUpObject_def keyOf_def accessor_defs IsDeleting_def)

subsection \<open>What the API servers promise\<close>

text \<open>
  An update of a consumer object returns the object as it was submitted, up to the bookkeeping
  fields of the server, and a read returns an object under the key that was asked for.
\<close>

definition sameContent :: "Unstructured \<Rightarrow> Unstructured \<Rightarrow> bool" where
  "sameContent u v \<longleftrightarrow> keyOf u = keyOf v \<and> u_fields u = u_fields v \<and>
     GetAnnotations u = GetAnnotations v \<and> GetUID u = GetUID v \<and> IsDeleting u = IsDeleting v"

definition consumerEcho :: "'w spec_reconciler \<Rightarrow> bool" where
  "consumerEcho r \<longleftrightarrow> (\<forall>w u v w'. sr_updateConsumerObject r w u = (Inr v, w') \<longrightarrow>
     sameContent v u \<and> GetFinalizers v = GetFinalizers u)"

definition providerReads :: "'w spec_reconciler \<Rightarrow> bool" where
  "providerReads r \<longleftrightarrow> (\<forall>w ns n u. sr_getProviderObject r w ns n = Inr u \<longrightarrow>
     keyOf u = \<lparr>nn_Namespace = ns, nn_Name = n\<rparr>)"

text \<open>
  The contract of a call made while reconciling the consumer object \<open>obj\<close> with the provider
  key \<open>pk\<close>.
\<close>

fun spec_call_ok :: "string \<Rightarrow> NamespacedName \<Rightarrow> Unstructured \<Rightarrow> spec_call \<Rightarrow> bool" where
  "spec_call_ok cn pk obj (CreateProvider u) \<longleftrightarrow>
     \<not> IsDeleting obj \<and> keyOf u = pk \<and>
     Mapping.lookup (GetAnnotations u) ClusterNamespaceAnnotationKey = Some cn \<and>
     Mapping.lookup (GetAnnotations u) ConsumerUIDAnnotationKey = Some (GetUID obj) \<and>
     u_fields u = Mapping.delete ''status'' (u_fields obj) \<and> GetFinalizers u = []"
| "spec_call_ok cn pk obj (UpdateProvider u) \<longleftrightarrow>
     \<not> IsDeleting obj \<and> keyOf u = pk \<and>
     Mapping.lookup (GetAnnotations u) ClusterNamespaceAnnotationKey = Some cn \<and>
     Mapping.lookup (GetAnnotations u) ConsumerUIDAnnotationKey = Some (GetUID obj) \<and>
     Mapping.lookup (u_fields u) ''spec'' = Mapping.lookup (u_fields obj) ''spec''"
| "spec_call_ok cn pk obj (DeleteProvider k) \<longleftrightarrow> IsDeleting obj \<and> k = pk"
| "spec_call_ok cn pk obj (UpdateConsumer u) \<longleftrightarrow>
     sameContent u obj \<and>
     (if IsDeleting obj
      then DownstreamFinalizer \<in> set (GetFinalizers obj) \<and>
        GetFinalizers u = filter (\<lambda>f. f \<noteq> DownstreamFinalizer) (GetFinalizers obj)
      else DownstreamFinalizer \<notin> set (GetFinalizers obj) \<and>
        GetFinalizers u = GetFinalizers obj @ [DownstreamFinalizer])"
| "spec_call_ok cn pk obj (Requeue u d) \<longleftrightarrow> False"

lemma sameContent_refl [simp]: "sameContent u u"
  by (simp add: sameContent_def)

lemma sameContent_trans: "sameContent u v \<Longrightarrow> sameContent v x \<Longrightarrow> sameContent u x"
  by (simp add: sameContent_def)

lemma sameContent_SetFinalizers [simp]: "sameContent (SetFinalizers f u) u"
  by (simp add: sameContent_def IsDeleting_def SetFinalizers_def accessor_defs keyOf_def)

lemma consumerEchoD:
  "consumerEcho r \<Longrightarrow> sr_updateConsumerObject r w u = (Inr v, w') \<Longrightarrow>
     sameContent v u \<and> GetFinalizers v = GetFinalizers u"
  by (auto simp: consumerEcho_def)

text \<open>After the finalizer is ensured the object has it, and is otherwise unchanged.\<close>

lemma ensureDownstreamFinalizer_ok:
  assumes "consumerEcho r" "ensureDownstreamFinalizer r w obj = (Inr obj1, w1)"
  shows "sameContent obj1 obj" "DownstreamFinalizer \<in> set (GetFinalizers obj1)"
proof -
  have "sameContent obj1 obj \<and> DownstreamFinalizer \<in> set (GetFinalizers obj1)"
  proof (cases "DownstreamFinalizer \<in> set (GetFinalizers obj)")
    case True
    with assms(2) show ?thesis by (simp add: ensureDownstreamFinalizer_def)
  next
    case False
    with assms(2) consumerEchoD [OF assms(1)]
    have "sameContent obj1 (SetFinalizers (GetFinalizers obj @ [DownstreamFinalizer]) obj) \<and>
        GetFinalizers obj1 = GetFinalizers obj @ [DownstreamFinalizer]"
      by (fastforce simp: ensureDownstreamFinalizer_def)
    then show ?thesis using sameContent_trans [OF _ sameContent_SetFinalizers] by auto
  qed
  then show "sameContent obj1 obj" "DownstreamFinalizer \<in> set (GetFinalizers obj1)" by blast+
qed

lemma ensureDownstreamFinalizer_present [simp]:
  "DownstreamFinalizer \<in> set (GetFinalizers obj) \<Longrightarrow> ensureDownstreamFinalizer r w obj = (Inr obj, w)"
  by (simp add: ensureDownstreamFinalizer_def)

lemma newUpstream_ok:
  assumes "isolation_strategy (sr_isolationStrategy r) cOk pOk"
    and "st_EnsureProviderKey (sr_isolationStrategy r) w (keyOf obj) = (Inr (Some pk), w1)"
    and "newUpstream r obj pk = Inr u"
  shows "keyOf u = pk" "u_fields u = Mapping.delete ''status'' (u_fields obj)" "GetFinalizers u = []"
    "Mapping.lookup (GetAnnotations u) ClusterNamespaceAnnotationKey = Some (sr_clusterNamespace r)"
    "Mapping.lookup (GetAnnotations u) ConsumerUIDAnnotationKey = Some (GetUID obj)"
proof -
  from assms(3) obtain u1 where u1:
    "setClusterNamespaceAnnotation (sr_clusterNamespace r) (cleanUpObject obj) = Inr u1"
    and u: "st_MutateMetadataAndSpec (sr_isolationStrategy r)
      (SetSourceMetadataAnnotations u1 (GetNamespace obj) (GetUID obj)
         ConsumerNamespaceAnnotationKey ConsumerUIDAnnotationKey) pk = Inr u"
    by (auto simp: newUpstream_def split: sum.splits)
  note u1_ok = setClusterNamespaceAnnotation_ok [OF u1]
  note u_ok = isolation_strategy.mutate_content [OF assms(1) u]
  show "keyOf u = pk"
    by (rule isolation_strategy.ensure_mutate_key [OF assms(1) _ u]) (use assms(2) u1_ok in simp)
  show "u_fields u = Mapping.delete ''status'' (u_fields obj)" "GetFinalizers u = []"
    using u_ok u1_ok by simp_all
  show "Mapping.lookup (GetAnnotations u) ClusterNamespaceAnnotationKey = Some (sr_clusterNamespace r)"
    "Mapping.lookup (GetAnnotations u) ConsumerUIDAnnotationKey = Some (GetUID obj)"
    using u_ok u1_ok(1) annotation_keys_distinct by (simp_all add: source_annotations_lookup)
qed

lemma syncSpec_calls:
  assumes "consumerEcho r" "keyOf upstream = pk" "\<not> IsDeleting obj0" "sameContent obj obj0"
    and "DownstreamFinalizer \<in> set (GetFinalizers obj) \<or> obj = obj0"
    and "list_all (spec_call_ok (sr_clusterNamespace r) pk obj0) l"
    and "syncSpec (spec_logged r) (w, l) obj upstream = (e, (w', l'))"
  shows "list_all (spec_call_ok (sr_clusterNamespace r) pk obj0) l'"
proof (cases "setClusterNamespaceAnnotation (sr_clusterNamespace r) upstream")
  case (Inl e)
  with assms show ?thesis by (simp add: syncSpec_def)
next
  case (Inr u1)
  note u1 = setClusterNamespaceAnnotation_ok [OF Inr]
  obtain res w1 where fin: "ensureDownstreamFinalizer r w obj = (res, w1)" by fastforce
  define l1 where "l1 = l @ (if DownstreamFinalizer \<in> set (GetFinalizers obj) then []
           else [UpdateConsumer (SetFinalizers (GetFinalizers obj @ [DownstreamFinalizer]) obj)])"
  have l1: "list_all (spec_call_ok (sr_clusterNamespace r) pk obj0) l1"
    using assms(3-6) by (auto simp: l1_def)
  show ?thesis
  proof (cases res)
    case (Inl e)
    with assms(7) Inr fin l1 show ?thesis
      by (simp add: syncSpec_def ensureDownstreamFinalizer_logged flip: l1_def)
  next
    case (Inr obj1)
    have "sameContent obj1 obj0"
      using ensureDownstreamFinalizer_ok(1) [OF assms(1)] fin Inr assms(4) sameContent_trans by blast
    then show ?thesis
      using assms(2,3,4,7) Inr fin l1 u1 \<open>setClusterNamespaceAnnotation _ _ = _\<close> annotation_keys_distinct
      by (auto simp: syncSpec_def Let_def ensureDownstreamFinalizer_logged NestedField_def sameContent_def
          source_annotations_lookup simp flip: l1_def split: prod.splits if_splits option.splits)
  qed
qed

lemma syncDeletion_calls:
  assumes "IsDeleting obj" "list_all (spec_call_ok cn pk obj) l"
    and "syncDeletion (spec_logged r) (w, l) obj upstream pk = (e, (w', l'))"
  shows "list_all (spec_call_ok cn pk obj) l'"
  using assms
  by (auto simp: syncDeletion_def removeDownstreamFinalizer_logged
      split: prod.splits if_splits option.splits sum.splits)

lemma syncExisting_calls:
  assumes "consumerEcho r" "keyOf upstream = pk" "sameContent obj obj0"
    and "DownstreamFinalizer \<in> set (GetFinalizers obj) \<and> \<not> IsDeleting obj0 \<or> obj = obj0"
    and "list_all (spec_call_ok (sr_clusterNamespace r) pk obj0) l"
    and "syncExisting (spec_logged r) (w, l) obj upstream pk = (e, (w', l'))"
  shows "list_all (spec_call_ok (sr_clusterNamespace r) pk obj0) l'"
proof (cases "IsDeleting obj")
  case True
  with assms(3,4) have "obj = obj0" by (auto simp: sameContent_def)
  with True assms(5,6) show ?thesis using syncDeletion_calls by (fastforce simp: syncExisting_def)
next
  case False
  with assms(3) have "\<not> IsDeleting obj0" by (simp add: sameContent_def)
  with False assms show ?thesis
    using syncSpec_calls [OF assms(1,2) _ assms(3) _ assms(5)] by (auto simp: syncExisting_def)
qed

lemma spec_reconcile_calls:
  assumes S: "isolation_strategy (sr_isolationStrategy r) cOk pOk"
    and "consumerEcho r" "providerReads r"
    and key: "st_EnsureProviderKey (sr_isolationStrategy r) w (keyOf obj) = (Inr (Some pk), w1)"
    and run: "spec_reconcile (spec_logged r) (w, []) obj = (e, (w', l'))"
  shows "list_all (spec_call_ok (sr_clusterNamespace r) pk obj) l'"
proof (cases "sr_getProviderObject r w1 (nn_Namespace pk) (nn_Name pk)")
  case (Inr upstream)
  with \<open>providerReads r\<close> have "keyOf upstream = pk" by (simp add: providerReads_def)
  from syncExisting_calls [OF \<open>consumerEcho r\<close> this, of obj obj "[]"] Inr run key show ?thesis
    by (auto simp: spec_reconcile_def)
next
  case (Inl err)
  note get = Inl
  consider "\<not> IsNotFound err" | "IsNotFound err" "IsDeleting obj" | "IsNotFound err" "\<not> IsDeleting obj"
    by blast
  then show ?thesis
  proof cases
    case 1
    with get run key show ?thesis by (auto simp: spec_reconcile_def)
  next
    case 2
    with get run key show ?thesis
      by (auto simp: spec_reconcile_def removeDownstreamFinalizer_logged
          split: prod.splits sum.splits if_splits)
  next
    case 3
    obtain res w2 where fin: "ensureDownstreamFinalizer r w1 obj = (res, w2)" by fastforce
    define l1 where "l1 = (if DownstreamFinalizer \<in> set (GetFinalizers obj) then []
           else [UpdateConsumer (SetFinalizers (GetFinalizers obj @ [DownstreamFinalizer]) obj)])"
    have l1: "list_all (spec_call_ok (sr_clusterNamespace r) pk obj) l1"
      using 3 by (auto simp: l1_def)
    have fin': "ensureDownstreamFinalizer (spec_logged r) (w1, []) obj = (res, (w2, l1))"
      by (simp add: ensureDownstreamFinalizer_logged fin l1_def)
    show ?thesis
    proof (cases res)
      case (Inl e)
      with 3 get run key fin' l1 show ?thesis by (auto simp: spec_reconcile_def)
    next
      case (Inr obj1)
      have obj1: "sameContent obj1 obj" "DownstreamFinalizer \<in> set (GetFinalizers obj1)"
        using ensureDownstreamFinalizer_ok [OF \<open>consumerEcho r\<close>] fin Inr by blast+
      show ?thesis
      proof (cases "newUpstream r obj1 pk")
        case (Inl e)
        with Inr 3 get run key fin' l1 show ?thesis by (auto simp: spec_reconcile_def)
      next
        case up: (Inr u)
        have "st_EnsureProviderKey (sr_isolationStrategy r) w (keyOf obj1) = (Inr (Some pk), w1)"
          using key obj1(1) by (simp add: sameContent_def)
        note u = newUpstream_ok [OF S this up]
        obtain c w3 where c: "sr_createProviderObject r w2 u = (c, w3)" by fastforce
        have l2: "list_all (spec_call_ok (sr_clusterNamespace r) pk obj) (l1 @ [CreateProvider u])"
          using l1 u obj1 3 by (simp add: sameContent_def)
        show ?thesis
          using run key get 3 fin' Inr up c l2
            syncExisting_calls [OF \<open>consumerEcho r\<close> u(1) obj1(1) _ l2, of w3 e w' l'] obj1(2)
          by (auto simp: spec_reconcile_def split: sum.splits if_splits)
      qed
    qed
  qed
qed

text \<open>Forgetting the recorded calls gives the run of the reconciler itself.\<close>

lemma spec_logged_erase:
  "map_prod id fst (spec_reconcile (spec_logged r) (w, l) obj) = spec_reconcile r w obj"
proof -
  have sp: "map_prod id fst (syncSpec (spec_logged r) (w, l) ob u) = syncSpec r w ob u" for w l ob u
    by (simp add: syncSpec_def Let_def ensureDownstreamFinalizer_logged
        split: prod.split sum.split if_split)
  have de: "map_prod id fst (syncDeletion (spec_logged r) (w, l) ob u k) = syncDeletion r w ob u k"
    for w l ob u k
    by (simp add: syncDeletion_def removeDownstreamFinalizer_logged
        split: prod.split sum.split if_split option.split)
  have ex: "map_prod id fst (syncExisting (spec_logged r) (w, l) ob u k) = syncExisting r w ob u k"
    for w l ob u k
    by (simp add: syncExisting_def sp de)
  show ?thesis
    by (simp add: spec_reconcile_def ensureDownstreamFinalizer_logged removeDownstreamFinalizer_logged
        ex split: prod.split sum.split if_split option.split)
qed

subsection \<open>Convergence\<close>

text \<open>
  The provider side behaves as a store that the informer cache follows: an object that was created
  or applied is read back, an object the cache does not have can be created, an update of a
  consumer object does not change provider objects, and none of the writes changes the provider key
  of an object that has one.
\<close>

definition readsBack :: "'w spec_reconciler \<Rightarrow> 'w \<Rightarrow> Unstructured \<Rightarrow> bool" where
  "readsBack r w u \<longleftrightarrow> (\<exists>v. sr_getProviderObject r w (GetNamespace u) (GetName u) = Inr v \<and>
     specOf v = specOf u \<and>
     Mapping.lookup (GetAnnotations v) ClusterNamespaceAnnotationKey =
       Mapping.lookup (GetAnnotations u) ClusterNamespaceAnnotationKey)"

definition keysStable :: "'w spec_reconciler \<Rightarrow> 'w \<Rightarrow> 'w \<Rightarrow> bool" where
  "keysStable r w w' \<longleftrightarrow> (\<forall>k pk. st_EnsureProviderKey (sr_isolationStrategy r) w k = (Inr (Some pk), w) \<longrightarrow>
     st_EnsureProviderKey (sr_isolationStrategy r) w' k = (Inr (Some pk), w'))"

definition providerStore :: "'w spec_reconciler \<Rightarrow> bool" where
  "providerStore r \<longleftrightarrow>
     (\<forall>w u v w'. sr_createProviderObject r w u = (Inr v, w') \<longrightarrow> readsBack r w' u \<and> keysStable r w w') \<and>
     (\<forall>w u e w' e'. sr_createProviderObject r w u = (Inl e, w') \<longrightarrow> IsAlreadyExists e \<longrightarrow>
        sr_getProviderObject r w (GetNamespace u) (GetName u) \<noteq> Inl e') \<and>
     (\<forall>w u w'. sr_updateProviderObject r w u = (None, w') \<longrightarrow> readsBack r w' u \<and> keysStable r w w') \<and>
     (\<forall>w u v w'. sr_updateConsumerObject r w u = (Inr v, w') \<longrightarrow>
        (\<forall>ns n. sr_getProviderObject r w' ns n = sr_getProviderObject r w ns n) \<and> keysStable r w w')"

lemma keysStable_refl [simp]: "keysStable r w w"
  by (simp add: keysStable_def)

lemma keysStable_trans: "keysStable r w w1 \<Longrightarrow> keysStable r w1 w2 \<Longrightarrow> keysStable r w w2"
  by (auto simp: keysStable_def)

lemma providerStoreD:
  assumes "providerStore r"
  shows "sr_createProviderObject r w u = (Inr v, w') \<Longrightarrow> readsBack r w' u \<and> keysStable r w w'"
    and "sr_createProviderObject r w u = (Inl e, w') \<Longrightarrow> IsAlreadyExists e \<Longrightarrow>
      sr_getProviderObject r w (GetNamespace u) (GetName u) \<noteq> Inl e'"
    and "sr_updateProviderObject r w u = (None, w') \<Longrightarrow> readsBack r w' u \<and> keysStable r w w'"
    and "sr_updateConsumerObject r w u = (Inr v, w') \<Longrightarrow>
      sr_getProviderObject r w' ns n = sr_getProviderObject r w ns n \<and> keysStable r w w'"
  using assms unfolding providerStore_def by blast+

lemma ensureDownstreamFinalizer_store:
  assumes "providerStore r" "ensureDownstreamFinalizer r w obj = (Inr obj1, w1)"
  shows "sr_getProviderObject r w1 ns n = sr_getProviderObject r w ns n" "keysStable r w w1"
  using assms(2) providerStoreD(4) [OF assms(1)]
  by (auto simp: ensureDownstreamFinalizer_def split: if_splits)

text \<open>The state a live consumer object is driven to.\<close>

definition specSynced :: "'w spec_reconciler \<Rightarrow> 'w \<Rightarrow> NamespacedName \<Rightarrow> Unstructured \<Rightarrow> bool" where
  "specSynced r w pk obj \<longleftrightarrow>
     (\<exists>v. sr_getProviderObject r w (nn_Namespace pk) (nn_Name pk) = Inr v \<and> specOf v = specOf obj \<and>
        Mapping.lookup (GetAnnotations v) ClusterNamespaceAnnotationKey \<in> {None, Some (sr_clusterNamespace r)})"

lemma syncSpec_converges:
  assumes "providerStore r" "consumerEcho r" "keyOf upstream = pk" "readsBack r w upstream"
    and run: "syncSpec r w obj upstream = (None, w')"
  shows "specSynced r w' pk obj" "keysStable r w w'"
proof -
  from run obtain u1 obj1 w1 where u1: "setClusterNamespaceAnnotation (sr_clusterNamespace r) upstream = Inr u1"
    and fin: "ensureDownstreamFinalizer r w obj = (Inr obj1, w1)"
    by (auto simp: syncSpec_def Let_def split: sum.splits prod.splits)
  note u1_ok = setClusterNamespaceAnnotation_ok [OF u1]
  note fr = ensureDownstreamFinalizer_store [OF assms(1) fin]
  have spec1: "Mapping.lookup (u_fields obj1) ''spec'' = Mapping.lookup (u_fields obj) ''spec''"
    using ensureDownstreamFinalizer_ok(1) [OF assms(2) fin] by (simp add: sameContent_def)
  then have sp: "specOf obj1 = specOf obj" by (simp add: specOf_def NestedField_def)
  have annotation: "Mapping.lookup (GetAnnotations upstream) ClusterNamespaceAnnotationKey
      \<in> {None, Some (sr_clusterNamespace r)}"
    using u1 by (auto simp: setClusterNamespaceAnnotation_def split: option.splits if_splits)
  define up where "up = SetSourceMetadataAnnotations u1 (GetNamespace obj) (GetUID obj)
                ConsumerNamespaceAnnotationKey ConsumerUIDAnnotationKey"
  have up: "keyOf up = pk" "u_fields up = u_fields upstream"
    "Mapping.lookup (GetAnnotations up) ClusterNamespaceAnnotationKey = Some (sr_clusterNamespace r)"
    using u1_ok assms(3) annotation_keys_distinct by (simp_all add: up_def source_annotations_lookup)
  have "specSynced r w' pk obj \<and> keysStable r w1 w'"
  proof (cases "specOf obj1 = specOf up")
    case True
    then have "w' = w1" using run u1 fin by (auto simp: syncSpec_def Let_def specOf_def up_def
          split: prod.splits if_splits)
    moreover have "specOf upstream = specOf obj" using True up(2) sp specOf_cong by metis
    ultimately show ?thesis using assms(3,4) fr annotation
      by (auto simp: specSynced_def readsBack_def keyOf_def)
  next
    case False
    obtain u2 where u2: "sr_updateProviderObject r w1 u2 = (None, w')" "keyOf u2 = keyOf up"
      "specOf u2 = specOf obj1" "GetAnnotations u2 = GetAnnotations up"
      using run u1 fin False that [of "if snd (NestedField obj1 ''spec'')
          then SetNestedField (specOf obj1) ''spec'' up else RemoveNestedField ''spec'' up"]
      by (auto simp: syncSpec_def Let_def specOf_def NestedField_def simp flip: up_def
          split: prod.splits if_splits option.splits)
    show ?thesis
      using providerStoreD(3) [OF assms(1) u2(1)] u2 up sp
      by (auto simp: specSynced_def readsBack_def keyOf_def)
  qed
  with keysStable_trans [OF fr(2)] show "specSynced r w' pk obj" "keysStable r w w'" by blast+
qed

text \<open>A synchronised object is left alone.\<close>

lemma spec_reconcile_synced:
  assumes "specSynced r w pk obj" "\<not> IsDeleting obj" "DownstreamFinalizer \<in> set (GetFinalizers obj)"
    and "st_EnsureProviderKey (sr_isolationStrategy r) w (keyOf obj) = (Inr (Some pk), w)"
  shows "spec_reconcile (spec_logged r) (w, l) obj = (None, (w, l))"
proof -
  from assms(1) obtain v where v: "sr_getProviderObject r w (nn_Namespace pk) (nn_Name pk) = Inr v"
    "specOf v = specOf obj" "Mapping.lookup (GetAnnotations v) ClusterNamespaceAnnotationKey
       \<in> {None, Some (sr_clusterNamespace r)}"
    unfolding specSynced_def by blast
  then obtain v1 where v1: "setClusterNamespaceAnnotation (sr_clusterNamespace r) v = Inr v1"
    by (auto simp: setClusterNamespaceAnnotation_def)
  have "specOf v1 = specOf obj" using setClusterNamespaceAnnotation_ok(3) [OF v1] v(2) specOf_cong by metis
  with v v1 assms(2-4) show ?thesis
    by (auto simp: spec_reconcile_def syncExisting_def syncSpec_def Let_def specOf_def NestedField_def
        split: prod.splits option.splits)
qed

lemma spec_reconcile_converges:
  assumes S: "isolation_strategy (sr_isolationStrategy r) cOk pOk"
    and "providerStore r" "consumerEcho r" "providerReads r" "\<not> IsDeleting obj"
    and key: "st_EnsureProviderKey (sr_isolationStrategy r) w (keyOf obj) = (Inr (Some pk), w)"
    and run: "spec_reconcile r w obj = (None, w')"
  shows "specSynced r w' pk obj" "keysStable r w w'"
proof -
  have "specSynced r w' pk obj \<and> keysStable r w w'"
  proof (cases "sr_getProviderObject r w (nn_Namespace pk) (nn_Name pk)")
    case (Inr upstream)
    with \<open>providerReads r\<close> have "keyOf upstream = pk" by (simp add: providerReads_def)
    moreover from this Inr have "readsBack r w upstream" by (auto simp: readsBack_def keyOf_def)
    moreover have "syncSpec r w obj upstream = (None, w')"
      using run key Inr \<open>\<not> IsDeleting obj\<close> by (simp add: spec_reconcile_def syncExisting_def)
    ultimately show ?thesis using syncSpec_converges [OF assms(2,3)] by blast
  next
    case (Inl err)
    from run key Inl \<open>\<not> IsDeleting obj\<close> obtain obj1 w2 where nf: "IsNotFound err"
      and fin: "ensureDownstreamFinalizer r w obj = (Inr obj1, w2)"
      by (auto simp: spec_reconcile_def split: if_splits prod.splits sum.splits)
    have obj1: "sameContent obj1 obj" "DownstreamFinalizer \<in> set (GetFinalizers obj1)"
      using ensureDownstreamFinalizer_ok [OF assms(3) fin] by blast+
    note fr = ensureDownstreamFinalizer_store [OF assms(2) fin]
    have "\<not> IsDeleting obj1" using obj1 assms(5) by (simp add: sameContent_def)
    from run key Inl nf fin \<open>\<not> IsDeleting obj\<close> obtain u where u: "newUpstream r obj1 pk = Inr u"
      by (auto simp: spec_reconcile_def split: if_splits prod.splits sum.splits)
    have key1: "st_EnsureProviderKey (sr_isolationStrategy r) w (keyOf obj1) = (Inr (Some pk), w)"
      using key obj1 by (simp add: sameContent_def)
    note u_ok = newUpstream_ok [OF S key1 u]
    obtain c w3 where c: "sr_createProviderObject r w2 u = (c, w3)" by fastforce
    have "sr_getProviderObject r w2 (GetNamespace u) (GetName u) = Inl err"
      using fr(1) Inl u_ok(1) by (auto simp: keyOf_def)
    with providerStoreD(2) [OF assms(2)] c have ne: "c = Inl e \<Longrightarrow> \<not> IsAlreadyExists e" for e by blast
    have run2: "(case c of Inl e \<Rightarrow> if \<not> IsAlreadyExists e then (Some e, w3)
        else syncExisting r w3 obj1 u pk | Inr x \<Rightarrow> syncExisting r w3 obj1 u pk) = (None, w')"
      using run by (simp add: spec_reconcile_def key Inl nf fin u c \<open>\<not> IsDeleting obj\<close> cong: sum.case_cong)
    obtain v where v: "c = Inr v" "syncSpec r w3 obj1 u = (None, w')"
    proof (cases c)
      case (Inl e)
      with run2 ne show ?thesis by simp
    next
      case (Inr v)
      with run2 \<open>\<not> IsDeleting obj1\<close> show ?thesis by (intro that) (simp_all add: syncExisting_def)
    qed
    have st: "readsBack r w3 u" "keysStable r w2 w3" using providerStoreD(1) [OF assms(2)] c v by blast+
    note fin2 = syncSpec_converges [OF assms(2,3) u_ok(1) st(1) v(2)]
    have "specOf obj1 = specOf obj" using obj1(1) by (simp add: sameContent_def specOf_def NestedField_def)
    with fin2(1) have "specSynced r w' pk obj" by (simp add: specSynced_def)
    then show ?thesis using keysStable_trans [OF keysStable_trans [OF fr(2) st(2)] fin2(2)] by blast
  qed
  then show "specSynced r w' pk obj" "keysStable r w w'" by blast+
qed

section \<open>A concrete provider cluster\<close>

text \<open>
  A provider cluster that is a map from keys to objects, with a consumer cluster that accepts every
  update. It keeps the promises stated above, and the examples below run on it.
\<close>

type_synonym providerMap = "NamespacedName \<Rightarrow> Unstructured option"

definition mapGet :: "providerMap \<Rightarrow> string \<Rightarrow> string \<Rightarrow> Unstructured result" where
  "mapGet w ns n =
     (case w \<lparr>nn_Namespace = ns, nn_Name = n\<rparr> of
        None \<Rightarrow> Inl (StatusError ReasonNotFound ''not found'')
      | Some u \<Rightarrow> if keyOf u = \<lparr>nn_Namespace = ns, nn_Name = n\<rparr> then Inr u
                  else Inl (StatusError ReasonNotFound ''not found''))"

definition mapReconciler :: "string \<Rightarrow> string \<Rightarrow> providerMap spec_reconciler" where
  "mapReconciler cn uid =
     \<lparr>sr_isolationStrategy = NewNone cn uid, sr_clusterNamespace = cn,
      sr_getProviderObject = mapGet,
      sr_createProviderObject = (\<lambda>w u.
        case mapGet w (GetNamespace u) (GetName u) of
          Inr v \<Rightarrow> (Inl (StatusError ReasonAlreadyExists ''already exists''), w)
        | Inl e \<Rightarrow> (Inr u, w(keyOf u \<mapsto> u))),
      sr_updateProviderObject = (\<lambda>w u. (None, w(keyOf u \<mapsto> u))),
      sr_deleteProviderObject = (\<lambda>w ns n. (None, w(\<lparr>nn_Namespace = ns, nn_Name = n\<rparr> := None))),
      sr_updateConsumerObject = (\<lambda>w u. (Inr u, w)),
      sr_requeue = (\<lambda>w u d. (None, w))\<rparr>"

lemma mapReconciler_strategy:
  "isolation_strategy (sr_isolationStrategy (mapReconciler cn uid)) (\<lambda>w k. True) (\<lambda>w k. True)"
  by (simp add: mapReconciler_def none.isolation_strategy_axioms)

lemma mapGet_key: "mapGet w ns n = Inr u \<Longrightarrow> keyOf u = \<lparr>nn_Namespace = ns, nn_Name = n\<rparr>"
  by (auto simp: mapGet_def split: option.splits if_splits)

lemma mapGet_update [simp]: "mapGet (w(keyOf u \<mapsto> u)) (GetNamespace u) (GetName u) = Inr u"
  by (simp add: mapGet_def keyOf_def)

lemma mapReconciler_promises:
  "consumerEcho (mapReconciler cn uid)" "providerReads (mapReconciler cn uid)"
  "providerStore (mapReconciler cn uid)"
proof -
  show "consumerEcho (mapReconciler cn uid)" by (simp add: consumerEcho_def mapReconciler_def)
  show "providerReads (mapReconciler cn uid)"
    by (auto simp: providerReads_def mapReconciler_def dest: mapGet_key)
  have stable: "keysStable (mapReconciler cn uid) w w'" for w w'
    by (simp add: keysStable_def mapReconciler_def NewNone_def)
  show "providerStore (mapReconciler cn uid)"
    unfolding providerStore_def by (simp add: stable)
      (auto simp: readsBack_def mapReconciler_def split: sum.splits)
qed

definition exampleMeta :: ObjectMeta where
  "exampleMeta = emptyMeta\<lparr>m_Name := ''db'', m_Namespace := ''team'', m_UID := ''1''\<rparr>"

definition exampleObject :: Unstructured where
  "exampleObject =
     \<lparr>u_meta = exampleMeta, u_ManagedFields = JNull, u_DeletionGracePeriodSeconds = None,
      u_fields = Mapping.update ''spec'' (JStr ''size: 1'') Mapping.empty\<rparr>"

definition exampleDeleting :: Unstructured where
  "exampleDeleting = exampleObject\<lparr>u_meta := exampleMeta\<lparr>m_DeletionTimestamp := Some 1,
     m_Finalizers := [DownstreamFinalizer]\<rparr>\<rparr>"

lemma example_ready [simp]:
  "st_EnsureProviderKey (sr_isolationStrategy (mapReconciler cn uid)) w k = (Inr (Some k), w)"
  by (simp add: mapReconciler_def NewNone_def none_ToProviderKey_def)

lemmas example_defs = mapReconciler_def NewNone_def none_ToProviderKey_def mapGet_def
  exampleObject_def exampleDeleting_def exampleMeta_def emptyMeta_def keyOf_def accessor_defs
  IsDeleting_def IsZeroTime_def

section \<open>Properties\<close>





text \<open>
  C3: the finalizer protects the provider object: while the consumer object is being deleted, the
  finalizer is removed only when the provider object was not found, or when its deletion was
  requested first and accepted (or answered that it is gone).
\<close>

theorem spec_finalizer_guard:
  assumes "st_EnsureProviderKey (sr_isolationStrategy r) w (keyOf obj) = (Inr (Some pk), w1)"
    and "IsDeleting obj" "UpdateConsumer u \<in> set (spec_calls r w obj)"
  shows "(\<exists>e. sr_getProviderObject r w1 (nn_Namespace pk) (nn_Name pk) = Inl e \<and> IsNotFound e) \<or>
     (spec_calls r w obj = [DeleteProvider pk, UpdateConsumer u] \<and>
      (case fst (sr_deleteProviderObject r w1 (nn_Namespace pk) (nn_Name pk)) of
         None \<Rightarrow> True | Some e \<Rightarrow> IsNotFound e))"
proof (cases "sr_getProviderObject r w1 (nn_Namespace pk) (nn_Name pk)")
  case (Inl e)
  with assms show ?thesis
    by (auto simp: spec_calls_def spec_reconcile_def split: if_splits)
next
  case (Inr up)
  with assms show ?thesis
    by (auto simp: spec_calls_def spec_reconcile_def syncExisting_def syncDeletion_def
        removeDownstreamFinalizer_logged split: if_splits prod.splits option.splits sum.splits)
qed

theorem spec_finalizer_guard_witness:
  "spec_calls (mapReconciler ''cluster-a'' ''u'') [keyOf exampleObject \<mapsto> exampleObject] exampleDeleting =
     [DeleteProvider (keyOf exampleObject), UpdateConsumer (SetFinalizers [] exampleDeleting)]"
proof -
  let ?r = "mapReconciler ''cluster-a'' ''u''" and ?w = "[keyOf exampleObject \<mapsto> exampleObject]"
  have k: "keyOf exampleDeleting = keyOf exampleObject" by (simp add: example_defs)
  have "UpdateConsumer (SetFinalizers [] exampleDeleting) \<in> set (spec_calls ?r ?w exampleDeleting)"
    by (simp add: spec_calls_def spec_reconcile_def syncExisting_def syncDeletion_def
        removeDownstreamFinalizer_logged removeDownstreamFinalizer_eq example_defs)
  moreover have "IsDeleting exampleDeleting" by (simp add: example_defs)
  moreover have "mapGet ?w (nn_Namespace (keyOf exampleObject)) (nn_Name (keyOf exampleObject)) = Inr exampleObject"
    by (simp add: mapGet_def keyOf_def)
  ultimately show ?thesis
    using spec_finalizer_guard [where r = ?r and obj = exampleDeleting
        and u = "SetFinalizers [] exampleDeleting" and w = ?w, OF example_ready] k
    by (auto simp: mapReconciler_def)
qed

end
