(* ===== verification/Status_Sync.thy ===== *)
theory Status_Sync
  imports Spec_Sync
begin

text \<open>
  The status controller of the konnector
  (\<open>src/pkg/konnector/controllers/cluster/serviceexport/status\<close>), which copies the status
  of provider objects to the consumer objects they belong to, traces the provider object in
  annotations of the consumer object, and deletes provider objects whose consumer object is gone.
\<close>

section \<open>The reconciler\<close>

record 'w status_reconciler =
  tr_isolationStrategy :: "'w Strategy"
  tr_getConsumerObject :: "'w \<Rightarrow> string \<Rightarrow> string \<Rightarrow> Unstructured result"
  tr_updateConsumerObject :: "'w \<Rightarrow> Unstructured \<Rightarrow> Unstructured result \<times> 'w"
  tr_updateConsumerObjectStatus :: "'w \<Rightarrow> Unstructured \<Rightarrow> Unstructured result \<times> 'w"
  tr_deleteProviderObject :: "'w \<Rightarrow> string \<Rightarrow> string \<Rightarrow> error option \<times> 'w"

text \<open>The last part of the reconciliation: the status of the consumer object.\<close>

definition copyStatus ::
  "'w status_reconciler \<Rightarrow> 'w \<Rightarrow> Unstructured \<Rightarrow> Unstructured \<Rightarrow> NamespacedName \<Rightarrow> error option \<times> 'w" where
  "copyStatus r w obj downstream consumerKey =
     (case st_MutateStatus (tr_isolationStrategy r) downstream consumerKey of
        Inl err \<Rightarrow> (Some err, w)
      | Inr orig \<Rightarrow>
          (case NestedField obj ''status'' of (status, found) \<Rightarrow>
             let downstream1 = (if found then SetNestedField status ''status'' orig
                                else RemoveNestedField ''status'' orig)
             in if orig \<noteq> downstream1 then
                  (case tr_updateConsumerObjectStatus r w downstream1 of
                     (Inl err, w1) \<Rightarrow> (Some err, w1) | (Inr _, w1) \<Rightarrow> (None, w1))
                else (None, w)))"

definition annotateProvider :: "Unstructured \<Rightarrow> Unstructured \<Rightarrow> Unstructured" where
  "annotateProvider obj downstream =
     SetSourceMetadataAnnotations downstream (GetNamespace obj) (GetUID obj)
       ProviderNamespaceAnnotationKey ProviderUIDAnnotationKey"

definition status_reconcile :: "'w status_reconciler \<Rightarrow> 'w \<Rightarrow> Unstructured \<Rightarrow> error option \<times> 'w" where
  "status_reconcile r w obj =
     (case st_ToConsumerKey (tr_isolationStrategy r) w (keyOf obj) of
        Inl err \<Rightarrow> if \<not> IsNotFound err then (Some err, w) else (None, w)
      | Inr None \<Rightarrow> (None, w)
      | Inr (Some consumerKey) \<Rightarrow>
          (case tr_getConsumerObject r w (nn_Namespace consumerKey) (nn_Name consumerKey) of
             Inl err \<Rightarrow>
               if IsNotFound err then tr_deleteProviderObject r w (GetNamespace obj) (GetName obj)
               else (Some err, w)
           | Inr downstream \<Rightarrow>
               let annotated = annotateProvider obj downstream
               in if GetAnnotations downstream \<noteq> GetAnnotations annotated then
                    (case tr_updateConsumerObject r w annotated of
                       (Inl err, w1) \<Rightarrow> (Some err, w1)
                     | (Inr downstream1, w1) \<Rightarrow> copyStatus r w1 obj downstream1 consumerKey)
                  else copyStatus r w obj downstream consumerKey))"

section \<open>The controller\<close>

text \<open>
  The field \<open>tc_serviceNamespaced\<close> is the type assertion of the strategy to
  \<open>*isolation.ServiceNamespacedStrategy\<close>.
\<close>

record ('w, 'e) status_controller =
  tc_queue :: "'w Queue"
  tc_keys :: "'e KeyFuncs"
  tc_objectKey :: "Unstructured \<Rightarrow> string result"
  tc_providerNamespace :: string
  tc_serviceNamespaced :: "'w ServiceNamespacedStrategy option"
  tc_listerNamespaceGet :: "'w \<Rightarrow> string \<Rightarrow> string \<Rightarrow> Unstructured result"
  tc_informerGet :: "'w \<Rightarrow> string \<Rightarrow> string \<Rightarrow> Unstructured result"
  tc_informerList :: "'w \<Rightarrow> string \<Rightarrow> Unstructured list result"
  tc_consumerUpdate :: "'w \<Rightarrow> string \<Rightarrow> Unstructured \<Rightarrow> Unstructured result \<times> 'w"
  tc_reconciler :: "'w status_reconciler"

record 'w status_clients =
  tcl_listerGet :: "'w \<Rightarrow> string \<Rightarrow> Unstructured result"
  tcl_listerNamespaceGet :: "'w \<Rightarrow> string \<Rightarrow> string \<Rightarrow> Unstructured result"
  tcl_consumerUpdate :: "'w \<Rightarrow> string \<Rightarrow> Unstructured \<Rightarrow> Unstructured result \<times> 'w"
  tcl_consumerUpdateStatus :: "'w \<Rightarrow> string \<Rightarrow> Unstructured \<Rightarrow> Unstructured result \<times> 'w"
  tcl_providerDelete :: "'w \<Rightarrow> string \<Rightarrow> string \<Rightarrow> error option \<times> 'w"

definition status_NewController :: "'w Strategy \<Rightarrow> 'w status_clients \<Rightarrow> 'w status_reconciler" where
  "status_NewController isolationStrategy cl =
     \<lparr>tr_isolationStrategy = isolationStrategy,
      tr_getConsumerObject = (\<lambda>w ns name.
        if ns \<noteq> [] then tcl_listerNamespaceGet cl w ns name else tcl_listerGet cl w name),
      tr_updateConsumerObject = (\<lambda>w obj. tcl_consumerUpdate cl w (GetNamespace obj) obj),
      tr_updateConsumerObjectStatus = (\<lambda>w obj. tcl_consumerUpdateStatus cl w (GetNamespace obj) obj),
      tr_deleteProviderObject = tcl_providerDelete cl\<rparr>"

definition status_enqueueProvider :: "('w, 'e) status_controller \<Rightarrow> 'w \<Rightarrow> 'e \<Rightarrow> 'w" where
  "status_enqueueProvider c w ob =
     (case kf_DeletionHandlingMetaNamespaceKeyFunc (tc_keys c) ob of
        Inl err \<Rightarrow> w
      | Inr key \<Rightarrow>
          (case kf_SplitMetaNamespaceKey (tc_keys c) key of
             Inl err \<Rightarrow> w
           | Inr (ns, name) \<Rightarrow>
               (case st_ToConsumerKey (tr_isolationStrategy (tc_reconciler c)) w
                       \<lparr>nn_Namespace = ns, nn_Name = name\<rparr> of
                  Inl err \<Rightarrow> w
                | Inr None \<Rightarrow> w
                | Inr (Some consumerKey) \<Rightarrow> q_Add (tc_queue c) key w)))"

definition status_enqueueConsumer :: "('w, 'e) status_controller \<Rightarrow> 'w \<Rightarrow> 'e \<Rightarrow> 'w" where
  "status_enqueueConsumer c w ob =
     (case eventKey (tc_keys c) ob of
        Inl err \<Rightarrow> w
      | Inr (ns, name) \<Rightarrow>
          (case st_ToProviderKey (tr_isolationStrategy (tc_reconciler c)) w
                  \<lparr>nn_Namespace = ns, nn_Name = name\<rparr> of
             Inl err \<Rightarrow> w
           | Inr None \<Rightarrow> w
           | Inr (Some providerKey) \<Rightarrow> q_Add (tc_queue c) (NamespacedName_String providerKey) w))"

definition status_enqueueServiceNamespace :: "('w, 'e) status_controller \<Rightarrow> 'w \<Rightarrow> 'e \<Rightarrow> 'w" where
  "status_enqueueServiceNamespace c w ob =
     (case eventKey (tc_keys c) ob of
        Inl err \<Rightarrow> w
      | Inr (ns, name) \<Rightarrow>
          if ns \<noteq> tc_providerNamespace c then w
          else (case tc_serviceNamespaced c of
              None \<Rightarrow> w
            | Some strategy \<Rightarrow>
                (case ProviderNamespace strategy w name of
                   Inl err \<Rightarrow> w
                 | Inr nsOnProviderCluster \<Rightarrow>
                     if nsOnProviderCluster = [] then w
                     else (case tc_informerList c w nsOnProviderCluster of
                         Inl err \<Rightarrow> w
                       | Inr objs \<Rightarrow> enqueueAll (tc_queue c) (tc_objectKey c) objs w))))"

text \<open>
  A consumer object that disappeared meanwhile is no error; the client then returns no object.
\<close>

definition status_removeDownstreamFinalizer ::
  "('w, 'e) status_controller \<Rightarrow> 'w \<Rightarrow> Unstructured \<Rightarrow> Unstructured option result \<times> 'w" where
  "status_removeDownstreamFinalizer c w obj =
     (case dropFinalizer (GetFinalizers obj) of (finalizers, found) \<Rightarrow>
        if found then
          (case tc_consumerUpdate c w (GetNamespace obj) (SetFinalizers finalizers obj) of
             (Inl err, w1) \<Rightarrow> if \<not> IsNotFound err then (Inl err, w1) else (Inr None, w1)
           | (Inr obj1, w1) \<Rightarrow> (Inr (Some obj1), w1))
        else (Inr (Some obj), w))"

definition status_process :: "('w, 'e) status_controller \<Rightarrow> 'w \<Rightarrow> string \<Rightarrow> error option \<times> 'w" where
  "status_process c w key =
     (case kf_SplitMetaNamespaceKey (tc_keys c) key of
        Inl err \<Rightarrow> (None, w)
      | Inr (ns, name) \<Rightarrow>
          (case tc_informerGet c w ns name of
             Inl err \<Rightarrow>
               if \<not> IsNotFound err then (Some err, w)
               else (case tc_listerNamespaceGet c w ns name of
                   Inl err \<Rightarrow> if \<not> IsNotFound err then (Some err, w) else (None, w)
                 | Inr downstream \<Rightarrow>
                     (case status_removeDownstreamFinalizer c w downstream of
                        (Inl err, w1) \<Rightarrow> (Some err, w1) | (Inr _, w1) \<Rightarrow> (None, w1)))
           | Inr obj \<Rightarrow> status_reconcile (tc_reconciler c) w obj))"

definition status_processNextWorkItem :: "('w, 'e) status_controller \<Rightarrow> 'w \<Rightarrow> bool \<times> 'w" where
  "status_processNextWorkItem c = processNextWorkItem (tc_queue c) (status_process c)"

section \<open>Observing the calls\<close>

datatype status_call = DeleteUpstream NamespacedName | UpdateDownstream Unstructured
  | UpdateDownstreamStatus Unstructured

definition status_logged :: "'w status_reconciler \<Rightarrow> ('w \<times> status_call list) status_reconciler" where
  "status_logged r =
     \<lparr>tr_isolationStrategy = liftStrategy (tr_isolationStrategy r),
      tr_getConsumerObject = (\<lambda>(w, l). tr_getConsumerObject r w),
      tr_updateConsumerObject = (\<lambda>(w, l) u.
        case tr_updateConsumerObject r w u of (x, w1) \<Rightarrow> (x, (w1, l @ [UpdateDownstream u]))),
      tr_updateConsumerObjectStatus = (\<lambda>(w, l) u.
        case tr_updateConsumerObjectStatus r w u of
          (x, w1) \<Rightarrow> (x, (w1, l @ [UpdateDownstreamStatus u]))),
      tr_deleteProviderObject = (\<lambda>(w, l) ns n.
        case tr_deleteProviderObject r w ns n of
          (x, w1) \<Rightarrow> (x, (w1, l @ [DeleteUpstream \<lparr>nn_Namespace = ns, nn_Name = n\<rparr>])))\<rparr>"

definition status_calls :: "'w status_reconciler \<Rightarrow> 'w \<Rightarrow> Unstructured \<Rightarrow> status_call list" where
  "status_calls r w obj = snd (snd (status_reconcile (status_logged r) (w, []) obj))"

section \<open>Lemmas\<close>

lemma status_logged_simps [simp]:
  "st_ToConsumerKey (tr_isolationStrategy (status_logged r)) (w, l) k =
     st_ToConsumerKey (tr_isolationStrategy r) w k"
  "st_MutateStatus (tr_isolationStrategy (status_logged r)) = st_MutateStatus (tr_isolationStrategy r)"
  "tr_getConsumerObject (status_logged r) (w, l) ns n = tr_getConsumerObject r w ns n"
  "tr_updateConsumerObject (status_logged r) (w, l) u =
     (case tr_updateConsumerObject r w u of (x, w1) \<Rightarrow> (x, (w1, l @ [UpdateDownstream u])))"
  "tr_updateConsumerObjectStatus (status_logged r) (w, l) u =
     (case tr_updateConsumerObjectStatus r w u of (x, w1) \<Rightarrow> (x, (w1, l @ [UpdateDownstreamStatus u])))"
  "tr_deleteProviderObject (status_logged r) (w, l) ns n =
     (case tr_deleteProviderObject r w ns n of
        (x, w1) \<Rightarrow> (x, (w1, l @ [DeleteUpstream \<lparr>nn_Namespace = ns, nn_Name = n\<rparr>])))"
  by (simp_all add: status_logged_def liftStrategy_def)

lemma status_logged_erase:
  "map_prod id fst (status_reconcile (status_logged r) (w, l) obj) = status_reconcile r w obj"
  by (simp add: status_reconcile_def copyStatus_def Let_def
      split: prod.split sum.split option.split if_split)

subsection \<open>What the consumer cluster promises\<close>

text \<open>
  Reads return the object asked for; a write is read back, with the content that was submitted, and
  does not change how keys are translated.
\<close>

definition consumerReads :: "'w status_reconciler \<Rightarrow> bool" where
  "consumerReads r \<longleftrightarrow> (\<forall>w ns n u. tr_getConsumerObject r w ns n = Inr u \<longrightarrow>
     keyOf u = \<lparr>nn_Namespace = ns, nn_Name = n\<rparr>)"

definition consumerStore :: "'w status_reconciler \<Rightarrow> bool" where
  "consumerStore r \<longleftrightarrow> (\<forall>w u v w'.
     tr_updateConsumerObject r w u = (Inr v, w') \<or> tr_updateConsumerObjectStatus r w u = (Inr v, w') \<longrightarrow>
     sameContent v u \<and> GetFinalizers v = GetFinalizers u \<and>
     tr_getConsumerObject r w' (GetNamespace u) (GetName u) = Inr v \<and>
     st_ToConsumerKey (tr_isolationStrategy r) w' = st_ToConsumerKey (tr_isolationStrategy r) w)"

lemma consumerStoreD:
  assumes "consumerStore r"
    and "tr_updateConsumerObject r w u = (Inr v, w') \<or> tr_updateConsumerObjectStatus r w u = (Inr v, w')"
  shows "sameContent v u" "GetFinalizers v = GetFinalizers u" "keyOf v = keyOf u"
    "tr_getConsumerObject r w' (nn_Namespace (keyOf u)) (nn_Name (keyOf u)) = Inr v"
    "st_ToConsumerKey (tr_isolationStrategy r) w' = st_ToConsumerKey (tr_isolationStrategy r) w"
  using assms unfolding consumerStore_def sameContent_def keyOf_def by fastforce+

text \<open>The contract of the writes to the consumer object \<open>d\<close> with key \<open>ck\<close>.\<close>

fun status_call_ok :: "NamespacedName \<Rightarrow> Unstructured \<Rightarrow> Unstructured \<Rightarrow> status_call \<Rightarrow> bool" where
  "status_call_ok ck obj d (DeleteUpstream k) \<longleftrightarrow> False"
| "status_call_ok ck obj d (UpdateDownstream u) \<longleftrightarrow>
     keyOf u = ck \<and> u_fields u = u_fields d \<and> GetFinalizers u = GetFinalizers d \<and>
     (\<forall>k. Mapping.lookup (GetAnnotations u) k =
        (if k = ProviderUIDAnnotationKey then Some (GetUID obj)
         else if k = ProviderNamespaceAnnotationKey then Some (GetNamespace obj)
         else Mapping.lookup (GetAnnotations d) k))"
| "status_call_ok ck obj d (UpdateDownstreamStatus u) \<longleftrightarrow>
     keyOf u = ck \<and> GetFinalizers u = GetFinalizers d \<and>
     (\<forall>f. Mapping.lookup (u_fields u) f =
        Mapping.lookup (u_fields (if f = ''status'' then obj else d)) f)"

lemma annotateProvider_simps [simp]:
  "keyOf (annotateProvider obj d) = keyOf d" "u_fields (annotateProvider obj d) = u_fields d"
  "GetFinalizers (annotateProvider obj d) = GetFinalizers d"
  "Mapping.lookup (GetAnnotations (annotateProvider obj d)) k =
        (if k = ProviderUIDAnnotationKey then Some (GetUID obj)
         else if k = ProviderNamespaceAnnotationKey then Some (GetNamespace obj)
         else Mapping.lookup (GetAnnotations d) k)"
  by (simp_all add: annotateProvider_def source_annotations_lookup)

text \<open>The object with the status of the provider object.\<close>

definition withStatus :: "Unstructured \<Rightarrow> Unstructured \<Rightarrow> Unstructured" where
  "withStatus obj d =
     (case NestedField obj ''status'' of (status, found) \<Rightarrow>
        if found then SetNestedField status ''status'' d else RemoveNestedField ''status'' d)"

lemma withStatus_simps [simp]:
  "keyOf (withStatus obj d) = keyOf d" "GetFinalizers (withStatus obj d) = GetFinalizers d"
  "GetAnnotations (withStatus obj d) = GetAnnotations d"
  "Mapping.lookup (u_fields (withStatus obj d)) f =
     Mapping.lookup (u_fields (if f = ''status'' then obj else d)) f"
  by (auto simp: withStatus_def NestedField_def GetFinalizers_def split: option.splits)

lemma withStatus_same: "Mapping.lookup (u_fields d) ''status'' = Mapping.lookup (u_fields obj) ''status''
  \<Longrightarrow> withStatus obj d = d"
proof -
  assume "Mapping.lookup (u_fields d) ''status'' = Mapping.lookup (u_fields obj) ''status''"
  then have "u_fields (withStatus obj d) = u_fields d" by (intro mapping_eqI) simp
  then show ?thesis
    by (simp add: withStatus_def SetNestedField_def RemoveNestedField_def split: prod.splits if_splits)
qed

lemma copyStatus_logged:
  assumes "isolation_strategy (tr_isolationStrategy r) cOk pOk" "keyOf d = ck"
  shows "copyStatus (status_logged r) (w, l) obj d ck =
     (if d = withStatus obj d then (None, (w, l))
      else (case tr_updateConsumerObjectStatus r w (withStatus obj d) of
          (x, w1) \<Rightarrow> (case x of Inl e \<Rightarrow> Some e | Inr _ \<Rightarrow> None,
                     (w1, l @ [UpdateDownstreamStatus (withStatus obj d)]))))"
  using isolation_strategy.status_mutate [OF assms]
  by (simp add: copyStatus_def withStatus_def Let_def split: prod.split sum.split)

lemma status_reconcile_logged:
  assumes "isolation_strategy (tr_isolationStrategy r) cOk pOk" "keyOf d = ck" "consumerStore r"
    and "st_ToConsumerKey (tr_isolationStrategy r) w (keyOf obj) = Inr (Some ck)"
    and "tr_getConsumerObject r w (nn_Namespace ck) (nn_Name ck) = Inr d"
  shows "status_reconcile (status_logged r) (w, l) obj =
     (if GetAnnotations d = GetAnnotations (annotateProvider obj d)
      then copyStatus (status_logged r) (w, l) obj d ck
      else (case tr_updateConsumerObject r w (annotateProvider obj d) of
          (Inl e, w1) \<Rightarrow> (Some e, (w1, l @ [UpdateDownstream (annotateProvider obj d)]))
        | (Inr d1, w1) \<Rightarrow>
            copyStatus (status_logged r) (w1, l @ [UpdateDownstream (annotateProvider obj d)]) obj d1 ck))"
  using assms by (simp add: status_reconcile_def Let_def split: prod.split sum.split)

lemma copyStatus_calls:
  assumes "isolation_strategy (tr_isolationStrategy r) cOk pOk" "keyOf d1 = ck"
    and "u_fields d1 = u_fields d" "GetFinalizers d1 = GetFinalizers d"
    and "list_all (status_call_ok ck obj d) l"
  shows "list_all (status_call_ok ck obj d) (snd (snd (copyStatus (status_logged r) (w, l) obj d1 ck)))"
  using assms(2-) by (simp add: copyStatus_logged [OF assms(1,2)] split: prod.split)

text \<open>A consumer object with the status of its provider object and the annotations is left alone.\<close>

lemma status_synced:
  assumes "isolation_strategy (tr_isolationStrategy r) cOk pOk" "keyOf d = ck" "consumerStore r"
    and "st_ToConsumerKey (tr_isolationStrategy r) w (keyOf obj) = Inr (Some ck)"
    and "tr_getConsumerObject r w (nn_Namespace ck) (nn_Name ck) = Inr d"
    and "Mapping.lookup (u_fields d) ''status'' = Mapping.lookup (u_fields obj) ''status''"
    and "GetAnnotations d = GetAnnotations (annotateProvider obj d)"
  shows "status_reconcile (status_logged r) (w, l) obj = (None, (w, l))"
  using assms(7) withStatus_same [OF assms(6)]
  by (simp add: status_reconcile_logged [OF assms(1-5)] copyStatus_logged [OF assms(1,2)])

lemma annotateProvider_fix:
  "GetAnnotations d = GetAnnotations (annotateProvider obj d0) \<Longrightarrow>
     GetAnnotations d = GetAnnotations (annotateProvider obj d)"
  by (rule mapping_eqI) simp

lemma copyStatus_converges:
  assumes "isolation_strategy (tr_isolationStrategy r) cOk pOk" "keyOf d1 = ck" "consumerStore r"
    and "tr_getConsumerObject r w (nn_Namespace ck) (nn_Name ck) = Inr d1"
    and "GetAnnotations d1 = GetAnnotations (annotateProvider obj d1)"
    and run: "copyStatus (status_logged r) (w, l) obj d1 ck = (None, (w', l'))"
  shows "\<exists>v. tr_getConsumerObject r w' (nn_Namespace ck) (nn_Name ck) = Inr v \<and> keyOf v = ck \<and>
     (\<forall>f. Mapping.lookup (u_fields v) f =
        Mapping.lookup (u_fields (if f = ''status'' then obj else d1)) f) \<and>
     GetAnnotations v = GetAnnotations (annotateProvider obj v) \<and>
     st_ToConsumerKey (tr_isolationStrategy r) w' = st_ToConsumerKey (tr_isolationStrategy r) w"
proof (cases "d1 = withStatus obj d1")
  case True
  moreover from this have "w' = w" using run by (simp add: copyStatus_logged [OF assms(1,2)])
  moreover have "Mapping.lookup (u_fields d1) f =
        Mapping.lookup (u_fields (if f = ''status'' then obj else d1)) f" for f
    by (subst True) simp
  ultimately show ?thesis using assms(2,4,5) by blast
next
  case False
  then obtain v where v: "tr_updateConsumerObjectStatus r w (withStatus obj d1) = (Inr v, w')"
    using run by (auto simp: copyStatus_logged [OF assms(1,2)] split: prod.splits sum.splits if_splits)
  note vD = consumerStoreD [OF assms(3) disjI2, OF v]
  have "GetAnnotations v = GetAnnotations d1" using vD(1) by (simp add: sameContent_def)
  with assms(5) have "GetAnnotations v = GetAnnotations (annotateProvider obj v)"
    using annotateProvider_fix by metis
  with vD assms(2) show ?thesis by (auto simp: sameContent_def)
qed

section \<open>A concrete consumer cluster\<close>

definition mapStatusReconciler :: "providerMap Strategy \<Rightarrow> providerMap status_reconciler" where
  "mapStatusReconciler S =
     \<lparr>tr_isolationStrategy = S, tr_getConsumerObject = mapGet,
      tr_updateConsumerObject = (\<lambda>w u. (Inr u, w(keyOf u \<mapsto> u))),
      tr_updateConsumerObjectStatus = (\<lambda>w u. (Inr u, w(keyOf u \<mapsto> u))),
      tr_deleteProviderObject = (\<lambda>w ns n. (None, w))\<rparr>"

abbreviation exampleStatus :: "providerMap status_reconciler" where
  "exampleStatus \<equiv> mapStatusReconciler (NewNone ''cluster-a'' ''u'')"

lemma exampleStatus_promises:
  "isolation_strategy (tr_isolationStrategy exampleStatus) (\<lambda>w k. True) (\<lambda>w k. True)"
  "consumerReads exampleStatus" "consumerStore exampleStatus"
proof -
  show "isolation_strategy (tr_isolationStrategy exampleStatus) (\<lambda>w k. True) (\<lambda>w k. True)"
    by (simp add: mapStatusReconciler_def none.isolation_strategy_axioms)
  show "consumerReads exampleStatus"
    by (auto simp: consumerReads_def mapStatusReconciler_def dest: mapGet_key)
  show "consumerStore exampleStatus"
    by (auto simp: consumerStore_def mapStatusReconciler_def NewNone_def)
qed

definition exampleProviderObject :: Unstructured where
  "exampleProviderObject = SetNestedField (JStr ''ready'') ''status''
     (exampleObject\<lparr>u_meta := exampleMeta\<lparr>m_UID := ''2''\<rparr>\<rparr>)"

abbreviation exampleConsumer :: providerMap where
  "exampleConsumer \<equiv> [keyOf exampleObject \<mapsto> exampleObject]"

lemma exampleStatus_key [simp]:
  "st_ToConsumerKey (tr_isolationStrategy exampleStatus) w k = Inr (Some k)"
  by (simp add: mapStatusReconciler_def NewNone_def none_ToConsumerKey_def)

lemma exampleStatus_get [simp]:
  "tr_getConsumerObject exampleStatus exampleConsumer (nn_Namespace (keyOf exampleObject))
     (nn_Name (keyOf exampleObject)) = Inr exampleObject"
  by (simp add: mapStatusReconciler_def mapGet_def keyOf_def)

lemma exampleProviderObject_key [simp]: "keyOf exampleProviderObject = keyOf exampleObject"
  by (simp add: exampleProviderObject_def example_defs)

section \<open>Properties\<close>



text \<open>
  C5: a successful reconciliation leaves the consumer object with the status of the provider object
  and its other fields unchanged, and a second one makes no call.
\<close>

theorem status_convergence:
  assumes "isolation_strategy (tr_isolationStrategy r) cOk pOk" "consumerReads r" "consumerStore r"
    and "st_ToConsumerKey (tr_isolationStrategy r) w (keyOf obj) = Inr (Some ck)"
    and "tr_getConsumerObject r w (nn_Namespace ck) (nn_Name ck) = Inr d"
    and "status_reconcile r w obj = (None, w')"
  shows "\<exists>v. tr_getConsumerObject r w' (nn_Namespace ck) (nn_Name ck) = Inr v \<and>
     (\<forall>f. Mapping.lookup (u_fields v) f = Mapping.lookup (u_fields (if f = ''status'' then obj else d)) f) \<and>
     status_calls r w' obj = []"
proof -
  have key: "keyOf d = ck" using assms(2,5) by (simp add: consumerReads_def)
  obtain l' where run: "status_reconcile (status_logged r) (w, []) obj = (None, (w', l'))"
    using status_logged_erase [of r w "[]" obj] assms(6)
    by (cases "status_reconcile (status_logged r) (w, []) obj") auto
  note run1 = run [unfolded status_reconcile_logged [OF assms(1) key assms(3-5)]]
  have "\<exists>v. tr_getConsumerObject r w' (nn_Namespace ck) (nn_Name ck) = Inr v \<and> keyOf v = ck \<and>
     (\<forall>f. Mapping.lookup (u_fields v) f =
        Mapping.lookup (u_fields (if f = ''status'' then obj else d)) f) \<and>
     GetAnnotations v = GetAnnotations (annotateProvider obj v) \<and>
     st_ToConsumerKey (tr_isolationStrategy r) w' = st_ToConsumerKey (tr_isolationStrategy r) w"
  proof (cases "GetAnnotations d = GetAnnotations (annotateProvider obj d)")
    case True
    with run1 copyStatus_converges [OF assms(1) key assms(3,5)] show ?thesis by simp
  next
    case False
    with run1 obtain d1 w1 where d1: "tr_updateConsumerObject r w (annotateProvider obj d) = (Inr d1, w1)"
      and run2: "copyStatus (status_logged r) (w1, [UpdateDownstream (annotateProvider obj d)]) obj d1 ck
        = (None, (w', l'))"
      by (auto split: prod.splits sum.splits)
    note d1D = consumerStoreD [OF assms(3) disjI1, OF d1]
    have k1: "keyOf d1 = ck" and f1: "u_fields d1 = u_fields d"
      and a1: "GetAnnotations d1 = GetAnnotations (annotateProvider obj d1)"
      and g1: "tr_getConsumerObject r w1 (nn_Namespace ck) (nn_Name ck) = Inr d1"
      using d1D(1-4) key annotateProvider_fix [of d1 obj d] by (simp_all add: sameContent_def)
    from copyStatus_converges [OF assms(1) k1 assms(3) g1 a1 run2] show ?thesis
      by (simp only: if_distrib [of u_fields] f1 d1D(5))
  qed
  then obtain v where v: "tr_getConsumerObject r w' (nn_Namespace ck) (nn_Name ck) = Inr v" "keyOf v = ck"
    "\<forall>f. Mapping.lookup (u_fields v) f = Mapping.lookup (u_fields (if f = ''status'' then obj else d)) f"
    "GetAnnotations v = GetAnnotations (annotateProvider obj v)"
    "st_ToConsumerKey (tr_isolationStrategy r) w' = st_ToConsumerKey (tr_isolationStrategy r) w" by blast
  have "status_reconcile (status_logged r) (w', []) obj = (None, (w', []))"
    by (rule status_synced [OF assms(1) v(2) assms(3)]) (use v assms(4) in auto)
  with v show ?thesis by (auto simp: status_calls_def)
qed

theorem status_convergence_witness:
  "\<exists>w' v. tr_getConsumerObject exampleStatus w' ''team'' ''db'' = Inr v \<and> statusOf v = JStr ''ready'' \<and>
     specOf v = JStr ''size: 1'' \<and> status_calls exampleStatus w' exampleProviderObject = []"
proof -
  have "fst (status_reconcile exampleStatus exampleConsumer exampleProviderObject) = None"
    using exampleStatus_get [unfolded mapStatusReconciler_def]
    by (simp add: status_reconcile_def Let_def copyStatus_def mapStatusReconciler_def NewNone_def
        none_MutateStatus_def none_ToConsumerKey_def split: prod.split)
  then obtain w' where "status_reconcile exampleStatus exampleConsumer exampleProviderObject = (None, w')"
    by (metis prod.collapse)
  from status_convergence [OF exampleStatus_promises exampleStatus_key _ this, of exampleObject]
  obtain v where v: "tr_getConsumerObject exampleStatus w' (nn_Namespace (keyOf exampleObject))
      (nn_Name (keyOf exampleObject)) = Inr v"
    "\<forall>f. Mapping.lookup (u_fields v) f =
       Mapping.lookup (u_fields (if f = ''status'' then exampleProviderObject else exampleObject)) f"
    "status_calls exampleStatus w' exampleProviderObject = []" by auto
  moreover have "statusOf v = JStr ''ready''" "specOf v = JStr ''size: 1''"
    using v(2) by (simp_all add: statusOf_def specOf_def NestedField_def exampleProviderObject_def
        exampleObject_def SetNestedField_def)
  moreover have "nn_Namespace (keyOf exampleObject) = ''team''" "nn_Name (keyOf exampleObject) = ''db''"
    by (simp_all add: example_defs)
  ultimately show ?thesis by metis
qed

end
