(* ===== verification/Committer.thy ===== *)
theory Committer
  imports Api_Types
begin

text \<open>
  The committer (\<open>src/pkg/committer/committer.go\<close>): after a reconciliation it patches the
  object, either its spec and metadata or its status, and panics when both changed. JSON encoding,
  the merge-patch library and the client are parameters. A Go panic is the value \<open>Panic\<close>.
  The lemmas say when it panics, when it writes and where; \<open>status_only\<close> is what a
  reconciler has to respect to be committed.
\<close>

datatype 'a outcome = Panic string | Returns 'a

record ('sp, 'st) Resource =
  r_meta :: ObjectMeta
  r_Spec :: 'sp
  r_Status :: 'st

text \<open>What is marshalled: absent parts are the zero value of Go.\<close>

record ('sp, 'st) PatchResource =
  p_meta :: ObjectMeta
  p_Spec :: "'sp option"
  p_Status :: "'st option"

record ('sp, 'st, 'w) Patcher =
  pt_focusType :: string
  pt_Marshal :: "('sp, 'st) PatchResource \<Rightarrow> string result"
  pt_CreateMergePatch :: "string \<Rightarrow> string \<Rightarrow> string result"
  pt_Patch :: "'w \<Rightarrow> string \<Rightarrow> string \<Rightarrow> string \<Rightarrow> string list \<Rightarrow> error option \<times> 'w"

definition forPatch :: "bool \<Rightarrow> ('sp, 'st) Resource \<Rightarrow> ('sp, 'st) PatchResource" where
  "forPatch specOrObjectMetaChanged r =
     (if specOrObjectMetaChanged
      then \<lparr>p_meta = r_meta r, p_Spec = Some (r_Spec r), p_Status = None\<rparr>
      else \<lparr>p_meta = emptyMeta, p_Spec = None, p_Status = Some (r_Status r)\<rparr>)"

definition commitError :: "('sp, 'st, 'w) Patcher \<Rightarrow> string \<Rightarrow> string \<Rightarrow> string \<Rightarrow> error \<Rightarrow> error" where
  "commitError pt what ns name err =
     wrapError (what @ '' '' @ pt_focusType pt @ '' '' @ ns @ ''/'' @ name) err"

definition NewCommitter ::
  "('sp, 'st, 'w) Patcher \<Rightarrow> 'w \<Rightarrow> ('sp, 'st) Resource \<Rightarrow> ('sp, 'st) Resource \<Rightarrow>
     (error option \<times> 'w) outcome" where
  "NewCommitter pt w old obj =
     (let objectMetaChanged = (r_meta old \<noteq> r_meta obj);
          specChanged = (r_Spec old \<noteq> r_Spec obj);
          statusChanged = (r_Status old \<noteq> r_Status obj);
          specOrObjectMetaChanged = (specChanged \<or> objectMetaChanged)
      in if specOrObjectMetaChanged \<and> statusChanged
         then Panic ''programmer error: spec and status changed in same reconcile iteration.''
         else if \<not> specOrObjectMetaChanged \<and> \<not> statusChanged then Returns (None, w)
         else
           let ns = m_Namespace (r_meta old);
               name = m_Name (r_meta old);
               o0 = forPatch specOrObjectMetaChanged old;
               oldForPatch = o0\<lparr>p_meta := (p_meta o0)\<lparr>m_UID := [], m_ResourceVersion := []\<rparr>\<rparr>
           in case pt_Marshal pt oldForPatch of
                Inl err \<Rightarrow> Returns (Some (commitError pt ''failed to Marshal old data for'' ns name err), w)
              | Inr oldData \<Rightarrow>
                  let n0 = forPatch specOrObjectMetaChanged obj;
                      newForPatch = n0\<lparr>p_meta := (p_meta n0)\<lparr>m_UID := m_UID (r_meta old),
                                        m_ResourceVersion := m_ResourceVersion (r_meta old)\<rparr>\<rparr>
                  in case pt_Marshal pt newForPatch of
                       Inl err \<Rightarrow>
                         Returns (Some (commitError pt ''failed to Marshal new data for'' ns name err), w)
                     | Inr newData \<Rightarrow>
                         (case pt_CreateMergePatch pt oldData newData of
                            Inl err \<Rightarrow>
                              Returns (Some (commitError pt ''failed to create patch for'' ns name err), w)
                          | Inr patchBytes \<Rightarrow>
                              (case pt_Patch pt w (m_Namespace (r_meta obj)) (m_Name (r_meta obj)) patchBytes
                                      (if statusChanged then [''status''] else []) of
                                 (Some err, w1) \<Rightarrow>
                                   Returns (Some (commitError pt ''failed to patch'' ns name err), w1)
                               | (None, w1) \<Rightarrow> Returns (None, w1))))"

text \<open>
  The end of \<open>process\<close> in every controller that commits: the object is committed whatever
  the reconciliation returned, and both errors are aggregated.
\<close>

definition commitAfter ::
  "('sp, 'st, 'w) Patcher \<Rightarrow> error option \<Rightarrow> 'w \<Rightarrow> ('sp, 'st) Resource \<Rightarrow> ('sp, 'st) Resource \<Rightarrow>
     (error option \<times> 'w) outcome" where
  "commitAfter pt e w old obj =
     (case NewCommitter pt w old obj of
        Panic m \<Rightarrow> Panic m
      | Returns (e2, w2) \<Rightarrow> Returns (NewAggregate (appendErr (appendErr [] e) e2), w2))"

section \<open>Lemmas\<close>

lemma commit_panics:
  "(\<exists>m. NewCommitter pt w old obj = Panic m) \<longleftrightarrow>
     (r_Spec old \<noteq> r_Spec obj \<or> r_meta old \<noteq> r_meta obj) \<and> r_Status old \<noteq> r_Status obj"
  by (auto simp: NewCommitter_def Let_def split: sum.splits prod.splits option.splits if_splits)

lemma commit_unchanged: "NewCommitter pt w old old = Returns (None, w)"
  by (simp add: NewCommitter_def)

text \<open>A client that records the patches.\<close>

definition patchLogged ::
  "('sp, 'st, 'w) Patcher \<Rightarrow> ('sp, 'st, 'w \<times> (string \<times> string \<times> string \<times> string list) list) Patcher" where
  "patchLogged pt =
     \<lparr>pt_focusType = pt_focusType pt, pt_Marshal = pt_Marshal pt,
      pt_CreateMergePatch = pt_CreateMergePatch pt,
      pt_Patch = (\<lambda>(w, l) ns n d sub.
        case pt_Patch pt w ns n d sub of (x, w1) \<Rightarrow> (x, (w1, l @ [(ns, n, d, sub)])))\<rparr>"

text \<open>
  A reconciliation that keeps metadata and spec is committed with at most one patch, of the status
  subresource of the object, and without a panic.
\<close>

lemma patchLogged_simps [simp]:
  "pt_Marshal (patchLogged pt) = pt_Marshal pt"
  "pt_CreateMergePatch (patchLogged pt) = pt_CreateMergePatch pt"
  "pt_Patch (patchLogged pt) (w, l) ns n d sub =
     (case pt_Patch pt w ns n d sub of (x, w1) \<Rightarrow> (x, (w1, l @ [(ns, n, d, sub)])))"
  by (simp_all add: patchLogged_def)

lemma commit_status_only:
  assumes "r_meta obj = r_meta old" "r_Spec obj = r_Spec old"
  shows "\<exists>e w' l. NewCommitter (patchLogged pt) (w, []) old obj = Returns (e, (w', l)) \<and>
    (l = [] \<or> (\<exists>d. l = [(m_Namespace (r_meta old), m_Name (r_meta old), d, [''status''])])) \<and>
    (r_Status obj = r_Status old \<longrightarrow> l = [] \<and> e = None \<and> w' = w)"
  using assms
  by (simp add: NewCommitter_def Let_def split: sum.split prod.split option.split)

lemma commitAfter_no_panic:
  assumes "r_meta obj = r_meta old" "r_Spec obj = r_Spec old"
  shows "commitAfter pt e w old obj \<noteq> Panic m"
  using commit_panics [of pt w old obj] assms
  by (auto simp: commitAfter_def split: outcome.splits)

end
