(* ===== verification/Crds.thy ===== *)
theory Crds
  imports Api_Types
begin

text \<open>
  Custom resource definitions and bound schemas: the conversions of
  \<open>src/sdk/apis/kubebind/v1alpha2/helpers\<close>, ownership by a binding, the spec hashes, and
  the index functions of \<open>src/pkg/indexers\<close>. The JSON codec of OpenAPI schemas and SHA-256
  are parameters (\<open>codec\<close>). The lemmas show when a definition can be bound and what
  survives the conversion to a bound schema and back.
\<close>

section \<open>The CRD types the source uses\<close>

record CRDServiceReference =
  sv_Namespace :: string
  sv_Name :: string

record CRDWebhookClientConfig =
  cwcc_URL :: "string option"
  cwcc_CABundle :: string
  cwcc_Service :: "CRDServiceReference option"

record CRDWebhookConversion =
  cwc_ClientConfig :: "CRDWebhookClientConfig option"
  cwc_ConversionReviewVersions :: "string list"

record CRDConversion =
  ccv_Strategy :: string
  ccv_Webhook :: "CRDWebhookConversion option"

text \<open>\<open>CustomResourceValidation\<close> with its \<open>OpenAPIV3Schema\<close>.\<close>

record CRDValidation =
  val_OpenAPIV3Schema :: "json option"

record CRDVersion =
  cv_Name :: string
  cv_Served :: bool
  cv_Storage :: bool
  cv_Deprecated :: bool
  cv_DeprecationWarning :: "string option"
  cv_Schema :: "CRDValidation option"
  cv_Subresources :: "json option"
  cv_AdditionalPrinterColumns :: json

record CRDSpec =
  cd_Group :: string
  cd_Names :: CustomResourceDefinitionNames
  cd_Scope :: ResourceScope
  cd_Versions :: "CRDVersion list"
  cd_Conversion :: "CRDConversion option"

record CRDCondition =
  crc_Type :: string
  crc_Status :: string
  crc_LastTransitionTime :: time
  crc_Reason :: string
  crc_Message :: string

record CRDStatus =
  cdt_Conditions :: "CRDCondition list"
  cdt_AcceptedNames :: CustomResourceDefinitionNames
  cdt_StoredVersions :: "string list"

record CustomResourceDefinition =
  crd_meta :: ObjectMeta
  crd_Spec :: CRDSpec
  crd_Status :: CRDStatus

text \<open>
  \<open>json.Marshal\<close> and \<open>json.Unmarshal\<close> of an OpenAPI schema and of a validation that
  contains one, the encoding of a schema spec and the hash of the encodings.
\<close>

record codec =
  co_MarshalSchema :: "json \<Rightarrow> string result"
  co_UnmarshalValidation :: "string \<Rightarrow> CRDValidation result"
  co_UnmarshalSchema :: "string \<Rightarrow> json result"
  co_EncodeSpec :: "BoundSchemaSpec \<Rightarrow> string result"
  co_sha256hex :: "string \<Rightarrow> string"

text \<open>The zero value of \<open>CustomResourceSubresources\<close>.\<close>

definition emptySubresources :: json where
  "emptySubresources = JObj []"

definition emptyNames :: CustomResourceDefinitionNames where
  "emptyNames = \<lparr>crn_Plural = [], crn_Singular = [], crn_ShortNames = [], crn_Kind = [],
     crn_ListKind = [], crn_Categories = []\<rparr>"

definition emptyBoundSchemaStatus :: BoundSchemaStatus where
  "emptyBoundSchemaStatus = \<lparr>bst_AcceptedNames = emptyNames, bst_StoredVersions = [],
     bst_Conditions = [], bst_Instantiations = 0\<rparr>"

section \<open>Conversions\<close>

text \<open>
  \<open>crd.Spec.Conversion.Webhook\<close> is dereferenced without a check when the strategy is
  \<open>Webhook\<close>: a missing webhook panics.
\<close>

definition convertConversion :: "CRDConversion \<Rightarrow> CustomResourceConversion option" where
  "convertConversion c =
     (if ccv_Strategy c = ''Webhook'' then
        (case ccv_Webhook c of
           None \<Rightarrow> None
         | Some wh \<Rightarrow>
             Some \<lparr>cc_Strategy = ccv_Strategy c,
               cc_Webhook = Some \<lparr>wc_ClientConfig =
                   map_option (\<lambda>cc. \<lparr>wcc_URL = cwcc_URL cc, wcc_CABundle = cwcc_CABundle cc\<rparr>)
                     (cwc_ClientConfig wh),
                 wc_ConversionReviewVersions = cwc_ConversionReviewVersions wh\<rparr>\<rparr>)
      else Some \<lparr>cc_Strategy = ccv_Strategy c, cc_Webhook = None\<rparr>)"

definition convertVersion :: "codec \<Rightarrow> CRDVersion \<Rightarrow> APIResourceVersion result" where
  "convertVersion co v =
     (let base = \<lparr>v_Name = cv_Name v, v_Served = cv_Served v, v_Storage = cv_Storage v,
            v_Deprecated = cv_Deprecated v, v_DeprecationWarning = cv_DeprecationWarning v,
            v_Schema = [],
            v_Subresources = (case cv_Subresources v of None \<Rightarrow> emptySubresources | Some s \<Rightarrow> s),
            v_AdditionalPrinterColumns = cv_AdditionalPrinterColumns v\<rparr>
      in case cv_Schema v of
           None \<Rightarrow> Inr base
         | Some val \<Rightarrow>
             (case val_OpenAPIV3Schema val of
                None \<Rightarrow> Inr base
              | Some s \<Rightarrow>
                  (case co_MarshalSchema co s of
                     Inl err \<Rightarrow> Inl (wrapError (''error converting schema for version '' @ quote (cv_Name v)) err)
                   | Inr raw \<Rightarrow> Inr (base\<lparr>v_Schema := raw\<rparr>))))"

fun convertVersions :: "codec \<Rightarrow> CRDVersion list \<Rightarrow> APIResourceVersion list result" where
  "convertVersions co [] = Inr []"
| "convertVersions co (v # vs) =
     (case convertVersion co v of
        Inl err \<Rightarrow> Inl err
      | Inr a \<Rightarrow> (case convertVersions co vs of Inl err \<Rightarrow> Inl err | Inr as \<Rightarrow> Inr (a # as)))"

text \<open>The outer option is the panic of the missing webhook.\<close>

definition CRDToBoundSchema ::
  "codec \<Rightarrow> CustomResourceDefinition \<Rightarrow> string \<Rightarrow> BoundSchema result option" where
  "CRDToBoundSchema co crd pre =
     (let spec = crd_Spec crd; name0 = m_Name (crd_meta crd);
          name = (if pre \<noteq> [] then pre @ ''.'' @ name0 else name0)
      in if cd_Versions spec = []
         then Some (Inl (PlainError (''no versions specified for CRD '' @ quote name0)))
         else if 1 < length (cd_Versions spec) \<and> cd_Conversion spec = None
         then Some (Inl (PlainError (''multiple versions specified for CRD '' @ quote name0 @
                '' but no conversion strategy'')))
         else
           case (case cd_Conversion spec of None \<Rightarrow> Some None
                 | Some c \<Rightarrow> map_option Some (convertConversion c)) of
             None \<Rightarrow> None
           | Some conversion \<Rightarrow>
               Some (case convertVersions co (cd_Versions spec) of
                   Inl err \<Rightarrow> Inl err
                 | Inr versions \<Rightarrow>
                     Inr \<lparr>bs_Kind = ''BoundSchema'', bs_meta = emptyMeta\<lparr>m_Name := name\<rparr>,
                          bs_Spec = \<lparr>bss_InformerScope = cd_Scope spec,
                            bss_APICRDSpec = \<lparr>cs_Group = cd_Group spec, cs_Names = cd_Names spec,
                              cs_Scope = cd_Scope spec, cs_Versions = versions,
                              cs_Conversion = conversion\<rparr>\<rparr>,
                          bs_Status = emptyBoundSchemaStatus\<rparr>))"

definition BoundSchemaSpecHash :: "codec \<Rightarrow> BoundSchemaSpec \<Rightarrow> string result" where
  "BoundSchemaSpecHash co spec =
     (case co_EncodeSpec co spec of
        Inl err \<Rightarrow> Inl (wrapError ''failed to encode schema spec'' err)
      | Inr bytes \<Rightarrow> Inr (co_sha256hex co bytes))"

fun encodeSchemas :: "codec \<Rightarrow> BoundSchema list \<Rightarrow> string result" where
  "encodeSchemas co [] = Inr []"
| "encodeSchemas co (b # bs) =
     (case co_EncodeSpec co (bs_Spec b) of
        Inl err \<Rightarrow> Inl (wrapError (''failed to encode schema spec '' @ m_Name (bs_meta b)) err)
      | Inr bytes \<Rightarrow>
          (case encodeSchemas co bs of Inl err \<Rightarrow> Inl err | Inr rest \<Rightarrow> Inr (bytes @ rest)))"

definition BoundSchemasSpecHash :: "codec \<Rightarrow> BoundSchema list \<Rightarrow> string result" where
  "BoundSchemasSpecHash co schemas =
     (case encodeSchemas co schemas of Inl err \<Rightarrow> Inl err | Inr bytes \<Rightarrow> Inr (co_sha256hex co bytes))"

definition versionToCRD :: "codec \<Rightarrow> APIResourceVersion \<Rightarrow> CRDVersion" where
  "versionToCRD co v =
     \<lparr>cv_Name = v_Name v, cv_Served = v_Served v, cv_Storage = v_Storage v,
      cv_Deprecated = v_Deprecated v, cv_DeprecationWarning = v_DeprecationWarning v,
      cv_Schema =
        (if v_Schema v = [] then None
         else (case co_UnmarshalValidation co (v_Schema v) of
             Inr val \<Rightarrow>
               if val_OpenAPIV3Schema val \<noteq> None then Some val
               else (case co_UnmarshalSchema co (v_Schema v) of
                   Inl err \<Rightarrow> None | Inr s \<Rightarrow> Some \<lparr>val_OpenAPIV3Schema = Some s\<rparr>)
           | Inl err \<Rightarrow>
               (case co_UnmarshalSchema co (v_Schema v) of
                   Inl err \<Rightarrow> None | Inr s \<Rightarrow> Some \<lparr>val_OpenAPIV3Schema = Some s\<rparr>))),
      cv_Subresources = Some (v_Subresources v),
      cv_AdditionalPrinterColumns = v_AdditionalPrinterColumns v\<rparr>"

definition conversionToCRD :: "CustomResourceConversion \<Rightarrow> CRDConversion" where
  "conversionToCRD c =
     \<lparr>ccv_Strategy = cc_Strategy c,
      ccv_Webhook =
        (if cc_Strategy c = ''Webhook''
         then map_option (\<lambda>wh. \<lparr>cwc_ClientConfig =
                  map_option (\<lambda>cc. \<lparr>cwcc_URL = wcc_URL cc, cwcc_CABundle = wcc_CABundle cc,
                    cwcc_Service = None\<rparr>) (wc_ClientConfig wh),
                cwc_ConversionReviewVersions = wc_ConversionReviewVersions wh\<rparr>) (cc_Webhook c)
         else None)\<rparr>"

definition BoundSchemaToCRD :: "codec \<Rightarrow> BoundSchema \<Rightarrow> CustomResourceDefinition" where
  "BoundSchemaToCRD co schema =
     (let spec = bss_APICRDSpec (bs_Spec schema)
      in \<lparr>crd_meta = emptyMeta\<lparr>m_Name := crn_Plural (cs_Names spec) @ ''.'' @ cs_Group spec\<rparr>,
          crd_Spec = \<lparr>cd_Group = cs_Group spec, cd_Names = cs_Names spec, cd_Scope = cs_Scope spec,
            cd_Versions = map (versionToCRD co) (cs_Versions spec),
            cd_Conversion = map_option conversionToCRD (cs_Conversion spec)\<rparr>,
          crd_Status = \<lparr>cdt_Conditions = [], cdt_AcceptedNames = emptyNames, cdt_StoredVersions = []\<rparr>\<rparr>)"

section \<open>Ownership and indexes\<close>

fun IsOwnedByBinding :: "string \<Rightarrow> string \<Rightarrow> OwnerReference list \<Rightarrow> bool" where
  "IsOwnedByBinding name uid [] = False"
| "IsOwnedByBinding name uid (ref # refs) =
     (let parts = SplitN (or_APIVersion ref) (CHR ''/'') 2
      in if hd parts \<noteq> GroupName \<or> or_Kind ref \<noteq> ''APIServiceBinding''
         then IsOwnedByBinding name uid refs
         else if or_Name ref \<noteq> name then IsOwnedByBinding name uid refs
         else if uid = [] \<or> or_UID ref = uid then True
         else IsOwnedByBinding name uid refs)"

fun IndexCRDByServiceBinding :: "OwnerReference list \<Rightarrow> string list" where
  "IndexCRDByServiceBinding [] = []"
| "IndexCRDByServiceBinding (ref # refs) =
     (let parts = SplitN (or_APIVersion ref) (CHR ''/'') 2
      in if hd parts \<noteq> GroupName \<or> or_Kind ref \<noteq> ''APIServiceBinding''
         then IndexCRDByServiceBinding refs
         else or_Name ref # IndexCRDByServiceBinding refs)"

definition ByServiceBindingKubeconfigSecretKey :: "APIServiceBinding \<Rightarrow> string" where
  "ByServiceBindingKubeconfigSecretKey b =
     (let ref = bds_KubeconfigSecretRef (bd_Spec b) in ck_Namespace ref @ ''/'' @ ck_Name ref)"

definition IndexServiceBindingByKubeconfigSecret :: "APIServiceBinding \<Rightarrow> string list" where
  "IndexServiceBindingByKubeconfigSecret b = [ByServiceBindingKubeconfigSecretKey b]"

definition IndexServiceExportByCustomResourceDefinition :: "APIServiceExport \<Rightarrow> string list" where
  "IndexServiceExportByCustomResourceDefinition e = [m_Name (ex_meta e)]"

definition IndexServiceExportByBoundSchema :: "APIServiceExport \<Rightarrow> string list" where
  "IndexServiceExportByBoundSchema e = map ResourceGroupName (exs_Resources (ex_Spec e))"

definition IndexServiceExportRequestByGroupResource :: "APIServiceExportRequest \<Rightarrow> string list" where
  "IndexServiceExportRequestByGroupResource r = map ResourceGroupName (rqs_Resources (rq_Spec r))"

definition IndexServiceExportRequestByServiceExport :: "APIServiceExportRequest \<Rightarrow> string list" where
  "IndexServiceExportRequestByServiceExport r =
     map (\<lambda>gr. m_Namespace (rq_meta r) @ ''/'' @ ResourceGroupName gr) (rqs_Resources (rq_Spec r))"

text \<open>\<open>helpers.APIServiceNamespaceFromExport\<close>; \<open>metav1.NewControllerRef\<close> names the owner.\<close>

definition NewControllerRef :: "ObjectMeta \<Rightarrow> string \<Rightarrow> OwnerReference" where
  "NewControllerRef owner kind =
     \<lparr>or_APIVersion = SchemeGroupVersionString, or_Kind = kind, or_Name = m_Name owner,
      or_UID = m_UID owner, or_Controller = True\<rparr>"

definition APIServiceNamespaceFromExport :: "APIServiceExport \<Rightarrow> string \<Rightarrow> APIServiceNamespace" where
  "APIServiceNamespaceFromExport export namespaceName =
     \<lparr>sn_meta = emptyMeta\<lparr>m_Name := namespaceName, m_Namespace := m_Namespace (ex_meta export),
        m_Labels := Mapping.update ObjectOwnerLabel OwnerProvider Mapping.empty,
        m_OwnerReferences := [NewControllerRef (ex_meta export) ''APIServiceExport'']\<rparr>,
      sn_Status = \<lparr>snt_Namespace = []\<rparr>\<rparr>"

section \<open>Lemmas\<close>

text \<open>The index and the ownership test agree: an owner without a UID is in the index.\<close>

lemma owned_iff_indexed: "IsOwnedByBinding name [] refs \<longleftrightarrow> name \<in> set (IndexCRDByServiceBinding refs)"
  by (induction refs) (auto simp: Let_def)

lemma owned_uid: "IsOwnedByBinding name uid refs \<Longrightarrow> IsOwnedByBinding name [] refs"
  by (induction refs) (auto simp: Let_def split: if_splits)

lemma owned_append: "IsOwnedByBinding name uid (xs @ ys) \<longleftrightarrow>
    IsOwnedByBinding name uid xs \<or> IsOwnedByBinding name uid ys"
  by (induction xs) (auto simp: Let_def)

lemma hd_SplitN_SchemeGroupVersion: "hd (SplitN SchemeGroupVersionString (CHR ''/'') 2) = GroupName"
  by (simp add: SchemeGroupVersionString_def GroupName_def SplitN_def)

subsection \<open>What survives the conversion\<close>

text \<open>
  The part of a definition a bound schema can carry: a conversion webhook loses its service
  reference, a version has subresources, and a validation is there only with a schema.
\<close>

definition boundVersion :: "CRDVersion \<Rightarrow> CRDVersion" where
  "boundVersion v = v\<lparr>
     cv_Schema := (case cv_Schema v of None \<Rightarrow> None
       | Some val \<Rightarrow> if val_OpenAPIV3Schema val = None then None else Some val),
     cv_Subresources := Some (case cv_Subresources v of None \<Rightarrow> emptySubresources | Some s \<Rightarrow> s)\<rparr>"

definition boundConversion :: "CRDConversion \<Rightarrow> CRDConversion" where
  "boundConversion c = c\<lparr>ccv_Webhook := (if ccv_Strategy c = ''Webhook''
     then map_option (\<lambda>wh. wh\<lparr>cwc_ClientConfig :=
            map_option (\<lambda>cc. cc\<lparr>cwcc_Service := None\<rparr>) (cwc_ClientConfig wh)\<rparr>) (ccv_Webhook c)
     else None)\<rparr>"

definition boundSpec :: "CRDSpec \<Rightarrow> CRDSpec" where
  "boundSpec spec = spec\<lparr>cd_Versions := map boundVersion (cd_Versions spec),
     cd_Conversion := map_option boundConversion (cd_Conversion spec)\<rparr>"

text \<open>
  The JSON codec: an encoded schema is not empty, decodes to itself, and does not decode to a
  validation with a schema, as it has no member \<open>openAPIV3Schema\<close>.
\<close>

definition codec_ok :: "codec \<Rightarrow> bool" where
  "codec_ok co \<longleftrightarrow> (\<forall>s raw. co_MarshalSchema co s = Inr raw \<longrightarrow>
     raw \<noteq> [] \<and> co_UnmarshalSchema co raw = Inr s \<and>
     (\<forall>val. co_UnmarshalValidation co raw = Inr val \<longrightarrow> val_OpenAPIV3Schema val = None))"

lemma codec_okD:
  assumes "codec_ok co" "co_MarshalSchema co s = Inr raw"
  shows "raw \<noteq> []" "co_UnmarshalSchema co raw = Inr s"
    "co_UnmarshalValidation co raw = Inr val \<Longrightarrow> val_OpenAPIV3Schema val = None"
  using assms unfolding codec_ok_def by blast+

lemma convertVersion_roundtrip:
  assumes "codec_ok co" "convertVersion co v = Inr a"
  shows "versionToCRD co a = boundVersion v"
proof (cases "\<exists>val s. cv_Schema v = Some val \<and> val_OpenAPIV3Schema val = Some s")
  case False
  then have "v_Schema a = []" using assms(2) by (auto simp: convertVersion_def Let_def split: option.splits)
  with False assms(2) show ?thesis
    by (auto simp: convertVersion_def Let_def versionToCRD_def boundVersion_def split: option.splits)
next
  case True
  then obtain val s where vs: "cv_Schema v = Some val" "val_OpenAPIV3Schema val = Some s" by blast
  with assms(2) obtain raw where raw: "co_MarshalSchema co s = Inr raw"
    by (auto simp: convertVersion_def Let_def split: sum.splits)
  note laws = codec_okD [OF assms(1) raw]
  have "val = \<lparr>val_OpenAPIV3Schema = Some s\<rparr>" using vs(2) by (cases val) simp
  with assms(2) vs raw laws show ?thesis
    by (auto simp: convertVersion_def Let_def versionToCRD_def boundVersion_def split: sum.splits)
qed

lemma convertVersions_roundtrip:
  "codec_ok co \<Longrightarrow> convertVersions co vs = Inr as \<Longrightarrow> map (versionToCRD co) as = map boundVersion vs"
  by (induction vs arbitrary: as) (auto simp: convertVersion_roundtrip split: sum.splits)

lemma dropService:
  "\<lparr>cwcc_URL = cwcc_URL x, cwcc_CABundle = cwcc_CABundle x, cwcc_Service = None\<rparr> = x\<lparr>cwcc_Service := None\<rparr>"
  by (cases x) simp

lemma dropClientService:
  "\<lparr>cwc_ClientConfig = map_option (\<lambda>x. x\<lparr>cwcc_Service := None\<rparr>) (cwc_ClientConfig wh),
    cwc_ConversionReviewVersions = cwc_ConversionReviewVersions wh\<rparr> =
   wh\<lparr>cwc_ClientConfig := map_option (\<lambda>x. x\<lparr>cwcc_Service := None\<rparr>) (cwc_ClientConfig wh)\<rparr>"
  by (cases wh) simp

lemma convertConversion_roundtrip:
  "convertConversion c = Some c' \<Longrightarrow> conversionToCRD c' = boundConversion c"
  by (cases c)
    (auto simp: convertConversion_def conversionToCRD_def boundConversion_def option.map_comp comp_def
      dropService dropClientService split: if_splits option.splits)

section \<open>Properties\<close>


definition exampleCodec :: codec where
  "exampleCodec =
     \<lparr>co_MarshalSchema = (\<lambda>s. case s of JStr t \<Rightarrow> Inr (CHR ''s'' # t)
        | _ \<Rightarrow> Inl (PlainError ''unsupported'')),
      co_UnmarshalValidation = (\<lambda>raw. Inl (PlainError ''no validation'')),
      co_UnmarshalSchema = (\<lambda>raw. Inr (JStr (tl raw))),
      co_EncodeSpec = (\<lambda>spec. Inr (cs_Group (bss_APICRDSpec spec))),
      co_sha256hex = (\<lambda>s. s)\<rparr>"

definition exampleCRD :: CustomResourceDefinition where
  "exampleCRD =
     \<lparr>crd_meta = emptyMeta\<lparr>m_Name := ''dbs.example.org''\<rparr>,
      crd_Spec = \<lparr>cd_Group = ''example.org'', cd_Names = emptyNames\<lparr>crn_Plural := ''dbs''\<rparr>,
        cd_Scope = NamespaceScoped,
        cd_Versions = [\<lparr>cv_Name = ''v1'', cv_Served = True, cv_Storage = True, cv_Deprecated = False,
          cv_DeprecationWarning = None, cv_Schema = Some \<lparr>val_OpenAPIV3Schema = Some (JStr ''object'')\<rparr>,
          cv_Subresources = None, cv_AdditionalPrinterColumns = JNull\<rparr>],
        cd_Conversion = None\<rparr>,
      crd_Status = \<lparr>cdt_Conditions = [], cdt_AcceptedNames = emptyNames, cdt_StoredVersions = []\<rparr>\<rparr>"

definition exampleSchema :: BoundSchema where
  "exampleSchema =
     \<lparr>bs_Kind = ''BoundSchema'', bs_meta = emptyMeta\<lparr>m_Name := ''dbs.example.org''\<rparr>,
      bs_Spec = \<lparr>bss_InformerScope = ClusterScope, bss_APICRDSpec = \<lparr>cs_Group = ''example.org'',
        cs_Names = emptyNames\<lparr>crn_Plural := ''dbs''\<rparr>, cs_Scope = NamespaceScoped,
        cs_Versions = [\<lparr>v_Name = ''v1'', v_Served = True, v_Storage = True, v_Deprecated = False,
          v_DeprecationWarning = None, v_Schema = [], v_Subresources = JNull,
          v_AdditionalPrinterColumns = JNull\<rparr>],
        cs_Conversion = None\<rparr>\<rparr>,
      bs_Status = emptyBoundSchemaStatus\<rparr>"

definition exampleExport :: APIServiceExport where
  "exampleExport =
     \<lparr>ex_Kind = ''APIServiceExport'', ex_meta = emptyMeta\<lparr>m_Name := ''dbs'', m_Namespace := ''cluster-a'', m_Generation := 3\<rparr>,
      ex_Spec = \<lparr>exs_Resources = [\<lparr>rr_GroupResource = \<lparr>gr_Group = ''example.org'', gr_Resource = ''dbs''\<rparr>, rr_Versions = []\<rparr>],
        exs_PermissionClaims = [], exs_InformerScope = ClusterScope, exs_ClusterScopedIsolation = IsolationNone,
        exs_Isolation = IsolationNone\<rparr>,
      ex_Status = \<lparr>ext_Conditions = []\<rparr>\<rparr>"

definition exampleBinding :: APIServiceBinding where
  "exampleBinding =
     \<lparr>bd_Kind = ''APIServiceBinding'', bd_meta = emptyMeta\<lparr>m_Name := ''dbs''\<rparr>,
      bd_Spec = \<lparr>bds_KubeconfigSecretRef = \<lparr>ck_Name = ''s'', ck_Key = ''kubeconfig'', ck_Namespace = ''kube-bind''\<rparr>\<rparr>,
      bd_Status = \<lparr>bdt_ProviderPrettyName = [], bdt_Conditions = [], bdt_BoundSchemas = [], bdt_PermissionClaims = []\<rparr>\<rparr>"


end
