(* ===== verification/Context_Store.thy ===== *)
theory Context_Store
  imports Prelude
begin

text \<open>
  The context store (\<open>src/pkg/konnector/controllers/contextstore/contextstore.go\<close>): the
  running controllers of the konnector by key, with the generation they were started for and the
  function that stops them. A cancel function is a handle; cancelling is an effect on the world,
  given as a parameter. Every operation holds the lock of the store for its whole duration, so each
  is one atomic step. Go does not fix the order in which a map is ranged over; the model takes the
  keys in ascending order, and nothing below depends on it.
  The interface \<open>Store\<close> is the locale \<open>sync_store\<close>, interpreted by the map.
\<close>

type_synonym Key = string

definition NewKey :: "string \<Rightarrow> string \<Rightarrow> string list \<Rightarrow> Key" where
  "NewKey exportNamespace exportName suff =
     (if suff = [] then exportNamespace @ ''.'' @ exportName
      else exportNamespace @ ''.'' @ exportName @ ''.'' @ Join suff ''.'')"

record SyncContext =
  sx_key :: Key
  sx_Generation :: int
  sx_Cancel :: nat

type_synonym contextStore = "(Key, SyncContext) mapping"

definition store_New :: contextStore where
  "store_New = Mapping.empty"

definition store_Get :: "contextStore \<Rightarrow> Key \<Rightarrow> SyncContext option" where
  "store_Get s key = Mapping.lookup s key"

definition prefixedKeys :: "contextStore \<Rightarrow> Key \<Rightarrow> Key list" where
  "prefixedKeys s pre = filter (\<lambda>k. HasPrefix k pre) (Mapping.ordered_keys s)"

definition store_ListPrefixed :: "contextStore \<Rightarrow> Key \<Rightarrow> SyncContext list" where
  "store_ListPrefixed s pre = List.map_filter (Mapping.lookup s) (prefixedKeys s pre)"

definition store_Set :: "contextStore \<Rightarrow> Key \<Rightarrow> SyncContext \<Rightarrow> contextStore" where
  "store_Set s key v = Mapping.update key (v\<lparr>sx_key := key\<rparr>) s"

definition store_Delete :: "(nat \<Rightarrow> 'w \<Rightarrow> 'w) \<Rightarrow> 'w \<times> contextStore \<Rightarrow> Key \<Rightarrow> 'w \<times> contextStore" where
  "store_Delete cancel st key =
     (case st of (w, s) \<Rightarrow>
        (case Mapping.lookup s key of
           None \<Rightarrow> (w, s)
         | Some c \<Rightarrow> (cancel (sx_Cancel c) w, Mapping.delete key s)))"

definition store_BulkDeletePrefixed ::
  "(nat \<Rightarrow> 'w \<Rightarrow> 'w) \<Rightarrow> 'w \<times> contextStore \<Rightarrow> Key \<Rightarrow> SyncContext list \<times> ('w \<times> contextStore)" where
  "store_BulkDeletePrefixed cancel st pre =
     (store_ListPrefixed (snd st) pre,
      fold (\<lambda>k st. store_Delete cancel st k) (prefixedKeys (snd st) pre) st)"

section \<open>The interface\<close>

text \<open>
  What a client of the store relies on: what a key maps to after each operation, what the listing
  contains, and that the operations keep the store well-formed.
\<close>

locale sync_store =
  fixes get :: "'s \<Rightarrow> Key \<Rightarrow> SyncContext option"
    and listPrefixed :: "'s \<Rightarrow> Key \<Rightarrow> SyncContext list"
    and setKey :: "'s \<Rightarrow> Key \<Rightarrow> SyncContext \<Rightarrow> 's"
    and deleteKey :: "'w \<times> 's \<Rightarrow> Key \<Rightarrow> 'w \<times> 's"
    and bulkDelete :: "'w \<times> 's \<Rightarrow> Key \<Rightarrow> SyncContext list \<times> ('w \<times> 's)"
    and ok :: "'s \<Rightarrow> bool"
  assumes get_set: "get (setKey s k c) k' = (if k = k' then Some (c\<lparr>sx_key := k\<rparr>) else get s k')"
    and get_delete: "get (snd (deleteKey (w, s) k)) k' = (if k = k' then None else get s k')"
    and get_bulk: "ok s \<Longrightarrow>
      get (snd (snd (bulkDelete (w, s) p))) k = (if HasPrefix k p then None else get s k)"
    and list_iff: "ok s \<Longrightarrow> c \<in> set (listPrefixed s p) \<longleftrightarrow>
      get s (sx_key c) = Some c \<and> HasPrefix (sx_key c) p"
    and key_of: "ok s \<Longrightarrow> get s k = Some c \<Longrightarrow> sx_key c = k"
    and ok_set: "ok s \<Longrightarrow> ok (setKey s k c)"
    and ok_delete: "ok s \<Longrightarrow> ok (snd (deleteKey (w, s) k))"
    and ok_bulk: "ok s \<Longrightarrow> ok (snd (snd (bulkDelete (w, s) p)))"
begin

text \<open>After a bulk delete nothing with the prefix is listed, not even with a longer prefix.\<close>

lemma list_bulk: "ok s \<Longrightarrow> HasPrefix q p \<Longrightarrow> listPrefixed (snd (snd (bulkDelete (w, s) p))) q = []"
proof -
  assume s: "ok s" and "HasPrefix q p"
  have "c \<notin> set (listPrefixed (snd (snd (bulkDelete (w, s) p))) q)" for c
    using HasPrefix_trans [OF _ \<open>HasPrefix q p\<close>]
    by (auto simp: list_iff [OF ok_bulk [OF s]] get_bulk [OF s])
  then show ?thesis by (metis list.exhaust list.set_intros(1))
qed

text \<open>Deleting every context of a listing that does not satisfy \<open>P\<close>.\<close>

definition deleteUnless :: "(Key \<Rightarrow> bool) \<Rightarrow> SyncContext list \<Rightarrow> 'w \<times> 's \<Rightarrow> 'w \<times> 's" where
  "deleteUnless P cs = fold (\<lambda>c st. if P (sx_key c) then st else deleteKey st (sx_key c)) cs"

lemma get_delete_st: "get (snd (deleteKey st k)) k' = (if k = k' then None else get (snd st) k')"
  using get_delete [of "fst st" "snd st"] by simp

lemma get_deleteUnless:
  "get (snd (deleteUnless P cs st)) k =
     (if \<not> P k \<and> (\<exists>c \<in> set cs. sx_key c = k) then None else get (snd st) k)"
proof (induction cs arbitrary: st)
  case Nil
  then show ?case by (simp add: deleteUnless_def)
next
  case (Cons c cs)
  from Cons show ?case by (auto simp: deleteUnless_def get_delete_st)
qed

lemma ok_deleteUnless: "ok (snd st) \<Longrightarrow> ok (snd (deleteUnless P cs st))"
proof (induction cs arbitrary: st)
  case Nil
  then show ?case by (simp add: deleteUnless_def)
next
  case (Cons c cs)
  then show ?case
    using ok_delete [of "snd st" "fst st"] by (auto simp: deleteUnless_def)
qed

text \<open>What is left of a listed prefix satisfies \<open>P\<close>.\<close>

lemma deleteUnless_listed:
  assumes "ok (snd st)" "get (snd (deleteUnless P (listPrefixed (snd st) p) st)) k = Some c" "HasPrefix k p"
  shows "P k"
proof (rule ccontr)
  assume "\<not> P k"
  with assms(2) have g: "get (snd st) k = Some c"
    by (auto simp: get_deleteUnless split: if_splits)
  then have "sx_key c = k" using key_of assms(1) by blast
  with g assms(1,3) have "c \<in> set (listPrefixed (snd st) p)" by (simp add: list_iff)
  with \<open>\<not> P k\<close> \<open>sx_key c = k\<close> assms(2) show False by (auto simp: get_deleteUnless split: if_splits)
qed

end

section \<open>The map implements the interface\<close>

definition storeOk :: "contextStore \<Rightarrow> bool" where
  "storeOk s \<longleftrightarrow> finite (Mapping.keys s) \<and> (\<forall>k c. Mapping.lookup s k = Some c \<longrightarrow> sx_key c = k)"

lemma keys_iff: "k \<in> Mapping.keys s \<longleftrightarrow> Mapping.lookup s k \<noteq> None"
  by transfer auto

lemma set_prefixedKeys:
  "storeOk s \<Longrightarrow> k \<in> set (prefixedKeys s p) \<longleftrightarrow> Mapping.lookup s k \<noteq> None \<and> HasPrefix k p"
  by (auto simp: prefixedKeys_def storeOk_def ordered_keys_def keys_iff)

lemma storeOk_New: "storeOk store_New"
  by (simp add: storeOk_def store_New_def)

lemma storeOk_Set: "storeOk s \<Longrightarrow> storeOk (store_Set s k c)"
  by (auto simp: storeOk_def store_Set_def)

lemma lookup_store_Delete:
  "Mapping.lookup (snd (store_Delete cancel st k)) k' = (if k = k' then None else Mapping.lookup (snd st) k')"
  by (auto simp: store_Delete_def split: prod.split option.split)

lemma storeOk_Delete: "storeOk (snd st) \<Longrightarrow> storeOk (snd (store_Delete cancel st k))"
  by (auto simp: storeOk_def store_Delete_def split: prod.split option.split if_splits)

lemma lookup_fold_Delete:
  "Mapping.lookup (snd (fold (\<lambda>k st. store_Delete cancel st k) ks st)) k =
     (if k \<in> set ks then None else Mapping.lookup (snd st) k)"
  by (induction ks arbitrary: st) (auto simp: lookup_store_Delete)

lemma storeOk_fold_Delete:
  "storeOk (snd st) \<Longrightarrow> storeOk (snd (fold (\<lambda>k st. store_Delete cancel st k) ks st))"
  by (induction ks arbitrary: st) (auto simp: storeOk_Delete)

lemma set_store_ListPrefixed:
  "storeOk s \<Longrightarrow> c \<in> set (store_ListPrefixed s p) \<longleftrightarrow>
     Mapping.lookup s (sx_key c) = Some c \<and> HasPrefix (sx_key c) p"
proof -
  assume ok: "storeOk s"
  have "c \<in> set (store_ListPrefixed s p) \<longleftrightarrow> (\<exists>k \<in> set (prefixedKeys s p). Mapping.lookup s k = Some c)"
    by (force simp: store_ListPrefixed_def List.map_filter_def)
  also have "\<dots> \<longleftrightarrow> (\<exists>k. Mapping.lookup s k = Some c \<and> HasPrefix k p)"
    by (auto simp: set_prefixedKeys [OF ok])
  also have "\<dots> \<longleftrightarrow> Mapping.lookup s (sx_key c) = Some c \<and> HasPrefix (sx_key c) p"
    using ok unfolding storeOk_def by blast
  finally show ?thesis .
qed

interpretation contexts: sync_store store_Get store_ListPrefixed store_Set
  "store_Delete cancel" "store_BulkDeletePrefixed cancel" storeOk for cancel
proof
  fix s :: contextStore and k k' :: Key and c p and w :: 'a
  show "store_Get (store_Set s k c) k' = (if k = k' then Some (c\<lparr>sx_key := k\<rparr>) else store_Get s k')"
    by (simp add: store_Get_def store_Set_def)
  show "store_Get (snd (store_Delete cancel (w, s) k)) k' = (if k = k' then None else store_Get s k')"
    by (simp add: store_Get_def lookup_store_Delete)
  assume ok: "storeOk s"
  show "store_Get (snd (snd (store_BulkDeletePrefixed cancel (w, s) p))) k =
      (if HasPrefix k p then None else store_Get s k)"
    by (auto simp: store_Get_def store_BulkDeletePrefixed_def lookup_fold_Delete set_prefixedKeys [OF ok])
  show "c \<in> set (store_ListPrefixed s p) \<longleftrightarrow> store_Get s (sx_key c) = Some c \<and> HasPrefix (sx_key c) p"
    by (simp add: store_Get_def set_store_ListPrefixed [OF ok])
  show "store_Get s k = Some c \<Longrightarrow> sx_key c = k" using ok by (simp add: store_Get_def storeOk_def)
  show "storeOk (store_Set s k c)" using ok by (rule storeOk_Set)
  show "storeOk (snd (store_Delete cancel (w, s) k))" using ok by (simp add: storeOk_Delete)
  show "storeOk (snd (snd (store_BulkDeletePrefixed cancel (w, s) p)))"
    using ok by (simp add: store_BulkDeletePrefixed_def storeOk_fold_Delete)
qed

text \<open>
  A bulk delete stops exactly the controllers whose keys have the prefix. The effect of a cancel
  function is observed in the list of handles that were cancelled.
\<close>

lemma bulk_cancels:
  assumes "storeOk s"
  shows "set (fst (snd (store_BulkDeletePrefixed (\<lambda>h l. l @ [h]) (l, s) p))) =
    set l \<union> {h. \<exists>k c. Mapping.lookup s k = Some c \<and> HasPrefix k p \<and> sx_Cancel c = h}"
proof -
  have gen: "distinct ks \<Longrightarrow> set (fst (fold (\<lambda>k st. store_Delete (\<lambda>h l. l @ [h]) st k) ks (l, s))) =
      set l \<union> {h. \<exists>k \<in> set ks. \<exists>c. Mapping.lookup s k = Some c \<and> sx_Cancel c = h}"
    for ks l and s :: contextStore
  proof (induction ks arbitrary: l s)
    case Nil
    then show ?case by simp
  next
    case (Cons k ks)
    then show ?case
      by (cases "Mapping.lookup s k") (auto simp: store_Delete_def; metis)+
  qed
  have "distinct (prefixedKeys s p)" by (simp add: prefixedKeys_def ordered_keys_def)
  moreover have "set (prefixedKeys s p) = {k. Mapping.lookup s k \<noteq> None \<and> HasPrefix k p}"
    using set_prefixedKeys [OF assms] by blast
  ultimately show ?thesis using gen [of "prefixedKeys s p" l s]
    by (simp add: store_BulkDeletePrefixed_def) blast
qed

end
