(* ===== verification/Service_Export.thy ===== *)
theory Service_Export
  imports Status_Sync Committer Crds Context_Store
begin

text \<open>
  The service export controller of the konnector
  (\<open>src/pkg/konnector/controllers/cluster/serviceexport/serviceexport_reconcile.go\<close> and
  \<open>serviceexport_controller.go\<close>): it starts and stops the synchronisation of each bound
  schema of an export and of each permission claim of its binding, and reports the state of the
  consumer cluster in the conditions of the export and of the bound schemas.
  The state is the world together with the context store. Building clients and informers and
  starting goroutines are effects of the reconciler record; a started group of goroutines is
  known by the handle that cancels it.
\<close>

section \<open>State and effects\<close>

text \<open>The isolation strategy of a schema, as the switch of the source selects it.\<close>

datatype strategyChoice = UseServiceNamespaced | UseNone | UsePrefixed | UseNamespaced

text \<open>What is started for a schema and for a claim.\<close>

record schemaSync =
  ss_key :: Key
  ss_gvr :: GroupVersionResource
  ss_strategy :: strategyChoice
  ss_clusterInformer :: bool
  ss_namespaceUID :: string

record claimSync =
  cm_key :: Key
  cm_gvr :: GroupVersionResource
  cm_claim :: PermissionClaim
  cm_clusterInformer :: bool

record 'w export_reconciler =
  xr_providerNamespace :: string
  xr_getCRD :: "'w \<Rightarrow> string \<Rightarrow> CustomResourceDefinition result"
  xr_getServiceBinding :: "'w \<Rightarrow> string \<Rightarrow> APIServiceBinding result"
  xr_getRemoteBoundSchema :: "'w \<Rightarrow> string \<Rightarrow> BoundSchema result"
  xr_updateRemoteBoundSchema :: "'w \<Rightarrow> BoundSchema \<Rightarrow> error option \<times> 'w"
  xr_getNamespaceUID :: "'w \<Rightarrow> string \<Rightarrow> string result"
  xr_newMultiNamespaceInformer :: "'w \<Rightarrow> GroupVersionResource \<Rightarrow> error option"
  xr_newBindClient :: "'w \<Rightarrow> error option"
  xr_newSpecController :: "'w \<Rightarrow> schemaSync \<Rightarrow> error option"
  xr_newStatusController :: "'w \<Rightarrow> schemaSync \<Rightarrow> error option"
  xr_startSchema :: "'w \<Rightarrow> schemaSync \<Rightarrow> nat \<times> 'w"
  xr_newClaimController :: "'w \<Rightarrow> claimSync \<Rightarrow> error option"
  xr_newClaimNamespacesController :: "'w \<Rightarrow> claimSync \<Rightarrow> error option"
  xr_startClaim :: "'w \<Rightarrow> claimSync \<Rightarrow> nat \<times> 'w"
  xr_cancel :: "nat \<Rightarrow> 'w \<Rightarrow> 'w"
  xr_gvrString :: "GroupVersionResource \<Rightarrow> string"

section \<open>Controllers of schemas\<close>

definition syncVersion :: "APIResourceVersion list \<Rightarrow> string" where
  "syncVersion vs = (case find v_Served vs of Some v \<Rightarrow> v_Name v | None \<Rightarrow> [])"

definition chooseStrategy :: "APIServiceExport \<Rightarrow> BoundSchema \<Rightarrow> strategyChoice" where
  "chooseStrategy export schema =
     (if cs_Scope (bss_APICRDSpec (bs_Spec schema)) = NamespaceScoped then UseServiceNamespaced
      else if exs_Isolation (ex_Spec export) = IsolationNone then UseNone
      else if exs_Isolation (ex_Spec export) = IsolationPrefixed then UsePrefixed
      else if exs_Isolation (ex_Spec export) = IsolationNamespaced then UseNamespaced
      else UseNone)"

text \<open>The service namespace that is created for a consumer namespace, owned by the export.\<close>

definition newServiceNamespace :: "string \<Rightarrow> APIServiceExport \<Rightarrow> string \<Rightarrow> APIServiceNamespace" where
  "newServiceNamespace providerNamespace export name =
     \<lparr>sn_meta = emptyMeta\<lparr>m_Name := name, m_Namespace := providerNamespace,
        m_OwnerReferences := [NewControllerRef (ex_meta export) ''APIServiceExport'']\<rparr>,
      sn_Status = \<lparr>snt_Namespace = []\<rparr>\<rparr>"

definition strategyOf ::
  "strategyChoice \<Rightarrow> string \<Rightarrow> string \<Rightarrow> APIServiceExport \<Rightarrow> 'w sn_informer \<Rightarrow>
     ('w \<Rightarrow> APIServiceNamespace \<Rightarrow> APIServiceNamespace result \<times> 'w) \<Rightarrow> 'w Strategy" where
  "strategyOf choice providerNamespace uid export snInf createSN =
     (case choice of
        UseServiceNamespaced \<Rightarrow> NewServiceNamespaced providerNamespace snInf
          (\<lambda>w name. createSN w (newServiceNamespace providerNamespace export name))
      | UseNone \<Rightarrow> NewNone providerNamespace uid
      | UsePrefixed \<Rightarrow> NewPrefixed providerNamespace uid
      | UseNamespaced \<Rightarrow> NewNamespaced providerNamespace)"

definition ensureControllerForSchema ::
  "'w export_reconciler \<Rightarrow> 'w \<times> contextStore \<Rightarrow> APIServiceExport \<Rightarrow> BoundSchema \<Rightarrow>
     error option \<times> ('w \<times> contextStore)" where
  "ensureControllerForSchema r st export schema =
     (let key = NewKey (m_Namespace (ex_meta export)) (m_Name (ex_meta export)) [m_Name (bs_meta schema)];
          spec = bss_APICRDSpec (bs_Spec schema);
          generation = m_Generation (ex_meta export);
          start = (\<lambda>st.
            let version = syncVersion (cs_Versions spec)
            in if version = []
               then (Some (PlainError (Sprintf ''no served version found for BoundSchema %s''
                       [FStr (m_Name (bs_meta schema))])), st)
               else case xr_getNamespaceUID r (fst st) (xr_providerNamespace r) of
                   Inl err \<Rightarrow> (Some err, st)
                 | Inr uid \<Rightarrow>
                     let gvr = \<lparr>gvr_Group = cs_Group spec, gvr_Version = version,
                                gvr_Resource = crn_Plural (cs_Names spec)\<rparr>;
                         cluster = (cs_Scope spec = ClusterScoped \<or>
                                    bss_InformerScope (bs_Spec schema) = ClusterScope);
                         sync = \<lparr>ss_key = key, ss_gvr = gvr, ss_strategy = chooseStrategy export schema,
                                 ss_clusterInformer = cluster, ss_namespaceUID = uid\<rparr>
                     in case (if cluster then None else xr_newMultiNamespaceInformer r (fst st) gvr) of
                          Some err \<Rightarrow> (Some err, st)
                        | None \<Rightarrow>
                            (case (if ss_strategy sync = UseServiceNamespaced
                                   then xr_newBindClient r (fst st) else None) of
                               Some err \<Rightarrow> (Some err, st)
                             | None \<Rightarrow>
                                 if xr_newSpecController r (fst st) sync \<noteq> None \<or>
                                    xr_newStatusController r (fst st) sync \<noteq> None
                                 then (None, st)
                                 else (case xr_startSchema r (fst st) sync of
                                     (cancel, w1) \<Rightarrow>
                                       (None, (w1, store_Set (snd st) key
                                          \<lparr>sx_key = [], sx_Generation = generation, sx_Cancel = cancel\<rparr>)))))
      in case store_Get (snd st) key of
           Some c \<Rightarrow>
             if sx_Generation c = generation then (None, st)
             else start (store_Delete (xr_cancel r) st key)
         | None \<Rightarrow> start st)"

section \<open>Controllers of permission claims\<close>

definition ensureControllerForPermissionClaim ::
  "'w export_reconciler \<Rightarrow> 'w \<times> contextStore \<Rightarrow> APIServiceBinding \<Rightarrow> PermissionClaim \<Rightarrow>
     GroupVersionResource \<Rightarrow> bool \<Rightarrow> Key \<Rightarrow> error option \<times> ('w \<times> contextStore)" where
  "ensureControllerForPermissionClaim r st binding claim claimGVR isClusterScoped claimKey =
     (let sync = \<lparr>cm_key = claimKey, cm_gvr = claimGVR, cm_claim = claim, cm_clusterInformer = isClusterScoped\<rparr>
      in case (if isClusterScoped then None else xr_newMultiNamespaceInformer r (fst st) claimGVR) of
           Some err \<Rightarrow> (Some err, st)
         | None \<Rightarrow>
             (case xr_newClaimController r (fst st) sync of
                Some err \<Rightarrow> (Some err, st)
              | None \<Rightarrow>
                  (case xr_newClaimNamespacesController r (fst st) sync of
                     Some err \<Rightarrow> (Some err, st)
                   | None \<Rightarrow>
                       (case xr_startClaim r (fst st) sync of
                          (cancel, w1) \<Rightarrow>
                            (None, (w1, store_Set (snd st) claimKey
                               \<lparr>sx_key = [], sx_Generation = m_Generation (bd_meta binding),
                                sx_Cancel = cancel\<rparr>))))))"

definition claimKeyOf :: "'w export_reconciler \<Rightarrow> APIServiceExport \<Rightarrow> GroupVersionResource \<Rightarrow> Key" where
  "claimKeyOf r export gvr =
     NewKey (m_Namespace (ex_meta export)) (m_Name (ex_meta export)) [''claim'', xr_gvrString r gvr]"

text \<open>The loop over the claims: the errors and the keys that were processed.\<close>

fun ensureClaims ::
  "'w export_reconciler \<Rightarrow> APIServiceExport \<Rightarrow> APIServiceBinding \<Rightarrow> bool \<Rightarrow> PermissionClaim list \<Rightarrow>
     error list \<Rightarrow> Key list \<Rightarrow> 'w \<times> contextStore \<Rightarrow> (error list \<times> Key list) \<times> ('w \<times> contextStore)" where
  "ensureClaims r export binding isClusterScoped [] errs processed st = ((errs, processed), st)"
| "ensureClaims r export binding isClusterScoped (claim # claims) errs processed st =
     (case ResolveClaimableAPI claim of
        Inl err \<Rightarrow> ensureClaims r export binding isClusterScoped claims errs processed st
      | Inr claimGVR \<Rightarrow>
          let claimKey = claimKeyOf r export claimGVR;
              processed1 = processed @ [claimKey];
              start = (\<lambda>st. case ensureControllerForPermissionClaim r st binding claim claimGVR
                               isClusterScoped claimKey of
                         (err, st1) \<Rightarrow> ensureClaims r export binding isClusterScoped claims
                           (appendErr errs err) processed1 st1)
          in case store_Get (snd st) claimKey of
               Some c \<Rightarrow>
                 if sx_Generation c = m_Generation (bd_meta binding)
                 then ensureClaims r export binding isClusterScoped claims errs processed1 st
                 else start (store_Delete (xr_cancel r) st claimKey)
             | None \<Rightarrow> start st)"

text \<open>The clean-up loops delete the listed contexts whose key was not processed.\<close>

fun deleteStale :: "(nat \<Rightarrow> 'w \<Rightarrow> 'w) \<Rightarrow> (Key \<Rightarrow> bool) \<Rightarrow> SyncContext list \<Rightarrow> 'w \<times> contextStore \<Rightarrow> 'w \<times> contextStore" where
  "deleteStale cancel keep [] st = st"
| "deleteStale cancel keep (c # cs) st =
     (if keep (sx_key c) then deleteStale cancel keep cs st
      else deleteStale cancel keep cs (store_Delete cancel st (sx_key c)))"

definition ensureControllersForPermissionClaims ::
  "'w export_reconciler \<Rightarrow> 'w \<times> contextStore \<Rightarrow> APIServiceExport \<Rightarrow> APIServiceBinding \<Rightarrow> bool \<Rightarrow>
     error option \<times> ('w \<times> contextStore)" where
  "ensureControllersForPermissionClaims r st export binding isClusterScoped =
     (case ensureClaims r export binding isClusterScoped (bdt_PermissionClaims (bd_Status binding)) [] [] st of
        ((errs, processed), st1) \<Rightarrow>
          let claimPrefix = NewKey (m_Namespace (ex_meta export)) (m_Name (ex_meta export)) [''claim'']
          in (NewAggregate errs,
              deleteStale (xr_cancel r) (\<lambda>k. k \<in> set processed) (store_ListPrefixed (snd st1) claimPrefix) st1))"

section \<open>The export\<close>

text \<open>
  The loop over the resources. The variable \<open>name\<close> of the source shadows the name of the
  export here, so the key of a missing schema is made of the name of the resource twice.
\<close>

fun ensureSchemas ::
  "'w export_reconciler \<Rightarrow> string \<Rightarrow> APIServiceExport \<Rightarrow> APIServiceExportResource list \<Rightarrow> error list \<Rightarrow>
     string list \<Rightarrow> bool \<Rightarrow> 'w \<times> contextStore \<Rightarrow> (error list \<times> string list \<times> bool) \<times> ('w \<times> contextStore)" where
  "ensureSchemas r namespace export [] errs processed isClusterScoped st =
     ((errs, processed, isClusterScoped), st)"
| "ensureSchemas r namespace export (res # ress) errs processed isClusterScoped st =
     (let name = ResourceGroupName res
      in case xr_getRemoteBoundSchema r (fst st) name of
           Inl err \<Rightarrow>
             if IsNotFound err then
               (case store_BulkDeletePrefixed (xr_cancel r) st (NewKey namespace name [name]) of
                  (deleted, st1) \<Rightarrow> ensureSchemas r namespace export ress errs processed isClusterScoped st1)
             else ensureSchemas r namespace export ress (errs @ [err]) processed isClusterScoped st
         | Inr schema \<Rightarrow>
             (case ensureControllerForSchema r st export schema of
                (err, st1) \<Rightarrow>
                  ensureSchemas r namespace export ress (appendErr errs err) (processed @ [name])
                    (bss_InformerScope (bs_Spec schema) = ClusterScope) st1))"

text \<open>What the last loop keeps of the contexts of the export.\<close>

definition keepSchemaContext :: "Key \<Rightarrow> string list \<Rightarrow> Key \<Rightarrow> bool" where
  "keepSchemaContext exportKey processed k =
     (let schemaName = TrimPrefix k (exportKey @ ''.'')
      in HasPrefix schemaName ''claim.'' \<or> schemaName \<in> set processed)"

definition ensureControllers ::
  "'w export_reconciler \<Rightarrow> 'w \<times> contextStore \<Rightarrow> string \<Rightarrow> string \<Rightarrow> APIServiceExport option \<Rightarrow>
     error option \<times> ('w \<times> contextStore)" where
  "ensureControllers r st namespace name export =
     (let exportKey = namespace @ ''.'' @ name
      in case export of
           None \<Rightarrow> (None, snd (store_BulkDeletePrefixed (xr_cancel r) st exportKey))
         | Some ex \<Rightarrow>
             (case xr_getServiceBinding r (fst st) (m_Name (ex_meta ex)) of
                Inl err \<Rightarrow>
                  if \<not> IsNotFound err then (Some err, st)
                  else (None, snd (store_BulkDeletePrefixed (xr_cancel r) st exportKey))
              | Inr binding \<Rightarrow>
                  (case ensureSchemas r namespace ex (exs_Resources (ex_Spec ex)) [] [] False st of
                     ((errs, processed, isClusterScoped), st1) \<Rightarrow>
                       (case ensureControllersForPermissionClaims r st1 ex binding isClusterScoped of
                          (err, st2) \<Rightarrow>
                            (NewAggregate (appendErr errs err),
                             deleteStale (xr_cancel r) (keepSchemaContext exportKey processed)
                               (store_ListPrefixed (snd st2) exportKey) st2)))))"

section \<open>Conditions\<close>

definition ensureServiceBindingConditionCopied ::
  "'w export_reconciler \<Rightarrow> 'w \<Rightarrow> time \<Rightarrow> APIServiceExport \<Rightarrow> error option \<times> APIServiceExport" where
  "ensureServiceBindingConditionCopied r w now export =
     (case xr_getServiceBinding r w (m_Name (ex_meta export)) of
        Inl err \<Rightarrow>
          if \<not> IsNotFound err then (Some err, export)
          else
            let e1 = MarkFalse APIServiceExport_Setter now export APIServiceExportConditionConnected
                  ''APIServiceBindingNotFound'' ConditionSeverityInfo ''No APIServiceBinding exists.'' [];
                e2 = MarkFalse APIServiceExport_Setter now e1 APIServiceExportConditionConsumerInSync
                  ''NA'' ConditionSeverityInfo ''No APIServiceBinding exists.'' []
            in (None, e2)
      | Inr binding \<Rightarrow>
          let e1 = MarkTrue APIServiceExport_Setter now export APIServiceExportConditionConnected
          in (None,
              case Get (s_getter APIServiceBinding_Setter binding) APIServiceBindingConditionSchemaInSync of
                Some inSync \<Rightarrow> Set APIServiceExport_Setter now e1
                  (Some (inSync\<lparr>c_Type := APIServiceExportConditionConsumerInSync\<rparr>))
              | None \<Rightarrow> MarkFalse APIServiceExport_Setter now e1 APIServiceExportConditionConsumerInSync
                  ''Unknown'' ConditionSeverityInfo
                  ''APIServiceBinding %s in the consumer cluster does not have a SchemaInSync condition.''
                  [FStr (m_Name (bd_meta binding))]))"

text \<open>
  Copying the conditions of a definition: the index of the types is taken once, before the loop;
  for a repeated type the last position counts.
\<close>

definition boundSchemaIndex :: "Conditions \<Rightarrow> ConditionType \<Rightarrow> nat option" where
  "boundSchemaIndex cs = map_of (rev (zip (map c_Type cs) [0..<length cs]))"

definition copiedCondition :: "CRDCondition \<Rightarrow> Condition" where
  "copiedCondition c =
     \<lparr>c_Type = crc_Type c, c_Status = crc_Status c,
      c_Severity = (if crc_Status c = ConditionTrue then ConditionSeverityNone else ConditionSeverityError),
      c_LastTransitionTime = crc_LastTransitionTime c, c_Reason = crc_Reason c, c_Message = crc_Message c\<rparr>"

fun copyConditions ::
  "(ConditionType \<Rightarrow> nat option) \<Rightarrow> CRDCondition list \<Rightarrow> Conditions \<Rightarrow> Conditions" where
  "copyConditions index [] cs = cs"
| "copyConditions index (c # crdConditions) cs =
     (if crc_Type c = ReadyCondition then copyConditions index crdConditions cs
      else case index (crc_Type c) of
          Some i \<Rightarrow> copyConditions index crdConditions (cs[i := copiedCondition c])
        | None \<Rightarrow> copyConditions index crdConditions (cs @ [copiedCondition c]))"

definition copyCRDStatus :: "time \<Rightarrow> CustomResourceDefinition \<Rightarrow> BoundSchema \<Rightarrow> BoundSchema" where
  "copyCRDStatus now crd boundSchema =
     (let cs = bst_Conditions (bs_Status boundSchema);
          b1 = boundSchema\<lparr>bs_Status := (bs_Status boundSchema)\<lparr>bst_Conditions :=
                 copyConditions (boundSchemaIndex cs) (cdt_Conditions (crd_Status crd)) cs\<rparr>\<rparr>;
          b2 = SetSummary BoundSchema_Setter now b1 []
      in b2\<lparr>bs_Status := (bs_Status b2)\<lparr>bst_AcceptedNames := cdt_AcceptedNames (crd_Status crd),
             bst_StoredVersions := cdt_StoredVersions (crd_Status crd)\<rparr>\<rparr>)"

fun copyCRDsStatus ::
  "'w export_reconciler \<Rightarrow> time \<Rightarrow> APIServiceExportResource list \<Rightarrow> error list \<Rightarrow> bool \<Rightarrow> 'w \<Rightarrow>
     (error list \<times> bool) \<times> 'w" where
  "copyCRDsStatus r now [] errs allValid w = ((errs, allValid), w)"
| "copyCRDsStatus r now (res # ress) errs allValid w =
     (case xr_getRemoteBoundSchema r w (ResourceGroupName res) of
        Inl err \<Rightarrow>
          copyCRDsStatus r now ress (if IsNotFound err then errs else errs @ [err]) allValid w
      | Inr boundSchema \<Rightarrow>
          (case xr_getCRD r w (m_Name (bs_meta boundSchema)) of
             Inl err \<Rightarrow>
               copyCRDsStatus r now ress (if IsNotFound err then errs else errs @ [err]) allValid w
           | Inr crd \<Rightarrow>
               (case xr_updateRemoteBoundSchema r w (copyCRDStatus now crd boundSchema) of
                  (Some err, w1) \<Rightarrow> copyCRDsStatus r now ress (errs @ [err]) False w1
                | (None, w1) \<Rightarrow> copyCRDsStatus r now ress errs allValid w1)))"

definition ensureCRDConditionsCopiedToBoundSchema ::
  "'w export_reconciler \<Rightarrow> 'w \<Rightarrow> time \<Rightarrow> APIServiceExport \<Rightarrow> error option \<times> APIServiceExport \<times> 'w" where
  "ensureCRDConditionsCopiedToBoundSchema r w now export =
     (case copyCRDsStatus r now (exs_Resources (ex_Spec export)) [] True w of
        ((errs, allValid), w1) \<Rightarrow>
          (NewAggregate errs,
           if allValid then MarkTrue APIServiceExport_Setter now export APIServiceExportConditionConnected
           else MarkFalse APIServiceExport_Setter now export APIServiceExportConditionConnected
             ''BoundSchemasNotValid'' ConditionSeverityWarning ''One or more BoundSchemas are not valid'' [],
           w1))"

definition export_reconcile ::
  "'w export_reconciler \<Rightarrow> 'w \<times> contextStore \<Rightarrow> time \<Rightarrow> string \<Rightarrow> string \<Rightarrow> APIServiceExport option \<Rightarrow>
     error option \<times> APIServiceExport option \<times> ('w \<times> contextStore)" where
  "export_reconcile r st now namespace name export =
     (case ensureControllers r st namespace name export of
        (err1, (w1, s1)) \<Rightarrow>
          (case export of
             None \<Rightarrow> (NewAggregate (appendErr [] err1), None, (w1, s1))
           | Some ex \<Rightarrow>
               (case ensureServiceBindingConditionCopied r w1 now ex of
                  (err2, ex2) \<Rightarrow>
                    (case ensureCRDConditionsCopiedToBoundSchema r w1 now ex2 of
                       (err3, ex3, w2) \<Rightarrow>
                         (NewAggregate (appendErr (appendErr (appendErr [] err1) err2) err3),
                          Some ex3, (w2, s1))))))"

section \<open>The controller\<close>

record ('w, 'e) export_controller =
  xc_queue :: "('w \<times> contextStore) Queue"
  xc_keys :: "'e KeyFuncs"
  xc_exportKey :: "APIServiceExport \<Rightarrow> string result"
  xc_asBinding :: "'e \<Rightarrow> APIServiceBinding option"
  xc_exportGet :: "'w \<Rightarrow> string \<Rightarrow> string \<Rightarrow> APIServiceExport result"
  xc_byBoundSchema :: "'w \<Rightarrow> string \<Rightarrow> APIServiceExport list result"
  xc_now :: "'w \<Rightarrow> time"
  xc_patcher :: "(APIServiceExportSpec, APIServiceExportStatus, 'w) Patcher"
  xc_reconciler :: "'w export_reconciler"

definition export_enqueueServiceExport ::
  "('w, 'e) export_controller \<Rightarrow> 'w \<times> contextStore \<Rightarrow> 'e \<Rightarrow> 'w \<times> contextStore" where
  "export_enqueueServiceExport c st ob =
     (case kf_DeletionHandlingMetaNamespaceKeyFunc (xc_keys c) ob of
        Inl err \<Rightarrow> st | Inr key \<Rightarrow> q_Add (xc_queue c) key st)"

definition export_enqueueServiceBinding ::
  "('w, 'e) export_controller \<Rightarrow> 'w \<times> contextStore \<Rightarrow> 'e \<Rightarrow> 'w \<times> contextStore" where
  "export_enqueueServiceBinding c st ob =
     (case xc_asBinding c ob of
        None \<Rightarrow> st
      | Some binding \<Rightarrow>
          q_Add (xc_queue c) (xr_providerNamespace (xc_reconciler c) @ ''/'' @ m_Name (bd_meta binding)) st)"

text \<open>Unlike the other enqueue loops this one stops at the first export without a key.\<close>

fun enqueueExports ::
  "('w, 'e) export_controller \<Rightarrow> APIServiceExport list \<Rightarrow> 'w \<times> contextStore \<Rightarrow> 'w \<times> contextStore" where
  "enqueueExports c [] st = st"
| "enqueueExports c (ex # exs) st =
     (case xc_exportKey c ex of
        Inl err \<Rightarrow> st | Inr key \<Rightarrow> enqueueExports c exs (q_Add (xc_queue c) key st))"

definition export_enqueueCRD ::
  "('w, 'e) export_controller \<Rightarrow> 'w \<times> contextStore \<Rightarrow> 'e \<Rightarrow> 'w \<times> contextStore" where
  "export_enqueueCRD c st ob =
     (case kf_DeletionHandlingMetaNamespaceKeyFunc (xc_keys c) ob of
        Inl err \<Rightarrow> st
      | Inr name \<Rightarrow>
          (case xc_byBoundSchema c (fst st) name of
             Inl err \<Rightarrow> st | Inr exports \<Rightarrow> enqueueExports c exports st))"

definition exportResource :: "APIServiceExport \<Rightarrow> (APIServiceExportSpec, APIServiceExportStatus) Resource" where
  "exportResource e = \<lparr>r_meta = ex_meta e, r_Spec = ex_Spec e, r_Status = ex_Status e\<rparr>"

definition export_process ::
  "('w, 'e) export_controller \<Rightarrow> 'w \<times> contextStore \<Rightarrow> string \<Rightarrow> (error option \<times> ('w \<times> contextStore)) outcome" where
  "export_process c st key =
     (case kf_SplitMetaNamespaceKey (xc_keys c) key of
        Inl err \<Rightarrow> Returns (None, st)
      | Inr (namespace, name) \<Rightarrow>
          (case xc_exportGet c (fst st) namespace name of
             Inl err \<Rightarrow>
               if \<not> IsNotFound err then Returns (Some err, st)
               else (case export_reconcile (xc_reconciler c) st (xc_now c (fst st)) namespace name None of
                   (e, _, st1) \<Rightarrow> Returns (e, st1))
           | Inr old \<Rightarrow>
               (case export_reconcile (xc_reconciler c) st (xc_now c (fst st)) namespace name (Some old) of
                  (e, obj, (w1, s1)) \<Rightarrow>
                    (case NewCommitter (xc_patcher c) w1 (exportResource old)
                            (exportResource (case obj of None \<Rightarrow> old | Some ob \<Rightarrow> ob)) of
                       Panic m \<Rightarrow> Panic m
                     | Returns (e2, w2) \<Rightarrow>
                         Returns (NewAggregate (appendErr (appendErr [] e) e2), (w2, s1))))))"

section \<open>Lemmas\<close>

lemma deleteStale_eq: "deleteStale cancel keep cs st = contexts.deleteUnless cancel keep cs st"
  by (induction cs arbitrary: st) (simp_all add: contexts.deleteUnless_def)

lemmas store_get_simps = contexts.get_set contexts.get_delete_st deleteStale_eq contexts.get_deleteUnless

text \<open>The context of a schema: the one key it touches, and what is there afterwards.\<close>

abbreviation schemaKey :: "APIServiceExport \<Rightarrow> string \<Rightarrow> Key" where
  "schemaKey export name \<equiv> NewKey (m_Namespace (ex_meta export)) (m_Name (ex_meta export)) [name]"

definition controllersBuild :: "'w export_reconciler \<Rightarrow> bool" where
  "controllersBuild r \<longleftrightarrow> (\<forall>w s. xr_newSpecController r w s = None \<and> xr_newStatusController r w s = None)"

lemma ensureControllerForSchema_frame:
  assumes "ensureControllerForSchema r st export schema = (e, st')"
    and "k \<noteq> schemaKey export (m_Name (bs_meta schema))"
  shows "store_Get (snd st') k = store_Get (snd st) k"
  using assms
  by (auto simp: ensureControllerForSchema_def Let_def store_get_simps
      split: option.splits if_splits sum.splits prod.splits)

lemma ensureControllerForSchema_ok:
  assumes "ensureControllerForSchema r st export schema = (e, st')" "storeOk (snd st)"
  shows "storeOk (snd st')"
  using assms
  by (auto simp: ensureControllerForSchema_def Let_def storeOk_Set storeOk_Delete
      split: option.splits if_splits sum.splits prod.splits)

lemma ensureControllerForSchema_started:
  assumes "ensureControllerForSchema r st export schema = (None, st')" "controllersBuild r"
  shows "\<exists>c. store_Get (snd st') (schemaKey export (m_Name (bs_meta schema))) = Some c \<and>
    sx_Generation c = m_Generation (ex_meta export)"
  using assms
  by (auto simp: ensureControllerForSchema_def controllersBuild_def Let_def store_get_simps
      split: option.splits if_splits sum.splits prod.splits)

text \<open>The claim loop touches only the keys of the resolved claims, and processes exactly those.\<close>

definition claimKeys :: "'w export_reconciler \<Rightarrow> APIServiceExport \<Rightarrow> PermissionClaim list \<Rightarrow> Key set" where
  "claimKeys r export claims = {claimKeyOf r export gvr | gvr claim. claim \<in> set claims \<and> ResolveClaimableAPI claim = Inr gvr}"

lemma claimKeys_Cons [simp]:
  "claimKeys r export (claim # claims) =
     (case ResolveClaimableAPI claim of Inl e \<Rightarrow> {} | Inr gvr \<Rightarrow> {claimKeyOf r export gvr}) \<union>
     claimKeys r export claims"
  by (auto simp: claimKeys_def split: sum.splits)

lemma claimKeys_Nil [simp]: "claimKeys r export [] = {}"
  by (simp add: claimKeys_def)

lemma ensureControllerForPermissionClaim_frame:
  assumes "ensureControllerForPermissionClaim r st binding claim gvr cl key = (e, st')"
  shows "k \<noteq> key \<Longrightarrow> store_Get (snd st') k = store_Get (snd st) k"
    and "storeOk (snd st) \<Longrightarrow> storeOk (snd st')"
  using assms
  by (auto simp: ensureControllerForPermissionClaim_def Let_def store_get_simps storeOk_Set
      split: option.splits if_splits prod.splits)

lemma ensureClaims_frame:
  assumes "ensureClaims r export binding cl claims errs processed st = ((errs', processed'), st')"
  shows "set processed' = set processed \<union> claimKeys r export claims"
    and "k \<notin> claimKeys r export claims \<Longrightarrow> store_Get (snd st') k = store_Get (snd st) k"
    and "storeOk (snd st) \<Longrightarrow> storeOk (snd st')"
proof -
  have "set processed' = set processed \<union> claimKeys r export claims \<and>
    (k \<notin> claimKeys r export claims \<longrightarrow> store_Get (snd st') k = store_Get (snd st) k) \<and>
    (storeOk (snd st) \<longrightarrow> storeOk (snd st'))"
    using assms
  proof (induction claims arbitrary: errs processed st)
    case Nil
    then show ?case by simp
  next
    case (Cons claim claims)
    show ?case
    proof (cases "ResolveClaimableAPI claim")
      case (Inl e)
      with Cons show ?thesis by simp
    next
      case (Inr gvr)
      let ?k = "claimKeyOf r export gvr"
      show ?thesis
      proof (cases "\<exists>c. store_Get (snd st) ?k = Some c \<and> sx_Generation c = m_Generation (bd_meta binding)")
        case True
        with Cons Inr show ?thesis by (fastforce simp: Let_def)
      next
        case False
        define st0 where "st0 = (if store_Get (snd st) ?k = None then st
          else store_Delete (xr_cancel r) st ?k)"
        obtain e1 st1 where one: "ensureControllerForPermissionClaim r st0 binding claim gvr cl ?k = (e1, st1)"
          by (cases "ensureControllerForPermissionClaim r st0 binding claim gvr cl ?k") blast
        have rest: "ensureClaims r export binding cl claims (appendErr errs e1) (processed @ [?k]) st1 =
            ((errs', processed'), st')"
          using Cons.prems Inr False one by (auto simp: Let_def st0_def split: option.splits)
        have st0: "k \<noteq> ?k \<Longrightarrow> store_Get (snd st0) k = store_Get (snd st) k"
          "storeOk (snd st) \<Longrightarrow> storeOk (snd st0)"
          by (auto simp: st0_def store_get_simps storeOk_Delete)
        show ?thesis
          using Cons.IH [OF rest] ensureControllerForPermissionClaim_frame [OF one] st0 Inr by auto
      qed
    qed
  qed
  then show "set processed' = set processed \<union> claimKeys r export claims"
    and "k \<notin> claimKeys r export claims \<Longrightarrow> store_Get (snd st') k = store_Get (snd st) k"
    and "storeOk (snd st) \<Longrightarrow> storeOk (snd st')" by blast+
qed

lemma ensureSchemas_processed:
  assumes "ensureSchemas r ns export ress errs processed cl st = ((errs', processed', cl'), st')"
  shows "set processed' \<subseteq> set processed \<union> ResourceGroupName ` set ress"
    and "storeOk (snd st) \<Longrightarrow> storeOk (snd st')"
proof -
  have "set processed' \<subseteq> set processed \<union> ResourceGroupName ` set ress \<and> (storeOk (snd st) \<longrightarrow> storeOk (snd st'))"
    using assms
  proof (induction ress arbitrary: errs processed cl st)
    case Nil
    then show ?case by simp
  next
    case (Cons res ress)
    have bulk: "storeOk (snd (snd (store_BulkDeletePrefixed (xr_cancel r) st p)))" if "storeOk (snd st)" for p
      using contexts.ok_bulk [OF that, of "xr_cancel r" "fst st" p] by simp
    show ?case
    proof (cases "xr_getRemoteBoundSchema r (fst st) (ResourceGroupName res)")
      case (Inl err)
      let ?st1 = "snd (store_BulkDeletePrefixed (xr_cancel r) st (NewKey ns (ResourceGroupName res) [ResourceGroupName res]))"
      show ?thesis
      proof (cases "IsNotFound err")
        case True
        with Cons.prems Inl have "ensureSchemas r ns export ress errs processed cl ?st1 = ((errs', processed', cl'), st')"
          by (auto simp: Let_def split: prod.splits)
        from Cons.IH [OF this] bulk show ?thesis by auto
      next
        case False
        with Cons.prems Inl Cons.IH [of "errs @ [err]" processed cl st] show ?thesis by auto
      qed
    next
      case (Inr schema)
      obtain e1 st1 where one: "ensureControllerForSchema r st export schema = (e1, st1)"
        by (cases "ensureControllerForSchema r st export schema") blast
      with Cons.prems Inr have "ensureSchemas r ns export ress (appendErr errs e1)
          (processed @ [ResourceGroupName res]) (bss_InformerScope (bs_Spec schema) = ClusterScope) st1 =
          ((errs', processed', cl'), st')" by simp
      from Cons.IH [OF this] ensureControllerForSchema_ok [OF one] show ?thesis by auto
    qed
  qed
  then show "set processed' \<subseteq> set processed \<union> ResourceGroupName ` set ress"
    and "storeOk (snd st) \<Longrightarrow> storeOk (snd st')" by blast+
qed

lemma NewKey_simps:
  "NewKey ns n [x] = (ns @ ''.'' @ n) @ ''.'' @ x" "NewKey ns n [x, y] = (ns @ ''.'' @ n) @ ''.'' @ x @ ''.'' @ y"
  by (simp_all add: NewKey_def)

abbreviation claimPrefixOf :: "APIServiceExport \<Rightarrow> Key" where
  "claimPrefixOf export \<equiv> schemaKey export ''claim''"

lemma ensureControllersForPermissionClaims_frame:
  assumes "ensureControllersForPermissionClaims r st export binding cl = (e, st')" "storeOk (snd st)"
  shows "storeOk (snd st')"
    and "store_Get (snd st') k = Some c \<Longrightarrow> HasPrefix k (claimPrefixOf export) \<Longrightarrow>
      k \<in> claimKeys r export (bdt_PermissionClaims (bd_Status binding))"
    and "k \<notin> claimKeys r export (bdt_PermissionClaims (bd_Status binding)) \<Longrightarrow>
      \<not> HasPrefix k (claimPrefixOf export) \<Longrightarrow> store_Get (snd st') k = store_Get (snd st) k"
proof -
  let ?claims = "bdt_PermissionClaims (bd_Status binding)"
  obtain errs processed st1 where one:
    "ensureClaims r export binding cl ?claims [] [] st = ((errs, processed), st1)"
    by (cases "ensureClaims r export binding cl ?claims [] [] st") auto
  note fr = ensureClaims_frame [OF one]
  have st': "st' = contexts.deleteUnless (xr_cancel r) (\<lambda>k. k \<in> set processed)
      (store_ListPrefixed (snd st1) (claimPrefixOf export)) st1"
    using assms(1) one by (simp add: ensureControllersForPermissionClaims_def Let_def deleteStale_eq)
  show "storeOk (snd st')" using fr(3) assms(2) by (simp add: st' contexts.ok_deleteUnless)
  show "k \<in> claimKeys r export ?claims"
    if "store_Get (snd st') k = Some c" "HasPrefix k (claimPrefixOf export)"
    using contexts.deleteUnless_listed [OF fr(3) [OF assms(2)] that(1) [unfolded st'] that(2)] fr(1) by simp
  show "store_Get (snd st') k = store_Get (snd st) k"
    if "k \<notin> claimKeys r export ?claims" "\<not> HasPrefix k (claimPrefixOf export)"
    using that fr(2) [OF that(1)] contexts.list_iff [OF fr(3) [OF assms(2)]]
    by (auto simp: st' contexts.get_deleteUnless)
qed

text \<open>The run of \<open>ensureControllers\<close> for an export with a binding, in its three stages.\<close>

lemma ensureControllers_stages:
  assumes "xr_getServiceBinding r (fst st) (m_Name (ex_meta ex)) = Inr binding"
    and "ensureControllers r st ns name (Some ex) = (e, st')"
  obtains errs processed cl st1 e2 st2 where
    "ensureSchemas r ns ex (exs_Resources (ex_Spec ex)) [] [] False st = ((errs, processed, cl), st1)"
    "ensureControllersForPermissionClaims r st1 ex binding cl = (e2, st2)"
    "e = NewAggregate (appendErr errs e2)"
    "st' = contexts.deleteUnless (xr_cancel r) (keepSchemaContext (ns @ ''.'' @ name) processed)
       (store_ListPrefixed (snd st2) (ns @ ''.'' @ name)) st2"
proof -
  obtain errs processed cl st1 where one:
    "ensureSchemas r ns ex (exs_Resources (ex_Spec ex)) [] [] False st = ((errs, processed, cl), st1)"
    by (cases "ensureSchemas r ns ex (exs_Resources (ex_Spec ex)) [] [] False st") auto
  obtain e2 st2 where two: "ensureControllersForPermissionClaims r st1 ex binding cl = (e2, st2)"
    by (cases "ensureControllersForPermissionClaims r st1 ex binding cl") auto
  from assms one two show thesis
    by (intro that [OF one two]) (simp_all add: ensureControllers_def Let_def deleteStale_eq)
qed

text \<open>A context of the schema with the generation of the export survives the other schemas.\<close>

definition currentAt :: "APIServiceExport \<Rightarrow> 'w \<times> contextStore \<Rightarrow> string \<Rightarrow> bool" where
  "currentAt export st name \<longleftrightarrow> (\<exists>c. store_Get (snd st) (schemaKey export name) = Some c \<and>
     sx_Generation c = m_Generation (ex_meta export))"

lemma ensureControllerForSchema_current:
  assumes "ensureControllerForSchema r st export schema = (e, st')" "currentAt export st n"
  shows "currentAt export st' n"
proof (cases "m_Name (bs_meta schema) = n")
  case True
  with assms have "st' = st" by (auto simp: ensureControllerForSchema_def currentAt_def Let_def)
  with assms(2) show ?thesis by simp
next
  case False
  then have "schemaKey export n \<noteq> schemaKey export (m_Name (bs_meta schema))" by (simp add: NewKey_simps)
  from ensureControllerForSchema_frame [OF assms(1) this] assms(2) show ?thesis by (simp add: currentAt_def)
qed

definition schemasAvailable :: "'w export_reconciler \<Rightarrow> APIServiceExportResource list \<Rightarrow> bool" where
  "schemasAvailable r ress \<longleftrightarrow> (\<forall>w. \<forall>res \<in> set ress. \<exists>schema.
     xr_getRemoteBoundSchema r w (ResourceGroupName res) = Inr schema \<and>
     m_Name (bs_meta schema) = ResourceGroupName res)"

lemma ensureSchemas_started:
  assumes "ensureSchemas r ns export ress errs processed cl st = (([], processed', cl'), st')"
    and "schemasAvailable r ress" "controllersBuild r"
  shows "errs = [] \<and> set processed' = set processed \<union> ResourceGroupName ` set ress \<and>
    (\<forall>n. currentAt export st n \<or> n \<in> ResourceGroupName ` set ress \<longrightarrow> currentAt export st' n)"
  using assms(1,2)
proof (induction ress arbitrary: errs processed cl st)
  case Nil
  then show ?case by simp
next
  case (Cons res ress)
  from Cons.prems(2) obtain schema where sch:
    "xr_getRemoteBoundSchema r (fst st) (ResourceGroupName res) = Inr schema"
    "m_Name (bs_meta schema) = ResourceGroupName res" by (fastforce simp: schemasAvailable_def)
  obtain e1 st1 where one: "ensureControllerForSchema r st export schema = (e1, st1)"
    by (cases "ensureControllerForSchema r st export schema") blast
  have avail: "schemasAvailable r ress" using Cons.prems(2) by (simp add: schemasAvailable_def)
  have rest: "ensureSchemas r ns export ress (appendErr errs e1) (processed @ [ResourceGroupName res])
      (bss_InformerScope (bs_Spec schema) = ClusterScope) st1 = (([], processed', cl'), st')"
    using Cons.prems(1) sch one by simp
  note ih = Cons.IH [OF rest avail]
  from ih have "e1 = None" "errs = []" by simp_all
  then have "currentAt export st1 (ResourceGroupName res)"
    using ensureControllerForSchema_started [of r st export schema st1] one sch(2) assms(3)
    by (simp add: currentAt_def)
  moreover have "currentAt export st1 n" if "currentAt export st n" for n
    using ensureControllerForSchema_current [OF one that] .
  ultimately show ?case using ih \<open>errs = []\<close> by auto
qed

text \<open>The reconciliation changes nothing of the export but its conditions.\<close>

lemma export_reconcile_frame:
  assumes "export_reconcile r st now ns name (Some ex) = (e, obj, st')"
  shows "\<exists>ex'. obj = Some ex' \<and> ex_meta ex' = ex_meta ex \<and> ex_Spec ex' = ex_Spec ex"
  using assms
  by (auto simp: export_reconcile_def ensureCRDConditionsCopiedToBoundSchema_def
      ensureServiceBindingConditionCopied_def MarkTrue_def MarkFalse_def Let_def
      split: prod.splits sum.splits if_splits option.splits)

lemma copyCRDsStatus_valid:
  assumes "\<And>w b. fst (xr_updateRemoteBoundSchema r w b) = None"
  shows "snd (fst (copyCRDsStatus r now ress errs v w)) = v"
proof (induction ress arbitrary: errs w)
  case Nil
  then show ?case by simp
next
  case (Cons res ress)
  have "xr_updateRemoteBoundSchema r w b \<noteq> (Some e, w1)" for b e w1
    using assms [of w b] by auto
  then show ?case using Cons.IH by (auto split: sum.split prod.split option.split)
qed

section \<open>A concrete export\<close>

text \<open>The world of the example counts the handles that were given out.\<close>

definition exampleExportReconciler :: "APIServiceBinding result \<Rightarrow> nat export_reconciler" where
  "exampleExportReconciler binding =
     \<lparr>xr_providerNamespace = ''cluster-a'',
      xr_getCRD = (\<lambda>w n. Inl (StatusError ReasonNotFound ''not found'')),
      xr_getServiceBinding = (\<lambda>w n. binding),
      xr_getRemoteBoundSchema = (\<lambda>w n. Inr (exampleSchema\<lparr>bs_meta := emptyMeta\<lparr>m_Name := n\<rparr>\<rparr>)),
      xr_updateRemoteBoundSchema = (\<lambda>w b. (None, w)),
      xr_getNamespaceUID = (\<lambda>w n. Inr ''uid''),
      xr_newMultiNamespaceInformer = (\<lambda>w g. None), xr_newBindClient = (\<lambda>w. None),
      xr_newSpecController = (\<lambda>w s. None), xr_newStatusController = (\<lambda>w s. None),
      xr_startSchema = (\<lambda>w s. (w, w + 1)),
      xr_newClaimController = (\<lambda>w s. None), xr_newClaimNamespacesController = (\<lambda>w s. None),
      xr_startClaim = (\<lambda>w s. (w, w + 1)), xr_cancel = (\<lambda>h w. w),
      xr_gvrString = gvr_Resource\<rparr>"

abbreviation exampleRun :: "error option \<times> (nat \<times> contextStore)" where
  "exampleRun \<equiv> ensureControllers (exampleExportReconciler (Inr exampleBinding)) (0, store_New)
     ''cluster-a'' ''dbs'' (Some exampleExport)"

lemmas export_example_defs = exampleExportReconciler_def exampleExport_def exampleBinding_def
  exampleSchema_def emptyMeta_def emptyNames_def

lemma exampleRun_started:
  "fst exampleRun = None"
  "store_Get (snd (snd exampleRun)) ''cluster-a.dbs.dbs.example.org'' =
     Some \<lparr>sx_key = ''cluster-a.dbs.dbs.example.org'', sx_Generation = 3, sx_Cancel = 0\<rparr>"
  by (simp_all add: ensureControllers_def ensureControllerForSchema_def syncVersion_def Let_def
      ensureControllersForPermissionClaims_def store_get_simps keepSchemaContext_def TrimPrefix_def
      ResourceGroupName_def NewKey_def store_New_def contexts.get_set export_example_defs
      store_Get_def [of Mapping.empty])
    (auto simp: set_store_ListPrefixed storeOk_Set storeOk_New [unfolded store_New_def] HasPrefix_def)

section \<open>Goroutines of claims\<close>

text \<open>
  The goroutine of a claim runs until its context is cancelled and then deletes its key from the
  store (the deferred \<open>Delete\<close>). Its exit interleaves with reconciliations. The world of
  this relation counts handles and knows which goroutines run and which are cancelled.
\<close>

record claim_world =
  cw_next :: nat
  cw_running :: "(nat \<times> Key) list"
  cw_cancelled :: "nat list"

definition claimCancel :: "nat \<Rightarrow> claim_world \<Rightarrow> claim_world" where
  "claimCancel h w = w\<lparr>cw_cancelled := h # cw_cancelled w\<rparr>"

definition claimStart :: "claim_world \<Rightarrow> claimSync \<Rightarrow> nat \<times> claim_world" where
  "claimStart w sync = (cw_next w, w\<lparr>cw_next := cw_next w + 1, cw_running := (cw_next w, cm_key sync) # cw_running w\<rparr>)"

definition claimGoroutineExit ::
  "nat \<Rightarrow> Key \<Rightarrow> claim_world \<times> contextStore \<Rightarrow> claim_world \<times> contextStore" where
  "claimGoroutineExit h claimKey st =
     (case st of (w, s) \<Rightarrow>
        store_Delete claimCancel (w\<lparr>cw_running := remove1 (h, claimKey) (cw_running w)\<rparr>, s) claimKey)"

definition claimReconciler :: "(GroupVersionResource \<Rightarrow> string) \<Rightarrow> claim_world export_reconciler" where
  "claimReconciler gvrString =
     \<lparr>xr_providerNamespace = [], xr_getCRD = (\<lambda>w n. Inl (StatusError ReasonNotFound [])),
      xr_getServiceBinding = (\<lambda>w n. Inl (StatusError ReasonNotFound [])),
      xr_getRemoteBoundSchema = (\<lambda>w n. Inl (StatusError ReasonNotFound [])),
      xr_updateRemoteBoundSchema = (\<lambda>w b. (None, w)), xr_getNamespaceUID = (\<lambda>w n. Inr []),
      xr_newMultiNamespaceInformer = (\<lambda>w g. None), xr_newBindClient = (\<lambda>w. None),
      xr_newSpecController = (\<lambda>w s. None), xr_newStatusController = (\<lambda>w s. None),
      xr_startSchema = (\<lambda>w s. (0, w)), xr_newClaimController = (\<lambda>w s. None),
      xr_newClaimNamespacesController = (\<lambda>w s. None), xr_startClaim = claimStart,
      xr_cancel = claimCancel, xr_gvrString = gvrString\<rparr>"

lemma claimReconciler_simps [simp]:
  "xr_newMultiNamespaceInformer (claimReconciler g) w gvr = None"
  "xr_newClaimController (claimReconciler g) w sync = None"
  "xr_newClaimNamespacesController (claimReconciler g) w sync = None"
  "xr_startClaim (claimReconciler g) = claimStart" "xr_cancel (claimReconciler g) = claimCancel"
  "xr_gvrString (claimReconciler g) = g"
  by (simp_all add: claimReconciler_def)

inductive claim_step ::
  "(GroupVersionResource \<Rightarrow> string) \<Rightarrow> APIServiceExport \<Rightarrow> APIServiceBinding \<Rightarrow>
     claim_world \<times> contextStore \<Rightarrow> claim_world \<times> contextStore \<Rightarrow> bool"
  for gvrString export binding where
  Ensure: "ensureControllersForPermissionClaims (claimReconciler gvrString) st export binding cl = (e, st')
    \<Longrightarrow> claim_step gvrString export binding st st'"
| Exit: "(h, k) \<in> set (cw_running (fst st)) \<Longrightarrow> h \<in> set (cw_cancelled (fst st))
    \<Longrightarrow> claim_step gvrString export binding st (claimGoroutineExit h k st)"

lemma deleteStale_keep: "(\<And>c. c \<in> set cs \<Longrightarrow> keep (sx_key c)) \<Longrightarrow> deleteStale cancel keep cs st = st"
  by (induction cs) auto

text \<open>A reconciliation of one claim whose context is out of date or missing restarts it.\<close>

lemma ensure_one_claim:
  assumes "bdt_PermissionClaims (bd_Status binding) = [claim]" "ResolveClaimableAPI claim = Inr gvr"
    and k: "k = claimKeyOf (claimReconciler gvrString) export gvr"
    and "storeOk s" "\<And>k'. HasPrefix k' (claimPrefixOf export) \<Longrightarrow> k' \<noteq> k \<Longrightarrow> store_Get s k' = None"
    and "\<And>c. store_Get s k = Some c \<Longrightarrow> sx_Generation c \<noteq> m_Generation (bd_meta binding)"
  shows "snd (ensureControllersForPermissionClaims (claimReconciler gvrString) (w, s) export binding cl) =
    (let w1 = (case store_Get s k of None \<Rightarrow> w | Some c \<Rightarrow> claimCancel (sx_Cancel c) w)
     in (snd (claimStart w1 \<lparr>cm_key = k, cm_gvr = gvr, cm_claim = claim, cm_clusterInformer = cl\<rparr>),
         store_Set (snd (store_Delete claimCancel (w, s) k)) k
           \<lparr>sx_key = [], sx_Generation = m_Generation (bd_meta binding), sx_Cancel = cw_next w\<rparr>))"
proof -
  let ?s1 = "store_Set (snd (store_Delete claimCancel (w, s) k)) k
           \<lparr>sx_key = [], sx_Generation = m_Generation (bd_meta binding), sx_Cancel = cw_next w\<rparr>"
  have ok: "storeOk ?s1" using assms(4) by (simp add: storeOk_Set storeOk_Delete)
  have only: "sx_key c = k" if "c \<in> set (store_ListPrefixed ?s1 (claimPrefixOf export))" for c
  proof (rule ccontr)
    assume ne: "sx_key c \<noteq> k"
    from that have "store_Get ?s1 (sx_key c) = Some c" "HasPrefix (sx_key c) (claimPrefixOf export)"
      using contexts.list_iff [OF ok] by blast+
    with ne assms(5) show False by (simp add: store_get_simps)
  qed
  define st1 where "st1 = (snd (claimStart (fst (store_Delete claimCancel (w, s) k))
      \<lparr>cm_key = k, cm_gvr = gvr, cm_claim = claim, cm_clusterInformer = cl\<rparr>), ?s1)"
  have del: "fst (store_Delete claimCancel (w, s) k) =
      (case store_Get s k of None \<Rightarrow> w | Some c \<Rightarrow> claimCancel (sx_Cancel c) w)"
    "store_Get s k = None \<Longrightarrow> store_Delete claimCancel (w, s) k = (w, s)"
    "cw_next (fst (store_Delete claimCancel (w, s) k)) = cw_next w"
    by (simp_all add: store_Delete_def store_Get_def claimCancel_def split: option.split)
  have one: "ensureControllerForPermissionClaim (claimReconciler gvrString) (store_Delete claimCancel (w, s) k)
      binding claim gvr cl k = (None, st1)"
    by (simp add: ensureControllerForPermissionClaim_def Let_def st1_def claimStart_def del(3)
        split: if_split)
  have "ensureClaims (claimReconciler gvrString) export binding cl [claim] [] [] (w, s) = (([], [k]), st1)"
  proof (cases "store_Get s k")
    case None
    with one del(2) assms(2) show ?thesis by (simp add: Let_def flip: k)
  next
    case (Some c)
    with one assms(2,6) show ?thesis by (simp add: Let_def flip: k)
  qed
  then have "snd (ensureControllersForPermissionClaims (claimReconciler gvrString) (w, s) export binding cl) =
      deleteStale claimCancel (\<lambda>k'. k' \<in> set [k]) (store_ListPrefixed ?s1 (claimPrefixOf export)) st1"
    using assms(1) by (simp add: ensureControllersForPermissionClaims_def Let_def st1_def)
  also have "\<dots> = st1" by (rule deleteStale_keep) (simp add: only)
  finally show ?thesis by (simp add: st1_def Let_def del(1))
qed

section \<open>Properties\<close>

text \<open>
  C7: after the controllers of an export with a binding are ensured, every context that is still
  running under the key of the export is wanted: it belongs to a schema that the export lists, or
  to a permission claim of the binding that names a claimable API.
\<close>

theorem ensureControllers_only_wanted:
  assumes "storeOk (snd st)" "m_Namespace (ex_meta ex) = ns" "m_Name (ex_meta ex) = name"
    and "xr_getServiceBinding r (fst st) name = Inr binding"
    and "ensureControllers r st ns name (Some ex) = (e, st')"
    and "store_Get (snd st') k = Some c" "HasPrefix k (ns @ ''.'' @ name @ ''.'')"
  shows "(\<exists>res \<in> set (exs_Resources (ex_Spec ex)). k = NewKey ns name [ResourceGroupName res]) \<or>
    k \<in> claimKeys r ex (bdt_PermissionClaims (bd_Status binding))"
proof -
  let ?claims = "bdt_PermissionClaims (bd_Status binding)" and ?p = "ns @ ''.'' @ name"
  from assms(3,4) have "xr_getServiceBinding r (fst st) (m_Name (ex_meta ex)) = Inr binding" by simp
  from ensureControllers_stages [OF this assms(5)] obtain errs processed cl st1 e2 st2 where
    one: "ensureSchemas r ns ex (exs_Resources (ex_Spec ex)) [] [] False st = ((errs, processed, cl), st1)"
    and two: "ensureControllersForPermissionClaims r st1 ex binding cl = (e2, st2)"
    and st': "st' = contexts.deleteUnless (xr_cancel r) (keepSchemaContext ?p processed)
       (store_ListPrefixed (snd st2) ?p) st2" by metis
  note ok1 = ensureSchemas_processed(2) [OF one assms(1)]
  note claims = ensureControllersForPermissionClaims_frame [OF two ok1]
  obtain x where k: "k = ?p @ ''.'' @ x"
    using assms(7) by (auto simp: HasPrefix_eq_append)
  then have "HasPrefix k ?p" by (simp add: HasPrefix_eq_append)
  from contexts.deleteUnless_listed [OF claims(1) assms(6) [unfolded st'] this]
  have "keepSchemaContext ?p processed k" .
  then have "HasPrefix x ''claim.'' \<or> x \<in> set processed"
    using TrimPrefix_append [of "?p @ ''.''" x] by (simp add: keepSchemaContext_def k)
  then show ?thesis
  proof
    assume "HasPrefix x ''claim.''"
    then have "HasPrefix k (claimPrefixOf ex)"
      by (auto simp: HasPrefix_eq_append k NewKey_simps assms(2,3))
    moreover have "store_Get (snd st2) k = Some c"
      using assms(6) by (auto simp: st' contexts.get_deleteUnless split: if_splits)
    ultimately show ?thesis using claims(2) by blast
  next
    assume "x \<in> set processed"
    with ensureSchemas_processed(1) [OF one] show ?thesis by (auto simp: k NewKey_simps)
  qed
qed

text \<open>
  C8: and every schema of the export is running for the current generation of the export, when the
  provider has the schemas under their names, the controllers can be built, no error is returned and
  no name of a schema begins with \<open>claim\<close>.
\<close>

theorem ensureControllers_all_running:
  assumes "storeOk (snd st)" "m_Namespace (ex_meta ex) = ns" "m_Name (ex_meta ex) = name"
    and "xr_getServiceBinding r (fst st) name = Inr binding"
    and "schemasAvailable r (exs_Resources (ex_Spec ex))" "controllersBuild r"
    and "ensureControllers r st ns name (Some ex) = (None, st')"
    and "res \<in> set (exs_Resources (ex_Spec ex))" "\<not> HasPrefix (ResourceGroupName res) ''claim''"
  shows "\<exists>c. store_Get (snd st') (NewKey ns name [ResourceGroupName res]) = Some c \<and>
    sx_Generation c = m_Generation (ex_meta ex)"
proof -
  let ?p = "ns @ ''.'' @ name" and ?n = "ResourceGroupName res"
  let ?k = "schemaKey ex ?n"
  from assms(3,4) have "xr_getServiceBinding r (fst st) (m_Name (ex_meta ex)) = Inr binding" by simp
  from ensureControllers_stages [OF this assms(7)] obtain errs processed cl st1 e2 st2 where
    one: "ensureSchemas r ns ex (exs_Resources (ex_Spec ex)) [] [] False st = ((errs, processed, cl), st1)"
    and two: "ensureControllersForPermissionClaims r st1 ex binding cl = (e2, st2)"
    and err: "None = NewAggregate (appendErr errs e2)"
    and st': "st' = contexts.deleteUnless (xr_cancel r) (keepSchemaContext ?p processed)
       (store_ListPrefixed (snd st2) ?p) st2" by metis
  from err [symmetric] have "errs = []" by simp
  with ensureSchemas_started [of r ns ex _ "[]" "[]" False st processed cl st1] one assms(5,6,8)
  have run: "currentAt ex st1 ?n" and proc: "?n \<in> set processed" by auto
  have k: "?k = ?p @ ''.'' @ ?n" by (simp add: NewKey_simps assms(2,3))
  have "\<not> HasPrefix ?k (claimPrefixOf ex)"
    using assms(9) by (auto simp: HasPrefix_eq_append NewKey_simps)
  moreover from this have "?k \<notin> claimKeys r ex (bdt_PermissionClaims (bd_Status binding))"
    by (auto simp: claimKeys_def claimKeyOf_def NewKey_simps HasPrefix_eq_append)
  ultimately have two': "store_Get (snd st2) ?k = store_Get (snd st1) ?k"
    using ensureControllersForPermissionClaims_frame(3) [OF two ensureSchemas_processed(2) [OF one assms(1)]]
    by blast
  have "keepSchemaContext ?p processed ?k"
    using proc TrimPrefix_append [of "?p @ ''.''" ?n] by (simp add: keepSchemaContext_def k)
  then have "store_Get (snd st') ?k = store_Get (snd st2) ?k" by (simp add: st' contexts.get_deleteUnless)
  with run two' show ?thesis by (simp add: currentAt_def assms(2,3))
qed

theorem ensureControllers_only_wanted_witness:
  "\<exists>res \<in> set (exs_Resources (ex_Spec exampleExport)).
     ''cluster-a.dbs.dbs.example.org'' = NewKey ''cluster-a'' ''dbs'' [ResourceGroupName res]"
  using ensureControllers_only_wanted [where st = "(0, store_New)" and ex = exampleExport
      and ns = "''cluster-a''" and name = "''dbs''" and binding = exampleBinding
      and r = "exampleExportReconciler (Inr exampleBinding)" and e = "fst exampleRun"
      and st' = "snd exampleRun" and k = "''cluster-a.dbs.dbs.example.org''",
      OF _ _ _ _ _ exampleRun_started(2)]
  by (simp add: storeOk_New HasPrefix_def claimKeys_def)
    (simp add: export_example_defs)

theorem ensureControllers_all_running_witness:
  "\<exists>c. store_Get (snd (snd exampleRun)) ''cluster-a.dbs.dbs.example.org'' = Some c \<and> sx_Generation c = 3"
  using ensureControllers_all_running [where st = "(0, store_New)" and ex = exampleExport
      and ns = "''cluster-a''" and name = "''dbs''" and binding = exampleBinding
      and r = "exampleExportReconciler (Inr exampleBinding)" and st' = "snd exampleRun"
      and res = "hd (exs_Resources (ex_Spec exampleExport))"] exampleRun_started(1)
  by (simp add: storeOk_New prod_eq_iff)
    (simp add: export_example_defs schemasAvailable_def controllersBuild_def HasPrefix_def
      ResourceGroupName_def NewKey_def)

text \<open>
  When an export is gone, exactly the contexts whose key begins with the key of the export are
  stopped. The prefix does not end at a separator, so the contexts of every other export of the
  namespace whose name begins with the name of the deleted one are stopped as well (the witness:
  deleting \<open>db\<close> stops a controller of \<open>dbs\<close>).
\<close>

lemma ensureControllers_gone:
  assumes "storeOk s"
  shows "fst (ensureControllers r (w, s) ns name None) = None \<and>
    store_Get (snd (snd (ensureControllers r (w, s) ns name None))) k =
      (if HasPrefix k (ns @ ''.'' @ name) then None else store_Get s k)"
  using contexts.get_bulk [OF assms, of "xr_cancel r" w "ns @ ''.'' @ name" k]
  by (simp add: ensureControllers_def)

lemma ensureControllers_gone_witness:
  "store_Get (snd (snd (ensureControllers (exampleExportReconciler (Inr exampleBinding))
      (0, store_Set store_New ''cluster-a.dbs.dbs.example.org''
            \<lparr>sx_key = [], sx_Generation = 3, sx_Cancel = 0\<rparr>)
      ''cluster-a'' ''db'' None))) ''cluster-a.dbs.dbs.example.org'' = None"
  using ensureControllers_gone [where r = "exampleExportReconciler (Inr exampleBinding)" and w = 0
      and ns = "''cluster-a''" and name = "''db''" and k = "''cluster-a.dbs.dbs.example.org''",
      OF storeOk_Set [OF storeOk_New]]
  by (simp add: HasPrefix_def)

text \<open>
  A schema whose name begins with \<open>claim\<close> but is not the key of a claim, such as
  \<open>claims.example.org\<close>, is not left running: the clean-up of stale claims lists contexts
  by the prefix \<open>claim\<close> without a separator and stops it, although the export lists it.
\<close>

lemma claim_named_schema_stopped:
  assumes "storeOk (snd st)" "m_Namespace (ex_meta ex) = ns" "m_Name (ex_meta ex) = name"
    and "xr_getServiceBinding r (fst st) name = Inr binding"
    and "ensureControllers r st ns name (Some ex) = (e, st')"
    and "HasPrefix n ''claim''" "\<not> HasPrefix n ''claim.''"
  shows "store_Get (snd st') (NewKey ns name [n]) = None"
proof -
  let ?k = "NewKey ns name [n]"
  from assms(3,4) have "xr_getServiceBinding r (fst st) (m_Name (ex_meta ex)) = Inr binding" by simp
  from ensureControllers_stages [OF this assms(5)] obtain errs processed cl st1 e2 st2 where
    one: "ensureSchemas r ns ex (exs_Resources (ex_Spec ex)) [] [] False st = ((errs, processed, cl), st1)"
    and two: "ensureControllersForPermissionClaims r st1 ex binding cl = (e2, st2)"
    and st': "st' = contexts.deleteUnless (xr_cancel r) (keepSchemaContext (ns @ ''.'' @ name) processed)
       (store_ListPrefixed (snd st2) (ns @ ''.'' @ name)) st2" by metis
  have "HasPrefix ?k (claimPrefixOf ex)"
    using assms(2,3,6) by (auto simp: NewKey_simps HasPrefix_eq_append)
  moreover have "?k \<notin> claimKeys r ex (bdt_PermissionClaims (bd_Status binding))"
    using assms(2,3,7) by (auto simp: claimKeys_def claimKeyOf_def NewKey_simps HasPrefix_eq_append)
  ultimately have "store_Get (snd st2) ?k = None"
    using ensureControllersForPermissionClaims_frame(2) [OF two ensureSchemas_processed(2) [OF one assms(1)]]
    by (cases "store_Get (snd st2) ?k") blast+
  then show ?thesis by (simp add: st' contexts.get_deleteUnless)
qed

lemma claim_named_schema_stopped_witness:
  "store_Get (snd (snd exampleRun)) (NewKey ''cluster-a'' ''dbs'' [''claims.example.org'']) = None"
  by (rule claim_named_schema_stopped [where st = "(0, store_New)" and ex = exampleExport
      and binding = exampleBinding and r = "exampleExportReconciler (Inr exampleBinding)"
      and e = "fst exampleRun"])
    (simp_all add: storeOk_New HasPrefix_def, simp_all add: export_example_defs)

text \<open>
  C11: when the generation of a binding changes, the restarted controller of a claim does not
  survive: the goroutine of the old controller, once it notices that it was cancelled, deletes the
  key, which is now the key of the new controller, and so stops it. The claim is then not
  synchronised, although the binding still has it.
\<close>

theorem claim_restart_lost:
  assumes "bdt_PermissionClaims (bd_Status b1) = [claim]" "bdt_PermissionClaims (bd_Status b2) = [claim]"
    and "ResolveClaimableAPI claim = Inr gvr" "m_Generation (bd_meta b1) \<noteq> m_Generation (bd_meta b2)"
    and "k = claimKeyOf (claimReconciler g) ex gvr"
    and "w0 = \<lparr>cw_next = 0, cw_running = [], cw_cancelled = []\<rparr>"
  shows "\<exists>st1 st2 st3 c. claim_step g ex b1 (w0, store_New) st1 \<and> claim_step g ex b2 st1 st2 \<and>
    claim_step g ex b2 st2 st3 \<and>
    store_Get (snd st2) k = Some c \<and> sx_Generation c = m_Generation (bd_meta b2) \<and>
    sx_Cancel c \<notin> set (cw_cancelled (fst st2)) \<and>
    store_Get (snd st3) k = None \<and> sx_Cancel c \<in> set (cw_cancelled (fst st3))"
proof -
  let ?r = "claimReconciler g"
  define s1 where "s1 = store_Set store_New k \<lparr>sx_key = [], sx_Generation = m_Generation (bd_meta b1), sx_Cancel = 0\<rparr>"
  define w1 where "w1 = \<lparr>cw_next = 1, cw_running = [(0, k)], cw_cancelled = []\<rparr>"
  define s2 where "s2 = store_Set (snd (store_Delete claimCancel (w1, s1) k)) k
      \<lparr>sx_key = [], sx_Generation = m_Generation (bd_meta b2), sx_Cancel = 1\<rparr>"
  define w2 where "w2 = \<lparr>cw_next = 2, cw_running = [(1, k), (0, k)], cw_cancelled = [0]\<rparr>"
  have ok1: "storeOk s1" by (simp add: s1_def storeOk_Set storeOk_New)
  have new: "store_Get store_New k' = None" for k' by (simp add: store_Get_def store_New_def)
  have "snd (ensureControllersForPermissionClaims ?r (w0, store_New) ex b1 False) = (w1, s1)"
    using ensure_one_claim [OF assms(1,3,5) storeOk_New, where w = w0 and cl = False]
    by (simp add: new assms(6) claimStart_def w1_def s1_def store_Delete_def store_New_def Let_def
        store_Get_def)
  then have a: "claim_step g ex b1 (w0, store_New) (w1, s1)"
    by (metis claim_step.Ensure prod.collapse)
  have "snd (ensureControllersForPermissionClaims ?r (w1, s1) ex b2 False) = (w2, s2)"
    using ensure_one_claim [OF assms(2,3,5) ok1, where w = w1 and cl = False] assms(4)
    by (simp add: s1_def store_get_simps new w1_def w2_def claimStart_def claimCancel_def Let_def)
      (simp add: s1_def s2_def w1_def)
  then have b: "claim_step g ex b2 (w1, s1) (w2, s2)"
    by (metis claim_step.Ensure prod.collapse)
  have c: "claim_step g ex b2 (w2, s2) (claimGoroutineExit 0 k (w2, s2))"
    by (rule claim_step.Exit) (simp_all add: w2_def)
  let ?c = "\<lparr>sx_key = k, sx_Generation = m_Generation (bd_meta b2), sx_Cancel = 1\<rparr>"
  have get2: "store_Get s2 k = Some ?c" by (simp add: s2_def store_get_simps)
  have gone: "store_Get (snd (claimGoroutineExit 0 k (w2, s2))) k = None"
    by (simp add: claimGoroutineExit_def store_get_simps)
  have cancelled: "1 \<in> set (cw_cancelled (fst (claimGoroutineExit 0 k (w2, s2))))"
    using get2 by (simp add: claimGoroutineExit_def store_Delete_def claimCancel_def store_Get_def)
  have "1 \<notin> set (cw_cancelled w2)" by (simp add: w2_def)
  then show ?thesis
    using a b c get2 gone cancelled
    by (intro exI [of _ "(w1, s1)"] exI [of _ "(w2, s2)"] exI [of _ "claimGoroutineExit 0 k (w2, s2)"]
        exI [of _ ?c]) simp
qed

definition secretsClaim :: PermissionClaim where
  "secretsClaim = \<lparr>pc_GroupResource = \<lparr>gr_Group = [], gr_Resource = ''secrets''\<rparr>,
     pc_Selector = \<lparr>sel_NamedResources = [], sel_LabelSelector = None, sel_References = []\<rparr>\<rparr>"

definition bindingWithClaim :: "int \<Rightarrow> APIServiceBinding" where
  "bindingWithClaim g = exampleBinding\<lparr>bd_meta := (bd_meta exampleBinding)\<lparr>m_Generation := g\<rparr>,
     bd_Status := (bd_Status exampleBinding)\<lparr>bdt_PermissionClaims := [secretsClaim]\<rparr>\<rparr>"

theorem claim_restart_lost_witness:
  "\<exists>st1 st2 st3 c.
    claim_step gvr_Resource exampleExport (bindingWithClaim 1)
      (\<lparr>cw_next = 0, cw_running = [], cw_cancelled = []\<rparr>, store_New) st1 \<and>
    claim_step gvr_Resource exampleExport (bindingWithClaim 2) st1 st2 \<and>
    claim_step gvr_Resource exampleExport (bindingWithClaim 2) st2 st3 \<and>
    store_Get (snd st2) ''cluster-a.dbs.claim.secrets'' = Some c \<and> sx_Generation c = 2 \<and>
    store_Get (snd st3) ''cluster-a.dbs.claim.secrets'' = None"
proof -
  have "ResolveClaimableAPI secretsClaim = Inr \<lparr>gvr_Group = [], gvr_Version = ''v1'', gvr_Resource = ''secrets''\<rparr>"
    by (simp add: ResolveClaimableAPI_def secretsClaim_def ClaimableAPIs_def claimableAPI_def)
  moreover have "claimKeyOf (claimReconciler gvr_Resource) exampleExport
      \<lparr>gvr_Group = [], gvr_Version = ''v1'', gvr_Resource = ''secrets''\<rparr> = ''cluster-a.dbs.claim.secrets''"
    by (simp add: claimKeyOf_def NewKey_def exampleExport_def emptyMeta_def)
  ultimately show ?thesis
    using claim_restart_lost [of "bindingWithClaim 1" secretsClaim "bindingWithClaim 2"
        "\<lparr>gvr_Group = [], gvr_Version = ''v1'', gvr_Resource = ''secrets''\<rparr>"
        "''cluster-a.dbs.claim.secrets''" gvr_Resource exampleExport
        "\<lparr>cw_next = 0, cw_running = [], cw_cancelled = []\<rparr>"]
    by (simp add: bindingWithClaim_def) blast
qed

text \<open>
  Processing a key never panics in the committer: a reconciliation changes nothing of the
  export but its conditions, so metadata and spec never change together with the status.
\<close>

lemma export_process_no_panic: "export_process c st key \<noteq> Panic m"
proof
  assume panic: "export_process c st key = Panic m"
  then obtain ns name old where split: "kf_SplitMetaNamespaceKey (xc_keys c) key = Inr (ns, name)"
    and old: "xc_exportGet c (fst st) ns name = Inr old"
    by (auto simp: export_process_def split: sum.splits prod.splits if_splits)
  obtain e obj w1 s1 where run:
    "export_reconcile (xc_reconciler c) st (xc_now c (fst st)) ns name (Some old) = (e, obj, (w1, s1))"
    by (cases "export_reconcile (xc_reconciler c) st (xc_now c (fst st)) ns name (Some old)") auto
  from export_reconcile_frame [OF run] obtain ex' where ex': "obj = Some ex'"
    "ex_meta ex' = ex_meta old" "ex_Spec ex' = ex_Spec old" by blast
  from panic split old run ex'(1)
  have "NewCommitter (xc_patcher c) w1 (exportResource old) (exportResource ex') = Panic m"
    by (auto simp: export_process_def split: outcome.splits)
  with commit_panics [of "xc_patcher c" w1 "exportResource old" "exportResource ex'"] ex'(2,3)
  show False by (auto simp: exportResource_def)
qed

text \<open>
  The condition \<open>Connected\<close> of an export says whether the bound schemas could be updated,
  not whether there is a binding: when every update of a bound schema succeeds, it is true after
  the reconciliation, also when \<open>ensureServiceBindingConditionCopied\<close> has just set it to
  false because no binding exists (the witness).
\<close>

lemma export_connected:
  assumes "\<And>w b. fst (xr_updateRemoteBoundSchema r w b) = None"
    and "export_reconcile r st now ns name (Some ex) = (e, Some ex', st')"
  shows "IsTrue (s_getter APIServiceExport_Setter ex') APIServiceExportConditionConnected"
proof -
  obtain e1 w1 s1 where "ensureControllers r st ns name (Some ex) = (e1, (w1, s1))"
    by (cases "ensureControllers r st ns name (Some ex)") auto
  moreover obtain e2 ex2 where "ensureServiceBindingConditionCopied r w1 now ex = (e2, ex2)"
    by (cases "ensureServiceBindingConditionCopied r w1 now ex") auto
  moreover have "snd (fst (copyCRDsStatus r now (exs_Resources (ex_Spec ex2)) [] True w1))"
    using copyCRDsStatus_valid [OF assms(1)] by simp
  ultimately show ?thesis
    using assms(2)
    by (auto simp: export_reconcile_def ensureCRDConditionsCopiedToBoundSchema_def split: prod.splits)
qed

lemma export_connected_witness:
  "\<exists>ex'. fst (snd (export_reconcile (exampleExportReconciler (Inl (StatusError ReasonNotFound ''gone'')))
      (0, store_New) 7 ''cluster-a'' ''dbs'' (Some exampleExport))) = Some ex' \<and>
    IsTrue (s_getter APIServiceExport_Setter ex') APIServiceExportConditionConnected"
proof -
  let ?r = "exampleExportReconciler (Inl (StatusError ReasonNotFound ''gone''))"
  obtain e obj st' where run: "export_reconcile ?r (0, store_New) 7 ''cluster-a'' ''dbs'' (Some exampleExport)
      = (e, obj, st')" by (metis prod.collapse)
  from export_reconcile_frame [OF this] obtain ex' where "obj = Some ex'" by blast
  moreover from run this export_connected [of ?r "(0, store_New)" 7 "''cluster-a''" "''dbs''" exampleExport e ex' st']
  have "IsTrue (s_getter APIServiceExport_Setter ex') APIServiceExportConditionConnected"
    by (simp add: exampleExportReconciler_def)
  ultimately show ?thesis using run by simp
qed

end
