(* ===== verification/Claims.thy ===== *)
theory Claims
  imports Unstructured_Objects
begin

text \<open>
  Permission claims (\<open>src/pkg/resources/resources.go\<close>): whether a claim selects an object, by
  label selector, by name or by a reference from another object. The label selectors of apimachinery,
  JSON encoding and the path language of gjson are parameters (\<open>claim_lib\<close>); listing
  objects of the consumer cluster is a read of the world.
\<close>

section \<open>Libraries\<close>

text \<open>A gjson result that exists is an array of elements or one value.\<close>

datatype gjson = GValue string | GArray "string list"

record claim_lib =
  cl_LabelSelectorAsSelector :: "LabelSelector \<Rightarrow> (smap \<Rightarrow> bool) result"
  cl_MarshalJSON :: "Unstructured \<Rightarrow> string result"
  cl_gjsonGet :: "string \<Rightarrow> string \<Rightarrow> gjson option"

section \<open>Matching\<close>

definition matchesLabelSelector :: "claim_lib \<Rightarrow> LabelSelector option \<Rightarrow> Unstructured \<Rightarrow> bool" where
  "matchesLabelSelector lib selector obj =
     (case selector of
        None \<Rightarrow> False
      | Some s \<Rightarrow>
          (case cl_LabelSelectorAsSelector lib s of
             Inl err \<Rightarrow> False | Inr labelSelector \<Rightarrow> labelSelector (GetLabels obj)))"

fun matchesNamedResources :: "NamedResource list \<Rightarrow> Unstructured \<Rightarrow> bool" where
  "matchesNamedResources [] obj = False"
| "matchesNamedResources (nr # nrs) obj =
     (if nr_Namespace nr \<noteq> [] \<and> nr_Namespace nr \<noteq> GetNamespace obj then matchesNamedResources nrs obj
      else if nr_Name nr = GetName obj then True
      else matchesNamedResources nrs obj)"

fun gjsonValues :: "gjson \<Rightarrow> string list" where
  "gjsonValues (GValue v) = [TrimSpace v]"
| "gjsonValues (GArray vs) = map TrimSpace vs"

text \<open>One extracted name, for one reference of one referencing object.\<close>

definition referenceMatches ::
  "claim_lib \<Rightarrow> string \<Rightarrow> SelectorReference \<Rightarrow> Unstructured \<Rightarrow> Unstructured \<Rightarrow> Isolation \<Rightarrow> string \<Rightarrow> bool" where
  "referenceMatches lib jsonData ref refObj obj isolation extractedName =
     (let nsPath = jp_Namespace (sr_JSONPath ref);
          namespaceResult = (if nsPath \<noteq> [] then cl_gjsonGet lib jsonData nsPath else None);
          nameMatches = (extractedName = GetName obj);
          namespaceMatches =
            (case namespaceResult of
               None \<Rightarrow> True
             | Some r \<Rightarrow> GetNamespace obj \<in> set (gjsonValues r));
          namespaceMatches1 =
            (if nsPath = [] \<and> isolation = IsolationNamespaced
             then GetNamespace refObj = GetNamespace obj else namespaceMatches)
      in nameMatches \<and> namespaceMatches1)"

definition referenceSelects ::
  "claim_lib \<Rightarrow> string \<Rightarrow> Unstructured \<Rightarrow> Unstructured \<Rightarrow> Isolation \<Rightarrow> SelectorReference \<Rightarrow> bool" where
  "referenceSelects lib jsonData refObj obj isolation ref =
     (case cl_gjsonGet lib jsonData (jp_Name (sr_JSONPath ref)) of
        None \<Rightarrow> False
      | Some r \<Rightarrow> list_ex (referenceMatches lib jsonData ref refObj obj isolation) (gjsonValues r))"

fun matchesReferences ::
  "claim_lib \<Rightarrow> SelectorReference list \<Rightarrow> Unstructured \<Rightarrow> Unstructured list \<Rightarrow> Isolation \<Rightarrow> bool" where
  "matchesReferences lib references obj [] isolation = False"
| "matchesReferences lib references obj (refObj # rest) isolation =
     (if references = [] then False
      else case cl_MarshalJSON lib refObj of
          Inl err \<Rightarrow> matchesReferences lib references obj rest isolation
        | Inr jsonData \<Rightarrow>
            if list_ex (referenceSelects lib jsonData refObj obj isolation) references then True
            else matchesReferences lib references obj rest isolation)"

definition IsClaimed ::
  "claim_lib \<Rightarrow> Selector \<Rightarrow> Unstructured option \<Rightarrow> Unstructured list \<Rightarrow> Isolation \<Rightarrow> bool" where
  "IsClaimed lib selector obj potentiallyReferencedResources isolation =
     (case obj of
        None \<Rightarrow> False
      | Some ob \<Rightarrow>
          if sel_LabelSelector selector = None \<and> sel_NamedResources selector = [] \<and> sel_References selector = []
          then False
          else matchesLabelSelector lib (sel_LabelSelector selector) ob \<or>
            matchesNamedResources (sel_NamedResources selector) ob \<or>
            matchesReferences lib (sel_References selector) ob potentiallyReferencedResources isolation)"

section \<open>References\<close>

definition isReferenceAllowed :: "SelectorReference \<Rightarrow> APIServiceExport \<Rightarrow> bool" where
  "isReferenceAllowed ref export =
     (if exs_Isolation (ex_Spec export) = IsolationNone then True
      else list_ex (\<lambda>resource. sr_GroupResource ref = rr_GroupResource resource) (exs_Resources (ex_Spec export)))"

text \<open>
  The versions of a reference: its own, or those of the first exported resource with its group and
  resource. Without such a resource the variable keeps the versions of the reference before.
\<close>

definition referenceVersions :: "SelectorReference \<Rightarrow> APIServiceExport \<Rightarrow> string list \<Rightarrow> string list" where
  "referenceVersions ref export versions =
     (if sr_Versions ref \<noteq> [] then sr_Versions ref
      else case find (\<lambda>resource. sr_GroupResource ref = rr_GroupResource resource)
                   (exs_Resources (ex_Spec export)) of
             Some resource \<Rightarrow> rr_Versions resource
           | None \<Rightarrow> versions)"

text \<open>Listing the objects of a reference; None is a failed list, which invalidates the claim.\<close>

fun listVersions ::
  "(GroupVersionResource \<Rightarrow> Unstructured list result) \<Rightarrow> GroupResource \<Rightarrow> string list \<Rightarrow> Unstructured list option" where
  "listVersions list gr [] = Some []"
| "listVersions list gr (v # vs) =
     (case list \<lparr>gvr_Group = gr_Group gr, gvr_Version = v, gvr_Resource = gr_Resource gr\<rparr> of
        Inl err \<Rightarrow> None
      | Inr objs \<Rightarrow> map_option ((@) objs) (listVersions list gr vs))"

fun listReferenced ::
  "(GroupVersionResource \<Rightarrow> Unstructured list result) \<Rightarrow> APIServiceExport \<Rightarrow> SelectorReference list \<Rightarrow>
     string list \<Rightarrow> Unstructured list option" where
  "listReferenced list export [] versions = Some []"
| "listReferenced list export (ref # refs) versions =
     (if \<not> isReferenceAllowed ref export then listReferenced list export refs versions
      else
        let versions1 = referenceVersions ref export versions
        in case listVersions list (sr_GroupResource ref) versions1 of
             None \<Rightarrow> None
           | Some objs \<Rightarrow> map_option ((@) objs) (listReferenced list export refs versions1))"

definition remapNamespace :: "APIServiceNamespace list \<Rightarrow> Unstructured \<Rightarrow> Unstructured" where
  "remapNamespace sns obj =
     (case find (\<lambda>sn. snt_Namespace (sn_Status sn) \<noteq> [] \<and> GetNamespace obj = snt_Namespace (sn_Status sn)) sns of
        Some sn \<Rightarrow> SetNamespace (m_Name (sn_meta sn)) obj
      | None \<Rightarrow> obj)"

definition IsClaimedWithReference ::
  "claim_lib \<Rightarrow> Unstructured \<Rightarrow> bool \<Rightarrow> PermissionClaim \<Rightarrow> APIServiceExport \<Rightarrow>
     (GroupVersionResource \<Rightarrow> Unstructured list result) \<Rightarrow> APIServiceNamespace list result \<Rightarrow> bool" where
  "IsClaimedWithReference lib obj consumerSide claim export list serviceNamespaces =
     (case listReferenced list export (sel_References (pc_Selector claim)) [] of
        None \<Rightarrow> False
      | Some items \<Rightarrow>
          if consumerSide
          then IsClaimed lib (pc_Selector claim) (Some obj) items (exs_Isolation (ex_Spec export))
          else case serviceNamespaces of
              Inl err \<Rightarrow>
                if \<not> IsNotFound err then False
                else IsClaimed lib (pc_Selector claim) (Some (remapNamespace [] obj)) items
                       (exs_Isolation (ex_Spec export))
            | Inr sns \<Rightarrow> IsClaimed lib (pc_Selector claim) (Some (remapNamespace sns obj)) items
                       (exs_Isolation (ex_Spec export)))"

section \<open>Lemmas\<close>

lemma matchesNamedResources_iff:
  "matchesNamedResources nrs obj \<longleftrightarrow>
     (\<exists>nr \<in> set nrs. nr_Name nr = GetName obj \<and> (nr_Namespace nr = [] \<or> nr_Namespace nr = GetNamespace obj))"
  by (induction nrs) auto

lemma matchesReferences_iff:
  "matchesReferences lib refs obj objs isolation \<longleftrightarrow>
     (\<exists>refObj \<in> set objs. \<exists>ref \<in> set refs. \<exists>jsonData. cl_MarshalJSON lib refObj = Inr jsonData \<and>
        referenceSelects lib jsonData refObj obj isolation ref)"
  by (induction objs) (auto simp: list_ex_iff split: sum.split)

lemma IsClaimed_iff:
  "IsClaimed lib sel (Some obj) objs isolation \<longleftrightarrow>
     matchesLabelSelector lib (sel_LabelSelector sel) obj \<or>
     matchesNamedResources (sel_NamedResources sel) obj \<or>
     matchesReferences lib (sel_References sel) obj objs isolation"
  by (auto simp: IsClaimed_def matchesLabelSelector_def matchesReferences_iff)

text \<open>The listing reads only resources of allowed references.\<close>

definition allowedResources :: "APIServiceExport \<Rightarrow> SelectorReference list \<Rightarrow> GroupResource set" where
  "allowedResources export refs = {sr_GroupResource ref | ref. ref \<in> set refs \<and> isReferenceAllowed ref export}"

lemma listVersions_cong:
  "(\<And>gvr. gvr_Group gvr = gr_Group gr \<Longrightarrow> gvr_Resource gvr = gr_Resource gr \<Longrightarrow> list gvr = list' gvr) \<Longrightarrow>
     listVersions list gr vs = listVersions list' gr vs"
  by (induction vs) (auto split: sum.split)

lemma listReferenced_cong:
  assumes "\<And>gvr gr. gr \<in> allowedResources export refs \<Longrightarrow> gvr_Group gvr = gr_Group gr \<Longrightarrow>
      gvr_Resource gvr = gr_Resource gr \<Longrightarrow> list gvr = list' gvr"
  shows "listReferenced list export refs vs = listReferenced list' export refs vs"
  using assms
proof (induction refs arbitrary: vs)
  case Nil
  then show ?case by simp
next
  case (Cons ref refs)
  have rest: "listReferenced list export refs vs = listReferenced list' export refs vs" for vs
    by (rule Cons.IH, rule Cons.prems) (auto simp: allowedResources_def)
  have "isReferenceAllowed ref export \<Longrightarrow>
      listVersions list (sr_GroupResource ref) vs = listVersions list' (sr_GroupResource ref) vs" for vs
    by (rule listVersions_cong, rule Cons.prems) (auto simp: allowedResources_def)
  with rest show ?case by (simp add: Let_def split: option.split)
qed

lemma allowed_exported:
  "exs_Isolation (ex_Spec export) \<noteq> IsolationNone \<Longrightarrow> gr \<in> allowedResources export refs \<Longrightarrow>
     gr \<in> rr_GroupResource ` set (exs_Resources (ex_Spec export))"
  by (auto simp: allowedResources_def isReferenceAllowed_def list_ex_iff split: if_splits)

section \<open>Properties\<close>

text \<open>
  C14: under an isolation other than \<open>None\<close>, whether an object is claimed depends on nothing
  in the consumer cluster but the objects of the exported resources: two consumer clusters that list
  the same objects for these resources give the same answer.
\<close>

theorem claims_read_contract_only:
  assumes "exs_Isolation (ex_Spec export) \<noteq> IsolationNone"
    and "\<And>gvr. \<lparr>gr_Group = gvr_Group gvr, gr_Resource = gvr_Resource gvr\<rparr>
           \<in> rr_GroupResource ` set (exs_Resources (ex_Spec export)) \<Longrightarrow> list gvr = list' gvr"
  shows "IsClaimedWithReference lib obj consumerSide claim export list sns =
    IsClaimedWithReference lib obj consumerSide claim export list' sns"
proof -
  have "listReferenced list export (sel_References (pc_Selector claim)) [] =
      listReferenced list' export (sel_References (pc_Selector claim)) []"
  proof (rule listReferenced_cong, rule assms(2))
    fix gvr :: GroupVersionResource and gr
    assume "gr \<in> allowedResources export (sel_References (pc_Selector claim))"
      "gvr_Group gvr = gr_Group gr" "gvr_Resource gvr = gr_Resource gr"
    then show "\<lparr>gr_Group = gvr_Group gvr, gr_Resource = gvr_Resource gvr\<rparr>
        \<in> rr_GroupResource ` set (exs_Resources (ex_Spec export))"
      using allowed_exported [OF assms(1), of gr] by (cases gr) simp
  qed
  then show ?thesis by (simp add: IsClaimedWithReference_def)
qed

definition referenceClaim :: PermissionClaim where
  "referenceClaim = \<lparr>pc_GroupResource = \<lparr>gr_Group = [], gr_Resource = ''secrets''\<rparr>,
     pc_Selector = \<lparr>sel_NamedResources = [], sel_LabelSelector = None,
       sel_References = [\<lparr>sr_GroupResource = \<lparr>gr_Group = [], gr_Resource = ''configmaps''\<rparr>,
         sr_Versions = [''v1''], sr_JSONPath = \<lparr>jp_Name = ''data.secret'', jp_Namespace = []\<rparr>\<rparr>]\<rparr>\<rparr>"

definition exportWithIsolation :: "Isolation \<Rightarrow> APIServiceExport" where
  "exportWithIsolation i =
     \<lparr>ex_Kind = ''APIServiceExport'', ex_meta = emptyMeta,
      ex_Spec = \<lparr>exs_Resources = [\<lparr>rr_GroupResource = \<lparr>gr_Group = ''example.org'', gr_Resource = ''dbs''\<rparr>, rr_Versions = []\<rparr>],
        exs_PermissionClaims = [], exs_InformerScope = ClusterScope, exs_ClusterScopedIsolation = i,
        exs_Isolation = i\<rparr>,
      ex_Status = \<lparr>ext_Conditions = []\<rparr>\<rparr>"

definition exampleLib :: claim_lib where
  "exampleLib = \<lparr>cl_LabelSelectorAsSelector = (\<lambda>s. Inr (\<lambda>m. True)), cl_MarshalJSON = (\<lambda>u. Inr (GetName u)),
     cl_gjsonGet = (\<lambda>j p. Some (GValue j))\<rparr>"

definition namedObject :: "string \<Rightarrow> string \<Rightarrow> Unstructured" where
  "namedObject ns n = \<lparr>u_meta = emptyMeta\<lparr>m_Name := n, m_Namespace := ns\<rparr>, u_ManagedFields = JNull,
     u_DeletionGracePeriodSeconds = None, u_fields = Mapping.empty\<rparr>"

theorem claims_read_contract_only_witness:
  "IsClaimedWithReference exampleLib (namedObject ''a'' ''s'') True referenceClaim
     (exportWithIsolation IsolationPrefixed) (\<lambda>gvr. Inr [namedObject ''a'' ''s'']) (Inr []) =
   IsClaimedWithReference exampleLib (namedObject ''a'' ''s'') True referenceClaim
     (exportWithIsolation IsolationPrefixed)
     (\<lambda>gvr. if gvr_Resource gvr = ''dbs'' then Inr [namedObject ''a'' ''s''] else Inl (PlainError ''forbidden'')) (Inr [])"
  by (rule claims_read_contract_only) (auto simp: exportWithIsolation_def)

text \<open>
  A claim by reference selects an object only when some object of a listed resource names it:
  the name is one the JSON path of a reference extracts from it, and without a namespace path under
  the isolation \<open>Namespaced\<close> both objects are in the same namespace. With an empty selector
  nothing is claimed.
\<close>

lemma claim_has_reason:
  assumes "IsClaimed lib sel (Some obj) objs isolation" "sel_LabelSelector sel = None"
    and "\<And>nr. nr \<in> set (sel_NamedResources sel) \<Longrightarrow> nr_Name nr \<noteq> GetName obj"
  shows "\<exists>refObj \<in> set objs. \<exists>ref \<in> set (sel_References sel). \<exists>jsonData r.
     cl_MarshalJSON lib refObj = Inr jsonData \<and>
     cl_gjsonGet lib jsonData (jp_Name (sr_JSONPath ref)) = Some r \<and> GetName obj \<in> set (gjsonValues r) \<and>
     (jp_Namespace (sr_JSONPath ref) = [] \<and> isolation = IsolationNamespaced \<longrightarrow>
        GetNamespace refObj = GetNamespace obj)"
proof -
  have "\<not> matchesNamedResources (sel_NamedResources sel) obj"
    using assms(3) by (auto simp: matchesNamedResources_iff)
  then have "matchesReferences lib (sel_References sel) obj objs isolation"
    using assms(1,2) by (simp add: IsClaimed_iff matchesLabelSelector_def)
  then show ?thesis
    unfolding matchesReferences_iff referenceSelects_def
    by (fastforce simp: list_ex_iff referenceMatches_def Let_def split: option.splits)
qed

lemma claim_has_reason_witness:
  "\<exists>refObj \<in> set [namedObject ''a'' ''s'']. GetNamespace refObj = GetNamespace (namedObject ''a'' ''s'')"
proof -
  have "IsClaimed exampleLib (pc_Selector referenceClaim) (Some (namedObject ''a'' ''s''))
      [namedObject ''a'' ''s''] IsolationNamespaced"
    by (simp add: IsClaimed_iff matchesReferences_iff referenceSelects_def referenceMatches_def Let_def
        exampleLib_def referenceClaim_def namedObject_def TrimSpace_def isSpace_def accessor_defs)
  from claim_has_reason [OF this] show ?thesis by (auto simp: referenceClaim_def)
qed

end
