(* ===== verification/Claimed_Resources.thy ===== *)
theory Claimed_Resources
  imports Claims Crds Controllers
begin

text \<open>
  The controllers of claimed resources
  (\<open>src/pkg/konnector/controllers/cluster/claimedresources\<close> and
  \<open>claimedresourcesnamespaces\<close>): an object selected by a permission claim is synchronised
  from the side that owns it to the other side, in either direction, and the service namespaces the
  claimed objects need are created. Calls to the two clusters are function fields of the
  reconciler; the calls of a reconciliation are observed as in the spec controller.
\<close>

section \<open>The reconciler\<close>

record 'w readReconciler =
  rd_getServiceNamespace :: "'w \<Rightarrow> string \<Rightarrow> APIServiceNamespace result"
  rd_getProviderObject :: "'w \<Rightarrow> string \<Rightarrow> string \<Rightarrow> Unstructured result"
  rd_createProviderObject :: "'w \<Rightarrow> Unstructured \<Rightarrow> error option \<times> 'w"
  rd_updateProviderObject :: "'w \<Rightarrow> Unstructured \<Rightarrow> error option \<times> 'w"
  rd_deleteProviderObject :: "'w \<Rightarrow> string \<Rightarrow> string \<Rightarrow> error option \<times> 'w"
  rd_getConsumerObject :: "'w \<Rightarrow> string \<Rightarrow> string \<Rightarrow> Unstructured result"
  rd_updateConsumerObject :: "'w \<Rightarrow> Unstructured \<Rightarrow> Unstructured result \<times> 'w"
  rd_createConsumerObject :: "'w \<Rightarrow> Unstructured \<Rightarrow> Unstructured result \<times> 'w"
  rd_deleteConsumerObject :: "'w \<Rightarrow> string \<Rightarrow> string \<Rightarrow> error option \<times> 'w"

definition makeConsumerOwner :: "Unstructured \<Rightarrow> Unstructured" where
  "makeConsumerOwner obj = SetLabels (Mapping.update ObjectOwnerLabel OwnerConsumer (GetLabels obj)) obj"

definition makeProviderOwner :: "Unstructured \<Rightarrow> Unstructured" where
  "makeProviderOwner obj = SetLabels (Mapping.update ObjectOwnerLabel OwnerProvider (GetLabels obj)) obj"

definition candidateFromOwnerObj :: "string \<Rightarrow> Unstructured \<Rightarrow> Unstructured" where
  "candidateFromOwnerObj downstreamNS obj =
     obj\<lparr>u_meta := (u_meta obj)\<lparr>m_UID := [], m_ResourceVersion := [], m_Namespace := downstreamNS,
           m_DeletionTimestamp := None, m_OwnerReferences := [], m_Finalizers := [],
           m_CreationTimestamp := 0,
           m_Labels := Mapping.filter (\<lambda>key label. \<not> Contains key ''claimed.internal.apis.kcp.io'')
                         (GetLabels obj),
           m_Annotations := Mapping.filter (\<lambda>key annotation. \<not> Contains key ''kcp.io/cluster'')
                         (GetAnnotations obj)\<rparr>,
         u_ManagedFields := JNull, u_DeletionGracePeriodSeconds := None\<rparr>"

definition ownerLabelOf :: "Unstructured \<Rightarrow> string" where
  "ownerLabelOf obj = mget (GetLabels obj) ObjectOwnerLabel"

definition determineOwner :: "Unstructured option \<Rightarrow> Unstructured option \<Rightarrow> Owner result" where
  "determineOwner providerObj consumerObj =
     (let fromConsumer =
        (case consumerObj of
           None \<Rightarrow> Inl (PlainError ''unable to determine owner'')
         | Some c \<Rightarrow>
             if ownerLabelOf c = OwnerProvider then Inr OwnerProvider
             else if ownerLabelOf c = OwnerConsumer then Inr OwnerConsumer
             else if ownerLabelOf c = [] \<and> providerObj = None then Inr OwnerConsumer
             else Inl (PlainError ''unable to determine owner''))
      in case providerObj of
           None \<Rightarrow> fromConsumer
         | Some p \<Rightarrow>
             if ownerLabelOf p = OwnerProvider then Inr OwnerProvider
             else if ownerLabelOf p = OwnerConsumer then Inr OwnerConsumer
             else if ownerLabelOf p = [] \<and> consumerObj = None then Inr OwnerProvider
             else fromConsumer)"

text \<open>The copies that are written to the side that does not own the object.\<close>

definition consumerCandidate :: "string \<Rightarrow> Unstructured \<Rightarrow> Unstructured" where
  "consumerCandidate consumerNS providerObj =
     SetSourceMetadataAnnotations (candidateFromOwnerObj consumerNS providerObj)
       (GetNamespace providerObj) (GetUID providerObj) ProviderNamespaceAnnotationKey ProviderUIDAnnotationKey"

definition providerCandidate :: "string \<Rightarrow> Unstructured \<Rightarrow> Unstructured" where
  "providerCandidate providerNamespace consumerObj =
     makeConsumerOwner
       (SetSourceMetadataAnnotations (candidateFromOwnerObj providerNamespace consumerObj)
         (GetNamespace consumerObj) (GetUID consumerObj) ConsumerNamespaceAnnotationKey ConsumerUIDAnnotationKey)"

definition ignoreNotFound :: "error option \<Rightarrow> error option" where
  "ignoreNotFound e = (case e of Some err \<Rightarrow> if IsNotFound err then None else Some err | None \<Rightarrow> None)"

text \<open>The branch of \<open>OwnerProvider\<close>.\<close>

definition syncProviderOwned ::
  "'w readReconciler \<Rightarrow> 'w \<Rightarrow> string \<Rightarrow> string \<Rightarrow> Unstructured option \<Rightarrow> Unstructured option \<Rightarrow> error option \<times> 'w" where
  "syncProviderOwned r w consumerNS name providerObj consumerObj =
     (case providerObj of
        None \<Rightarrow> (case rd_deleteConsumerObject r w consumerNS name of (e, w1) \<Rightarrow> (ignoreNotFound e, w1))
      | Some p \<Rightarrow>
          let ownerCandidate = makeProviderOwner p
          in case (if p \<noteq> ownerCandidate then rd_updateProviderObject r w ownerCandidate else (None, w)) of
               (Some err, w1) \<Rightarrow> (Some err, w1)
             | (None, w1) \<Rightarrow>
                 (case consumerObj of
                    None \<Rightarrow>
                      (case rd_createConsumerObject r w1 (makeProviderOwner (consumerCandidate consumerNS p)) of
                         (Inl err, w2) \<Rightarrow> (Some err, w2) | (Inr _, w2) \<Rightarrow> (None, w2))
                  | Some c \<Rightarrow>
                      if IsDeleting p then rd_deleteConsumerObject r w1 consumerNS (GetName p)
                      else if consumerCandidate consumerNS p \<noteq> candidateFromOwnerObj consumerNS c then
                        (case rd_updateConsumerObject r w1 (consumerCandidate consumerNS p) of
                           (Inl err, w2) \<Rightarrow> (Some err, w2) | (Inr _, w2) \<Rightarrow> (None, w2))
                      else (None, w1)))"

text \<open>The branch of \<open>OwnerConsumer\<close>.\<close>

definition syncConsumerOwned ::
  "'w readReconciler \<Rightarrow> 'w \<Rightarrow> string \<Rightarrow> string \<Rightarrow> Unstructured option \<Rightarrow> Unstructured option \<Rightarrow> error option \<times> 'w" where
  "syncConsumerOwned r w providerNamespace name providerObj consumerObj =
     (case consumerObj of
        None \<Rightarrow> (case rd_deleteProviderObject r w providerNamespace name of (e, w1) \<Rightarrow> (ignoreNotFound e, w1))
      | Some c \<Rightarrow>
          let ownerCandidate = makeConsumerOwner c
          in case (if c \<noteq> ownerCandidate then rd_updateConsumerObject r w ownerCandidate else (Inr c, w)) of
               (Inl err, w1) \<Rightarrow> (Some err, w1)
             | (Inr _, w1) \<Rightarrow>
                 let candidate = providerCandidate providerNamespace ownerCandidate
                 in case providerObj of
                      None \<Rightarrow> rd_createProviderObject r w1 candidate
                    | Some p \<Rightarrow>
                        if candidateFromOwnerObj providerNamespace p \<noteq> candidate
                        then rd_updateProviderObject r w1 candidate
                        else (None, w1))"

definition syncOwned ::
  "'w readReconciler \<Rightarrow> 'w \<Rightarrow> string \<Rightarrow> string \<Rightarrow> string \<Rightarrow> Unstructured option \<Rightarrow> Unstructured option \<Rightarrow>
     error option \<times> 'w" where
  "syncOwned r w providerNamespace consumerNS name providerObj consumerObj =
     (if providerObj = None \<and> consumerObj = None then (None, w)
      else case determineOwner providerObj consumerObj of
          Inl err \<Rightarrow> (None, w)
        | Inr owner \<Rightarrow>
            if owner = OwnerProvider then syncProviderOwned r w consumerNS name providerObj consumerObj
            else if owner = OwnerConsumer then syncConsumerOwned r w providerNamespace name providerObj consumerObj
            else (None, w))"

text \<open>A read that answers \<open>NotFound\<close> gives no object; any other error ends the reconciliation.\<close>

definition found :: "Unstructured result \<Rightarrow> Unstructured option result" where
  "found r = (case r of Inr u \<Rightarrow> Inr (Some u) | Inl err \<Rightarrow> if IsNotFound err then Inr None else Inl err)"

definition claimed_reconcile :: "'w readReconciler \<Rightarrow> 'w \<Rightarrow> string \<Rightarrow> string \<Rightarrow> error option \<times> 'w" where
  "claimed_reconcile r w providerNamespace name =
     (case (if providerNamespace = [] then Inr []
            else case rd_getServiceNamespace r w providerNamespace of
                Inl err \<Rightarrow> Inl err
              | Inr sn \<Rightarrow>
                  if snt_Namespace (sn_Status sn) = []
                  then Inl (PlainError (Sprintf ''APIServiceNamespace %q has empty status.namespace''
                         [FStr providerNamespace]))
                  else Inr (m_Name (sn_meta sn))) of
        Inl err \<Rightarrow> (Some err, w)
      | Inr consumerNS \<Rightarrow>
          (case found (rd_getProviderObject r w providerNamespace name) of
             Inl err \<Rightarrow> (Some err, w)
           | Inr providerObj \<Rightarrow>
               (case found (rd_getConsumerObject r w consumerNS name) of
                  Inl err \<Rightarrow> (Some err, w)
                | Inr consumerObj \<Rightarrow>
                    syncOwned r w providerNamespace consumerNS name providerObj consumerObj)))"

section \<open>The controller of claimed resources\<close>

text \<open>
  Events carry a tombstone or an object; \<open>cc_asUnstructured\<close> unwraps and checks the type.
\<close>

record ('w, 'e) claim_controller =
  cc_queue :: "'w Queue"
  cc_keys :: "'e KeyFuncs"
  cc_asUnstructured :: "'e \<Rightarrow> Unstructured option"
  cc_objectKey :: "Unstructured \<Rightarrow> string result"
  cc_claim :: PermissionClaim
  cc_apiServiceExport :: APIServiceExport
  cc_lib :: claim_lib
  cc_consumerList :: "'w \<Rightarrow> GroupVersionResource \<Rightarrow> Unstructured list result"
  cc_snList :: "'w \<Rightarrow> string \<Rightarrow> APIServiceNamespace list result"
  cc_snGet :: "'w \<Rightarrow> string \<Rightarrow> string \<Rightarrow> APIServiceNamespace result"
  cc_snByNamespace :: "'w \<Rightarrow> string \<Rightarrow> APIServiceNamespace list result"
  cc_providerList :: "'w \<Rightarrow> string \<Rightarrow> Unstructured list result"
  cc_consumerGetByKey :: "'w \<Rightarrow> string \<Rightarrow> Unstructured option result"
  cc_consumerLister :: "'w \<Rightarrow> (smap \<Rightarrow> bool) \<Rightarrow> Unstructured list result"
  cc_providerNamespace :: string
  cc_readReconciler :: "'w readReconciler"

definition claim_isClaimed :: "('w, 'e) claim_controller \<Rightarrow> 'w \<Rightarrow> Unstructured \<Rightarrow> bool \<Rightarrow> bool" where
  "claim_isClaimed c w obj consumerSide =
     (let wasClaimedBefore = (Mapping.lookup (GetLabels obj) ObjectOwnerLabel \<noteq> None);
          currentlyClaimed = IsClaimedWithReference (cc_lib c) obj consumerSide (cc_claim c)
            (cc_apiServiceExport c) (cc_consumerList c w) (cc_snList c w (cc_providerNamespace c))
      in wasClaimedBefore \<or> currentlyClaimed)"

definition enqueueConsumerByKey :: "('w, 'e) claim_controller \<Rightarrow> 'w \<Rightarrow> string \<Rightarrow> 'w" where
  "enqueueConsumerByKey c w key =
     (case kf_SplitMetaNamespaceKey (cc_keys c) key of
        Inl err \<Rightarrow> w
      | Inr (ns, name) \<Rightarrow>
          if ns \<noteq> [] then
            (case cc_snGet c w (cc_providerNamespace c) ns of
               Inl err \<Rightarrow> w
             | Inr sn \<Rightarrow>
                 if snt_Namespace (sn_Status sn) = [] then w
                 else if m_Namespace (sn_meta sn) = cc_providerNamespace c
                 then q_Add (cc_queue c) (Sprintf ''%s/%s'' [FStr (snt_Namespace (sn_Status sn)), FStr name]) w
                 else w)
          else q_Add (cc_queue c) key w)"

definition claim_enqueueConsumer :: "('w, 'e) claim_controller \<Rightarrow> 'w \<Rightarrow> 'e \<Rightarrow> 'w" where
  "claim_enqueueConsumer c w ob =
     (case cc_asUnstructured c ob of
        None \<Rightarrow> w
      | Some obj \<Rightarrow>
          if \<not> claim_isClaimed c w obj True then w
          else (case cc_objectKey c obj of Inl err \<Rightarrow> w | Inr key \<Rightarrow> enqueueConsumerByKey c w key))"

definition claim_enqueueProvider :: "('w, 'e) claim_controller \<Rightarrow> 'w \<Rightarrow> 'e \<Rightarrow> 'w" where
  "claim_enqueueProvider c w ob =
     (case cc_asUnstructured c ob of
        None \<Rightarrow> w
      | Some obj \<Rightarrow>
          if \<not> claim_isClaimed c w obj False then w
          else (case cc_objectKey c obj of
              Inl err \<Rightarrow> w
            | Inr providerKey \<Rightarrow>
                (case kf_SplitMetaNamespaceKey (cc_keys c) providerKey of
                   Inl err \<Rightarrow> w
                 | Inr (ns, name) \<Rightarrow>
                     if ns \<noteq> [] then
                       (case cc_snByNamespace c w ns of
                          Inl err \<Rightarrow> w
                        | Inr sns \<Rightarrow>
                            if list_ex (\<lambda>sn. m_Namespace (sn_meta sn) = cc_providerNamespace c) sns
                            then q_Add (cc_queue c) providerKey w else w)
                     else q_Add (cc_queue c) providerKey w)))"

text \<open>The provider objects of a service namespace, and the named objects of the consumer.\<close>

definition claimedKey :: "('w, 'e) claim_controller \<Rightarrow> 'w \<Rightarrow> Unstructured \<Rightarrow> string result" where
  "claimedKey c w obj =
     (if claim_isClaimed c w obj False then cc_objectKey c obj else Inl (PlainError ''not claimed''))"

fun enqueueNamed :: "('w, 'e) claim_controller \<Rightarrow> APIServiceNamespace \<Rightarrow> NamedResource list \<Rightarrow> 'w \<Rightarrow> 'w" where
  "enqueueNamed c sn [] w = w"
| "enqueueNamed c sn (nr # nrs) w =
     (let key = (if nr_Namespace nr \<noteq> [] then Sprintf ''%s/%s'' [FStr (nr_Namespace nr), FStr (nr_Name nr)]
                 else nr_Name nr)
      in if nr_Namespace nr \<noteq> [] \<and> nr_Namespace nr \<noteq> m_Name (sn_meta sn) then enqueueNamed c sn nrs w
         else case cc_consumerGetByKey c w key of
             Inl err \<Rightarrow> enqueueNamed c sn nrs w
           | Inr None \<Rightarrow> enqueueNamed c sn nrs w
           | Inr (Some u) \<Rightarrow>
               if \<not> claim_isClaimed c w u True then enqueueNamed c sn nrs w
               else enqueueNamed c sn nrs (q_Add (cc_queue c)
                      (Sprintf ''%s/%s'' [FStr (snt_Namespace (sn_Status sn)), FStr (nr_Name nr)]) w))"

fun enqueueListed :: "('w, 'e) claim_controller \<Rightarrow> APIServiceNamespace \<Rightarrow> Unstructured list \<Rightarrow> 'w \<Rightarrow> 'w" where
  "enqueueListed c sn [] w = w"
| "enqueueListed c sn (obj # objs) w =
     (if \<not> claim_isClaimed c w obj True then enqueueListed c sn objs w
      else case cc_objectKey c obj of
          Inl err \<Rightarrow> enqueueListed c sn objs w
        | Inr objKey \<Rightarrow>
            (case kf_SplitMetaNamespaceKey (cc_keys c) objKey of
               Inl err \<Rightarrow> enqueueListed c sn objs w
             | Inr (objNamespace, name) \<Rightarrow>
                 if objNamespace \<noteq> [] \<and> objNamespace \<noteq> m_Name (sn_meta sn) then enqueueListed c sn objs w
                 else enqueueListed c sn objs (q_Add (cc_queue c)
                        (Sprintf ''%s/%s'' [FStr (snt_Namespace (sn_Status sn)), FStr name]) w)))"

fun enqueueClaimedProvider :: "('w, 'e) claim_controller \<Rightarrow> Unstructured list \<Rightarrow> 'w \<Rightarrow> 'w" where
  "enqueueClaimedProvider c [] w = w"
| "enqueueClaimedProvider c (obj # objs) w =
     (case claimedKey c w obj of
        Inl err \<Rightarrow> enqueueClaimedProvider c objs w
      | Inr key \<Rightarrow> enqueueClaimedProvider c objs (q_Add (cc_queue c) key w))"

definition claim_enqueueServiceNamespace :: "('w, 'e) claim_controller \<Rightarrow> 'w \<Rightarrow> 'e \<Rightarrow> 'w" where
  "claim_enqueueServiceNamespace c w ob =
     (case eventKey (cc_keys c) ob of
        Inl err \<Rightarrow> w
      | Inr (ns, name) \<Rightarrow>
          if ns \<noteq> cc_providerNamespace c then w
          else (case cc_snGet c w ns name of
              Inl err \<Rightarrow> w
            | Inr sn \<Rightarrow>
                if snt_Namespace (sn_Status sn) = [] then w
                else (case cc_providerList c w (snt_Namespace (sn_Status sn)) of
                    Inl err \<Rightarrow> w
                  | Inr objs \<Rightarrow>
                      let w1 = enqueueClaimedProvider c objs w;
                          sel = pc_Selector (cc_claim c);
                          enqueueMatching = (\<lambda>m. case cc_consumerLister c w1 m of
                              Inl err \<Rightarrow> w1 | Inr objects \<Rightarrow> enqueueListed c sn objects w1)
                      in if sel_LabelSelector sel = None \<and> sel_NamedResources sel = []
                         then enqueueMatching (\<lambda>_. True)
                         else case sel_LabelSelector sel of
                             Some ls \<Rightarrow>
                               (case cl_LabelSelectorAsSelector (cc_lib c) ls of
                                  Inl err \<Rightarrow> w1 | Inr m \<Rightarrow> enqueueMatching m)
                           | None \<Rightarrow> enqueueNamed c sn (sel_NamedResources sel) w1)))"

definition claim_process :: "('w, 'e) claim_controller \<Rightarrow> 'w \<Rightarrow> string \<Rightarrow> error option \<times> 'w" where
  "claim_process c w key =
     (case kf_SplitMetaNamespaceKey (cc_keys c) key of
        Inl err \<Rightarrow> (None, w)
      | Inr (namespace, name) \<Rightarrow> claimed_reconcile (cc_readReconciler c) w namespace name)"

definition claim_processNextWorkItem :: "('w, 'e) claim_controller \<Rightarrow> 'w \<Rightarrow> bool \<times> 'w" where
  "claim_processNextWorkItem c = processNextWorkItem (cc_queue c) (claim_process c)"

text \<open>The closure of \<open>NewController\<close> that finds the service namespace of a provider namespace.\<close>

definition claim_getServiceNamespace ::
  "('w \<Rightarrow> string \<Rightarrow> APIServiceNamespace list result) \<Rightarrow> 'w \<Rightarrow> string \<Rightarrow> APIServiceNamespace result" where
  "claim_getServiceNamespace byIndex w upstreamNamespace =
     (case byIndex w upstreamNamespace of
        Inl err \<Rightarrow> Inl err
      | Inr [] \<Rightarrow> Inl (StatusError ReasonNotFound (''APIServiceNamespace '' @ upstreamNamespace))
      | Inr (sn # sns) \<Rightarrow> Inr sn)"

section \<open>The controller of their namespaces\<close>

text \<open>
  \<open>wait.PollUntilContextCancel\<close> polls the cache until the status of the service namespace is
  set, an error occurs or the context is cancelled. Waiting for the interval is an effect that says
  whether the context was cancelled meanwhile; a poll that never ends does not return.
\<close>

record ('w, 'e) claimns_controller =
  cn_queue :: "'w Queue"
  cn_claims :: "('w, 'e) claim_controller"
  cn_createServiceNamespace :: "'w \<Rightarrow> APIServiceNamespace \<Rightarrow> APIServiceNamespace result \<times> 'w"
  cn_tick :: "'w \<Rightarrow> error option \<times> 'w"
  cn_notify :: "string \<Rightarrow> 'w \<Rightarrow> 'w"

definition claimns_isClaimed :: "('w, 'e) claimns_controller \<Rightarrow> 'w \<Rightarrow> Unstructured \<Rightarrow> bool \<Rightarrow> bool" where
  "claimns_isClaimed c w obj consumerSide =
     (let cc = cn_claims c
      in IsClaimedWithReference (cc_lib cc) obj consumerSide (cc_claim cc) (cc_apiServiceExport cc)
           (cc_consumerList cc w) (cc_snList cc w (cc_providerNamespace cc)))"

definition claimns_enqueueConsumer :: "('w, 'e) claimns_controller \<Rightarrow> 'w \<Rightarrow> 'e \<Rightarrow> 'w" where
  "claimns_enqueueConsumer c w ob =
     (let cc = cn_claims c
      in case cc_asUnstructured cc ob of
           None \<Rightarrow> w
         | Some obj \<Rightarrow>
             if \<not> claimns_isClaimed c w obj True then w
             else if GetNamespace obj = [] then w
             else (case cc_snGet cc w (cc_providerNamespace cc) (GetNamespace obj) of
                 Inr sn \<Rightarrow> w
               | Inl err \<Rightarrow>
                   if IsNotFound err
                   then (case cc_objectKey cc obj of Inl err \<Rightarrow> w | Inr key \<Rightarrow> q_Add (cn_queue c) key w)
                   else w))"

definition serviceNamespaceReady :: "APIServiceNamespace result \<Rightarrow> bool result" where
  "serviceNamespaceReady r =
     (case r of
        Inl err \<Rightarrow> if IsNotFound err then Inr False else Inl err
      | Inr sn \<Rightarrow> Inr (snt_Namespace (sn_Status sn) \<noteq> []))"

partial_function (option) pollReady ::
  "('w \<Rightarrow> APIServiceNamespace result) \<Rightarrow> ('w \<Rightarrow> error option \<times> 'w) \<Rightarrow> 'w \<Rightarrow> (error option \<times> 'w) option" where
  "pollReady get tick w =
     (case serviceNamespaceReady (get w) of
        Inl err \<Rightarrow> Some (Some err, w)
      | Inr ready \<Rightarrow>
          if ready then Some (None, w)
          else (case tick w of
              (cancelled, w1) \<Rightarrow>
                (case cancelled of
                   Some err \<Rightarrow> Some (Some err, w1)
                 | None \<Rightarrow> pollReady get tick w1)))"

definition ensureServiceNamespace ::
  "('w, 'e) claimns_controller \<Rightarrow> 'w \<Rightarrow> string \<Rightarrow> (bool result \<times> 'w) option" where
  "ensureServiceNamespace c w ns =
     (let cc = cn_claims c; pns = cc_providerNamespace cc;
          await = (\<lambda>w1.
            case pollReady (\<lambda>w. cc_snGet cc w pns ns) (cn_tick c) w1 of
              None \<Rightarrow> None
            | Some (Some err, w2) \<Rightarrow>
                Some (Inl (wrapError (''failed to wait for APIServiceNamespace '' @ quote ns @ '' to be ready'') err), w2)
            | Some (None, w2) \<Rightarrow> Some (Inr True, w2))
      in case cc_snGet cc w pns ns of
           Inr sn \<Rightarrow> Some (Inr False, w)
         | Inl err \<Rightarrow>
             if \<not> IsNotFound err then Some (Inl err, w)
             else (case cn_createServiceNamespace c w
                     \<lparr>sn_meta = emptyMeta\<lparr>m_Name := ns, m_Namespace := pns,
                        m_OwnerReferences := [NewControllerRef (ex_meta (cc_apiServiceExport cc)) ''APIServiceExport'']\<rparr>,
                      sn_Status = \<lparr>snt_Namespace = []\<rparr>\<rparr> of
                 (Inl err, w1) \<Rightarrow>
                   if \<not> IsAlreadyExists err
                   then Some (Inl (wrapError (''failed to create APIServiceNamespace '' @ quote ns) err), w1)
                   else await w1
               | (Inr _, w1) \<Rightarrow> await w1))"

definition claimns_process :: "('w, 'e) claimns_controller \<Rightarrow> 'w \<Rightarrow> string \<Rightarrow> (error option \<times> 'w) option" where
  "claimns_process c w key =
     (case kf_SplitMetaNamespaceKey (cc_keys (cn_claims c)) key of
        Inl err \<Rightarrow> Some (None, w)
      | Inr (ns, name) \<Rightarrow>
          if ns = [] then Some (None, w)
          else (case ensureServiceNamespace c w ns of
              None \<Rightarrow> None
            | Some (Inl err, w1) \<Rightarrow> Some (Some err, w1)
            | Some (Inr created, w1) \<Rightarrow> Some (None, if created then cn_notify c key w1 else w1)))"

section \<open>Observing the calls\<close>

datatype claim_call = ClaimCreateProvider Unstructured | ClaimUpdateProvider Unstructured
  | ClaimDeleteProvider string string | ClaimCreateConsumer Unstructured
  | ClaimUpdateConsumer Unstructured | ClaimDeleteConsumer string string

definition claim_logged :: "'w readReconciler \<Rightarrow> ('w \<times> claim_call list) readReconciler" where
  "claim_logged r =
     \<lparr>rd_getServiceNamespace = (\<lambda>(w, l). rd_getServiceNamespace r w),
      rd_getProviderObject = (\<lambda>(w, l). rd_getProviderObject r w),
      rd_createProviderObject = (\<lambda>(w, l) u.
        case rd_createProviderObject r w u of (x, w1) \<Rightarrow> (x, (w1, l @ [ClaimCreateProvider u]))),
      rd_updateProviderObject = (\<lambda>(w, l) u.
        case rd_updateProviderObject r w u of (x, w1) \<Rightarrow> (x, (w1, l @ [ClaimUpdateProvider u]))),
      rd_deleteProviderObject = (\<lambda>(w, l) ns n.
        case rd_deleteProviderObject r w ns n of (x, w1) \<Rightarrow> (x, (w1, l @ [ClaimDeleteProvider ns n]))),
      rd_getConsumerObject = (\<lambda>(w, l). rd_getConsumerObject r w),
      rd_updateConsumerObject = (\<lambda>(w, l) u.
        case rd_updateConsumerObject r w u of (x, w1) \<Rightarrow> (x, (w1, l @ [ClaimUpdateConsumer u]))),
      rd_createConsumerObject = (\<lambda>(w, l) u.
        case rd_createConsumerObject r w u of (x, w1) \<Rightarrow> (x, (w1, l @ [ClaimCreateConsumer u]))),
      rd_deleteConsumerObject = (\<lambda>(w, l) ns n.
        case rd_deleteConsumerObject r w ns n of (x, w1) \<Rightarrow> (x, (w1, l @ [ClaimDeleteConsumer ns n])))\<rparr>"

definition claimed_calls :: "'w readReconciler \<Rightarrow> 'w \<Rightarrow> string \<Rightarrow> string \<Rightarrow> claim_call list" where
  "claimed_calls r w ns name = snd (snd (claimed_reconcile (claim_logged r) (w, []) ns name))"

lemma claim_logged_simps [simp]:
  "rd_getServiceNamespace (claim_logged r) (w, l) = rd_getServiceNamespace r w"
  "rd_getProviderObject (claim_logged r) (w, l) = rd_getProviderObject r w"
  "rd_getConsumerObject (claim_logged r) (w, l) = rd_getConsumerObject r w"
  "rd_createProviderObject (claim_logged r) (w, l) u =
     (case rd_createProviderObject r w u of (x, w1) \<Rightarrow> (x, (w1, l @ [ClaimCreateProvider u])))"
  "rd_updateProviderObject (claim_logged r) (w, l) u =
     (case rd_updateProviderObject r w u of (x, w1) \<Rightarrow> (x, (w1, l @ [ClaimUpdateProvider u])))"
  "rd_deleteProviderObject (claim_logged r) (w, l) ns n =
     (case rd_deleteProviderObject r w ns n of (x, w1) \<Rightarrow> (x, (w1, l @ [ClaimDeleteProvider ns n])))"
  "rd_updateConsumerObject (claim_logged r) (w, l) u =
     (case rd_updateConsumerObject r w u of (x, w1) \<Rightarrow> (x, (w1, l @ [ClaimUpdateConsumer u])))"
  "rd_createConsumerObject (claim_logged r) (w, l) u =
     (case rd_createConsumerObject r w u of (x, w1) \<Rightarrow> (x, (w1, l @ [ClaimCreateConsumer u])))"
  "rd_deleteConsumerObject (claim_logged r) (w, l) ns n =
     (case rd_deleteConsumerObject r w ns n of (x, w1) \<Rightarrow> (x, (w1, l @ [ClaimDeleteConsumer ns n])))"
  by (simp_all add: claim_logged_def)

section \<open>Lemmas\<close>

lemma ownerLabel_simps [simp]:
  "ownerLabelOf (makeConsumerOwner u) = OwnerConsumer" "ownerLabelOf (makeProviderOwner u) = OwnerProvider"
  by (simp_all add: ownerLabelOf_def makeConsumerOwner_def makeProviderOwner_def)

lemma candidate_simps [simp]:
  "GetNamespace (candidateFromOwnerObj ns u) = ns" "GetName (candidateFromOwnerObj ns u) = GetName u"
  "u_fields (candidateFromOwnerObj ns u) = u_fields u"
  "u_fields (makeConsumerOwner u) = u_fields u" "u_fields (makeProviderOwner u) = u_fields u"
  "GetNamespace (makeConsumerOwner u) = GetNamespace u" "GetNamespace (makeProviderOwner u) = GetNamespace u"
  "GetName (makeConsumerOwner u) = GetName u" "GetName (makeProviderOwner u) = GetName u"
  "GetUID (makeConsumerOwner u) = GetUID u" "GetUID (makeProviderOwner u) = GetUID u"
  "IsDeleting (makeProviderOwner u) = IsDeleting u"
  by (simp_all add: candidateFromOwnerObj_def makeConsumerOwner_def makeProviderOwner_def accessor_defs IsDeleting_def)

lemma keyOf_source_namespace [simp]:
  "GetNamespace (SetSourceMetadataAnnotations u a b k1 k2) = GetNamespace u"
  "GetName (SetSourceMetadataAnnotations u a b k1 k2) = GetName u"
  by (simp_all add: SetSourceMetadataAnnotations_def)

lemma copies_simps [simp]:
  "u_fields (consumerCandidate ns u) = u_fields u" "u_fields (providerCandidate ns u) = u_fields u"
  "GetNamespace (consumerCandidate ns u) = ns" "GetNamespace (providerCandidate ns u) = ns"
  "GetName (consumerCandidate ns u) = GetName u" "GetName (providerCandidate ns u) = GetName u"
  "ownerLabelOf (providerCandidate ns u) = OwnerConsumer"
  by (simp_all add: consumerCandidate_def providerCandidate_def)

lemma determineOwner_cases: "determineOwner p c = Inr ow \<Longrightarrow> ow = OwnerProvider \<or> ow = OwnerConsumer"
  by (auto simp: determineOwner_def Let_def split: option.splits if_splits)

lemma syncProviderOwned_logged:
  "snd (snd (syncProviderOwned (claim_logged r) (w, l) cns name p c)) =
     l @ (case p of
        None \<Rightarrow> [ClaimDeleteConsumer cns name]
      | Some po \<Rightarrow>
          (if po \<noteq> makeProviderOwner po then [ClaimUpdateProvider (makeProviderOwner po)] else []) @
          (if po \<noteq> makeProviderOwner po \<and> fst (rd_updateProviderObject r w (makeProviderOwner po)) \<noteq> None then []
           else case c of
               None \<Rightarrow> [ClaimCreateConsumer (makeProviderOwner (consumerCandidate cns po))]
             | Some co \<Rightarrow>
                 if IsDeleting po then [ClaimDeleteConsumer cns (GetName po)]
                 else if consumerCandidate cns po \<noteq> candidateFromOwnerObj cns co
                 then [ClaimUpdateConsumer (consumerCandidate cns po)] else []))"
proof (cases p)
  case None
  then show ?thesis by (simp add: syncProviderOwned_def split: prod.split)
next
  case (Some po)
  define m where "m = makeProviderOwner po"
  define cand where "cand = makeProviderOwner (consumerCandidate cns po)"
  show ?thesis
    unfolding syncProviderOwned_def Let_def Some option.case m_def [symmetric] cand_def [symmetric]
    by (cases "po = m"; cases c) (simp_all split: option.split prod.split sum.split)
qed

lemma syncConsumerOwned_logged:
  "snd (snd (syncConsumerOwned (claim_logged r) (w, l) pns name p c)) =
     l @ (case c of
        None \<Rightarrow> [ClaimDeleteProvider pns name]
      | Some co \<Rightarrow>
          (if co \<noteq> makeConsumerOwner co then [ClaimUpdateConsumer (makeConsumerOwner co)] else []) @
          (if co \<noteq> makeConsumerOwner co \<and> (\<exists>e. fst (rd_updateConsumerObject r w (makeConsumerOwner co)) = Inl e) then []
           else case p of
               None \<Rightarrow> [ClaimCreateProvider (providerCandidate pns (makeConsumerOwner co))]
             | Some po \<Rightarrow>
                 if candidateFromOwnerObj pns po \<noteq> providerCandidate pns (makeConsumerOwner co)
                 then [ClaimUpdateProvider (providerCandidate pns (makeConsumerOwner co))] else []))"
proof (cases c)
  case None
  then show ?thesis by (simp add: syncConsumerOwned_def split: prod.split)
next
  case (Some co)
  define m where "m = makeConsumerOwner co"
  show ?thesis
    unfolding syncConsumerOwned_def Let_def Some option.case m_def [symmetric]
    by (cases "co = m"; cases p) (simp_all split: option.split prod.split sum.split)
qed

text \<open>
  The contract of a call, for the object \<open>p\<close> of the provider and \<open>c\<close> of the consumer
  (as read) in the namespaces \<open>pns\<close> and \<open>cns\<close>.
\<close>

fun claim_call_ok :: "string \<Rightarrow> string \<Rightarrow> string \<Rightarrow> Unstructured option \<Rightarrow> Unstructured option \<Rightarrow> claim_call \<Rightarrow> bool" where
  "claim_call_ok pns cns name p c (ClaimCreateProvider u) \<longleftrightarrow>
     determineOwner p c = Inr OwnerConsumer \<and> p = None \<and>
     (\<exists>co. c = Some co \<and> u_fields u = u_fields co \<and> GetName u = GetName co) \<and>
     GetNamespace u = pns \<and> ownerLabelOf u = OwnerConsumer"
| "claim_call_ok pns cns name p c (ClaimUpdateProvider u) \<longleftrightarrow>
     (determineOwner p c = Inr OwnerConsumer \<and>
      (\<exists>co. c = Some co \<and> u_fields u = u_fields co \<and> GetName u = GetName co) \<and>
      GetNamespace u = pns \<and> ownerLabelOf u = OwnerConsumer) \<or>
     (determineOwner p c = Inr OwnerProvider \<and> (\<exists>po. p = Some po \<and> u = makeProviderOwner po))"
| "claim_call_ok pns cns name p c (ClaimDeleteProvider ns n) \<longleftrightarrow>
     determineOwner p c = Inr OwnerConsumer \<and> c = None \<and> ns = pns \<and> n = name"
| "claim_call_ok pns cns name p c (ClaimCreateConsumer u) \<longleftrightarrow>
     determineOwner p c = Inr OwnerProvider \<and> c = None \<and>
     (\<exists>po. p = Some po \<and> u_fields u = u_fields po \<and> GetName u = GetName po) \<and>
     GetNamespace u = cns \<and> ownerLabelOf u = OwnerProvider"
| "claim_call_ok pns cns name p c (ClaimUpdateConsumer u) \<longleftrightarrow>
     (determineOwner p c = Inr OwnerProvider \<and>
      (\<exists>po. p = Some po \<and> \<not> IsDeleting po \<and> u_fields u = u_fields po \<and> GetName u = GetName po) \<and>
      GetNamespace u = cns) \<or>
     (determineOwner p c = Inr OwnerConsumer \<and> (\<exists>co. c = Some co \<and> u = makeConsumerOwner co))"
| "claim_call_ok pns cns name p c (ClaimDeleteConsumer ns n) \<longleftrightarrow>
     determineOwner p c = Inr OwnerProvider \<and> ns = cns \<and>
     (p = None \<and> n = name \<or> (\<exists>po. p = Some po \<and> IsDeleting po \<and> n = GetName po))"

lemma syncOwned_calls:
  "list_all (claim_call_ok pns cns name p c) (snd (snd (syncOwned (claim_logged r) (w, []) pns cns name p c)))"
  by (auto simp: syncOwned_def syncProviderOwned_logged syncConsumerOwned_logged
      dest: determineOwner_cases split: sum.split option.split)

text \<open>The namespace of the consumer that belongs to a provider namespace.\<close>

definition consumerNamespaceOf :: "'w readReconciler \<Rightarrow> 'w \<Rightarrow> string \<Rightarrow> string \<Rightarrow> bool" where
  "consumerNamespaceOf r w pns cns \<longleftrightarrow>
     (if pns = [] then cns = []
      else \<exists>sn. rd_getServiceNamespace r w pns = Inr sn \<and> snt_Namespace (sn_Status sn) \<noteq> [] \<and>
        m_Name (sn_meta sn) = cns)"

lemma claimed_reconcile_reads:
  assumes "consumerNamespaceOf r w pns cns"
    and "found (rd_getProviderObject r w pns name) = Inr p" "found (rd_getConsumerObject r w cns name) = Inr c"
  shows "claimed_reconcile r w pns name = syncOwned r w pns cns name p c"
  using assms by (auto simp: claimed_reconcile_def consumerNamespaceOf_def split: if_splits)

text \<open>The keys the konnector sets are not among those a copy drops, so copying twice is copying once.\<close>

lemma own_keys_kept [simp]:
  "\<not> Contains ObjectOwnerLabel ''claimed.internal.apis.kcp.io''"
  "\<not> Contains ConsumerNamespaceAnnotationKey ''kcp.io/cluster''"
  "\<not> Contains ConsumerUIDAnnotationKey ''kcp.io/cluster''"
  "\<not> Contains ProviderNamespaceAnnotationKey ''kcp.io/cluster''"
  "\<not> Contains ProviderUIDAnnotationKey ''kcp.io/cluster''"
  by (simp_all add: ObjectOwnerLabel_def annotation_key_defs)

lemma filter_idem: "Mapping.filter P (Mapping.filter P m) = Mapping.filter P m"
  by (rule mapping_eqI) (simp add: lookup_filter split: option.split)

lemma filter_update: "P k v \<Longrightarrow> Mapping.filter P (Mapping.update k v m) = Mapping.update k v (Mapping.filter P m)"
  by (rule mapping_eqI) (auto simp: lookup_filter)

lemmas copy_defs = candidateFromOwnerObj_def consumerCandidate_def providerCandidate_def
  makeConsumerOwner_def makeProviderOwner_def SetSourceMetadataAnnotations_def accessor_defs

lemma candidate_providerCandidate:
  "candidateFromOwnerObj ns (providerCandidate ns u) = providerCandidate ns u"
  by (simp add: copy_defs filter_idem filter_update)

lemma candidate_consumerCandidate:
  "candidateFromOwnerObj ns (makeProviderOwner (consumerCandidate ns u)) =
     consumerCandidate ns (makeProviderOwner u)"
  by (simp add: copy_defs filter_idem filter_update)

lemma makeOwner_idem [simp]:
  "makeConsumerOwner (makeConsumerOwner u) = makeConsumerOwner u"
  "makeProviderOwner (makeProviderOwner u) = makeProviderOwner u"
proof -
  have "Mapping.update k v (Mapping.update k v m) = Mapping.update k v m" for k v :: string and m :: smap
    by (rule mapping_eqI) simp
  then show "makeConsumerOwner (makeConsumerOwner u) = makeConsumerOwner u"
    "makeProviderOwner (makeProviderOwner u) = makeProviderOwner u"
    by (simp_all add: makeConsumerOwner_def makeProviderOwner_def accessor_defs)
qed

lemma determineOwner_provider [simp]: "determineOwner (Some (makeProviderOwner p)) c = Inr OwnerProvider"
  by (simp add: determineOwner_def Let_def)

text \<open>The poll returns once the service namespace is ready.\<close>

lemma pollReady_returns:
  assumes "\<And>i. i < n \<Longrightarrow> serviceNamespaceReady (get (((snd \<circ> tick) ^^ i) w)) = Inr False \<and>
      fst (tick (((snd \<circ> tick) ^^ i) w)) = None"
    and "serviceNamespaceReady (get (((snd \<circ> tick) ^^ n) w)) = Inr True"
  shows "pollReady get tick w = Some (None, ((snd \<circ> tick) ^^ n) w)"
  using assms
proof (induction n arbitrary: w)
  case 0
  then show ?case by (subst pollReady.simps) simp
next
  case (Suc n)
  have step: "((snd \<circ> tick) ^^ Suc i) w = ((snd \<circ> tick) ^^ i) (snd (tick w))" for i
    unfolding funpow_Suc_right by simp
  have "serviceNamespaceReady (get w) = Inr False" "fst (tick w) = None"
    using Suc.prems(1) [of 0] by simp_all
  then have "pollReady get tick w = pollReady get tick (snd (tick w))"
    by (subst pollReady.simps) (auto split: prod.split)
  also have "\<dots> = Some (None, ((snd \<circ> tick) ^^ n) (snd (tick w)))"
  proof (rule Suc.IH)
    show "serviceNamespaceReady (get (((snd \<circ> tick) ^^ i) (snd (tick w)))) = Inr False \<and>
        fst (tick (((snd \<circ> tick) ^^ i) (snd (tick w)))) = None" if "i < n" for i
      using Suc.prems(1) [of "Suc i"] that unfolding step by simp
    show "serviceNamespaceReady (get (((snd \<circ> tick) ^^ n) (snd (tick w)))) = Inr True"
      using Suc.prems(2) unfolding step .
  qed
  finally show ?case unfolding step .
qed

section \<open>Properties\<close>

text \<open>
  C16: claimed objects flow in one direction, from the side that owns them: data of a
  provider-owned object is never written to the provider and data of a consumer-owned object never
  to the consumer (the only write there sets the owner label), a copy carries the data of its owner
  and goes to the corresponding namespace, a new copy carries the owner label, and a copy is
  deleted only when the owner's object is gone (or, for a provider-owned one, being deleted).
\<close>

theorem claimed_direction:
  assumes "consumerNamespaceOf r w pns cns"
    and "found (rd_getProviderObject r w pns name) = Inr p" "found (rd_getConsumerObject r w cns name) = Inr c"
  shows "list_all (claim_call_ok pns cns name p c) (claimed_calls r w pns name)"
proof -
  have "consumerNamespaceOf (claim_logged r) (w, []) pns cns"
    using assms(1) by (simp add: consumerNamespaceOf_def)
  from claimed_reconcile_reads [OF this, of name p c] assms(2,3) syncOwned_calls [of pns cns name p c r w]
  show ?thesis by (simp add: claimed_calls_def)
qed

definition exampleReader :: "Unstructured option \<Rightarrow> Unstructured option \<Rightarrow> nat readReconciler" where
  "exampleReader p c =
     (let read = (\<lambda>ob. case ob of Some u \<Rightarrow> Inr u | None \<Rightarrow> Inl (StatusError ReasonNotFound ''not found''))
      in \<lparr>rd_getServiceNamespace = (\<lambda>w ns. Inr \<lparr>sn_meta = emptyMeta\<lparr>m_Name := ''team''\<rparr>, sn_Status = \<lparr>snt_Namespace = ns\<rparr>\<rparr>),
       rd_getProviderObject = (\<lambda>w ns n. read p), rd_createProviderObject = (\<lambda>w u. (None, w)),
       rd_updateProviderObject = (\<lambda>w u. (None, w)), rd_deleteProviderObject = (\<lambda>w ns n. (None, w)),
       rd_getConsumerObject = (\<lambda>w ns n. read c), rd_updateConsumerObject = (\<lambda>w u. (Inr u, w)),
       rd_createConsumerObject = (\<lambda>w u. (Inr u, w)), rd_deleteConsumerObject = (\<lambda>w ns n. (None, w))\<rparr>)"

theorem claimed_direction_witness:
  "list_all (claim_call_ok ''p-team'' ''team'' ''s'' None (Some (namedObject ''team'' ''s'')))
     (claimed_calls (exampleReader None (Some (namedObject ''team'' ''s''))) 0 ''p-team'' ''s'') \<and>
   claimed_calls (exampleReader None (Some (namedObject ''team'' ''s''))) 0 ''p-team'' ''s'' \<noteq> []"
proof
  let ?r = "exampleReader None (Some (namedObject ''team'' ''s''))"
  have ns: "consumerNamespaceOf ?r 0 ''p-team'' ''team''"
    by (simp add: consumerNamespaceOf_def exampleReader_def)
  have reads: "found (rd_getProviderObject ?r 0 ''p-team'' ''s'') = Inr None"
    "found (rd_getConsumerObject ?r 0 ''team'' ''s'') = Inr (Some (namedObject ''team'' ''s''))"
    by (simp_all add: found_def exampleReader_def)
  from claimed_direction [OF ns reads]
  show "list_all (claim_call_ok ''p-team'' ''team'' ''s'' None (Some (namedObject ''team'' ''s'')))
     (claimed_calls ?r 0 ''p-team'' ''s'')" .
  have owner: "determineOwner None (Some (namedObject ''team'' ''s'')) = Inr OwnerConsumer"
    by (simp add: determineOwner_def ownerLabelOf_def namedObject_def GetLabels_def emptyMeta_def)
  have "syncOwned (claim_logged ?r) (0, []) ''p-team'' ''team'' ''s'' None (Some (namedObject ''team'' ''s'')) =
      syncConsumerOwned (claim_logged ?r) (0, []) ''p-team'' ''s'' None (Some (namedObject ''team'' ''s''))"
    by (simp add: syncOwned_def owner)
  moreover have "consumerNamespaceOf (claim_logged ?r) (0, []) ''p-team'' ''team''"
    using ns by (simp add: consumerNamespaceOf_def)
  ultimately show "claimed_calls ?r 0 ''p-team'' ''s'' \<noteq> []"
    using claimed_reconcile_reads [of "claim_logged ?r" "(0, [])" "''p-team''" "''team''" "''s''"] reads
      syncConsumerOwned_logged [of ?r 0 "[]" "''p-team''" "''s''" None "Some (namedObject ''team'' ''s'')"]
    by (simp add: claimed_calls_def exampleReader_def)
qed




definition exampleNamespaces :: "(nat, string) claimns_controller" where
  "exampleNamespaces =
     \<lparr>cn_queue = \<lparr>q_Add = (\<lambda>k w. w), q_AddAfter = (\<lambda>k d w. w), q_AddRateLimited = (\<lambda>k w. w),
        q_Forget = (\<lambda>k w. w), q_Done = (\<lambda>k w. w), q_Get = (\<lambda>w. (([], True), w))\<rparr>,
      cn_claims =
       \<lparr>cc_queue = \<lparr>q_Add = (\<lambda>k w. w), q_AddAfter = (\<lambda>k d w. w), q_AddRateLimited = (\<lambda>k w. w),
          q_Forget = (\<lambda>k w. w), q_Done = (\<lambda>k w. w), q_Get = (\<lambda>w. (([], True), w))\<rparr>,
        cc_keys = \<lparr>kf_DeletionHandlingMetaNamespaceKeyFunc = Inr, kf_MetaNamespaceKeyFunc = Inr,
          kf_SplitMetaNamespaceKey = (\<lambda>k. Inr ([], k))\<rparr>,
        cc_asUnstructured = (\<lambda>e. None), cc_objectKey = (\<lambda>u. Inr (GetName u)), cc_claim = referenceClaim,
        cc_apiServiceExport = exportWithIsolation IsolationPrefixed, cc_lib = exampleLib,
        cc_consumerList = (\<lambda>w g. Inr []), cc_snList = (\<lambda>w n. Inr []),
        cc_snGet = (\<lambda>w pns n. if w = 0 then Inl (StatusError ReasonNotFound ''not found'')
          else Inr \<lparr>sn_meta = emptyMeta\<lparr>m_Name := n\<rparr>, sn_Status = \<lparr>snt_Namespace = if w = 1 then [] else n\<rparr>\<rparr>),
        cc_snByNamespace = (\<lambda>w n. Inr []), cc_providerList = (\<lambda>w n. Inr []),
        cc_consumerGetByKey = (\<lambda>w k. Inr None), cc_consumerLister = (\<lambda>w m. Inr []),
        cc_providerNamespace = ''cluster-a'', cc_readReconciler = exampleReader None None\<rparr>,
      cn_createServiceNamespace = (\<lambda>w sn. (Inr sn, w + 1)), cn_tick = (\<lambda>w. (None, w + 1)),
      cn_notify = (\<lambda>k w. w)\<rparr>"


end
