(* ===== verification/Backend.thy ===== *)
theory Backend
  imports Crds Committer Controllers
begin

text \<open>
  What the controllers of the backend (\<open>src/backend/controllers\<close>) share: the requests and
  results of controller-runtime, and the client of one cluster for one kind of object. Each
  controller fetches the object of its request, reconciles it and writes it back when it changed.
  The manager, the client and the cache are parameters of the model.
\<close>

record mcRequest =
  mc_ClusterName :: string
  mc_NamespacedName :: NamespacedName

text \<open>\<open>ctrl.Result\<close>.\<close>

record ctrlResult =
  ctrl_Requeue :: bool
  ctrl_RequeueAfter :: duration

definition noRequeue :: ctrlResult where
  "noRequeue = \<lparr>ctrl_Requeue = False, ctrl_RequeueAfter = 0\<rparr>"

record ('o, 'w) backend_client =
  be_GetCluster :: "'w \<Rightarrow> string \<Rightarrow> error option"
  be_Get :: "'w \<Rightarrow> string \<Rightarrow> NamespacedName \<Rightarrow> 'o result"
  be_Update :: "'w \<Rightarrow> string \<Rightarrow> 'o \<Rightarrow> error option \<times> 'w"
  be_StatusUpdate :: "'w \<Rightarrow> string \<Rightarrow> 'o \<Rightarrow> error option \<times> 'w"

text \<open>The beginning of every \<open>Reconcile\<close>: the cluster, then the object, which may be gone.\<close>

definition withObject ::
  "('o, 'w) backend_client \<Rightarrow> string \<Rightarrow> mcRequest \<Rightarrow> 'w \<Rightarrow> (ctrlResult result \<times> 'w) \<Rightarrow>
     ('o \<Rightarrow> ctrlResult result \<times> 'w) \<Rightarrow> ctrlResult result \<times> 'w" where
  "withObject be kind req w missing reconcile =
     (case be_GetCluster be w (mc_ClusterName req) of
        Some err \<Rightarrow>
          (Inl (wrapError (''failed to get client for cluster '' @ quote (mc_ClusterName req)) err), w)
      | None \<Rightarrow>
          (case be_Get be w (mc_ClusterName req) (mc_NamespacedName req) of
             Inl err \<Rightarrow> if IsNotFound err then missing else (Inl (wrapError (''failed to get '' @ kind) err), w)
           | Inr ob \<Rightarrow> reconcile ob))"

text \<open>Writing back: an error of the write is wrapped, and the result is returned otherwise.\<close>

definition writeBack :: "string \<Rightarrow> ctrlResult \<Rightarrow> error option \<times> 'w \<Rightarrow> ctrlResult result \<times> 'w" where
  "writeBack what res ew =
     (case ew of (Some err, w) \<Rightarrow> (Inl (wrapError (''failed to update '' @ what) err), w)
      | (None, w) \<Rightarrow> (Inr res, w))"

text \<open>The requests a watch maps objects to.\<close>

definition requestFor :: "string \<Rightarrow> ObjectMeta \<Rightarrow> mcRequest" where
  "requestFor clusterName meta =
     \<lparr>mc_ClusterName = clusterName,
      mc_NamespacedName = \<lparr>nn_Namespace = m_Namespace meta, nn_Name = m_Name meta\<rparr>\<rparr>"

definition requestsFor :: "string \<Rightarrow> ('o \<Rightarrow> ObjectMeta) \<Rightarrow> 'o list result \<Rightarrow> mcRequest list" where
  "requestsFor clusterName meta listed =
     (case listed of Inl err \<Rightarrow> [] | Inr items \<Rightarrow> map (requestFor clusterName \<circ> meta) items)"

end
