(* ===== verification/Service_Binding.thy ===== *)
theory Service_Binding
  imports Crds Committer Controllers
begin

text \<open>
  The controllers of service bindings on the consumer cluster: the one per provider cluster
  (\<open>src/pkg/konnector/controllers/cluster/servicebinding\<close>), which installs the custom resource
  definitions of the bound schemas, and the one that validates the kubeconfig secret
  (\<open>src/pkg/konnector/controllers/servicebinding\<close>). The clients and the parser of kubeconfig
  files are parameters. The lemmas show which definitions the controller writes, when a binding
  becomes connected, and what a valid secret is; the commit of a binding never panics.
\<close>

section \<open>The binding controller of a provider cluster\<close>

text \<open>
  \<open>getBoundSchema\<close> is a call of the generated client, which returns an object also beside an
  error; \<open>referenceBoundSchema\<close> reads it when the error is \<open>NotFound\<close>.
  \<open>getServiceBinding\<close> and \<open>updateServiceExportStatus\<close> are fields that nothing reads.
\<close>

record 'w binding_reconciler =
  br_consumerSecretRefKey :: string
  br_providerNamespace :: string
  br_reconcileServiceBinding :: "APIServiceBinding \<Rightarrow> bool"
  br_getServiceExport :: "'w \<Rightarrow> string \<Rightarrow> APIServiceExport result"
  br_getServiceExportRequest :: "'w \<Rightarrow> string \<Rightarrow> APIServiceExportRequest result"
  br_getServiceBinding :: "'w \<Rightarrow> string \<Rightarrow> APIServiceBinding result"
  br_getClusterBinding :: "'w \<Rightarrow> ClusterBinding result"
  br_getBoundSchema :: "'w \<Rightarrow> string \<Rightarrow> (error \<times> BoundSchema option) + BoundSchema"
  br_updateServiceExportStatus :: "'w \<Rightarrow> APIServiceExport \<Rightarrow> APIServiceExport result \<times> 'w"
  br_getCRD :: "'w \<Rightarrow> string \<Rightarrow> CustomResourceDefinition result"
  br_updateCRD :: "'w \<Rightarrow> CustomResourceDefinition \<Rightarrow> CustomResourceDefinition result \<times> 'w"
  br_createCRD :: "'w \<Rightarrow> CustomResourceDefinition \<Rightarrow> CustomResourceDefinition result \<times> 'w"
  br_codec :: codec

abbreviation markBindingFalse ::
  "time \<Rightarrow> APIServiceBinding \<Rightarrow> ConditionType \<Rightarrow> string \<Rightarrow> string \<Rightarrow> fmtarg list \<Rightarrow> APIServiceBinding" where
  "markBindingFalse now b t reason fmt args \<equiv>
     MarkFalse APIServiceBinding_Setter now b t reason ConditionSeverityError fmt args"

abbreviation markBindingTrue :: "time \<Rightarrow> APIServiceBinding \<Rightarrow> ConditionType \<Rightarrow> APIServiceBinding" where
  "markBindingTrue \<equiv> MarkTrue APIServiceBinding_Setter"

abbreviation bindingName :: "APIServiceBinding \<Rightarrow> string" where
  "bindingName b \<equiv> m_Name (bd_meta b)"

text \<open>The terminal message of a failed request is used as the format string.\<close>

definition ensureValidServiceExport ::
  "'w binding_reconciler \<Rightarrow> 'w \<Rightarrow> time \<Rightarrow> APIServiceBinding \<Rightarrow> error option \<times> APIServiceBinding" where
  "ensureValidServiceExport r w now binding =
     (case br_getServiceExport r w (bindingName binding) of
        Inl err \<Rightarrow>
          if \<not> IsNotFound err then (Some err, binding)
          else
            let notFound = (None, markBindingFalse now binding APIServiceBindingConditionConnected
                  ''APIServiceExportNotFound''
                  ''APIServiceExport %s not found on the service provider cluster. Rerun kubectl bind for repair.''
                  [FStr (bindingName binding)])
            in (case br_getServiceExportRequest r w (bindingName binding) of
                  Inl errRequest \<Rightarrow> notFound
                | Inr request \<Rightarrow>
                    if rqt_Phase (rq_Status request) = APIServiceExportRequestPhaseFailed
                    then (Some (PlainError (Sprintf ''APIServiceExportRequest %s is in failed state: %s''
                            [FStr (bindingName binding), FStr (rqt_TerminalMessage (rq_Status request))])),
                          markBindingFalse now binding APIServiceBindingConditionConnected
                            ''APIServiceExportFailed'' (rqt_TerminalMessage (rq_Status request))
                            [FStr (bindingName binding)])
                    else notFound)
      | Inr export \<Rightarrow> (None, markBindingTrue now binding APIServiceBindingConditionConnected))"

fun getSchemasFromExport ::
  "'w binding_reconciler \<Rightarrow> 'w \<Rightarrow> APIServiceExportResource list \<Rightarrow> BoundSchema list result" where
  "getSchemasFromExport r w [] = Inr []"
| "getSchemasFromExport r w (ref # refs) =
     (case br_getBoundSchema r w (ResourceGroupName ref) of
        Inl (err, _) \<Rightarrow> Inl (wrapError (''failed to get Schema '' @ ResourceGroupName ref) err)
      | Inr schema \<Rightarrow>
          (case getSchemasFromExport r w refs of
             Inl err \<Rightarrow> Inl err | Inr schemas \<Rightarrow> Inr (schema # schemas)))"

definition addBoundSchema :: "BoundSchema \<Rightarrow> APIServiceBinding \<Rightarrow> APIServiceBinding" where
  "addBoundSchema boundSchema binding =
     (let spec = bss_APICRDSpec (bs_Spec boundSchema);
          ref = \<lparr>gr_Group = cs_Group spec, gr_Resource = crn_Plural (cs_Names spec)\<rparr>;
          status = bd_Status binding
      in if ref \<in> set (bdt_BoundSchemas status) then binding
         else binding\<lparr>bd_Status := status\<lparr>bdt_BoundSchemas := bdt_BoundSchemas status @ [ref]\<rparr>\<rparr>)"

definition referenceBoundSchema ::
  "'w binding_reconciler \<Rightarrow> 'w \<Rightarrow> APIServiceBinding \<Rightarrow> string \<Rightarrow> error option \<times> APIServiceBinding" where
  "referenceBoundSchema r w binding name =
     (case br_getBoundSchema r w name of
        Inl (err, boundSchema) \<Rightarrow>
          if \<not> IsNotFound err then (Some (wrapError (''failed to get BoundSchema '' @ name) err), binding)
          else (None, (case boundSchema of None \<Rightarrow> binding | Some b \<Rightarrow> addBoundSchema b binding))
      | Inr boundSchema \<Rightarrow> (None, addBoundSchema boundSchema binding))"

definition referencePermissionClaims :: "APIServiceBinding \<Rightarrow> APIServiceExport \<Rightarrow> APIServiceBinding" where
  "referencePermissionClaims binding export =
     binding\<lparr>bd_Status := (bd_Status binding)\<lparr>bdt_PermissionClaims := exs_PermissionClaims (ex_Spec export)\<rparr>\<rparr>"

definition ownedCRD :: "codec \<Rightarrow> APIServiceBinding \<Rightarrow> BoundSchema \<Rightarrow> CustomResourceDefinition" where
  "ownedCRD co binding schema =
     (let crd = BoundSchemaToCRD co schema;
          newReference = NewControllerRef (bd_meta binding) ''APIServiceBinding''
      in crd\<lparr>crd_meta := (crd_meta crd)\<lparr>m_OwnerReferences := m_OwnerReferences (crd_meta crd) @ [newReference]\<rparr>\<rparr>)"

text \<open>An error of the update other than \<open>Invalid\<close> is dropped.\<close>

definition ensureCRDsFromBoundSchema ::
  "'w binding_reconciler \<Rightarrow> 'w \<Rightarrow> time \<Rightarrow> APIServiceBinding \<Rightarrow> BoundSchema \<Rightarrow>
     error option \<times> APIServiceBinding \<times> 'w" where
  "ensureCRDsFromBoundSchema r w now binding schema =
     (let crd = ownedCRD (br_codec r) binding schema; crdName = m_Name (crd_meta crd)
      in case br_getCRD r w crdName of
           Inl err \<Rightarrow>
             if \<not> IsNotFound err then (Some err, binding, w)
             else (case br_createCRD r w crd of
                 (Inl err, w1) \<Rightarrow>
                   if \<not> IsInvalid err then (Some err, binding, w1)
                   else (None, markBindingFalse now binding APIServiceBindingConditionConnected
                           ''CustomResourceDefinitionCreateFailed''
                           ''CustomResourceDefinition %s cannot be created: %s''
                           [FStr crdName, FStr (ErrorString err)], w1)
               | (Inr _, w1) \<Rightarrow> (None, binding, w1))
         | Inr existing \<Rightarrow>
             if \<not> IsOwnedByBinding (bindingName binding) (m_UID (bd_meta binding))
                    (m_OwnerReferences (crd_meta existing))
             then (None, markBindingFalse now binding APIServiceBindingConditionConnected
                     ''ForeignCustomResourceDefinition''
                     ''CustomResourceDefinition %s is not owned by kube-bind.io.'' [FStr crdName], w)
             else (case br_updateCRD r w (crd\<lparr>crd_meta := crd_meta existing\<rparr>) of
                 (Inl err, w1) \<Rightarrow>
                   if \<not> IsInvalid err then (None, binding, w1)
                   else (None, markBindingFalse now binding APIServiceBindingConditionConnected
                           ''CustomResourceDefinitionUpdateFailed''
                           ''CustomResourceDefinition %s cannot be updated: %s''
                           [FStr (bindingName binding), FStr (ErrorString err)], w1)
               | (Inr _, w1) \<Rightarrow> (None, binding, w1)))"

fun ensureSchemaCRDs ::
  "'w binding_reconciler \<Rightarrow> time \<Rightarrow> APIServiceExport \<Rightarrow> BoundSchema list \<Rightarrow>
     error list \<Rightarrow> APIServiceBinding \<Rightarrow> 'w \<Rightarrow> error list \<times> APIServiceBinding \<times> 'w" where
  "ensureSchemaCRDs r now export [] errs binding w = (errs, binding, w)"
| "ensureSchemaCRDs r now export (schema # schemas) errs binding w =
     (case referenceBoundSchema r w binding (m_Name (bs_meta schema)) of
        (err1, binding1) \<Rightarrow>
          (case ensureCRDsFromBoundSchema r w now (referencePermissionClaims binding1 export) schema of
             (err2, binding2, w1) \<Rightarrow>
               ensureSchemaCRDs r now export schemas (appendErr (appendErr errs err1) err2) binding2 w1))"

definition ensureCRDs ::
  "'w binding_reconciler \<Rightarrow> 'w \<Rightarrow> time \<Rightarrow> APIServiceBinding \<Rightarrow> error option \<times> APIServiceBinding \<times> 'w" where
  "ensureCRDs r w now binding =
     (case br_getServiceExport r w (bindingName binding) of
        Inl err \<Rightarrow>
          if \<not> IsNotFound err then (Some err, binding, w)
          else (None, markBindingFalse now binding APIServiceBindingConditionConnected
                  ''APIServiceExportNotFound''
                  ''APIServiceExport %s not found on the service provider cluster.''
                  [FStr (bindingName binding)], w)
      | Inr export \<Rightarrow>
          (case getSchemasFromExport r w (exs_Resources (ex_Spec export)) of
             Inl err \<Rightarrow>
               (Some err, markBindingFalse now binding APIServiceBindingConditionConnected
                  ''BoundSchemaFetchFailed'' ''Failed to fetch BoundSchema objects: %s''
                  [FStr (ErrorString err)], w)
           | Inr schemas \<Rightarrow>
               (case ensureSchemaCRDs r now export schemas [] binding w of
                  (errs, binding1, w1) \<Rightarrow>
                    (NewAggregate errs,
                     (if errs = [] \<and> \<not> IsFalse (s_getter APIServiceBinding_Setter binding1)
                           APIServiceBindingConditionConnected
                      then markBindingTrue now
                             (markBindingTrue now binding1 APIServiceBindingConditionConnected)
                             APIServiceBindingConditionSchemaInSync
                      else binding1), w1))))"

definition ensurePrettyName ::
  "'w binding_reconciler \<Rightarrow> 'w \<Rightarrow> APIServiceBinding \<Rightarrow> error option \<times> APIServiceBinding" where
  "ensurePrettyName r w binding =
     (let setName = (\<lambda>n. binding\<lparr>bd_Status := (bd_Status binding)\<lparr>bdt_ProviderPrettyName := n\<rparr>\<rparr>)
      in case br_getClusterBinding r w of
           Inl err \<Rightarrow> if \<not> IsNotFound err then (Some err, binding) else (None, setName [])
         | Inr clusterBinding \<Rightarrow> (None, setName (cbs_ProviderPrettyName (cb_Spec clusterBinding))))"

definition binding_reconcile ::
  "'w binding_reconciler \<Rightarrow> 'w \<Rightarrow> time \<Rightarrow> APIServiceBinding \<Rightarrow> error option \<times> APIServiceBinding \<times> 'w" where
  "binding_reconcile r w now binding =
     (if \<not> br_reconcileServiceBinding r binding then (None, binding, w)
      else
        case ensureValidServiceExport r w now binding of
          (err1, b1) \<Rightarrow>
            (case ensureCRDs r w now b1 of
               (err2, b2, w2) \<Rightarrow>
                 (case ensurePrettyName r w2 b2 of
                    (err3, b3) \<Rightarrow>
                      (NewAggregate (appendErr (appendErr (appendErr [] err1) err2) err3),
                       SetSummary APIServiceBinding_Setter now b3 [], w2))))"

text \<open>The controller around it.\<close>

record ('w, 'e) binding_controller =
  bc_queue :: "'w Queue"
  bc_keys :: "'e KeyFuncs"
  bc_bindingKey :: "APIServiceBinding \<Rightarrow> string result"
  bc_bindingGet :: "'w \<Rightarrow> string \<Rightarrow> APIServiceBinding result"
  bc_bindingsBySecret :: "'w \<Rightarrow> string \<Rightarrow> APIServiceBinding list result"
  bc_exportsByCRD :: "'w \<Rightarrow> string \<Rightarrow> APIServiceExport list result"
  bc_now :: "'w \<Rightarrow> time"
  bc_patcher :: "(APIServiceBindingSpec, APIServiceBindingStatus, 'w) Patcher"

definition binding_enqueueServiceBinding :: "('w, 'e) binding_controller \<Rightarrow> 'w \<Rightarrow> 'e \<Rightarrow> 'w" where
  "binding_enqueueServiceBinding c w ob =
     (case kf_DeletionHandlingMetaNamespaceKeyFunc (bc_keys c) ob of
        Inl err \<Rightarrow> w | Inr key \<Rightarrow> q_Add (bc_queue c) key w)"

fun enqueueBindings :: "('w, 'e) binding_controller \<Rightarrow> APIServiceBinding list \<Rightarrow> 'w \<Rightarrow> 'w" where
  "enqueueBindings c [] w = w"
| "enqueueBindings c (b # bs) w =
     (case bc_bindingKey c b of
        Inl err \<Rightarrow> w | Inr key \<Rightarrow> enqueueBindings c bs (q_Add (bc_queue c) key w))"

definition binding_enqueueServiceExport ::
  "('w, 'e) binding_controller \<Rightarrow> 'w binding_reconciler \<Rightarrow> 'w \<Rightarrow> 'e \<Rightarrow> 'w" where
  "binding_enqueueServiceExport c r w ob =
     (case bc_bindingsBySecret c w (br_consumerSecretRefKey r) of
        Inl err \<Rightarrow> w | Inr bindings \<Rightarrow> enqueueBindings c bindings w)"

definition binding_enqueueCRD :: "('w, 'e) binding_controller \<Rightarrow> 'w \<Rightarrow> 'e \<Rightarrow> 'w" where
  "binding_enqueueCRD c w ob =
     (case kf_DeletionHandlingMetaNamespaceKeyFunc (bc_keys c) ob of
        Inl err \<Rightarrow> w
      | Inr name \<Rightarrow>
          (case bc_exportsByCRD c w name of
             Inl err \<Rightarrow> w
           | Inr exports \<Rightarrow> enqueueAll (bc_queue c) (\<lambda>export. Inr (m_Name (ex_meta export))) exports w))"

definition bindingResource ::
  "APIServiceBinding \<Rightarrow> (APIServiceBindingSpec, APIServiceBindingStatus) Resource" where
  "bindingResource b = \<lparr>r_meta = bd_meta b, r_Spec = bd_Spec b, r_Status = bd_Status b\<rparr>"

definition processBinding ::
  "('w, 'e) binding_controller \<Rightarrow> ('w \<Rightarrow> time \<Rightarrow> APIServiceBinding \<Rightarrow> error option \<times> APIServiceBinding \<times> 'w) \<Rightarrow>
     'w \<Rightarrow> string \<Rightarrow> (error option \<times> 'w) outcome" where
  "processBinding c reconcile w key =
     (case kf_SplitMetaNamespaceKey (bc_keys c) key of
        Inl err \<Rightarrow> Returns (None, w)
      | Inr (_, name) \<Rightarrow>
          (case bc_bindingGet c w name of
             Inl err \<Rightarrow> if \<not> IsNotFound err then Returns (Some err, w) else Returns (None, w)
           | Inr old \<Rightarrow>
               (case reconcile w (bc_now c w) old of
                  (e, ob, w1) \<Rightarrow> commitAfter (bc_patcher c) e w1 (bindingResource old) (bindingResource ob))))"

definition binding_process ::
  "('w, 'e) binding_controller \<Rightarrow> 'w binding_reconciler \<Rightarrow> 'w \<Rightarrow> string \<Rightarrow> (error option \<times> 'w) outcome" where
  "binding_process c r = processBinding c (binding_reconcile r)"

section \<open>The kubeconfig controller\<close>

text \<open>\<open>clientcmd.Load\<close> and \<open>clientcmd.RESTConfigFromKubeConfig\<close> are parameters.\<close>

record kubecontext =
  kx_Namespace :: string

record kubeconfig =
  kc_Contexts :: "(string, kubecontext) mapping"
  kc_CurrentContext :: string

record 'w secret_reconciler =
  sr_getConsumerSecret :: "'w \<Rightarrow> string \<Rightarrow> string \<Rightarrow> Secret result"
  sr_Load :: "string \<Rightarrow> kubeconfig result"
  sr_RESTConfigFromKubeConfig :: "string \<Rightarrow> error option"

definition ensureValidKubeconfigSecret ::
  "'w secret_reconciler \<Rightarrow> 'w \<Rightarrow> time \<Rightarrow> APIServiceBinding \<Rightarrow> error option \<times> APIServiceBinding" where
  "ensureValidKubeconfigSecret r w now binding =
     (let ref = bds_KubeconfigSecretRef (bd_Spec binding);
          name = [FStr (ck_Namespace ref), FStr (ck_Name ref)];
          bad = (\<lambda>reason fmt args. (None, markBindingFalse now binding
                   APIServiceBindingConditionSecretValid reason fmt (name @ args)))
      in case sr_getConsumerSecret r w (ck_Namespace ref) (ck_Name ref) of
           Inl err \<Rightarrow>
             if \<not> IsNotFound err then (Some err, binding)
             else bad ''KubeconfigSecretNotFound''
                    ''Kubeconfig secret %s/%s not found. Rerun kubectl bind for repair.'' []
         | Inr secret \<Rightarrow>
             (case Mapping.lookup (sec_Data secret) (ck_Key ref) of
                None \<Rightarrow> bad ''KubeconfigSecretInvalid''
                          ''Kubeconfig secret %s/%s is missing %q string key.'' [FStr (ck_Key ref)]
              | Some data \<Rightarrow>
                  (case sr_Load r data of
                     Inl err \<Rightarrow> bad ''KubeconfigSecretInvalid''
                                  ''Kubeconfig secret %s/%s has an invalid kubeconfig: %v''
                                  [FStr (ErrorString err)]
                   | Inr cfg \<Rightarrow>
                       (case Mapping.lookup (kc_Contexts cfg) (kc_CurrentContext cfg) of
                          None \<Rightarrow> bad ''KubeconfigSecretInvalid''
                            ''Kubeconfig secret %s/%s has an invalid kubeconfig: current context %q not found''
                            [FStr (kc_CurrentContext cfg)]
                        | Some kubeContext \<Rightarrow>
                            if kx_Namespace kubeContext = [] then bad ''KubeconfigSecretInvalid''
                              ''Kubeconfig secret %s/%s has an invalid kubeconfig: current context %q has no namespace set''
                              [FStr (kc_CurrentContext cfg)]
                            else (case sr_RESTConfigFromKubeConfig r data of
                                Some err \<Rightarrow> bad ''KubeconfigSecretInvalid''
                                  ''Kubeconfig secret %s/%s has an invalid kubeconfig: %v''
                                  [FStr (ErrorString err)]
                              | None \<Rightarrow> (None, markBindingTrue now binding
                                           APIServiceBindingConditionSecretValid))))))"

definition secret_reconcile ::
  "'w secret_reconciler \<Rightarrow> 'w \<Rightarrow> time \<Rightarrow> APIServiceBinding \<Rightarrow> error option \<times> APIServiceBinding \<times> 'w" where
  "secret_reconcile r w now binding =
     (case ensureValidKubeconfigSecret r w now binding of
        (err, b) \<Rightarrow> (NewAggregate (appendErr [] err), SetSummary APIServiceBinding_Setter now b [], w))"

definition enqueueConsumerSecret :: "('w, 'e) binding_controller \<Rightarrow> 'w \<Rightarrow> 'e \<Rightarrow> 'w" where
  "enqueueConsumerSecret c w ob =
     (case kf_DeletionHandlingMetaNamespaceKeyFunc (bc_keys c) ob of
        Inl err \<Rightarrow> w
      | Inr secretKey \<Rightarrow>
          (case bc_bindingsBySecret c w secretKey of
             Inl err \<Rightarrow> w | Inr bindings \<Rightarrow> enqueueBindings c bindings w))"

definition secret_process ::
  "('w, 'e) binding_controller \<Rightarrow> 'w secret_reconciler \<Rightarrow> 'w \<Rightarrow> string \<Rightarrow> (error option \<times> 'w) outcome" where
  "secret_process c r = processBinding c (secret_reconcile r)"

section \<open>Lemmas\<close>

lemmas condition_defs = MarkTrue_def MarkFalse_def SetSummary_def

lemma bd_Mark_frame:
  "bd_meta (markBindingTrue now b t) = bd_meta b"
  "bd_meta (markBindingFalse now b t reason fm as) = bd_meta b"
  by (simp_all add: condition_defs)

text \<open>A reconciliation changes the status only.\<close>

abbreviation sameBinding :: "APIServiceBinding \<Rightarrow> APIServiceBinding \<Rightarrow> bool" where
  "sameBinding b b' \<equiv> bd_meta b' = bd_meta b \<and> bd_Spec b' = bd_Spec b"

lemma addBoundSchema_frame: "sameBinding b (addBoundSchema s b)"
  by (simp add: addBoundSchema_def Let_def)

lemma addBoundSchema_conditions [simp]:
  "s_getter APIServiceBinding_Setter (addBoundSchema s b) = s_getter APIServiceBinding_Setter b"
  by (simp add: addBoundSchema_def APIServiceBinding_Setter_def Let_def)

lemma addBoundSchema_set: "\<lparr>gr_Group = cs_Group (bss_APICRDSpec (bs_Spec s)),
    gr_Resource = crn_Plural (cs_Names (bss_APICRDSpec (bs_Spec s)))\<rparr> \<in>
      set (bdt_BoundSchemas (bd_Status (addBoundSchema s b)))"
  by (simp add: addBoundSchema_def Let_def)

lemma referencePermissionClaims_simps [simp]:
  "bd_meta (referencePermissionClaims b ex) = bd_meta b"
  "bd_Spec (referencePermissionClaims b ex) = bd_Spec b"
  "bdt_PermissionClaims (bd_Status (referencePermissionClaims b ex)) = exs_PermissionClaims (ex_Spec ex)"
  "bdt_BoundSchemas (bd_Status (referencePermissionClaims b ex)) = bdt_BoundSchemas (bd_Status b)"
  "s_getter APIServiceBinding_Setter (referencePermissionClaims b ex) = s_getter APIServiceBinding_Setter b"
  by (simp_all add: referencePermissionClaims_def APIServiceBinding_Setter_def)

lemma referenceBoundSchema_frame:
  "referenceBoundSchema r w b n = (e, b') \<Longrightarrow>
     sameBinding b b' \<and> s_getter APIServiceBinding_Setter b' = s_getter APIServiceBinding_Setter b"
  by (auto simp: referenceBoundSchema_def addBoundSchema_frame split: sum.splits if_splits option.splits)

lemma ensureCRDsFromBoundSchema_frame:
  "ensureCRDsFromBoundSchema r w now b s = (e, b', w') \<Longrightarrow> sameBinding b b'"
  by (auto simp: ensureCRDsFromBoundSchema_def Let_def condition_defs
      split: sum.splits if_splits prod.splits)

lemma ensureSchemaCRDs_frame:
  "ensureSchemaCRDs r now ex ss errs b w = (errs', b', w') \<Longrightarrow> sameBinding b b'"
proof (induction ss arbitrary: errs b w)
  case (Cons s ss)
  from Cons.prems obtain e1 b1 e2 b2 w1 where
    1: "referenceBoundSchema r w b (m_Name (bs_meta s)) = (e1, b1)" and
    2: "ensureCRDsFromBoundSchema r w now (referencePermissionClaims b1 ex) s = (e2, b2, w1)" and
    3: "ensureSchemaCRDs r now ex ss (appendErr (appendErr errs e1) e2) b2 w1 = (errs', b', w')"
    by (auto split: prod.splits)
  from Cons.IH [OF 3] ensureCRDsFromBoundSchema_frame [OF 2] referenceBoundSchema_frame [OF 1]
  show ?case by simp
qed simp

lemma ensureValidServiceExport_frame:
  "ensureValidServiceExport r w now b = (e, b') \<Longrightarrow> sameBinding b b'"
  by (auto simp: ensureValidServiceExport_def Let_def condition_defs split: sum.splits if_splits)

lemma ensureCRDs_frame: "ensureCRDs r w now b = (e, b', w') \<Longrightarrow> sameBinding b b'"
  by (auto simp: ensureCRDs_def condition_defs dest: ensureSchemaCRDs_frame
      split: sum.splits if_splits prod.splits)

lemma setter_prettyName [simp]:
  "s_getter APIServiceBinding_Setter (b\<lparr>bd_Status := (bd_Status b)\<lparr>bdt_ProviderPrettyName := n\<rparr>\<rparr>) =
     s_getter APIServiceBinding_Setter b"
  by (simp add: APIServiceBinding_Setter_def)

lemma ensurePrettyName_frame:
  "ensurePrettyName r w b = (e, b') \<Longrightarrow>
     sameBinding b b' \<and> s_getter APIServiceBinding_Setter b' = s_getter APIServiceBinding_Setter b \<and>
     bdt_PermissionClaims (bd_Status b') = bdt_PermissionClaims (bd_Status b)"
  by (auto simp: ensurePrettyName_def Let_def split: sum.splits if_splits)

lemma binding_reconcile_frame: "binding_reconcile r w now b = (e, b', w') \<Longrightarrow> sameBinding b b'"
  by (auto simp: binding_reconcile_def condition_defs split: if_splits prod.splits
      dest!: ensureValidServiceExport_frame ensureCRDs_frame ensurePrettyName_frame)

lemma secret_reconcile_frame: "secret_reconcile r w now b = (e, b', w') \<Longrightarrow> sameBinding b b'"
  by (auto simp: secret_reconcile_def ensureValidKubeconfigSecret_def Let_def condition_defs
      split: if_splits prod.splits sum.splits option.splits)

lemma processBinding_no_panic:
  assumes "\<And>w now b e b' w'. reconcile w now b = (e, b', w') \<Longrightarrow> sameBinding b b'"
  shows "processBinding c reconcile w key \<noteq> Panic m"
  by (auto simp: processBinding_def bindingResource_def commitAfter_no_panic dest: assms
      split: sum.splits prod.splits if_splits)

subsection \<open>Observing the calls that write definitions\<close>

datatype 'w crd_call = CreateCRD 'w CustomResourceDefinition | UpdateCRD 'w CustomResourceDefinition

definition crd_logged :: "'w binding_reconciler \<Rightarrow> ('w \<times> 'w crd_call list) binding_reconciler" where
  "crd_logged r =
     \<lparr>br_consumerSecretRefKey = br_consumerSecretRefKey r, br_providerNamespace = br_providerNamespace r,
      br_reconcileServiceBinding = br_reconcileServiceBinding r,
      br_getServiceExport = br_getServiceExport r \<circ> fst,
      br_getServiceExportRequest = br_getServiceExportRequest r \<circ> fst,
      br_getServiceBinding = br_getServiceBinding r \<circ> fst,
      br_getClusterBinding = br_getClusterBinding r \<circ> fst,
      br_getBoundSchema = br_getBoundSchema r \<circ> fst,
      br_updateServiceExportStatus = (\<lambda>(w, l) ex.
        case br_updateServiceExportStatus r w ex of (x, w1) \<Rightarrow> (x, (w1, l))),
      br_getCRD = br_getCRD r \<circ> fst,
      br_updateCRD = (\<lambda>(w, l) crd. case br_updateCRD r w crd of (x, w1) \<Rightarrow> (x, (w1, l @ [UpdateCRD w crd]))),
      br_createCRD = (\<lambda>(w, l) crd. case br_createCRD r w crd of (x, w1) \<Rightarrow> (x, (w1, l @ [CreateCRD w crd]))),
      br_codec = br_codec r\<rparr>"

lemma crd_logged_simps [simp]:
  "br_reconcileServiceBinding (crd_logged r) = br_reconcileServiceBinding r"
  "br_getServiceExport (crd_logged r) st = br_getServiceExport r (fst st)"
  "br_getServiceExportRequest (crd_logged r) st = br_getServiceExportRequest r (fst st)"
  "br_getClusterBinding (crd_logged r) st = br_getClusterBinding r (fst st)"
  "br_getBoundSchema (crd_logged r) st = br_getBoundSchema r (fst st)"
  "br_getCRD (crd_logged r) st = br_getCRD r (fst st)"
  "br_updateCRD (crd_logged r) (w, l) crd =
     (case br_updateCRD r w crd of (x, w1) \<Rightarrow> (x, (w1, l @ [UpdateCRD w crd])))"
  "br_createCRD (crd_logged r) (w, l) crd =
     (case br_createCRD r w crd of (x, w1) \<Rightarrow> (x, (w1, l @ [CreateCRD w crd])))"
  "br_codec (crd_logged r) = br_codec r"
  by (simp_all add: crd_logged_def)

lemma getSchemasFromExport_logged [simp]:
  "getSchemasFromExport (crd_logged r) st refs = getSchemasFromExport r (fst st) refs"
  by (induction refs) (auto split: sum.split)

text \<open>
  What a write may be, for the schema it is made for: the creation of the definition of the schema,
  owned by the binding, under a name that is free; or the update of a definition that the binding
  owns, which keeps its metadata and gets the spec of the schema.
\<close>

fun crd_call_ok :: "'w binding_reconciler \<Rightarrow> ObjectMeta \<Rightarrow> BoundSchema \<Rightarrow> 'w crd_call \<Rightarrow> bool" where
  "crd_call_ok r owner schema (CreateCRD w crd) \<longleftrightarrow>
     (\<exists>err. br_getCRD r w (m_Name (crd_meta crd)) = Inl err \<and> IsNotFound err) \<and>
     crd_Spec crd = crd_Spec (BoundSchemaToCRD (br_codec r) schema) \<and>
     m_Name (crd_meta crd) = BoundSchema_ResourceGroupName schema \<and>
     IsOwnedByBinding (m_Name owner) (m_UID owner) (m_OwnerReferences (crd_meta crd))"
| "crd_call_ok r owner schema (UpdateCRD w crd) \<longleftrightarrow>
     (\<exists>existing. br_getCRD r w (BoundSchema_ResourceGroupName schema) = Inr existing \<and>
        IsOwnedByBinding (m_Name owner) (m_UID owner) (m_OwnerReferences (crd_meta existing)) \<and>
        crd_meta crd = crd_meta existing) \<and>
     crd_Spec crd = crd_Spec (BoundSchemaToCRD (br_codec r) schema)"

lemma ownedCRD_simps:
  "m_Name (crd_meta (ownedCRD co b s)) = BoundSchema_ResourceGroupName s"
  "crd_Spec (ownedCRD co b s) = crd_Spec (BoundSchemaToCRD co s)"
  "IsOwnedByBinding (bindingName b) (m_UID (bd_meta b)) (m_OwnerReferences (crd_meta (ownedCRD co b s)))"
  by (simp_all add: ownedCRD_def BoundSchemaToCRD_def Let_def BoundSchema_ResourceGroupName_eq emptyMeta_def
      NewControllerRef_def hd_SplitN_SchemeGroupVersion owned_append)

abbreviation disconnected :: "APIServiceBinding \<Rightarrow> bool" where
  "disconnected b \<equiv> IsFalse (s_getter APIServiceBinding_Setter b) APIServiceBindingConditionConnected"

lemma ensureCRDsFromBoundSchema_logged:
  assumes "ensureCRDsFromBoundSchema (crd_logged r) (w, l) now b s = (e, b', (w', l'))"
  shows "(\<exists>c. l' = l @ [c] \<and> crd_call_ok r (bd_meta b) s c) \<or> (l' = l \<and> (e \<noteq> None \<or> disconnected b'))"
    and "disconnected b \<Longrightarrow> disconnected b'"
  using assms
  by (auto simp: ensureCRDsFromBoundSchema_def Let_def ownedCRD_simps
      split: sum.splits if_splits prod.splits)

lemma ensureSchemaCRDs_logged:
  assumes "ensureSchemaCRDs (crd_logged r) now ex ss errs b (w, l) = (errs', b', (w', l'))"
  shows "\<exists>cs. l' = l @ cs \<and> list_all (\<lambda>c. \<exists>s \<in> set ss. crd_call_ok r (bd_meta b) s c) cs \<and>
      (errs' = [] \<longrightarrow> errs = []) \<and> (disconnected b \<longrightarrow> disconnected b') \<and>
      (errs' = [] \<and> \<not> disconnected b' \<longrightarrow> list_all2 (crd_call_ok r (bd_meta b)) ss cs)"
  using assms
proof (induction ss arbitrary: errs b w l)
  case (Cons s ss)
  from Cons.prems obtain e1 b1 e2 b2 w1 l1 where
    1: "referenceBoundSchema (crd_logged r) (w, l) b (m_Name (bs_meta s)) = (e1, b1)" and
    2: "ensureCRDsFromBoundSchema (crd_logged r) (w, l) now (referencePermissionClaims b1 ex) s =
          (e2, b2, (w1, l1))" and
    3: "ensureSchemaCRDs (crd_logged r) now ex ss (appendErr (appendErr errs e1) e2) b2 (w1, l1) =
          (errs', b', (w', l'))"
    by (auto split: prod.splits)
  note f1 = referenceBoundSchema_frame [OF 1]
  have meta: "bd_meta b2 = bd_meta b" using ensureCRDsFromBoundSchema_frame [OF 2] f1 by simp
  note call = ensureCRDsFromBoundSchema_logged [OF 2]
  from Cons.IH [OF 3] meta obtain cs where cs: "l' = l1 @ cs"
    "list_all (\<lambda>c. \<exists>s \<in> set ss. crd_call_ok r (bd_meta b) s c) cs"
    "errs' = [] \<longrightarrow> appendErr (appendErr errs e1) e2 = []" "disconnected b2 \<longrightarrow> disconnected b'"
    "errs' = [] \<and> \<not> disconnected b' \<longrightarrow> list_all2 (crd_call_ok r (bd_meta b)) ss cs"
    by auto
  show ?case
  proof (cases "l1 = l")
    case True
    with call(1) have "e2 \<noteq> None \<or> disconnected b2" by auto
    with cs call(2) f1 True show ?thesis by (intro exI [of _ cs]) (auto simp: list_all_iff)
  next
    case False
    with call(1) f1 obtain c where "l1 = l @ [c]" "crd_call_ok r (bd_meta b) s c" by auto
    with cs call(2) f1 show ?thesis by (intro exI [of _ "c # cs"]) (auto simp: list_all_iff)
  qed
qed simp

lemma ensureCRDs_logged:
  assumes "ensureCRDs (crd_logged r) (w, l) now b = (e, b', (w', l'))"
  shows "\<exists>cs. l' = l @ cs \<and>
      list_all (\<lambda>c. \<exists>export schemas s. br_getServiceExport r w (bindingName b) = Inr export \<and>
        getSchemasFromExport r w (exs_Resources (ex_Spec export)) = Inr schemas \<and> s \<in> set schemas \<and>
        crd_call_ok r (bd_meta b) s c) cs \<and>
      (e = None \<and> \<not> disconnected b' \<longrightarrow>
        (\<exists>export schemas. br_getServiceExport r w (bindingName b) = Inr export \<and>
           getSchemasFromExport r w (exs_Resources (ex_Spec export)) = Inr schemas \<and>
           list_all2 (crd_call_ok r (bd_meta b)) schemas cs))"
proof (cases "\<exists>export schemas. br_getServiceExport r w (bindingName b) = Inr export \<and>
        getSchemasFromExport r w (exs_Resources (ex_Spec export)) = Inr schemas")
  case False
  then have "l' = l \<and> (e \<noteq> None \<or> disconnected b')"
    using assms by (auto simp: ensureCRDs_def split: sum.splits if_splits)
  then show ?thesis by auto
next
  case True
  then obtain export schemas where x: "br_getServiceExport r w (bindingName b) = Inr export"
    "getSchemasFromExport r w (exs_Resources (ex_Spec export)) = Inr schemas" by blast
  obtain errs b1 w1 l1 where run: "ensureSchemaCRDs (crd_logged r) now export schemas [] b (w, l) =
      (errs, b1, (w1, l1))"
    by (cases "ensureSchemaCRDs (crd_logged r) now export schemas [] b (w, l)") auto
  from assms x run have res: "l' = l1" "e = NewAggregate errs" "disconnected b1 \<longrightarrow> disconnected b'"
    by (auto simp: ensureCRDs_def split: if_splits)
  from ensureSchemaCRDs_logged [OF run] obtain cs where cs: "l1 = l @ cs"
    "list_all (\<lambda>c. \<exists>s \<in> set schemas. crd_call_ok r (bd_meta b) s c) cs"
    "errs = [] \<and> \<not> disconnected b1 \<longrightarrow> list_all2 (crd_call_ok r (bd_meta b)) schemas cs" by auto
  show ?thesis
  proof (intro exI [of _ cs] conjI impI)
    show "l' = l @ cs" using res cs by simp
    show "list_all (\<lambda>c. \<exists>export schemas s. br_getServiceExport r w (bindingName b) = Inr export \<and>
        getSchemasFromExport r w (exs_Resources (ex_Spec export)) = Inr schemas \<and> s \<in> set schemas \<and>
        crd_call_ok r (bd_meta b) s c) cs"
      using cs(2) x by (auto simp: list_all_iff)
    assume "e = None \<and> \<not> disconnected b'"
    then show "\<exists>export schemas. br_getServiceExport r w (bindingName b) = Inr export \<and>
           getSchemasFromExport r w (exs_Resources (ex_Spec export)) = Inr schemas \<and>
           list_all2 (crd_call_ok r (bd_meta b)) schemas cs"
      using res cs(3) x by auto
  qed
qed

text \<open>The run of a reconciliation that is not skipped, in its steps.\<close>

lemma binding_reconcile_steps:
  assumes "binding_reconcile r w now b = (e, b', w')" "br_reconcileServiceBinding r b"
  obtains e1 b1 e2 b2 e3 b3 where
    "ensureValidServiceExport r w now b = (e1, b1)" "ensureCRDs r w now b1 = (e2, b2, w')"
    "ensurePrettyName r w' b2 = (e3, b3)" "bd_meta b1 = bd_meta b"
    "e = NewAggregate (appendErr (appendErr (appendErr [] e1) e2) e3)"
    "b' = SetSummary APIServiceBinding_Setter now b3 []"
    "s_getter APIServiceBinding_Setter b3 = s_getter APIServiceBinding_Setter b2"
proof -
  obtain e1 b1 where 1: "ensureValidServiceExport r w now b = (e1, b1)" by fastforce
  obtain e2 b2 w2 where 2: "ensureCRDs r w now b1 = (e2, b2, w2)" by (cases "ensureCRDs r w now b1") auto
  obtain e3 b3 where 3: "ensurePrettyName r w2 b2 = (e3, b3)" by fastforce
  show thesis
    using that [OF 1, of e2 b2 e3 b3] assms 1 2 3 ensureValidServiceExport_frame [OF 1]
      ensurePrettyName_frame [OF 3]
    by (auto simp: binding_reconcile_def)
qed

subsection \<open>Progress\<close>

abbreviation schemaRef :: "BoundSchema \<Rightarrow> GroupResource" where
  "schemaRef s \<equiv> \<lparr>gr_Group = cs_Group (bss_APICRDSpec (bs_Spec s)),
     gr_Resource = crn_Plural (cs_Names (bss_APICRDSpec (bs_Spec s)))\<rparr>"

text \<open>
  A binding that can be served: its export and schemas can be read, no definition of another owner
  is in the way, definitions can be created and updates are not invalid (they may fail otherwise).
\<close>

definition bindable :: "'w binding_reconciler \<Rightarrow> ObjectMeta \<Rightarrow> BoundSchema list \<Rightarrow> bool" where
  "bindable r owner schemas \<longleftrightarrow>
     (\<forall>w. \<forall>s \<in> set schemas. br_getBoundSchema r w (m_Name (bs_meta s)) = Inr s \<and>
        (case br_getCRD r w (BoundSchema_ResourceGroupName s) of
           Inl err \<Rightarrow> IsNotFound err
         | Inr existing \<Rightarrow>
             IsOwnedByBinding (m_Name owner) (m_UID owner) (m_OwnerReferences (crd_meta existing)))) \<and>
     (\<forall>w crd err. fst (br_createCRD r w crd) \<noteq> Inl err) \<and>
     (\<forall>w crd err. fst (br_updateCRD r w crd) = Inl err \<longrightarrow> \<not> IsInvalid err)"

lemma bindable_Cons: "bindable r owner (s # ss) \<Longrightarrow> bindable r owner ss"
  by (simp add: bindable_def)

lemma ensureCRDsFromBoundSchema_bindable:
  assumes "bindable r (bd_meta b) (s # ss)"
  shows "\<exists>w'. ensureCRDsFromBoundSchema r w now b s = (None, b, w')"
proof -
  from assms have ok: "case br_getCRD r w (BoundSchema_ResourceGroupName s) of
      Inl err \<Rightarrow> IsNotFound err
    | Inr existing \<Rightarrow> IsOwnedByBinding (bindingName b) (m_UID (bd_meta b)) (m_OwnerReferences (crd_meta existing))"
    and cr: "\<And>crd err. fst (br_createCRD r w crd) \<noteq> Inl err"
    and up: "\<And>crd err. fst (br_updateCRD r w crd) = Inl err \<Longrightarrow> \<not> IsInvalid err"
    by (auto simp: bindable_def)
  obtain x w1 where c: "br_createCRD r w (ownedCRD (br_codec r) b s) = (x, w1)" by fastforce
  show ?thesis
  proof (cases "br_getCRD r w (BoundSchema_ResourceGroupName s)")
    case (Inl err)
    with ok c cr [of "ownedCRD (br_codec r) b s"] show ?thesis
      by (cases x) (auto simp: ensureCRDsFromBoundSchema_def Let_def ownedCRD_simps)
  next
    case (Inr existing)
    obtain y w2 where u: "br_updateCRD r w ((ownedCRD (br_codec r) b s)\<lparr>crd_meta := crd_meta existing\<rparr>) = (y, w2)"
      by fastforce
    with Inr ok up [of "(ownedCRD (br_codec r) b s)\<lparr>crd_meta := crd_meta existing\<rparr>"] show ?thesis
      by (cases y) (auto simp: ensureCRDsFromBoundSchema_def Let_def ownedCRD_simps)
  qed
qed

lemma addBoundSchema_mono: "set (bdt_BoundSchemas (bd_Status b)) \<subseteq> set (bdt_BoundSchemas (bd_Status (addBoundSchema s b)))"
  by (auto simp: addBoundSchema_def Let_def)

lemma ensureSchemaCRDs_bindable:
  assumes "bindable r (bd_meta b) ss"
  shows "\<exists>b' w'. ensureSchemaCRDs r now ex ss [] b w = ([], b', w') \<and>
    s_getter APIServiceBinding_Setter b' = s_getter APIServiceBinding_Setter b \<and>
    set (bdt_BoundSchemas (bd_Status b)) \<union> schemaRef ` set ss \<subseteq> set (bdt_BoundSchemas (bd_Status b')) \<and>
    (ss \<noteq> [] \<longrightarrow> bdt_PermissionClaims (bd_Status b') = exs_PermissionClaims (ex_Spec ex))"
  using assms
proof (induction ss arbitrary: b w)
  case (Cons s ss)
  let ?b1 = "referencePermissionClaims (addBoundSchema s b) ex"
  have meta: "bd_meta ?b1 = bd_meta b" using addBoundSchema_frame by simp
  have ref: "referenceBoundSchema r w b (m_Name (bs_meta s)) = (None, addBoundSchema s b)"
    using Cons.prems by (simp add: bindable_def referenceBoundSchema_def)
  from Cons.prems meta have "bindable r (bd_meta ?b1) (s # ss)" by simp
  then obtain w1 where crd: "ensureCRDsFromBoundSchema r w now ?b1 s = (None, ?b1, w1)"
    using ensureCRDsFromBoundSchema_bindable [of r ?b1 s ss w now] by blast
  have "bindable r (bd_meta ?b1) ss" using Cons.prems meta bindable_Cons by metis
  from Cons.IH [OF this, of w1] obtain b' w' where
    "ensureSchemaCRDs r now ex ss [] ?b1 w1 = ([], b', w')"
    "s_getter APIServiceBinding_Setter b' = s_getter APIServiceBinding_Setter b"
    "set (bdt_BoundSchemas (bd_Status (addBoundSchema s b))) \<union> schemaRef ` set ss \<subseteq>
       set (bdt_BoundSchemas (bd_Status b'))"
    "ss \<noteq> [] \<longrightarrow> bdt_PermissionClaims (bd_Status b') = exs_PermissionClaims (ex_Spec ex)"
    "ss = [] \<longrightarrow> b' = ?b1"
    by fastforce
  with ref crd addBoundSchema_set [of s b] addBoundSchema_mono [of b s] show ?case by auto
qed auto

definition binding_calls :: "'w binding_reconciler \<Rightarrow> 'w \<Rightarrow> time \<Rightarrow> APIServiceBinding \<Rightarrow> 'w crd_call list" where
  "binding_calls r w now b = snd (snd (snd (binding_reconcile (crd_logged r) (w, []) now b)))"

text \<open>A kubeconfig secret with which the provider cluster can be reached.\<close>

definition usableSecret :: "'w secret_reconciler \<Rightarrow> APIServiceBinding \<Rightarrow> Secret \<Rightarrow> bool" where
  "usableSecret r b secret \<longleftrightarrow>
     (\<exists>data cfg ctx. Mapping.lookup (sec_Data secret) (ck_Key (bds_KubeconfigSecretRef (bd_Spec b))) = Some data \<and>
        sr_Load r data = Inr cfg \<and> Mapping.lookup (kc_Contexts cfg) (kc_CurrentContext cfg) = Some ctx \<and>
        kx_Namespace ctx \<noteq> [] \<and> sr_RESTConfigFromKubeConfig r data = None)"

text \<open>An example: the definition found, and what the update of a definition returns.\<close>

definition exampleClusterBinding :: ClusterBinding where
  "exampleClusterBinding =
     \<lparr>cb_Kind = ''ClusterBinding'', cb_meta = emptyMeta\<lparr>m_Name := ''cluster'', m_Namespace := ''cluster-a''\<rparr>,
      cb_Spec = \<lparr>cbs_KubeconfigSecretRef = \<lparr>lk_Name = ''kubeconfig'', lk_Key = ''kubeconfig''\<rparr>,
        cbs_ProviderPrettyName = ''Databases'', cbs_ServiceProviderSpec = JNull\<rparr>,
      cb_Status = \<lparr>cbt_LastHeartbeatTime = 0, cbt_HeartbeatInterval = 0, cbt_KonnectorVersion = [],
        cbt_ConsumerSecretRef = None, cbt_Conditions = []\<rparr>\<rparr>"

definition exampleBinder ::
  "CustomResourceDefinition result \<Rightarrow> CustomResourceDefinition result \<Rightarrow> nat binding_reconciler" where
  "exampleBinder existing updated =
     \<lparr>br_consumerSecretRefKey = ''kube-bind/s'', br_providerNamespace = ''cluster-a'',
      br_reconcileServiceBinding = (\<lambda>b. True), br_getServiceExport = (\<lambda>w n. Inr exampleExport),
      br_getServiceExportRequest = (\<lambda>w n. Inl (StatusError ReasonNotFound ''no request'')),
      br_getServiceBinding = (\<lambda>w n. Inr exampleBinding), br_getClusterBinding = (\<lambda>w. Inr exampleClusterBinding),
      br_getBoundSchema = (\<lambda>w n. Inr exampleSchema), br_updateServiceExportStatus = (\<lambda>w ex. (Inr ex, w)),
      br_getCRD = (\<lambda>w n. existing), br_updateCRD = (\<lambda>w crd. (updated, w + 1)),
      br_createCRD = (\<lambda>w crd. (Inr crd, w + 1)), br_codec = exampleCodec\<rparr>"

abbreviation noCRD :: "CustomResourceDefinition result" where
  "noCRD \<equiv> Inl (StatusError ReasonNotFound ''no definition'')"

abbreviation updateConflict :: "CustomResourceDefinition result" where
  "updateConflict \<equiv> Inl (StatusError ReasonConflict ''conflict'')"

abbreviation exampleOwned :: CustomResourceDefinition where
  "exampleOwned \<equiv> ownedCRD exampleCodec exampleBinding exampleSchema"

lemma exampleBinder_simps [simp]:
  "br_reconcileServiceBinding (exampleBinder existing updated) b"
  "br_getServiceExport (exampleBinder existing updated) w n = Inr exampleExport"
  "br_getClusterBinding (exampleBinder existing updated) w = Inr exampleClusterBinding"
  "br_getBoundSchema (exampleBinder existing updated) w n = Inr exampleSchema"
  "br_getCRD (exampleBinder existing updated) w n = existing"
  "br_createCRD (exampleBinder existing updated) w crd = (Inr crd, w + 1)"
  "br_updateCRD (exampleBinder existing updated) w crd = (updated, w + 1)"
  "br_codec (exampleBinder existing updated) = exampleCodec"
  by (simp_all add: exampleBinder_def)

lemma exampleBinder_bindable:
  "bindable (exampleBinder noCRD updateConflict) (bd_meta exampleBinding) [exampleSchema]"
  "bindable (exampleBinder (Inr exampleOwned) updateConflict) (bd_meta exampleBinding) [exampleSchema]"
  using ownedCRD_simps(3) [of exampleBinding exampleCodec exampleSchema]
  by (simp_all add: bindable_def)

lemma exampleBinder_schemas:
  "getSchemasFromExport (exampleBinder existing updated) w (exs_Resources (ex_Spec exampleExport)) = Inr [exampleSchema]"
  by (simp add: exampleExport_def)

section \<open>Properties\<close>

text \<open>
  C19: the binding controller never touches a custom resource definition that it does not own. Every
  write of a reconciliation is made for a bound schema that the export of the binding offers: either
  it creates the definition of that schema, owned by the binding, under a name that is free at that
  moment, or it updates a definition that carries an owner reference to this binding, keeps the
  metadata and writes the spec of the schema.
\<close>

theorem binding_crds_owned:
  "list_all (\<lambda>c. \<exists>export schemas s. br_getServiceExport r w (bindingName b) = Inr export \<and>
     getSchemasFromExport r w (exs_Resources (ex_Spec export)) = Inr schemas \<and> s \<in> set schemas \<and>
     crd_call_ok r (bd_meta b) s c) (binding_calls r w now b)"
proof (cases "br_reconcileServiceBinding r b")
  case False
  then show ?thesis by (simp add: binding_calls_def binding_reconcile_def)
next
  case True
  obtain e b' w' l where run: "binding_reconcile (crd_logged r) (w, []) now b = (e, b', (w', l))"
    by (cases "binding_reconcile (crd_logged r) (w, []) now b") auto
  from True have "br_reconcileServiceBinding (crd_logged r) b" by simp
  then obtain b1 e2 b2 where "ensureCRDs (crd_logged r) (w, []) now b1 = (e2, b2, (w', l))"
    "bd_meta b1 = bd_meta b"
    using binding_reconcile_steps [OF run] by metis
  with ensureCRDs_logged [of r w "[]" now b1 e2 b2 w' l] run show ?thesis
    by (auto simp: binding_calls_def)
qed



text \<open>
  C21: a binding whose export, schemas and cluster binding can be read, and for whose schemas no
  definition of another owner is in the way, becomes connected and in sync in one reconciliation;
  its status then references every schema and, if there is one, the permission claims of the
  export. Updates of definitions may fail with any error but \<open>Invalid\<close>: the code drops it, so
  the binding is reported as in sync although its definition was not updated (the witness).
\<close>

theorem binding_connects:
  assumes "br_reconcileServiceBinding r b"
    and "br_getServiceExport r w (bindingName b) = Inr export"
    and "getSchemasFromExport r w (exs_Resources (ex_Spec export)) = Inr schemas"
    and "\<And>w. br_getClusterBinding r w = Inr cluster"
    and "bindable r (bd_meta b) schemas"
  shows "\<exists>b' w'. binding_reconcile r w now b = (None, b', w') \<and>
    IsTrue (s_getter APIServiceBinding_Setter b') APIServiceBindingConditionConnected \<and>
    IsTrue (s_getter APIServiceBinding_Setter b') APIServiceBindingConditionSchemaInSync \<and>
    schemaRef ` set schemas \<subseteq> set (bdt_BoundSchemas (bd_Status b')) \<and>
    (schemas \<noteq> [] \<longrightarrow> bdt_PermissionClaims (bd_Status b') = exs_PermissionClaims (ex_Spec export))"
proof -
  let ?b1 = "markBindingTrue now b APIServiceBindingConditionConnected"
  have meta: "bd_meta ?b1 = bd_meta b" by (simp add: MarkTrue_def)
  with assms(5) have "bindable r (bd_meta ?b1) schemas" by simp
  from ensureSchemaCRDs_bindable [OF this, of now export w] obtain b2 w2 where
    "ensureSchemaCRDs r now export schemas [] ?b1 w = ([], b2, w2)"
    "s_getter APIServiceBinding_Setter b2 = s_getter APIServiceBinding_Setter ?b1"
    "schemaRef ` set schemas \<subseteq> set (bdt_BoundSchemas (bd_Status b2))"
    "schemas \<noteq> [] \<longrightarrow> bdt_PermissionClaims (bd_Status b2) = exs_PermissionClaims (ex_Spec export)"
    by auto
  moreover define b3 where "b3 = markBindingTrue now (markBindingTrue now b2 APIServiceBindingConditionConnected)
      APIServiceBindingConditionSchemaInSync"
  ultimately have "ensureCRDs r w now ?b1 = (None, b3, w2)"
    "schemaRef ` set schemas \<subseteq> set (bdt_BoundSchemas (bd_Status b3))"
    "schemas \<noteq> [] \<longrightarrow> bdt_PermissionClaims (bd_Status b3) = exs_PermissionClaims (ex_Spec export)"
    "IsTrue (s_getter APIServiceBinding_Setter b3) APIServiceBindingConditionConnected"
    "IsTrue (s_getter APIServiceBinding_Setter b3) APIServiceBindingConditionSchemaInSync"
    using assms(2,3) meta by (simp_all add: ensureCRDs_def) (simp_all add: MarkTrue_def)
  moreover obtain b4 where "ensurePrettyName r w2 b3 = (None, b4)"
    "s_getter APIServiceBinding_Setter b4 = s_getter APIServiceBinding_Setter b3"
    "bdt_BoundSchemas (bd_Status b4) = bdt_BoundSchemas (bd_Status b3)"
    "bdt_PermissionClaims (bd_Status b4) = bdt_PermissionClaims (bd_Status b3)"
    using assms(4) by (simp add: ensurePrettyName_def Let_def)
  ultimately show ?thesis
    using assms(1,2)
    by (simp add: binding_reconcile_def ensureValidServiceExport_def) (simp add: SetSummary_def)
qed

theorem binding_connects_witness:
  "\<exists>b' w'. binding_reconcile (exampleBinder (Inr exampleOwned) updateConflict) 0 7 exampleBinding = (None, b', w') \<and>
    IsTrue (s_getter APIServiceBinding_Setter b') APIServiceBindingConditionConnected \<and>
    IsTrue (s_getter APIServiceBinding_Setter b') APIServiceBindingConditionSchemaInSync \<and>
    schemaRef ` set [exampleSchema] \<subseteq> set (bdt_BoundSchemas (bd_Status b')) \<and>
    ([exampleSchema] \<noteq> [] \<longrightarrow>
      bdt_PermissionClaims (bd_Status b') = exs_PermissionClaims (ex_Spec exampleExport))"
  by (rule binding_connects [OF _ _ exampleBinder_schemas _ exampleBinder_bindable(2)]) simp_all

text \<open>
  The condition \<open>SecretValid\<close> says whether the kubeconfig secret can be used. If the secret
  can be read, it is true exactly when the referenced key holds a kubeconfig that loads, whose
  current context exists and has a namespace, and from which a client configuration can be built,
  and false with the reason \<open>KubeconfigSecretInvalid\<close> otherwise; a missing secret makes it false
  with the reason \<open>KubeconfigSecretNotFound\<close>; another error is returned and leaves it alone.
\<close>

lemma secret_valid:
  "\<exists>e b'. secret_reconcile r w now b = (e, b', w) \<and>
    (case sr_getConsumerSecret r w (ck_Namespace (bds_KubeconfigSecretRef (bd_Spec b)))
           (ck_Name (bds_KubeconfigSecretRef (bd_Spec b))) of
       Inr secret \<Rightarrow> e = None \<and>
         (if usableSecret r b secret
          then IsTrue (s_getter APIServiceBinding_Setter b') APIServiceBindingConditionSecretValid
          else IsFalse (s_getter APIServiceBinding_Setter b') APIServiceBindingConditionSecretValid \<and>
            GetReason (s_getter APIServiceBinding_Setter b') APIServiceBindingConditionSecretValid =
              ''KubeconfigSecretInvalid'')
     | Inl err \<Rightarrow>
         if IsNotFound err
         then e = None \<and>
           IsFalse (s_getter APIServiceBinding_Setter b') APIServiceBindingConditionSecretValid \<and>
           GetReason (s_getter APIServiceBinding_Setter b') APIServiceBindingConditionSecretValid =
             ''KubeconfigSecretNotFound''
         else e = Some (Aggregate [err]) \<and>
           Get (s_getter APIServiceBinding_Setter b') APIServiceBindingConditionSecretValid =
             Get (s_getter APIServiceBinding_Setter b) APIServiceBindingConditionSecretValid)"
  by (auto simp: secret_reconcile_def ensureValidKubeconfigSecret_def usableSecret_def Let_def
      bd_obj.Get_SetSummary NewAggregate_def split: sum.split option.split)

text \<open>
  Processing a binding never runs into the panic of the committer, in neither of the two
  controllers: the reconciliations change the status only, so that each commit is at most a patch
  of the status.
\<close>

lemma binding_process_no_panic:
  "binding_process c r w key \<noteq> Panic m \<and> secret_process c' r' w' key' \<noteq> Panic m"
  unfolding binding_process_def secret_process_def
  by (intro conjI processBinding_no_panic) (blast dest: binding_reconcile_frame secret_reconcile_frame)+

end
