(* ===== verification/Cluster_Binding.thy ===== *)
theory Cluster_Binding
  imports Backend Service_Binding
begin

text \<open>
  Cluster bindings and their heartbeat, on both sides: the konnector
  (\<open>src/pkg/konnector/controllers/cluster/clusterbinding\<close>) keeps the secret, the heartbeat and
  its version in the status, the backend (\<open>src/backend/controllers/clusterbinding\<close>) derives
  the health from the heartbeat; \<open>src/pkg/version\<close> parses the version, and
  \<open>src/pkg/konnector/controllers/cluster/cluster_controller.go\<close> starts the controllers of a
  provider cluster. Durations are 64-bit integers: doubling the interval wraps. The lemmas give the
  exact windows of time in which a binding is healthy, and what happens to the secret.
\<close>

section \<open>Versions\<close>

definition BinaryVersion :: "string \<Rightarrow> string result" where
  "BinaryVersion s =
     (if HasPrefix s ''v0.0.0-'' then Inr ''v0.0.0''
      else
        let parts = SplitN s (CHR ''+'') 2;
            failed = Inl (PlainError (''failed to parse version '' @ quote s))
        in if length parts < 2 then failed
           else if \<not> HasPrefix (parts ! 1) ''kube-bind'' then failed
           else Inr (SplitN (TrimPrefix (parts ! 1) ''kube-bind-'') (CHR ''-'') 2 ! 0))"

section \<open>The konnector\<close>

text \<open>
  The secrets come from listers, which return no object beside an error. The object that the lister
  returns is the one in its cache: assigning to its fields changes the cache, which is the effect
  \<open>kr_writeCached\<close>. \<open>cache.SplitMetaNamespaceKey\<close> and the version of the binary are
  parameters.
\<close>

record 'w cluster_reconciler =
  kr_consumerSecretRefKey :: string
  kr_providerNamespace :: string
  kr_heartbeatInterval :: duration
  kr_getProviderSecret :: "'w \<Rightarrow> Secret result"
  kr_getConsumerSecret :: "'w \<Rightarrow> Secret result"
  kr_updateConsumerSecret :: "'w \<Rightarrow> Secret \<Rightarrow> Secret result \<times> 'w"
  kr_createConsumerSecret :: "'w \<Rightarrow> Secret \<Rightarrow> Secret result \<times> 'w"
  kr_writeCached :: "Secret \<Rightarrow> 'w \<Rightarrow> 'w"
  kr_SplitMetaNamespaceKey :: "string \<Rightarrow> (string \<times> string) result"
  kr_GitVersion :: string

text \<open>Go's division of an int64 truncates towards zero.\<close>

definition halfDuration :: "duration \<Rightarrow> duration" where
  "halfDuration d = (if d < 0 then - ((- d) div 2) else d div 2)"

definition ensureHeartbeat :: "'w cluster_reconciler \<Rightarrow> time \<Rightarrow> ClusterBinding \<Rightarrow> ClusterBinding" where
  "ensureHeartbeat r now binding =
     (let s0 = cb_Status binding;
          s1 = s0\<lparr>cbt_HeartbeatInterval := kr_heartbeatInterval r\<rparr>;
          s2 = (if IsZeroTime (cbt_LastHeartbeatTime s1) \<or>
                   now > cbt_LastHeartbeatTime s1 + halfDuration (kr_heartbeatInterval r)
                then s1\<lparr>cbt_LastHeartbeatTime := now\<rparr> else s1)
      in binding\<lparr>cb_Status := s2\<rparr>)"

definition ensureConsumerSecretRef ::
  "'w cluster_reconciler \<Rightarrow> 'w \<Rightarrow> ClusterBinding \<Rightarrow> error option \<times> ClusterBinding" where
  "ensureConsumerSecretRef r w binding =
     (case kr_getConsumerSecret r w of
        Inl err \<Rightarrow> (if \<not> IsNotFound err then (Some err, binding) else (None, binding))
      | Inr consumerSecret \<Rightarrow>
          (None, binding\<lparr>cb_Status := (cb_Status binding)\<lparr>cbt_ConsumerSecretRef :=
             Some \<lparr>lr_Name = m_Name (sec_meta consumerSecret),
                   lr_Namespace = m_Namespace (sec_meta consumerSecret)\<rparr>\<rparr>\<rparr>))"

text \<open>The new secret gets the namespace of the key as its name, and the name as its namespace.\<close>

definition newConsumerSecret :: "string \<Rightarrow> string \<Rightarrow> Secret \<Rightarrow> Secret" where
  "newConsumerSecret ns name providerSecret =
     \<lparr>sec_meta = emptyMeta\<lparr>m_Name := ns, m_Namespace := name\<rparr>,
      sec_Data = sec_Data providerSecret, sec_Type = sec_Type providerSecret\<rparr>"

definition writeConsumerSecret ::
  "'w cluster_reconciler \<Rightarrow> 'w \<Rightarrow> Secret \<Rightarrow> error option \<times> 'w" where
  "writeConsumerSecret r w providerSecret =
     (let created = (case kr_SplitMetaNamespaceKey r (kr_consumerSecretRefKey r) of
            Inl err \<Rightarrow> (Some err, w)
          | Inr (ns, name) \<Rightarrow>
              (case kr_createConsumerSecret r w (newConsumerSecret ns name providerSecret) of
                 (Inl err, w1) \<Rightarrow> (Some err, w1) | (Inr _, w1) \<Rightarrow> (None, w1)))
      in case kr_getConsumerSecret r w of
           Inl err \<Rightarrow> if \<not> IsNotFound err then (Some err, w) else created
         | Inr consumerSecret \<Rightarrow>
             let updated = consumerSecret\<lparr>sec_Data := sec_Data providerSecret, sec_Type := sec_Type providerSecret\<rparr>
             in (case kr_updateConsumerSecret r (kr_writeCached r updated w) updated of
                   (Inl err, w1) \<Rightarrow> (Some err, w1) | (Inr _, w1) \<Rightarrow> (None, w1)))"

abbreviation markClusterFalse ::
  "time \<Rightarrow> ClusterBinding \<Rightarrow> ConditionType \<Rightarrow> string \<Rightarrow> ConditionSeverity \<Rightarrow> string \<Rightarrow> fmtarg list \<Rightarrow> ClusterBinding" where
  "markClusterFalse \<equiv> MarkFalse ClusterBinding_Setter"

abbreviation markClusterTrue :: "time \<Rightarrow> ClusterBinding \<Rightarrow> ConditionType \<Rightarrow> ClusterBinding" where
  "markClusterTrue \<equiv> MarkTrue ClusterBinding_Setter"

definition ensureConsumerSecret ::
  "'w cluster_reconciler \<Rightarrow> 'w \<Rightarrow> time \<Rightarrow> ClusterBinding \<Rightarrow> error option \<times> ClusterBinding \<times> 'w" where
  "ensureConsumerSecret r w now binding =
     (let ref = cbs_KubeconfigSecretRef (cb_Spec binding)
      in case kr_getProviderSecret r w of
           Inl err \<Rightarrow>
             if \<not> IsNotFound err then (Some err, binding, w)
             else (None, markClusterFalse now binding ClusterBindingConditionSecretValid
                     ''ProviderSecretNotFound'' ConditionSeverityWarning ''Provider secret %s/%s not found''
                     [FStr (m_Namespace (cb_meta binding)), FStr (lk_Name ref)], w)
         | Inr providerSecret \<Rightarrow>
             if Mapping.lookup (sec_Data providerSecret) (lk_Key ref) = None
             then (None, markClusterFalse now binding ClusterBindingConditionSecretValid
                     ''ProviderSecretInvalid'' ConditionSeverityWarning
                     ''Provider secret %s/%s is missing %q string key.''
                     [FStr (kr_providerNamespace r), FStr (lk_Name ref), FStr (lk_Key ref)], w)
             else (case writeConsumerSecret r w providerSecret of
                 (Some err, w1) \<Rightarrow> (Some err, binding, w1)
               | (None, w1) \<Rightarrow> (None, markClusterTrue now binding ClusterBindingConditionSecretValid, w1)))"

definition ensureKonnectorVersion :: "'w cluster_reconciler \<Rightarrow> time \<Rightarrow> ClusterBinding \<Rightarrow> ClusterBinding" where
  "ensureKonnectorVersion r now binding =
     (let setVersion = (\<lambda>v. binding\<lparr>cb_Status := (cb_Status binding)\<lparr>cbt_KonnectorVersion := v\<rparr>\<rparr>)
      in case BinaryVersion (kr_GitVersion r) of
           Inl err \<Rightarrow>
             markClusterFalse now (setVersion ''unknown'') ClusterBindingConditionValidVersion ''ParseError''
               ConditionSeverityWarning ''Konnector binary version string %q cannot be parsed: %v''
               [FStr (kr_GitVersion r), FStr (ErrorString err)]
         | Inr ver \<Rightarrow> markClusterTrue now (setVersion ver) ClusterBindingConditionValidVersion)"

definition cluster_reconcile ::
  "'w cluster_reconciler \<Rightarrow> 'w \<Rightarrow> time \<Rightarrow> ClusterBinding \<Rightarrow> error option \<times> ClusterBinding \<times> 'w" where
  "cluster_reconcile r w now binding =
     (case ensureConsumerSecret r w now binding of
        (err1, b1, w1) \<Rightarrow>
          (case ensureConsumerSecretRef r w1 b1 of
             (err2, b2) \<Rightarrow>
               (NewAggregate (appendErr (appendErr [] err1) err2),
                SetSummary ClusterBinding_Setter now
                  (ensureKonnectorVersion r now (ensureHeartbeat r now b2)) [], w1)))"

subsection \<open>The controller\<close>

record ('w, 'e) cluster_controller =
  kc_queue :: "'w Queue"
  kc_keys :: "'e KeyFuncs"
  kc_asExport :: "'e \<Rightarrow> APIServiceExport option"
  kc_clusterBindingGet :: "'w \<Rightarrow> string \<Rightarrow> string \<Rightarrow> ClusterBinding result"
  kc_bindingsBySecret :: "'w \<Rightarrow> string \<Rightarrow> APIServiceBinding list result"
  kc_UpdateStatus :: "'w \<Rightarrow> APIServiceBinding \<Rightarrow> APIServiceBinding result \<times> 'w"
  kc_now :: "'w \<Rightarrow> time"
  kc_patcher :: "(ClusterBindingSpec, ClusterBindingStatus, 'w) Patcher"

definition enqueueClusterBinding :: "('w, 'e) cluster_controller \<Rightarrow> 'w \<Rightarrow> 'e \<Rightarrow> 'w" where
  "enqueueClusterBinding c w ob =
     (case kf_DeletionHandlingMetaNamespaceKeyFunc (kc_keys c) ob of
        Inl err \<Rightarrow> w | Inr key \<Rightarrow> q_Add (kc_queue c) key w)"

definition cluster_enqueueConsumerSecret ::
  "('w, 'e) cluster_controller \<Rightarrow> 'w cluster_reconciler \<Rightarrow> 'w \<Rightarrow> 'e \<Rightarrow> 'w" where
  "cluster_enqueueConsumerSecret c r w ob =
     (case kf_DeletionHandlingMetaNamespaceKeyFunc (kc_keys c) ob of
        Inl err \<Rightarrow> w
      | Inr secretKey \<Rightarrow>
          if secretKey = kr_consumerSecretRefKey r
          then q_Add (kc_queue c) (kr_providerNamespace r @ ''/cluster'') w else w)"

definition enqueueProviderSecret ::
  "('w, 'e) cluster_controller \<Rightarrow> 'w cluster_reconciler \<Rightarrow> 'w \<Rightarrow> 'e \<Rightarrow> 'w" where
  "enqueueProviderSecret c r w ob =
     (case eventKey (kc_keys c) ob of
        Inl err \<Rightarrow> w
      | Inr (ns, name) \<Rightarrow>
          if ns \<noteq> kr_providerNamespace r then w
          else (case kc_clusterBindingGet c w ns ''cluster'' of
              Inl err \<Rightarrow> w
            | Inr binding \<Rightarrow>
                if lk_Name (cbs_KubeconfigSecretRef (cb_Spec binding)) \<noteq> name then w
                else q_Add (kc_queue c) (ns @ ''/cluster'') w))"

definition cluster_enqueueServiceExport :: "('w, 'e) cluster_controller \<Rightarrow> 'w \<Rightarrow> 'e \<Rightarrow> 'w" where
  "cluster_enqueueServiceExport c w ob =
     (case eventKey (kc_keys c) ob of
        Inl err \<Rightarrow> w | Inr (ns, _) \<Rightarrow> q_Add (kc_queue c) (ns @ ''/cluster'') w)"

text \<open>
  The update handler of exports reads both versions from the old object, so that the comparison of
  their conditions is one of an object with itself.
\<close>

definition onExportUpdate :: "('w, 'e) cluster_controller \<Rightarrow> 'w \<Rightarrow> 'e \<Rightarrow> 'e \<Rightarrow> 'w" where
  "onExportUpdate c w old new =
     (case kc_asExport c old of
        None \<Rightarrow> w
      | Some oldExport \<Rightarrow>
          (case kc_asExport c old of
             None \<Rightarrow> w
           | Some newExport \<Rightarrow>
               if ext_Conditions (ex_Status oldExport) = ext_Conditions (ex_Status newExport) then w
               else cluster_enqueueServiceExport c w new))"

fun updateEach ::
  "('w \<Rightarrow> APIServiceBinding \<Rightarrow> APIServiceBinding result \<times> 'w) \<Rightarrow> (APIServiceBinding \<Rightarrow> APIServiceBinding) \<Rightarrow>
     APIServiceBinding list \<Rightarrow> 'w \<Rightarrow> 'w" where
  "updateEach send upd [] w = w"
| "updateEach send upd (orig # origs) w =
     (let binding = upd orig
      in if bdt_Conditions (bd_Status binding) \<noteq> bdt_Conditions (bd_Status orig)
         then updateEach send upd origs (snd (send w binding))
         else updateEach send upd origs w)"

definition updateServiceBindings ::
  "('w, 'e) cluster_controller \<Rightarrow> string \<Rightarrow> (APIServiceBinding \<Rightarrow> APIServiceBinding) \<Rightarrow> 'w \<Rightarrow> 'w" where
  "updateServiceBindings c secretRefKey upd w =
     (case kc_bindingsBySecret c w secretRefKey of
        Inl err \<Rightarrow> w | Inr bindings \<Rightarrow> updateEach (kc_UpdateStatus c) upd bindings w)"

definition clusterBindingResource ::
  "ClusterBinding \<Rightarrow> (ClusterBindingSpec, ClusterBindingStatus) Resource" where
  "clusterBindingResource b = \<lparr>r_meta = cb_meta b, r_Spec = cb_Spec b, r_Status = cb_Status b\<rparr>"

definition heartbeating :: "time \<Rightarrow> error option \<Rightarrow> APIServiceBinding \<Rightarrow> APIServiceBinding" where
  "heartbeating now commitErr binding =
     (case commitErr of
        Some err \<Rightarrow>
          MarkFalse APIServiceBinding_Setter now binding ''Heartbeating'' ''ClusterBindingUpdateFailed''
            ConditionSeverityWarning ''Failed to update service provider ClusterBinding: %v''
            [FStr (ErrorString err)]
      | None \<Rightarrow> markBindingTrue now binding ''Heartbeating'')"

definition cluster_process ::
  "('w, 'e) cluster_controller \<Rightarrow> 'w cluster_reconciler \<Rightarrow> 'w \<Rightarrow> string \<Rightarrow> (error option \<times> 'w) outcome" where
  "cluster_process c r w key =
     (case kf_SplitMetaNamespaceKey (kc_keys c) key of
        Inl err \<Rightarrow> Returns (None, w)
      | Inr (ns, name) \<Rightarrow>
          if name \<noteq> ''cluster'' then Returns (None, w)
          else (case kc_clusterBindingGet c w ns ''cluster'' of
              Inl err \<Rightarrow> if \<not> IsNotFound err then Returns (Some err, w) else Returns (None, w)
            | Inr old \<Rightarrow>
                (case cluster_reconcile r w (kc_now c w) old of
                   (e, ob, w1) \<Rightarrow>
                     (case NewCommitter (kc_patcher c) w1 (clusterBindingResource old) (clusterBindingResource ob) of
                        Panic m \<Rightarrow> Panic m
                      | Returns (e2, w2) \<Rightarrow>
                          Returns (NewAggregate (appendErr (appendErr [] e) e2),
                            updateServiceBindings c (kr_consumerSecretRefKey r)
                              (heartbeating (kc_now c w2) e2) w2)))))"

text \<open>
  Starting the controllers of a provider cluster. The wait for the caches ends with its own deadline,
  but the test after it looks at the context of the controller: unless the controller itself is
  stopped, it goes on whatever has synced. When it is stopped, the poll ends with an error.
\<close>

record 'w cluster_start =
  st_startFactories :: "'w \<Rightarrow> 'w"
  st_WaitForCacheSync :: "'w \<Rightarrow> bool list \<times> 'w"
  st_Done :: "'w \<Rightarrow> bool"
  st_startControllers :: "'w \<Rightarrow> 'w"

definition cluster_Start ::
  "'w cluster_start \<Rightarrow> ('w, 'e) cluster_controller \<Rightarrow> string \<Rightarrow> string \<Rightarrow> 'w \<Rightarrow> bool \<times> 'w" where
  "cluster_Start s c secretRefKey halfInterval w =
     (case st_WaitForCacheSync s (st_startFactories s w) of
        (synced, w1) \<Rightarrow>
          if st_Done s w1
          then (False, updateServiceBindings c secretRefKey
                  (\<lambda>b. markBindingFalse (kc_now c w1) b ''InformersSynced'' ''InformerSyncTimeout''
                         ''Informers did not sync within %s'' [FStr halfInterval]) w1)
          else (True, st_startControllers s (updateServiceBindings c secretRefKey
                  (\<lambda>b. markBindingTrue (kc_now c w1) b ''InformersSynced'') w1)))"

section \<open>The backend\<close>

text \<open>The texts of durations and times in the message are parameters.\<close>

record timeText =
  tt_duration :: "duration \<Rightarrow> string"
  tt_time :: "time \<Rightarrow> string"

definition ensureClusterBindingConditions :: "timeText \<Rightarrow> time \<Rightarrow> ClusterBinding \<Rightarrow> ClusterBinding" where
  "ensureClusterBindingConditions tt now binding =
     (let s = cb_Status binding;
          ago = TimeSub now (cbt_LastHeartbeatTime s);
          unhealthy = markClusterFalse now binding ClusterBindingConditionHealthy
      in if IsZeroTime (cbt_LastHeartbeatTime s)
         then unhealthy ''FirstHeartbeatPending'' ConditionSeverityInfo ''Waiting for first heartbeat'' []
         else if cbt_HeartbeatInterval s = 0
         then unhealthy ''HeartbeatIntervalMissing'' ConditionSeverityInfo
                ''Waiting for consumer cluster reporting its heartbeat interval'' []
         else if ago > wrap64 (cbt_HeartbeatInterval s * 2)
         then unhealthy ''HeartbeatTimeout'' ConditionSeverityError
                ''Heartbeat timeout: expected heartbeat within %s, but last one has been at %s''
                [FStr (tt_duration tt (cbt_HeartbeatInterval s)), FStr (tt_time tt (cbt_LastHeartbeatTime s))]
         else if ago < Second * 10
         then unhealthy ''HeartbeatTimeDrift'' ConditionSeverityWarning
                ''Clocks of consumer cluster and service account cluster seem to be off by more than 10s'' []
         else markClusterTrue now binding ClusterBindingConditionHealthy)"

definition health_reconcile :: "timeText \<Rightarrow> time \<Rightarrow> ClusterBinding \<Rightarrow> error option \<times> ClusterBinding" where
  "health_reconcile tt now binding =
     (NewAggregate [], SetSummary ClusterBinding_Setter now (ensureClusterBindingConditions tt now binding) [])"

text \<open>The status is written with \<open>client.Update\<close>, the update of the main resource.\<close>

definition health_Reconcile ::
  "(ClusterBinding, 'w) backend_client \<Rightarrow> timeText \<Rightarrow> ('w \<Rightarrow> time) \<Rightarrow> mcRequest \<Rightarrow> 'w \<Rightarrow> ctrlResult result \<times> 'w" where
  "health_Reconcile be tt clock req w =
     withObject be ''ClusterBinding'' req w (Inr noRequeue, w) (\<lambda>original.
       case health_reconcile tt (clock w) original of
         (Some err, _) \<Rightarrow> (Inl err, w)
       | (None, clusterBinding) \<Rightarrow>
           if original \<noteq> clusterBinding
           then writeBack ''ClusterBinding status'' noRequeue (be_Update be w (mc_ClusterName req) clusterBinding)
           else (Inr noRequeue, w))"

definition exportToClusterBinding :: "string \<Rightarrow> APIServiceExport option \<Rightarrow> mcRequest list" where
  "exportToClusterBinding clusterName ob =
     (case ob of
        None \<Rightarrow> []
      | Some serviceExport \<Rightarrow>
          [\<lparr>mc_ClusterName = clusterName,
            mc_NamespacedName = \<lparr>nn_Namespace = m_Namespace (ex_meta serviceExport), nn_Name = ''cluster''\<rparr>\<rparr>])"

section \<open>Lemmas\<close>

subsection \<open>Versions\<close>

text \<open>A release version of the binary is found again in its version string, also in a dirty build.\<close>

lemma BinaryVersion_release:
  assumes "CHR ''+'' \<notin> set base" "CHR ''-'' \<notin> set ver" "\<not> HasPrefix (base @ ''+kube-bind-'' @ ver @ rest) ''v0.0.0-''"
    and "rest = [] \<or> (\<exists>t. rest = CHR ''-'' # t)"
  shows "BinaryVersion (base @ ''+kube-bind-'' @ ver @ rest) = Inr ver"
proof -
  have "SplitN (base @ ''+kube-bind-'' @ ver @ rest) (CHR ''+'') 2 = [base, ''kube-bind-'' @ ver @ rest]"
    using SplitN1_app [OF assms(1), of 2 "[]" "''kube-bind-'' @ ver @ rest"]
    by (simp add: SplitN_def SplitN1_last)
  moreover have "HasPrefix (''kube-bind-'' @ ver @ rest) ''kube-bind''" by (simp add: HasPrefix_def)
  moreover have "SplitN (ver @ rest) (CHR ''-'') 2 ! 0 = ver"
    using assms(4) SplitN1_app [OF assms(2), of 2 "[]"] SplitN1_none [OF assms(2), of 2 "[]"]
    by (auto simp: SplitN_def)
  moreover have "TrimPrefix (''kube-bind-'' @ ver @ rest) ''kube-bind-'' = ver @ rest"
    by (rule TrimPrefix_append)
  ultimately show ?thesis using assms(3) by (simp add: BinaryVersion_def Let_def)
qed

subsection \<open>Frames\<close>

abbreviation sameCluster :: "ClusterBinding \<Rightarrow> ClusterBinding \<Rightarrow> bool" where
  "sameCluster b b' \<equiv> cb_meta b' = cb_meta b \<and> cb_Spec b' = cb_Spec b"

lemma cb_Mark_frame [simp]:
  "cb_meta (markClusterTrue now b t) = cb_meta b" "cb_Spec (markClusterTrue now b t) = cb_Spec b"
  "cb_meta (markClusterFalse now b t reason sev fm as) = cb_meta b"
  "cb_Spec (markClusterFalse now b t reason sev fm as) = cb_Spec b"
  "cbt_LastHeartbeatTime (cb_Status (markClusterTrue now b t)) = cbt_LastHeartbeatTime (cb_Status b)"
  "cbt_LastHeartbeatTime (cb_Status (markClusterFalse now b t reason sev fm as)) =
     cbt_LastHeartbeatTime (cb_Status b)"
  "cbt_HeartbeatInterval (cb_Status (markClusterTrue now b t)) = cbt_HeartbeatInterval (cb_Status b)"
  "cbt_HeartbeatInterval (cb_Status (markClusterFalse now b t reason sev fm as)) =
     cbt_HeartbeatInterval (cb_Status b)"
  by (simp_all add: condition_defs)

lemma cb_Summary_frame [simp]:
  "cb_meta (SetSummary ClusterBinding_Setter now b os) = cb_meta b"
  "cb_Spec (SetSummary ClusterBinding_Setter now b os) = cb_Spec b"
  "cbt_LastHeartbeatTime (cb_Status (SetSummary ClusterBinding_Setter now b os)) =
     cbt_LastHeartbeatTime (cb_Status b)"
  "cbt_HeartbeatInterval (cb_Status (SetSummary ClusterBinding_Setter now b os)) =
     cbt_HeartbeatInterval (cb_Status b)"
  by (simp_all add: SetSummary_def)

lemma ensureHeartbeat_frame [simp]:
  "cb_meta (ensureHeartbeat r now b) = cb_meta b" "cb_Spec (ensureHeartbeat r now b) = cb_Spec b"
  "s_getter ClusterBinding_Setter (ensureHeartbeat r now b) = s_getter ClusterBinding_Setter b"
  by (simp_all add: ensureHeartbeat_def Let_def ClusterBinding_Setter_def)

lemma setter_version:
  "s_getter ClusterBinding_Setter (b\<lparr>cb_Status := (cb_Status b)\<lparr>cbt_KonnectorVersion := v\<rparr>\<rparr>) =
     s_getter ClusterBinding_Setter b"
  by (simp add: ClusterBinding_Setter_def)

lemma ensureKonnectorVersion_frame [simp]:
  "cb_meta (ensureKonnectorVersion r now b) = cb_meta b" "cb_Spec (ensureKonnectorVersion r now b) = cb_Spec b"
  "cbt_LastHeartbeatTime (cb_Status (ensureKonnectorVersion r now b)) = cbt_LastHeartbeatTime (cb_Status b)"
  "cbt_HeartbeatInterval (cb_Status (ensureKonnectorVersion r now b)) = cbt_HeartbeatInterval (cb_Status b)"
  by (simp_all add: ensureKonnectorVersion_def Let_def split: sum.split)

lemma ensureConsumerSecret_frame:
  "ensureConsumerSecret r w now b = (e, b', w') \<Longrightarrow> sameCluster b b' \<and>
     cbt_LastHeartbeatTime (cb_Status b') = cbt_LastHeartbeatTime (cb_Status b)"
  by (auto simp: ensureConsumerSecret_def Let_def split: sum.splits if_splits prod.splits option.splits)

lemma ensureConsumerSecretRef_frame:
  "ensureConsumerSecretRef r w b = (e, b') \<Longrightarrow> sameCluster b b' \<and>
     cbt_LastHeartbeatTime (cb_Status b') = cbt_LastHeartbeatTime (cb_Status b) \<and>
     s_getter ClusterBinding_Setter b' = s_getter ClusterBinding_Setter b"
  by (auto simp: ensureConsumerSecretRef_def ClusterBinding_Setter_def split: sum.splits if_splits)

lemma cluster_reconcile_frame: "cluster_reconcile r w now b = (e, b', w') \<Longrightarrow> sameCluster b b'"
  by (auto simp: cluster_reconcile_def split: prod.splits
      dest!: ensureConsumerSecret_frame ensureConsumerSecretRef_frame)

lemma cluster_process_no_panic: "cluster_process c r w key \<noteq> Panic m"
proof -
  have "NewCommitter (kc_patcher c) w1 (clusterBindingResource old) (clusterBindingResource ob) \<noteq> Panic m"
    if "cluster_reconcile r w now old = (e, ob, w1)" for now old e ob w1
    using cluster_reconcile_frame [OF that]
      commit_panics [of "kc_patcher c" w1 "clusterBindingResource old" "clusterBindingResource ob"]
    by (auto simp: clusterBindingResource_def)
  then show ?thesis
    by (auto simp: cluster_process_def split: sum.splits prod.splits if_splits outcome.splits)
qed

text \<open>An update of an export is never enqueued: the handler compares the old object with itself.\<close>

lemma export_update_ignored: "onExportUpdate c w old new = w"
  by (simp add: onExportUpdate_def split: option.split)

text \<open>The controllers of a cluster start whatever has synced, unless the controller is stopped.\<close>

lemma cluster_Start_unsynced:
  assumes "st_WaitForCacheSync s (st_startFactories s w) = (synced, w1)" "\<not> st_Done s w1"
  shows "fst (cluster_Start s c k i w)"
  using assms by (simp add: cluster_Start_def)

subsection \<open>Heartbeats\<close>

text \<open>After a reconciliation the heartbeat is at most half an interval old.\<close>

lemma cluster_heartbeat:
  assumes "cluster_reconcile r w now b = (e, b', w')"
    and "0 < now" "cbt_LastHeartbeatTime (cb_Status b) \<le> now" "0 \<le> kr_heartbeatInterval r"
  shows "cbt_HeartbeatInterval (cb_Status b') = kr_heartbeatInterval r"
    and "cbt_LastHeartbeatTime (cb_Status b') \<le> now"
    and "now \<le> cbt_LastHeartbeatTime (cb_Status b') + kr_heartbeatInterval r div 2"
    and "cbt_LastHeartbeatTime (cb_Status b') \<noteq> 0"
proof -
  obtain e1 b1 w1 e2 b2 where 1: "ensureConsumerSecret r w now b = (e1, b1, w1)"
    and 2: "ensureConsumerSecretRef r w1 b1 = (e2, b2)"
    by (cases "ensureConsumerSecret r w now b") fastforce
  have b': "b' = SetSummary ClusterBinding_Setter now
      (ensureKonnectorVersion r now (ensureHeartbeat r now b2)) []"
    using assms(1) 1 2 by (simp add: cluster_reconcile_def)
  have "cbt_LastHeartbeatTime (cb_Status b2) = cbt_LastHeartbeatTime (cb_Status b)"
    using ensureConsumerSecret_frame [OF 1] ensureConsumerSecretRef_frame [OF 2] by simp
  with b' assms(2-4) show "cbt_HeartbeatInterval (cb_Status b') = kr_heartbeatInterval r"
    "cbt_LastHeartbeatTime (cb_Status b') \<le> now"
    "now \<le> cbt_LastHeartbeatTime (cb_Status b') + kr_heartbeatInterval r div 2"
    "cbt_LastHeartbeatTime (cb_Status b') \<noteq> 0"
    by (simp_all add: ensureHeartbeat_def Let_def halfDuration_def IsZeroTime_def)
qed

text \<open>The doubled interval in 64 bits: exact below \<open>2 ^ 62\<close>, negative from there on.\<close>

lemma wrap64_double:
  "0 \<le> d \<Longrightarrow> d < 2 ^ 62 \<Longrightarrow> wrap64 (d * 2) = d * 2"
  "2 ^ 62 \<le> d \<Longrightarrow> d < 2 ^ 63 \<Longrightarrow> wrap64 (d * 2) < 0"
  using minus_mod_self2 [of "d * 2 + 2 ^ 63" "2 ^ 64"] mod_pos_pos_trivial [of "d * 2 + 2 ^ 63 - 2 ^ 64" "2 ^ 64"]
  by (simp_all add: wrap64_def)

lemma TimeSub_exact: "\<bar>t - u\<bar> < 2 ^ 63 \<Longrightarrow> TimeSub t u = t - u"
  by (simp add: TimeSub_def)

abbreviation isHealthy :: "ClusterBinding \<Rightarrow> bool" where
  "isHealthy b \<equiv> IsTrue (s_getter ClusterBinding_Setter b) ClusterBindingConditionHealthy"

lemma health_conditions:
  assumes "cbt_LastHeartbeatTime (cb_Status b) \<noteq> 0" "cbt_HeartbeatInterval (cb_Status b) \<noteq> 0"
    and "age = TimeSub now (cbt_LastHeartbeatTime (cb_Status b))"
  shows "isHealthy (snd (health_reconcile tt now b)) \<longleftrightarrow>
    10 * Second \<le> age \<and> age \<le> wrap64 (cbt_HeartbeatInterval (cb_Status b) * 2)"
  using assms by (simp add: health_reconcile_def ensureClusterBindingConditions_def Let_def IsZeroTime_def)

text \<open>
  A consumer cluster whose secrets are kept by namespace and name, as the API server keeps them: the
  lister reads under the key of the reference, and a creation files a secret under its own metadata.
\<close>

definition secretStore ::
  "string \<Rightarrow> string \<Rightarrow> Secret \<Rightarrow> duration \<Rightarrow> (string \<times> string \<Rightarrow> Secret option) cluster_reconciler" where
  "secretStore ns name provider interval =
     \<lparr>kr_consumerSecretRefKey = ns @ ''/'' @ name, kr_providerNamespace = ''cluster-a'',
      kr_heartbeatInterval = interval, kr_getProviderSecret = (\<lambda>m. Inr provider),
      kr_getConsumerSecret = (\<lambda>m. case m (ns, name) of
         None \<Rightarrow> Inl (StatusError ReasonNotFound ''no secret'') | Some sec \<Rightarrow> Inr sec),
      kr_updateConsumerSecret = (\<lambda>m sec. (Inr sec, m((m_Namespace (sec_meta sec), m_Name (sec_meta sec)) \<mapsto> sec))),
      kr_createConsumerSecret = (\<lambda>m sec. (Inr sec, m((m_Namespace (sec_meta sec), m_Name (sec_meta sec)) \<mapsto> sec))),
      kr_writeCached = (\<lambda>sec m. m((ns, name) \<mapsto> sec)),
      kr_SplitMetaNamespaceKey = (\<lambda>k. Inr (ns, name)), kr_GitVersion = ''v1.33.0+kube-bind-v0.6.0''\<rparr>"

lemma secretStore_simps [simp]:
  "kr_getProviderSecret (secretStore ns name p i) m = Inr p"
  "kr_getConsumerSecret (secretStore ns name p i) m = (case m (ns, name) of
         None \<Rightarrow> Inl (StatusError ReasonNotFound ''no secret'') | Some sec \<Rightarrow> Inr sec)"
  "kr_createConsumerSecret (secretStore ns name p i) m sec =
     (Inr sec, m((m_Namespace (sec_meta sec), m_Name (sec_meta sec)) \<mapsto> sec))"
  "kr_SplitMetaNamespaceKey (secretStore ns name p i) k = Inr (ns, name)"
  by (simp_all add: secretStore_def)

definition exampleText :: timeText where
  "exampleText = \<lparr>tt_duration = (\<lambda>d. ''5m''), tt_time = (\<lambda>t. ''noon'')\<rparr>"

definition exampleProviderSecret :: Secret where
  "exampleProviderSecret =
     \<lparr>sec_meta = emptyMeta\<lparr>m_Name := ''kubeconfig'', m_Namespace := ''cluster-a''\<rparr>,
      sec_Data = Mapping.update ''kubeconfig'' ''data'' Mapping.empty, sec_Type = ''Opaque''\<rparr>"

section \<open>Properties\<close>

text \<open>
  C24: the exact window of health. For a heartbeat whose age is known and an interval below
  \<open>2 ^ 62\<close> nanoseconds, the backend reports a cluster binding as healthy exactly when the heartbeat
  is at least ten seconds and at most two intervals old: a fresh heartbeat counts as a clock drift,
  and with an interval below five seconds no binding is ever healthy. From \<open>2 ^ 62\<close> on, doubling
  the interval wraps around in 64 bits, and every heartbeat that is not from the future has timed out.
\<close>

theorem health_window:
  assumes "cbt_LastHeartbeatTime (cb_Status b) \<noteq> 0"
    and "0 < cbt_HeartbeatInterval (cb_Status b)" "cbt_HeartbeatInterval (cb_Status b) < 2 ^ 63"
    and "age = now - cbt_LastHeartbeatTime (cb_Status b)" "0 \<le> age" "age < 2 ^ 63"
  shows "if cbt_HeartbeatInterval (cb_Status b) < 2 ^ 62
    then isHealthy (snd (health_reconcile tt now b)) \<longleftrightarrow>
      10 * Second \<le> age \<and> age \<le> 2 * cbt_HeartbeatInterval (cb_Status b)
    else \<not> isHealthy (snd (health_reconcile tt now b)) \<and>
      GetReason (s_getter ClusterBinding_Setter (snd (health_reconcile tt now b)))
        ClusterBindingConditionHealthy = ''HeartbeatTimeout''"
proof -
  have age: "TimeSub now (cbt_LastHeartbeatTime (cb_Status b)) = age"
    using assms(4-6) by (simp add: TimeSub_exact)
  show ?thesis
  proof (cases "cbt_HeartbeatInterval (cb_Status b) < 2 ^ 62")
    case True
    then have "wrap64 (cbt_HeartbeatInterval (cb_Status b) * 2) = cbt_HeartbeatInterval (cb_Status b) * 2"
      using assms(2) by (intro wrap64_double(1)) simp_all
    with True health_conditions [of b age now tt] assms(1,2) age show ?thesis by auto
  next
    case False
    then have "wrap64 (cbt_HeartbeatInterval (cb_Status b) * 2) < 0"
      using assms(3) by (intro wrap64_double(2)) simp_all
    with False assms(1,2,5) age show ?thesis
      by (simp add: health_reconcile_def ensureClusterBindingConditions_def Let_def IsZeroTime_def)
  qed
qed

theorem health_window_witness:
  "\<not> isHealthy (snd (health_reconcile exampleText (100 * Second + 5 * Second)
      (exampleClusterBinding\<lparr>cb_Status := (cb_Status exampleClusterBinding)\<lparr>cbt_LastHeartbeatTime := 100 * Second,
         cbt_HeartbeatInterval := 5 * Minute\<rparr>\<rparr>)))"
  using health_window [of "exampleClusterBinding\<lparr>cb_Status := (cb_Status exampleClusterBinding)\<lparr>
      cbt_LastHeartbeatTime := 100 * Second, cbt_HeartbeatInterval := 5 * Minute\<rparr>\<rparr>" "5 * Second"
      "100 * Second + 5 * Second" exampleText]
  by (simp add: Second_def Minute_def)

text \<open>
  C25: the two sides together. After the konnector has reconciled the cluster binding at the time
  \<open>t\<close>, the backend reports it as healthy at every time from ten seconds to a whole interval later,
  whatever heartbeat the binding had before (as long as it was not in the future).
\<close>

theorem heartbeat_keeps_healthy:
  assumes "cluster_reconcile r w t b = (e, b', w')"
    and "0 < t" "cbt_LastHeartbeatTime (cb_Status b) \<le> t"
    and "0 < kr_heartbeatInterval r" "kr_heartbeatInterval r < 2 ^ 61"
    and "t + 10 * Second \<le> t'" "t' \<le> t + kr_heartbeatInterval r"
  shows "isHealthy (snd (health_reconcile tt t' b'))"
proof -
  note hb = cluster_heartbeat [OF assms(1-3)]
  let ?l = "cbt_LastHeartbeatTime (cb_Status b')" and ?i = "kr_heartbeatInterval r"
  have l: "?l \<le> t" "t \<le> ?l + ?i div 2" "?l \<noteq> 0" "cbt_HeartbeatInterval (cb_Status b') = ?i"
    using hb assms(4) by simp_all
  have age: "10 * Second \<le> t' - ?l" "t' - ?l \<le> 2 * ?i"
    using l assms(4,6,7) by linarith+
  have "TimeSub t' ?l = t' - ?l"
    using age assms(5) by (intro TimeSub_exact) (simp add: Second_def)
  moreover have "wrap64 (?i * 2) = ?i * 2" using assms(4,5) by (intro wrap64_double(1)) simp_all
  ultimately show ?thesis
    using health_conditions [of b' "t' - ?l" t' tt] age l assms(4) by simp
qed

theorem heartbeat_keeps_healthy_witness:
  "isHealthy (snd (health_reconcile exampleText (Minute + Minute)
     (fst (snd (cluster_reconcile (secretStore ''kube-bind'' ''kubeconfig'' exampleProviderSecret (5 * Minute))
        (\<lambda>k. None) Minute exampleClusterBinding)))))"
proof -
  let ?r = "secretStore ''kube-bind'' ''kubeconfig'' exampleProviderSecret (5 * Minute)"
  obtain e b' w' where run: "cluster_reconcile ?r (\<lambda>k. None) Minute exampleClusterBinding = (e, b', w')"
    by (cases "cluster_reconcile ?r (\<lambda>k. None) Minute exampleClusterBinding") auto
  have "kr_heartbeatInterval ?r = 5 * Minute" by (simp add: secretStore_def)
  then show ?thesis
    using heartbeat_keeps_healthy [OF run, of "Minute + Minute" exampleText] run
    by (simp add: exampleClusterBinding_def Minute_def Second_def)
qed

text \<open>
  A missing consumer secret is not restored. The reconciliation creates a secret with the name
  and the namespace of the reference exchanged, so that, unless the two are equal, the secret of the
  binding is still missing afterwards; nevertheless \<open>SecretValid\<close> is reported as true, without an
  error.
\<close>

lemma consumer_secret_misplaced:
  assumes "ns \<noteq> name" "m (ns, name) = None"
    and "Mapping.lookup (sec_Data provider) (lk_Key (cbs_KubeconfigSecretRef (cb_Spec b))) \<noteq> None"
  shows "\<exists>b' m'. cluster_reconcile (secretStore ns name provider interval) m now b = (None, b', m') \<and>
    IsTrue (s_getter ClusterBinding_Setter b') ClusterBindingConditionSecretValid \<and>
    m' (ns, name) = None \<and> m' (name, ns) = Some (newConsumerSecret ns name provider)"
proof -
  let ?r = "secretStore ns name provider interval"
  let ?m = "m((name, ns) \<mapsto> newConsumerSecret ns name provider)"
  let ?b1 = "markClusterTrue now b ClusterBindingConditionSecretValid"
  have "writeConsumerSecret ?r m provider = (None, ?m)"
    using assms(2) by (simp add: writeConsumerSecret_def newConsumerSecret_def)
  then have "ensureConsumerSecret ?r m now b = (None, ?b1, ?m)"
    using assms(3) by (auto simp: ensureConsumerSecret_def Let_def)
  moreover have "ensureConsumerSecretRef ?r ?m ?b1 = (None, ?b1)"
    using assms(1,2) by (simp add: ensureConsumerSecretRef_def)
  moreover have "IsTrue (s_getter ClusterBinding_Setter (ensureKonnectorVersion ?r now (ensureHeartbeat ?r now ?b1)))
      ClusterBindingConditionSecretValid"
    by (simp add: ensureKonnectorVersion_def setter_version split: sum.split)
  ultimately show ?thesis
    using assms(1,2) by (simp add: cluster_reconcile_def)
qed

lemma consumer_secret_misplaced_witness:
  "\<exists>b' m'. cluster_reconcile (secretStore ''kube-bind'' ''kubeconfig'' exampleProviderSecret (5 * Minute))
      (\<lambda>k. None) 1 exampleClusterBinding = (None, b', m') \<and>
    IsTrue (s_getter ClusterBinding_Setter b') ClusterBindingConditionSecretValid \<and>
    m' (''kube-bind'', ''kubeconfig'') = None \<and>
    m' (''kubeconfig'', ''kube-bind'') = Some (newConsumerSecret ''kube-bind'' ''kubeconfig'' exampleProviderSecret)"
  by (rule consumer_secret_misplaced) (simp_all add: exampleProviderSecret_def exampleClusterBinding_def)

end
