(* ===== verification/Konnector.thy ===== *)
theory Konnector
  imports Service_Binding
begin

text \<open>
  The top-level controller of the konnector (\<open>src/pkg/konnector/konnector_reconcile.go\<close> and
  \<open>konnector_controller.go\<close>): it starts one cluster controller per kubeconfig and shares it
  between the bindings that use it. A \<open>controllerContext\<close> is shared by pointer, so contexts
  live in a heap and the map of the reconciler holds addresses. Each operation runs under the lock and
  is one step. Go iterates over a map in any order: the order of an iteration is an argument. The
  lemmas establish the invariant of the sharing, its independence of that order, and what the filter
  function that a cluster controller was started with answers later.
\<close>

section \<open>The reconciler\<close>

text \<open>
  The function \<open>reconcileServiceBinding\<close> a controller is started with: the one of a heartbeat
  controller has captured its context, the one of a binding looks the context up by the name of that
  binding whenever it is called.
\<close>

datatype binding_filter = ByContext | ByName string

record controllerContext =
  cx_kubeconfig :: string
  cx_serviceBindings :: "string set"
  cx_cancelled :: bool
  cx_started :: bool
  cx_filter :: binding_filter

record konnector =
  kn_controllers :: "string \<rightharpoonup> nat"
  kn_heap :: "controllerContext list"

record 'w konnector_env =
  ke_getSecret :: "'w \<Rightarrow> string \<Rightarrow> string \<Rightarrow> Secret result"
  ke_Load :: "string \<Rightarrow> kubeconfig result"
  ke_RESTConfigFromKubeConfig :: "string \<Rightarrow> error option"
  ke_newClusterController :: "'w \<Rightarrow> string \<Rightarrow> string \<Rightarrow> error option \<times> 'w"

text \<open>Both operations extract the provider namespace of a kubeconfig in the same steps.\<close>

definition kubeconfigNamespace :: "'w konnector_env \<Rightarrow> string \<Rightarrow> string option" where
  "kubeconfigNamespace env kubeconfig =
     (case ke_Load env kubeconfig of
        Inl err \<Rightarrow> None
      | Inr cfg \<Rightarrow>
          (case Mapping.lookup (kc_Contexts cfg) (kc_CurrentContext cfg) of
             None \<Rightarrow> None
           | Some kubeContext \<Rightarrow>
               if kx_Namespace kubeContext = [] then None
               else (case ke_RESTConfigFromKubeConfig env kubeconfig of
                   Some err \<Rightarrow> None | None \<Rightarrow> Some (kx_Namespace kubeContext))))"

text \<open>The first context with the kubeconfig, in the order of the iteration.\<close>

fun findContext :: "konnector \<Rightarrow> string list \<Rightarrow> string \<Rightarrow> nat option" where
  "findContext st [] kubeconfig = None"
| "findContext st (n # ns) kubeconfig =
     (case kn_controllers st n of
        Some a \<Rightarrow> if cx_kubeconfig (kn_heap st ! a) = kubeconfig then Some a else findContext st ns kubeconfig
      | None \<Rightarrow> findContext st ns kubeconfig)"

definition updateContext :: "nat \<Rightarrow> (controllerContext \<Rightarrow> controllerContext) \<Rightarrow> konnector \<Rightarrow> konnector" where
  "updateContext a f st = st\<lparr>kn_heap := (kn_heap st)[a := f (kn_heap st ! a)]\<rparr>"

definition newContext :: "string \<Rightarrow> string \<Rightarrow> binding_filter \<Rightarrow> konnector \<Rightarrow> nat \<times> konnector" where
  "newContext name kubeconfig flt st =
     (length (kn_heap st),
      st\<lparr>kn_controllers := (kn_controllers st)(name \<mapsto> length (kn_heap st)),
         kn_heap := kn_heap st @ [\<lparr>cx_kubeconfig = kubeconfig, cx_serviceBindings = {name},
           cx_cancelled = False, cx_started = False, cx_filter = flt\<rparr>]\<rparr>)"

definition cancelContext :: "nat \<Rightarrow> konnector \<Rightarrow> konnector" where
  "cancelContext a = updateContext a (\<lambda>cx. cx\<lparr>cx_cancelled := True\<rparr>)"

definition startContext :: "nat \<Rightarrow> konnector \<Rightarrow> konnector" where
  "startContext a = updateContext a (\<lambda>cx. cx\<lparr>cx_started := True\<rparr>)"

definition heartbeatKey :: "Secret \<Rightarrow> string" where
  "heartbeatKey secret = ''__heartbeat__'' @ m_Name (sec_meta secret)"

definition startClusterControllerForSecret ::
  "'w konnector_env \<Rightarrow> string list \<Rightarrow> Secret \<Rightarrow> 'w \<times> konnector \<Rightarrow> error option \<times> ('w \<times> konnector)" where
  "startClusterControllerForSecret env order secret wst =
     (case wst of (w, st) \<Rightarrow>
        let kubeconfig = mget (sec_Data secret) ''kubeconfig''
        in if kubeconfig = [] then (None, (w, st))
           else if findContext st order kubeconfig \<noteq> None then (None, (w, st))
           else (case kubeconfigNamespace env kubeconfig of
               None \<Rightarrow> (None, (w, st))
             | Some providerNamespace \<Rightarrow>
                 (case newContext (heartbeatKey secret) kubeconfig ByContext st of
                    (a, st1) \<Rightarrow>
                      (case ke_newClusterController env w
                              (m_Namespace (sec_meta secret) @ ''/'' @ m_Name (sec_meta secret)) providerNamespace of
                         (Some err, w1) \<Rightarrow>
                           (Some err, (w1, (cancelContext a st1)\<lparr>kn_controllers :=
                              (kn_controllers st1)(heartbeatKey secret := None)\<rparr>))
                       | (None, w1) \<Rightarrow> (None, (w1, startContext a st1))))))"

text \<open>Leaving a context whose kubeconfig is outdated: the last binding to leave cancels it.\<close>

definition leaveContext :: "string \<Rightarrow> string \<Rightarrow> konnector \<Rightarrow> konnector" where
  "leaveContext name kubeconfig st =
     (case kn_controllers st name of
        None \<Rightarrow> st
      | Some a \<Rightarrow>
          if cx_kubeconfig (kn_heap st ! a) = kubeconfig then st
          else
            let rest = cx_serviceBindings (kn_heap st ! a) - {name};
                st1 = updateContext a (\<lambda>cx. cx\<lparr>cx_serviceBindings := rest\<rparr>) st;
                st2 = (if rest = {} then cancelContext a st1 else st1)
            in st2\<lparr>kn_controllers := (kn_controllers st2)(name := None)\<rparr>)"

definition joinContext :: "string \<Rightarrow> nat \<Rightarrow> konnector \<Rightarrow> konnector" where
  "joinContext name a st =
     (updateContext a (\<lambda>cx. cx\<lparr>cx_serviceBindings := insert name (cx_serviceBindings cx)\<rparr>) st)
       \<lparr>kn_controllers := (kn_controllers st)(name \<mapsto> a)\<rparr>"

text \<open>
  An unreadable secret is an error; a missing one is an empty kubeconfig. When the construction of a
  new controller fails, its context stays in the map.
\<close>

definition konnector_reconcile ::
  "'w konnector_env \<Rightarrow> string list \<Rightarrow> APIServiceBinding \<Rightarrow> 'w \<times> konnector \<Rightarrow> error option \<times> ('w \<times> konnector)" where
  "konnector_reconcile env order binding wst =
     (case wst of (w, st) \<Rightarrow>
        let ref = bds_KubeconfigSecretRef (bd_Spec binding); name = bindingName binding;
            run = (\<lambda>kubeconfig.
              let st1 = leaveContext name kubeconfig st
              in if kubeconfig = [] then (None, (w, st1))
                 else (case findContext st1 order kubeconfig of
                     Some a \<Rightarrow> (None, (w, joinContext name a st1))
                   | None \<Rightarrow>
                       (case kubeconfigNamespace env kubeconfig of
                          None \<Rightarrow> (None, (w, st1))
                        | Some providerNamespace \<Rightarrow>
                            (case newContext name kubeconfig (ByName name) st1 of
                               (a, st2) \<Rightarrow>
                                 (case ke_newClusterController env w
                                         (ck_Namespace ref @ ''/'' @ ck_Name ref) providerNamespace of
                                    (Some err, w1) \<Rightarrow> (Some err, (w1, st2))
                                  | (None, w1) \<Rightarrow> (None, (w1, startContext a st2)))))))
        in case ke_getSecret env w (ck_Namespace ref) (ck_Name ref) of
             Inl err \<Rightarrow> if IsNotFound err then run [] else (Some err, (w, st))
           | Inr secret \<Rightarrow> run (mget (sec_Data secret) (ck_Key ref)))"

text \<open>Calling the filter of a running controller; a missing entry of the map is a nil pointer.\<close>

definition reconcileServiceBinding :: "konnector \<Rightarrow> nat \<Rightarrow> APIServiceBinding \<Rightarrow> bool outcome" where
  "reconcileServiceBinding st a svcBinding =
     (case cx_filter (kn_heap st ! a) of
        ByContext \<Rightarrow> Returns (bindingName svcBinding \<in> cx_serviceBindings (kn_heap st ! a))
      | ByName n \<Rightarrow>
          (case kn_controllers st n of
             None \<Rightarrow> Panic ''invalid memory address or nil pointer dereference''
           | Some a' \<Rightarrow> Returns (bindingName svcBinding \<in> cx_serviceBindings (kn_heap st ! a'))))"

section \<open>The controller\<close>

record ('w, 'e) konnector_controller =
  nc_queue :: "('w \<times> konnector) Queue"
  nc_keys :: "'e KeyFuncs"
  nc_asSecret :: "'e \<Rightarrow> Secret option"
  nc_bindingKey :: "APIServiceBinding \<Rightarrow> string result"
  nc_bindingGet :: "'w \<Rightarrow> string \<Rightarrow> APIServiceBinding result"
  nc_bindingsBySecret :: "'w \<Rightarrow> string \<Rightarrow> APIServiceBinding list result"
  nc_secretGet :: "'w \<Rightarrow> string \<Rightarrow> string \<Rightarrow> Secret result"
  nc_patcher :: "(APIServiceBindingSpec, APIServiceBindingStatus, 'w) Patcher"

definition LabelProviderKubeconfig :: string where
  "LabelProviderKubeconfig = ''kube-bind.io/provider-kubeconfig''"

definition heartbeatSecretPrefix :: string where
  "heartbeatSecretPrefix = ''__heartbeat_secret__''"

definition konnector_enqueueServiceBinding ::
  "('w, 'e) konnector_controller \<Rightarrow> 'w \<times> konnector \<Rightarrow> 'e \<Rightarrow> 'w \<times> konnector" where
  "konnector_enqueueServiceBinding c wst ob =
     (case kf_DeletionHandlingMetaNamespaceKeyFunc (nc_keys c) ob of
        Inl err \<Rightarrow> wst | Inr key \<Rightarrow> q_Add (nc_queue c) key wst)"

definition enqueueSecret :: "('w, 'e) konnector_controller \<Rightarrow> 'w \<times> konnector \<Rightarrow> 'e \<Rightarrow> 'w \<times> konnector" where
  "enqueueSecret c wst ob =
     (case kf_DeletionHandlingMetaNamespaceKeyFunc (nc_keys c) ob of
        Inl err \<Rightarrow> wst
      | Inr key \<Rightarrow>
          (case kf_SplitMetaNamespaceKey (nc_keys c) key of
             Inl err \<Rightarrow> wst
           | Inr (ns, name) \<Rightarrow>
               let wst1 = (case nc_asSecret c ob of
                     None \<Rightarrow> wst
                   | Some secret \<Rightarrow>
                       if mget (m_Labels (sec_meta secret)) LabelProviderKubeconfig = ''true''
                       then q_Add (nc_queue c) (''__heartbeat_secret__'' @ key) wst else wst)
               in case nc_bindingsBySecret c (fst wst1) (ns @ ''/'' @ name) of
                    Inl err \<Rightarrow> wst1
                  | Inr bindings \<Rightarrow> enqueueAll (nc_queue c) (nc_bindingKey c) bindings wst1))"

definition konnector_process ::
  "('w, 'e) konnector_controller \<Rightarrow> 'w konnector_env \<Rightarrow> string list \<Rightarrow> 'w \<times> konnector \<Rightarrow> string \<Rightarrow>
     (error option \<times> ('w \<times> konnector)) outcome" where
  "konnector_process c env order wst key =
     (if HasPrefix key heartbeatSecretPrefix
      then (case kf_SplitMetaNamespaceKey (nc_keys c) (TrimPrefix key heartbeatSecretPrefix) of
          Inl err \<Rightarrow> Returns (None, wst)
        | Inr (ns, name) \<Rightarrow>
            (case nc_secretGet c (fst wst) ns name of
               Inl err \<Rightarrow> if IsNotFound err then Returns (None, wst) else Returns (Some err, wst)
             | Inr secret \<Rightarrow> Returns (startClusterControllerForSecret env order secret wst)))
      else (case kf_SplitMetaNamespaceKey (nc_keys c) key of
          Inl err \<Rightarrow> Returns (None, wst)
        | Inr (_, name) \<Rightarrow>
            (case nc_bindingGet c (fst wst) name of
               Inl err \<Rightarrow> if \<not> IsNotFound err then Returns (Some err, wst) else Returns (None, wst)
             | Inr ob \<Rightarrow>
                 (case konnector_reconcile env order ob wst of
                    (e, (w1, st1)) \<Rightarrow>
                      (case commitAfter (nc_patcher c) e w1 (bindingResource ob) (bindingResource ob) of
                         Panic m \<Rightarrow> Panic m
                       | Returns (e2, w2) \<Rightarrow> Returns (e2, (w2, st1)))))))"

section \<open>Steps\<close>

text \<open>
  The reconciler as a state machine: reconciliations of bindings and starts for labelled secrets, in
  any interleaving and with any world, each with some order that enumerates the map.
\<close>

inductive konn_step :: "'w konnector_env \<Rightarrow> konnector \<Rightarrow> konnector \<Rightarrow> bool" for env where
  Reconcile: "dom (kn_controllers st) \<subseteq> set order \<Longrightarrow>
    konnector_reconcile env order binding (w, st) = (e, (w', st')) \<Longrightarrow> konn_step env st st'"
| Heartbeat: "dom (kn_controllers st) \<subseteq> set order \<Longrightarrow>
    startClusterControllerForSecret env order secret (w, st) = (e, (w', st')) \<Longrightarrow> konn_step env st st'"

inductive_cases konn_stepE: "konn_step env st st'"

definition konn_init :: konnector where
  "konn_init = \<lparr>kn_controllers = Map.empty, kn_heap = []\<rparr>"

abbreviation konn_reachable :: "'w konnector_env \<Rightarrow> konnector \<Rightarrow> bool" where
  "konn_reachable env st \<equiv> (konn_step env)\<^sup>*\<^sup>* konn_init st"

text \<open>
  The invariant of the sharing: a name in the map points to a context that is not cancelled and that
  has the name among its bindings, and contexts in the map that have the same kubeconfig are the same.
\<close>

definition konn_ok :: "konnector \<Rightarrow> bool" where
  "konn_ok st \<longleftrightarrow>
     (\<forall>n a. kn_controllers st n = Some a \<longrightarrow> a < length (kn_heap st) \<and>
        n \<in> cx_serviceBindings (kn_heap st ! a) \<and> \<not> cx_cancelled (kn_heap st ! a)) \<and>
     (\<forall>n m a b. kn_controllers st n = Some a \<longrightarrow> kn_controllers st m = Some b \<longrightarrow>
        cx_kubeconfig (kn_heap st ! a) = cx_kubeconfig (kn_heap st ! b) \<longrightarrow> a = b)"

section \<open>Lemmas\<close>

lemmas context_defs = updateContext_def cancelContext_def startContext_def newContext_def joinContext_def

lemma konn_okI:
  assumes "\<And>n a. kn_controllers st n = Some a \<Longrightarrow> a < length (kn_heap st) \<and>
        n \<in> cx_serviceBindings (kn_heap st ! a) \<and> \<not> cx_cancelled (kn_heap st ! a)"
    and "\<And>n m a b. kn_controllers st n = Some a \<Longrightarrow> kn_controllers st m = Some b \<Longrightarrow>
        cx_kubeconfig (kn_heap st ! a) = cx_kubeconfig (kn_heap st ! b) \<Longrightarrow> a = b"
  shows "konn_ok st"
  using assms unfolding konn_ok_def by blast

lemma konn_okD:
  assumes "konn_ok st" "kn_controllers st n = Some a"
  shows "a < length (kn_heap st)" "n \<in> cx_serviceBindings (kn_heap st ! a)" "\<not> cx_cancelled (kn_heap st ! a)"
    and "kn_controllers st m = Some b \<Longrightarrow>
      cx_kubeconfig (kn_heap st ! a) = cx_kubeconfig (kn_heap st ! b) \<Longrightarrow> a = b"
  using assms unfolding konn_ok_def by blast+

lemma konn_ok_init: "konn_ok konn_init"
  by (rule konn_okI) (simp_all add: konn_init_def)

lemma findContext_Some:
  "findContext st order k = Some a \<Longrightarrow>
     \<exists>n \<in> set order. kn_controllers st n = Some a \<and> cx_kubeconfig (kn_heap st ! a) = k"
  by (induction order) (auto split: option.splits if_splits)

lemma findContext_None:
  "findContext st order k = None \<Longrightarrow> n \<in> set order \<Longrightarrow> kn_controllers st n = Some a \<Longrightarrow>
     cx_kubeconfig (kn_heap st ! a) \<noteq> k"
  by (induction order) (auto split: option.splits if_splits)

lemma findContext_unique:
  assumes "konn_ok st" "dom (kn_controllers st) \<subseteq> set order"
    and "kn_controllers st n = Some a" "cx_kubeconfig (kn_heap st ! a) = k"
  shows "findContext st order k = Some a"
proof (cases "findContext st order k")
  case None
  then show ?thesis using findContext_None [OF None, of n a] assms(2-4) by auto
next
  case (Some b)
  then show ?thesis using findContext_Some [OF Some] konn_okD(4) [OF assms(1,3)] assms(4) by metis
qed

text \<open>The choice of the context does not depend on the order of the iteration.\<close>

lemma findContext_order:
  assumes "konn_ok st" "dom (kn_controllers st) \<subseteq> set order" "dom (kn_controllers st) \<subseteq> set order'"
  shows "findContext st order k = findContext st order' k"
proof (cases "findContext st order' k")
  case (Some a)
  then show ?thesis using findContext_Some [OF Some] findContext_unique [OF assms(1,2)] by auto
next
  case None
  note none = this
  show ?thesis
  proof (cases "findContext st order k")
    case (Some a)
    then show ?thesis using findContext_Some [OF Some] findContext_None [OF none] assms(3) by fastforce
  qed (simp add: none)
qed

lemma leaveContext_controllers:
  "kn_controllers (leaveContext n k st) =
     (case kn_controllers st n of
        None \<Rightarrow> kn_controllers st
      | Some a \<Rightarrow> if cx_kubeconfig (kn_heap st ! a) = k then kn_controllers st
                 else (kn_controllers st)(n := None))"
  by (simp add: leaveContext_def Let_def context_defs split: option.split)

lemma leaveContext_dom: "dom (kn_controllers (leaveContext n k st)) \<subseteq> dom (kn_controllers st)"
  by (auto simp: leaveContext_controllers split: option.splits if_splits)

lemma leaveContext_left:
  assumes "kn_controllers st n = Some a" "cx_kubeconfig (kn_heap st ! a) \<noteq> k" "a < length (kn_heap st)"
  shows "kn_heap (leaveContext n k st) = (kn_heap st)[a := (kn_heap st ! a)\<lparr>
     cx_serviceBindings := cx_serviceBindings (kn_heap st ! a) - {n},
     cx_cancelled := cx_cancelled (kn_heap st ! a) \<or> cx_serviceBindings (kn_heap st ! a) \<subseteq> {n}\<rparr>]"
  using assms by (auto simp: leaveContext_def Let_def context_defs)

lemma leaveContext_ok:
  assumes "konn_ok st"
  shows "konn_ok (leaveContext n k st)"
proof (cases "\<exists>a. kn_controllers st n = Some a \<and> cx_kubeconfig (kn_heap st ! a) \<noteq> k")
  case False
  then have "leaveContext n k st = st" by (auto simp: leaveContext_def split: option.split)
  with assms show ?thesis by simp
next
  case True
  then obtain a where a: "kn_controllers st n = Some a" "cx_kubeconfig (kn_heap st ! a) \<noteq> k" by blast
  note len = konn_okD(1) [OF assms a(1)]
  note heap = leaveContext_left [OF a len]
  have ctrl: "kn_controllers (leaveContext n k st) = (kn_controllers st)(n := None)"
    using a by (simp add: leaveContext_controllers)
  show ?thesis
  proof (rule konn_okI)
    fix m b
    assume "kn_controllers (leaveContext n k st) m = Some b"
    then have m: "m \<noteq> n" "kn_controllers st m = Some b" by (auto simp: ctrl split: if_splits)
    with konn_okD [OF assms m(2)] len
    show "b < length (kn_heap (leaveContext n k st)) \<and>
        m \<in> cx_serviceBindings (kn_heap (leaveContext n k st) ! b) \<and>
        \<not> cx_cancelled (kn_heap (leaveContext n k st) ! b)"
      by (cases "b = a") (auto simp: heap)
  next
    fix m m' b b'
    assume "kn_controllers (leaveContext n k st) m = Some b" "kn_controllers (leaveContext n k st) m' = Some b'"
      and eq: "cx_kubeconfig (kn_heap (leaveContext n k st) ! b) = cx_kubeconfig (kn_heap (leaveContext n k st) ! b')"
    then have m: "kn_controllers st m = Some b" "kn_controllers st m' = Some b'"
      by (auto simp: ctrl split: if_splits)
    have "cx_kubeconfig (kn_heap (leaveContext n k st) ! c) = cx_kubeconfig (kn_heap st ! c)" for c
      using len by (cases "c = a") (simp_all add: heap)
    with eq show "b = b'" using konn_okD(4) [OF assms m(1) m(2)] by simp
  qed
qed

text \<open>Updates that keep kubeconfig, cancellation and the bindings of a context keep the invariant.\<close>

lemma nth_updateContext:
  "kn_heap (updateContext a f st) ! b =
     (if b = a \<and> a < length (kn_heap st) then f (kn_heap st ! a) else kn_heap st ! b)"
  by (cases "a < length (kn_heap st)") (auto simp: updateContext_def nth_list_update list_update_beyond)

lemma updateContext_ok:
  assumes "konn_ok st" "\<And>cx. cx_kubeconfig (f cx) = cx_kubeconfig cx"
    and "\<And>cx. cx_cancelled (f cx) = cx_cancelled cx" "\<And>cx. cx_serviceBindings cx \<subseteq> cx_serviceBindings (f cx)"
  shows "konn_ok (updateContext a f st)"
proof -
  have ctrl: "kn_controllers (updateContext a f st) = kn_controllers st"
    and len: "length (kn_heap (updateContext a f st)) = length (kn_heap st)"
    by (simp_all add: updateContext_def)
  show ?thesis
  proof (rule konn_okI)
    fix n b assume "kn_controllers (updateContext a f st) n = Some b"
    with konn_okD [OF assms(1), of n b] assms(3) assms(4) [THEN subsetD, of n "kn_heap st ! b"]
    show "b < length (kn_heap (updateContext a f st)) \<and> n \<in> cx_serviceBindings (kn_heap (updateContext a f st) ! b) \<and>
       \<not> cx_cancelled (kn_heap (updateContext a f st) ! b)"
      by (auto simp: nth_updateContext ctrl len)
  next
    fix n m b c
    assume "kn_controllers (updateContext a f st) n = Some b" "kn_controllers (updateContext a f st) m = Some c"
      "cx_kubeconfig (kn_heap (updateContext a f st) ! b) = cx_kubeconfig (kn_heap (updateContext a f st) ! c)"
    then show "b = c"
      using konn_okD(4) [OF assms(1), of n b m c] assms(2) by (auto simp: nth_updateContext ctrl split: if_splits)
  qed
qed

lemma joinContext_ok:
  assumes "konn_ok st" "kn_controllers st m = Some a"
  shows "konn_ok (joinContext n a st)"
proof -
  let ?st = "updateContext a (\<lambda>cx. cx\<lparr>cx_serviceBindings := insert n (cx_serviceBindings cx)\<rparr>) st"
  have ok: "konn_ok ?st" by (rule updateContext_ok [OF assms(1)]) auto
  have ctrl: "kn_controllers ?st = kn_controllers st" by (simp add: updateContext_def)
  have a: "a < length (kn_heap st)" "\<not> cx_cancelled (kn_heap st ! a)" using konn_okD [OF assms] by auto
  have join: "joinContext n a st = ?st\<lparr>kn_controllers := (kn_controllers st)(n \<mapsto> a)\<rparr>"
    by (simp add: joinContext_def)
  show ?thesis
  proof (rule konn_okI)
    fix l b assume "kn_controllers (joinContext n a st) l = Some b"
    then show "b < length (kn_heap (joinContext n a st)) \<and> l \<in> cx_serviceBindings (kn_heap (joinContext n a st) ! b) \<and>
       \<not> cx_cancelled (kn_heap (joinContext n a st) ! b)"
      using konn_okD [OF ok, of l b] a by (cases "l = n") (auto simp: joinContext_def updateContext_def)
  next
    fix l l' b c
    assume *: "kn_controllers (joinContext n a st) l = Some b" "kn_controllers (joinContext n a st) l' = Some c"
      "cx_kubeconfig (kn_heap (joinContext n a st) ! b) = cx_kubeconfig (kn_heap (joinContext n a st) ! c)"
    have "\<exists>l. kn_controllers ?st l = Some b" "\<exists>l. kn_controllers ?st l = Some c"
      using *(1,2) assms(2) by (auto simp: join ctrl split: if_splits)
    then show "b = c" using konn_okD(4) [OF ok] *(3) by (auto simp: join)
  qed
qed

lemma newContext_ok:
  assumes "konn_ok st" "newContext n k flt st = (a, st')"
    and "\<And>m b. kn_controllers st m = Some b \<Longrightarrow> cx_kubeconfig (kn_heap st ! b) \<noteq> k"
  shows "konn_ok st'"
proof (rule konn_okI)
  fix m b assume "kn_controllers st' m = Some b"
  then show "b < length (kn_heap st') \<and> m \<in> cx_serviceBindings (kn_heap st' ! b) \<and> \<not> cx_cancelled (kn_heap st' ! b)"
    using assms(2) konn_okD [OF assms(1), of m b]
    by (cases "m = n") (auto simp: newContext_def nth_append)
next
  fix m m' b c
  assume "kn_controllers st' m = Some b" "kn_controllers st' m' = Some c"
    "cx_kubeconfig (kn_heap st' ! b) = cx_kubeconfig (kn_heap st' ! c)"
  then show "b = c"
    using assms(2) konn_okD(1) [OF assms(1)] konn_okD(4) [OF assms(1), of m b m' c]
    by (auto simp: newContext_def nth_append split: if_splits dest: assms(3))
qed

lemma cancelContext_ok:
  assumes "konn_ok st" "\<And>n b. kn_controllers st n = Some b \<Longrightarrow> b \<noteq> a"
  shows "konn_ok (cancelContext a st)"
proof -
  have "kn_heap (cancelContext a st) ! b = kn_heap st ! b" if "kn_controllers st n = Some b" for n b
    using assms(2) [OF that] by (simp add: cancelContext_def updateContext_def)
  moreover have "kn_controllers (cancelContext a st) = kn_controllers st"
    "length (kn_heap (cancelContext a st)) = length (kn_heap st)"
    by (simp_all add: cancelContext_def updateContext_def)
  ultimately show ?thesis using assms(1) unfolding konn_ok_def by metis
qed

lemma dropName_ok:
  assumes "konn_ok st"
  shows "konn_ok (st\<lparr>kn_controllers := (kn_controllers st)(n := None)\<rparr>)"
  by (rule konn_okI) (use assms in \<open>auto dest: konn_okD split: if_splits\<close>)

text \<open>
  A reconciliation in cases: the secret cannot be read; the kubeconfig is empty; a context of the
  kubeconfig is there; the kubeconfig is not usable; or a new controller is built.
\<close>

abbreviation secretRefOf :: "APIServiceBinding \<Rightarrow> ClusterSecretKeyRef" where
  "secretRefOf b \<equiv> bds_KubeconfigSecretRef (bd_Spec b)"

definition bindingKubeconfig :: "'w konnector_env \<Rightarrow> 'w \<Rightarrow> APIServiceBinding \<Rightarrow> string result" where
  "bindingKubeconfig env w b =
     (case ke_getSecret env w (ck_Namespace (secretRefOf b)) (ck_Name (secretRefOf b)) of
        Inl err \<Rightarrow> if IsNotFound err then Inr [] else Inl err
      | Inr secret \<Rightarrow> Inr (mget (sec_Data secret) (ck_Key (secretRefOf b))))"

lemma konnector_reconcile_cases:
  "konnector_reconcile env order b (w, st) =
     (case bindingKubeconfig env w b of
        Inl err \<Rightarrow> (Some err, (w, st))
      | Inr k \<Rightarrow>
          (let st1 = leaveContext (bindingName b) k st
           in if k = [] then (None, (w, st1))
              else (case findContext st1 order k of
                  Some a \<Rightarrow> (None, (w, joinContext (bindingName b) a st1))
                | None \<Rightarrow>
                    (case kubeconfigNamespace env k of
                       None \<Rightarrow> (None, (w, st1))
                     | Some pns \<Rightarrow>
                         (case newContext (bindingName b) k (ByName (bindingName b)) st1 of
                            (a, st2) \<Rightarrow>
                              (case ke_newClusterController env w
                                      (ck_Namespace (secretRefOf b) @ ''/'' @ ck_Name (secretRefOf b)) pns of
                                 (Some err, w1) \<Rightarrow> (Some err, (w1, st2))
                               | (None, w1) \<Rightarrow> (None, (w1, startContext a st2))))))))"
  by (simp add: konnector_reconcile_def bindingKubeconfig_def Let_def split: sum.split)

lemma startContext_ok: "konn_ok st \<Longrightarrow> konn_ok (startContext a st)"
  unfolding startContext_def by (rule updateContext_ok) auto

lemma konnector_reconcile_ok:
  assumes "konn_ok st" "dom (kn_controllers st) \<subseteq> set order"
    and "konnector_reconcile env order b (w, st) = (e, (w', st'))"
  shows "konn_ok st'"
proof (cases "bindingKubeconfig env w b")
  case (Inl err)
  with assms show ?thesis by (simp add: konnector_reconcile_cases)
next
  case (Inr k)
  let ?st1 = "leaveContext (bindingName b) k st"
  have ok: "konn_ok ?st1" by (rule leaveContext_ok [OF assms(1)])
  have dom: "dom (kn_controllers ?st1) \<subseteq> set order"
    using leaveContext_dom assms(2) by (rule order_trans)
  show ?thesis
  proof (cases "findContext ?st1 order k")
    case (Some a)
    then obtain n where "kn_controllers ?st1 n = Some a" using findContext_Some by metis
    with Inr Some assms(3) ok joinContext_ok [OF ok this] show ?thesis
      by (auto simp: konnector_reconcile_cases Let_def split: if_splits)
  next
    case None
    obtain a st2 where new: "newContext (bindingName b) k (ByName (bindingName b)) ?st1 = (a, st2)"
      by fastforce
    have "konn_ok st2"
      using newContext_ok [OF ok new] findContext_None [OF None] dom by blast
    with Inr None assms(3) ok new startContext_ok [of st2 a] show ?thesis
      by (auto simp: konnector_reconcile_cases Let_def split: if_splits option.splits prod.splits)
  qed
qed

lemma heartbeat_ok:
  assumes "konn_ok st" "dom (kn_controllers st) \<subseteq> set order"
    and "startClusterControllerForSecret env order secret (w, st) = (e, (w', st'))"
  shows "konn_ok st'"
proof (cases "findContext st order (mget (sec_Data secret) ''kubeconfig'')")
  case (Some a)
  with assms show ?thesis
    by (auto simp: startClusterControllerForSecret_def Let_def split: if_splits)
next
  case None
  let ?k = "mget (sec_Data secret) ''kubeconfig''" and ?n = "heartbeatKey secret"
  obtain a st1 where new: "newContext ?n ?k ByContext st = (a, st1)" by fastforce
  have ok: "konn_ok st1" using newContext_ok [OF assms(1) new] findContext_None [OF None] assms(2) by blast
  have dropped: "kn_controllers st1 m = Some b \<Longrightarrow> m \<noteq> ?n \<Longrightarrow> b \<noteq> a" for m b
    using new konn_okD(1) [OF assms(1), of m b] by (auto simp: newContext_def split: if_splits)
  have "konn_ok (cancelContext a (st1\<lparr>kn_controllers := (kn_controllers st1)(?n := None)\<rparr>))"
    by (rule cancelContext_ok [OF dropName_ok [OF ok]]) (auto dest: dropped split: if_splits)
  then have failed: "konn_ok ((cancelContext a st1)\<lparr>kn_controllers := (kn_controllers st1)(?n := None)\<rparr>)"
    by (cases st1) (simp add: cancelContext_def updateContext_def)
  from None assms(1,3) new ok failed startContext_ok [OF ok, of a] show ?thesis
    by (auto simp: startClusterControllerForSecret_def Let_def split: if_splits option.splits prod.splits)
qed

lemma konn_step_ok: "konn_step env st st' \<Longrightarrow> konn_ok st \<Longrightarrow> konn_ok st'"
  by (erule konn_stepE) (blast intro: konnector_reconcile_ok heartbeat_ok)+

lemma joinContext_again:
  assumes "kn_controllers st n = Some a" "n \<in> cx_serviceBindings (kn_heap st ! a)"
  shows "joinContext n a st = st"
proof -
  have "insert n (cx_serviceBindings (kn_heap st ! a)) = cx_serviceBindings (kn_heap st ! a)"
    using assms(2) by blast
  moreover have "(kn_controllers st)(n \<mapsto> a) = kn_controllers st" using assms(1) by auto
  ultimately show ?thesis by (simp add: joinContext_def updateContext_def)
qed

lemma leaveContext_stay:
  "kn_controllers st n = Some a \<Longrightarrow> cx_kubeconfig (kn_heap st ! a) = k \<Longrightarrow> leaveContext n k st = st"
  by (simp add: leaveContext_def)

text \<open>Two bindings and the kubeconfig of their secrets, for the examples.\<close>

definition exampleEnv :: "bool \<Rightarrow> (string \<Rightarrow> string option) konnector_env" where
  "exampleEnv fails =
     \<lparr>ke_getSecret = (\<lambda>w ns n. case w n of
         None \<Rightarrow> Inl (StatusError ReasonNotFound ''no secret'')
       | Some k \<Rightarrow> Inr \<lparr>sec_meta = emptyMeta, sec_Data = Mapping.update ''kubeconfig'' k Mapping.empty, sec_Type = []\<rparr>),
      ke_Load = (\<lambda>k. Inr \<lparr>kc_Contexts = Mapping.update ''c'' \<lparr>kx_Namespace = ''cluster-a''\<rparr> Mapping.empty,
         kc_CurrentContext = ''c''\<rparr>),
      ke_RESTConfigFromKubeConfig = (\<lambda>k. None),
      ke_newClusterController = (\<lambda>w key ns. (if fails then Some (PlainError ''unreachable'') else None, w))\<rparr>"

definition namedBinding :: "string \<Rightarrow> APIServiceBinding" where
  "namedBinding n = exampleBinding\<lparr>bd_meta := emptyMeta\<lparr>m_Name := n\<rparr>,
     bd_Spec := \<lparr>bds_KubeconfigSecretRef = \<lparr>ck_Name = n, ck_Key = ''kubeconfig'', ck_Namespace = ''kube-bind''\<rparr>\<rparr>\<rparr>"

lemma namedBinding_simps [simp]:
  "bindingName (namedBinding n) = n"
  "bindingKubeconfig (exampleEnv fails) w (namedBinding n) = Inr (case w n of None \<Rightarrow> [] | Some k \<Rightarrow> k)"
  "kubeconfigNamespace (exampleEnv fails) k = Some ''cluster-a''"
  "ke_newClusterController (exampleEnv fails) w key ns = (if fails then Some (PlainError ''unreachable'') else None, w)"
  by (simp_all add: namedBinding_def bindingKubeconfig_def exampleEnv_def kubeconfigNamespace_def split: option.split)

abbreviation sharedSecrets :: "string \<Rightarrow> string option" where
  "sharedSecrets \<equiv> (\<lambda>n. Some ''k'')"

definition twoBindings :: konnector where
  "twoBindings = \<lparr>kn_controllers = [''a'' \<mapsto> 0, ''b'' \<mapsto> 0],
     kn_heap = [\<lparr>cx_kubeconfig = ''k'', cx_serviceBindings = {''a'', ''b''}, cx_cancelled = False,
       cx_started = True, cx_filter = ByName ''a''\<rparr>]\<rparr>"

definition oneBinding :: konnector where
  "oneBinding = \<lparr>kn_controllers = [''a'' \<mapsto> 0],
     kn_heap = [\<lparr>cx_kubeconfig = ''k'', cx_serviceBindings = {''a''}, cx_cancelled = False,
       cx_started = True, cx_filter = ByName ''a''\<rparr>]\<rparr>"

lemma run_a: "konnector_reconcile (exampleEnv False) [] (namedBinding ''a'') (sharedSecrets, konn_init) =
    (None, (sharedSecrets, oneBinding))"
  by (simp add: konnector_reconcile_cases leaveContext_def konn_init_def oneBinding_def context_defs)

lemma run_b: "konnector_reconcile (exampleEnv False) [''a''] (namedBinding ''b'') (sharedSecrets, oneBinding) =
    (None, (sharedSecrets, twoBindings))"
  by (simp add: konnector_reconcile_cases leaveContext_def oneBinding_def twoBindings_def context_defs insert_commute)

lemma twoBindings_reachable: "konn_reachable (exampleEnv False) twoBindings"
proof -
  have "konn_step (exampleEnv False) konn_init oneBinding"
    by (rule konn_step.Reconcile [OF _ run_a]) (simp add: konn_init_def)
  moreover have "konn_step (exampleEnv False) oneBinding twoBindings"
    by (rule konn_step.Reconcile [OF _ run_b]) (simp add: oneBinding_def)
  ultimately show ?thesis by (meson rtranclp.rtrancl_into_rtrancl rtranclp.rtrancl_refl)
qed

lemma reachable_ok: "konn_reachable env st \<Longrightarrow> konn_ok st"
  by (induction rule: rtranclp_induct) (auto simp: konn_ok_init intro: konn_step_ok)

section \<open>Properties\<close>

text \<open>
  C27: the sharing of cluster controllers. In every state that the konnector reaches by reconciling
  bindings and starting heartbeat controllers, in any order and with any failures, each name in its
  map belongs to a context that is not cancelled and that lists the name among its bindings, and
  there is one context per kubeconfig.
\<close>

theorem konnector_sharing:
  assumes "konn_reachable env st" "kn_controllers st n = Some a"
  shows "a < length (kn_heap st) \<and> n \<in> cx_serviceBindings (kn_heap st ! a) \<and> \<not> cx_cancelled (kn_heap st ! a) \<and>
    (\<forall>m b. kn_controllers st m = Some b \<longrightarrow>
      cx_kubeconfig (kn_heap st ! a) = cx_kubeconfig (kn_heap st ! b) \<longrightarrow> a = b)"
  using konn_okD [OF reachable_ok [OF assms(1)] assms(2)] by blast

theorem konnector_sharing_witness:
  "kn_controllers twoBindings ''b'' = Some 0 \<and> ''b'' \<in> cx_serviceBindings (kn_heap twoBindings ! 0)"
  using konnector_sharing [OF twoBindings_reachable, of "''b''" 0] by (simp add: twoBindings_def)

text \<open>
  C28: the result of a step does not depend on the order in which Go happens to iterate over the map
  of controllers: any two orders that enumerate the map give the same result, for reconciliations of
  bindings and for heartbeat starts.
\<close>

theorem konnector_order_irrelevant:
  assumes "konn_reachable env st"
    and "dom (kn_controllers st) \<subseteq> set order" "dom (kn_controllers st) \<subseteq> set order'"
  shows "konnector_reconcile env order b (w, st) = konnector_reconcile env order' b (w, st) \<and>
    startClusterControllerForSecret env order secret (w, st) =
      startClusterControllerForSecret env order' secret (w, st)"
proof
  note ok = reachable_ok [OF assms(1)]
  have "findContext (leaveContext n k st) order k = findContext (leaveContext n k st) order' k" for n k
    using assms(2,3) leaveContext_dom [of n k st] by (intro findContext_order leaveContext_ok ok) auto
  then show "konnector_reconcile env order b (w, st) = konnector_reconcile env order' b (w, st)"
    by (cases "bindingKubeconfig env w b") (simp_all add: konnector_reconcile_cases Let_def)
  show "startClusterControllerForSecret env order secret (w, st) =
      startClusterControllerForSecret env order' secret (w, st)"
    using findContext_order [OF ok assms(2,3)] by (simp add: startClusterControllerForSecret_def Let_def)
qed

theorem konnector_order_irrelevant_witness:
  "konnector_reconcile (exampleEnv False) [''a'', ''b''] (namedBinding ''c'') (sharedSecrets, twoBindings) =
   konnector_reconcile (exampleEnv False) [''b'', ''a''] (namedBinding ''c'') (sharedSecrets, twoBindings)"
  using konnector_order_irrelevant [OF twoBindings_reachable, of "[''a'', ''b'']" "[''b'', ''a'']"
      "namedBinding ''c''" sharedSecrets]
  by (auto simp: twoBindings_def)



text \<open>
  A controller that could not be built is never started. When the construction of a new cluster
  controller fails, the reconciliation returns the error and leaves the context in the map; the retry
  then finds a context with its kubeconfig, changes nothing and reports success, although the
  controller does not run.
\<close>

lemma konnector_start_lost:
  assumes "konn_reachable env st" "dom (kn_controllers st) \<subseteq> set order"
    and "bindingKubeconfig env w b = Inr k"
    and "konnector_reconcile env order b (w, st) = (Some err, (w', st'))"
    and "bindingKubeconfig env w2 b = Inr k" "dom (kn_controllers st') \<subseteq> set order2"
  shows "konnector_reconcile env order2 b (w2, st') = (None, (w2, st')) \<and>
    (\<exists>a. kn_controllers st' (bindingName b) = Some a \<and> \<not> cx_started (kn_heap st' ! a))"
proof -
  let ?n = "bindingName b" and ?st1 = "leaveContext (bindingName b) k st"
  have ok': "konn_ok st'" using konnector_reconcile_ok [OF reachable_ok [OF assms(1)] assms(2,4)] .
  from assms(3,4) have st': "st' = snd (newContext ?n k (ByName ?n) ?st1)" and k: "k \<noteq> []"
    by (auto simp: konnector_reconcile_cases Let_def split: if_splits option.splits prod.splits)
  define a where "a = length (kn_heap ?st1)"
  have a: "kn_controllers st' ?n = Some a" "cx_kubeconfig (kn_heap st' ! a) = k" "\<not> cx_started (kn_heap st' ! a)"
    by (simp_all add: st' newContext_def a_def nth_append)
  have "findContext st' order2 k = Some a" by (rule findContext_unique [OF ok' assms(6) a(1,2)])
  moreover have "joinContext ?n a st' = st'" by (rule joinContext_again [OF a(1) konn_okD(2) [OF ok' a(1)]])
  ultimately show ?thesis
    using a k leaveContext_stay [OF a(1,2)] assms(5) by (simp add: konnector_reconcile_cases)
qed

lemma konnector_start_lost_witness:
  "\<exists>err st'. konnector_reconcile (exampleEnv True) [] (namedBinding ''a'') (sharedSecrets, konn_init) =
      (Some err, (sharedSecrets, st')) \<and>
    konnector_reconcile (exampleEnv True) [''a''] (namedBinding ''a'') (sharedSecrets, st') =
      (None, (sharedSecrets, st'))"
proof -
  have run: "\<exists>st'. konnector_reconcile (exampleEnv True) [] (namedBinding ''a'') (sharedSecrets, konn_init) =
      (Some (PlainError ''unreachable''), (sharedSecrets, st')) \<and> dom (kn_controllers st') \<subseteq> set [''a'']"
    by (simp add: konnector_reconcile_cases leaveContext_def konn_init_def newContext_def)
  then obtain st' where st': "konnector_reconcile (exampleEnv True) [] (namedBinding ''a'') (sharedSecrets, konn_init) =
      (Some (PlainError ''unreachable''), (sharedSecrets, st'))" "dom (kn_controllers st') \<subseteq> set [''a'']" by blast
  from konnector_start_lost [OF _ _ _ st'(1), of "''k''" sharedSecrets "[''a'']"] st'
  show ?thesis by (auto simp: konn_init_def)
qed

text \<open>
  The filter of a shared controller panics after its first binding has left. If a controller was
  started for one binding and is shared by another one, and the kubeconfig secret of the first
  disappears, the controller goes on for the second, but its filter function dereferences a nil
  pointer for every binding it is asked about.
\<close>

lemma konnector_filter_panics:
  assumes "konn_reachable env st"
    and "kn_controllers st (bindingName b) = Some a" "kn_controllers st n = Some a" "n \<noteq> bindingName b"
    and "cx_filter (kn_heap st ! a) = ByName (bindingName b)" "cx_kubeconfig (kn_heap st ! a) \<noteq> []"
    and "bindingKubeconfig env w b = Inr []"
  shows "\<exists>st'. konnector_reconcile env order b (w, st) = (None, (w, st')) \<and> kn_controllers st' n = Some a \<and>
    \<not> cx_cancelled (kn_heap st' ! a) \<and> cx_started (kn_heap st' ! a) = cx_started (kn_heap st ! a) \<and>
    (\<forall>svcBinding. \<exists>m. reconcileServiceBinding st' a svcBinding = Panic m)"
proof -
  note ok = reachable_ok [OF assms(1)]
  let ?st' = "leaveContext (bindingName b) [] st"
  have len: "a < length (kn_heap st)" using konn_okD(1) [OF ok assms(2)] .
  have "n \<in> cx_serviceBindings (kn_heap st ! a)" using konn_okD(2) [OF ok assms(3)] .
  then have "\<not> cx_serviceBindings (kn_heap st ! a) \<subseteq> {bindingName b}" using assms(4) by blast
  with leaveContext_left [OF assms(2,6) len] konn_okD(3) [OF ok assms(2)] len
  have heap: "\<not> cx_cancelled (kn_heap ?st' ! a)" "cx_started (kn_heap ?st' ! a) = cx_started (kn_heap st ! a)"
    "cx_filter (kn_heap ?st' ! a) = ByName (bindingName b)"
    using assms(5) by simp_all
  moreover have "kn_controllers ?st' = (kn_controllers st)(bindingName b := None)"
    using assms(2,6) by (simp add: leaveContext_controllers)
  ultimately show ?thesis
    using assms(3,4,7) by (simp add: konnector_reconcile_cases reconcileServiceBinding_def)
qed

lemma konnector_filter_panics_witness:
  "\<exists>st'. konnector_reconcile (exampleEnv False) [''a'', ''b''] (namedBinding ''a'') (sharedSecrets(''a'' := None), twoBindings) =
      (None, (sharedSecrets(''a'' := None), st')) \<and> kn_controllers st' ''b'' = Some 0 \<and>
    \<not> cx_cancelled (kn_heap st' ! 0) \<and> cx_started (kn_heap st' ! 0) = cx_started (kn_heap twoBindings ! 0) \<and>
    (\<forall>svcBinding. \<exists>m. reconcileServiceBinding st' 0 svcBinding = Panic m)"
  by (rule konnector_filter_panics [OF twoBindings_reachable]) (simp_all add: twoBindings_def)

end
