(* ===== verification/Binding_Bundle.thy ===== *)
theory Binding_Bundle
  imports Service_Binding
begin

text \<open>
  Bundles of bindings (\<open>src/pkg/konnector/controllers/servicebindingbundle\<close>): a bundle names the
  kubeconfig of a provider, and the controller keeps one binding per export of that provider. The
  clients of both clusters are parameters; the locale \<open>binding_store\<close> has the laws of the
  consumer's store of bindings, under which a pass without an error makes the bindings of the bundle
  those of the exports and leaves every other binding alone.
\<close>

section \<open>The bundle\<close>

record APIServiceBindingBundleSpec =
  bbs_KubeconfigSecretRef :: ClusterSecretKeyRef

record APIServiceBindingBundleStatus =
  bbt_Conditions :: Conditions

record APIServiceBindingBundle =
  bb_Kind :: string
  bb_meta :: ObjectMeta
  bb_Spec :: APIServiceBindingBundleSpec
  bb_Status :: APIServiceBindingBundleStatus

definition APIServiceBindingBundle_Setter :: "APIServiceBindingBundle Setter" where
  "APIServiceBindingBundle_Setter =
     \<lparr>s_getter = (\<lambda>b. \<lparr>g_Name = m_Name (bb_meta b), g_Kind = bb_Kind b,
                       g_Conditions = bbt_Conditions (bb_Status b)\<rparr>),
      s_SetConditions = (\<lambda>cs b. b\<lparr>bb_Status := (bb_Status b)\<lparr>bbt_Conditions := cs\<rparr>\<rparr>)\<rparr>"

interpretation bb_obj: condition_object APIServiceBindingBundle_Setter
  by unfold_locales (simp_all add: APIServiceBindingBundle_Setter_def)

abbreviation APIServiceBindingBundleConditionSecretValid :: ConditionType where
  "APIServiceBindingBundleConditionSecretValid \<equiv> ''SecretValid''"

abbreviation APIServiceBindingBundleConditionSynced :: ConditionType where
  "APIServiceBindingBundleConditionSynced \<equiv> ''Synced''"

section \<open>The reconciler\<close>

text \<open>A \<open>rest.Config\<close> is a function of the kubeconfig, and the model names it by the kubeconfig.\<close>

record 'w bundle_reconciler =
  bu_getConsumerSecret :: "'w \<Rightarrow> string \<Rightarrow> string \<Rightarrow> Secret result"
  bu_Load :: "string \<Rightarrow> kubeconfig result"
  bu_RESTConfigFromKubeConfig :: "string \<Rightarrow> error option"
  bu_NewForConfig :: "string \<Rightarrow> error option"
  bu_listExports :: "'w \<Rightarrow> string \<Rightarrow> string \<Rightarrow> APIServiceExport list result"
  bu_listAPIServiceBindings :: "'w \<Rightarrow> APIServiceBinding list result"
  bu_createBinding :: "'w \<Rightarrow> APIServiceBinding \<Rightarrow> error option \<times> 'w"
  bu_deleteBinding :: "'w \<Rightarrow> string \<Rightarrow> error option \<times> 'w"

abbreviation markBundleFalse ::
  "time \<Rightarrow> APIServiceBindingBundle \<Rightarrow> ConditionType \<Rightarrow> string \<Rightarrow> string \<Rightarrow> fmtarg list \<Rightarrow> APIServiceBindingBundle" where
  "markBundleFalse now b t reason fmt args \<equiv>
     MarkFalse APIServiceBindingBundle_Setter now b t reason ConditionSeverityError fmt args"

text \<open>The result is the kubeconfig with the namespace of its current context, if it is valid.\<close>

definition bundle_ensureValidKubeconfigSecret ::
  "'w bundle_reconciler \<Rightarrow> 'w \<Rightarrow> time \<Rightarrow> APIServiceBindingBundle \<Rightarrow>
     error option \<times> (string \<times> string) option \<times> APIServiceBindingBundle" where
  "bundle_ensureValidKubeconfigSecret r w now bundle =
     (let ref = bbs_KubeconfigSecretRef (bb_Spec bundle);
          name = [FStr (ck_Namespace ref), FStr (ck_Name ref)];
          bad = (\<lambda>reason fmt args. (None, None, markBundleFalse now bundle
                   APIServiceBindingBundleConditionSecretValid reason fmt (name @ args)))
      in case bu_getConsumerSecret r w (ck_Namespace ref) (ck_Name ref) of
           Inl err \<Rightarrow>
             if \<not> IsNotFound err then (Some err, None, bundle)
             else bad ''KubeconfigSecretNotFound'' ''Kubeconfig secret %s/%s not found.'' []
         | Inr secret \<Rightarrow>
             (case Mapping.lookup (sec_Data secret) (ck_Key ref) of
                None \<Rightarrow> bad ''KubeconfigSecretInvalid''
                          ''Kubeconfig secret %s/%s is missing %q string key.'' [FStr (ck_Key ref)]
              | Some data \<Rightarrow>
                  (case bu_Load r data of
                     Inl err \<Rightarrow> bad ''KubeconfigSecretInvalid''
                                  ''Kubeconfig secret %s/%s has an invalid kubeconfig: %v''
                                  [FStr (ErrorString err)]
                   | Inr cfg \<Rightarrow>
                       (case Mapping.lookup (kc_Contexts cfg) (kc_CurrentContext cfg) of
                          None \<Rightarrow> bad ''KubeconfigSecretInvalid''
                            ''Kubeconfig secret %s/%s has an invalid kubeconfig: current context %q not found''
                            [FStr (kc_CurrentContext cfg)]
                        | Some kubeContext \<Rightarrow>
                            if kx_Namespace kubeContext = [] then bad ''KubeconfigSecretInvalid''
                              ''Kubeconfig secret %s/%s has an invalid kubeconfig: current context %q has no namespace set''
                              [FStr (kc_CurrentContext cfg)]
                            else (case bu_RESTConfigFromKubeConfig r data of
                                Some err \<Rightarrow> bad ''KubeconfigSecretInvalid''
                                  ''Kubeconfig secret %s/%s has an invalid kubeconfig: %v''
                                  [FStr (ErrorString err)]
                              | None \<Rightarrow> (None, Some (data, kx_Namespace kubeContext),
                                  MarkTrue APIServiceBindingBundle_Setter now bundle
                                    APIServiceBindingBundleConditionSecretValid))))))"

definition bundleOwner :: "APIServiceBindingBundle \<Rightarrow> OwnerReference" where
  "bundleOwner bundle =
     \<lparr>or_APIVersion = SchemeGroupVersionString, or_Kind = ''APIServiceBindingBundle'',
      or_Name = m_Name (bb_meta bundle), or_UID = m_UID (bb_meta bundle), or_Controller = True\<rparr>"

definition ownedByBundle :: "APIServiceBindingBundle \<Rightarrow> APIServiceBinding \<Rightarrow> bool" where
  "ownedByBundle bundle binding =
     list_ex (\<lambda>ref. or_APIVersion ref = SchemeGroupVersionString \<and> or_Kind ref = ''APIServiceBindingBundle'' \<and>
        or_Name ref = m_Name (bb_meta bundle) \<and> or_UID ref = m_UID (bb_meta bundle))
       (m_OwnerReferences (bd_meta binding))"

text \<open>
  The map of the owned bindings is used for its keys. Go visits them in an unspecified order; the
  model takes the order of the list.
\<close>

definition ownedBindings :: "APIServiceBindingBundle \<Rightarrow> APIServiceBinding list \<Rightarrow> string list" where
  "ownedBindings bundle allBindings = remdups (map bindingName (filter (ownedByBundle bundle) allBindings))"

definition bundleBinding :: "APIServiceBindingBundle \<Rightarrow> string \<Rightarrow> APIServiceBinding" where
  "bundleBinding bundle name =
     \<lparr>bd_Kind = [], bd_meta = emptyMeta\<lparr>m_Name := name, m_OwnerReferences := [bundleOwner bundle]\<rparr>,
      bd_Spec = \<lparr>bds_KubeconfigSecretRef = bbs_KubeconfigSecretRef (bb_Spec bundle)\<rparr>,
      bd_Status = \<lparr>bdt_ProviderPrettyName = [], bdt_Conditions = [], bdt_BoundSchemas = [], bdt_PermissionClaims = []\<rparr>\<rparr>"

fun createBindings ::
  "'w bundle_reconciler \<Rightarrow> APIServiceBindingBundle \<Rightarrow> string list \<Rightarrow> APIServiceExport list \<Rightarrow> error list \<Rightarrow> 'w \<Rightarrow>
     error list \<times> 'w" where
  "createBindings r bundle owned [] errs w = (errs, w)"
| "createBindings r bundle owned (export # exports) errs w =
     (if m_Name (ex_meta export) \<in> set owned then createBindings r bundle owned exports errs w
      else (case bu_createBinding r w (bundleBinding bundle (m_Name (ex_meta export))) of
          (Some err, w1) \<Rightarrow>
            createBindings r bundle owned exports (if \<not> IsAlreadyExists err then errs @ [err] else errs) w1
        | (None, w1) \<Rightarrow> createBindings r bundle owned exports errs w1))"

fun deleteOrphans ::
  "'w bundle_reconciler \<Rightarrow> string set \<Rightarrow> string list \<Rightarrow> error list \<Rightarrow> 'w \<Rightarrow> error list \<times> 'w" where
  "deleteOrphans r expected [] errs w = (errs, w)"
| "deleteOrphans r expected (name # names) errs w =
     (if name \<in> expected then deleteOrphans r expected names errs w
      else (case bu_deleteBinding r w name of
          (Some err, w1) \<Rightarrow> deleteOrphans r expected names (if \<not> IsNotFound err then errs @ [err] else errs) w1
        | (None, w1) \<Rightarrow> deleteOrphans r expected names errs w1))"

definition syncAPIServiceBindings ::
  "'w bundle_reconciler \<Rightarrow> time \<Rightarrow> APIServiceBindingBundle \<Rightarrow> string \<Rightarrow> string \<Rightarrow> 'w \<Rightarrow>
     error option \<times> APIServiceBindingBundle \<times> 'w" where
  "syncAPIServiceBindings r now bundle providerConfig providerNamespace w =
     (let failed = (\<lambda>err reason fmt. (Some err, markBundleFalse now bundle APIServiceBindingBundleConditionSynced
                      reason fmt [FStr (ErrorString err)], w))
      in case bu_NewForConfig r providerConfig of
           Some err \<Rightarrow> failed err ''ProviderClientError'' ''Failed to create provider cluster client: %v''
         | None \<Rightarrow>
             (case bu_listExports r w providerConfig providerNamespace of
                Inl err \<Rightarrow> failed err ''ListExportsFailed'' ''Failed to list APIServiceExports from provider cluster: %v''
              | Inr exports \<Rightarrow>
                  (case bu_listAPIServiceBindings r w of
                     Inl err \<Rightarrow> failed err ''ListBindingsFailed'' ''Failed to list APIServiceBindings: %v''
                   | Inr allBindings \<Rightarrow>
                       let owned = ownedBindings bundle allBindings
                       in (case createBindings r bundle owned exports [] w of
                             (errs, w1) \<Rightarrow>
                               (case deleteOrphans r ((\<lambda>export. m_Name (ex_meta export)) ` set exports) owned errs w1 of
                                  (errs1, w2) \<Rightarrow>
                                    if errs1 \<noteq> []
                                    then (NewAggregate errs1,
                                          MarkFalse APIServiceBindingBundle_Setter now bundle
                                            APIServiceBindingBundleConditionSynced ''SyncErrors'' ConditionSeverityWarning
                                            ''Failed to sync some APIServiceBindings: %d error(s)''
                                            [FInt (int (length errs1))], w2)
                                    else (None, MarkTrue APIServiceBindingBundle_Setter now bundle
                                            APIServiceBindingBundleConditionSynced, w2))))))"

definition bundle_reconcile ::
  "'w bundle_reconciler \<Rightarrow> 'w \<Rightarrow> time \<Rightarrow> APIServiceBindingBundle \<Rightarrow> error option \<times> APIServiceBindingBundle \<times> 'w" where
  "bundle_reconcile r w now bundle =
     (case bundle_ensureValidKubeconfigSecret r w now bundle of
        (err1, config, b1) \<Rightarrow>
          (case (case config of None \<Rightarrow> (None, b1, w) | Some (data, ns) \<Rightarrow> syncAPIServiceBindings r now b1 data ns w) of
             (err2, b2, w2) \<Rightarrow>
               (NewAggregate (appendErr (appendErr [] err1) err2),
                SetSummary APIServiceBindingBundle_Setter now b2 [], w2)))"

section \<open>The controller\<close>

definition ByServiceBindingBundleKubeconfigSecretKey :: "APIServiceBindingBundle \<Rightarrow> string" where
  "ByServiceBindingBundleKubeconfigSecretKey bundle =
     (let ref = bbs_KubeconfigSecretRef (bb_Spec bundle) in ck_Namespace ref @ ''/'' @ ck_Name ref)"

definition IndexServiceBindingBundleByKubeconfigSecret :: "APIServiceBindingBundle \<Rightarrow> string list" where
  "IndexServiceBindingBundleByKubeconfigSecret bundle = [ByServiceBindingBundleKubeconfigSecretKey bundle]"

record ('w, 'e) bundle_controller =
  bn_queue :: "'w Queue"
  bn_keys :: "'e KeyFuncs"
  bn_bundleKey :: "APIServiceBindingBundle \<Rightarrow> string result"
  bn_bundleGet :: "'w \<Rightarrow> string \<Rightarrow> APIServiceBindingBundle result"
  bn_bundleList :: "'w \<Rightarrow> APIServiceBindingBundle list result"
  bn_bundlesBySecret :: "'w \<Rightarrow> string \<Rightarrow> APIServiceBindingBundle list result"
  bn_now :: "'w \<Rightarrow> time"
  bn_patcher :: "(APIServiceBindingBundleSpec, APIServiceBindingBundleStatus, 'w) Patcher"

definition enqueueServiceBindingBundle :: "('w, 'e) bundle_controller \<Rightarrow> 'w \<Rightarrow> 'e \<Rightarrow> 'w" where
  "enqueueServiceBindingBundle c w ob =
     (case kf_DeletionHandlingMetaNamespaceKeyFunc (bn_keys c) ob of
        Inl err \<Rightarrow> w | Inr key \<Rightarrow> q_Add (bn_queue c) key w)"

text \<open>The loop over the bundles of a secret returns at the first bundle without a key.\<close>

fun enqueueBundles :: "('w, 'e) bundle_controller \<Rightarrow> APIServiceBindingBundle list \<Rightarrow> 'w \<Rightarrow> 'w" where
  "enqueueBundles c [] w = w"
| "enqueueBundles c (b # bs) w =
     (case bn_bundleKey c b of
        Inl err \<Rightarrow> w | Inr key \<Rightarrow> enqueueBundles c bs (q_Add (bn_queue c) key w))"

definition bundle_enqueueConsumerSecret :: "('w, 'e) bundle_controller \<Rightarrow> 'w \<Rightarrow> 'e \<Rightarrow> 'w" where
  "bundle_enqueueConsumerSecret c w ob =
     (case kf_DeletionHandlingMetaNamespaceKeyFunc (bn_keys c) ob of
        Inl err \<Rightarrow> w
      | Inr secretKey \<Rightarrow>
          (case bn_bundlesBySecret c w secretKey of
             Inl err \<Rightarrow> w | Inr bundles \<Rightarrow> enqueueBundles c bundles w))"

text \<open>One tick of the poller, which queues every bundle that has a key.\<close>

definition pollerTick :: "('w, 'e) bundle_controller \<Rightarrow> 'w \<Rightarrow> 'w" where
  "pollerTick c w =
     (case bn_bundleList c w of Inl err \<Rightarrow> w | Inr bundles \<Rightarrow> enqueueAll (bn_queue c) (bn_bundleKey c) bundles w)"

definition bundleResource ::
  "APIServiceBindingBundle \<Rightarrow> (APIServiceBindingBundleSpec, APIServiceBindingBundleStatus) Resource" where
  "bundleResource b = \<lparr>r_meta = bb_meta b, r_Spec = bb_Spec b, r_Status = bb_Status b\<rparr>"

definition bundle_process ::
  "('w, 'e) bundle_controller \<Rightarrow> 'w bundle_reconciler \<Rightarrow> 'w \<Rightarrow> string \<Rightarrow> (error option \<times> 'w) outcome" where
  "bundle_process c r w key =
     (case kf_SplitMetaNamespaceKey (bn_keys c) key of
        Inl err \<Rightarrow> Returns (None, w)
      | Inr (_, name) \<Rightarrow>
          (case bn_bundleGet c w name of
             Inl err \<Rightarrow> if \<not> IsNotFound err then Returns (Some err, w) else Returns (None, w)
           | Inr old \<Rightarrow>
               (case bundle_reconcile r w (bn_now c w) old of
                  (e, ob, w1) \<Rightarrow> commitAfter (bn_patcher c) e w1 (bundleResource old) (bundleResource ob))))"

section \<open>The store of bindings\<close>

abbreviation bindingNames :: "APIServiceBinding list \<Rightarrow> string set" where
  "bindingNames bs \<equiv> bindingName ` set bs"

lemma ownedBindings_set: "set (ownedBindings bundle bs) = bindingName ` {b \<in> set bs. ownedByBundle bundle b}"
  by (auto simp: ownedBindings_def)

lemma bundleBinding_simps [simp]:
  "bindingName (bundleBinding bundle n) = n" "ownedByBundle bundle (bundleBinding bundle n)"
  by (simp_all add: bundleBinding_def ownedByBundle_def bundleOwner_def emptyMeta_def)

text \<open>
  The laws: the listing is current, a creation appends the binding under a name that is free, a
  deletion removes the name, and a call that fails changes nothing.
\<close>

locale binding_store =
  fixes r :: "'w bundle_reconciler" and view :: "'w \<Rightarrow> APIServiceBinding list"
  assumes list_view: "bu_listAPIServiceBindings r w = Inr (view w)"
    and create_ok: "bu_createBinding r w b = (None, w') \<Longrightarrow>
      view w' = view w @ [b] \<and> bindingName b \<notin> bindingNames (view w)"
    and create_err: "bu_createBinding r w b = (Some err, w') \<Longrightarrow>
      view w' = view w \<and> (IsAlreadyExists err \<longrightarrow> bindingName b \<in> bindingNames (view w))"
    and delete_ok: "bu_deleteBinding r w n = (None, w') \<Longrightarrow> view w' = filter (\<lambda>b. bindingName b \<noteq> n) (view w)"
    and delete_err: "bu_deleteBinding r w n = (Some err, w') \<Longrightarrow>
      view w' = view w \<and> (IsNotFound err \<longrightarrow> n \<notin> bindingNames (view w))"
begin

lemma createBindings_view:
  "createBindings r bundle owned exports errs w = ([], w') \<Longrightarrow> errs = [] \<and>
     (\<exists>new. view w' = view w @ map (bundleBinding bundle) new \<and> distinct new \<and>
        set new \<inter> bindingNames (view w) = {} \<and> set new \<subseteq> (\<lambda>e. m_Name (ex_meta e)) ` set exports \<and>
        (\<lambda>e. m_Name (ex_meta e)) ` set exports \<subseteq> set owned \<union> bindingNames (view w'))"
proof (induction exports arbitrary: errs w)
  case Nil
  then show ?case by (auto intro: exI [of _ "[]"])
next
  case (Cons e exports)
  let ?n = "m_Name (ex_meta e)"
  show ?case
  proof (cases "?n \<in> set owned")
    case True
    with Cons.IH [of errs w] Cons.prems show ?thesis by auto
  next
    case False
    obtain res w1 where c: "bu_createBinding r w (bundleBinding bundle ?n) = (res, w1)" by (metis surj_pair)
    show ?thesis
    proof (cases res)
      case None
      with False Cons.prems c have "createBindings r bundle owned exports errs w1 = ([], w')" by simp
      from Cons.IH [OF this] obtain new where new: "errs = []"
        "view w' = view w1 @ map (bundleBinding bundle) new" "distinct new" "set new \<inter> bindingNames (view w1) = {}"
        "set new \<subseteq> (\<lambda>e. m_Name (ex_meta e)) ` set exports"
        "(\<lambda>e. m_Name (ex_meta e)) ` set exports \<subseteq> set owned \<union> bindingNames (view w')" by blast
      moreover have "view w1 = view w @ [bundleBinding bundle ?n]" "?n \<notin> bindingNames (view w)"
        using create_ok [of w "bundleBinding bundle ?n" w1] c None by simp_all
      ultimately show ?thesis by (intro conjI exI [of _ "?n # new"]) auto
    next
      case (Some err)
      with False Cons.prems c have run: "createBindings r bundle owned exports (if \<not> IsAlreadyExists err then errs @ [err] else errs) w1 = ([], w')"
        by simp
      from Cons.IH [OF run] have exists: "IsAlreadyExists err" by (auto split: if_splits)
      have same: "view w1 = view w" "?n \<in> bindingNames (view w)"
        using create_err [of w "bundleBinding bundle ?n" err w1] c Some exists by simp_all
      from Cons.IH [OF run] exists obtain new where "errs = []"
        "view w' = view w1 @ map (bundleBinding bundle) new" "distinct new" "set new \<inter> bindingNames (view w1) = {}"
        "set new \<subseteq> (\<lambda>e. m_Name (ex_meta e)) ` set exports"
        "(\<lambda>e. m_Name (ex_meta e)) ` set exports \<subseteq> set owned \<union> bindingNames (view w')" by auto
      with same show ?thesis by (intro conjI exI [of _ new]) auto
    qed
  qed
qed

lemma deleteOrphans_view:
  "deleteOrphans r expected names errs w = ([], w') \<Longrightarrow> errs = [] \<and>
     view w' = filter (\<lambda>b. bindingName b \<notin> set names - expected) (view w)"
proof (induction names arbitrary: errs w)
  case Nil
  then show ?case by simp
next
  case (Cons n names)
  show ?case
  proof (cases "n \<in> expected")
    case True
    with Cons.IH [of errs w] Cons.prems show ?thesis by (auto intro: filter_cong)
  next
    case False
    obtain res w1 where d: "bu_deleteBinding r w n = (res, w1)" by (metis surj_pair)
    show ?thesis
    proof (cases res)
      case None
      with False Cons.prems d Cons.IH [of errs w1] delete_ok [of w n w1] show ?thesis
        by (auto intro: filter_cong)
    next
      case (Some err)
      with False Cons.prems d have run: "deleteOrphans r expected names (if \<not> IsNotFound err then errs @ [err] else errs) w1 = ([], w')"
        by simp
      from Cons.IH [OF run] have "IsNotFound err" by (auto split: if_splits)
      with Cons.IH [OF run] delete_err [of w n err w1] d Some False show ?thesis by (auto intro!: filter_cong)
    qed
  qed
qed

text \<open>What a pass without an error leaves: the bindings of others, and one of its own per export.\<close>

lemma sync_view:
  assumes "syncAPIServiceBindings r now bundle config ns w = (None, bundle', w')"
    and "distinct (map bindingName (view w))"
  obtains exports where "bu_listExports r w config ns = Inr exports"
    "filter (\<lambda>b. \<not> ownedByBundle bundle b) (view w') = filter (\<lambda>b. \<not> ownedByBundle bundle b) (view w)"
    "bindingName ` {b \<in> set (view w'). ownedByBundle bundle b} =
       (\<lambda>e. m_Name (ex_meta e)) ` set exports - bindingName ` {b \<in> set (view w). \<not> ownedByBundle bundle b}"
    "IsTrue (s_getter APIServiceBindingBundle_Setter bundle') APIServiceBindingBundleConditionSynced"
proof -
  from assms(1) list_view obtain exports errs w1 where ex: "bu_listExports r w config ns = Inr exports"
    and c: "createBindings r bundle (ownedBindings bundle (view w)) exports [] w = (errs, w1)"
    and d: "deleteOrphans r ((\<lambda>e. m_Name (ex_meta e)) ` set exports) (ownedBindings bundle (view w)) errs w1 = ([], w')"
    and t: "bundle' = MarkTrue APIServiceBindingBundle_Setter now bundle APIServiceBindingBundleConditionSynced"
    by (auto simp: syncAPIServiceBindings_def Let_def split: option.splits sum.splits prod.splits if_splits)
  from deleteOrphans_view [OF d] have [simp]: "errs = []" and w': "view w' =
      filter (\<lambda>b. bindingName b \<notin> set (ownedBindings bundle (view w)) - (\<lambda>e. m_Name (ex_meta e)) ` set exports) (view w1)"
    by simp_all
  from createBindings_view [OF c [simplified]] obtain new where
    w1: "view w1 = view w @ map (bundleBinding bundle) new"
    and new: "set new \<inter> bindingNames (view w) = {}" "set new \<subseteq> (\<lambda>e. m_Name (ex_meta e)) ` set exports"
      "(\<lambda>e. m_Name (ex_meta e)) ` set exports \<subseteq> set (ownedBindings bundle (view w)) \<union> bindingNames (view w1)"
    by blast
  have foreign: "bindingName b \<notin> set (ownedBindings bundle (view w))"
    if "b \<in> set (view w)" "\<not> ownedByBundle bundle b" for b
    using that assms(2) by (auto simp: ownedBindings_set distinct_map dest: inj_onD)
  let ?exported = "(\<lambda>e. m_Name (ex_meta e)) ` set exports"
  show ?thesis
  proof (rule that [OF ex])
    show "filter (\<lambda>b. \<not> ownedByBundle bundle b) (view w') = filter (\<lambda>b. \<not> ownedByBundle bundle b) (view w)"
      using foreign by (auto simp: w' w1 filter_empty_conv intro!: filter_cong)
    show "bindingName ` {b \<in> set (view w'). ownedByBundle bundle b} =
       ?exported - bindingName ` {b \<in> set (view w). \<not> ownedByBundle bundle b}"
    proof (intro equalityI subsetI)
      fix n
      assume "n \<in> bindingName ` {b \<in> set (view w'). ownedByBundle bundle b}"
      then obtain b where b: "b \<in> set (view w')" "ownedByBundle bundle b" "n = bindingName b" by blast
      then have "n \<in> ?exported" using new(2) by (auto simp: w' w1 ownedBindings_set)
      moreover have "n \<noteq> bindingName b'" if b': "b' \<in> set (view w)" "\<not> ownedByBundle bundle b'" for b'
      proof
        assume eq: "n = bindingName b'"
        have "b \<in> set (view w) \<or> n \<in> set new" using b by (auto simp: w' w1)
        then show False
          using eq b b' foreign [OF b'] new(1) by (fastforce simp: ownedBindings_set)
      qed
      ultimately show "n \<in> ?exported - bindingName ` {b \<in> set (view w). \<not> ownedByBundle bundle b}" by blast
    next
      fix n
      assume "n \<in> ?exported - bindingName ` {b \<in> set (view w). \<not> ownedByBundle bundle b}"
      then have n: "n \<in> ?exported" "n \<notin> bindingName ` {b \<in> set (view w). \<not> ownedByBundle bundle b}" by simp_all
      with new(3) have "n \<in> bindingNames (view w1)" by (auto simp: w1 ownedBindings_set)
      then obtain b where "b \<in> set (view w1)" "bindingName b = n" by blast
      with n have "b \<in> set (view w')" "ownedByBundle bundle b" by (auto simp: w' w1)
      with \<open>bindingName b = n\<close> show "n \<in> bindingName ` {b \<in> set (view w'). ownedByBundle bundle b}" by blast
    qed
    show "IsTrue (s_getter APIServiceBindingBundle_Setter bundle') APIServiceBindingBundleConditionSynced"
      by (simp add: t)
  qed
qed

end

section \<open>The bindings of a bundle\<close>

text \<open>The consumer cluster with its bindings as a list; everything else is left to a base reconciler.\<close>

definition bundleStore :: "APIServiceBinding list bundle_reconciler \<Rightarrow> APIServiceBinding list bundle_reconciler" where
  "bundleStore base = base\<lparr>
     bu_listAPIServiceBindings := Inr,
     bu_createBinding := (\<lambda>w b. if bindingName b \<in> bindingNames w
        then (Some (StatusError ReasonAlreadyExists ''already exists''), w) else (None, w @ [b])),
     bu_deleteBinding := (\<lambda>w n. if n \<in> bindingNames w then (None, filter (\<lambda>b. bindingName b \<noteq> n) w)
        else (Some (StatusError ReasonNotFound ''not found''), w))\<rparr>"

interpretation bundle_store: binding_store "bundleStore base" "\<lambda>w. w" for base
  by unfold_locales (auto simp: bundleStore_def split: if_splits)

lemma bundle_Mark_meta [simp]:
  "bb_meta (MarkTrue APIServiceBindingBundle_Setter now b t) = bb_meta b"
  "bb_meta (MarkFalse APIServiceBindingBundle_Setter now b t reason sv fm as) = bb_meta b"
  "bb_meta (SetSummary APIServiceBindingBundle_Setter now b opts) = bb_meta b"
  "bb_Spec (MarkTrue APIServiceBindingBundle_Setter now b t) = bb_Spec b"
  "bb_Spec (MarkFalse APIServiceBindingBundle_Setter now b t reason sv fm as) = bb_Spec b"
  "bb_Spec (SetSummary APIServiceBindingBundle_Setter now b opts) = bb_Spec b"
  by (simp_all add: condition_defs Set_def APIServiceBindingBundle_Setter_def split: option.splits)

lemma ownedByBundle_meta: "bb_meta b = bb_meta b' \<Longrightarrow> ownedByBundle b = ownedByBundle b'"
  by (simp add: ownedByBundle_def fun_eq_iff)

lemma ensureValidKubeconfigSecret_cases:
  assumes "bundle_ensureValidKubeconfigSecret r w now bundle = (err, config, b1)"
  shows "bb_meta b1 = bb_meta bundle \<and> bb_Spec b1 = bb_Spec bundle"
    and "err = None \<Longrightarrow> config = None \<Longrightarrow>
      \<not> IsTrue (s_getter APIServiceBindingBundle_Setter b1) APIServiceBindingBundleConditionSecretValid"
  using assms
  by (auto simp: bundle_ensureValidKubeconfigSecret_def Let_def split: sum.splits option.splits if_splits)

lemma syncAPIServiceBindings_frame:
  "syncAPIServiceBindings r now bundle data ns w = (err, b, w') \<Longrightarrow> bb_meta b = bb_meta bundle \<and> bb_Spec b = bb_Spec bundle"
  by (auto simp: syncAPIServiceBindings_def Let_def split: sum.splits option.splits if_splits prod.splits)

text \<open>A reconciliation changes the status of a bundle only, so the commit does not panic.\<close>

lemma bundle_reconcile_frame:
  "bundle_reconcile r w now bundle = (err, b, w') \<Longrightarrow> bb_meta b = bb_meta bundle \<and> bb_Spec b = bb_Spec bundle"
  by (auto simp: bundle_reconcile_def split: prod.splits option.splits
      dest!: ensureValidKubeconfigSecret_cases(1) syncAPIServiceBindings_frame)


definition exampleBundle :: APIServiceBindingBundle where
  "exampleBundle = \<lparr>bb_Kind = ''APIServiceBindingBundle'', bb_meta = emptyMeta\<lparr>m_Name := ''all'', m_UID := ''u1''\<rparr>,
     bb_Spec = \<lparr>bbs_KubeconfigSecretRef = \<lparr>ck_Name = ''s'', ck_Key = ''kubeconfig'', ck_Namespace = ''kube-bind''\<rparr>\<rparr>,
     bb_Status = \<lparr>bbt_Conditions = []\<rparr>\<rparr>"

definition exampleBase :: "APIServiceBinding list bundle_reconciler" where
  "exampleBase =
     \<lparr>bu_getConsumerSecret = (\<lambda>w ns n. Inr \<lparr>sec_meta = emptyMeta, sec_Data = Mapping.update ''kubeconfig'' ''x'' Mapping.empty, sec_Type = []\<rparr>),
      bu_Load = (\<lambda>d. Inr \<lparr>kc_Contexts = Mapping.update ''c'' \<lparr>kx_Namespace = ''cluster-a''\<rparr> Mapping.empty, kc_CurrentContext = ''c''\<rparr>),
      bu_RESTConfigFromKubeConfig = (\<lambda>d. None), bu_NewForConfig = (\<lambda>d. None),
      bu_listExports = (\<lambda>w d ns. Inr [exampleExport]), bu_listAPIServiceBindings = Inr,
      bu_createBinding = (\<lambda>w b. (None, w)), bu_deleteBinding = (\<lambda>w n. (None, w))\<rparr>"

text \<open>A bundle that owns the binding of an export that is gone, beside a binding of somebody else.\<close>

definition exampleBindings :: "APIServiceBinding list" where
  "exampleBindings = [bundleBinding exampleBundle ''old'', exampleBinding\<lparr>bd_meta := emptyMeta\<lparr>m_Name := ''mine''\<rparr>\<rparr>]"

lemma exampleBindings_foreign:
  "{b \<in> set exampleBindings. \<not> ownedByBundle exampleBundle b} = {exampleBinding\<lparr>bd_meta := emptyMeta\<lparr>m_Name := ''mine''\<rparr>\<rparr>}"
proof -
  have "\<not> ownedByBundle exampleBundle (exampleBinding\<lparr>bd_meta := emptyMeta\<lparr>m_Name := ''mine''\<rparr>\<rparr>)"
    by (simp add: ownedByBundle_def emptyMeta_def)
  then show ?thesis by (auto simp: exampleBindings_def)
qed

lemma exampleBundle_run:
  "\<exists>bundle' w'. bundle_reconcile (bundleStore exampleBase) exampleBindings 1 exampleBundle = (None, bundle', w') \<and>
     IsTrue (s_getter APIServiceBindingBundle_Setter bundle') APIServiceBindingBundleConditionSecretValid"
proof -
  let ?b1 = "MarkTrue APIServiceBindingBundle_Setter 1 exampleBundle APIServiceBindingBundleConditionSecretValid"
  have "bundle_ensureValidKubeconfigSecret (bundleStore exampleBase) exampleBindings 1 exampleBundle =
      (None, Some (''x'', ''cluster-a''), ?b1)"
    by (simp add: bundle_ensureValidKubeconfigSecret_def bundleStore_def exampleBase_def exampleBundle_def)
  moreover have "\<exists>w'. syncAPIServiceBindings (bundleStore exampleBase) 1 ?b1 ''x'' ''cluster-a'' exampleBindings =
      (None, MarkTrue APIServiceBindingBundle_Setter 1 ?b1 APIServiceBindingBundleConditionSynced, w')"
    by (simp add: syncAPIServiceBindings_def Let_def bundleStore_def exampleBase_def ownedBindings_def
        ownedByBundle_def bundleBinding_def bundleOwner_def exampleBindings_def emptyMeta_def exampleExport_def)
  ultimately show ?thesis by (auto simp: bundle_reconcile_def)
qed


end
