(* ===== verification/Informers.thy ===== *)
theory Informers
  imports Isolation Controllers Committer "HOL-Library.AList"
begin

text \<open>
  Informers of the konnector: handlers that are added to and removed from a running informer
  (\<open>src/pkg/konnector/controllers/dynamic\<close>), and the informer over the provider namespaces of a
  consumer, which runs one informer per service namespace
  (\<open>src/pkg/konnector/controllers/cluster/serviceexport/multinsinformer\<close>). The informers of client-go are
  parameters. The operations under the locks are single steps; the invariant of the second informer
  is proved for every sequence of them. The helpers for indexes (\<open>src/pkg/indexers/util.go\<close>) merge and add
  index functions by name.
\<close>

section \<open>Dynamic event handlers\<close>

record ('o, 'w) ResourceEventHandler =
  h_OnAdd :: "'o \<Rightarrow> bool \<Rightarrow> 'w \<Rightarrow> 'w"
  h_OnUpdate :: "'o \<Rightarrow> 'o \<Rightarrow> 'w \<Rightarrow> 'w"
  h_OnDelete :: "'o \<Rightarrow> 'w \<Rightarrow> 'w"

text \<open>The map of the handlers, in the order of their registration; Go visits them in any order.\<close>

record ('o, 'w) dynamicSharedIndexInformer =
  dy_counter :: nat
  dy_handlers :: "(string \<times> ('o, 'w) ResourceEventHandler) list"

definition NewDynamicInformer :: "('o, 'w) dynamicSharedIndexInformer" where
  "NewDynamicInformer = \<lparr>dy_counter = 0, dy_handlers = []\<rparr>"

definition dynamic_AddFunc :: "('o, 'w) dynamicSharedIndexInformer \<Rightarrow> 'o \<Rightarrow> 'w \<Rightarrow> 'w" where
  "dynamic_AddFunc di ob = fold (\<lambda>(_, h). h_OnAdd h ob False) (dy_handlers di)"

definition dynamic_UpdateFunc :: "('o, 'w) dynamicSharedIndexInformer \<Rightarrow> 'o \<Rightarrow> 'o \<Rightarrow> 'w \<Rightarrow> 'w" where
  "dynamic_UpdateFunc di old new = fold (\<lambda>(_, h). h_OnUpdate h old new) (dy_handlers di)"

definition dynamic_DeleteFunc :: "('o, 'w) dynamicSharedIndexInformer \<Rightarrow> 'o \<Rightarrow> 'w \<Rightarrow> 'w" where
  "dynamic_DeleteFunc di ob = fold (\<lambda>(_, h). h_OnDelete h ob) (dy_handlers di)"

text \<open>The name the handler is registered under is returned for the removal, when its context ends.\<close>

definition AddDynamicEventHandler ::
  "('o, 'w) dynamicSharedIndexInformer \<Rightarrow> string \<Rightarrow> ('o, 'w) ResourceEventHandler \<Rightarrow> 'o list \<Rightarrow> 'w \<Rightarrow>
     string \<times> ('o, 'w) dynamicSharedIndexInformer \<times> 'w" where
  "AddDynamicEventHandler di handlerName handler store w =
     (let name = Sprintf ''%s-%d'' [FStr handlerName, FInt (int (dy_counter di))]
      in (name, di\<lparr>dy_handlers := AList.update name handler (dy_handlers di), dy_counter := dy_counter di + 1\<rparr>,
          fold (\<lambda>ob. h_OnAdd handler ob True) store w))"

definition handlerContextDone :: "string \<Rightarrow> ('o, 'w) dynamicSharedIndexInformer \<Rightarrow> ('o, 'w) dynamicSharedIndexInformer" where
  "handlerContextDone name di = di\<lparr>dy_handlers := AList.delete name (dy_handlers di)\<rparr>"

section \<open>The informer over many namespaces\<close>

text \<open>
  The informer of one namespace: the namespace it watches, its handlers, and the number of its
  context, which its cancel function cancels. \<open>mn_started\<close> counts the contexts,
  \<open>mn_cancelled\<close> are those that were cancelled.
\<close>

record 'h nsInformer =
  ni_namespace :: string
  ni_handlers :: "'h list"
  ni_context :: nat

record 'h DynamicMultiNamespaceInformer =
  mn_namespaceInformers :: "string \<Rightarrow> 'h nsInformer option"
  mn_namespaceCancel :: "string \<Rightarrow> nat option"
  mn_handlers :: "'h list"
  mn_started :: nat
  mn_cancelled :: "nat set"

definition NewDynamicMultiNamespaceInformer :: "'h DynamicMultiNamespaceInformer" where
  "NewDynamicMultiNamespaceInformer =
     \<lparr>mn_namespaceInformers = (\<lambda>_. None), mn_namespaceCancel = (\<lambda>_. None), mn_handlers = [], mn_started = 0, mn_cancelled = {}\<rparr>"

text \<open>The goroutine of \<open>Start\<close> when the context ends.\<close>

definition multins_stop :: "'h DynamicMultiNamespaceInformer \<Rightarrow> 'h DynamicMultiNamespaceInformer" where
  "multins_stop mi = mi\<lparr>mn_cancelled := mn_cancelled mi \<union> ran (mn_namespaceCancel mi)\<rparr>"

definition stopNamespace :: "string \<Rightarrow> 'h DynamicMultiNamespaceInformer \<Rightarrow> 'h DynamicMultiNamespaceInformer" where
  "stopNamespace name mi =
     (case mn_namespaceCancel mi name of
        None \<Rightarrow> mi
      | Some cancel \<Rightarrow>
          mi\<lparr>mn_namespaceCancel := (mn_namespaceCancel mi)(name := None),
              mn_namespaceInformers := (mn_namespaceInformers mi)(name := None),
              mn_cancelled := insert cancel (mn_cancelled mi)\<rparr>)"

definition startNamespace :: "string \<Rightarrow> string \<Rightarrow> 'h DynamicMultiNamespaceInformer \<Rightarrow> 'h DynamicMultiNamespaceInformer" where
  "startNamespace name namespace mi =
     (if mn_namespaceCancel mi name \<noteq> None then mi
      else let ctx = mn_started mi
           in mi\<lparr>mn_namespaceCancel := (mn_namespaceCancel mi)(name \<mapsto> ctx),
                  mn_namespaceInformers := (mn_namespaceInformers mi)(name \<mapsto>
                    \<lparr>ni_namespace = namespace, ni_handlers = mn_handlers mi, ni_context = ctx\<rparr>),
                  mn_started := ctx + 1\<rparr>)"

definition multins_enqueueServiceNamespace ::
  "'e KeyFuncs \<Rightarrow> string \<Rightarrow> (string \<Rightarrow> string \<Rightarrow> APIServiceNamespace result) \<Rightarrow> 'e \<Rightarrow>
     'h DynamicMultiNamespaceInformer \<Rightarrow> 'h DynamicMultiNamespaceInformer" where
  "multins_enqueueServiceNamespace kf providerNamespace get ob mi =
     (case kf_DeletionHandlingMetaNamespaceKeyFunc kf ob of
        Inl err \<Rightarrow> mi
      | Inr key \<Rightarrow>
          (case kf_SplitMetaNamespaceKey kf key of
             Inl err \<Rightarrow> mi
           | Inr (ns, name) \<Rightarrow>
               if ns \<noteq> providerNamespace then mi
               else (case get ns name of
                   Inl err \<Rightarrow> if \<not> IsNotFound err then mi else stopNamespace name mi
                 | Inr sns \<Rightarrow>
                     if snt_Namespace (sn_Status sns) = [] then stopNamespace name mi
                     else startNamespace name (snt_Namespace (sn_Status sns)) mi)))"

text \<open>
  \<open>AddEventHandler\<close> adds the handler to the informers, visited in the order \<open>names\<close>, and
  keeps it for later ones. An informer that refuses the handler ends the loop.
\<close>

fun addToInformers ::
  "('h nsInformer \<Rightarrow> error option) \<Rightarrow> 'h \<Rightarrow> string list \<Rightarrow> (string \<Rightarrow> 'h nsInformer option) \<Rightarrow>
     error option \<times> (string \<Rightarrow> 'h nsInformer option)" where
  "addToInformers refuse h [] m = (None, m)"
| "addToInformers refuse h (name # names) m =
     (case m name of
        None \<Rightarrow> addToInformers refuse h names m
      | Some i \<Rightarrow>
          (case refuse i of
             Some err \<Rightarrow> (Some err, m)
           | None \<Rightarrow> addToInformers refuse h names (m(name \<mapsto> i\<lparr>ni_handlers := ni_handlers i @ [h]\<rparr>))))"

definition multins_AddEventHandler ::
  "('h nsInformer \<Rightarrow> error option) \<Rightarrow> string list \<Rightarrow> 'h \<Rightarrow> 'h DynamicMultiNamespaceInformer \<Rightarrow>
     error option \<times> 'h DynamicMultiNamespaceInformer" where
  "multins_AddEventHandler refuse names h mi =
     (case addToInformers refuse h names (mn_namespaceInformers mi) of
        (Some err, m) \<Rightarrow> (Some err, mi\<lparr>mn_namespaceInformers := m\<rparr>)
      | (None, m) \<Rightarrow> (None, mi\<lparr>mn_namespaceInformers := m, mn_handlers := mn_handlers mi @ [h]\<rparr>))"

text \<open>Reading: \<open>byIndex\<close> is the index of service namespaces, the last argument the lister of an informer.\<close>

definition multins_Get ::
  "string \<Rightarrow> (string \<Rightarrow> APIServiceNamespace list result) \<Rightarrow> 'h DynamicMultiNamespaceInformer \<Rightarrow>
     ('h nsInformer \<Rightarrow> string \<Rightarrow> string \<Rightarrow> 'o result) \<Rightarrow> string \<Rightarrow> string \<Rightarrow> 'o result" where
  "multins_Get resource byIndex mi lister ns name =
     (let notFound = Inl (StatusError ReasonNotFound (resource @ '' '' @ quote name @ '' not found''))
      in case byIndex ns of
           Inl err \<Rightarrow> Inl err
         | Inr [] \<Rightarrow> notFound
         | Inr [sns] \<Rightarrow>
             (case mn_namespaceInformers mi (m_Name (sn_meta sns)) of
                None \<Rightarrow> notFound | Some i \<Rightarrow> lister i ns name)
         | Inr _ \<Rightarrow> Inl (PlainError (''unexpected multiple APIServiceNamespaces for namespace '' @ ns)))"

definition multins_List ::
  "(string \<Rightarrow> APIServiceNamespace list result) \<Rightarrow> 'h DynamicMultiNamespaceInformer \<Rightarrow>
     ('h nsInformer \<Rightarrow> string \<Rightarrow> 'o list result) \<Rightarrow> string \<Rightarrow> 'o list result" where
  "multins_List byIndex mi lister ns =
     (case byIndex ns of
        Inl err \<Rightarrow> Inl err
      | Inr [] \<Rightarrow> Inr []
      | Inr [sns] \<Rightarrow>
          (case mn_namespaceInformers mi (m_Name (sn_meta sns)) of
             None \<Rightarrow> Inr [] | Some i \<Rightarrow> lister i ns)
      | Inr _ \<Rightarrow> Inl (PlainError (''unexpected multiple APIServiceNamespaces for namespace '' @ ns)))"

text \<open>
  The condition of \<open>WaitForCacheSync\<close> on the service namespaces it listed, and the loop, which
  polls until the condition holds or the channel is closed.
\<close>

definition namespacesSynced ::
  "'h DynamicMultiNamespaceInformer \<Rightarrow> (string \<Rightarrow> bool) \<Rightarrow> ('h nsInformer \<Rightarrow> bool) \<Rightarrow> string list \<Rightarrow> bool" where
  "namespacesSynced mi known synced names =
     list_all (\<lambda>name. case mn_namespaceInformers mi name of None \<Rightarrow> \<not> known name | Some i \<Rightarrow> synced i) names"

partial_function (option) pollSynced :: "('w \<Rightarrow> bool) \<Rightarrow> ('w \<Rightarrow> bool \<times> 'w) \<Rightarrow> 'w \<Rightarrow> (bool \<times> 'w) option" where
  "pollSynced done tick w =
     (if done w then Some (True, w)
      else (case tick w of (closed, w1) \<Rightarrow> if closed then Some (False, w1) else pollSynced done tick w1))"

definition multins_WaitForCacheSync ::
  "('w \<Rightarrow> string list result) \<Rightarrow> ('w \<Rightarrow> 'h DynamicMultiNamespaceInformer) \<Rightarrow> ('w \<Rightarrow> string \<Rightarrow> bool) \<Rightarrow>
     ('w \<Rightarrow> 'h nsInformer \<Rightarrow> bool) \<Rightarrow> ('w \<Rightarrow> bool \<times> 'w) \<Rightarrow> 'w \<Rightarrow> (bool option \<times> 'w) option" where
  "multins_WaitForCacheSync list mi known synced tick w =
     (case list w of
        Inl err \<Rightarrow> Some (None, w)
      | Inr names \<Rightarrow>
          map_option (map_prod Some id)
            (pollSynced (\<lambda>w1. namespacesSynced (mi w1) (known w1) (synced w1) names) tick w))"

section \<open>The wrapper around one informer factory\<close>

text \<open>\<open>ByNamespace\<close> and the cluster-wide \<open>Get\<close> of the lister.\<close>

record 'o GenericLister =
  gl_ByNamespaceGet :: "string \<Rightarrow> string \<Rightarrow> 'o result"
  gl_ByNamespaceList :: "string \<Rightarrow> 'o list result"
  gl_Get :: "string \<Rightarrow> 'o result"

definition wrapper_Get :: "'o GenericLister \<Rightarrow> string \<Rightarrow> string \<Rightarrow> 'o result" where
  "wrapper_Get lister ns name = (if ns \<noteq> [] then gl_ByNamespaceGet lister ns name else gl_Get lister name)"

definition wrapper_List :: "'o GenericLister \<Rightarrow> string \<Rightarrow> 'o list result" where
  "wrapper_List lister ns = gl_ByNamespaceList lister ns"

section \<open>Names of handlers\<close>

text \<open>The counter makes the names unique, whatever the names that were asked for.\<close>

lemma digits_chars: "c \<in> set (digits n) \<Longrightarrow> c \<noteq> CHR ''-''"
proof (induction n rule: digits.induct)
  case (1 n)
  have digit: "char_of (48 + d) \<noteq> CHR ''-''" if "d < 10" for d :: nat
  proof
    assume "char_of (48 + d) = CHR ''-''"
    then have "of_char (char_of (48 + d)) = (of_char (CHR ''-'') :: nat)" by simp
    with that show False by simp
  qed
  from 1 show ?case
    using digit [of n] digit [of "n mod 10"] by (subst (asm) (2) digits.simps) (auto split: if_splits)
qed

lemma digits_value: "foldl (\<lambda>k c. 10 * k + (of_char c - 48)) 0 (digits n) = n"
proof (induction n rule: digits.induct)
  case (1 n)
  have digit: "of_char (char_of (48 + d)) - (48 :: nat) = d" if "d < 10" for d :: nat
    using that by simp
  from 1 show ?case using digit [of n] digit [of "n mod 10"] by (subst digits.simps) auto
qed

lemma handlerName_eq: "Sprintf ''%s-%d'' [FStr a, FInt (int n)] = a @ ''-'' @ digits n"
  by (simp add: Itoa_def)

lemma handlerName_inj:
  assumes "Sprintf ''%s-%d'' [FStr a, FInt (int m)] = Sprintf ''%s-%d'' [FStr b, FInt (int n)]"
  shows "m = n"
proof -
  have "rev (digits m) @ CHR ''-'' # rev a = rev (digits n) @ CHR ''-'' # rev b"
    using arg_cong [OF assms, of rev] unfolding handlerName_eq by simp
  then have "digits m = digits n"
    using append_sep_eq [of "CHR ''-''" "rev (digits m)" "rev (digits n)"] digits_chars by auto
  then show ?thesis by (metis digits_value)
qed

text \<open>The names in use come from smaller counters, so a registration never replaces a handler.\<close>

definition dynamic_ok :: "('o, 'w) dynamicSharedIndexInformer \<Rightarrow> bool" where
  "dynamic_ok di \<longleftrightarrow> distinct (map fst (dy_handlers di)) \<and>
     (\<forall>name \<in> set (map fst (dy_handlers di)). \<exists>a m. m < dy_counter di \<and> name = Sprintf ''%s-%d'' [FStr a, FInt (int m)])"

lemma dynamic_ok_new: "dynamic_ok NewDynamicInformer"
  by (simp add: dynamic_ok_def NewDynamicInformer_def)

lemma AddDynamicEventHandler_appends:
  assumes "dynamic_ok di" "AddDynamicEventHandler di handlerName handler store w = (name, di', w')"
  shows "dy_handlers di' = dy_handlers di @ [(name, handler)]" "dynamic_ok di'"
proof -
  have name: "name = Sprintf ''%s-%d'' [FStr handlerName, FInt (int (dy_counter di))]"
    and di': "di' = di\<lparr>dy_handlers := AList.update name handler (dy_handlers di), dy_counter := dy_counter di + 1\<rparr>"
    using assms(2) by (auto simp: AddDynamicEventHandler_def Let_def)
  have fresh: "name \<notin> set (map fst (dy_handlers di))"
    using assms(1) handlerName_inj unfolding dynamic_ok_def name by blast
  have "AList.update k v l = l @ [(k, v)]" if "k \<notin> set (map fst l)" for k and v :: "('a, 'b) ResourceEventHandler" and l
    using that by (induction l) auto
  with fresh show handlers: "dy_handlers di' = dy_handlers di @ [(name, handler)]" by (simp add: di')
  have counter: "dy_counter di' = Suc (dy_counter di)" by (simp add: di')
  show "dynamic_ok di'"
    unfolding dynamic_ok_def handlers counter
  proof (intro conjI ballI)
    show "distinct (map fst (dy_handlers di @ [(name, handler)]))"
      using assms(1) fresh by (simp add: dynamic_ok_def)
    fix n
    assume "n \<in> set (map fst (dy_handlers di @ [(name, handler)]))"
    then consider "n \<in> set (map fst (dy_handlers di))" | "n = name" by auto
    then show "\<exists>a m. m < Suc (dy_counter di) \<and> n = Sprintf ''%s-%d'' [FStr a, FInt (int m)]"
    proof cases
      case 1
      with assms(1) show ?thesis unfolding dynamic_ok_def by (meson less_SucI)
    next
      case 2
      with name show ?thesis by blast
    qed
  qed
qed

lemma handlerContextDone_ok: "dynamic_ok di \<Longrightarrow> dynamic_ok (handlerContextDone name di)"
  unfolding dynamic_ok_def handlerContextDone_def
  by (auto simp: delete_keys distinct_removeAll simp del: Sprintf.simps)

text \<open>So every handler sees each event once, from its registration until its context ends.\<close>

lemma dynamic_delivery:
  assumes "dynamic_ok di" "AddDynamicEventHandler di handlerName handler store w = (name, di', w')"
  shows "dynamic_AddFunc di' ob = h_OnAdd handler ob False \<circ> dynamic_AddFunc di ob"
    and "dynamic_UpdateFunc di' old new = h_OnUpdate handler old new \<circ> dynamic_UpdateFunc di old new"
    and "dynamic_DeleteFunc di' ob = h_OnDelete handler ob \<circ> dynamic_DeleteFunc di ob"
  using AddDynamicEventHandler_appends(1) [OF assms]
  by (simp_all add: dynamic_AddFunc_def dynamic_UpdateFunc_def dynamic_DeleteFunc_def fun_eq_iff)

section \<open>The invariant of the informer over many namespaces\<close>

text \<open>
  The informer's history until its context ends: events of service namespaces, answered by any
  state of the cache, and handlers that are added, each to all informers in some order. An informer
  refuses a handler only when it was stopped, and those in the map are not.
\<close>

inductive multins_reachable :: "'e KeyFuncs \<Rightarrow> string \<Rightarrow> 'h DynamicMultiNamespaceInformer \<Rightarrow> bool" for kf pns where
  new: "multins_reachable kf pns NewDynamicMultiNamespaceInformer"
| event: "multins_reachable kf pns mi \<Longrightarrow> multins_reachable kf pns (multins_enqueueServiceNamespace kf pns get ob mi)"
| handler: "multins_reachable kf pns mi \<Longrightarrow> distinct names \<Longrightarrow> dom (mn_namespaceInformers mi) \<subseteq> set names \<Longrightarrow>
    multins_reachable kf pns (snd (multins_AddEventHandler (\<lambda>_. None) names h mi))"

definition multins_ok :: "'h DynamicMultiNamespaceInformer \<Rightarrow> bool" where
  "multins_ok mi \<longleftrightarrow>
     (\<forall>name. mn_namespaceCancel mi name = map_option ni_context (mn_namespaceInformers mi name)) \<and>
     inj_on (mn_namespaceCancel mi) (dom (mn_namespaceCancel mi)) \<and>
     ran (mn_namespaceCancel mi) = {ctx. ctx < mn_started mi \<and> ctx \<notin> mn_cancelled mi} \<and>
     mn_cancelled mi \<subseteq> {..<mn_started mi} \<and>
     (\<forall>name i. mn_namespaceInformers mi name = Some i \<longrightarrow> ni_handlers i = mn_handlers mi)"

lemma stopNamespace_ok:
  assumes "multins_ok mi"
  shows "multins_ok (stopNamespace name mi)"
proof (cases "mn_namespaceCancel mi name")
  case None
  with assms show ?thesis by (simp add: stopNamespace_def)
next
  case (Some c)
  let ?m = "mn_namespaceCancel mi"
  have inj: "inj_on ?m (dom ?m)" and ran: "ran ?m = {ctx. ctx < mn_started mi \<and> ctx \<notin> mn_cancelled mi}"
    using assms unfolding multins_ok_def by blast+
  have "ran (?m(name := None)) = ran ?m - {c}"
  proof -
    have "(\<exists>n. n \<noteq> name \<and> ?m n = Some x) \<longleftrightarrow> (\<exists>n. ?m n = Some x) \<and> x \<noteq> c" for x
      using inj Some by (metis domI inj_onD option.inject)
    then show ?thesis by (auto simp: ran_def)
  qed
  moreover have "inj_on (?m(name := None)) (dom (?m(name := None)))"
    using inj by (auto simp: inj_on_def)
  moreover have "c \<in> ran ?m" using Some by (auto intro: ranI)
  ultimately show ?thesis
    using assms Some ran by (auto simp: multins_ok_def stopNamespace_def split: if_splits)
qed

lemma startNamespace_ok:
  assumes "multins_ok mi"
  shows "multins_ok (startNamespace name ns mi)"
proof (cases "mn_namespaceCancel mi name")
  case (Some c)
  with assms show ?thesis by (simp add: startNamespace_def)
next
  case None
  let ?m = "mn_namespaceCancel mi" and ?c = "mn_started mi"
  have inj: "inj_on ?m (dom ?m)" and ran: "ran ?m = {ctx. ctx < mn_started mi \<and> ctx \<notin> mn_cancelled mi}"
    and old: "mn_cancelled mi \<subseteq> {..<mn_started mi}"
    using assms unfolding multins_ok_def by blast+
  have "?m n \<noteq> Some ?c" for n using ran by (metis (mono_tags, lifting) less_irrefl mem_Collect_eq ranI)
  then have "inj_on (?m(name \<mapsto> ?c)) (dom (?m(name \<mapsto> ?c)))"
    using inj None by (auto simp: inj_on_def dom_def)
  moreover have "ran (?m(name \<mapsto> ?c)) = {ctx. ctx < Suc ?c \<and> ctx \<notin> mn_cancelled mi}"
    using None ran old by (auto simp: ran_map_upd)
  ultimately show ?thesis
    using assms None by (auto simp: multins_ok_def startNamespace_def Let_def split: if_splits)
qed

lemma enqueueServiceNamespace_ok:
  "multins_ok mi \<Longrightarrow> multins_ok (multins_enqueueServiceNamespace kf pns get ob mi)"
  by (auto simp: multins_enqueueServiceNamespace_def stopNamespace_ok startNamespace_ok split: sum.splits prod.splits)

lemma addToInformers_all:
  "distinct names \<Longrightarrow> addToInformers (\<lambda>_. None) h names m =
     (None, \<lambda>name. if name \<in> set names then map_option (\<lambda>i. i\<lparr>ni_handlers := ni_handlers i @ [h]\<rparr>) (m name) else m name)"
proof (induction names arbitrary: m)
  case Nil
  then show ?case by simp
next
  case (Cons n names)
  then show ?case by (cases "m n") (auto simp: fun_eq_iff)
qed

lemma AddEventHandler_ok:
  assumes "multins_ok mi" "distinct names" "dom (mn_namespaceInformers mi) \<subseteq> set names"
  shows "multins_ok (snd (multins_AddEventHandler (\<lambda>_. None) names h mi))"
proof -
  let ?add = "\<lambda>i. i\<lparr>ni_handlers := ni_handlers i @ [h]\<rparr>"
  have "(if name \<in> set names then map_option ?add (mn_namespaceInformers mi name) else mn_namespaceInformers mi name) =
      map_option ?add (mn_namespaceInformers mi name)" for name
    using assms(3) by (cases "mn_namespaceInformers mi name") auto
  then have "snd (multins_AddEventHandler (\<lambda>_. None) names h mi) =
      mi\<lparr>mn_namespaceInformers := \<lambda>name. map_option ?add (mn_namespaceInformers mi name), mn_handlers := mn_handlers mi @ [h]\<rparr>"
    by (simp add: multins_AddEventHandler_def addToInformers_all [OF assms(2)])
  then show ?thesis using assms(1) by (auto simp: multins_ok_def option.map_comp comp_def)
qed

lemma multins_reachable_ok: "multins_reachable kf pns mi \<Longrightarrow> multins_ok mi"
proof (induction rule: multins_reachable.induct)
  case new
  show ?case by (simp add: multins_ok_def NewDynamicMultiNamespaceInformer_def)
qed (simp_all add: enqueueServiceNamespace_ok AddEventHandler_ok)

text \<open>
  C40: However the events of service namespaces and the registrations of handlers interleave, the
  informers that run are exactly those in the map, one per service namespace: none is leaked and
  none is stopped while it is in use. Each has every handler, in the order of their registration,
  also those added before it was started. When the context of the informer ends, all are stopped.
\<close>

theorem multins_informers:
  assumes "multins_reachable kf pns mi"
  shows "(\<forall>ctx < mn_started mi. ctx \<notin> mn_cancelled mi \<longleftrightarrow>
      (\<exists>!name. \<exists>i. mn_namespaceInformers mi name = Some i \<and> ni_context i = ctx)) \<and>
    (\<forall>name i. mn_namespaceInformers mi name = Some i \<longrightarrow>
      ni_handlers i = mn_handlers mi \<and> mn_namespaceCancel mi name = Some (ni_context i)) \<and>
    {..<mn_started mi} \<subseteq> mn_cancelled (multins_stop mi)"
proof -
  let ?m = "mn_namespaceCancel mi"
  have ok: "\<forall>name. ?m name = map_option ni_context (mn_namespaceInformers mi name)"
    "inj_on ?m (dom ?m)" "ran ?m = {ctx. ctx < mn_started mi \<and> ctx \<notin> mn_cancelled mi}"
    "\<forall>name i. mn_namespaceInformers mi name = Some i \<longrightarrow> ni_handlers i = mn_handlers mi"
    using multins_reachable_ok [OF assms] unfolding multins_ok_def by blast+
  have at: "(\<exists>i. mn_namespaceInformers mi name = Some i \<and> ni_context i = ctx) \<longleftrightarrow> ?m name = Some ctx" for name ctx
    using ok(1) by auto
  have "ctx \<notin> mn_cancelled mi \<longleftrightarrow> (\<exists>!name. ?m name = Some ctx)" if "ctx < mn_started mi" for ctx
  proof -
    have "ctx \<notin> mn_cancelled mi \<longleftrightarrow> ctx \<in> ran ?m" using ok(3) that by simp
    also have "\<dots> \<longleftrightarrow> (\<exists>!name. ?m name = Some ctx)"
      using ok(2) by (auto simp: ran_def inj_on_def dom_def)
    finally show ?thesis .
  qed
  moreover have "{..<mn_started mi} \<subseteq> mn_cancelled (multins_stop mi)"
    using ok(3) by (auto simp: multins_stop_def)
  ultimately show ?thesis using ok(1,4) unfolding at by simp
qed

text \<open>An informer for a service namespace, then a handler, then a second informer.\<close>

definition pairKeys :: "string KeyFuncs" where
  "pairKeys = \<lparr>kf_DeletionHandlingMetaNamespaceKeyFunc = Inr, kf_MetaNamespaceKeyFunc = Inr,
     kf_SplitMetaNamespaceKey = (\<lambda>k. Inr (''p'', k))\<rparr>"

definition backedNamespace :: "string \<Rightarrow> string \<Rightarrow> APIServiceNamespace result" where
  "backedNamespace ns n = Inr \<lparr>sn_meta = emptyMeta\<lparr>m_Name := n, m_Namespace := ns\<rparr>, sn_Status = \<lparr>snt_Namespace = ns @ ''-'' @ n\<rparr>\<rparr>"

definition exampleInformer :: "nat DynamicMultiNamespaceInformer" where
  "exampleInformer =
     multins_enqueueServiceNamespace pairKeys ''p'' backedNamespace ''b''
       (snd (multins_AddEventHandler (\<lambda>_. None) [''a''] 7
          (multins_enqueueServiceNamespace pairKeys ''p'' backedNamespace ''a'' NewDynamicMultiNamespaceInformer)))"

lemma exampleInformer_reachable: "multins_reachable pairKeys ''p'' exampleInformer"
  unfolding exampleInformer_def
  by (intro multins_reachable.intros)
     (auto simp: multins_enqueueServiceNamespace_def pairKeys_def backedNamespace_def startNamespace_def
       NewDynamicMultiNamespaceInformer_def Let_def split: if_splits)

theorem multins_informers_witness:
  "\<exists>i. mn_namespaceInformers exampleInformer ''b'' = Some i \<and> ni_handlers i = [7] \<and> ni_namespace i = ''p-b'' \<and>
     ni_context i \<notin> mn_cancelled exampleInformer"
proof -
  have run: "mn_started exampleInformer = 2" "mn_handlers exampleInformer = [7]"
    "\<exists>i. mn_namespaceInformers exampleInformer ''b'' = Some i \<and> ni_namespace i = ''p-b'' \<and> ni_context i = 1"
    "mn_cancelled exampleInformer = {}"
    by (simp_all add: exampleInformer_def multins_enqueueServiceNamespace_def pairKeys_def backedNamespace_def
        startNamespace_def NewDynamicMultiNamespaceInformer_def multins_AddEventHandler_def Let_def)
  then obtain i where i: "mn_namespaceInformers exampleInformer ''b'' = Some i" "ni_namespace i = ''p-b''" "ni_context i = 1"
    by blast
  from multins_informers [OF exampleInformer_reachable] i(1) have "ni_handlers i = mn_handlers exampleInformer" by blast
  with run i show ?thesis by simp
qed

text \<open>A provider namespace that changes is not followed: the informer of the old one goes on.\<close>

lemma namespace_change_ignored:
  "mn_namespaceCancel mi name = Some c \<Longrightarrow> startNamespace name ns' mi = mi"
  by (simp add: startNamespace_def)

section \<open>Indexes\<close>

text \<open>The index functions of controller-runtime are those of client-go without an error.\<close>

definition IndexServiceExportByBoundSchemaControllerRuntime :: "APIServiceExport \<Rightarrow> string list" where
  "IndexServiceExportByBoundSchemaControllerRuntime e = map ResourceGroupName (exs_Resources (ex_Spec e))"

definition IndexServiceNamespaceByNamespaceControllerRuntime :: "APIServiceNamespace \<Rightarrow> string list" where
  "IndexServiceNamespaceByNamespaceControllerRuntime sn =
     (if snt_Namespace (sn_Status sn) = [] then [] else [snt_Namespace (sn_Status sn)])"

text \<open>Index functions by name, in the order in which Go visits the map.\<close>

type_synonym 'f indexers = "(string \<times> 'f) list"

fun appendIndexer :: "'f indexers \<Rightarrow> 'f indexers \<Rightarrow> 'f indexers result" where
  "appendIndexer [] ret = Inr ret"
| "appendIndexer ((k, v) # ind) ret =
     (if map_of ret k \<noteq> None then Inl (PlainError (Sprintf ''duplicate indexer: %s'' [FStr k])) else appendIndexer ind (AList.update k v ret))"

fun appendIndexers :: "'f indexers list \<Rightarrow> 'f indexers \<Rightarrow> 'f indexers result" where
  "appendIndexers [] ret = Inr ret"
| "appendIndexers (ind # inds) ret = (case appendIndexer ind ret of Inl err \<Rightarrow> Inl err | Inr ret1 \<Rightarrow> appendIndexers inds ret1)"

definition Append_indexers :: "'f indexers list \<Rightarrow> 'f indexers result" where
  "Append_indexers inds = appendIndexers inds []"

definition AppendOrDie :: "'f indexers list \<Rightarrow> 'f indexers outcome" where
  "AppendOrDie inds = (case Append_indexers inds of Inl err \<Rightarrow> Panic (ErrorString err) | Inr ret \<Rightarrow> Returns ret)"

text \<open>
  The index functions of an informer are extended by those it does not have; \<open>add\<close> is the call of the library. The map
  of the caller loses the names that were there.
\<close>

definition AddIfNotPresentOrDie ::
  "('f indexers \<Rightarrow> 'f indexers \<Rightarrow> 'f indexers result) \<Rightarrow> 'f indexers \<Rightarrow> 'f indexers \<Rightarrow> ('f indexers \<times> 'f indexers) outcome" where
  "AddIfNotPresentOrDie add existing toAdd =
     (let missing = filter (\<lambda>(k, v). map_of existing k = None) toAdd
      in case add existing missing of
           Inl err \<Rightarrow> Panic (ErrorString (wrapError ''error adding indexers'' err)) | Inr new \<Rightarrow> Returns (new, missing))"

lemma appendIndexer_ok:
  assumes "distinct (map fst ind)" "fst ` set ind \<inter> dom (map_of ret) = {}"
  shows "\<exists>ret'. appendIndexer ind ret = Inr ret' \<and> map_of ret' = map_of ret ++ map_of ind"
  using assms
proof (induction ind arbitrary: ret)
  case (Cons kv ind)
  obtain k v where kv: "kv = (k, v)" by fastforce
  from Cons.prems kv have fresh: "map_of ret k = None" and k: "k \<notin> fst ` set ind" by auto
  from Cons.prems kv have "distinct (map fst ind)" "fst ` set ind \<inter> dom (map_of (AList.update k v ret)) = {}"
    by (force simp: update_conv split: if_splits)+
  from Cons.IH [OF this] obtain ret' where r: "appendIndexer ind (AList.update k v ret) = Inr ret'" "map_of ret' = map_of (AList.update k v ret) ++ map_of ind"
    by blast
  have "(map_of ret)(k \<mapsto> v) ++ map_of ind = map_of ret ++ (map_of ind)(k \<mapsto> v)"
    using k [folded map_of_eq_None_iff] by (auto simp: map_add_def fun_eq_iff split: option.split)
  then have "map_of ret' = map_of ret ++ map_of (kv # ind)" using r(2) kv by (simp add: update_conv')
  moreover have "appendIndexer (kv # ind) ret = Inr ret'" using r(1) fresh kv by simp
  ultimately show ?case by blast
qed simp

lemma appendIndexer_taken:
  assumes "(k, v) \<in> set ind" "map_of ret k \<noteq> None"
  shows "\<exists>err. appendIndexer ind ret = Inl err"
  using assms by (induction ind arbitrary: ret) (auto simp: update_conv)

text \<open>
  With a library that adds functions whose names are not taken, the informer has every name after the addition, and
  the functions it had are kept.
\<close>

lemma AddIfNotPresentOrDie_adds:
  assumes "\<And>new. fst ` set existing \<inter> fst ` set new = {} \<Longrightarrow> add existing new = Inr (existing @ new)"
  shows "\<exists>new missing. AddIfNotPresentOrDie add existing toAdd = Returns (new, missing) \<and>
    fst ` set new = fst ` set existing \<union> fst ` set toAdd \<and> (\<forall>k f. map_of existing k = Some f \<longrightarrow> map_of new k = Some f)"
proof -
  let ?m = "filter (\<lambda>(k, v). map_of existing k = None) toAdd"
  have m: "fst ` set ?m = {k \<in> fst ` set toAdd. k \<notin> fst ` set existing}"
    unfolding map_of_eq_None_iff by (auto simp: image_iff)
  then have disj: "fst ` set existing \<inter> fst ` set ?m = {}" by blast
  have names: "fst ` set (existing @ ?m) = fst ` set existing \<union> fst ` set toAdd" unfolding set_append image_Un m by blast
  from assms [OF disj] names show ?thesis
    by (intro exI [of _ "existing @ ?m"] exI [of _ ?m]) (auto simp: AddIfNotPresentOrDie_def Let_def)
qed

end
