(* ===== verification/Namespace_Lifecycle.thy ===== *)
theory Namespace_Lifecycle
  imports Controllers Crds
begin

text \<open>
  The life cycle of service namespaces in the konnector
  (\<open>src/pkg/konnector/controllers/cluster/namespacelifecycle\<close>): a namespace is created in the consumer
  cluster for a service namespace of the provider, and a service namespace of the consumer goes when
  its namespace is gone. The lemmas say what one pass does in each case, and that the two ways of
  creating a service namespace in this system fall on the two sides of the test of ownership.
\<close>

record ('w, 'e) lifecycle_controller =
  lc_queue :: "'w Queue"
  lc_keys :: "'e KeyFuncs"
  lc_providerNamespace :: string
  lc_getNamespace :: "'w \<Rightarrow> string \<Rightarrow> Namespace result"
  lc_createNamespace :: "'w \<Rightarrow> Namespace \<Rightarrow> error option \<times> 'w"
  lc_getServiceNamespace :: "'w \<Rightarrow> string \<Rightarrow> string \<Rightarrow> APIServiceNamespace result"
  lc_deleteServiceNamespace :: "'w \<Rightarrow> string \<Rightarrow> string \<Rightarrow> error option \<times> 'w"

definition lifecycle_enqueueServiceNamespace :: "('w, 'e) lifecycle_controller \<Rightarrow> 'w \<Rightarrow> 'e \<Rightarrow> 'w" where
  "lifecycle_enqueueServiceNamespace c w ob =
     (case kf_DeletionHandlingMetaNamespaceKeyFunc (lc_keys c) ob of
        Inl err \<Rightarrow> w | Inr key \<Rightarrow> q_Add (lc_queue c) key w)"

definition lifecycle_enqueueNamespace :: "('w, 'e) lifecycle_controller \<Rightarrow> 'w \<Rightarrow> 'e \<Rightarrow> 'w" where
  "lifecycle_enqueueNamespace c w ob =
     (case kf_DeletionHandlingMetaNamespaceKeyFunc (lc_keys c) ob of
        Inl err \<Rightarrow> w
      | Inr nsKey \<Rightarrow> q_Add (lc_queue c) (Sprintf ''%s/%s'' [FStr (lc_providerNamespace c), FStr nsKey]) w)"

definition isConsumerOwned :: "APIServiceNamespace \<Rightarrow> bool" where
  "isConsumerOwned sns = (mget (m_Labels (sn_meta sns)) ObjectOwnerLabel \<noteq> OwnerProvider)"

text \<open>The namespace of a service namespace that is gone is looked up, and left alone.\<close>

definition handleNamespaceDeletion :: "('w, 'e) lifecycle_controller \<Rightarrow> string \<Rightarrow> string \<Rightarrow> 'w \<Rightarrow> error option \<times> 'w" where
  "handleNamespaceDeletion c snsNamespace name w =
     (case lc_getNamespace c w name of
        Inl err \<Rightarrow> if \<not> IsNotFound err then (Some err, w) else (None, w)
      | Inr ns \<Rightarrow> (None, w))"

definition providerOwnedNamespace :: "string \<Rightarrow> Namespace" where
  "providerOwnedNamespace name =
     \<lparr>ns_meta = emptyMeta\<lparr>m_Name := name, m_Labels := Mapping.update ObjectOwnerLabel OwnerProvider Mapping.empty\<rparr>\<rparr>"

definition handleNamespaceLifecycle ::
  "('w, 'e) lifecycle_controller \<Rightarrow> APIServiceNamespace \<Rightarrow> 'w \<Rightarrow> error option \<times> 'w" where
  "handleNamespaceLifecycle c current w =
     (let name = m_Name (sn_meta current)
      in if isConsumerOwned current
         then (case lc_getNamespace c w name of
             Inl err \<Rightarrow>
               if IsNotFound err then lc_deleteServiceNamespace c w (m_Namespace (sn_meta current)) name
               else (Some err, w)
           | Inr ns \<Rightarrow> (None, w))
         else (case lc_getNamespace c w name of
             Inl err \<Rightarrow>
               if IsNotFound err then lc_createNamespace c w (providerOwnedNamespace name) else (Some err, w)
           | Inr ns \<Rightarrow> (None, w)))"

definition lifecycle_process :: "('w, 'e) lifecycle_controller \<Rightarrow> 'w \<Rightarrow> string \<Rightarrow> error option \<times> 'w" where
  "lifecycle_process c w key =
     (case kf_SplitMetaNamespaceKey (lc_keys c) key of
        Inl err \<Rightarrow> (None, w)
      | Inr (snsNamespace, name) \<Rightarrow>
          (case lc_getServiceNamespace c w snsNamespace name of
             Inl err \<Rightarrow> if IsNotFound err then handleNamespaceDeletion c snsNamespace name w else (Some err, w)
           | Inr current \<Rightarrow> handleNamespaceLifecycle c current w))"

section \<open>Lemmas\<close>

text \<open>The service namespace of an export request belongs to the provider, one without the label to the consumer.\<close>

lemma requested_namespace_provider_owned: "\<not> isConsumerOwned (APIServiceNamespaceFromExport export n)"
  by (simp add: isConsumerOwned_def APIServiceNamespaceFromExport_def)

lemma unlabelled_namespace_consumer_owned:
  "Mapping.lookup (m_Labels (sn_meta sns)) ObjectOwnerLabel = None \<Longrightarrow> isConsumerOwned sns"
  by (simp add: isConsumerOwned_def mget_def)

text \<open>A deleted service namespace leaves its namespace, whoever owns it.\<close>

lemma deletion_changes_nothing: "snd (handleNamespaceDeletion c ns n w) = w"
  by (simp add: handleNamespaceDeletion_def split: sum.splits)

text \<open>
  After a pass without an error over a service namespace of the provider the namespace exists in the
  consumer cluster, given that a creation is visible; a pass over one of the consumer creates nothing.
\<close>

lemma provider_namespace_exists:
  assumes "handleNamespaceLifecycle c sns w = (None, w')" "\<not> isConsumerOwned sns"
    and "\<forall>w ns w'. lc_createNamespace c w ns = (None, w') \<longrightarrow> (\<exists>found. lc_getNamespace c w' (m_Name (ns_meta ns)) = Inr found)"
  shows "\<exists>ns. lc_getNamespace c w' (m_Name (sn_meta sns)) = Inr ns"
proof (cases "lc_getNamespace c w (m_Name (sn_meta sns))")
  case (Inr ns)
  with assms show ?thesis by (auto simp: handleNamespaceLifecycle_def)
next
  case (Inl err)
  with assms(1,2) have "lc_createNamespace c w (providerOwnedNamespace (m_Name (sn_meta sns))) = (None, w')"
    by (auto simp: handleNamespaceLifecycle_def split: if_splits)
  with assms(3) have "\<exists>ns. lc_getNamespace c w' (m_Name (ns_meta (providerOwnedNamespace (m_Name (sn_meta sns))))) = Inr ns"
    by blast
  then show ?thesis by (simp add: providerOwnedNamespace_def emptyMeta_def)
qed

lemma consumer_namespace_kept:
  assumes "isConsumerOwned sns" "lc_getNamespace c w (m_Name (sn_meta sns)) = Inr ns"
  shows "handleNamespaceLifecycle c sns w = (None, w)"
  using assms by (simp add: handleNamespaceLifecycle_def)

text \<open>The key of a namespace event is the key of its service namespace.\<close>

lemma enqueueNamespace_key:
  assumes "kf_DeletionHandlingMetaNamespaceKeyFunc (lc_keys c) ob = Inr n"
  shows "lifecycle_enqueueNamespace c w ob = q_Add (lc_queue c) (lc_providerNamespace c @ ''/'' @ n) w"
  using assms by (simp add: lifecycle_enqueueNamespace_def)

end
