(* ===== verification/Backend_Rbac.thy ===== *)
theory Backend_Rbac
  imports Backend
begin

text \<open>
  The RBAC objects the backend keeps: for every export the roles of the konnector
  (\<open>src/backend/controllers/serviceexportrbac\<close>), and for a cluster the role of its users
  (\<open>src/backend/controllers/cluster\<close>). The API server is a parameter, one record of access
  functions per kind of object; the locale \<open>object_store\<close> states what the laws of such an access
  are, and what the routines that create or update an object then guarantee. It is interpreted for
  the four kinds over a concrete cluster, on which the properties are stated.
\<close>

section \<open>RBAC data\<close>

record PolicyRule =
  pr_APIGroups :: "string list"
  pr_Resources :: "string list"
  pr_NonResourceURLs :: "string list"
  pr_Verbs :: "string list"

record Subject =
  sj_Kind :: string
  sj_Namespace :: string
  sj_Name :: string

record RoleRef =
  rf_APIGroup :: string
  rf_Kind :: string
  rf_Name :: string

text \<open>An aggregation rule is the list of the label maps its selectors match.\<close>

record ClusterRole =
  cr_meta :: ObjectMeta
  cr_Rules :: "PolicyRule list"
  cr_AggregationRule :: "smap list option"

record ClusterRoleBinding =
  crb_meta :: ObjectMeta
  crb_RoleRef :: RoleRef
  crb_Subjects :: "Subject list"

record Role =
  ro_meta :: ObjectMeta
  ro_Rules :: "PolicyRule list"

record RoleBinding =
  rb_meta :: ObjectMeta
  rb_RoleRef :: RoleRef
  rb_Subjects :: "Subject list"

record ('o, 'w) access =
  ac_get :: "'w \<Rightarrow> NamespacedName \<Rightarrow> 'o result"
  ac_create :: "'w \<Rightarrow> 'o \<Rightarrow> error option \<times> 'w"
  ac_update :: "'w \<Rightarrow> 'o \<Rightarrow> error option \<times> 'w"

definition keyOfMeta :: "ObjectMeta \<Rightarrow> NamespacedName" where
  "keyOfMeta m = \<lparr>nn_Namespace = m_Namespace m, nn_Name = m_Name m\<rparr>"

definition getOrCreate :: "('o \<Rightarrow> ObjectMeta) \<Rightarrow> ('o, 'w) access \<Rightarrow> 'w \<Rightarrow> 'o \<Rightarrow> 'o result \<times> 'w" where
  "getOrCreate meta ac w expectedObj =
     (case ac_get ac w (keyOfMeta (meta expectedObj)) of
        Inl err \<Rightarrow>
          if \<not> IsNotFound err then (Inl err, w)
          else (case ac_create ac w expectedObj of
              (Some err, w1) \<Rightarrow> if \<not> IsAlreadyExists err then (Inl err, w1) else (Inr expectedObj, w1)
            | (None, w1) \<Rightarrow> (Inr expectedObj, w1))
      | Inr ob \<Rightarrow> (Inr ob, w))"

text \<open>
  The comparisons use \<open>reflect.DeepEqual\<close>, which tells a nil slice from an empty one; lists do
  not, so that an update of an empty list by an empty list is not a call of the model.

  The shape of every routine: get or create the object, and update it when it is not up to date.\<close>

definition ensureObject ::
  "('o \<Rightarrow> ObjectMeta) \<Rightarrow> ('o, 'w) access \<Rightarrow> ('o \<Rightarrow> bool) \<Rightarrow> ('o \<Rightarrow> 'o) \<Rightarrow> 'w \<Rightarrow> 'o \<Rightarrow> error option \<times> 'w" where
  "ensureObject meta ac upToDate adjust w expectedObj =
     (case getOrCreate meta ac w expectedObj of
        (Inl err, w1) \<Rightarrow> (Some err, w1)
      | (Inr ob, w1) \<Rightarrow> if \<not> upToDate ob then ac_update ac w1 (adjust ob) else (None, w1))"

section \<open>Roles of an export\<close>

definition rbacAggregateLabelKey :: string where
  "rbacAggregateLabelKey = ''rbac.kube-bind.io/aggregate-to-parent''"

record 'w rbac_reconciler =
  ra_scope :: InformerScope
  ra_listServiceNamespaces :: "'w \<Rightarrow> string \<Rightarrow> APIServiceNamespace list result"
  ra_getNamespace :: "'w \<Rightarrow> string \<Rightarrow> Namespace result"
  ra_clusterRoles :: "(ClusterRole, 'w) access"
  ra_clusterRoleBindings :: "(ClusterRoleBinding, 'w) access"
  ra_roles :: "(Role, 'w) access"
  ra_roleBindings :: "(RoleBinding, 'w) access"

type_synonym groupResourceSet = "(string, GroupResource) mapping"

definition buildPolicyRules :: "string list \<Rightarrow> groupResourceSet \<Rightarrow> PolicyRule list" where
  "buildPolicyRules verbs s =
     concat (map (\<lambda>key. case Mapping.lookup s key of
         None \<Rightarrow> []
       | Some gr \<Rightarrow> [\<lparr>pr_APIGroups = [gr_Group gr], pr_Resources = [gr_Resource gr],
                     pr_NonResourceURLs = [], pr_Verbs = verbs\<rparr>])
       (sorted_list_of_set (Mapping.keys s)))"

definition allVerbs :: "string list" where
  "allVerbs = [''get'', ''list'', ''watch'', ''create'', ''update'', ''patch'', ''delete'']"

definition addGroupResource :: "GroupResource \<Rightarrow> groupResourceSet \<Rightarrow> groupResourceSet" where
  "addGroupResource gr s = Mapping.update (GroupResource_String gr) gr s"

definition resourceRules :: "APIServiceExport \<Rightarrow> PolicyRule list" where
  "resourceRules export = buildPolicyRules allVerbs
     (fold (\<lambda>res. addGroupResource (rr_GroupResource res)) (exs_Resources (ex_Spec export)) Mapping.empty)"

text \<open>The scope of a claim, empty when it is not for a claimable API.\<close>

definition claimScope :: "PermissionClaim \<Rightarrow> ResourceScope" where
  "claimScope claim =
     (case find (\<lambda>api. gr_Group (pc_GroupResource claim) = gvr_Group (ia_GroupVersionResource api) \<and>
             gr_Resource (pc_GroupResource claim) = gvr_Resource (ia_GroupVersionResource api)) ClaimableAPIs of
        None \<Rightarrow> [] | Some api \<Rightarrow> ia_ResourceScope api)"

definition claimRules :: "ResourceScope \<Rightarrow> APIServiceExport \<Rightarrow> PolicyRule list" where
  "claimRules scope export = buildPolicyRules allVerbs
     (fold (\<lambda>claim. addGroupResource (pc_GroupResource claim))
        (filter (\<lambda>claim. claimScope claim = scope) (exs_PermissionClaims (ex_Spec export))) Mapping.empty)"

definition ensureAggregatedClusterRole ::
  "'w rbac_reconciler \<Rightarrow> string \<Rightarrow> OwnerReference list \<Rightarrow> PolicyRule list \<Rightarrow> 'w \<Rightarrow> error option \<times> 'w" where
  "ensureAggregatedClusterRole r name owners rules w =
     ensureObject cr_meta (ra_clusterRoles r)
       (\<lambda>clusterRole. mget (m_Labels (cr_meta clusterRole)) rbacAggregateLabelKey = ''true'' \<and>
          owners = m_OwnerReferences (cr_meta clusterRole) \<and> rules = cr_Rules clusterRole)
       (\<lambda>clusterRole. clusterRole\<lparr>cr_meta := (cr_meta clusterRole)\<lparr>
            m_Labels := Mapping.update rbacAggregateLabelKey ''true'' (m_Labels (cr_meta clusterRole)),
            m_OwnerReferences := owners\<rparr>, cr_Rules := rules\<rparr>) w
       \<lparr>cr_meta = emptyMeta\<lparr>m_Name := name,
          m_Labels := Mapping.update rbacAggregateLabelKey ''true'' Mapping.empty, m_OwnerReferences := owners\<rparr>,
        cr_Rules = rules, cr_AggregationRule = None\<rparr>"

definition exportsRole :: string where
  "exportsRole = ''kube-binder-exports''"

definition ensureAggregatingClusteRoleAndClusterRoleBinding ::
  "'w rbac_reconciler \<Rightarrow> Subject list \<Rightarrow> 'w \<Rightarrow> error option \<times> 'w" where
  "ensureAggregatingClusteRoleAndClusterRoleBinding r subjects w =
     (let aggregation = Some [Mapping.update rbacAggregateLabelKey ''true'' Mapping.empty]
      in case ensureObject cr_meta (ra_clusterRoles r)
             (\<lambda>clusterRole. aggregation = cr_AggregationRule clusterRole)
             (\<lambda>clusterRole. clusterRole\<lparr>cr_AggregationRule := aggregation\<rparr>) w
             \<lparr>cr_meta = emptyMeta\<lparr>m_Name := exportsRole\<rparr>, cr_Rules = [], cr_AggregationRule = aggregation\<rparr> of
           (Some err, w1) \<Rightarrow> (Some err, w1)
         | (None, w1) \<Rightarrow>
             ensureObject crb_meta (ra_clusterRoleBindings r)
               (\<lambda>clusterRoleBinding. subjects = crb_Subjects clusterRoleBinding)
               (\<lambda>clusterRoleBinding. clusterRoleBinding\<lparr>crb_Subjects := subjects\<rparr>) w1
               \<lparr>crb_meta = emptyMeta\<lparr>m_Name := exportsRole\<rparr>,
                crb_RoleRef = \<lparr>rf_APIGroup = ''rbac.authorization.k8s.io'', rf_Kind = ''ClusterRole'', rf_Name = exportsRole\<rparr>,
                crb_Subjects = subjects\<rparr>)"

definition ensureRoleAndRoleBinding ::
  "'w rbac_reconciler \<Rightarrow> string \<Rightarrow> string \<Rightarrow> Subject list \<Rightarrow> PolicyRule list \<Rightarrow> 'w \<Rightarrow> error option \<times> 'w" where
  "ensureRoleAndRoleBinding r namespace name subjects rules w =
     (case ensureObject ro_meta (ra_roles r) (\<lambda>role. rules = ro_Rules role) (\<lambda>role. role\<lparr>ro_Rules := rules\<rparr>) w
             \<lparr>ro_meta = emptyMeta\<lparr>m_Name := name, m_Namespace := namespace\<rparr>, ro_Rules = rules\<rparr> of
        (Some err, w1) \<Rightarrow> (Some err, w1)
      | (None, w1) \<Rightarrow>
          ensureObject rb_meta (ra_roleBindings r) (\<lambda>roleBinding. subjects = rb_Subjects roleBinding)
            (\<lambda>roleBinding. roleBinding\<lparr>rb_Subjects := subjects\<rparr>) w1
            \<lparr>rb_meta = emptyMeta\<lparr>m_Name := name, m_Namespace := namespace\<rparr>,
             rb_RoleRef = \<lparr>rf_APIGroup = ''rbac.authorization.k8s.io'', rf_Kind = ''Role'', rf_Name = name\<rparr>,
             rb_Subjects = subjects\<rparr>)"

fun ensureNamespaceRoles ::
  "'w rbac_reconciler \<Rightarrow> string \<Rightarrow> Subject list \<Rightarrow> PolicyRule list \<Rightarrow> APIServiceNamespace list \<Rightarrow>
     error list \<Rightarrow> 'w \<Rightarrow> error list \<times> 'w" where
  "ensureNamespaceRoles r name subjects rules [] errs w = (errs, w)"
| "ensureNamespaceRoles r name subjects rules (sn # sns) errs w =
     (if snt_Namespace (sn_Status sn) = [] then ensureNamespaceRoles r name subjects rules sns errs w
      else (case ensureRoleAndRoleBinding r (snt_Namespace (sn_Status sn)) name subjects rules w of
          (err, w1) \<Rightarrow> ensureNamespaceRoles r name subjects rules sns (appendErr errs err) w1))"

definition rbacName :: "string \<Rightarrow> APIServiceExport \<Rightarrow> string" where
  "rbacName what export = what @ ''-'' @ m_Namespace (ex_meta export) @ ''-'' @ m_Name (ex_meta export)"

definition kubebinderSubject :: "APIServiceExport \<Rightarrow> Subject list" where
  "kubebinderSubject export =
     [\<lparr>sj_Kind = ''ServiceAccount'', sj_Namespace = m_Namespace (ex_meta export), sj_Name = ''kube-binder''\<rparr>]"

definition ensureClaimRoles ::
  "'w rbac_reconciler \<Rightarrow> OwnerReference list \<Rightarrow> APIServiceExport \<Rightarrow> error list \<Rightarrow> 'w \<Rightarrow> error list \<times> 'w" where
  "ensureClaimRoles r ownerRefs export errs w =
     (let claims = rbacName ''kube-binder-claims'' export
      in if ra_scope r = ClusterScope
         then (case ensureAggregatedClusterRole r claims ownerRefs
                      (claimRules ClusterScoped export @ claimRules NamespaceScoped export) w of
             (err, w1) \<Rightarrow> (appendErr errs err, w1))
         else if ra_scope r = NamespacedScope
         then (case ensureAggregatedClusterRole r claims ownerRefs (claimRules ClusterScoped export) w of
             (err, w1) \<Rightarrow>
               (case ra_listServiceNamespaces r w1 (m_Namespace (ex_meta export)) of
                  Inl err2 \<Rightarrow> (appendErr (appendErr errs err) (Some err2), w1)
                | Inr serviceNamespaces \<Rightarrow>
                    ensureNamespaceRoles r (''kube-binder-claims-'' @ m_Name (ex_meta export))
                      (kubebinderSubject export) (claimRules NamespaceScoped export)
                      serviceNamespaces (appendErr errs err) w1))
         else (errs @ [PlainError (''unknown informer scope '' @ quote (ra_scope r))], w))"

definition rbac_reconcile :: "'w rbac_reconciler \<Rightarrow> APIServiceExport \<Rightarrow> 'w \<Rightarrow> error option \<times> 'w" where
  "rbac_reconcile r export w =
     (case ra_getNamespace r w (m_Namespace (ex_meta export)) of
        Inl err \<Rightarrow> (Some err, w)
      | Inr ns \<Rightarrow>
          let ownerRefs = [\<lparr>or_APIVersion = ''v1'', or_Kind = ''Namespace'', or_Name = m_Name (ns_meta ns),
                 or_UID = m_UID (ns_meta ns), or_Controller = False\<rparr>]
          in (case ensureAggregatingClusteRoleAndClusterRoleBinding r (kubebinderSubject export) w of
                (err1, w1) \<Rightarrow>
                  (case ensureAggregatedClusterRole r (rbacName ''kube-binder-resources'' export) ownerRefs
                          (resourceRules export) w1 of
                     (err2, w2) \<Rightarrow>
                       (case ensureClaimRoles r ownerRefs export (appendErr (appendErr [] err1) err2) w2 of
                          (errs, w3) \<Rightarrow> (NewAggregate errs, w3)))))"

definition rbac_Reconcile ::
  "(APIServiceExport, 'w) backend_client \<Rightarrow> 'w rbac_reconciler \<Rightarrow> mcRequest \<Rightarrow> 'w \<Rightarrow> ctrlResult result \<times> 'w" where
  "rbac_Reconcile be r req w =
     withObject be ''APIServiceExport'' req w (Inr noRequeue, w) (\<lambda>export.
       case rbac_reconcile r export w of (Some err, w1) \<Rightarrow> (Inl err, w1) | (None, w1) \<Rightarrow> (Inr noRequeue, w1))"

definition mapAPIServiceNamespace ::
  "string \<Rightarrow> (string \<Rightarrow> APIServiceExport list result) \<Rightarrow> APIServiceNamespace option \<Rightarrow> mcRequest list" where
  "mapAPIServiceNamespace clusterName listExports ob =
     (case ob of
        None \<Rightarrow> []
      | Some serviceNamespace \<Rightarrow>
          requestsFor clusterName ex_meta (listExports (m_Namespace (sn_meta serviceNamespace))))"

section \<open>The role of the users of a cluster\<close>

text \<open>
  \<open>controllerutil.SetControllerReference\<close> is a parameter: it gives the owner references of the
  object, or an error. The update writes the object that was read with the new fields.
\<close>

record 'w user_reconciler =
  us_allowedGroups :: "string list"
  us_allowedUsers :: "string list"
  us_ownerReferences :: "ObjectMeta \<Rightarrow> OwnerReference list result"
  us_clusterRoles :: "(ClusterRole, 'w) access"
  us_clusterRoleBindings :: "(ClusterRoleBinding, 'w) access"

definition userRole :: string where
  "userRole = ''kube-bind-oidc-user''"

definition putObject ::
  "('o, 'w) access \<Rightarrow> NamespacedName \<Rightarrow> ('o \<Rightarrow> 'o) \<Rightarrow> 'o \<Rightarrow> 'w \<Rightarrow> error option \<times> 'w" where
  "putObject ac key adjust new w =
     (case ac_get ac w key of
        Inl err \<Rightarrow> if IsNotFound err then ac_create ac w new else (Some err, w)
      | Inr existing \<Rightarrow> ac_update ac w (adjust existing))"

definition userRules :: "PolicyRule list" where
  "userRules =
     [\<lparr>pr_APIGroups = [''kube-bind.io''], pr_Resources = [''*''], pr_NonResourceURLs = [], pr_Verbs = [''bind'']\<rparr>,
      \<lparr>pr_APIGroups = [], pr_Resources = [], pr_NonResourceURLs = [''/'', ''/api'', ''/api/*'', ''/apis'', ''/apis/*''],
       pr_Verbs = [''access'']\<rparr>]"

definition ensureUserClusterRole :: "'w user_reconciler \<Rightarrow> ObjectMeta \<Rightarrow> 'w \<Rightarrow> error option \<times> 'w" where
  "ensureUserClusterRole r cluster w =
     (case us_ownerReferences r cluster of
        Inl err \<Rightarrow> (Some err, w)
      | Inr owners \<Rightarrow>
          putObject (us_clusterRoles r) \<lparr>nn_Namespace = [], nn_Name = userRole\<rparr>
            (\<lambda>existing. existing\<lparr>cr_Rules := userRules, cr_meta := (cr_meta existing)\<lparr>m_OwnerReferences := owners\<rparr>\<rparr>)
            \<lparr>cr_meta = emptyMeta\<lparr>m_Name := userRole, m_OwnerReferences := owners\<rparr>,
             cr_Rules = userRules, cr_AggregationRule = None\<rparr> w)"

definition userSubjects :: "'w user_reconciler \<Rightarrow> Subject list" where
  "userSubjects r =
     map (\<lambda>group. \<lparr>sj_Kind = ''Group'', sj_Namespace = [], sj_Name = group\<rparr>) (us_allowedGroups r) @
     map (\<lambda>user. \<lparr>sj_Kind = ''User'', sj_Namespace = [], sj_Name = user\<rparr>) (us_allowedUsers r)"

definition ensureUserClusterRoleBinding :: "'w user_reconciler \<Rightarrow> ObjectMeta \<Rightarrow> 'w \<Rightarrow> error option \<times> 'w" where
  "ensureUserClusterRoleBinding r cluster w =
     (let ref = \<lparr>rf_APIGroup = ''rbac.authorization.k8s.io'', rf_Kind = ''ClusterRole'', rf_Name = userRole\<rparr>
      in case us_ownerReferences r cluster of
           Inl err \<Rightarrow> (Some err, w)
         | Inr owners \<Rightarrow>
             putObject (us_clusterRoleBindings r) \<lparr>nn_Namespace = [], nn_Name = userRole\<rparr>
               (\<lambda>existing. existing\<lparr>crb_RoleRef := ref, crb_Subjects := userSubjects r,
                  crb_meta := (crb_meta existing)\<lparr>m_OwnerReferences := owners\<rparr>\<rparr>)
               \<lparr>crb_meta = emptyMeta\<lparr>m_Name := userRole, m_OwnerReferences := owners\<rparr>,
                crb_RoleRef = ref, crb_Subjects = userSubjects r\<rparr> w)"

definition user_reconcile :: "'w user_reconciler \<Rightarrow> ObjectMeta \<Rightarrow> 'w \<Rightarrow> error option \<times> 'w" where
  "user_reconcile r cluster w =
     (case ensureUserClusterRole r cluster w of
        (Some err, w1) \<Rightarrow> (NewAggregate [err], w1)
      | (None, w1) \<Rightarrow>
          (case ensureUserClusterRoleBinding r cluster w1 of (err, w2) \<Rightarrow> (NewAggregate (appendErr [] err), w2)))"

text \<open>The reconciliation never changes the cluster object, so the final update is never made.\<close>

definition user_Reconcile ::
  "(ObjectMeta, 'w) backend_client \<Rightarrow> 'w user_reconciler \<Rightarrow> mcRequest \<Rightarrow> 'w \<Rightarrow> ctrlResult result \<times> 'w" where
  "user_Reconcile be r req w =
     withObject be ''Cluster'' req w (Inr noRequeue, w) (\<lambda>cluster.
       case user_reconcile r cluster w of (Some err, w1) \<Rightarrow> (Inl err, w1) | (None, w1) \<Rightarrow> (Inr noRequeue, w1))"

section \<open>The laws of an object store\<close>

text \<open>
  What the routines rely on: an object is found under its key, a successful write stores exactly the
  object, and a creation fails with \<open>AlreadyExists\<close> only if there is an object.
\<close>

locale object_store =
  fixes meta :: "'o \<Rightarrow> ObjectMeta" and ac :: "('o, 'w) access"
  assumes get_key: "ac_get ac w k = Inr ob \<Longrightarrow> keyOfMeta (meta ob) = k"
    and get_create: "ac_create ac w ob = (None, w') \<Longrightarrow>
      ac_get ac w' k = (if k = keyOfMeta (meta ob) then Inr ob else ac_get ac w k)"
    and get_update: "ac_update ac w ob = (None, w') \<Longrightarrow>
      ac_get ac w' k = (if k = keyOfMeta (meta ob) then Inr ob else ac_get ac w k)"
    and create_exists: "ac_create ac w ob = (Some err, w') \<Longrightarrow> IsAlreadyExists err \<Longrightarrow>
      \<exists>ob'. ac_get ac w (keyOfMeta (meta ob)) = Inr ob'"
begin

lemma getOrCreate_post:
  assumes "getOrCreate meta ac w ob = (Inr ob', w')"
  shows "ac_get ac w' k = (if k = keyOfMeta (meta ob) then Inr ob' else ac_get ac w k)"
    and "ob' = ob \<or> ac_get ac w (keyOfMeta (meta ob)) = Inr ob'"
    and "keyOfMeta (meta ob') = keyOfMeta (meta ob)"
  using assms get_create [of w ob] create_exists [of w ob] get_key [of w "keyOfMeta (meta ob)"]
  by (auto simp: getOrCreate_def split: sum.splits if_splits prod.splits option.splits)

text \<open>After a routine without an error the object is up to date, and no other object has changed.\<close>

lemma ensureObject_post:
  assumes "ensureObject meta ac P f w ob = (None, w')"
    and "P ob" "\<And>x. P (f x)" "\<And>x. keyOfMeta (meta (f x)) = keyOfMeta (meta x)"
  shows "\<exists>ob'. ac_get ac w' (keyOfMeta (meta ob)) = Inr ob' \<and> P ob'"
    and "k \<noteq> keyOfMeta (meta ob) \<Longrightarrow> ac_get ac w' k = ac_get ac w k"
proof -
  obtain x w1 where g: "getOrCreate meta ac w ob = (Inr x, w1)"
    using assms(1) by (auto simp: ensureObject_def split: prod.splits sum.splits)
  note post = getOrCreate_post [OF g]
  have "\<exists>ob'. ac_get ac w' (keyOfMeta (meta ob)) = Inr ob' \<and> P ob' \<and>
      (\<forall>k. k \<noteq> keyOfMeta (meta ob) \<longrightarrow> ac_get ac w' k = ac_get ac w k)"
  proof (cases "P x")
    case True
    with assms(1) g have "w' = w1" by (simp add: ensureObject_def)
    with True post show ?thesis by simp
  next
    case False
    with assms(1) g have "ac_update ac w1 (f x) = (None, w')" by (simp add: ensureObject_def)
    from get_update [OF this] post assms(3,4) show ?thesis by simp
  qed
  then show "\<exists>ob'. ac_get ac w' (keyOfMeta (meta ob)) = Inr ob' \<and> P ob'"
    and "k \<noteq> keyOfMeta (meta ob) \<Longrightarrow> ac_get ac w' k = ac_get ac w k" by blast+
qed

end

section \<open>A cluster\<close>

text \<open>The objects of a cluster as lists, and the access to one of them.\<close>

record rbac_cluster =
  wd_clusterRoles :: "ClusterRole list"
  wd_clusterRoleBindings :: "ClusterRoleBinding list"
  wd_roles :: "Role list"
  wd_roleBindings :: "RoleBinding list"
  wd_namespaces :: "Namespace list"
  wd_serviceNamespaces :: "APIServiceNamespace list"

definition listGet :: "('o \<Rightarrow> ObjectMeta) \<Rightarrow> 'o list \<Rightarrow> NamespacedName \<Rightarrow> 'o result" where
  "listGet meta obs k =
     (case find (\<lambda>ob. keyOfMeta (meta ob) = k) obs of
        None \<Rightarrow> Inl (StatusError ReasonNotFound ''not found'') | Some ob \<Rightarrow> Inr ob)"

definition listAccess ::
  "('o \<Rightarrow> ObjectMeta) \<Rightarrow> ('w \<Rightarrow> 'o list) \<Rightarrow> (('o list \<Rightarrow> 'o list) \<Rightarrow> 'w \<Rightarrow> 'w) \<Rightarrow> ('o, 'w) access" where
  "listAccess meta sel upd =
     \<lparr>ac_get = (\<lambda>w. listGet meta (sel w)),
      ac_create = (\<lambda>w ob. case listGet meta (sel w) (keyOfMeta (meta ob)) of
         Inr _ \<Rightarrow> (Some (StatusError ReasonAlreadyExists ''already exists''), w)
       | Inl _ \<Rightarrow> (None, upd (\<lambda>obs. obs @ [ob]) w)),
      ac_update = (\<lambda>w ob. case listGet meta (sel w) (keyOfMeta (meta ob)) of
         Inl err \<Rightarrow> (Some err, w)
       | Inr _ \<Rightarrow> (None, upd (map (\<lambda>x. if keyOfMeta (meta x) = keyOfMeta (meta ob) then ob else x)) w))\<rparr>"

lemma listGet_append: "listGet meta (obs @ [ob]) k =
    (case listGet meta obs k of Inl err \<Rightarrow> if keyOfMeta (meta ob) = k then Inr ob else Inl err | Inr x \<Rightarrow> Inr x)"
  by (induction obs) (auto simp: listGet_def)

lemma listGet_update:
  "listGet meta (map (\<lambda>x. if keyOfMeta (meta x) = keyOfMeta (meta ob) then ob else x) obs) k =
     (case listGet meta obs k of Inl err \<Rightarrow> Inl err
      | Inr x \<Rightarrow> if k = keyOfMeta (meta ob) then Inr ob else Inr x)"
  by (induction obs) (auto simp: listGet_def)

lemma listGet_key: "listGet meta obs k = Inr ob \<Longrightarrow> keyOfMeta (meta ob) = k"
  by (auto simp: listGet_def find_Some_iff split: option.splits)

lemma listAccess_store:
  assumes "\<And>f w. sel (upd f w) = f (sel w)"
  shows "object_store meta (listAccess meta sel upd)"
  by unfold_locales
     (auto simp: listAccess_def assms listGet_append listGet_update listGet_key split: sum.splits if_splits)

definition clusterRoleAccess :: "(ClusterRole, rbac_cluster) access" where
  "clusterRoleAccess = listAccess cr_meta wd_clusterRoles (\<lambda>f w. w\<lparr>wd_clusterRoles := f (wd_clusterRoles w)\<rparr>)"

definition clusterRoleBindingAccess :: "(ClusterRoleBinding, rbac_cluster) access" where
  "clusterRoleBindingAccess = listAccess crb_meta wd_clusterRoleBindings
     (\<lambda>f w. w\<lparr>wd_clusterRoleBindings := f (wd_clusterRoleBindings w)\<rparr>)"

definition roleAccess :: "(Role, rbac_cluster) access" where
  "roleAccess = listAccess ro_meta wd_roles (\<lambda>f w. w\<lparr>wd_roles := f (wd_roles w)\<rparr>)"

definition roleBindingAccess :: "(RoleBinding, rbac_cluster) access" where
  "roleBindingAccess = listAccess rb_meta wd_roleBindings (\<lambda>f w. w\<lparr>wd_roleBindings := f (wd_roleBindings w)\<rparr>)"

interpretation cluster_roles: object_store cr_meta clusterRoleAccess
  unfolding clusterRoleAccess_def by (rule listAccess_store) simp

interpretation cluster_role_bindings: object_store crb_meta clusterRoleBindingAccess
  unfolding clusterRoleBindingAccess_def by (rule listAccess_store) simp

interpretation roles: object_store ro_meta roleAccess
  unfolding roleAccess_def by (rule listAccess_store) simp

interpretation role_bindings: object_store rb_meta roleBindingAccess
  unfolding roleBindingAccess_def by (rule listAccess_store) simp

definition clusterRbac :: "InformerScope \<Rightarrow> rbac_cluster rbac_reconciler" where
  "clusterRbac scope =
     \<lparr>ra_scope = scope,
      ra_listServiceNamespaces = (\<lambda>w ns. Inr (filter (\<lambda>sn. m_Namespace (sn_meta sn) = ns) (wd_serviceNamespaces w))),
      ra_getNamespace = (\<lambda>w n. listGet ns_meta (wd_namespaces w) \<lparr>nn_Namespace = [], nn_Name = n\<rparr>),
      ra_clusterRoles = clusterRoleAccess, ra_clusterRoleBindings = clusterRoleBindingAccess,
      ra_roles = roleAccess, ra_roleBindings = roleBindingAccess\<rparr>"

section \<open>What an export grants\<close>

text \<open>An access to one kind of object leaves everything else in the cluster alone.\<close>

lemma ensureObject_frame:
  assumes "\<And>f w. other (upd f w) = other w"
  shows "other (snd (ensureObject meta (listAccess meta sel upd) P f w ob)) = other w"
  by (auto simp: ensureObject_def getOrCreate_def listAccess_def assms split: sum.splits prod.splits)

lemma roles_frame [simp]:
  "wd_clusterRoles (snd (ensureObject ro_meta roleAccess P f w ob)) = wd_clusterRoles w"
  "wd_clusterRoleBindings (snd (ensureObject ro_meta roleAccess P f w ob)) = wd_clusterRoleBindings w"
  unfolding roleAccess_def by (rule ensureObject_frame, simp)+

lemma role_bindings_frame [simp]:
  "wd_clusterRoles (snd (ensureObject rb_meta roleBindingAccess P f2 w ob2)) = wd_clusterRoles w"
  "wd_clusterRoleBindings (snd (ensureObject rb_meta roleBindingAccess P f2 w ob2)) = wd_clusterRoleBindings w"
  unfolding roleBindingAccess_def by (rule ensureObject_frame, simp)+

lemma cluster_roles_frame [simp]:
  "wd_clusterRoleBindings (snd (ensureObject cr_meta clusterRoleAccess P f w ob)) = wd_clusterRoleBindings w"
  unfolding clusterRoleAccess_def by (rule ensureObject_frame) simp

lemma cluster_role_bindings_frame [simp]:
  "wd_clusterRoles (snd (ensureObject crb_meta clusterRoleBindingAccess P f w ob)) = wd_clusterRoles w"
  unfolding clusterRoleBindingAccess_def by (rule ensureObject_frame) simp

lemma clusterRbac_simps [simp]:
  "ra_scope (clusterRbac scope) = scope" "ra_clusterRoles (clusterRbac scope) = clusterRoleAccess"
  "ra_clusterRoleBindings (clusterRbac scope) = clusterRoleBindingAccess"
  "ra_roles (clusterRbac scope) = roleAccess" "ra_roleBindings (clusterRbac scope) = roleBindingAccess"
  by (simp_all add: clusterRbac_def)

lemma ensureRoleAndRoleBinding_frame:
  assumes "ensureRoleAndRoleBinding (clusterRbac scope) ns name subjects rules w = (e, w')"
  shows "wd_clusterRoles w' = wd_clusterRoles w \<and> wd_clusterRoleBindings w' = wd_clusterRoleBindings w"
proof -
  let ?role = "ensureObject ro_meta roleAccess (\<lambda>role. rules = ro_Rules role) (\<lambda>role. role\<lparr>ro_Rules := rules\<rparr>) w
      \<lparr>ro_meta = emptyMeta\<lparr>m_Name := name, m_Namespace := ns\<rparr>, ro_Rules = rules\<rparr>"
  obtain e1 w1 where 1: "?role = (e1, w1)" by fastforce
  have "wd_clusterRoles w1 = wd_clusterRoles w \<and> wd_clusterRoleBindings w1 = wd_clusterRoleBindings w"
    using 1 by (metis roles_frame snd_conv)
  moreover have "wd_clusterRoles w' = wd_clusterRoles w1 \<and> wd_clusterRoleBindings w' = wd_clusterRoleBindings w1"
    using assms 1 by (cases e1) (simp add: ensureRoleAndRoleBinding_def, metis role_bindings_frame snd_conv,
      simp add: ensureRoleAndRoleBinding_def)
  ultimately show ?thesis by simp
qed

lemma ensureNamespaceRoles_frame:
  "ensureNamespaceRoles (clusterRbac scope) name subjects rules sns errs w = (errs', w') \<Longrightarrow>
     wd_clusterRoles w' = wd_clusterRoles w \<and> wd_clusterRoleBindings w' = wd_clusterRoleBindings w"
  by (induction sns arbitrary: errs w)
     (auto split: if_splits prod.splits dest!: ensureRoleAndRoleBinding_frame)

text \<open>The cluster role store is read through one field of the cluster only.\<close>

lemma clusterRole_get: "ac_get clusterRoleAccess w k = listGet cr_meta (wd_clusterRoles w) k"
  by (simp add: clusterRoleAccess_def listAccess_def)

lemma clusterRoleBinding_get:
  "ac_get clusterRoleBindingAccess w k = listGet crb_meta (wd_clusterRoleBindings w) k"
  by (simp add: clusterRoleBindingAccess_def listAccess_def)

definition clusterKey :: "string \<Rightarrow> NamespacedName" where
  "clusterKey name = \<lparr>nn_Namespace = [], nn_Name = name\<rparr>"

lemma keyOfMeta_clusterKey [simp]:
  "keyOfMeta (emptyMeta\<lparr>m_Name := name, m_Labels := l, m_OwnerReferences := os\<rparr>) = clusterKey name"
  "keyOfMeta (emptyMeta\<lparr>m_Name := name\<rparr>) = clusterKey name"
  by (simp_all add: keyOfMeta_def clusterKey_def emptyMeta_def)

lemma clusterKey_eq [simp]: "clusterKey a = clusterKey b \<longleftrightarrow> a = b"
  by (simp add: clusterKey_def)

lemma ensureAggregatedClusterRole_post:
  assumes "ensureAggregatedClusterRole (clusterRbac scope) name owners rules w = (None, w')"
  shows "\<exists>role. listGet cr_meta (wd_clusterRoles w') (clusterKey name) = Inr role \<and> cr_Rules role = rules \<and>
           mget (m_Labels (cr_meta role)) rbacAggregateLabelKey = ''true'' \<and> m_OwnerReferences (cr_meta role) = owners"
    and "k \<noteq> clusterKey name \<Longrightarrow> listGet cr_meta (wd_clusterRoles w') k = listGet cr_meta (wd_clusterRoles w) k"
proof -
  let ?P = "\<lambda>clusterRole. mget (m_Labels (cr_meta clusterRole)) rbacAggregateLabelKey = ''true'' \<and>
          owners = m_OwnerReferences (cr_meta clusterRole) \<and> rules = cr_Rules clusterRole"
  note post = cluster_roles.ensureObject_post
    [OF assms [unfolded ensureAggregatedClusterRole_def clusterRbac_simps], unfolded clusterRole_get, simplified]
  show "\<exists>role. listGet cr_meta (wd_clusterRoles w') (clusterKey name) = Inr role \<and> cr_Rules role = rules \<and>
           mget (m_Labels (cr_meta role)) rbacAggregateLabelKey = ''true'' \<and> m_OwnerReferences (cr_meta role) = owners"
    using post(1) by (auto simp: keyOfMeta_def)
  show "k \<noteq> clusterKey name \<Longrightarrow> listGet cr_meta (wd_clusterRoles w') k = listGet cr_meta (wd_clusterRoles w) k"
    using post(2) by (auto simp: keyOfMeta_def)
qed

lemma ensureAggregatedClusterRole_frame:
  "ensureAggregatedClusterRole (clusterRbac scope) name owners rules w = (e, w') \<Longrightarrow>
     wd_clusterRoleBindings w' = wd_clusterRoleBindings w"
  unfolding ensureAggregatedClusterRole_def clusterRbac_simps
  by (drule arg_cong [where f = "\<lambda>p. wd_clusterRoleBindings (snd p)"]) (simp only: cluster_roles_frame snd_conv)

lemma ensureNamespaceRoles_errs:
  "ensureNamespaceRoles r name subjects rules sns errs w = ([], w') \<Longrightarrow> errs = []"
  by (induction sns arbitrary: errs w) (auto split: if_splits prod.splits, metis appendErr_Nil)

lemma ensureClaimRoles_post:
  assumes "ensureClaimRoles (clusterRbac scope) owners export errs w = ([], w')"
  shows "errs = []" "wd_clusterRoleBindings w' = wd_clusterRoleBindings w"
    and "k \<noteq> clusterKey (rbacName ''kube-binder-claims'' export) \<Longrightarrow>
      listGet cr_meta (wd_clusterRoles w') k = listGet cr_meta (wd_clusterRoles w) k"
proof -
  define rules where "rules = (if scope = ClusterScope
    then claimRules ClusterScoped export @ claimRules NamespaceScoped export else claimRules ClusterScoped export)"
  obtain e1 w1 where role: "ensureAggregatedClusterRole (clusterRbac scope) (rbacName ''kube-binder-claims'' export)
      owners rules w = (e1, w1)" by fastforce
  have steps: "errs = [] \<and> e1 = None \<and> wd_clusterRoleBindings w' = wd_clusterRoleBindings w1 \<and>
      wd_clusterRoles w' = wd_clusterRoles w1"
    using assms role
    by (auto simp: ensureClaimRoles_def Let_def rules_def split: if_splits prod.splits sum.splits
          dest: ensureNamespaceRoles_errs ensureNamespaceRoles_frame)
  then show "errs = []" "wd_clusterRoleBindings w' = wd_clusterRoleBindings w"
    using ensureAggregatedClusterRole_frame [OF role] by simp_all
  from steps role have "ensureAggregatedClusterRole (clusterRbac scope) (rbacName ''kube-binder-claims'' export)
      owners rules w = (None, w1)" by simp
  from ensureAggregatedClusterRole_post(2) [OF this] steps
  show "k \<noteq> clusterKey (rbacName ''kube-binder-claims'' export) \<Longrightarrow>
      listGet cr_meta (wd_clusterRoles w') k = listGet cr_meta (wd_clusterRoles w) k" by simp
qed

lemma ensureExportsBinding_post:
  assumes "ensureAggregatingClusteRoleAndClusterRoleBinding (clusterRbac scope) subjects w = (None, w')"
  shows "\<exists>binding. listGet crb_meta (wd_clusterRoleBindings w') (clusterKey exportsRole) = Inr binding \<and>
      crb_Subjects binding = subjects"
proof -
  let ?binding = "\<lparr>crb_meta = emptyMeta\<lparr>m_Name := exportsRole\<rparr>,
      crb_RoleRef = \<lparr>rf_APIGroup = ''rbac.authorization.k8s.io'', rf_Kind = ''ClusterRole'', rf_Name = exportsRole\<rparr>,
      crb_Subjects = subjects\<rparr>"
  obtain w1 where e: "ensureObject crb_meta clusterRoleBindingAccess (\<lambda>b. subjects = crb_Subjects b)
      (\<lambda>b. b\<lparr>crb_Subjects := subjects\<rparr>) w1 ?binding = (None, w')"
    using assms
    by (auto simp: ensureAggregatingClusteRoleAndClusterRoleBinding_def Let_def split: prod.splits option.splits)
  from cluster_role_bindings.ensureObject_post(1) [OF e] show ?thesis
    by (auto simp: clusterRoleBinding_get)
qed

text \<open>The steps of a reconciliation without an error.\<close>

lemma rbac_reconcile_steps:
  assumes "rbac_reconcile (clusterRbac scope) export w = (None, w')"
  obtains owners w1 w2 where
    "ensureAggregatingClusteRoleAndClusterRoleBinding (clusterRbac scope) (kubebinderSubject export) w = (None, w1)"
    "ensureAggregatedClusterRole (clusterRbac scope) (rbacName ''kube-binder-resources'' export) owners
       (resourceRules export) w1 = (None, w2)"
    "ensureClaimRoles (clusterRbac scope) owners export [] w2 = ([], w')"
  using assms
  by (auto simp: rbac_reconcile_def Let_def split: sum.splits prod.splits)
     (metis appendErr_Nil ensureClaimRoles_post(1))

lemma rbacName_distinct: "rbacName ''kube-binder-resources'' export \<noteq> rbacName ''kube-binder-claims'' export"
  by (simp add: rbacName_def)

text \<open>The pairs of group and resource the rules name.\<close>

definition ruleTargets :: "PolicyRule list \<Rightarrow> GroupResource list" where
  "ruleTargets rules = concat (map (\<lambda>rule. concat (map (\<lambda>g. map (\<lambda>res. \<lparr>gr_Group = g, gr_Resource = res\<rparr>)
     (pr_Resources rule)) (pr_APIGroups rule))) rules)"

lemma ruleTargets_build:
  assumes "finite (Mapping.keys s)"
  shows "set (ruleTargets (buildPolicyRules verbs s)) = {gr. \<exists>k. Mapping.lookup s k = Some gr}"
proof -
  have eta: "\<lparr>gr_Group = gr_Group gr, gr_Resource = gr_Resource gr\<rparr> = gr" for gr :: GroupResource
    by (cases gr) simp
  have "x \<in> set (ruleTargets (buildPolicyRules verbs s)) \<longleftrightarrow>
      (\<exists>k \<in> Mapping.keys s. Mapping.lookup s k = Some x)" for x
    using assms by (force simp: ruleTargets_def buildPolicyRules_def eta split: option.splits)
  then show ?thesis by (auto simp: keys_dom_lookup)
qed

lemma finite_addGroupResources:
  "finite (Mapping.keys s) \<Longrightarrow> finite (Mapping.keys (fold (\<lambda>x. addGroupResource (f x)) xs s))"
  by (induction xs arbitrary: s) (simp_all add: addGroupResource_def)

text \<open>A set whose entries stand under their own string holds exactly what was added to it.\<close>

lemma addGroupResources_range:
  assumes "inj_on GroupResource_String (f ` set xs \<union> R)"
    and "\<forall>k gr. Mapping.lookup s k = Some gr \<longleftrightarrow> gr \<in> R \<and> k = GroupResource_String gr"
  shows "Mapping.lookup (fold (\<lambda>x. addGroupResource (f x)) xs s) k = Some gr \<longleftrightarrow>
      gr \<in> f ` set xs \<union> R \<and> k = GroupResource_String gr"
  using assms
proof (induction xs arbitrary: s R)
  case Nil
  then show ?case by simp
next
  case (Cons x xs)
  let ?s = "addGroupResource (f x) s"
  have "Mapping.lookup ?s k = Some gr \<longleftrightarrow> gr \<in> insert (f x) R \<and> k = GroupResource_String gr" for k gr
    using Cons.prems by (auto simp: addGroupResource_def dest: inj_onD)
  moreover have "f ` set xs \<union> insert (f x) R = f ` set (x # xs) \<union> R" by auto
  ultimately show ?case using Cons.IH [of "insert (f x) R" ?s] Cons.prems(1) by simp
qed

lemma GroupResource_String_inj:
  "(\<forall>gr \<in> A. CHR ''.'' \<notin> set (gr_Resource gr)) \<Longrightarrow> inj_on GroupResource_String A"
  by (auto simp: inj_on_def GroupResource_String_eq intro!: GroupResource.equality dest: append_sep_eq)

lemma resourceRules_targets:
  assumes "\<forall>res \<in> set (exs_Resources (ex_Spec export)). CHR ''.'' \<notin> set (gr_Resource (rr_GroupResource res))"
  shows "set (ruleTargets (resourceRules export)) = rr_GroupResource ` set (exs_Resources (ex_Spec export))"
proof -
  let ?xs = "exs_Resources (ex_Spec export)"
  have "inj_on GroupResource_String (rr_GroupResource ` set ?xs \<union> {})"
    using assms by (intro GroupResource_String_inj) auto
  from addGroupResources_range [OF this, of Mapping.empty] show ?thesis
    by (simp add: resourceRules_def ruleTargets_build finite_addGroupResources)
qed

lemma buildPolicyRules_verbs: "rule \<in> set (buildPolicyRules verbs s) \<Longrightarrow>
    pr_Verbs rule = verbs \<and> pr_NonResourceURLs rule = []"
  by (auto simp: buildPolicyRules_def split: option.splits)


definition exampleCluster :: rbac_cluster where
  "exampleCluster = \<lparr>wd_clusterRoles = [], wd_clusterRoleBindings = [], wd_roles = [], wd_roleBindings = [],
     wd_namespaces = [\<lparr>ns_meta = emptyMeta\<lparr>m_Name := ''cluster-a''\<rparr>\<rparr>, \<lparr>ns_meta = emptyMeta\<lparr>m_Name := ''cluster-b''\<rparr>\<rparr>],
     wd_serviceNamespaces = []\<rparr>"

lemmas rbac_eval = rbac_reconcile_def ensureAggregatingClusteRoleAndClusterRoleBinding_def ensureClaimRoles_def
  ensureAggregatedClusterRole_def ensureObject_def getOrCreate_def clusterRbac_def clusterRoleAccess_def
  clusterRoleBindingAccess_def listAccess_def listGet_def keyOfMeta_def emptyMeta_def rbacName_def exportsRole_def
  Let_def exampleCluster_def exampleExport_def


text \<open>
  All exports share one cluster role binding of the aggregated role, and every reconciliation
  replaces its subjects: after the roles of one export and then those of another were reconciled
  without an error, the only subject left is the service account of the last one. When the two are
  in different namespaces, that is, of different consumers, the first consumer has lost the rights
  on its own exported resources.
\<close>

lemma rbac_last_export_wins:
  assumes "rbac_reconcile (clusterRbac scope) export1 w = (None, w1)"
    and "rbac_reconcile (clusterRbac scope) export2 w1 = (None, w2)"
    and "m_Namespace (ex_meta export1) \<noteq> m_Namespace (ex_meta export2)"
  shows "\<exists>binding. ac_get clusterRoleBindingAccess w2 (clusterKey exportsRole) = Inr binding \<and>
      crb_Subjects binding = kubebinderSubject export2 \<and>
      set (kubebinderSubject export1) \<inter> set (crb_Subjects binding) = {}"
proof -
  from assms(2) obtain owners x y where
    bind: "ensureAggregatingClusteRoleAndClusterRoleBinding (clusterRbac scope) (kubebinderSubject export2) w1 = (None, x)"
    and role: "ensureAggregatedClusterRole (clusterRbac scope) (rbacName ''kube-binder-resources'' export2) owners
       (resourceRules export2) x = (None, y)"
    and claims: "ensureClaimRoles (clusterRbac scope) owners export2 [] y = ([], w2)"
    by (rule rbac_reconcile_steps)
  have "wd_clusterRoleBindings w2 = wd_clusterRoleBindings x"
    using ensureClaimRoles_post(2) [OF claims] ensureAggregatedClusterRole_frame [OF role] by simp
  with ensureExportsBinding_post [OF bind] assms(3) show ?thesis
    by (auto simp: clusterRoleBinding_get kubebinderSubject_def)
qed

lemma rbac_last_export_wins_witness:
  "\<exists>w2 binding. ac_get clusterRoleBindingAccess w2 (clusterKey exportsRole) = Inr binding \<and>
     crb_Subjects binding = [\<lparr>sj_Kind = ''ServiceAccount'', sj_Namespace = ''cluster-b'', sj_Name = ''kube-binder''\<rparr>]"
proof -
  let ?other = "exampleExport\<lparr>ex_meta := emptyMeta\<lparr>m_Name := ''dbs'', m_Namespace := ''cluster-b''\<rparr>\<rparr>"
  obtain w1 where 1: "rbac_reconcile (clusterRbac ClusterScope) exampleExport exampleCluster = (None, w1)"
    by (simp add: rbac_eval)
  then have "fst (rbac_reconcile (clusterRbac ClusterScope) ?other w1) = None"
    by (auto simp: rbac_eval)
  then obtain w2 where 2: "rbac_reconcile (clusterRbac ClusterScope) ?other w1 = (None, w2)"
    by (metis prod.collapse)
  from rbac_last_export_wins [OF 1 2] show ?thesis
    by (auto simp: exampleExport_def emptyMeta_def kubebinderSubject_def)
qed

end
