(* ===== verification/Backend_Exports.thy ===== *)
theory Backend_Exports
  imports Backend
begin

text \<open>
  Two controllers of the backend. \<open>src/backend/controllers/serviceexport\<close> keeps the hash of
  the bound schemas on an export and its condition \<open>ProviderInSync\<close>;
  \<open>src/backend/controllers/servicenamespace\<close> creates and deletes the namespaces in the provider
  cluster that back the service namespaces. The lemmas show that the hash and the condition
  settle after two passes, when two service namespaces can share a provider namespace, and what
  happens to the provider namespace when a service namespace is deleted.
\<close>

section \<open>Exports\<close>

record 'w export_syncer =
  xs_scope :: InformerScope
  xs_codec :: codec
  xs_getBoundSchema :: "'w \<Rightarrow> string \<Rightarrow> string \<Rightarrow> BoundSchema result"

text \<open>The loop over the resources stops at the first schema that cannot be read.\<close>

fun fetchSchemas ::
  "(string \<Rightarrow> BoundSchema result) \<Rightarrow> APIServiceExportResource list \<Rightarrow> (string \<times> error) + BoundSchema list" where
  "fetchSchemas get [] = Inr []"
| "fetchSchemas get (res # rs) =
     (case get (ResourceGroupName res) of
        Inl err \<Rightarrow> Inl (ResourceGroupName res, err)
      | Inr schema \<Rightarrow>
          (case fetchSchemas get rs of Inl e \<Rightarrow> Inl e | Inr schemas \<Rightarrow> Inr (schema # schemas)))"

definition syncer_ensureSchema ::
  "'w export_syncer \<Rightarrow> 'w \<Rightarrow> time \<Rightarrow> APIServiceExport \<Rightarrow> error option \<times> APIServiceExport" where
  "syncer_ensureSchema r w now export =
     (case fetchSchemas (xs_getBoundSchema r w (m_Namespace (ex_meta export))) (exs_Resources (ex_Spec export)) of
        Inl (name, err) \<Rightarrow>
          if IsNotFound err
          then (None, MarkFalse APIServiceExport_Setter now export APIServiceExportConditionProviderInSync
                  ''BoundSchemaMissing'' ConditionSeverityError ''BoundSchema %q is not available: %v''
                  [FStr name, FStr (ErrorString err)])
          else (Some err, export)
      | Inr schemas \<Rightarrow>
          (case BoundSchemasSpecHash (xs_codec r) schemas of
             Inl err \<Rightarrow> (Some err, export)
           | Inr hash \<Rightarrow>
               if mget (m_Annotations (ex_meta export)) SourceSpecHashAnnotationKey \<noteq> hash
               then (None, export\<lparr>ex_meta := (ex_meta export)\<lparr>m_Annotations :=
                       Mapping.update SourceSpecHashAnnotationKey hash (m_Annotations (ex_meta export))\<rparr>\<rparr>)
               else (None, MarkTrue APIServiceExport_Setter now export APIServiceExportConditionProviderInSync)))"

definition ensureClusterPermissions :: "'w export_syncer \<Rightarrow> 'w \<Rightarrow> APIServiceExport \<Rightarrow> error option" where
  "ensureClusterPermissions r w export = None"

definition syncer_reconcile ::
  "'w export_syncer \<Rightarrow> 'w \<Rightarrow> time \<Rightarrow> APIServiceExport \<Rightarrow> error option \<times> APIServiceExport" where
  "syncer_reconcile r w now export =
     (case syncer_ensureSchema r w now export of
        (err, export1) \<Rightarrow>
          (NewAggregate (appendErr (appendErr [] err)
             (if xs_scope r = ClusterScope then ensureClusterPermissions r w export1 else None)), export1))"

definition syncer_Reconcile ::
  "(APIServiceExport, 'w) backend_client \<Rightarrow> 'w export_syncer \<Rightarrow> time \<Rightarrow> mcRequest \<Rightarrow> 'w \<Rightarrow>
     ctrlResult result \<times> 'w" where
  "syncer_Reconcile be r now req w =
     withObject be ''APIServiceExport'' req w (Inr noRequeue, w) (\<lambda>original.
       case syncer_reconcile r w now original of
         (Some err, _) \<Rightarrow> (Inl err, w)
       | (None, export) \<Rightarrow>
           if m_Annotations (ex_meta original) \<noteq> m_Annotations (ex_meta export)
           then writeBack ''APIServiceExport'' (noRequeue\<lparr>ctrl_Requeue := True\<rparr>)
                  (be_Update be w (mc_ClusterName req) export)
           else if ex_Status original \<noteq> ex_Status export
           then writeBack ''APIServiceExport status'' noRequeue (be_StatusUpdate be w (mc_ClusterName req) export)
           else (Inr noRequeue, w))"

text \<open>The exports to look at when a bound schema changes, listed by the index of their schemas.\<close>

definition getBoundSchemaMapper ::
  "string \<Rightarrow> (string \<Rightarrow> APIServiceExport list result) \<Rightarrow> BoundSchema \<Rightarrow> mcRequest list" where
  "getBoundSchemaMapper clusterName listByBoundSchema boundSchema =
     (let spec = bss_APICRDSpec (bs_Spec boundSchema)
      in requestsFor clusterName ex_meta (listByBoundSchema (crn_Plural (cs_Names spec) @ ''.'' @ cs_Group spec)))"

section \<open>Service namespaces\<close>

record 'w namespace_reconciler =
  nr_scope :: InformerScope
  nr_isolation :: Isolation
  nr_getNamespace :: "'w \<Rightarrow> string \<Rightarrow> Namespace result"
  nr_createNamespace :: "'w \<Rightarrow> Namespace \<Rightarrow> error option \<times> 'w"
  nr_deleteNamespace :: "'w \<Rightarrow> string \<Rightarrow> error option \<times> 'w"

definition providerNamespace :: "Isolation \<Rightarrow> APIServiceNamespace \<Rightarrow> string result" where
  "providerNamespace isolation sns =
     (if snt_Namespace (sn_Status sns) \<noteq> [] then Inr (snt_Namespace (sn_Status sns))
      else if isolation = IsolationNone then Inr (m_Name (sn_meta sns))
      else if isolation = IsolationNamespaced \<or> isolation = IsolationPrefixed
      then Inr (m_Namespace (sn_meta sns) @ ''-'' @ m_Name (sn_meta sns))
      else Inl (PlainError (''unknown isolation strategy: '' @ isolation)))"

text \<open>An error of the read counts as a missing namespace.\<close>

definition namespace_reconcile ::
  "'w namespace_reconciler \<Rightarrow> 'w \<Rightarrow> APIServiceNamespace \<Rightarrow> error option \<times> APIServiceNamespace \<times> 'w" where
  "namespace_reconcile r w sns =
     (case providerNamespace (nr_isolation r) sns of
        Inl err \<Rightarrow> (Some err, sns, w)
      | Inr nsName \<Rightarrow>
          let sns1 = sns\<lparr>sn_Status := (sn_Status sns)\<lparr>snt_Namespace := nsName\<rparr>\<rparr>
          in (case nr_getNamespace r w nsName of
                Inr ns \<Rightarrow> (None, sns1, w)
              | Inl _ \<Rightarrow>
                  (case nr_createNamespace r w \<lparr>ns_meta = emptyMeta\<lparr>m_Name := nsName,
                            m_Annotations := Mapping.update APIServiceNamespaceAnnotationKey
                              (m_Namespace (sn_meta sns) @ ''/'' @ m_Name (sn_meta sns)) Mapping.empty\<rparr>\<rparr> of
                     (Some err, w1) \<Rightarrow>
                       if IsAlreadyExists err then (None, sns1, w1)
                       else (Some (wrapError (''failed to create namespace '' @ quote nsName) err), sns, w1)
                   | (None, w1) \<Rightarrow> (None, sns1, w1))))"

text \<open>The namespace of a service namespace that is gone.\<close>

definition namespace_cleanUp :: "'w namespace_reconciler \<Rightarrow> mcRequest \<Rightarrow> 'w \<Rightarrow> ctrlResult result \<times> 'w" where
  "namespace_cleanUp r req w =
     (let nsName = nn_Namespace (mc_NamespacedName req) @ ''-'' @ nn_Name (mc_NamespacedName req)
      in case nr_deleteNamespace r w nsName of
           (Some err, w1) \<Rightarrow>
             if IsNotFound err then (Inr noRequeue, w1)
             else (Inl (wrapError (''failed to delete namespace '' @ quote nsName) err), w1)
         | (None, w1) \<Rightarrow> (Inr noRequeue, w1))"

definition namespace_Reconcile ::
  "(APIServiceNamespace, 'w) backend_client \<Rightarrow> 'w namespace_reconciler \<Rightarrow> mcRequest \<Rightarrow> 'w \<Rightarrow>
     ctrlResult result \<times> 'w" where
  "namespace_Reconcile be r req w =
     withObject be ''APIServiceNamespace'' req w (namespace_cleanUp r req w) (\<lambda>original.
       case namespace_reconcile r w original of
         (Some err, _, w1) \<Rightarrow> (Inl err, w1)
       | (None, sns, w1) \<Rightarrow>
           if sn_Status original \<noteq> sn_Status sns
           then writeBack ''APIServiceNamespace status'' noRequeue (be_StatusUpdate be w1 (mc_ClusterName req) sns)
           else (Inr noRequeue, w1))"

text \<open>The watches: a namespace by the index, a cluster binding and an export by their namespace.\<close>

definition getNamespaceMapper ::
  "string \<Rightarrow> (string \<Rightarrow> APIServiceNamespace list result) \<Rightarrow> Namespace \<Rightarrow> mcRequest list" where
  "getNamespaceMapper clusterName listByNamespace ns =
     requestsFor clusterName sn_meta (listByNamespace (m_Name (ns_meta ns)))"

definition getClusterBindingMapper ::
  "string \<Rightarrow> (string \<Rightarrow> APIServiceNamespace list result) \<Rightarrow> ClusterBinding \<Rightarrow> mcRequest list" where
  "getClusterBindingMapper clusterName listIn clusterBinding =
     requestsFor clusterName sn_meta (listIn (m_Namespace (cb_meta clusterBinding)))"

definition getServiceExportMapper ::
  "string \<Rightarrow> (string \<Rightarrow> APIServiceNamespace list result) \<Rightarrow> APIServiceExport \<Rightarrow> mcRequest list" where
  "getServiceExportMapper clusterName listIn serviceExport =
     requestsFor clusterName sn_meta (listIn (m_Namespace (ex_meta serviceExport)))"

section \<open>One export on the API server\<close>

text \<open>
  The state is the stored export. An update of the object leaves the status alone and an update
  of the status leaves the rest alone, as the definition of the resource has a status subresource.
\<close>

definition exportClient :: "(APIServiceExport, APIServiceExport) backend_client" where
  "exportClient =
     \<lparr>be_GetCluster = (\<lambda>w c. None), be_Get = (\<lambda>w c k. Inr w),
      be_Update = (\<lambda>w c ex. (None, ex\<lparr>ex_Status := ex_Status w\<rparr>)),
      be_StatusUpdate = (\<lambda>w c ex. (None, w\<lparr>ex_Status := ex_Status ex\<rparr>))\<rparr>"

lemma ensureSchema_cases:
  assumes "fetchSchemas (xs_getBoundSchema r w (m_Namespace (ex_meta export))) (exs_Resources (ex_Spec export)) = Inr schemas"
    and "BoundSchemasSpecHash (xs_codec r) schemas = Inr hash"
  shows "syncer_reconcile r w now export =
    (None, if mget (m_Annotations (ex_meta export)) SourceSpecHashAnnotationKey = hash
       then MarkTrue APIServiceExport_Setter now export APIServiceExportConditionProviderInSync
       else export\<lparr>ex_meta := (ex_meta export)\<lparr>m_Annotations :=
              Mapping.update SourceSpecHashAnnotationKey hash (m_Annotations (ex_meta export))\<rparr>\<rparr>)"
  using assms by (simp add: syncer_reconcile_def syncer_ensureSchema_def ensureClusterPermissions_def)

lemma export_Mark_frame:
  "ex_meta (MarkTrue APIServiceExport_Setter now ex t) = ex_meta ex"
  "ex_Spec (MarkTrue APIServiceExport_Setter now ex t) = ex_Spec ex"
  "ex_Kind (MarkTrue APIServiceExport_Setter now ex t) = ex_Kind ex"
  by (simp_all add: MarkTrue_def Set_def APIServiceExport_Setter_def)

lemma export_restore_status: "ex_meta a = ex_meta b \<Longrightarrow> ex_Spec a = ex_Spec b \<Longrightarrow> ex_Kind a = ex_Kind b \<Longrightarrow>
    b\<lparr>ex_Status := ex_Status a\<rparr> = (a :: APIServiceExport)"
  by (cases a, cases b) simp

text \<open>One pass over a stored export whose schemas have the hash.\<close>

lemma syncer_pass:
  fixes export :: APIServiceExport
  assumes "fetchSchemas (xs_getBoundSchema r export (m_Namespace (ex_meta export))) (exs_Resources (ex_Spec export)) = Inr schemas"
    and "BoundSchemasSpecHash (xs_codec r) schemas = Inr hash"
  shows "mget (m_Annotations (ex_meta export)) SourceSpecHashAnnotationKey \<noteq> hash \<Longrightarrow>
      syncer_Reconcile exportClient r now req export = (Inr (noRequeue\<lparr>ctrl_Requeue := True\<rparr>),
        export\<lparr>ex_meta := (ex_meta export)\<lparr>m_Annotations :=
              Mapping.update SourceSpecHashAnnotationKey hash (m_Annotations (ex_meta export))\<rparr>\<rparr>)"
    and "mget (m_Annotations (ex_meta export)) SourceSpecHashAnnotationKey = hash \<Longrightarrow>
      syncer_Reconcile exportClient r now req export = (Inr noRequeue,
        MarkTrue APIServiceExport_Setter now export APIServiceExportConditionProviderInSync)"
proof -
  note pass = ensureSchema_cases [OF assms, of now]
  show "syncer_Reconcile exportClient r now req export = (Inr (noRequeue\<lparr>ctrl_Requeue := True\<rparr>),
        export\<lparr>ex_meta := (ex_meta export)\<lparr>m_Annotations :=
              Mapping.update SourceSpecHashAnnotationKey hash (m_Annotations (ex_meta export))\<rparr>\<rparr>)"
    if "mget (m_Annotations (ex_meta export)) SourceSpecHashAnnotationKey \<noteq> hash"
  proof -
    from that have "Mapping.update SourceSpecHashAnnotationKey hash (m_Annotations (ex_meta export)) \<noteq>
        m_Annotations (ex_meta export)"
      by (metis mget_simps(1))
    with that show ?thesis
      by (simp add: syncer_Reconcile_def withObject_def exportClient_def pass writeBack_def)
  qed
  show "syncer_Reconcile exportClient r now req export = (Inr noRequeue,
        MarkTrue APIServiceExport_Setter now export APIServiceExportConditionProviderInSync)"
    if "mget (m_Annotations (ex_meta export)) SourceSpecHashAnnotationKey = hash"
    using that by (auto simp: syncer_Reconcile_def withObject_def exportClient_def pass writeBack_def export_Mark_frame
        intro!: export_restore_status)
qed



section \<open>Provider namespaces\<close>

lemma namespace_reconcile_status:
  assumes "namespace_reconcile r w sns = (None, sns', w')"
  shows "providerNamespace (nr_isolation r) sns = Inr (snt_Namespace (sn_Status sns'))" "sn_meta sns' = sn_meta sns"
  using assms by (auto simp: namespace_reconcile_def Let_def split: sum.splits prod.splits option.splits if_splits)

text \<open>A provider namespace that has been chosen is kept.\<close>

lemma namespace_reconcile_stable:
  assumes "namespace_reconcile r w sns = (None, sns', w')" "snt_Namespace (sn_Status sns) \<noteq> []"
  shows "snt_Namespace (sn_Status sns') = snt_Namespace (sn_Status sns)"
  using namespace_reconcile_status(1) [OF assms(1)] assms(2) by (simp add: providerNamespace_def)

lemma dash_join_eq:
  "a @ CHR ''-'' # x = b @ CHR ''-'' # y \<Longrightarrow>
     a = b \<and> x = y \<or> HasPrefix a (b @ ''-'') \<or> HasPrefix b (a @ ''-'')"
proof (induction a arbitrary: b)
  case Nil
  then show ?case by (cases b) (auto simp: HasPrefix_def)
next
  case (Cons c a)
  then show ?case by (cases b) (auto simp: HasPrefix_def)
qed

text \<open>
  C35: Two service namespaces that are new get different provider namespaces under the prefixed and
  the namespaced isolation, so that two consumers do not see each other's objects, unless the
  namespace of one consumer is the namespace of the other followed by a dash and more: the names are
  joined by a dash, which may occur in both parts.
\<close>

theorem service_namespaces_disjoint:
  assumes "namespace_reconcile r w1 a = (None, a', w1')" "namespace_reconcile r w2 b = (None, b', w2')"
    and "snt_Namespace (sn_Status a) = []" "snt_Namespace (sn_Status b) = []"
    and "nr_isolation r \<noteq> IsolationNone"
    and "snt_Namespace (sn_Status a') = snt_Namespace (sn_Status b')"
  shows "m_Namespace (sn_meta a) = m_Namespace (sn_meta b) \<and> m_Name (sn_meta a) = m_Name (sn_meta b) \<or>
    HasPrefix (m_Namespace (sn_meta a)) (m_Namespace (sn_meta b) @ ''-'') \<or>
    HasPrefix (m_Namespace (sn_meta b)) (m_Namespace (sn_meta a) @ ''-'')"
proof -
  have "m_Namespace (sn_meta a) @ CHR ''-'' # m_Name (sn_meta a) = m_Namespace (sn_meta b) @ CHR ''-'' # m_Name (sn_meta b)"
    using namespace_reconcile_status(1) [OF assms(1)] namespace_reconcile_status(1) [OF assms(2)] assms(3-6)
    by (simp add: providerNamespace_def split: if_splits)
  then show ?thesis by (rule dash_join_eq)
qed

text \<open>The namespaces of a cluster.\<close>

definition namespaceStore :: "Isolation \<Rightarrow> Namespace list namespace_reconciler" where
  "namespaceStore isolation =
     \<lparr>nr_scope = ClusterScope, nr_isolation = isolation,
      nr_getNamespace = (\<lambda>w n. case find (\<lambda>ns. m_Name (ns_meta ns) = n) w of
         None \<Rightarrow> Inl (StatusError ReasonNotFound ''not found'') | Some ns \<Rightarrow> Inr ns),
      nr_createNamespace = (\<lambda>w ns. (None, w @ [ns])),
      nr_deleteNamespace = (\<lambda>w n. (None, filter (\<lambda>ns. m_Name (ns_meta ns) \<noteq> n) w))\<rparr>"

abbreviation namespaceNames :: "Namespace list \<Rightarrow> string set" where
  "namespaceNames w \<equiv> (\<lambda>ns. m_Name (ns_meta ns)) ` set w"

definition newServiceNamespace :: "string \<Rightarrow> string \<Rightarrow> APIServiceNamespace" where
  "newServiceNamespace ns n = \<lparr>sn_meta = emptyMeta\<lparr>m_Name := n, m_Namespace := ns\<rparr>, sn_Status = \<lparr>snt_Namespace = []\<rparr>\<rparr>"

lemmas namespace_eval = namespace_reconcile_def providerNamespace_def namespaceStore_def newServiceNamespace_def
  emptyMeta_def Let_def

theorem service_namespaces_disjoint_witness:
  "\<exists>w1 w2 a' b'. namespace_reconcile (namespaceStore IsolationPrefixed) [] (newServiceNamespace ''a'' ''b-c'') = (None, a', w1) \<and>
     namespace_reconcile (namespaceStore IsolationPrefixed) [] (newServiceNamespace ''a-b'' ''c'') = (None, b', w2) \<and>
     snt_Namespace (sn_Status a') = snt_Namespace (sn_Status b') \<and> HasPrefix ''a-b'' ''a-''"
proof -
  obtain a' w1 b' w2 where a: "namespace_reconcile (namespaceStore IsolationPrefixed) [] (newServiceNamespace ''a'' ''b-c'') = (None, a', w1)"
    and b: "namespace_reconcile (namespaceStore IsolationPrefixed) [] (newServiceNamespace ''a-b'' ''c'') = (None, b', w2)"
    by (simp add: namespace_eval)
  have same: "snt_Namespace (sn_Status a') = snt_Namespace (sn_Status b')"
    using a b by (auto simp: namespace_eval)
  from service_namespaces_disjoint [OF a b _ _ _ same] have "HasPrefix ''a-b'' ''a-''"
    by (simp add: namespaceStore_def newServiceNamespace_def emptyMeta_def HasPrefix_def)
  with a b same show ?thesis by blast
qed

text \<open>
  When a service namespace is deleted, its provider namespace is deleted with it, except under
  the isolation \<open>None\<close>: there the namespace has the plain name, the clean-up asks for
  the name with the consumer's namespace in front, and the provider namespace stays for ever.
\<close>

lemma service_namespace_deletion:
  assumes "namespace_reconcile (namespaceStore isolation) w sns = (None, sns', w')"
    and "snt_Namespace (sn_Status sns) = []"
    and "mc_NamespacedName req = \<lparr>nn_Namespace = m_Namespace (sn_meta sns), nn_Name = m_Name (sn_meta sns)\<rparr>"
  shows "snt_Namespace (sn_Status sns') \<in> namespaceNames w' \<and>
    (snt_Namespace (sn_Status sns') \<in> namespaceNames (snd (namespace_cleanUp (namespaceStore isolation) req w')) \<longleftrightarrow>
      isolation = IsolationNone)"
proof -
  have exists: "snt_Namespace (sn_Status sns') \<in> namespaceNames w'"
    using assms(1)
    by (auto simp: namespace_reconcile_def namespaceStore_def Let_def find_Some_iff image_iff emptyMeta_def
        split: sum.splits option.splits intro: nth_mem)
  moreover have "providerNamespace isolation sns = Inr (snt_Namespace (sn_Status sns'))"
    using namespace_reconcile_status(1) [OF assms(1)] by (simp add: namespaceStore_def)
  moreover have "n \<noteq> (m @ CHR ''-'' # n :: string)" for n m
    by (auto dest: arg_cong [where f = length])
  ultimately show ?thesis using assms(2,3)
    by (auto simp: namespace_cleanUp_def namespaceStore_def Let_def providerNamespace_def split: if_splits)
qed

lemma service_namespace_deletion_witness:
  "''b'' \<in> namespaceNames (snd (namespace_cleanUp (namespaceStore IsolationNone)
      \<lparr>mc_ClusterName = [], mc_NamespacedName = \<lparr>nn_Namespace = ''a'', nn_Name = ''b''\<rparr>\<rparr>
      (snd (snd (namespace_reconcile (namespaceStore IsolationNone) [] (newServiceNamespace ''a'' ''b''))))))"
proof -
  obtain s' w' where 1: "namespace_reconcile (namespaceStore IsolationNone) [] (newServiceNamespace ''a'' ''b'') = (None, s', w')"
    and 2: "snt_Namespace (sn_Status s') = ''b''"
    by (simp add: namespace_eval)
  from service_namespace_deletion [OF 1, of "\<lparr>mc_ClusterName = [], mc_NamespacedName = \<lparr>nn_Namespace = ''a'', nn_Name = ''b''\<rparr>\<rparr>"]
  show ?thesis using 1 2 by (simp add: newServiceNamespace_def emptyMeta_def)
qed

end
