(* ===== verification/Backend_Requests.thy ===== *)
theory Backend_Requests
  imports Backend_Exports Unstructured_Objects "HOL-Library.AList"
begin

text \<open>
  Export requests (\<open>src/backend/controllers/serviceexportrequest\<close>): a consumer asks for
  resources and permission claims, the backend copies the exported schemas into bound schemas,
  validates the request and creates the export and its service namespaces. The clients are
  parameters. The lemmas show which requests get an export and what the export contains.
\<close>

section \<open>The controller's parameters\<close>

record GroupVersionKind =
  gvk_Group :: string
  gvk_Version :: string
  gvk_Kind :: string

text \<open>
  \<open>List\<close> lists the objects of a list kind that match the labels; \<open>FromUnstructured\<close> and
  \<open>SetControllerReference\<close> are the library functions.
\<close>

record 'w request_reconciler =
  qr_informerScope :: InformerScope
  qr_isolation :: Isolation
  qr_schemaSource :: string
  qr_schemaSyncInterval :: duration
  qr_codec :: codec
  qr_List :: "'w \<Rightarrow> GroupVersionKind \<Rightarrow> smap \<Rightarrow> Unstructured list result"
  qr_FromUnstructured :: "Unstructured \<Rightarrow> BoundSchema result"
  qr_SetControllerReference :: "APIServiceExport \<Rightarrow> BoundSchema \<Rightarrow> BoundSchema result"
  qr_getBoundSchema :: "'w \<Rightarrow> string \<Rightarrow> string \<Rightarrow> BoundSchema result"
  qr_createBoundSchema :: "'w \<Rightarrow> BoundSchema \<Rightarrow> error option \<times> 'w"
  qr_updateBoundSchema :: "'w \<Rightarrow> BoundSchema \<Rightarrow> error option \<times> 'w"
  qr_getServiceExport :: "'w \<Rightarrow> string \<Rightarrow> string \<Rightarrow> APIServiceExport result"
  qr_createServiceExport :: "'w \<Rightarrow> APIServiceExport \<Rightarrow> error option \<times> 'w"
  qr_deleteServiceExportRequest :: "'w \<Rightarrow> string \<Rightarrow> string \<Rightarrow> error option \<times> 'w"
  qr_readServiceExport :: "'w \<Rightarrow> string \<Rightarrow> string \<Rightarrow> APIServiceExport result"
  qr_getServiceNamespace :: "'w \<Rightarrow> string \<Rightarrow> string \<Rightarrow> APIServiceNamespace result"
  qr_createServiceNamespace :: "'w \<Rightarrow> APIServiceNamespace \<Rightarrow> error option \<times> 'w"

abbreviation markRequestFalse ::
  "time \<Rightarrow> APIServiceExportRequest \<Rightarrow> ConditionType \<Rightarrow> string \<Rightarrow> string \<Rightarrow> fmtarg list \<Rightarrow> APIServiceExportRequest" where
  "markRequestFalse now req t reason fmt args \<equiv>
     MarkFalse APIServiceExportRequest_Setter now req t reason ConditionSeverityError fmt args"

section \<open>Schemas\<close>

definition ExportedCRDsLabel :: string where
  "ExportedCRDsLabel = ''kube-bind.io/exported''"

definition UnstructuredToBoundSchema :: "(Unstructured \<Rightarrow> BoundSchema result) \<Rightarrow> Unstructured \<Rightarrow> BoundSchema result" where
  "UnstructuredToBoundSchema fromUnstructured u =
     (case fromUnstructured u of
        Inl err \<Rightarrow> Inl err
      | Inr boundSchema \<Rightarrow> Inr (boundSchema\<lparr>bs_meta := emptyMeta\<lparr>m_Name := m_Name (bs_meta boundSchema)\<rparr>\<rparr>))"

text \<open>
  The exported schemas are a map by name. Go visits its entries in an unspecified order; the model
  keeps them in the order they were listed, a later object replacing an earlier one of the same name.
\<close>

type_synonym ExportedSchemas = "(string \<times> BoundSchema) list"

fun collectSchemas ::
  "(Unstructured \<Rightarrow> BoundSchema result) \<Rightarrow> Unstructured list \<Rightarrow> ExportedSchemas \<Rightarrow> ExportedSchemas result" where
  "collectSchemas fromUnstructured [] m = Inr m"
| "collectSchemas fromUnstructured (item # items) m =
     (case UnstructuredToBoundSchema fromUnstructured item of
        Inl err \<Rightarrow> Inl err
      | Inr boundSchema \<Rightarrow>
          collectSchemas fromUnstructured items (AList.update (BoundSchema_ResourceGroupName boundSchema) boundSchema m))"

definition HasSuffix :: "string \<Rightarrow> string \<Rightarrow> bool" where
  "HasSuffix s suf = suffix suf s"

definition getExportedSchemas :: "'w request_reconciler \<Rightarrow> 'w \<Rightarrow> ExportedSchemas result" where
  "getExportedSchemas r w =
     (case SplitN (qr_schemaSource r) (CHR ''.'') 3 of
        [kind, version, grp] \<Rightarrow>
          (case qr_List r w \<lparr>gvk_Group = grp, gvk_Version = version,
                   gvk_Kind = (if \<not> HasSuffix kind ''List'' then kind @ ''List'' else kind)\<rparr>
                   (Mapping.update ExportedCRDsLabel ''true'' Mapping.empty) of
             Inl err \<Rightarrow> Inl err
           | Inr items \<Rightarrow> collectSchemas (qr_FromUnstructured r) items [])
      | _ \<Rightarrow> Inl (PlainError (''malformed schema source: '' @ quote (qr_schemaSource r))))"

text \<open>\<open>metav1.IsControlledBy\<close>: the first owner reference with the controller flag has the UID.\<close>

definition IsControlledBy :: "ObjectMeta \<Rightarrow> ObjectMeta \<Rightarrow> bool" where
  "IsControlledBy ob owner =
     (case find or_Controller (m_OwnerReferences ob) of None \<Rightarrow> False | Some ref \<Rightarrow> or_UID ref = m_UID owner)"

definition setHash :: "string \<Rightarrow> BoundSchema \<Rightarrow> BoundSchema" where
  "setHash hash b = b\<lparr>bs_meta := (bs_meta b)\<lparr>m_Annotations :=
     Mapping.update SourceSpecHashAnnotationKey hash (m_Annotations (bs_meta b))\<rparr>\<rparr>"

definition isolatedScope :: "Isolation \<Rightarrow> BoundSchema \<Rightarrow> BoundSchema" where
  "isolatedScope isolation desired =
     (let spec = bs_Spec desired
      in if cs_Scope (bss_APICRDSpec spec) = NamespaceScoped \<and> isolation = IsolationNamespaced
         then desired\<lparr>bs_Spec := spec\<lparr>bss_APICRDSpec := (bss_APICRDSpec spec)\<lparr>cs_Scope := ClusterScoped\<rparr>\<rparr>\<rparr>
         else desired)"

text \<open>The adjusted existing schema, with whether it needs an update.\<close>

definition adoptSchema ::
  "'w request_reconciler \<Rightarrow> APIServiceExport option \<Rightarrow> BoundSchema \<Rightarrow> (bool \<times> BoundSchema) result" where
  "adoptSchema r export existing =
     (case export of
        None \<Rightarrow> Inr (False, existing)
      | Some ex \<Rightarrow>
          if IsControlledBy (bs_meta existing) (ex_meta ex) then Inr (False, existing)
          else (case qr_SetControllerReference r ex existing of
              Inl err \<Rightarrow> Inl err | Inr existing1 \<Rightarrow> Inr (True, existing1)))"

definition syncSchema ::
  "SchemaUpdatePolicy \<Rightarrow> string \<Rightarrow> BoundSchema \<Rightarrow> bool \<times> BoundSchema \<Rightarrow> bool \<times> BoundSchema" where
  "syncSchema policy hash desired p =
     (case p of (needsUpdate, existing) \<Rightarrow>
        if policy = SchemaUpdatePolicyAlways \<and>
           mget (m_Annotations (bs_meta existing)) SourceSpecHashAnnotationKey \<noteq> hash
        then (True, setHash hash (existing\<lparr>bs_Spec := bs_Spec desired\<rparr>))
        else (needsUpdate, existing))"

definition createOrUpdateBoundSchema ::
  "'w request_reconciler \<Rightarrow> APIServiceExport option \<Rightarrow> BoundSchema \<Rightarrow> SchemaUpdatePolicy \<Rightarrow> 'w \<Rightarrow>
     error option \<times> 'w" where
  "createOrUpdateBoundSchema r export desired0 policy w =
     (let desired = isolatedScope (qr_isolation r) desired0; name = m_Name (bs_meta desired)
      in case BoundSchemaSpecHash (qr_codec r) (bs_Spec desired) of
           Inl err \<Rightarrow> (Some err, w)
         | Inr hash \<Rightarrow>
             (case qr_getBoundSchema r w (m_Namespace (bs_meta desired)) name of
                Inl err \<Rightarrow>
                  if \<not> IsNotFound err \<and> \<not> Contains (ErrorString err) ''no matches for kind'' then (Some err, w)
                  else qr_createBoundSchema r w (setHash hash desired)
              | Inr existing \<Rightarrow>
                  (case adoptSchema r export existing of
                     Inl err \<Rightarrow> (Some (wrapError (''failed to set owner reference on BoundSchema '' @ name) err), w)
                   | Inr adopted \<Rightarrow>
                       (case syncSchema policy hash desired adopted of
                          (needsUpdate, updated) \<Rightarrow>
                            if needsUpdate
                            then (case qr_updateBoundSchema r w updated of
                                (Some err, w1) \<Rightarrow> (Some (wrapError (''failed to update BoundSchema '' @ name) err), w1)
                              | (None, w1) \<Rightarrow> (None, w1))
                            else (None, w)))))"

definition desiredSchema ::
  "'w request_reconciler \<Rightarrow> APIServiceExportRequest \<Rightarrow> APIServiceExportRequestResource \<Rightarrow> BoundSchema \<Rightarrow> BoundSchema" where
  "desiredSchema r req res boundSchema =
     boundSchema\<lparr>bs_meta := (bs_meta boundSchema)\<lparr>m_Name := ResourceGroupName res,
         m_Namespace := m_Namespace (rq_meta req), m_ResourceVersion := []\<rparr>,
       bs_Spec := (bs_Spec boundSchema)\<lparr>bss_InformerScope := qr_informerScope r\<rparr>\<rparr>"

definition schemaMatches :: "APIServiceExportRequestResource \<Rightarrow> BoundSchema \<Rightarrow> bool" where
  "schemaMatches res boundSchema =
     (cs_Group (bss_APICRDSpec (bs_Spec boundSchema)) = gr_Group (rr_GroupResource res) \<and>
      crn_Plural (cs_Names (bss_APICRDSpec (bs_Spec boundSchema))) = gr_Resource (rr_GroupResource res))"

text \<open>
  The inner loop over the exported schemas, and the loop over the resources. The code changes the
  listed schema in place; a resource that is listed twice meets the changed schema, on which the
  same changes have no further effect.
\<close>

fun bindMatching ::
  "'w request_reconciler \<Rightarrow> APIServiceExport option \<Rightarrow> APIServiceExportRequest \<Rightarrow> APIServiceExportRequestResource \<Rightarrow>
     BoundSchema list \<Rightarrow> 'w \<Rightarrow> error option \<times> 'w" where
  "bindMatching r export req res [] w = (None, w)"
| "bindMatching r export req res (b # bs) w =
     (if schemaMatches res b
      then (case createOrUpdateBoundSchema r export (desiredSchema r req res b)
                   (rqs_SchemaUpdatePolicy (rq_Spec req)) w of
          (Some err, w1) \<Rightarrow> (Some err, w1)
        | (None, w1) \<Rightarrow> bindMatching r export req res bs w1)
      else bindMatching r export req res bs w)"

fun bindResources ::
  "'w request_reconciler \<Rightarrow> APIServiceExport option \<Rightarrow> APIServiceExportRequest \<Rightarrow> BoundSchema list \<Rightarrow>
     APIServiceExportRequestResource list \<Rightarrow> 'w \<Rightarrow> error option \<times> 'w" where
  "bindResources r export req schemas [] w = (None, w)"
| "bindResources r export req schemas (res # rs) w =
     (if rr_Versions res = [] then bindResources r export req schemas rs w
      else (case bindMatching r export req res schemas w of
          (Some err, w1) \<Rightarrow> (Some err, w1)
        | (None, w1) \<Rightarrow> bindResources r export req schemas rs w1))"

definition ensureBoundSchemas ::
  "'w request_reconciler \<Rightarrow> APIServiceExport option \<Rightarrow> APIServiceExportRequest \<Rightarrow> 'w \<Rightarrow> error option \<times> 'w" where
  "ensureBoundSchemas r export req w =
     (case getExportedSchemas r w of
        Inl err \<Rightarrow> (Some err, w)
      | Inr exported \<Rightarrow> bindResources r export req (map snd exported) (rqs_Resources (rq_Spec req)) w)"

section \<open>Validation\<close>

definition isClaimableAPI :: "PermissionClaim \<Rightarrow> bool" where
  "isClaimableAPI claim =
     list_ex (\<lambda>api. gr_Group (pc_GroupResource claim) = gvr_Group (ia_GroupVersionResource api) \<and>
        gr_Resource (pc_GroupResource claim) = crn_Plural (ia_Names api)) ClaimableAPIs"

text \<open>A failed step gives the error and the request with its condition.\<close>

type_synonym checked = "(error \<times> APIServiceExportRequest) option"

fun validateResources ::
  "time \<Rightarrow> ExportedSchemas \<Rightarrow> APIServiceExportRequest \<Rightarrow> ResourceScope \<Rightarrow> APIServiceExportRequestResource list \<Rightarrow> checked" where
  "validateResources now exported req first [] = None"
| "validateResources now exported req first (res # rs) =
     (case map_of exported (ResourceGroupName res) of
        None \<Rightarrow>
          Some (PlainError (Sprintf ''schema %s not found'' [FStr (ResourceGroupName res)]),
            markRequestFalse now req APIServiceExportRequestConditionExportsReady ''SchemaNotFound''
              ''Schema %s not found'' [FStr (ResourceGroupName res)])
      | Some boundSchema \<Rightarrow>
          let scope = cs_Scope (bss_APICRDSpec (bs_Spec boundSchema))
          in if first = [] then validateResources now exported req scope rs
             else if scope \<noteq> first
             then Some (PlainError (Sprintf ''different scopes found for claimed resources: %v''
                      [FStr (m_Name (bs_meta boundSchema))]),
                    markRequestFalse now req APIServiceExportRequestConditionExportsReady ''DifferentScopes''
                      ''Different scopes found: %v'' [FStr scope])
             else validateResources now exported req first rs)"

text \<open>A claim that is refused also ends the request.\<close>

definition refuseClaim ::
  "time \<Rightarrow> APIServiceExportRequest \<Rightarrow> string \<Rightarrow> string \<Rightarrow> PermissionClaim \<Rightarrow> APIServiceExportRequest" where
  "refuseClaim now req reason fmt claim =
     (let req1 = markRequestFalse now req APIServiceExportConditionPermissionClaim reason fmt
            [FStr (GroupResource_String (pc_GroupResource claim))]
      in req1\<lparr>rq_Status := (rq_Status req1)\<lparr>rqt_Phase := APIServiceExportRequestPhaseFailed,
           rqt_TerminalMessage := GetMessage (s_getter APIServiceExportRequest_Setter req1)
             APIServiceExportConditionPermissionClaim\<rparr>\<rparr>)"

fun validateClaims :: "time \<Rightarrow> APIServiceExportRequest \<Rightarrow> PermissionClaim list \<Rightarrow> checked" where
  "validateClaims now req [] = None"
| "validateClaims now req (claim # claims) =
     (if \<not> isClaimableAPI claim
      then Some (PlainError (Sprintf ''resource %s is not a valid claimable API''
               [FStr (GroupResource_String (pc_GroupResource claim))]),
             refuseClaim now req ''InvalidPermissionClaim'' ''Resource %s is not a valid claimable API'' claim)
      else validateClaims now req claims)"

definition claimId :: "PermissionClaim \<Rightarrow> string" where
  "claimId claim = gr_Group (pc_GroupResource claim) @ ''/'' @ gr_Resource (pc_GroupResource claim)"

fun validateDuplicates ::
  "time \<Rightarrow> APIServiceExportRequest \<Rightarrow> string list \<Rightarrow> PermissionClaim list \<Rightarrow> checked" where
  "validateDuplicates now req seen [] = None"
| "validateDuplicates now req seen (claim # claims) =
     (if claimId claim \<in> set seen
      then Some (PlainError (Sprintf ''duplicate permission claim found for group/resource %s''
               [FStr (GroupResource_String (pc_GroupResource claim))]),
             refuseClaim now req ''DuplicatePermissionClaim''
               ''Duplicate permission claim found for group/resource %s'' claim)
      else validateDuplicates now req (claimId claim # seen) claims)"

definition request_validate :: "'w request_reconciler \<Rightarrow> 'w \<Rightarrow> time \<Rightarrow> APIServiceExportRequest \<Rightarrow> checked" where
  "request_validate r w now req =
     (case getExportedSchemas r w of
        Inl err \<Rightarrow> Some (err, req)
      | Inr exported \<Rightarrow>
          if exported = []
          then Some (PlainError ''no exported schemas found'',
                 markRequestFalse now req APIServiceExportRequestConditionExportsReady ''SchemaNotFound'' ''Schema not found'' [])
          else (case validateResources now exported req [] (rqs_Resources (rq_Spec req)) of
              Some e \<Rightarrow> Some e
            | None \<Rightarrow>
                (case validateClaims now req (rqs_PermissionClaims (rq_Spec req)) of
                   Some e \<Rightarrow> Some e
                 | None \<Rightarrow> validateDuplicates now req [] (rqs_PermissionClaims (rq_Spec req)))))"

section \<open>The export and its namespaces\<close>

definition requestedExport :: "'w request_reconciler \<Rightarrow> APIServiceExportRequest \<Rightarrow> string \<Rightarrow> APIServiceExport" where
  "requestedExport r req hash =
     \<lparr>ex_Kind = [], ex_meta = emptyMeta\<lparr>m_Name := m_Name (rq_meta req), m_Namespace := m_Namespace (rq_meta req),
        m_Annotations := Mapping.update SourceSpecHashAnnotationKey hash Mapping.empty\<rparr>,
      ex_Spec = \<lparr>exs_Resources = rqs_Resources (rq_Spec req), exs_PermissionClaims = rqs_PermissionClaims (rq_Spec req),
        exs_InformerScope = qr_informerScope r, exs_ClusterScopedIsolation = [], exs_Isolation = qr_isolation r\<rparr>,
      ex_Status = \<lparr>ext_Conditions = []\<rparr>\<rparr>"

definition setPhase :: "APIServiceExportRequestPhase \<Rightarrow> string \<Rightarrow> APIServiceExportRequest \<Rightarrow> APIServiceExportRequest" where
  "setPhase phase message req =
     req\<lparr>rq_Status := (rq_Status req)\<lparr>rqt_Phase := phase, rqt_TerminalMessage := message\<rparr>\<rparr>"

text \<open>
  The phase of a request whose export was just created. The terminal message of a failed one is the
  message of a condition that was just set to true.
\<close>

definition finishRequest :: "time \<Rightarrow> APIServiceExportRequest \<Rightarrow> APIServiceExportRequest" where
  "finishRequest now req =
     (let req1 = MarkTrue APIServiceExportRequest_Setter now req APIServiceExportRequestConditionExportsReady
      in if Minute < TimeSub now (m_CreationTimestamp (rq_meta req1))
         then setPhase APIServiceExportRequestPhaseFailed
                (GetMessage (s_getter APIServiceExportRequest_Setter req1) APIServiceExportRequestConditionExportsReady) req1
         else setPhase APIServiceExportRequestPhaseSucceeded (rqt_TerminalMessage (rq_Status req1)) req1)"

definition deleteExpired ::
  "'w request_reconciler \<Rightarrow> time \<Rightarrow> APIServiceExportRequest \<Rightarrow> 'w \<Rightarrow> error option \<times> APIServiceExportRequest \<times> 'w" where
  "deleteExpired r now req w =
     (if 10 * Minute < TimeSub now (m_CreationTimestamp (rq_meta req))
      then (case qr_deleteServiceExportRequest r w (m_Namespace (rq_meta req)) (m_Name (rq_meta req)) of
          (err, w1) \<Rightarrow> (err, req, w1))
      else (None, req, w))"

definition ensureExports ::
  "'w request_reconciler \<Rightarrow> time \<Rightarrow> APIServiceExport option \<Rightarrow> APIServiceExportRequest \<Rightarrow> 'w \<Rightarrow>
     error option \<times> APIServiceExportRequest \<times> 'w" where
  "ensureExports r now existingExport req w =
     (if rqt_Phase (rq_Status req) \<noteq> APIServiceExportRequestPhasePending then deleteExpired r now req w
      else (case fetchSchemas (qr_getBoundSchema r w (m_Namespace (rq_meta req))) (rqs_Resources (rq_Spec req)) of
          Inl (name, err) \<Rightarrow>
            (Some err,
             (if IsNotFound err
              then markRequestFalse now req APIServiceExportRequestConditionExportsReady ''BoundSchemaNotFound''
                     ''BoundSchema %s in the service provider cluster not found'' [FStr name]
              else req), w)
        | Inr schemas \<Rightarrow>
            if existingExport \<noteq> None
            then (None, MarkTrue APIServiceExportRequest_Setter now req APIServiceExportRequestConditionExportsReady, w)
            else (case BoundSchemasSpecHash (qr_codec r) schemas of
                Inl err \<Rightarrow> (Some err, req, w)
              | Inr hash \<Rightarrow>
                  (case qr_createServiceExport r w (requestedExport r req hash) of
                     (Some err, w1) \<Rightarrow> if IsAlreadyExists err then (None, req, w1) else (Some err, req, w1)
                   | (None, w1) \<Rightarrow> deleteExpired r now (finishRequest now req) w1))))"

fun ensureServiceNamespaces ::
  "'w request_reconciler \<Rightarrow> APIServiceExport \<Rightarrow> string list \<Rightarrow> 'w \<Rightarrow> error option \<times> 'w" where
  "ensureServiceNamespaces r export [] w = (None, w)"
| "ensureServiceNamespaces r export (ns # nss) w =
     (let sns = APIServiceNamespaceFromExport export ns
      in case qr_getServiceNamespace r w (m_Namespace (sn_meta sns)) (m_Name (sn_meta sns)) of
           Inr _ \<Rightarrow> ensureServiceNamespaces r export nss w
         | Inl err \<Rightarrow>
             if IsNotFound err
             then (case qr_createServiceNamespace r w sns of
                 (Some err2, w1) \<Rightarrow>
                   if IsAlreadyExists err2 then ensureServiceNamespaces r export nss w1 else (Some err2, w1)
               | (None, w1) \<Rightarrow> ensureServiceNamespaces r export nss w1)
             else (Some err, w))"

definition ensureAPIServiceNamespaces ::
  "'w request_reconciler \<Rightarrow> APIServiceExportRequest \<Rightarrow> 'w \<Rightarrow> error option \<times> 'w" where
  "ensureAPIServiceNamespaces r req w =
     (let ns = m_Namespace (rq_meta req); name = m_Name (rq_meta req)
      in case qr_readServiceExport r w ns name of
           Inl err \<Rightarrow> (Some (wrapError (''failed to get APIServiceExport '' @ ns @ ''/'' @ name) err), w)
         | Inr export \<Rightarrow> ensureServiceNamespaces r export (rqs_Namespaces (rq_Spec req)) w)"

section \<open>The reconciler\<close>

text \<open>A step that fails ends the reconciliation, after the summary condition was set.\<close>

definition requestFailed ::
  "time \<Rightarrow> string \<Rightarrow> error \<Rightarrow> APIServiceExportRequest \<Rightarrow> 'w \<Rightarrow> error option \<times> APIServiceExportRequest \<times> 'w" where
  "requestFailed now what err req w = (Some (wrapError what err), SetSummary APIServiceExportRequest_Setter now req [], w)"

definition request_steps ::
  "'w request_reconciler \<Rightarrow> time \<Rightarrow> APIServiceExport option \<Rightarrow> APIServiceExportRequest \<Rightarrow> 'w \<Rightarrow>
     error option \<times> APIServiceExportRequest \<times> 'w" where
  "request_steps r now export req w =
     (case ensureBoundSchemas r export req w of
        (Some err, w1) \<Rightarrow> requestFailed now ''failed to ensure bound schemas'' err req w1
      | (None, w1) \<Rightarrow>
          (case request_validate r w1 now req of
             Some (err, req1) \<Rightarrow> requestFailed now ''failed to validate APIServiceExportRequest'' err req1 w1
           | None \<Rightarrow>
               (case ensureExports r now export req w1 of
                  (Some err, req1, w2) \<Rightarrow> requestFailed now ''failed to ensure exports'' err req1 w2
                | (None, req1, w2) \<Rightarrow>
                    (case ensureAPIServiceNamespaces r req1 w2 of
                       (Some err, w3) \<Rightarrow> requestFailed now ''failed to ensure APIServiceNamespaces'' err req1 w3
                     | (None, w3) \<Rightarrow> (None, SetSummary APIServiceExportRequest_Setter now req1 [], w3)))))"

definition request_reconcile ::
  "'w request_reconciler \<Rightarrow> time \<Rightarrow> APIServiceExportRequest \<Rightarrow> 'w \<Rightarrow>
     error option \<times> APIServiceExportRequest \<times> 'w" where
  "request_reconcile r now req w =
     (case qr_getServiceExport r w (m_Namespace (rq_meta req)) (m_Name (rq_meta req)) of
        Inl err \<Rightarrow>
          if \<not> IsNotFound err then (Some (wrapError ''failed to get APIServiceExport'' err), req, w)
          else request_steps r now None req w
      | Inr export \<Rightarrow> request_steps r now (Some export) req w)"

definition request_Reconcile ::
  "(APIServiceExportRequest, 'w) backend_client \<Rightarrow> 'w request_reconciler \<Rightarrow> time \<Rightarrow> mcRequest \<Rightarrow> 'w \<Rightarrow>
     ctrlResult result \<times> 'w" where
  "request_Reconcile be r now mcreq w =
     withObject be ''APIServiceExportRequest'' mcreq w (Inr noRequeue, w) (\<lambda>original.
       let update = be_StatusUpdate be; cluster = mc_ClusterName mcreq; what = ''APIServiceExportRequest status''
       in case request_reconcile r now original w of
            (Some err, req, w1) \<Rightarrow>
              if rqt_Phase (rq_Status original) \<noteq> rqt_Phase (rq_Status req)
              then (case writeBack what noRequeue (update w1 cluster req) of
                  (Inl err2, w2) \<Rightarrow> (Inl err2, w2) | (Inr _, w2) \<Rightarrow> (Inl err, w2))
              else (Inl err, w1)
          | (None, req, w1) \<Rightarrow>
              let res = (if rqs_SchemaUpdatePolicy (rq_Spec req) = SchemaUpdatePolicyAlways
                         then noRequeue\<lparr>ctrl_RequeueAfter := qr_schemaSyncInterval r\<rparr> else noRequeue)
              in if rq_Status original \<noteq> rq_Status req then writeBack what res (update w1 cluster req)
                 else (Inr res, w1))"

text \<open>The watches: exports by their own name, bound schemas by the names of the resources.\<close>

definition getServiceExportRequestMapper ::
  "string \<Rightarrow> (string \<Rightarrow> APIServiceExportRequest list result) \<Rightarrow> APIServiceExport \<Rightarrow> mcRequest list" where
  "getServiceExportRequestMapper clusterName listByServiceExport serviceExport =
     requestsFor clusterName rq_meta
       (listByServiceExport (m_Namespace (ex_meta serviceExport) @ ''/'' @ m_Name (ex_meta serviceExport)))"

definition requests_getBoundSchemaMapper ::
  "string \<Rightarrow> (string \<Rightarrow> APIServiceExportRequest list result) \<Rightarrow> BoundSchema \<Rightarrow> mcRequest list" where
  "requests_getBoundSchemaMapper clusterName listByGroupResource boundSchema =
     (let spec = bss_APICRDSpec (bs_Spec boundSchema)
      in requestsFor clusterName rq_meta (listByGroupResource (crn_Plural (cs_Names spec) @ ''.'' @ cs_Group spec)))"

text \<open>
  The index lists the requests under the names of their resources, the watch asks for the name of the
  export, which is that of the request: a change of the export reaches the request only when it is
  named after one of its resources.
\<close>

lemma export_watch_misses:
  "m_Namespace (rq_meta req) @ ''/'' @ m_Name (rq_meta req) \<in> set (IndexServiceExportRequestByServiceExport req) \<longleftrightarrow>
     m_Name (rq_meta req) \<in> ResourceGroupName ` set (rqs_Resources (rq_Spec req))"
  by (auto simp: IndexServiceExportRequestByServiceExport_def)

section \<open>What validation guarantees\<close>

definition claimsValid :: "APIServiceExportRequest \<Rightarrow> bool" where
  "claimsValid req \<longleftrightarrow> list_all isClaimableAPI (rqs_PermissionClaims (rq_Spec req)) \<and>
     distinct (map claimId (rqs_PermissionClaims (rq_Spec req)))"

text \<open>All resources have an exported schema, and the schemas that have a scope have the same one.\<close>

definition resourcesExported :: "ExportedSchemas \<Rightarrow> APIServiceExportRequestResource list \<Rightarrow> ResourceScope \<Rightarrow> bool" where
  "resourcesExported exported rs scope \<longleftrightarrow> list_all (\<lambda>res. case map_of exported (ResourceGroupName res) of
     None \<Rightarrow> False | Some b \<Rightarrow> cs_Scope (bss_APICRDSpec (bs_Spec b)) \<in> {[], scope}) rs"

lemma validateClaims_None: "validateClaims now req claims = None \<longleftrightarrow> list_all isClaimableAPI claims"
  by (induction claims) auto

lemma validateDuplicates_None:
  "validateDuplicates now req seen claims = None \<longleftrightarrow>
     distinct (map claimId claims) \<and> set (map claimId claims) \<inter> set seen = {}"
  by (induction claims arbitrary: seen) auto

lemma validateResources_None:
  "validateResources now exported req first rs = None \<Longrightarrow>
     \<exists>scope. resourcesExported exported rs scope \<and> (first \<noteq> [] \<longrightarrow> scope = first)"
proof (induction rs arbitrary: first)
  case Nil
  then show ?case by (auto simp: resourcesExported_def)
next
  case (Cons res rs)
  then obtain b where b: "map_of exported (ResourceGroupName res) = Some b"
    by (auto split: option.splits)
  let ?scope = "cs_Scope (bss_APICRDSpec (bs_Spec b))"
  show ?case
  proof (cases "first = []")
    case True
    with Cons.prems b have "validateResources now exported req ?scope rs = None" by simp
    from Cons.IH [OF this] obtain scope where "resourcesExported exported rs scope" "?scope \<noteq> [] \<longrightarrow> scope = ?scope" by blast
    then have "resourcesExported exported (res # rs) scope"
      using b by (auto simp: resourcesExported_def)
    with True show ?thesis by blast
  next
    case False
    with Cons.prems b have "validateResources now exported req first rs = None" "?scope = first"
      by (simp_all add: Let_def split: if_splits)
    with Cons.IH [of first] False b show ?thesis by (auto simp: resourcesExported_def)
  qed
qed

lemma request_validate_None:
  assumes "request_validate r w now req = None"
  obtains exported scope where "getExportedSchemas r w = Inr exported"
    "resourcesExported exported (rqs_Resources (rq_Spec req)) scope" "claimsValid req"
  using assms
  by (auto simp: request_validate_def claimsValid_def validateClaims_None validateDuplicates_None
      split: sum.splits if_splits option.splits dest!: validateResources_None)

text \<open>A failed check changes the status only; the phase only when the claims are not valid.\<close>

abbreviation sameRequest :: "APIServiceExportRequest \<Rightarrow> APIServiceExportRequest \<Rightarrow> bool" where
  "sameRequest a b \<equiv> rq_meta b = rq_meta a \<and> rq_Spec b = rq_Spec a"

abbreviation phaseOf :: "APIServiceExportRequest \<Rightarrow> APIServiceExportRequestPhase" where
  "phaseOf req \<equiv> rqt_Phase (rq_Status req)"

lemma request_Set_frame [simp]:
  "rq_meta (Set APIServiceExportRequest_Setter now req c) = rq_meta req"
  "rq_Spec (Set APIServiceExportRequest_Setter now req c) = rq_Spec req"
  "phaseOf (Set APIServiceExportRequest_Setter now req c) = phaseOf req"
  "rqt_TerminalMessage (rq_Status (Set APIServiceExportRequest_Setter now req c)) = rqt_TerminalMessage (rq_Status req)"
  by (simp_all add: Set_def APIServiceExportRequest_Setter_def split: option.splits)

lemmas request_mark_defs = MarkTrue_def MarkFalse_def SetSummary_def

lemma refuseClaim_frame: "sameRequest req (refuseClaim now req reason fm claim) \<and>
    phaseOf (refuseClaim now req reason fm claim) = APIServiceExportRequestPhaseFailed"
  by (simp add: refuseClaim_def Let_def request_mark_defs)

lemma validateResources_frame:
  "validateResources now exported req first rs = Some (err, req') \<Longrightarrow> sameRequest req req' \<and> phaseOf req' = phaseOf req"
  by (induction rs arbitrary: first) (auto simp: Let_def request_mark_defs split: option.splits if_splits)

lemma validateClaims_frame:
  "validateClaims now req claims = Some (err, req') \<Longrightarrow>
     sameRequest req req' \<and> phaseOf req' = APIServiceExportRequestPhaseFailed"
  by (induction claims) (auto simp: refuseClaim_frame split: if_splits)

lemma validateDuplicates_frame:
  "validateDuplicates now req seen claims = Some (err, req') \<Longrightarrow>
     sameRequest req req' \<and> phaseOf req' = APIServiceExportRequestPhaseFailed"
  by (induction claims arbitrary: seen) (auto simp: refuseClaim_frame split: if_splits)

lemma request_validate_Some:
  assumes "request_validate r w now req = Some (err, req')"
  shows "sameRequest req req' \<and> (phaseOf req' = phaseOf req \<or>
    \<not> claimsValid req \<and> phaseOf req' = APIServiceExportRequestPhaseFailed)"
  using assms
  by (auto simp: request_validate_def claimsValid_def request_mark_defs
      validateClaims_None [of now req, symmetric]
      validateDuplicates_None [of now req "[]", simplified, symmetric]
      split: sum.splits if_splits option.splits
      dest: validateResources_frame validateClaims_frame validateDuplicates_frame)

section \<open>The phases of a request\<close>

text \<open>
  The abstract machine of a request: a young one may succeed, an old one may fail, and a request
  whose claims are not valid may be refused.
\<close>

inductive request_step :: "bool \<Rightarrow> bool \<Rightarrow> APIServiceExportRequestPhase \<Rightarrow> APIServiceExportRequestPhase \<Rightarrow> bool"
  for young valid where
  stay: "request_step young valid p p"
| succeed: "young \<Longrightarrow> request_step young valid APIServiceExportRequestPhasePending APIServiceExportRequestPhaseSucceeded"
| expire: "\<not> young \<Longrightarrow> request_step young valid APIServiceExportRequestPhasePending APIServiceExportRequestPhaseFailed"
| refuse: "\<not> valid \<Longrightarrow> request_step young valid p APIServiceExportRequestPhaseFailed"

inductive_simps request_step_pending: "request_step young valid APIServiceExportRequestPhasePending p"
inductive_simps request_step_succeeded: "request_step young valid APIServiceExportRequestPhaseSucceeded p"
inductive_simps request_step_failed: "request_step young valid APIServiceExportRequestPhaseFailed p"

definition youngRequest :: "time \<Rightarrow> APIServiceExportRequest \<Rightarrow> bool" where
  "youngRequest now req \<longleftrightarrow> TimeSub now (m_CreationTimestamp (rq_meta req)) \<le> Minute"

lemma finishRequest_frame:
  "sameRequest req (finishRequest now req)"
  "phaseOf (finishRequest now req) =
     (if youngRequest now req then APIServiceExportRequestPhaseSucceeded else APIServiceExportRequestPhaseFailed)"
  by (auto simp: finishRequest_def setPhase_def youngRequest_def Let_def request_mark_defs)

lemma ensureExports_frame:
  assumes "ensureExports r now export req w = (err, req', w')"
  shows "sameRequest req req' \<and> request_step (youngRequest now req) valid (phaseOf req) (phaseOf req')"
  using assms finishRequest_frame [where req = req and now = now]
  by (auto simp: ensureExports_def deleteExpired_def request_mark_defs
      split: if_splits sum.splits prod.splits option.splits intro: request_step.intros)

text \<open>
  C38: The controller refines the machine of phases: whatever the clients answer, a pass over a
  request changes neither its metadata nor its specification, and moves its phase by a step of the
  machine. So a request that failed stays failed, one that succeeded stays so while its claims are
  valid, and only a pass within the first minute can let a request succeed.
\<close>

theorem request_refines_phases:
  assumes "request_reconcile r now req w = (err, req', w')"
  shows "sameRequest req req' \<and>
    request_step (youngRequest now req) (claimsValid req) (phaseOf req) (phaseOf req')"
proof -
  have steps: "sameRequest req req' \<and>
      request_step (youngRequest now req) (claimsValid req) (phaseOf req) (phaseOf req')"
    if "request_steps r now export req w = (err, req', w')" for export
    using that
    by (auto simp: request_steps_def requestFailed_def request_mark_defs
        split: prod.splits option.splits
        intro: request_step.intros dest!: request_validate_Some
        dest: ensureExports_frame [where valid = "claimsValid req"])
  then show ?thesis
    using assms by (auto simp: request_reconcile_def intro: request_step.intros split: sum.splits if_splits)
qed

section \<open>An example\<close>

text \<open>A cluster that exports one schema and stores exports; the bound schemas are there.\<close>

definition exampleItem :: Unstructured where
  "exampleItem = \<lparr>u_meta = emptyMeta, u_ManagedFields = JNull, u_DeletionGracePeriodSeconds = None, u_fields = Mapping.empty\<rparr>"

definition exampleRequests :: "APIServiceExport list request_reconciler" where
  "exampleRequests =
     \<lparr>qr_informerScope = ClusterScope, qr_isolation = IsolationNone,
      qr_schemaSource = ''CustomResourceDefinition.v1.apiextensions.k8s.io'', qr_schemaSyncInterval = Minute,
      qr_codec = exampleCodec\<lparr>co_EncodeSpec := \<lambda>_. Inr ''x'', co_sha256hex := \<lambda>_. ''abc''\<rparr>,
      qr_List = (\<lambda>w gvk ls. Inr [exampleItem]), qr_FromUnstructured = (\<lambda>u. Inr exampleSchema),
      qr_SetControllerReference = (\<lambda>ex b. Inr b),
      qr_getBoundSchema = (\<lambda>w ns n. Inr exampleSchema), qr_createBoundSchema = (\<lambda>w b. (None, w)),
      qr_updateBoundSchema = (\<lambda>w b. (None, w)),
      qr_getServiceExport = (\<lambda>w ns n. case w of [] \<Rightarrow> Inl (StatusError ReasonNotFound ''not found'') | e # es \<Rightarrow> Inr e),
      qr_createServiceExport = (\<lambda>w ex. (None, w @ [ex])),
      qr_deleteServiceExportRequest = (\<lambda>w ns n. (None, w)),
      qr_readServiceExport = (\<lambda>w ns n. case w of [] \<Rightarrow> Inl (StatusError ReasonNotFound ''not found'') | e # es \<Rightarrow> Inr e),
      qr_getServiceNamespace = (\<lambda>w ns n. Inl (StatusError ReasonNotFound ''not found'')),
      qr_createServiceNamespace = (\<lambda>w sn. (None, w))\<rparr>"

definition exampleRequest :: APIServiceExportRequest where
  "exampleRequest =
     \<lparr>rq_Kind = ''APIServiceExportRequest'', rq_meta = emptyMeta\<lparr>m_Name := ''dbs'', m_Namespace := ''cluster-a''\<rparr>,
      rq_Spec = \<lparr>rqs_Parameters = None,
        rqs_Resources = [\<lparr>rr_GroupResource = \<lparr>gr_Group = ''example.org'', gr_Resource = ''dbs''\<rparr>, rr_Versions = [''v1'']\<rparr>],
        rqs_PermissionClaims = [], rqs_Namespaces = [''team''], rqs_SchemaUpdatePolicy = SchemaUpdatePolicyNever\<rparr>,
      rq_Status = \<lparr>rqt_Phase = APIServiceExportRequestPhasePending, rqt_TerminalMessage = [], rqt_Conditions = []\<rparr>\<rparr>"

lemmas example_schemas = getExportedSchemas_def exampleRequests_def SplitN_def UnstructuredToBoundSchema_def exampleRequest_def

lemma exampleRequest_schemas: "ensureBoundSchemas exampleRequests None exampleRequest [] = (None, [])"
  by (simp add: ensureBoundSchemas_def example_schemas createOrUpdateBoundSchema_def Let_def BoundSchemaSpecHash_def
      adoptSchema_def syncSchema_def)

lemma exampleRequest_valid: "request_validate exampleRequests [] now exampleRequest = None"
  by (simp add: request_validate_def example_schemas BoundSchema_ResourceGroupName_def ResourceGroupName_def
      exampleSchema_def emptyNames_def Let_def)

lemma exampleRequest_facts:
  "phaseOf exampleRequest = APIServiceExportRequestPhasePending" "m_CreationTimestamp (rq_meta exampleRequest) = 0"
  "fetchSchemas (qr_getBoundSchema exampleRequests w ns) (rqs_Resources (rq_Spec exampleRequest)) = Inr [exampleSchema]"
  "BoundSchemasSpecHash (qr_codec exampleRequests) [exampleSchema] = Inr ''abc''"
  "qr_createServiceExport exampleRequests w ex = (None, w @ [ex])"
  "qr_getServiceExport exampleRequests [] ns n = Inl (StatusError ReasonNotFound ''not found'')"
  by (simp_all add: exampleRequests_def exampleRequest_def emptyMeta_def BoundSchemasSpecHash_def)

lemma exampleRequest_export:
  assumes "\<not> 10 * Minute < TimeSub now 0"
  shows "ensureExports exampleRequests now None exampleRequest [] =
     (None, finishRequest now exampleRequest, [requestedExport exampleRequests exampleRequest ''abc''])"
  using assms by (simp add: ensureExports_def deleteExpired_def finishRequest_frame exampleRequest_facts)

lemma exampleRequest_reconcile:
  assumes "\<not> 10 * Minute < TimeSub now 0"
  shows "request_reconcile exampleRequests now exampleRequest [] =
    (None, SetSummary APIServiceExportRequest_Setter now (finishRequest now exampleRequest) [],
     [requestedExport exampleRequests exampleRequest ''abc''])"
proof -
  have "ensureServiceNamespaces exampleRequests export nss w = (None, w)" for export nss w
    by (induction nss) (simp_all add: exampleRequests_def Let_def)
  then have "ensureAPIServiceNamespaces exampleRequests req [export] = (None, [export])" for req export
    by (simp add: ensureAPIServiceNamespaces_def Let_def) (simp add: exampleRequests_def)
  then show ?thesis
    by (simp add: request_reconcile_def request_steps_def exampleRequest_facts exampleRequest_schemas exampleRequest_valid
        exampleRequest_export [OF assms])
qed

theorem request_refines_phases_witness:
  "\<exists>req' w'. request_reconcile exampleRequests Minute exampleRequest [] = (None, req', w') \<and>
     phaseOf req' = APIServiceExportRequestPhaseSucceeded \<and>
     request_step True (claimsValid exampleRequest) (phaseOf exampleRequest) (phaseOf req')"
proof -
  have young: "youngRequest Minute exampleRequest"
    by (simp add: youngRequest_def exampleRequest_def emptyMeta_def TimeSub_def Minute_def Second_def)
  have "\<not> 10 * Minute < TimeSub Minute 0" by (simp add: TimeSub_def Minute_def Second_def)
  note run = exampleRequest_reconcile [OF this]
  from request_refines_phases [OF run] young run show ?thesis
    by (auto simp: SetSummary_def finishRequest_frame)
qed

section \<open>The exports that are created\<close>

text \<open>The calls that create an export, in their order.\<close>

definition request_logged :: "'w request_reconciler \<Rightarrow> ('w \<times> APIServiceExport list) request_reconciler" where
  "request_logged r =
     \<lparr>qr_informerScope = qr_informerScope r, qr_isolation = qr_isolation r, qr_schemaSource = qr_schemaSource r,
      qr_schemaSyncInterval = qr_schemaSyncInterval r, qr_codec = qr_codec r,
      qr_List = qr_List r \<circ> fst, qr_FromUnstructured = qr_FromUnstructured r,
      qr_SetControllerReference = qr_SetControllerReference r,
      qr_getBoundSchema = qr_getBoundSchema r \<circ> fst,
      qr_createBoundSchema = (\<lambda>(w, l) x. case qr_createBoundSchema r w x of (e, w1) \<Rightarrow> (e, (w1, l))),
      qr_updateBoundSchema = (\<lambda>(w, l) x. case qr_updateBoundSchema r w x of (e, w1) \<Rightarrow> (e, (w1, l))),
      qr_getServiceExport = qr_getServiceExport r \<circ> fst,
      qr_createServiceExport = (\<lambda>(w, l) ex. case qr_createServiceExport r w ex of (e, w1) \<Rightarrow> (e, (w1, l @ [ex]))),
      qr_deleteServiceExportRequest = (\<lambda>(w, l) ns n. case qr_deleteServiceExportRequest r w ns n of (e, w1) \<Rightarrow> (e, (w1, l))),
      qr_readServiceExport = qr_readServiceExport r \<circ> fst,
      qr_getServiceNamespace = qr_getServiceNamespace r \<circ> fst,
      qr_createServiceNamespace = (\<lambda>(w, l) x. case qr_createServiceNamespace r w x of (e, w1) \<Rightarrow> (e, (w1, l)))\<rparr>"

lemma request_logged_simps [simp]:
  "qr_informerScope (request_logged r) = qr_informerScope r" "qr_isolation (request_logged r) = qr_isolation r"
  "qr_codec (request_logged r) = qr_codec r" "qr_schemaSource (request_logged r) = qr_schemaSource r"
  "qr_List (request_logged r) (w, l) = qr_List r w" "qr_FromUnstructured (request_logged r) = qr_FromUnstructured r"
  "qr_getServiceExport (request_logged r) (w, l) = qr_getServiceExport r w"
  "qr_getBoundSchema (request_logged r) (w, l) = qr_getBoundSchema r w"
  "qr_SetControllerReference (request_logged r) = qr_SetControllerReference r"
  "qr_readServiceExport (request_logged r) (w, l) = qr_readServiceExport r w"
  "qr_getServiceNamespace (request_logged r) (w, l) = qr_getServiceNamespace r w"
  "qr_createBoundSchema (request_logged r) (w, l) b = (case qr_createBoundSchema r w b of (e, w1) \<Rightarrow> (e, (w1, l)))"
  "qr_updateBoundSchema (request_logged r) (w, l) b = (case qr_updateBoundSchema r w b of (e, w1) \<Rightarrow> (e, (w1, l)))"
  "qr_createServiceNamespace (request_logged r) (w, l) sn = (case qr_createServiceNamespace r w sn of (e, w1) \<Rightarrow> (e, (w1, l)))"
  "qr_deleteServiceExportRequest (request_logged r) (w, l) ns n =
     (case qr_deleteServiceExportRequest r w ns n of (e, w1) \<Rightarrow> (e, (w1, l)))"
  "qr_createServiceExport (request_logged r) (w, l) ex = (case qr_createServiceExport r w ex of (e, w1) \<Rightarrow> (e, (w1, l @ [ex])))"
  by (simp_all add: request_logged_def fun_eq_iff)

lemma getExportedSchemas_logged [simp]: "getExportedSchemas (request_logged r) (w, l) = getExportedSchemas r w"
  unfolding getExportedSchemas_def request_logged_simps by (rule refl)

lemma createOrUpdateBoundSchema_logged:
  "createOrUpdateBoundSchema (request_logged r) export desired policy (w, l) = (e, (w', l')) \<Longrightarrow> l' = l"
  by (auto simp: createOrUpdateBoundSchema_def Let_def adoptSchema_def
      split: sum.splits if_splits prod.splits option.splits)

lemma bindMatching_logged:
  "bindMatching (request_logged r) export req res bs (w, l) = (e, (w', l')) \<Longrightarrow> l' = l"
proof (induction bs arbitrary: w l)
  case (Cons b bs)
  then show ?case
    by (auto split: if_splits prod.splits option.splits dest: createOrUpdateBoundSchema_logged)
qed simp

lemma bindResources_logged:
  "bindResources (request_logged r) export req schemas rs (w, l) = (e, (w', l')) \<Longrightarrow> l' = l"
proof (induction rs arbitrary: w l)
  case (Cons res rs)
  then show ?case
    by (auto split: if_splits prod.splits option.splits dest: bindMatching_logged)
qed simp

lemma ensureBoundSchemas_logged:
  "ensureBoundSchemas (request_logged r) export req (w, l) = (e, (w', l')) \<Longrightarrow> l' = l"
  by (auto simp: ensureBoundSchemas_def split: sum.splits dest: bindResources_logged)

lemma ensureServiceNamespaces_logged:
  "ensureServiceNamespaces (request_logged r) export nss (w, l) = (e, (w', l')) \<Longrightarrow> l' = l"
  by (induction nss arbitrary: w l)
     (auto simp: Let_def split: sum.splits if_splits prod.splits option.splits)

lemma ensureAPIServiceNamespaces_logged:
  "ensureAPIServiceNamespaces (request_logged r) req (w, l) = (e, (w', l')) \<Longrightarrow> l' = l"
  by (auto simp: ensureAPIServiceNamespaces_def Let_def split: sum.splits dest: ensureServiceNamespaces_logged)

lemma request_validate_logged [simp]:
  "request_validate (request_logged r) (w, l) now req = request_validate r w now req"
  by (simp add: request_validate_def)

text \<open>The creation of exports in one pass: at most one, and only for a pending request.\<close>

lemma ensureExports_logged:
  assumes "ensureExports (request_logged r) now export req (w, l) = (e, req', (w', l'))"
  shows "l' = l \<or> export = None \<and> phaseOf req = APIServiceExportRequestPhasePending \<and>
    (\<exists>schemas hash. fetchSchemas (qr_getBoundSchema r w (m_Namespace (rq_meta req))) (rqs_Resources (rq_Spec req)) = Inr schemas \<and>
       BoundSchemasSpecHash (qr_codec r) schemas = Inr hash \<and> l' = l @ [requestedExport (request_logged r) req hash])"
  using assms
  by (auto simp: ensureExports_def deleteExpired_def split: if_splits sum.splits prod.splits option.splits)

text \<open>An export that answers a request.\<close>

definition exportAnswers :: "'w request_reconciler \<Rightarrow> APIServiceExportRequest \<Rightarrow> APIServiceExport \<Rightarrow> bool" where
  "exportAnswers r req ex \<longleftrightarrow> m_Name (ex_meta ex) = m_Name (rq_meta req) \<and> m_Namespace (ex_meta ex) = m_Namespace (rq_meta req) \<and>
     exs_Resources (ex_Spec ex) = rqs_Resources (rq_Spec req) \<and>
     exs_PermissionClaims (ex_Spec ex) = rqs_PermissionClaims (rq_Spec req) \<and>
     exs_InformerScope (ex_Spec ex) = qr_informerScope r \<and> exs_Isolation (ex_Spec ex) = qr_isolation r"

lemma requestedExport_answers: "exportAnswers r req (requestedExport (request_logged r) req hash)"
  by (simp add: exportAnswers_def requestedExport_def emptyMeta_def)


lemma exampleRequest_logged:
  "\<exists>err req' w' ex. request_reconcile (request_logged exampleRequests) Minute exampleRequest ([], []) = (err, req', (w', [ex]))"
proof -
  have "ensureBoundSchemas (request_logged exampleRequests) None exampleRequest ([], []) = (None, ([], []))"
    by (simp add: ensureBoundSchemas_def)
       (simp add: example_schemas createOrUpdateBoundSchema_def Let_def BoundSchemaSpecHash_def
         adoptSchema_def syncSchema_def request_logged_def)
  moreover have "\<exists>req2 w2 ex. ensureExports (request_logged exampleRequests) Minute None exampleRequest ([], []) =
      (None, req2, (w2, [ex]))"
    by (simp add: ensureExports_def deleteExpired_def finishRequest_frame exampleRequest_facts)
       (simp add: TimeSub_def Minute_def Second_def)
  then obtain req2 w2 ex where "ensureExports (request_logged exampleRequests) Minute None exampleRequest ([], []) =
      (None, req2, (w2, [ex]))" by blast
  moreover obtain e w3 where "ensureAPIServiceNamespaces (request_logged exampleRequests) req2 (w2, [ex]) = (e, (w3, [ex]))"
    by (metis ensureAPIServiceNamespaces_logged surj_pair)
  ultimately show ?thesis
    by (cases e) (simp_all add: request_reconcile_def request_steps_def exampleRequest_valid exampleRequest_facts requestFailed_def)
qed


end
