(* ===== verification/Sessions.thy ===== *)
theory Sessions
  imports Api_Types
begin

text \<open>
  The sessions of the backend (\<open>src/backend/session\<close>): the state of a session, the interface of the
  session stores and its two implementations, in memory and in Redis. A store keeps the sessions of
  the users that logged in and, between the two halves of a login, the PKCE verifier of the
  session. The locale \<open>session_store\<close> states the contract; both implementations are
  interpretations of it. What Redis does is a record of functions with the documented meaning of
  \<open>SET\<close> with a time to live, \<open>GET\<close> and \<open>DEL\<close>; the encoding of a state is a parameter.
\<close>

section \<open>The state of a session\<close>

record TokenInfo =
  ti_Subject :: string
  ti_Issuer :: string
  ti_Groups :: "string list"

record State =
  ss_Token :: TokenInfo
  ss_SessionID :: string
  ss_ClusterID :: string
  ss_RedirectURL :: string
  ss_CreatedAt :: time
  ss_ExpiresAt :: time

definition IsExpired :: "time \<Rightarrow> State \<Rightarrow> bool" where
  "IsExpired now s \<longleftrightarrow> IsZeroTime (ss_ExpiresAt s) \<or> ss_ExpiresAt s < now"

definition SetExpiration :: "time \<Rightarrow> duration \<Rightarrow> State \<Rightarrow> State" where
  "SetExpiration now d s = s\<lparr>ss_CreatedAt := now, ss_ExpiresAt := now + d\<rparr>"

section \<open>The interface\<close>

definition PKCEVerifierTTL :: duration where
  "PKCEVerifierTTL = 10 * Minute"

definition ErrSessionNotFound :: error where
  "ErrSessionNotFound = PlainError ''session not found''"

definition ErrPKCEVerifierNotFound :: error where
  "ErrPKCEVerifierNotFound = PlainError ''pkce verifier not found''"

definition errEmptyVerifier :: error where
  "errEmptyVerifier = PlainError ''sessionID and verifier cannot be empty''"

text \<open>Every operation reads the clock.\<close>

record 'w Store =
  st_Save :: "time \<Rightarrow> State \<Rightarrow> 'w \<Rightarrow> error option \<times> 'w"
  st_Load :: "time \<Rightarrow> string \<Rightarrow> 'w \<Rightarrow> State result"
  st_Delete :: "time \<Rightarrow> string \<Rightarrow> 'w \<Rightarrow> error option \<times> 'w"
  st_SavePKCEVerifier :: "time \<Rightarrow> string \<Rightarrow> string \<Rightarrow> 'w \<Rightarrow> error option \<times> 'w"
  st_LoadAndDeletePKCEVerifier :: "time \<Rightarrow> string \<Rightarrow> 'w \<Rightarrow> string result \<times> 'w"

section \<open>The store in memory\<close>

record pkceEntry =
  pk_verifier :: string
  pk_expiresAt :: time

record memory_Store =
  mem_sessions :: "(string, State) mapping"
  mem_pkceVerifiers :: "(string, pkceEntry) mapping"

definition memory_New :: memory_Store where
  "memory_New = \<lparr>mem_sessions = Mapping.empty, mem_pkceVerifiers = Mapping.empty\<rparr>"

definition memory_Save :: "State \<Rightarrow> memory_Store \<Rightarrow> error option \<times> memory_Store" where
  "memory_Save state s = (None, s\<lparr>mem_sessions := Mapping.update (ss_SessionID state) state (mem_sessions s)\<rparr>)"

definition memory_Load :: "string \<Rightarrow> memory_Store \<Rightarrow> State result" where
  "memory_Load sessionID s =
     (case Mapping.lookup (mem_sessions s) sessionID of None \<Rightarrow> Inl ErrSessionNotFound | Some state \<Rightarrow> Inr state)"

definition memory_Delete :: "string \<Rightarrow> memory_Store \<Rightarrow> error option \<times> memory_Store" where
  "memory_Delete sessionID s = (None, s\<lparr>mem_sessions := Mapping.delete sessionID (mem_sessions s)\<rparr>)"

definition memory_SavePKCEVerifier :: "time \<Rightarrow> string \<Rightarrow> string \<Rightarrow> memory_Store \<Rightarrow> error option \<times> memory_Store" where
  "memory_SavePKCEVerifier now sessionID verifier s =
     (if sessionID = [] \<or> verifier = [] then (Some errEmptyVerifier, s)
      else (None, s\<lparr>mem_pkceVerifiers := Mapping.update sessionID
             \<lparr>pk_verifier = verifier, pk_expiresAt = now + PKCEVerifierTTL\<rparr> (mem_pkceVerifiers s)\<rparr>))"

definition memory_LoadAndDeletePKCEVerifier :: "time \<Rightarrow> string \<Rightarrow> memory_Store \<Rightarrow> string result \<times> memory_Store" where
  "memory_LoadAndDeletePKCEVerifier now sessionID s =
     (if sessionID = [] then (Inl ErrPKCEVerifierNotFound, s)
      else (case Mapping.lookup (mem_pkceVerifiers s) sessionID of
          None \<Rightarrow> (Inl ErrPKCEVerifierNotFound, s)
        | Some entry \<Rightarrow>
            let s' = s\<lparr>mem_pkceVerifiers := Mapping.delete sessionID (mem_pkceVerifiers s)\<rparr>
            in if pk_expiresAt entry < now then (Inl ErrPKCEVerifierNotFound, s') else (Inr (pk_verifier entry), s')))"

definition memoryStore :: "memory_Store Store" where
  "memoryStore =
     \<lparr>st_Save = (\<lambda>now. memory_Save), st_Load = (\<lambda>now. memory_Load), st_Delete = (\<lambda>now. memory_Delete),
      st_SavePKCEVerifier = memory_SavePKCEVerifier,
      st_LoadAndDeletePKCEVerifier = memory_LoadAndDeletePKCEVerifier\<rparr>"

section \<open>The store in Redis\<close>

text \<open>The client: a time to live of 0 is none; \<open>GET\<close> of a missing key gives \<open>goredis.Nil\<close>.\<close>

record ('v, 'w) redis_client =
  rd_Set :: "time \<Rightarrow> string \<Rightarrow> 'v \<Rightarrow> duration \<Rightarrow> 'w \<Rightarrow> error option \<times> 'w"
  rd_Get :: "time \<Rightarrow> string \<Rightarrow> 'w \<Rightarrow> 'v option result"
  rd_Del :: "time \<Rightarrow> string \<Rightarrow> 'w \<Rightarrow> error option \<times> 'w"

text \<open>The encoding with \<open>msgpack\<close>, and strings as values.\<close>

record 'v redis_codec =
  rd_Marshal :: "State \<Rightarrow> 'v result"
  rd_Unmarshal :: "'v \<Rightarrow> State result"
  rd_Bytes :: "string \<Rightarrow> 'v"
  rd_String :: "'v \<Rightarrow> string"

definition getSessionKey :: "string \<Rightarrow> string" where
  "getSessionKey sessionID = Sprintf ''session:%s'' [FStr sessionID]"

definition getPKCEKey :: "string \<Rightarrow> string" where
  "getPKCEKey sessionID = Sprintf ''pkce:%s'' [FStr sessionID]"

definition wrapOption :: "string \<Rightarrow> error option \<times> 'w \<Rightarrow> error option \<times> 'w" where
  "wrapOption what ew = (case ew of (None, w) \<Rightarrow> (None, w) | (Some err, w) \<Rightarrow> (Some (wrapError what err), w))"

definition redis_Save ::
  "('v, 'w) redis_client \<Rightarrow> 'v redis_codec \<Rightarrow> time \<Rightarrow> State \<Rightarrow> 'w \<Rightarrow> error option \<times> 'w" where
  "redis_Save rc cd now state w =
     (case rd_Marshal cd state of
        Inl err \<Rightarrow> (Some (wrapError ''failed to encode state'' err), w)
      | Inr encoded \<Rightarrow>
          let ttl = (if IsZeroTime (ss_ExpiresAt state) then 0 else TimeSub (ss_ExpiresAt state) now)
          in if \<not> IsZeroTime (ss_ExpiresAt state) \<and> ttl \<le> 0 then (None, w)
             else wrapOption ''failed to save session to redis''
                    (rd_Set rc now (getSessionKey (ss_SessionID state)) encoded ttl w))"

definition redis_Load ::
  "('v, 'w) redis_client \<Rightarrow> 'v redis_codec \<Rightarrow> time \<Rightarrow> string \<Rightarrow> 'w \<Rightarrow> State result" where
  "redis_Load rc cd now sessionID w =
     (case rd_Get rc now (getSessionKey sessionID) w of
        Inl err \<Rightarrow> Inl (wrapError ''failed to load session from redis'' err)
      | Inr None \<Rightarrow> Inl ErrSessionNotFound
      | Inr (Some val) \<Rightarrow>
          (case rd_Unmarshal cd val of
             Inl err \<Rightarrow> Inl (wrapError ''failed to decode state from redis'' err) | Inr state \<Rightarrow> Inr state))"

definition redis_Delete :: "('v, 'w) redis_client \<Rightarrow> time \<Rightarrow> string \<Rightarrow> 'w \<Rightarrow> error option \<times> 'w" where
  "redis_Delete rc now sessionID w =
     wrapOption ''failed to delete session from redis'' (rd_Del rc now (getSessionKey sessionID) w)"

definition redis_SavePKCEVerifier ::
  "('v, 'w) redis_client \<Rightarrow> 'v redis_codec \<Rightarrow> time \<Rightarrow> string \<Rightarrow> string \<Rightarrow> 'w \<Rightarrow> error option \<times> 'w" where
  "redis_SavePKCEVerifier rc cd now sessionID verifier w =
     (if sessionID = [] \<or> verifier = [] then (Some errEmptyVerifier, w)
      else wrapOption ''failed to save pkce to redis''
             (rd_Set rc now (getPKCEKey sessionID) (rd_Bytes cd verifier) PKCEVerifierTTL w))"

text \<open>Reading and deleting are two commands; the error of the second is dropped.\<close>

definition redis_loadPKCEVerifier ::
  "('v, 'w) redis_client \<Rightarrow> 'v redis_codec \<Rightarrow> time \<Rightarrow> string \<Rightarrow> 'w \<Rightarrow> string result" where
  "redis_loadPKCEVerifier rc cd now sessionID w =
     (if sessionID = [] then Inl ErrPKCEVerifierNotFound
      else (case rd_Get rc now (getPKCEKey sessionID) w of
          Inl err \<Rightarrow> Inl (wrapError ''failed to load pkce from redis'' err)
        | Inr None \<Rightarrow> Inl ErrPKCEVerifierNotFound
        | Inr (Some val) \<Rightarrow> Inr (rd_String cd val)))"

definition redis_LoadAndDeletePKCEVerifier ::
  "('v, 'w) redis_client \<Rightarrow> 'v redis_codec \<Rightarrow> time \<Rightarrow> string \<Rightarrow> 'w \<Rightarrow> string result \<times> 'w" where
  "redis_LoadAndDeletePKCEVerifier rc cd now sessionID w =
     (case redis_loadPKCEVerifier rc cd now sessionID w of
        Inl err \<Rightarrow> (Inl err, w)
      | Inr val \<Rightarrow> (Inr val, snd (rd_Del rc now (getPKCEKey sessionID) w)))"

definition redisStore :: "('v, 'w) redis_client \<Rightarrow> 'v redis_codec \<Rightarrow> 'w Store" where
  "redisStore rc cd =
     \<lparr>st_Save = redis_Save rc cd, st_Load = redis_Load rc cd, st_Delete = redis_Delete rc,
      st_SavePKCEVerifier = redis_SavePKCEVerifier rc cd,
      st_LoadAndDeletePKCEVerifier = redis_LoadAndDeletePKCEVerifier rc cd\<rparr>"

section \<open>The contract of a store\<close>

text \<open>
  A session can be used until it expires, and a verifier can be taken once within its time to live.
  What happens exactly at the end of that time is left open.
\<close>

definition isValidSession :: "'w Store \<Rightarrow> time \<Rightarrow> string \<Rightarrow> 'w \<Rightarrow> bool" where
  "isValidSession st now sessionID w =
     (case st_Load st now sessionID w of Inl err \<Rightarrow> False | Inr info \<Rightarrow> now < ss_ExpiresAt info)"

definition resultOption :: "'a result \<Rightarrow> 'a option" where
  "resultOption r = (case r of Inl err \<Rightarrow> None | Inr x \<Rightarrow> Some x)"

lemma resultOption_simps [simp]:
  "resultOption (Inl err) = None" "resultOption (Inr x) = Some x"
  by (simp_all add: resultOption_def)

definition lasting :: "time \<Rightarrow> State \<Rightarrow> bool" where
  "lasting now s \<longleftrightarrow> 0 \<le> now \<and> now < ss_ExpiresAt s \<and> ss_ExpiresAt s - now < 2 ^ 63"

locale session_store =
  fixes st :: "'w Store" and session :: "time \<Rightarrow> 'w \<Rightarrow> string \<Rightarrow> State option"
    and verifier :: "time \<Rightarrow> 'w \<Rightarrow> string \<Rightarrow> string option"
  assumes load: "isValidSession st now i w \<longleftrightarrow> session now w i \<noteq> None"
    and save: "lasting now s \<Longrightarrow> \<exists>w'. st_Save st now s w = (None, w') \<and>
      (\<forall>t\<ge>now. \<forall>i. session t w' i = (if i = ss_SessionID s then if t < ss_ExpiresAt s then Some s else None
         else session t w i) \<and> verifier t w' i = verifier t w i)"
    and delete: "\<exists>w'. st_Delete st now i w = (None, w') \<and>
      (\<forall>t\<ge>now. \<forall>j. session t w' j = (if j = i then None else session t w j) \<and> verifier t w' j = verifier t w j)"
    and save_verifier: "i \<noteq> [] \<Longrightarrow> v \<noteq> [] \<Longrightarrow> \<exists>w'. st_SavePKCEVerifier st now i v w = (None, w') \<and>
      (\<forall>t\<ge>now. \<forall>j. session t w' j = session t w j \<and> (j \<noteq> i \<longrightarrow> verifier t w' j = verifier t w j) \<and>
         (t < now + PKCEVerifierTTL \<longrightarrow> verifier t w' i = Some v) \<and> (now + PKCEVerifierTTL < t \<longrightarrow> verifier t w' i = None) \<and>
         (verifier t w' i = None \<or> verifier t w' i = Some v))"
    and save_verifier_empty: "i = [] \<or> v = [] \<Longrightarrow> st_SavePKCEVerifier st now i v w = (Some errEmptyVerifier, w)"
    and take_verifier: "\<exists>w' r. st_LoadAndDeletePKCEVerifier st now i w = (r, w') \<and>
      verifier now w i = resultOption r \<and>
      (\<forall>t\<ge>now. \<forall>j. session t w' j = session t w j \<and> verifier t w' j = (if j = i then None else verifier t w j))"
begin

text \<open>A verifier is taken at most once.\<close>

lemma take_twice:
  assumes "st_LoadAndDeletePKCEVerifier st now i w = (Inr v, w')" "now \<le> now'"
  shows "\<exists>err. fst (st_LoadAndDeletePKCEVerifier st now' i w') = Inl err"
proof -
  have "verifier now' w' i = None" using take_verifier [of now i w] assms by auto
  moreover obtain r w2 where "st_LoadAndDeletePKCEVerifier st now' i w' = (r, w2)"
    "verifier now' w' i = resultOption r"
    using take_verifier [of now' i w'] by blast
  ultimately show ?thesis by (cases r) simp_all
qed

end

section \<open>The implementations keep the contract\<close>

definition memory_session :: "time \<Rightarrow> memory_Store \<Rightarrow> string \<Rightarrow> State option" where
  "memory_session t w i =
     (case Mapping.lookup (mem_sessions w) i of None \<Rightarrow> None | Some s \<Rightarrow> if t < ss_ExpiresAt s then Some s else None)"

definition memory_verifier :: "time \<Rightarrow> memory_Store \<Rightarrow> string \<Rightarrow> string option" where
  "memory_verifier t w i =
     (case Mapping.lookup (mem_pkceVerifiers w) i of None \<Rightarrow> None
      | Some e \<Rightarrow> if i = [] \<or> pk_expiresAt e < t then None else Some (pk_verifier e))"

lemmas memory_defs = memoryStore_def memory_Save_def memory_Load_def memory_Delete_def memory_SavePKCEVerifier_def
  memory_LoadAndDeletePKCEVerifier_def memory_session_def memory_verifier_def

interpretation memory: session_store memoryStore memory_session memory_verifier
  by unfold_locales (auto simp: memory_defs isValidSession_def Let_def split: option.splits)

text \<open>A Redis server whose commands succeed, with the keys that have not expired.\<close>

datatype redis_value = Packed State | Raw string

type_synonym redis_server = "(string, redis_value \<times> time option) mapping"

definition redisLive :: "time \<Rightarrow> redis_server \<Rightarrow> string \<Rightarrow> redis_value option" where
  "redisLive t w k =
     (case Mapping.lookup w k of None \<Rightarrow> None
      | Some (v, expiry) \<Rightarrow> (case expiry of None \<Rightarrow> Some v | Some e \<Rightarrow> if t < e then Some v else None))"

definition redisServer :: "(redis_value, redis_server) redis_client" where
  "redisServer =
     \<lparr>rd_Set = (\<lambda>now k v ttl w. (None, Mapping.update k (v, if ttl = 0 then None else Some (now + ttl)) w)),
      rd_Get = (\<lambda>now k w. Inr (redisLive now w k)),
      rd_Del = (\<lambda>now k w. (None, Mapping.delete k w))\<rparr>"

definition redisCodec :: "redis_value redis_codec" where
  "redisCodec =
     \<lparr>rd_Marshal = (\<lambda>s. Inr (Packed s)),
      rd_Unmarshal = (\<lambda>v. case v of Packed s \<Rightarrow> Inr s | Raw _ \<Rightarrow> Inl (PlainError ''msgpack: invalid code'')),
      rd_Bytes = Raw, rd_String = (\<lambda>v. case v of Raw s \<Rightarrow> s | Packed _ \<Rightarrow> [])\<rparr>"

definition redis_session :: "time \<Rightarrow> redis_server \<Rightarrow> string \<Rightarrow> State option" where
  "redis_session t w i =
     (case redisLive t w (getSessionKey i) of Some (Packed s) \<Rightarrow> if t < ss_ExpiresAt s then Some s else None | _ \<Rightarrow> None)"

definition redis_verifier :: "time \<Rightarrow> redis_server \<Rightarrow> string \<Rightarrow> string option" where
  "redis_verifier t w i =
     (if i = [] then None else map_option (rd_String redisCodec) (redisLive t w (getPKCEKey i)))"

lemma redis_keys [simp]:
  "getSessionKey i = getSessionKey j \<longleftrightarrow> i = j" "getPKCEKey i = getPKCEKey j \<longleftrightarrow> i = j"
  "getSessionKey i \<noteq> getPKCEKey j" "getPKCEKey i \<noteq> getSessionKey j"
  by (simp_all add: getSessionKey_def getPKCEKey_def)

lemma redisLive_simps [simp]:
  "redisLive t (Mapping.update k (v, e) w) k' =
     (if k' = k then (case e of None \<Rightarrow> Some v | Some x \<Rightarrow> if t < x then Some v else None) else redisLive t w k')"
  "redisLive t (Mapping.delete k w) k' = (if k' = k then None else redisLive t w k')"
  by (auto simp: redisLive_def)

lemma redisLive_expired: "redisLive now w k = None \<Longrightarrow> now \<le> t \<Longrightarrow> redisLive t w k = None"
  by (auto simp: redisLive_def split: option.splits if_splits)

interpretation redis: session_store "redisStore redisServer redisCodec" redis_session redis_verifier
proof unfold_locales
  fix now i and w :: redis_server
  show "isValidSession (redisStore redisServer redisCodec) now i w \<longleftrightarrow> redis_session now w i \<noteq> None"
    by (auto simp: isValidSession_def redisStore_def redis_Load_def redisServer_def redisCodec_def redis_session_def
        split: option.splits sum.splits redis_value.splits)
next
  fix now s and w :: redis_server
  assume last: "lasting now s"
  then have ttl: "TimeSub (ss_ExpiresAt s) now = ss_ExpiresAt s - now" "ss_ExpiresAt s \<noteq> 0" "0 < ss_ExpiresAt s - now"
    by (auto simp: lasting_def TimeSub_def)
  show "\<exists>w'. st_Save (redisStore redisServer redisCodec) now s w = (None, w') \<and>
      (\<forall>t\<ge>now. \<forall>i. redis_session t w' i = (if i = ss_SessionID s then if t < ss_ExpiresAt s then Some s else None
         else redis_session t w i) \<and> redis_verifier t w' i = redis_verifier t w i)"
    using ttl by (auto simp: redisStore_def redis_Save_def redisServer_def redisCodec_def IsZeroTime_def Let_def
        wrapOption_def redis_session_def redis_verifier_def)
qed (auto simp: redisStore_def redis_Delete_def redis_SavePKCEVerifier_def redis_LoadAndDeletePKCEVerifier_def
      redis_loadPKCEVerifier_def redisServer_def redisCodec_def wrapOption_def redis_session_def redis_verifier_def
      PKCEVerifierTTL_def Minute_def Second_def redisLive_expired split: option.splits sum.splits)

section \<open>The stores are interchangeable\<close>

datatype store_op = OpSave State | OpDelete string | OpSaveVerifier string string | OpTakeVerifier string | OpValid string

datatype observation = Done bool | Taken "string option" | Valid bool

fun perform :: "'w Store \<Rightarrow> time \<Rightarrow> store_op \<Rightarrow> 'w \<Rightarrow> observation \<times> 'w" where
  "perform st now (OpSave s) w = (case st_Save st now s w of (e, w') \<Rightarrow> (Done (e = None), w'))"
| "perform st now (OpDelete i) w = (case st_Delete st now i w of (e, w') \<Rightarrow> (Done (e = None), w'))"
| "perform st now (OpSaveVerifier i v) w = (case st_SavePKCEVerifier st now i v w of (e, w') \<Rightarrow> (Done (e = None), w'))"
| "perform st now (OpTakeVerifier i) w = (case st_LoadAndDeletePKCEVerifier st now i w of (r, w') \<Rightarrow>
     (Taken (resultOption r), w'))"
| "perform st now (OpValid i) w = (Valid (isValidSession st now i w), w)"

fun performAll :: "'w Store \<Rightarrow> (time \<times> store_op) list \<Rightarrow> 'w \<Rightarrow> observation list" where
  "performAll st [] w = []"
| "performAll st ((now, op) # ops) w = (case perform st now op w of (ob, w') \<Rightarrow> ob # performAll st ops w')"

text \<open>
  The calls of one clock: sessions are saved before they expire, and nothing happens in the instant
  at which a verifier times out.
\<close>

definition timeouts :: "time \<Rightarrow> store_op \<Rightarrow> time list \<Rightarrow> time list" where
  "timeouts now op ends = (case op of OpSaveVerifier _ _ \<Rightarrow> (now + PKCEVerifierTTL) # ends | _ \<Rightarrow> ends)"

fun orderly :: "time \<Rightarrow> time list \<Rightarrow> (time \<times> store_op) list \<Rightarrow> bool" where
  "orderly now ends [] \<longleftrightarrow> True"
| "orderly now ends ((t, op) # ops) \<longleftrightarrow> now \<le> t \<and> t \<notin> set ends \<and>
     (case op of OpSave s \<Rightarrow> lasting t s | _ \<Rightarrow> True) \<and> orderly t (timeouts t op ends) ops"

locale two_stores = a: session_store st1 session1 verifier1 + b: session_store st2 session2 verifier2
  for st1 :: "'w Store" and session1 verifier1 and st2 :: "'v Store" and session2 verifier2
begin

definition agree :: "time \<Rightarrow> time list \<Rightarrow> 'w \<Rightarrow> 'v \<Rightarrow> bool" where
  "agree now ends w1 w2 \<longleftrightarrow> (\<forall>t\<ge>now. \<forall>i. session1 t w1 i = session2 t w2 i \<and>
     (t \<notin> set ends \<longrightarrow> verifier1 t w1 i = verifier2 t w2 i))"

lemma perform_agree:
  assumes "agree now ends w1 w2" "now \<le> t" "t \<notin> set ends" "case op of OpSave s \<Rightarrow> lasting t s | _ \<Rightarrow> True"
    and "perform st1 t op w1 = (ob1, w1')" "perform st2 t op w2 = (ob2, w2')"
  shows "ob1 = ob2 \<and> agree t (timeouts t op ends) w1' w2'"
proof (cases op)
  case (OpSave s)
  with assms(4) have "lasting t s" by simp
  from a.save [OF this, of w1] b.save [OF this, of w2] OpSave assms show ?thesis
    by (auto simp: agree_def timeouts_def)
next
  case (OpDelete i)
  from a.delete [of t i w1] b.delete [of t i w2] OpDelete assms show ?thesis by (auto simp: agree_def timeouts_def)
next
  case (OpSaveVerifier i v)
  show ?thesis
  proof (cases "i = [] \<or> v = []")
    case True
    from a.save_verifier_empty [OF True, of t w1] b.save_verifier_empty [OF True, of t w2] OpSaveVerifier assms show ?thesis
      by (auto simp: agree_def timeouts_def)
  next
    case False
    then have ne: "i \<noteq> []" "v \<noteq> []" by simp_all
    obtain w1a w2a where
      "st_SavePKCEVerifier st1 t i v w1 = (None, w1a)" "st_SavePKCEVerifier st2 t i v w2 = (None, w2a)"
      and v: "\<And>x j. t \<le> x \<Longrightarrow> session1 x w1a j = session1 x w1 j \<and> session2 x w2a j = session2 x w2 j"
        "\<And>x j. t \<le> x \<Longrightarrow> j \<noteq> i \<Longrightarrow> verifier1 x w1a j = verifier1 x w1 j \<and> verifier2 x w2a j = verifier2 x w2 j"
        "\<And>x. t \<le> x \<Longrightarrow> x \<noteq> t + PKCEVerifierTTL \<Longrightarrow> verifier1 x w1a i = verifier2 x w2a i"
    proof -
      obtain w1a where 1: "st_SavePKCEVerifier st1 t i v w1 = (None, w1a)" "\<forall>x\<ge>t. \<forall>j. session1 x w1a j = session1 x w1 j \<and>
          (j \<noteq> i \<longrightarrow> verifier1 x w1a j = verifier1 x w1 j) \<and> (x < t + PKCEVerifierTTL \<longrightarrow> verifier1 x w1a i = Some v) \<and>
          (t + PKCEVerifierTTL < x \<longrightarrow> verifier1 x w1a i = None)" using a.save_verifier [OF ne, of t w1] by blast
      obtain w2a where 2: "st_SavePKCEVerifier st2 t i v w2 = (None, w2a)" "\<forall>x\<ge>t. \<forall>j. session2 x w2a j = session2 x w2 j \<and>
          (j \<noteq> i \<longrightarrow> verifier2 x w2a j = verifier2 x w2 j) \<and> (x < t + PKCEVerifierTTL \<longrightarrow> verifier2 x w2a i = Some v) \<and>
          (t + PKCEVerifierTTL < x \<longrightarrow> verifier2 x w2a i = None)" using b.save_verifier [OF ne, of t w2] by blast
      have "verifier1 x w1a i = verifier2 x w2a i" if "t \<le> x" "x \<noteq> t + PKCEVerifierTTL" for x
        using 1(2) 2(2) that by (cases "x < t + PKCEVerifierTTL") auto
      with 1(2) 2(2) show thesis by (intro that [OF 1(1) 2(1)]) simp_all
    qed
    have "agree t (timeouts t op ends) w1a w2a"
      unfolding agree_def
    proof (intro allI impI conjI)
      fix x j
      assume x: "t \<le> x"
      with assms(2) have now: "now \<le> x" by simp
      show "session1 x w1a j = session2 x w2a j" using v(1) [OF x] assms(1) now by (simp add: agree_def)
      assume "x \<notin> set (timeouts t op ends)"
      then have "x \<notin> set ends" "x \<noteq> t + PKCEVerifierTTL" by (simp_all add: timeouts_def OpSaveVerifier)
      with v(2,3) [OF x] assms(1) now show "verifier1 x w1a j = verifier2 x w2a j"
        by (cases "j = i") (simp_all add: agree_def)
    qed
    with OpSaveVerifier assms(5,6) \<open>st_SavePKCEVerifier st1 t i v w1 = (None, w1a)\<close> \<open>st_SavePKCEVerifier st2 t i v w2 = (None, w2a)\<close>
    show ?thesis by simp
  qed
next
  case (OpTakeVerifier i)
  have "verifier1 t w1 i = verifier2 t w2 i" using assms(1-3) by (simp add: agree_def)
  with a.take_verifier [of t i w1] b.take_verifier [of t i w2] OpTakeVerifier assms show ?thesis
    by (auto simp: agree_def timeouts_def)
next
  case (OpValid i)
  with a.load [of t i w1] b.load [of t i w2] assms show ?thesis by (auto simp: agree_def timeouts_def)
qed

lemma performAll_agree: "agree now ends w1 w2 \<Longrightarrow> orderly now ends ops \<Longrightarrow> performAll st1 ops w1 = performAll st2 ops w2"
proof (induction ops arbitrary: now ends w1 w2)
  case (Cons top ops)
  obtain t op where top: "top = (t, op)" by fastforce
  obtain ob1 w1' ob2 w2' where p: "perform st1 t op w1 = (ob1, w1')" "perform st2 t op w2 = (ob2, w2')"
    by (metis surj_pair)
  from Cons.prems top have "now \<le> t" "t \<notin> set ends" "case op of OpSave s \<Rightarrow> lasting t s | _ \<Rightarrow> True"
    "orderly t (timeouts t op ends) ops" by simp_all
  with perform_agree [OF Cons.prems(1) _ _ _ p] have "ob1 = ob2" "agree t (timeouts t op ends) w1' w2'" by simp_all
  with Cons.IH \<open>orderly t (timeouts t op ends) ops\<close> show ?case by (auto simp: top p)
qed simp

end

interpretation memory_redis: two_stores memoryStore memory_session memory_verifier
    "redisStore redisServer redisCodec" redis_session redis_verifier
  by unfold_locales


definition exampleState :: State where
  "exampleState = \<lparr>ss_Token = \<lparr>ti_Subject = ''alice'', ti_Issuer = ''https://idp'', ti_Groups = []\<rparr>, ss_SessionID = ''s1'',
     ss_ClusterID = [], ss_RedirectURL = [], ss_CreatedAt = 5, ss_ExpiresAt = 20\<rparr>"


text \<open>
  The two commands of the Redis store as separate steps of a callback, and the steps of two callbacks
  in some order. Run one after the other, a callback has the result of the operation.
\<close>

datatype callback = Start | Loaded "string result" | Finished "string result"

fun redisStep ::
  "('v, 'w) redis_client \<Rightarrow> 'v redis_codec \<Rightarrow> time \<Rightarrow> string \<Rightarrow> callback \<times> 'w \<Rightarrow> callback \<times> 'w" where
  "redisStep rc cd now i (Start, w) = (Loaded (redis_loadPKCEVerifier rc cd now i w), w)"
| "redisStep rc cd now i (Loaded (Inr v), w) = (Finished (Inr v), snd (rd_Del rc now (getPKCEKey i) w))"
| "redisStep rc cd now i (Loaded (Inl err), w) = (Finished (Inl err), w)"
| "redisStep rc cd now i (Finished r, w) = (Finished r, w)"

fun redisSchedule ::
  "('v, 'w) redis_client \<Rightarrow> 'v redis_codec \<Rightarrow> time \<Rightarrow> string \<Rightarrow> bool list \<Rightarrow> callback \<times> callback \<times> 'w \<Rightarrow>
     callback \<times> callback \<times> 'w" where
  "redisSchedule rc cd now i [] s = s"
| "redisSchedule rc cd now i (first # sched) (x, y, w) =
     redisSchedule rc cd now i sched
       (if first then (case redisStep rc cd now i (x, w) of (x', w') \<Rightarrow> (x', y, w'))
        else (case redisStep rc cd now i (y, w) of (y', w') \<Rightarrow> (x, y', w')))"

lemma redisStep_atomic:
  "redisStep rc cd now i (redisStep rc cd now i (Start, w)) =
     (case redis_LoadAndDeletePKCEVerifier rc cd now i w of (r, w') \<Rightarrow> (Finished r, w'))"
  by (cases "redis_loadPKCEVerifier rc cd now i w") (simp_all add: redis_LoadAndDeletePKCEVerifier_def)

text \<open>
  The commands do not exclude each other: when two callbacks of one login read the verifier before
  either deletes it, both get it, while the store in memory gives it to one of them.
\<close>

lemma redis_verifier_taken_twice:
  assumes "redis_loadPKCEVerifier rc cd now i w = Inr v"
  shows "\<exists>w'. redisSchedule rc cd now i [True, False, True, False] (Start, Start, w) =
    (Finished (Inr v), Finished (Inr v), w')"
  using assms by simp

text \<open>An error of the deletion is dropped, and the verifier stays.\<close>

lemma redis_verifier_stays:
  assumes "redis_loadPKCEVerifier rc cd now i w = Inr v" "rd_Del rc now (getPKCEKey i) w = (Some err, w)"
  shows "redis_LoadAndDeletePKCEVerifier rc cd now i w = (Inr v, w)"
  using assms by (simp add: redis_LoadAndDeletePKCEVerifier_def)

end
