(* ===== verification/Backend_Manager.thy ===== *)
theory Backend_Manager
  imports Backend_Rbac Binding_Bundle
begin

text \<open>
  The kubernetes manager of the backend (\<open>src/backend/kubernetes\<close>): what happens in the provider
  cluster when a consumer binds. Each consumer has an identity and gets a namespace, a cluster binding,
  a service account with its role and a kubeconfig; the manager also creates export requests and
  waits for them, and deploys the konnector into a consumer cluster. The clients, the hash of
  an identity, the encoding of a kubeconfig and the name resolution are parameters. The lemmas show
  which consumer a namespace is given to, and when the waiting loops return.
\<close>

section \<open>Polling and retrying\<close>

text \<open>
  \<open>wait.PollUntilContextTimeout\<close>: the condition may change the state it closes over; a tick
  waits for the interval and fails when the timeout has passed. With \<open>immediate\<close> the condition
  is tried before the first tick.
\<close>

partial_function (option) pollUntil ::
  "('a \<Rightarrow> bool result \<times> 'a) \<Rightarrow> ('a \<Rightarrow> error option \<times> 'a) \<Rightarrow> 'a \<Rightarrow> (error option \<times> 'a) option" where
  "pollUntil cond tick s =
     (case cond s of (res, s1) \<Rightarrow>
        (case res of
           Inl err \<Rightarrow> Some (Some err, s1)
         | Inr ready \<Rightarrow>
             if ready then Some (None, s1)
             else (case tick s1 of (timeout, s2) \<Rightarrow>
                 (case timeout of Some err \<Rightarrow> Some (Some err, s2) | None \<Rightarrow> pollUntil cond tick s2))))"

declare pollUntil.simps [code]

definition pollAfterTick ::
  "('a \<Rightarrow> bool result \<times> 'a) \<Rightarrow> ('a \<Rightarrow> error option \<times> 'a) \<Rightarrow> 'a \<Rightarrow> (error option \<times> 'a) option" where
  "pollAfterTick cond tick s =
     (case tick s of (timeout, s1) \<Rightarrow>
        (case timeout of Some err \<Rightarrow> Some (Some err, s1) | None \<Rightarrow> pollUntil cond tick s1))"

text \<open>\<open>retry.RetryOnConflict\<close> with \<open>retry.DefaultRetry\<close>, which has five steps.\<close>

fun retryOnConflict :: "nat \<Rightarrow> ('w \<Rightarrow> 'a result \<times> 'w) \<Rightarrow> 'w \<Rightarrow> 'a result \<times> 'w" where
  "retryOnConflict 0 fn w = fn w"
| "retryOnConflict (Suc n) fn w =
     (case fn w of
        (Inr x, w1) \<Rightarrow> (Inr x, w1)
      | (Inl err, w1) \<Rightarrow> if hasReason ReasonConflict err then retryOnConflict n fn w1 else (Inl err, w1))"

definition DefaultRetrySteps :: nat where
  "DefaultRetrySteps = 5"

section \<open>The client of a provider cluster\<close>

record 'w cluster_client =
  cl_namespaces :: "(Namespace, 'w) access"
  cl_patchNamespace :: "'w \<Rightarrow> Namespace \<Rightarrow> Namespace \<Rightarrow> error option \<times> 'w"
  cl_namespacesByIdentity :: "'w \<Rightarrow> string \<Rightarrow> Namespace list result"
  cl_clusterBindings :: "(ClusterBinding, 'w) access"
  cl_serviceAccounts :: "(ObjectMeta, 'w) access"
  cl_clusterRoles :: "(ClusterRole, 'w) access"
  cl_roleBindings :: "(RoleBinding, 'w) access"
  cl_secrets :: "(Secret, 'w) access"
  cl_listExports :: "'w \<Rightarrow> string \<Rightarrow> APIServiceExport list result"
  cl_tick :: "'w \<Rightarrow> error option \<times> 'w"

section \<open>Namespaces\<close>

definition IdentityAnnotationKey :: string where
  "IdentityAnnotationKey = ''backend.kube-bind.io/identity''"

definition AuthorAnnotationKey :: string where
  "AuthorAnnotationKey = ''backend.kube-bind.io/author''"

definition PrettyNameAnnotationKey :: string where
  "PrettyNameAnnotationKey = ''backend.kube-bind.io/cluster-pretty-name''"

definition legacyIdentityAnnotationKey :: string where
  "legacyIdentityAnnotationKey = ''example-backend.kube-bind.io/identity''"

definition IndexNamespacesByIdentity :: "Namespace \<Rightarrow> string list" where
  "IndexNamespacesByIdentity ns =
     (case Mapping.lookup (m_Annotations (ns_meta ns)) IdentityAnnotationKey of Some ident \<Rightarrow> [ident] | None \<Rightarrow> [])"

definition handleLegacyAnnotations ::
  "'w cluster_client \<Rightarrow> Namespace \<Rightarrow> string \<Rightarrow> 'w \<Rightarrow> error option \<times> Namespace \<times> 'w" where
  "handleLegacyAnnotations c namespace ident w =
     (let annotations = m_Annotations (ns_meta namespace);
          hasCurrent = (Mapping.lookup annotations IdentityAnnotationKey = Some ident)
      in if Mapping.lookup annotations legacyIdentityAnnotationKey = Some ident \<and> \<not> hasCurrent
         then let migrated = namespace\<lparr>ns_meta := (ns_meta namespace)\<lparr>m_Annotations :=
                    Mapping.delete legacyIdentityAnnotationKey (Mapping.update IdentityAnnotationKey ident annotations)\<rparr>\<rparr>
              in (case cl_patchNamespace c w namespace migrated of (err, w1) \<Rightarrow> (err, migrated, w1))
         else (None, namespace, w))"

text \<open>The SHA-224 sum and the base 36 encoding are parameters; \<open>strings.ToLower\<close> on their letters and digits.\<close>

definition lowerChar :: "char \<Rightarrow> char" where
  "lowerChar ch = (if CHR ''A'' \<le> ch \<and> ch \<le> CHR ''Z'' then char_of (of_char ch + 32 :: nat) else ch)"

definition identityHash :: "(string \<Rightarrow> string) \<Rightarrow> (string \<Rightarrow> string) \<Rightarrow> string \<Rightarrow> string" where
  "identityHash sum224 encodeBytes userName = map lowerChar (encodeBytes (take 8 (sum224 userName)))"

definition consumerNamespace :: "(string \<Rightarrow> string) \<Rightarrow> string \<Rightarrow> string \<Rightarrow> string \<Rightarrow> Namespace" where
  "consumerNamespace hash generateNamePrefix ident author =
     \<lparr>ns_meta = emptyMeta\<lparr>m_Name := Sprintf ''%s%s'' [FStr generateNamePrefix, FStr (hash ident)],
        m_Annotations := Mapping.update AuthorAnnotationKey author
          (Mapping.update IdentityAnnotationKey ident Mapping.empty)\<rparr>\<rparr>"

definition CreateNamespace ::
  "'w cluster_client \<Rightarrow> (string \<Rightarrow> string) \<Rightarrow> string \<Rightarrow> string \<Rightarrow> string \<Rightarrow> 'w \<Rightarrow> Namespace result \<times> 'w" where
  "CreateNamespace c hash generateNamePrefix ident author w =
     (let namespace = consumerNamespace hash generateNamePrefix ident author;
          key = keyOfMeta (ns_meta namespace)
      in case ac_create (cl_namespaces c) w namespace of
           (None, w1) \<Rightarrow> (Inr namespace, w1)
         | (Some err, w1) \<Rightarrow>
             if \<not> IsAlreadyExists err then (Inl err, w1)
             else (case ac_get (cl_namespaces c) w1 key of
                 Inl err \<Rightarrow> (Inl err, w1)
               | Inr existing \<Rightarrow>
                   let annotations = m_Annotations (ns_meta existing)
                   in if mget annotations IdentityAnnotationKey \<noteq> ident \<and> mget annotations legacyIdentityAnnotationKey \<noteq> ident
                      then (Inl (StatusError ReasonAlreadyExists (''namespaces '' @ quote (m_Name (ns_meta existing)) @ '' already exists'')), w1)
                      else (case handleLegacyAnnotations c existing ident w1 of
                          (Some err, _, w2) \<Rightarrow> (Inl err, w2)
                        | (None, ns, w2) \<Rightarrow> (Inr ns, w2))))"

section \<open>Cluster bindings, accounts and roles\<close>

definition KubeconfigSecretName :: string where "KubeconfigSecretName = ''kubeconfig''"
definition ClusterBindingName :: string where "ClusterBindingName = ''cluster''"
definition ServiceAccountName :: string where "ServiceAccountName = ''kube-binder''"
definition ServiceAccountTokenType :: string where "ServiceAccountTokenType = ''kubernetes.io/service-account-token''"
definition ServiceAccountTokenAnnotation :: string where
  "ServiceAccountTokenAnnotation = ''kubernetes.io/service-account.name''"

definition updateUnlessEmpty :: "string \<Rightarrow> string \<Rightarrow> smap \<Rightarrow> smap" where
  "updateUnlessEmpty k v m = (if v \<noteq> [] then Mapping.update k v m else m)"

definition newClusterBinding :: "string \<Rightarrow> string \<Rightarrow> string \<Rightarrow> string \<Rightarrow> string \<Rightarrow> string \<Rightarrow> ClusterBinding" where
  "newClusterBinding ns secretName providerPrettyName ident author clusterPrettyName =
     \<lparr>cb_Kind = [], cb_meta = emptyMeta\<lparr>m_Name := ClusterBindingName, m_Namespace := ns,
        m_Annotations := updateUnlessEmpty PrettyNameAnnotationKey clusterPrettyName
          (updateUnlessEmpty AuthorAnnotationKey author
            (updateUnlessEmpty IdentityAnnotationKey ident Mapping.empty))\<rparr>,
      cb_Spec = \<lparr>cbs_KubeconfigSecretRef = \<lparr>lk_Name = secretName, lk_Key = ''kubeconfig''\<rparr>,
        cbs_ProviderPrettyName = providerPrettyName, cbs_ServiceProviderSpec = JNull\<rparr>,
      cb_Status = \<lparr>cbt_LastHeartbeatTime = 0, cbt_HeartbeatInterval = 0, cbt_KonnectorVersion = [],
        cbt_ConsumerSecretRef = None, cbt_Conditions = []\<rparr>\<rparr>"

definition CreateClusterBinding ::
  "'w cluster_client \<Rightarrow> string \<Rightarrow> string \<Rightarrow> string \<Rightarrow> string \<Rightarrow> string \<Rightarrow> string \<Rightarrow> 'w \<Rightarrow> error option \<times> 'w" where
  "CreateClusterBinding c ns secretName providerPrettyName ident author clusterPrettyName w =
     ac_create (cl_clusterBindings c) w (newClusterBinding ns secretName providerPrettyName ident author clusterPrettyName)"

text \<open>Getting an object, or creating it when it is missing.\<close>

definition getElseCreate :: "('o, 'w) access \<Rightarrow> NamespacedName \<Rightarrow> 'o \<Rightarrow> 'w \<Rightarrow> 'o result \<times> 'w" where
  "getElseCreate ac key ob w =
     (case ac_get ac w key of
        Inr existing \<Rightarrow> (Inr existing, w)
      | Inl err \<Rightarrow>
          if IsNotFound err
          then (case ac_create ac w ob of (Some err2, w1) \<Rightarrow> (Inl err2, w1) | (None, w1) \<Rightarrow> (Inr ob, w1))
          else (Inl err, w))"

definition CreateServiceAccount :: "'w cluster_client \<Rightarrow> string \<Rightarrow> string \<Rightarrow> 'w \<Rightarrow> ObjectMeta result \<times> 'w" where
  "CreateServiceAccount c ns name =
     getElseCreate (cl_serviceAccounts c) \<lparr>nn_Namespace = ns, nn_Name = name\<rparr>
       (emptyMeta\<lparr>m_Name := name, m_Namespace := ns\<rparr>)"

definition CreateSASecret :: "'w cluster_client \<Rightarrow> string \<Rightarrow> string \<Rightarrow> 'w \<Rightarrow> Secret result \<times> 'w" where
  "CreateSASecret c ns saName =
     getElseCreate (cl_secrets c) \<lparr>nn_Namespace = ns, nn_Name = saName\<rparr>
       \<lparr>sec_meta = emptyMeta\<lparr>m_Name := saName, m_Namespace := ns,
          m_Annotations := Mapping.update ServiceAccountTokenAnnotation saName Mapping.empty\<rparr>,
        sec_Data = Mapping.empty, sec_Type = ServiceAccountTokenType\<rparr>"

definition rule :: "string \<Rightarrow> string \<Rightarrow> string list \<Rightarrow> PolicyRule" where
  "rule apiGroup resource verbs =
     \<lparr>pr_APIGroups = [apiGroup], pr_Resources = [resource], pr_NonResourceURLs = [], pr_Verbs = verbs\<rparr>"

definition binderRules :: "PolicyRule list" where
  "binderRules =
     [rule ''kube-bind.io'' ''apiserviceexportrequests'' [''create'', ''delete'', ''patch'', ''update'', ''get'', ''list'', ''watch''],
      rule [] ''namespaces'' [''get''],
      rule [] ''secrets'' [''get'', ''watch'', ''list''],
      rule ''kube-bind.io'' ''clusterbindings'' [''get'', ''watch'', ''list''],
      rule ''kube-bind.io'' ''clusterbindings/status'' [''get'', ''patch'', ''update''],
      rule ''kube-bind.io'' ''apiserviceexports'' [''get'', ''watch'', ''list''],
      rule ''kube-bind.io'' ''apiserviceexports/status'' [''get'', ''patch'', ''update''],
      rule ''kube-bind.io'' ''apiservicenamespaces'' [''create'', ''delete'', ''patch'', ''update'', ''get'', ''list'', ''watch''],
      rule ''kube-bind.io'' ''boundschemas'' [''get'', ''list'', ''watch''],
      rule ''kube-bind.io'' ''boundschemas/status'' [''get'', ''list'', ''patch'', ''update'']]"

text \<open>The comparison of rules field by field; rules of the model have no resource names.\<close>

definition policyRuleEqual :: "PolicyRule \<Rightarrow> PolicyRule \<Rightarrow> bool" where
  "policyRuleEqual a b \<longleftrightarrow> pr_APIGroups a = pr_APIGroups b \<and> pr_Resources a = pr_Resources b \<and>
     pr_Verbs a = pr_Verbs b \<and> pr_NonResourceURLs a = pr_NonResourceURLs b"

definition rulesEqual :: "PolicyRule list \<Rightarrow> PolicyRule list \<Rightarrow> bool" where
  "rulesEqual a b \<longleftrightarrow> length a = length b \<and> list_all2 policyRuleEqual a b"

definition binderName :: string where "binderName = ''kube-binder''"

definition EnsureBinderClusterRole :: "'w cluster_client \<Rightarrow> 'w \<Rightarrow> error option \<times> 'w" where
  "EnsureBinderClusterRole c w =
     (case ac_get (cl_clusterRoles c) w \<lparr>nn_Namespace = [], nn_Name = binderName\<rparr> of
        Inl err \<Rightarrow>
          if IsNotFound err
          then ac_create (cl_clusterRoles c) w
                 \<lparr>cr_meta = emptyMeta\<lparr>m_Name := binderName\<rparr>, cr_Rules = binderRules, cr_AggregationRule = None\<rparr>
          else (Some err, w)
      | Inr existing \<Rightarrow>
          if \<not> rulesEqual (cr_Rules existing) binderRules
          then ac_update (cl_clusterRoles c) w (existing\<lparr>cr_Rules := binderRules\<rparr>)
          else (None, w))"

definition EnsureBinderRoleBinding :: "'w cluster_client \<Rightarrow> string \<Rightarrow> string \<Rightarrow> 'w \<Rightarrow> error option \<times> 'w" where
  "EnsureBinderRoleBinding c namespace saName w =
     (let expected = \<lparr>rb_meta = emptyMeta\<lparr>m_Name := binderName, m_Namespace := namespace\<rparr>,
            rb_RoleRef = \<lparr>rf_APIGroup = ''rbac.authorization.k8s.io'', rf_Kind = ''ClusterRole'', rf_Name = binderName\<rparr>,
            rb_Subjects = [\<lparr>sj_Kind = ''ServiceAccount'', sj_Namespace = namespace, sj_Name = saName\<rparr>]\<rparr>
      in case ac_get (cl_roleBindings c) w (keyOfMeta (rb_meta expected)) of
           Inl err \<Rightarrow>
             if \<not> IsNotFound err then (Some err, w)
             else (case ac_create (cl_roleBindings c) w expected of
                 (None, w1) \<Rightarrow> (None, w1)
               | (Some err2, w1) \<Rightarrow> if IsAlreadyExists err2 then (None, w1) else (Some err2, w1))
         | Inr roleBinding \<Rightarrow>
             if rb_Subjects expected \<noteq> rb_Subjects roleBinding
             then ac_update (cl_roleBindings c) w (roleBinding\<lparr>rb_Subjects := rb_Subjects expected\<rparr>)
             else (None, w))"

section \<open>The kubeconfig of a consumer\<close>

record restConfig =
  rc_Host :: string
  rc_CAData :: string
  rc_CAFile :: string

text \<open>What the generated kubeconfig contains; the encoding is \<open>km_Write\<close>.\<close>

record generatedConfig =
  gc_Server :: string
  gc_TLSServerName :: string
  gc_CertificateAuthorityData :: "string option"
  gc_Namespace :: string
  gc_Token :: string

record Manager =
  km_namespacePrefix :: string
  km_providerPrettyName :: string
  km_externalAddressGenerator :: "restConfig \<Rightarrow> string result"
  km_externalCA :: "string option"
  km_externalTLSServerName :: string
  km_embeddedOIDC :: bool
  km_Sum224 :: "string \<Rightarrow> string"
  km_EncodeBytes :: "string \<Rightarrow> string"
  km_ReadFile :: "string \<Rightarrow> string result"
  km_Write :: "generatedConfig \<Rightarrow> string result"

definition NewFixedExternalAddressGenerator :: "string \<Rightarrow> restConfig \<Rightarrow> string result" where
  "NewFixedExternalAddressGenerator address clusterConfig = Inr (if address = [] then rc_Host clusterConfig else address)"

definition certificateAuthority :: "Manager \<Rightarrow> restConfig \<Rightarrow> string option result" where
  "certificateAuthority m clusterConfig =
     (if km_externalCA m \<noteq> None then Inr (km_externalCA m)
      else if rc_CAData clusterConfig \<noteq> [] then Inr (Some (rc_CAData clusterConfig))
      else if rc_CAFile clusterConfig \<noteq> []
      then (case km_ReadFile m (rc_CAFile clusterConfig) of
          Inl err \<Rightarrow> Inl (wrapError (''failed to read CA file at '' @ rc_CAFile clusterConfig) err)
        | Inr ca \<Rightarrow> Inr (Some ca))
      else Inr None)"

definition tokenReady :: "Secret result \<Rightarrow> bool result" where
  "tokenReady r =
     (case r of
        Inl err \<Rightarrow> if \<not> IsNotFound err then Inl err else Inr False
      | Inr s \<Rightarrow> Inr (Mapping.lookup (sec_Data s) ''token'' \<noteq> None \<and> Mapping.lookup (sec_Data s) ''ca.crt'' \<noteq> None))"

text \<open>The loop reads the secret of the service account and remembers it.\<close>

definition awaitToken ::
  "'w cluster_client \<Rightarrow> NamespacedName \<Rightarrow> 'w \<Rightarrow> (error option \<times> 'w) option" where
  "awaitToken c key = pollUntil (\<lambda>w. (tokenReady (ac_get (cl_secrets c) w key), w)) (cl_tick c)"

definition writeKubeconfigSecret ::
  "'w cluster_client \<Rightarrow> string \<Rightarrow> string \<Rightarrow> string \<Rightarrow> 'w \<Rightarrow> Secret result \<times> 'w" where
  "writeKubeconfigSecret c ns name kubeconfig w =
     (let secret = \<lparr>sec_meta = emptyMeta\<lparr>m_Name := name, m_Namespace := ns\<rparr>,
            sec_Data = Mapping.update ''kubeconfig'' kubeconfig Mapping.empty, sec_Type = []\<rparr>
      in case ac_create (cl_secrets c) w secret of
           (None, w1) \<Rightarrow> (Inr secret, w1)
         | (Some err, w1) \<Rightarrow>
             if \<not> IsAlreadyExists err then (Inl err, w1)
             else retryOnConflict (DefaultRetrySteps - 1) (\<lambda>w2.
               case ac_get (cl_secrets c) w2 \<lparr>nn_Namespace = ns, nn_Name = name\<rparr> of
                 Inl err2 \<Rightarrow> (Inl err2, w2)
               | Inr existing \<Rightarrow>
                   let updated = existing\<lparr>sec_Data := sec_Data secret\<rparr>
                   in (case ac_update (cl_secrets c) w2 updated of
                         (Some err2, w3) \<Rightarrow> (Inl err2, w3) | (None, w3) \<Rightarrow> (Inr updated, w3))) w1)"

definition GenerateKubeconfig ::
  "Manager \<Rightarrow> 'w cluster_client \<Rightarrow> restConfig \<Rightarrow> string \<Rightarrow> string \<Rightarrow> string \<Rightarrow> 'w \<Rightarrow> (Secret result \<times> 'w) option" where
  "GenerateKubeconfig m c clusterConfig saSecretName ns kubeconfigSecretName w =
     (let key = \<lparr>nn_Namespace = ns, nn_Name = saSecretName\<rparr>
      in case km_externalAddressGenerator m clusterConfig of
           Inl err \<Rightarrow> Some (Inl (wrapError ''failed to generate external address'' err), w)
         | Inr externalAddress \<Rightarrow>
             (case certificateAuthority m clusterConfig of
                Inl err \<Rightarrow> Some (Inl err, w)
              | Inr externalCA \<Rightarrow>
                  (case awaitToken c key w of
                     None \<Rightarrow> None
                   | Some (Some err, w1) \<Rightarrow> Some (Inl err, w1)
                   | Some (None, w1) \<Rightarrow>
                       let token = (case ac_get (cl_secrets c) w1 key of Inl _ \<Rightarrow> [] | Inr s \<Rightarrow> mget (sec_Data s) ''token'')
                       in (case km_Write m \<lparr>gc_Server = externalAddress, gc_TLSServerName = km_externalTLSServerName m,
                                 gc_CertificateAuthorityData = externalCA, gc_Namespace = ns, gc_Token = token\<rparr> of
                             Inl err \<Rightarrow> Some (Inl (wrapError ''failed to encode kubeconfig'' err), w1)
                           | Inr kubeconfig \<Rightarrow> Some (writeKubeconfigSecret c ns kubeconfigSecretName kubeconfig w1)))))"

section \<open>Binding a consumer\<close>

record HandleResourcesResult =
  hr_Kubeconfig :: string
  hr_Namespace :: string

definition findOrCreateNamespace ::
  "Manager \<Rightarrow> 'w cluster_client \<Rightarrow> string \<Rightarrow> string \<Rightarrow> 'w \<Rightarrow> string result \<times> 'w" where
  "findOrCreateNamespace m c author ident w =
     (case cl_namespacesByIdentity c w ident of
        Inl err \<Rightarrow> (Inl err, w)
      | Inr [] \<Rightarrow>
          (case CreateNamespace c (identityHash (km_Sum224 m) (km_EncodeBytes m)) (km_namespacePrefix m) ident author w of
             (Inl err, w1) \<Rightarrow> (Inl err, w1) | (Inr ns, w1) \<Rightarrow> (Inr (m_Name (ns_meta ns)), w1))
      | Inr [ns] \<Rightarrow> (Inr (m_Name (ns_meta ns)), w)
      | Inr _ \<Rightarrow> (Inl (PlainError (''found multiple namespaces for identity '' @ quote ident)), w))"

definition ensureClusterBinding ::
  "Manager \<Rightarrow> 'w cluster_client \<Rightarrow> string \<Rightarrow> string \<Rightarrow> string \<Rightarrow> string \<Rightarrow> 'w \<Rightarrow> string result \<times> 'w" where
  "ensureClusterBinding m c ns ident author clusterPrettyName w =
     (case ac_get (cl_clusterBindings c) w \<lparr>nn_Namespace = ns, nn_Name = ClusterBindingName\<rparr> of
        Inl err \<Rightarrow>
          if IsNotFound err
          then (case CreateClusterBinding c ns ''kubeconfig'' (km_providerPrettyName m) ident author clusterPrettyName w of
              (Some err2, w1) \<Rightarrow> (Inl err2, w1) | (None, w1) \<Rightarrow> (Inr KubeconfigSecretName, w1))
          else (Inl err, w)
      | Inr cb \<Rightarrow> (Inr (lk_Name (cbs_KubeconfigSecretRef (cb_Spec cb))), w))"

definition ensureAccess :: "'w cluster_client \<Rightarrow> string \<Rightarrow> 'w \<Rightarrow> string result \<times> 'w" where
  "ensureAccess c ns w =
     (case CreateServiceAccount c ns ServiceAccountName w of
        (Inl err, w1) \<Rightarrow> (Inl err, w1)
      | (Inr sa, w1) \<Rightarrow>
          (case EnsureBinderClusterRole c w1 of
             (Some err, w2) \<Rightarrow> (Inl err, w2)
           | (None, w2) \<Rightarrow>
               (case CreateSASecret c ns (m_Name sa) w2 of
                  (Inl err, w3) \<Rightarrow> (Inl err, w3)
                | (Inr saSecret, w3) \<Rightarrow>
                    (case EnsureBinderRoleBinding c ns (m_Name sa) w3 of
                       (Some err, w4) \<Rightarrow> (Inl err, w4)
                     | (None, w4) \<Rightarrow> (Inr (m_Name (sec_meta saSecret)), w4)))))"

definition HandleResources ::
  "Manager \<Rightarrow> (string \<Rightarrow> ('w cluster_client \<times> restConfig) result) \<Rightarrow> string \<Rightarrow> string \<Rightarrow> string \<Rightarrow> string \<Rightarrow> 'w \<Rightarrow>
     (HandleResourcesResult result \<times> 'w) option" where
  "HandleResources m getCluster author ident cluster clusterPrettyName w =
     (case getCluster cluster of
        Inl err \<Rightarrow> Some (Inl err, w)
      | Inr (c, config) \<Rightarrow>
          (case findOrCreateNamespace m c author ident w of
             (Inl err, w1) \<Rightarrow> Some (Inl err, w1)
           | (Inr ns, w1) \<Rightarrow>
               (case ensureClusterBinding m c ns ident author clusterPrettyName w1 of
                  (Inl err, w2) \<Rightarrow> Some (Inl err, w2)
                | (Inr kubeconfigSecretName, w2) \<Rightarrow>
                    (case ensureAccess c ns w2 of
                       (Inl err, w3) \<Rightarrow> Some (Inl err, w3)
                     | (Inr saSecretName, w3) \<Rightarrow>
                         (case GenerateKubeconfig m c config saSecretName ns kubeconfigSecretName w3 of
                            None \<Rightarrow> None
                          | Some (Inl err, w4) \<Rightarrow> Some (Inl err, w4)
                          | Some (Inr kfgSecret, w4) \<Rightarrow>
                              Some (Inr \<lparr>hr_Kubeconfig = mget (sec_Data kfgSecret) ''kubeconfig'', hr_Namespace = ns\<rparr>, w4))))))"

record ConsumerStatus =
  cst_Connected :: bool
  cst_Namespace :: string
  cst_Exports :: "string list"

definition GetConsumerStatus ::
  "(string \<Rightarrow> ('w cluster_client \<times> restConfig) result) \<Rightarrow> string \<Rightarrow> string \<Rightarrow> 'w \<Rightarrow> ConsumerStatus result" where
  "GetConsumerStatus getCluster ident cluster w =
     (case getCluster cluster of
        Inl err \<Rightarrow> Inl err
      | Inr (c, _) \<Rightarrow>
          (case cl_namespacesByIdentity c w ident of
             Inl err \<Rightarrow> Inl err
           | Inr [] \<Rightarrow> Inr \<lparr>cst_Connected = False, cst_Namespace = [], cst_Exports = []\<rparr>
           | Inr (ns # _) \<Rightarrow>
               (case cl_listExports c w (m_Name (ns_meta ns)) of
                  Inl err \<Rightarrow> Inl (wrapError ''failed to list APIServiceExports'' err)
                | Inr exports \<Rightarrow>
                    let names = map (\<lambda>e. m_Name (ex_meta e)) exports
                    in Inr \<lparr>cst_Connected = 0 < length names, cst_Namespace = m_Name (ns_meta ns), cst_Exports = names\<rparr>)))"

text \<open>What neither the condition nor the tick changes, the loop keeps.\<close>

lemma pollUntil_preserves:
  assumes "pollUntil cond tick s = Some r"
    and "\<And>s r s1. cond s = (r, s1) \<Longrightarrow> v s1 = v s" "\<And>s r s1. tick s = (r, s1) \<Longrightarrow> v s1 = v s"
  shows "v (snd r) = v s"
proof -
  let ?keeps = "\<lambda>f. \<forall>s r s1. f s = (r, s1) \<longrightarrow> v s1 = v s"
  have "?keeps cond \<longrightarrow> ?keeps tick \<longrightarrow> v (snd r) = v s"
    by (rule pollUntil.raw_induct [where P = "\<lambda>cond tick s r. ?keeps cond \<longrightarrow> ?keeps tick \<longrightarrow> v (snd r) = v s", OF _ assms(1)],
        intro impI) (force split: prod.splits sum.splits if_splits option.splits)
  with assms(2,3) show ?thesis by blast
qed

section \<open>Whose namespace it is\<close>

abbreviation namespaceName :: "Namespace \<Rightarrow> string" where
  "namespaceName ns \<equiv> m_Name (ns_meta ns)"

abbreviation identityOf :: "Namespace \<Rightarrow> string option" where
  "identityOf ns \<equiv> Mapping.lookup (m_Annotations (ns_meta ns)) IdentityAnnotationKey"

abbreviation legacyIdentityOf :: "Namespace \<Rightarrow> string option" where
  "legacyIdentityOf ns \<equiv> Mapping.lookup (m_Annotations (ns_meta ns)) legacyIdentityAnnotationKey"

text \<open>The names of the namespaces that carry an identity.\<close>

definition namespacesOf :: "Namespace list \<Rightarrow> string \<Rightarrow> string set" where
  "namespacesOf nss i = namespaceName ` {ns \<in> set nss. identityOf ns = Some i}"

text \<open>
  The namespaces of a cluster have distinct names, and a namespace with a legacy annotation has no
  current annotation for another identity.
\<close>

definition consumerNamespacesOk :: "Namespace list \<Rightarrow> bool" where
  "consumerNamespacesOk nss \<longleftrightarrow> distinct (map namespaceName nss) \<and>
     (\<forall>ns\<in>set nss. m_Namespace (ns_meta ns) = [] \<and>
        (legacyIdentityOf ns \<noteq> None \<and> identityOf ns \<noteq> None \<longrightarrow> legacyIdentityOf ns = identityOf ns))"

lemma IndexNamespacesByIdentity_iff: "ident \<in> set (IndexNamespacesByIdentity ns) \<longleftrightarrow> identityOf ns = Some ident"
  by (auto simp: IndexNamespacesByIdentity_def split: option.splits)

lemma mget_nonempty: "ident \<noteq> [] \<Longrightarrow> mget m k = ident \<longleftrightarrow> Mapping.lookup m k = Some ident"
  by (auto simp: mget_def split: option.splits)

lemma annotationKeys_distinct [simp]:
  "IdentityAnnotationKey \<noteq> AuthorAnnotationKey" "legacyIdentityAnnotationKey \<noteq> IdentityAnnotationKey"
  "AuthorAnnotationKey \<noteq> IdentityAnnotationKey" "IdentityAnnotationKey \<noteq> legacyIdentityAnnotationKey"
  "legacyIdentityAnnotationKey \<noteq> AuthorAnnotationKey" "AuthorAnnotationKey \<noteq> legacyIdentityAnnotationKey"
  by (simp_all add: IdentityAnnotationKey_def AuthorAnnotationKey_def legacyIdentityAnnotationKey_def)

lemma consumerNamespace_identity [simp]:
  "identityOf (consumerNamespace h p ident author) = Some ident"
  "legacyIdentityOf (consumerNamespace h p ident author) = None"
  "m_Namespace (ns_meta (consumerNamespace h p ident author)) = []"
  by (simp_all add: consumerNamespace_def emptyMeta_def Mapping.lookup_update')

lemma namespacesOf_functional:
  assumes "consumerNamespacesOk nss" "n \<in> namespacesOf nss i" "n \<in> namespacesOf nss i'"
  shows "i = i'"
  using assms by (auto simp: consumerNamespacesOk_def namespacesOf_def distinct_map dest!: inj_onD)

text \<open>Giving a namespace without an identity one changes nothing for the other identities.\<close>

definition replaceNamespace :: "Namespace \<Rightarrow> Namespace list \<Rightarrow> Namespace list" where
  "replaceNamespace new nss = map (\<lambda>x. if namespaceName x = namespaceName new then new else x) nss"

lemma consumerNamespacesOk_unique:
  "consumerNamespacesOk nss \<Longrightarrow> x \<in> set nss \<Longrightarrow> y \<in> set nss \<Longrightarrow> namespaceName x = namespaceName y \<Longrightarrow> x = y"
  by (auto simp: consumerNamespacesOk_def distinct_map dest: inj_onD)

lemma replaceNamespace_effect:
  assumes ok: "consumerNamespacesOk nss" and ns: "ns \<in> set nss" "identityOf ns = None"
    and new: "namespaceName new = namespaceName ns" "m_Namespace (ns_meta new) = []"
      "identityOf new = Some ident" "legacyIdentityOf new = None"
  shows "consumerNamespacesOk (replaceNamespace new nss)"
    and "namespacesOf (replaceNamespace new nss) i =
      (if i = ident then insert (namespaceName ns) (namespacesOf nss i) else namespacesOf nss i)"
proof -
  have names: "map namespaceName (replaceNamespace new nss) = map namespaceName nss"
    by (simp add: replaceNamespace_def comp_def)
  have elems: "x = new \<or> x \<in> set nss" if "x \<in> set (replaceNamespace new nss)" for x
    using that by (auto simp: replaceNamespace_def split: if_splits)
  show "consumerNamespacesOk (replaceNamespace new nss)"
    unfolding consumerNamespacesOk_def names
  proof (intro conjI ballI)
    show "distinct (map namespaceName nss)" using ok by (simp add: consumerNamespacesOk_def)
  next
    fix x
    assume "x \<in> set (replaceNamespace new nss)"
    then have "x = new \<or> x \<in> set nss" by (rule elems)
    with new ok show "m_Namespace (ns_meta x) = []"
      and "legacyIdentityOf x \<noteq> None \<and> identityOf x \<noteq> None \<longrightarrow> legacyIdentityOf x = identityOf x"
      unfolding consumerNamespacesOk_def by (elim disjE, simp, blast)+
  qed
  have other: "namespaceName x \<noteq> namespaceName ns" if "x \<in> set nss" "identityOf x = Some j" for x j
    using consumerNamespacesOk_unique [OF ok that(1) ns(1)] that(2) ns(2) by auto
  show "namespacesOf (replaceNamespace new nss) i =
      (if i = ident then insert (namespaceName ns) (namespacesOf nss i) else namespacesOf nss i)"
  proof -
    have "set (replaceNamespace new nss) = insert new {x \<in> set nss. namespaceName x \<noteq> namespaceName ns}"
      using ns(1) new(1) by (auto simp: replaceNamespace_def image_iff)
    moreover have "{x \<in> set nss. identityOf x = Some i} =
        {x \<in> {x \<in> set nss. namespaceName x \<noteq> namespaceName ns}. identityOf x = Some i}"
      using other by blast
    ultimately have "{x \<in> set (replaceNamespace new nss). identityOf x = Some i} =
        (if i = ident then insert new {x \<in> set nss. identityOf x = Some i} else {x \<in> set nss. identityOf x = Some i})"
      using new(3) by auto
    then show ?thesis using new(1) by (simp add: namespacesOf_def)
  qed
qed

text \<open>
  What the manager relies on of a cluster: listing by identity gives namespaces that carry the identity
  (a cache may miss some), a creation fails when the name is taken, a patch replaces the
  namespace of that name, failures change nothing, and no other call touches the namespaces.
\<close>

locale consumer_cluster =
  fixes c :: "'w cluster_client" and nss :: "'w \<Rightarrow> Namespace list"
  assumes by_identity: "cl_namespacesByIdentity c w ident = Inr l \<Longrightarrow>
      set l \<subseteq> {ns \<in> set (nss w). ident \<in> set (IndexNamespacesByIdentity ns)}"
    and namespace_get: "ac_get (cl_namespaces c) w k = Inr ns \<Longrightarrow> ns \<in> set (nss w) \<and> keyOfMeta (ns_meta ns) = k"
    and namespace_create: "ac_create (cl_namespaces c) w ns = (None, w') \<Longrightarrow>
      nss w' = nss w @ [ns] \<and> keyOfMeta (ns_meta ns) \<notin> (keyOfMeta \<circ> ns_meta) ` set (nss w)"
    and namespace_create_error: "ac_create (cl_namespaces c) w ns = (Some err, w') \<Longrightarrow> nss w' = nss w"
    and namespace_patch: "cl_patchNamespace c w old new = (None, w') \<Longrightarrow> namespaceName old = namespaceName new \<Longrightarrow>
      nss w' = map (\<lambda>x. if namespaceName x = namespaceName new then new else x) (nss w)"
    and namespace_patch_error: "cl_patchNamespace c w old new = (Some err, w') \<Longrightarrow> nss w' = nss w"
    and bindings_frame: "ac_create (cl_clusterBindings c) w cb = (e, w') \<Longrightarrow> nss w' = nss w"
    and accounts_frame: "ac_create (cl_serviceAccounts c) w sa = (e, w') \<Longrightarrow> nss w' = nss w"
    and roles_create_frame: "ac_create (cl_clusterRoles c) w cr = (e, w') \<Longrightarrow> nss w' = nss w"
    and roles_update_frame: "ac_update (cl_clusterRoles c) w cr = (e, w') \<Longrightarrow> nss w' = nss w"
    and role_bindings_create_frame: "ac_create (cl_roleBindings c) w rb = (e, w') \<Longrightarrow> nss w' = nss w"
    and role_bindings_update_frame: "ac_update (cl_roleBindings c) w rb = (e, w') \<Longrightarrow> nss w' = nss w"
    and secrets_create_frame: "ac_create (cl_secrets c) w s = (e, w') \<Longrightarrow> nss w' = nss w"
    and secrets_update_frame: "ac_update (cl_secrets c) w s = (e, w') \<Longrightarrow> nss w' = nss w"
    and tick_frame: "cl_tick c w = (e, w') \<Longrightarrow> nss w' = nss w"
begin

lemma handleLegacyAnnotations_effect:
  assumes "handleLegacyAnnotations c ns ident w = (e, ns', w1)" "ns \<in> set (nss w)"
    and ok: "consumerNamespacesOk (nss w)" and id: "identityOf ns = Some ident \<or> legacyIdentityOf ns = Some ident"
  shows "consumerNamespacesOk (nss w1)"
    and "i \<noteq> ident \<Longrightarrow> namespacesOf (nss w1) i = namespacesOf (nss w) i"
    and "namespacesOf (nss w1) ident \<subseteq> insert (namespaceName ns) (namespacesOf (nss w) ident)"
    and "namespacesOf (nss w) ident \<subseteq> namespacesOf (nss w1) ident"
    and "e = None \<Longrightarrow> namespaceName ns' = namespaceName ns \<and> namespaceName ns \<in> namespacesOf (nss w1) ident"
proof -
  define migrated where "migrated = ns\<lparr>ns_meta := (ns_meta ns)\<lparr>m_Annotations :=
    Mapping.delete legacyIdentityAnnotationKey (Mapping.update IdentityAnnotationKey ident (m_Annotations (ns_meta ns)))\<rparr>\<rparr>"
  have new: "namespaceName migrated = namespaceName ns" "m_Namespace (ns_meta migrated) = []"
      "identityOf migrated = Some ident" "legacyIdentityOf migrated = None"
    using ok assms(2) by (auto simp: migrated_def consumerNamespacesOk_def lookup_delete lookup_update')
  have in_id: "identityOf ns = Some ident \<Longrightarrow> namespaceName ns \<in> namespacesOf (nss w) ident"
    using assms(2) by (auto simp: namespacesOf_def)
  consider (same) "nss w1 = nss w" "e = None \<Longrightarrow> ns' = ns \<and> identityOf ns = Some ident"
    | (migrated) "identityOf ns = None" "ns' = migrated" "nss w1 = replaceNamespace migrated (nss w)"
  proof (cases "legacyIdentityOf ns = Some ident \<and> identityOf ns \<noteq> Some ident")
    case True
    then have none: "identityOf ns = None"
      using ok assms(2) by (auto simp: consumerNamespacesOk_def)
    from assms(1) True have "cl_patchNamespace c w ns migrated = (e, w1)" "ns' = migrated"
      by (auto simp: handleLegacyAnnotations_def Let_def migrated_def split: prod.splits)
    with none namespace_patch [of w ns migrated w1] namespace_patch_error [of w ns migrated _ w1] new(1) that
    show ?thesis by (cases e) (auto simp: replaceNamespace_def)
  next
    case False
    with assms(1) id that show ?thesis by (auto simp: handleLegacyAnnotations_def Let_def split: if_splits)
  qed
  note cases_rule = this
  show "consumerNamespacesOk (nss w1)"
    using cases_rule replaceNamespace_effect(1) [OF ok assms(2) _ new] ok by metis
  show "i \<noteq> ident \<Longrightarrow> namespacesOf (nss w1) i = namespacesOf (nss w) i"
    using cases_rule replaceNamespace_effect(2) [OF ok assms(2) _ new] by metis
  show "namespacesOf (nss w1) ident \<subseteq> insert (namespaceName ns) (namespacesOf (nss w) ident)"
    "namespacesOf (nss w) ident \<subseteq> namespacesOf (nss w1) ident"
    by (rule cases_rule; use replaceNamespace_effect(2) [OF ok assms(2) _ new] in auto)+
  show "e = None \<Longrightarrow> namespaceName ns' = namespaceName ns \<and> namespaceName ns \<in> namespacesOf (nss w1) ident"
    by (rule cases_rule; use replaceNamespace_effect(2) [OF ok assms(2) _ new] new(1) in_id in auto)
qed

lemma CreateNamespace_effect:
  assumes run: "CreateNamespace c h p ident author w = (res, w1)" and ok: "consumerNamespacesOk (nss w)"
    and id: "ident \<noteq> []"
  shows "consumerNamespacesOk (nss w1)"
    and "i \<noteq> ident \<Longrightarrow> namespacesOf (nss w1) i = namespacesOf (nss w) i"
    and "namespacesOf (nss w) ident \<subseteq> namespacesOf (nss w1) ident"
    and "res = Inr ns \<Longrightarrow> namespaceName ns \<in> namespacesOf (nss w1) ident"
    and "res = Inr ns \<Longrightarrow> namespacesOf (nss w1) ident \<subseteq> insert (namespaceName ns) (namespacesOf (nss w) ident)"
proof -
  let ?ns = "consumerNamespace h p ident author"
  consider (created) "nss w1 = nss w @ [?ns]" "namespaceName ?ns \<notin> namespaceName ` set (nss w)" "res = Inr ?ns"
    | (failed) e where "nss w1 = nss w" "res = Inl e"
    | (legacy) e ns0 ns1 w0 where "nss w0 = nss w" "ns0 \<in> set (nss w0)"
        "identityOf ns0 = Some ident \<or> legacyIdentityOf ns0 = Some ident"
        "handleLegacyAnnotations c ns0 ident w0 = (e, ns1, w1)" "res = (case e of None \<Rightarrow> Inr ns1 | Some err \<Rightarrow> Inl err)"
  proof -
    obtain e w0 where cr: "ac_create (cl_namespaces c) w ?ns = (e, w0)" by fastforce
    have key: "keyOfMeta (ns_meta x) = keyOfMeta (ns_meta ?ns)"
      if "x \<in> set (nss w)" "namespaceName x = namespaceName ?ns" for x
      using ok that by (auto simp: consumerNamespacesOk_def keyOfMeta_def)
    show ?thesis
    proof (cases e)
      case None
      with cr namespace_create [of w ?ns w0] have new: "nss w0 = nss w @ [?ns]"
        "keyOfMeta (ns_meta ?ns) \<notin> (keyOfMeta \<circ> ns_meta) ` set (nss w)" by simp_all
      have "namespaceName ?ns \<notin> namespaceName ` set (nss w)"
      proof
        assume "namespaceName ?ns \<in> namespaceName ` set (nss w)"
        then obtain x where "x \<in> set (nss w)" "namespaceName x = namespaceName ?ns" by (metis imageE)
        with key [OF this] new(2) show False by (metis comp_apply imageI)
      qed
      with None cr new(1) run show ?thesis by (intro created) (auto simp: CreateNamespace_def)
    next
      case (Some err)
      with cr namespace_create_error [of w ?ns err w0] have same: "nss w0 = nss w" by simp
      show ?thesis
      proof (cases "IsAlreadyExists err")
        case False
        with run cr Some same show ?thesis by (intro failed) (auto simp: CreateNamespace_def)
      next
        case True
        show ?thesis
        proof (cases "ac_get (cl_namespaces c) w0 (keyOfMeta (ns_meta ?ns))")
          case (Inl err2)
          with run cr Some True same show ?thesis by (intro failed [of err2]) (simp_all add: CreateNamespace_def)
        next
          case (Inr ns0)
          then have "ns0 \<in> set (nss w0)" using namespace_get by blast
          with run cr Some True same Inr id failed legacy show ?thesis
            by (auto simp: CreateNamespace_def Let_def mget_nonempty split: if_splits prod.splits option.splits)
        qed
      qed
    qed
  qed
  note cases_rule = this
  have created_of: "namespacesOf (nss w @ [?ns]) j = (if j = ident then insert (namespaceName ?ns) (namespacesOf (nss w) j)
      else namespacesOf (nss w) j)" for j
    by (auto simp: namespacesOf_def image_iff)
  show "consumerNamespacesOk (nss w1)"
  proof (rule cases_rule)
    assume "nss w1 = nss w @ [?ns]" "namespaceName ?ns \<notin> namespaceName ` set (nss w)"
    with ok show ?thesis by (simp add: consumerNamespacesOk_def)
  qed (use ok handleLegacyAnnotations_effect(1) in metis)+
  show "i \<noteq> ident \<Longrightarrow> namespacesOf (nss w1) i = namespacesOf (nss w) i"
    by (rule cases_rule; use ok created_of handleLegacyAnnotations_effect(2) in metis)
  show "namespacesOf (nss w) ident \<subseteq> namespacesOf (nss w1) ident"
    by (rule cases_rule; use ok created_of handleLegacyAnnotations_effect(4) in \<open>metis subset_insertI order_refl\<close>)
  show "res = Inr ns \<Longrightarrow> namespaceName ns \<in> namespacesOf (nss w1) ident"
    by (rule cases_rule; use ok created_of handleLegacyAnnotations_effect(5) in \<open>fastforce split: option.splits\<close>)
  show "res = Inr ns \<Longrightarrow> namespacesOf (nss w1) ident \<subseteq> insert (namespaceName ns) (namespacesOf (nss w) ident)"
    by (rule cases_rule; use ok created_of handleLegacyAnnotations_effect(3,5) in \<open>fastforce split: option.splits\<close>)
qed

lemma findOrCreateNamespace_effect:
  assumes run: "findOrCreateNamespace m c author ident w = (res, w1)" and ok: "consumerNamespacesOk (nss w)"
    and id: "ident \<noteq> []"
  shows "consumerNamespacesOk (nss w1)"
    and "i \<noteq> ident \<Longrightarrow> namespacesOf (nss w1) i = namespacesOf (nss w) i"
    and "namespacesOf (nss w) ident \<subseteq> namespacesOf (nss w1) ident"
    and "res = Inr n \<Longrightarrow> n \<in> namespacesOf (nss w1) ident"
proof -
  consider (created) res0 where "CreateNamespace c (identityHash (km_Sum224 m) (km_EncodeBytes m)) (km_namespacePrefix m) ident author w = (res0, w1)"
      "res = Inr n \<Longrightarrow> \<exists>ns. res0 = Inr ns \<and> n = namespaceName ns"
    | (found) "w1 = w" "res = Inr n \<Longrightarrow> n \<in> namespacesOf (nss w1) ident"
  proof (cases "cl_namespacesByIdentity c w ident")
    case (Inl err)
    with run found show ?thesis by (auto simp: findOrCreateNamespace_def)
  next
    case (Inr l)
    note listed = by_identity [OF Inr]
    consider "l = []" | ns where "l = [ns]" | x y zs where "l = x # y # zs" by (metis list.exhaust)
    then show ?thesis
    proof cases
      case 1
      with run Inr created show ?thesis
        by (auto simp: findOrCreateNamespace_def split: prod.splits sum.splits)
    next
      case 2
      with run Inr listed found show ?thesis
        by (auto simp: findOrCreateNamespace_def namespacesOf_def IndexNamespacesByIdentity_iff)
    next
      case 3
      with run Inr found show ?thesis by (auto simp: findOrCreateNamespace_def)
    qed
  qed
  then have "consumerNamespacesOk (nss w1) \<and> (i \<noteq> ident \<longrightarrow> namespacesOf (nss w1) i = namespacesOf (nss w) i) \<and>
      namespacesOf (nss w) ident \<subseteq> namespacesOf (nss w1) ident \<and>
      (res = Inr n \<longrightarrow> n \<in> namespacesOf (nss w1) ident)"
  proof cases
    case created
    note effect = CreateNamespace_effect [OF created(1) ok id]
    from effect(4) created(2) have "res = Inr n \<longrightarrow> n \<in> namespacesOf (nss w1) ident" by blast
    with effect(1-3) show ?thesis by simp
  next
    case found
    with ok show ?thesis by simp
  qed
  then show "consumerNamespacesOk (nss w1)"
    and "i \<noteq> ident \<Longrightarrow> namespacesOf (nss w1) i = namespacesOf (nss w) i"
    and "namespacesOf (nss w) ident \<subseteq> namespacesOf (nss w1) ident"
    and "res = Inr n \<Longrightarrow> n \<in> namespacesOf (nss w1) ident" by simp_all
qed

text \<open>The rest of the work leaves the namespaces alone.\<close>

lemmas access_frames = bindings_frame accounts_frame roles_create_frame roles_update_frame role_bindings_create_frame
  role_bindings_update_frame secrets_create_frame secrets_update_frame tick_frame

lemma getElseCreate_frame:
  assumes "\<And>w ob e w'. ac_create ac w ob = (e, w') \<Longrightarrow> nss w' = nss w"
  shows "getElseCreate ac key ob w = (res, w') \<Longrightarrow> nss w' = nss w"
  by (auto simp: getElseCreate_def dest: assms split: sum.splits if_splits prod.splits option.splits)

lemma ensureClusterBinding_frame:
  "ensureClusterBinding m c ns ident author pretty w = (res, w') \<Longrightarrow> nss w' = nss w"
  by (auto simp: ensureClusterBinding_def CreateClusterBinding_def dest: bindings_frame
      split: sum.splits if_splits prod.splits option.splits)

lemma EnsureBinderClusterRole_frame: "EnsureBinderClusterRole c w = (e, w') \<Longrightarrow> nss w' = nss w"
  by (auto simp: EnsureBinderClusterRole_def dest: access_frames split: sum.splits if_splits)

lemma EnsureBinderRoleBinding_frame: "EnsureBinderRoleBinding c ns sa w = (e, w') \<Longrightarrow> nss w' = nss w"
  by (auto simp: EnsureBinderRoleBinding_def Let_def dest: access_frames
      split: sum.splits if_splits prod.splits option.splits)

lemma CreateServiceAccount_frame: "CreateServiceAccount c ns name w = (res, w') \<Longrightarrow> nss w' = nss w"
  unfolding CreateServiceAccount_def by (rule getElseCreate_frame) (rule accounts_frame)

lemma CreateSASecret_frame: "CreateSASecret c ns name w = (res, w') \<Longrightarrow> nss w' = nss w"
  unfolding CreateSASecret_def by (rule getElseCreate_frame) (rule secrets_create_frame)

lemma ensureAccess_frame: "ensureAccess c ns w = (res, w') \<Longrightarrow> nss w' = nss w"
  by (auto simp: ensureAccess_def split: prod.splits sum.splits option.splits
      dest!: EnsureBinderClusterRole_frame EnsureBinderRoleBinding_frame CreateServiceAccount_frame CreateSASecret_frame)

lemma awaitToken_frame: "awaitToken c key w = Some (e, w') \<Longrightarrow> nss w' = nss w"
  using pollUntil_preserves [of _ "cl_tick c" w "(e, w')" nss] by (auto simp: awaitToken_def dest: tick_frame)

lemma retryOnConflict_frame:
  assumes "\<And>w res w'. fn w = (res, w') \<Longrightarrow> nss w' = nss w"
  shows "retryOnConflict n fn w = (res, w') \<Longrightarrow> nss w' = nss w"
proof (induction n arbitrary: w)
  case 0
  then show ?case by (simp add: assms)
next
  case (Suc n)
  obtain res1 w1 where fn: "fn w = (res1, w1)" by fastforce
  with Suc.prems Suc.IH [of w1] assms [OF fn] show ?case by (auto split: sum.splits if_splits)
qed

lemma writeKubeconfigSecret_frame:
  assumes "writeKubeconfigSecret c ns name kubeconfig w = (res, w')"
  shows "nss w' = nss w"
  using assms unfolding writeKubeconfigSecret_def Let_def
  by (auto split: prod.splits option.splits if_splits sum.splits dest!: secrets_create_frame
      elim!: trans [OF retryOnConflict_frame, rotated] dest: secrets_update_frame)

lemma GenerateKubeconfig_frame:
  "GenerateKubeconfig m c config saSecret ns name w = Some (res, w') \<Longrightarrow> nss w' = nss w"
  by (auto simp: GenerateKubeconfig_def Let_def split: sum.splits option.splits prod.splits
      dest!: awaitToken_frame writeKubeconfigSecret_frame)

lemma HandleResources_namespaces:
  assumes run: "HandleResources m (\<lambda>_. Inr (c, config)) author ident cluster pretty w = Some (res, w')"
  shows "\<exists>res1 w1. findOrCreateNamespace m c author ident w = (res1, w1) \<and> nss w' = nss w1 \<and>
    (\<forall>r. res = Inr r \<longrightarrow> res1 = Inr (hr_Namespace r))"
  using run unfolding HandleResources_def
  by (auto split: prod.splits sum.splits option.splits
      dest!: ensureClusterBinding_frame ensureAccess_frame GenerateKubeconfig_frame)

lemma HandleResources_effect:
  assumes run: "HandleResources m (\<lambda>_. Inr (c, config)) author ident cluster pretty w = Some (res, w')"
    and ok: "consumerNamespacesOk (nss w)" and id: "ident \<noteq> []"
  shows "consumerNamespacesOk (nss w')"
    and "i \<noteq> ident \<Longrightarrow> namespacesOf (nss w') i = namespacesOf (nss w) i"
    and "namespacesOf (nss w) i \<subseteq> namespacesOf (nss w') i"
    and "res = Inr r \<Longrightarrow> hr_Namespace r \<in> namespacesOf (nss w') ident"
proof -
  obtain res1 w1 where f: "findOrCreateNamespace m c author ident w = (res1, w1)" "nss w' = nss w1"
    "\<forall>r. res = Inr r \<longrightarrow> res1 = Inr (hr_Namespace r)" using HandleResources_namespaces [OF run] by blast
  note effect = findOrCreateNamespace_effect [OF f(1) ok id]
  show "consumerNamespacesOk (nss w')" using effect(1) by (simp add: f(2))
  show "i \<noteq> ident \<Longrightarrow> namespacesOf (nss w') i = namespacesOf (nss w) i" using effect(2) by (simp add: f(2))
  show "namespacesOf (nss w) i \<subseteq> namespacesOf (nss w') i"
    using effect(2,3) by (cases "i = ident") (simp_all add: f(2))
  show "res = Inr r \<Longrightarrow> hr_Namespace r \<in> namespacesOf (nss w') ident" using effect(4) f(3) by (simp add: f(2))
qed

end

text \<open>A cluster whose index is up to date.\<close>

locale fresh_cluster = consumer_cluster +
  assumes by_identity_exact: "cl_namespacesByIdentity c w ident = Inr l \<Longrightarrow>
    l = filter (\<lambda>ns. ident \<in> set (IndexNamespacesByIdentity ns)) (nss w)"
begin

lemma findOrCreateNamespace_unique:
  assumes run: "findOrCreateNamespace m c author ident w = (Inr n, w1)" and ok: "consumerNamespacesOk (nss w)"
    and id: "ident \<noteq> []"
  shows "namespacesOf (nss w1) ident = {n}"
proof -
  obtain l where l: "cl_namespacesByIdentity c w ident = Inr l"
    using run by (auto simp: findOrCreateNamespace_def split: sum.splits)
  have of: "namespacesOf (nss w) ident = namespaceName ` set l"
    by (auto simp: by_identity_exact [OF l] namespacesOf_def IndexNamespacesByIdentity_iff)
  consider "l = []" | ns where "l = [ns]" | x y zs where "l = x # y # zs" by (metis list.exhaust)
  then show ?thesis
  proof cases
    case 1
    with run l obtain ns where "CreateNamespace c (identityHash (km_Sum224 m) (km_EncodeBytes m)) (km_namespacePrefix m) ident author w = (Inr ns, w1)"
      "n = namespaceName ns" by (auto simp: findOrCreateNamespace_def split: prod.splits sum.splits)
    with CreateNamespace_effect(4,5) [OF _ ok id] of 1 show ?thesis by fastforce
  qed (use run l of in \<open>auto simp: findOrCreateNamespace_def\<close>)
qed

lemma findOrCreateNamespace_found:
  assumes run: "findOrCreateNamespace m c author ident w = (res, w1)" and "namespacesOf (nss w) ident \<noteq> {}"
  shows "w1 = w"
proof (cases "cl_namespacesByIdentity c w ident")
  case (Inl err)
  with run show ?thesis by (simp add: findOrCreateNamespace_def)
next
  case (Inr l)
  from assms(2) have "l \<noteq> []"
    by (auto simp: by_identity_exact [OF Inr] namespacesOf_def IndexNamespacesByIdentity_iff filter_empty_conv)
  with run Inr show ?thesis by (auto simp: findOrCreateNamespace_def neq_Nil_conv split: list.splits)
qed

lemma HandleResources_unique:
  assumes run: "HandleResources m (\<lambda>_. Inr (c, config)) author ident cluster pretty w = Some (res, w')"
    and ok: "consumerNamespacesOk (nss w)" and id: "ident \<noteq> []"
  shows "namespacesOf (nss w) i \<noteq> {} \<Longrightarrow> namespacesOf (nss w') i = namespacesOf (nss w) i"
    and "res = Inr r \<Longrightarrow> namespacesOf (nss w') ident = {hr_Namespace r}"
proof -
  obtain res1 w1 where f: "findOrCreateNamespace m c author ident w = (res1, w1)" "nss w' = nss w1"
    "\<forall>r. res = Inr r \<longrightarrow> res1 = Inr (hr_Namespace r)" using HandleResources_namespaces [OF run] by blast
  show "namespacesOf (nss w) i \<noteq> {} \<Longrightarrow> namespacesOf (nss w') i = namespacesOf (nss w) i"
    using findOrCreateNamespace_found [OF f(1)] HandleResources_effect(2) [OF run ok id, of i]
    by (cases "i = ident") (simp_all add: f(2))
  show "res = Inr r \<Longrightarrow> namespacesOf (nss w') ident = {hr_Namespace r}"
    using findOrCreateNamespace_unique [OF _ ok id] f by metis
qed

end

section \<open>Binding consumers one after the other\<close>

text \<open>
  The history of a provider cluster: consumers are bound or refused in any order, by a manager of any
  configuration, while other objects than namespaces may change. The log has the identities
  that were served with their namespaces.
\<close>

inductive consumerRun ::
  "'w cluster_client \<Rightarrow> ('w \<Rightarrow> Namespace list) \<Rightarrow> 'w \<Rightarrow> (string \<times> string) list \<Rightarrow> 'w \<Rightarrow> bool"
  for c :: "'w cluster_client" and nss :: "'w \<Rightarrow> Namespace list" and w0 :: 'w where
  start: "consumerRun c nss w0 [] w0"
| served: "consumerRun c nss w0 log w \<Longrightarrow> ident \<noteq> [] \<Longrightarrow>
    HandleResources m (\<lambda>_. Inr (c, config)) author ident cluster pretty w = Some (Inr r, w') \<Longrightarrow>
    consumerRun c nss w0 ((ident, hr_Namespace r) # log) w'"
| refused: "consumerRun c nss w0 log w \<Longrightarrow> ident \<noteq> [] \<Longrightarrow>
    HandleResources m (\<lambda>_. Inr (c, config)) author ident cluster pretty w = Some (Inl err, w') \<Longrightarrow>
    consumerRun c nss w0 log w'"
| other: "consumerRun c nss w0 log w \<Longrightarrow> nss w' = nss w \<Longrightarrow> consumerRun c nss w0 log w'"

context consumer_cluster
begin

lemma consumerRun_invariant:
  assumes "consumerRun c nss w0 log w" "consumerNamespacesOk (nss w0)"
  shows "consumerNamespacesOk (nss w)" and "(i, n) \<in> set log \<Longrightarrow> n \<in> namespacesOf (nss w) i"
proof -
  from assms have "consumerNamespacesOk (nss w) \<and> (\<forall>i n. (i, n) \<in> set log \<longrightarrow> n \<in> namespacesOf (nss w) i)"
  proof (induction rule: consumerRun.induct)
    case (served log w ident m config author cluster pretty r w')
    then have "consumerNamespacesOk (nss w)" by simp
    note effect = HandleResources_effect [OF served(3) this served(2)]
    have "\<forall>i n. (i, n) \<in> set log \<longrightarrow> n \<in> namespacesOf (nss w') i"
      using served.IH [OF served.prems] effect(3) by blast
    with effect(1) effect(4) [OF refl] show ?case by simp
  next
    case (refused log w ident m config author cluster pretty err w')
    then have "consumerNamespacesOk (nss w)" by simp
    from HandleResources_effect(1,3) [OF refused(3) this refused(2)] refused show ?case by blast
  qed simp_all
  then show "consumerNamespacesOk (nss w)" and "(i, n) \<in> set log \<Longrightarrow> n \<in> namespacesOf (nss w) i" by simp_all
qed

lemma consumerRun_separates:
  assumes "consumerRun c nss w0 log w" "consumerNamespacesOk (nss w0)" "(i, n) \<in> set log" "(i', n) \<in> set log"
  shows "i = i'"
  using consumerRun_invariant [OF assms(1,2)] assms(3,4) namespacesOf_functional [of "nss w" n i i'] by blast

end

context fresh_cluster
begin

lemma consumerRun_unique:
  assumes "consumerRun c nss w0 log w" "consumerNamespacesOk (nss w0)" "(i, n) \<in> set log"
  shows "namespacesOf (nss w) i = {n}"
  using assms
proof (induction rule: consumerRun.induct)
  case (served log w ident m config author cluster pretty r w')
  note ok = consumerRun_invariant(1) [OF served(1) served.prems(1)]
  note effect = HandleResources_unique [OF served(3) ok served(2)]
  show ?case
  proof (cases "(i, n) \<in> set log")
    case True
    with served.IH served.prems(1) effect(1) [of i] show ?thesis by simp
  next
    case False
    with served.prems(2) effect(2) show ?thesis by simp
  qed
next
  case (refused log w ident m config author cluster pretty err w')
  note ok = consumerRun_invariant(1) [OF refused(1) refused.prems(1)]
  from HandleResources_unique(1) [OF refused(3) ok refused(2), of i] refused.IH refused.prems show ?case by simp
qed simp_all

end

section \<open>A provider cluster\<close>

text \<open>
  The objects as lists. Each call may fail with an error of \<open>fault\<close>, the index may lack the
  namespaces that are not \<open>seen\<close> yet, and between two polls the other objects may change.
\<close>

record provider_store =
  ps_namespaces :: "Namespace list"
  ps_clusterBindings :: "ClusterBinding list"
  ps_serviceAccounts :: "ObjectMeta list"
  ps_clusterRoles :: "ClusterRole list"
  ps_roleBindings :: "RoleBinding list"
  ps_secrets :: "Secret list"
  ps_exports :: "APIServiceExport list"

definition faultyAccess :: "('w \<Rightarrow> error option) \<Rightarrow> ('o, 'w) access \<Rightarrow> ('o, 'w) access" where
  "faultyAccess fault ac =
     \<lparr>ac_get = (\<lambda>w k. case fault w of Some err \<Rightarrow> Inl err | None \<Rightarrow> ac_get ac w k),
      ac_create = (\<lambda>w ob. case fault w of Some err \<Rightarrow> (Some err, w) | None \<Rightarrow> ac_create ac w ob),
      ac_update = (\<lambda>w ob. case fault w of Some err \<Rightarrow> (Some err, w) | None \<Rightarrow> ac_update ac w ob)\<rparr>"

definition storeClient ::
  "(provider_store \<Rightarrow> error option) \<Rightarrow> (Namespace \<Rightarrow> bool) \<Rightarrow> (provider_store \<Rightarrow> error option \<times> provider_store) \<Rightarrow>
     provider_store cluster_client" where
  "storeClient fault seen tick =
     \<lparr>cl_namespaces = faultyAccess fault (listAccess ns_meta ps_namespaces (\<lambda>f w. w\<lparr>ps_namespaces := f (ps_namespaces w)\<rparr>)),
      cl_patchNamespace = (\<lambda>w old new. case fault w of Some err \<Rightarrow> (Some err, w)
        | None \<Rightarrow> (None, w\<lparr>ps_namespaces := replaceNamespace new (ps_namespaces w)\<rparr>)),
      cl_namespacesByIdentity = (\<lambda>w ident. case fault w of Some err \<Rightarrow> Inl err
        | None \<Rightarrow> Inr (filter (\<lambda>ns. ident \<in> set (IndexNamespacesByIdentity ns)) (filter seen (ps_namespaces w)))),
      cl_clusterBindings = faultyAccess fault (listAccess cb_meta ps_clusterBindings
        (\<lambda>f w. w\<lparr>ps_clusterBindings := f (ps_clusterBindings w)\<rparr>)),
      cl_serviceAccounts = faultyAccess fault (listAccess (\<lambda>m. m) ps_serviceAccounts
        (\<lambda>f w. w\<lparr>ps_serviceAccounts := f (ps_serviceAccounts w)\<rparr>)),
      cl_clusterRoles = faultyAccess fault (listAccess cr_meta ps_clusterRoles
        (\<lambda>f w. w\<lparr>ps_clusterRoles := f (ps_clusterRoles w)\<rparr>)),
      cl_roleBindings = faultyAccess fault (listAccess rb_meta ps_roleBindings
        (\<lambda>f w. w\<lparr>ps_roleBindings := f (ps_roleBindings w)\<rparr>)),
      cl_secrets = faultyAccess fault (listAccess sec_meta ps_secrets (\<lambda>f w. w\<lparr>ps_secrets := f (ps_secrets w)\<rparr>)),
      cl_listExports = (\<lambda>w ns. Inr (filter (\<lambda>e. m_Namespace (ex_meta e) = ns) (ps_exports w))),
      cl_tick = (\<lambda>w. case tick w of (err, w1) \<Rightarrow> (err, w1\<lparr>ps_namespaces := ps_namespaces w\<rparr>))\<rparr>"

lemma listAccess_frame:
  assumes "\<And>f w. v (upd f w) = v w"
  shows "ac_create (faultyAccess fault (listAccess meta sel upd)) w ob = (e, w') \<Longrightarrow> v w' = v w"
    and "ac_update (faultyAccess fault (listAccess meta sel upd)) w ob = (e, w') \<Longrightarrow> v w' = v w"
  using assms by (auto simp: faultyAccess_def listAccess_def split: option.splits sum.splits)

lemma listGet_iff: "listGet meta obs k = Inr ob \<Longrightarrow> ob \<in> set obs \<and> keyOfMeta (meta ob) = k"
  by (auto simp: listGet_def find_Some_iff split: option.splits)

lemma listGet_missing: "listGet meta obs k = Inl e \<Longrightarrow> k \<notin> (keyOfMeta \<circ> meta) ` set obs"
  by (auto simp: listGet_def find_None_iff split: option.splits)

interpretation store: consumer_cluster "storeClient fault seen tick" ps_namespaces for fault seen tick
proof unfold_locales
  fix w ns w'
  assume "ac_create (cl_namespaces (storeClient fault seen tick)) w ns = (None, w')"
  then show "ps_namespaces w' = ps_namespaces w @ [ns] \<and> keyOfMeta (ns_meta ns) \<notin> (keyOfMeta \<circ> ns_meta) ` set (ps_namespaces w)"
    by (auto simp: storeClient_def faultyAccess_def listAccess_def split: option.splits sum.splits dest: listGet_missing)
next
  fix w ns err w'
  assume "ac_create (cl_namespaces (storeClient fault seen tick)) w ns = (Some err, w')"
  then show "ps_namespaces w' = ps_namespaces w"
    by (auto simp: storeClient_def faultyAccess_def listAccess_def split: option.splits sum.splits)
next
  fix w k ns
  assume "ac_get (cl_namespaces (storeClient fault seen tick)) w k = Inr ns"
  then show "ns \<in> set (ps_namespaces w) \<and> keyOfMeta (ns_meta ns) = k"
    by (auto simp: storeClient_def faultyAccess_def listAccess_def split: option.splits dest: listGet_iff)
next
  fix w old new w'
  assume "cl_patchNamespace (storeClient fault seen tick) w old new = (None, w')"
  then show "ps_namespaces w' = map (\<lambda>x. if namespaceName x = namespaceName new then new else x) (ps_namespaces w)"
    by (auto simp: storeClient_def replaceNamespace_def split: option.splits)
qed (auto simp: storeClient_def split: option.splits prod.splits dest!: listAccess_frame(1)[where v = ps_namespaces, rotated] listAccess_frame(2)[where v = ps_namespaces, rotated])

interpretation fresh_store: fresh_cluster "storeClient fault (\<lambda>_. True) tick" ps_namespaces for fault tick
  by unfold_locales (auto simp: storeClient_def split: option.splits)

text \<open>
  C23: consumers do not share namespaces. In every history of a provider cluster, with failing calls, a
  lagging index and migrations of legacy annotations, two consumers served with the same
  namespace have the same identity, even when the hashes of identities collide, and the namespace
  carries the identity; and if the index is up to date, one identity always gets the same namespace.
\<close>

theorem consumer_namespaces:
  assumes "consumerRun (storeClient fault seen tick) ps_namespaces w0 log w"
    and "consumerNamespacesOk (ps_namespaces w0)"
    and "(i, n) \<in> set log" and "(i', n') \<in> set log"
  shows "(n = n' \<longrightarrow> i = i') \<and>
    (\<exists>ns\<in>set (ps_namespaces w). namespaceName ns = n \<and> identityOf ns = Some i) \<and>
    (seen = (\<lambda>_. True) \<longrightarrow> i = i' \<longrightarrow> n = n')"
proof (intro conjI)
  show "n = n' \<longrightarrow> i = i'" using store.consumerRun_separates [OF assms(1,2,3)] assms(4) by blast
  show "\<exists>ns\<in>set (ps_namespaces w). namespaceName ns = n \<and> identityOf ns = Some i"
    using store.consumerRun_invariant(2) [OF assms(1-3)] by (auto simp: namespacesOf_def)
  show "seen = (\<lambda>_. True) \<longrightarrow> i = i' \<longrightarrow> n = n'"
    using fresh_store.consumerRun_unique assms by (metis singleton_inject)
qed

text \<open>
  A cluster with one namespace from the times of the legacy annotation, and a hash that is the same for
  all identities. The token of a service account appears between two polls.
\<close>

definition exampleManager :: Manager where
  "exampleManager = \<lparr>km_namespacePrefix = ''p-'', km_providerPrettyName = ''P'',
     km_externalAddressGenerator = NewFixedExternalAddressGenerator ''h'', km_externalCA = None,
     km_externalTLSServerName = [], km_embeddedOIDC = False, km_Sum224 = (\<lambda>ident. ''X''), km_EncodeBytes = (\<lambda>h. h),
     km_ReadFile = (\<lambda>_. Inl (PlainError [])), km_Write = (\<lambda>g. Inr (gc_Token g))\<rparr>"

definition fillTokens :: "provider_store \<Rightarrow> error option \<times> provider_store" where
  "fillTokens w = (None, w\<lparr>ps_secrets := map (\<lambda>s. if sec_Type s = ServiceAccountTokenType
     then s\<lparr>sec_Data := Mapping.update ''token'' (m_Namespace (sec_meta s)) (Mapping.update ''ca.crt'' ''c'' Mapping.empty)\<rparr> else s)
       (ps_secrets w)\<rparr>)"

definition exampleProvider :: provider_store where
  "exampleProvider = \<lparr>ps_namespaces = [
       \<lparr>ns_meta = emptyMeta\<lparr>m_Name := ''p-x'', m_Annotations := Mapping.update legacyIdentityAnnotationKey ''a'' Mapping.empty\<rparr>\<rparr>,
       \<lparr>ns_meta = emptyMeta\<lparr>m_Name := ''q'', m_Annotations := Mapping.update IdentityAnnotationKey ''b'' Mapping.empty\<rparr>\<rparr>],
     ps_clusterBindings = [], ps_serviceAccounts = [], ps_clusterRoles = [], ps_roleBindings = [], ps_secrets = [], ps_exports = []\<rparr>"

definition exampleClient :: "provider_store cluster_client" where
  "exampleClient = storeClient (\<lambda>_. None) (\<lambda>_. True) fillTokens"

definition bindExample :: "string \<Rightarrow> provider_store \<Rightarrow> (HandleResourcesResult result \<times> provider_store) option" where
  "bindExample ident w = HandleResources exampleManager (\<lambda>_. Inr (exampleClient, \<lparr>rc_Host = [], rc_CAData = [], rc_CAFile = []\<rparr>))
     ident ident [] [] w"

lemma served_caseD: "(case x of Some (Inr r, w) \<Rightarrow> P r w | _ \<Rightarrow> False) \<Longrightarrow> \<exists>r w. x = Some (Inr r, w) \<and> P r w"
  by (auto split: option.splits prod.splits sum.splits)

lemma refused_caseD: "(case x of Some (Inl e, w) \<Rightarrow> P e w | _ \<Rightarrow> False) \<Longrightarrow> \<exists>e w. x = Some (Inl e, w) \<and> P e w"
  by (auto split: option.splits prod.splits sum.splits)

lemma bindExample_run:
  "\<exists>r1 w1 e w2 r3 w3. bindExample ''a'' exampleProvider = Some (Inr r1, w1) \<and> hr_Namespace r1 = ''p-x'' \<and>
     bindExample ''c'' w1 = Some (Inl e, w2) \<and> bindExample ''b'' w2 = Some (Inr r3, w3) \<and> hr_Namespace r3 = ''q''"
proof -
  have "case bindExample ''a'' exampleProvider of Some (Inr r1, w1) \<Rightarrow> hr_Namespace r1 = ''p-x'' \<and>
      (case bindExample ''c'' w1 of Some (Inl e, w2) \<Rightarrow>
         (case bindExample ''b'' w2 of Some (Inr r3, w3) \<Rightarrow> hr_Namespace r3 = ''q'' | _ \<Rightarrow> False) | _ \<Rightarrow> False)
     | _ \<Rightarrow> False"
    by code_simp
  from served_caseD [OF this] obtain r1 w1 where 1: "bindExample ''a'' exampleProvider = Some (Inr r1, w1)"
    "hr_Namespace r1 = ''p-x''" "case bindExample ''c'' w1 of Some (Inl e, w2) \<Rightarrow>
      (case bindExample ''b'' w2 of Some (Inr r3, w3) \<Rightarrow> hr_Namespace r3 = ''q'' | _ \<Rightarrow> False) | _ \<Rightarrow> False" by blast
  from refused_caseD [OF 1(3)] obtain e w2 where 2: "bindExample ''c'' w1 = Some (Inl e, w2)"
    "case bindExample ''b'' w2 of Some (Inr r3, w3) \<Rightarrow> hr_Namespace r3 = ''q'' | _ \<Rightarrow> False" by blast
  from served_caseD [OF 2(2)] 1(1,2) 2(1) show ?thesis by blast
qed

lemma exampleHistory:
  "\<exists>w. consumerRun exampleClient ps_namespaces exampleProvider [(''b'', ''q''), (''a'', ''p-x'')] w"
proof -
  obtain r1 w1 e w2 r3 w3 where "bindExample ''a'' exampleProvider = Some (Inr r1, w1)" "hr_Namespace r1 = ''p-x''"
    "bindExample ''c'' w1 = Some (Inl e, w2)" "bindExample ''b'' w2 = Some (Inr r3, w3)" "hr_Namespace r3 = ''q''"
    using bindExample_run by blast
  then have "consumerRun exampleClient ps_namespaces exampleProvider [(''a'', ''p-x'')] w1"
    "bindExample ''c'' w1 = Some (Inl e, w2)" "bindExample ''b'' w2 = Some (Inr r3, w3)" "hr_Namespace r3 = ''q''"
    using consumerRun.served [OF consumerRun.start] unfolding bindExample_def by (metis not_Cons_self)+
  then show ?thesis
    using consumerRun.served [OF consumerRun.refused] unfolding bindExample_def by (metis not_Cons_self)
qed

theorem consumer_namespaces_witness:
  "\<exists>w. consumerRun exampleClient ps_namespaces exampleProvider [(''b'', ''q''), (''a'', ''p-x'')] w \<and>
     consumerNamespacesOk (ps_namespaces exampleProvider) \<and>
     (\<exists>ns\<in>set (ps_namespaces w). namespaceName ns = ''p-x'' \<and> identityOf ns = Some ''a'')"
proof -
  obtain w where run: "consumerRun exampleClient ps_namespaces exampleProvider [(''b'', ''q''), (''a'', ''p-x'')] w"
    using exampleHistory by blast
  have ok: "consumerNamespacesOk (ps_namespaces exampleProvider)"
    by (simp add: consumerNamespacesOk_def exampleProvider_def emptyMeta_def)
  from consumer_namespaces [OF run [unfolded exampleClient_def] ok, of "''a''" "''p-x''" "''b''" "''q''"] run ok
  show ?thesis by auto
qed

end
