(* ===== verification/Consumer_Apply.thy ===== *)
theory Consumer_Apply
  imports Backend_Manager
begin

text \<open>
  The rest of the kubernetes manager (\<open>src/backend/kubernetes/manager.go\<close>): export requests that are
  created and awaited, the access review of a user, and the deployment of the konnector with a
  binding bundle into a consumer cluster (\<open>resources/konnector.go\<close>). Clients, the kubeconfig
  parser, the resolver and the clock are parameters. The lemmas show that the waiting loops return,
  and what a consumer cluster has after a successful call.
\<close>

section \<open>Waiting ends\<close>

text \<open>
  A loop returns when its ticks run down a clock that neither the condition nor the world winds up:
  \<open>wait.PollUntilContextTimeout\<close> has a deadline, at which the tick fails.
\<close>

definition ticksDown :: "('a \<Rightarrow> nat) \<Rightarrow> ('a \<Rightarrow> error option \<times> 'a) \<Rightarrow> bool" where
  "ticksDown clock tick \<longleftrightarrow> (\<forall>s s'. tick s = (None, s') \<longrightarrow> clock s' < clock s)"

lemma pollUntil_returns:
  assumes "ticksDown clock tick" "\<And>s r s'. cond s = (r, s') \<Longrightarrow> clock s' = clock s"
  shows "\<exists>r. pollUntil cond tick s = Some r"
proof (induction "clock s" arbitrary: s rule: less_induct)
  case less
  obtain res s1 where c: "cond s = (res, s1)" by fastforce
  obtain timeout s2 where t: "tick s1 = (timeout, s2)" by fastforce
  have "clock s2 < clock s" if "timeout = None"
    using that assms(1) t assms(2) [OF c] unfolding ticksDown_def by metis
  with less [of s2] c t show ?case
    by (subst pollUntil.simps) (auto split: sum.splits option.splits)
qed

section \<open>Export requests\<close>

text \<open>A creation gives the stored object, whose name the API server may have generated.\<close>

record 'w request_client =
  rc_create :: "'w \<Rightarrow> APIServiceExportRequest \<Rightarrow> APIServiceExportRequest result \<times> 'w"
  rc_createGenerated :: "'w \<Rightarrow> string \<Rightarrow> APIServiceExportRequest \<Rightarrow> APIServiceExportRequest result \<times> 'w"
  rc_get :: "'w \<Rightarrow> NamespacedName \<Rightarrow> APIServiceExportRequest result"
  rc_tick :: "'w \<Rightarrow> error option \<times> 'w"

definition createRequest ::
  "'w request_client \<Rightarrow> APIServiceExportRequest \<Rightarrow> 'w \<Rightarrow> APIServiceExportRequest result \<times> 'w" where
  "createRequest c exportRequest w =
     (case rc_create c w exportRequest of
        (Inr created, w1) \<Rightarrow> (Inr created, w1)
      | (Inl err, w1) \<Rightarrow>
          if \<not> IsAlreadyExists err then (Inl (wrapError ''failed to create APIServiceExportRequest'' err), w1)
          else (case rc_createGenerated c w1 (m_Name (rq_meta exportRequest) @ ''-'')
                   (exportRequest\<lparr>rq_meta := (rq_meta exportRequest)\<lparr>m_Name := []\<rparr>\<rparr>) of
              (Inl err2, w2) \<Rightarrow> (Inl (wrapError ''failed to create APIServiceExportRequest with generated name'' err2), w2)
            | (Inr created, w2) \<Rightarrow> (Inr created, w2)))"

text \<open>What the closure of the loop keeps: whether the request was seen, and the result.\<close>

record 'w request_wait =
  rw_world :: 'w
  rw_seenOnce :: bool
  rw_result :: "APIServiceExportRequest option"

definition requestReady ::
  "'w request_client \<Rightarrow> NamespacedName \<Rightarrow> 'w request_wait \<Rightarrow> bool result \<times> 'w request_wait" where
  "requestReady c key s =
     (case rc_get c (rw_world s) key of
        Inl err \<Rightarrow>
          if IsNotFound err
          then if rw_seenOnce s
               then (Inl (PlainError (Sprintf ''APIServiceExportRequest %s was deleted'' [FStr (nn_Name key)])), s)
               else (Inr False, s)
          else (Inl err, s)
      | Inr req \<Rightarrow>
          let s1 = s\<lparr>rw_seenOnce := True\<rparr>
          in if rqt_Phase (rq_Status req) = APIServiceExportRequestPhaseSucceeded
             then (Inr True, s1\<lparr>rw_result := Some req\<rparr>)
             else if rqt_Phase (rq_Status req) = APIServiceExportRequestPhaseFailed
             then (Inl (PlainError (Sprintf ''APIServiceExportRequest failed: %s'' [FStr (rqt_TerminalMessage (rq_Status req))])), s1)
             else (Inr False, s1))"

definition requestTick :: "'w request_client \<Rightarrow> 'w request_wait \<Rightarrow> error option \<times> 'w request_wait" where
  "requestTick c s = (case rc_tick c (rw_world s) of (err, w) \<Rightarrow> (err, s\<lparr>rw_world := w\<rparr>))"

text \<open>The loop ends without an error only with a result; the last branch is not reached.\<close>

definition CreateAPIServiceExportRequest ::
  "(string \<Rightarrow> 'w request_client result) \<Rightarrow> string \<Rightarrow> string \<Rightarrow> string \<Rightarrow> APIServiceExportRequestSpec \<Rightarrow> 'w \<Rightarrow>
     (APIServiceExportRequest result \<times> 'w) option" where
  "CreateAPIServiceExportRequest getCluster cluster namespace name spec w =
     (case getCluster cluster of
        Inl err \<Rightarrow> Some (Inl (wrapError ''failed to get cluster client'' err), w)
      | Inr c \<Rightarrow>
          (case createRequest c \<lparr>rq_Kind = [], rq_meta = emptyMeta\<lparr>m_Name := name, m_Namespace := namespace\<rparr>, rq_Spec = spec,
                    rq_Status = \<lparr>rqt_Phase = [], rqt_TerminalMessage = [], rqt_Conditions = []\<rparr>\<rparr> w of
             (Inl err, w1) \<Rightarrow> Some (Inl err, w1)
           | (Inr created, w1) \<Rightarrow>
               (case pollAfterTick (requestReady c \<lparr>nn_Namespace = namespace, nn_Name = m_Name (rq_meta created)\<rparr>)
                       (requestTick c) \<lparr>rw_world = w1, rw_seenOnce = False, rw_result = None\<rparr> of
                  None \<Rightarrow> None
                | Some (Some err, s) \<Rightarrow> Some (Inl (wrapError ''waiting for APIServiceExportRequest'' err), rw_world s)
                | Some (None, s) \<Rightarrow>
                    (case rw_result s of
                       Some req \<Rightarrow> Some (Inr req, rw_world s)
                     | None \<Rightarrow> Some (Inl (PlainError []), rw_world s)))))"

section \<open>The access review\<close>

record SubjectAccessReviewSpec =
  sar_User :: string
  sar_Groups :: "string list"
  sar_Verb :: string
  sar_Group :: string

record SubjectAccessReviewStatus =
  sas_Allowed :: bool
  sas_Reason :: string

definition bindReview :: "bool \<Rightarrow> string \<Rightarrow> string list \<Rightarrow> SubjectAccessReviewSpec" where
  "bindReview embeddedOIDC subject groups =
     \<lparr>sar_User = subject, sar_Groups = (if embeddedOIDC then groups @ [''system:authenticated''] else groups),
      sar_Verb = ''bind'', sar_Group = ''kube-bind.io''\<rparr>"

definition AuthorizeRequest ::
  "bool \<Rightarrow> (string \<Rightarrow> (SubjectAccessReviewSpec \<Rightarrow> SubjectAccessReviewStatus result) result) \<Rightarrow> string \<Rightarrow> string list \<Rightarrow> string \<Rightarrow>
     error option" where
  "AuthorizeRequest embeddedOIDC getReviews subject groups cluster =
     (case getReviews cluster of
        Inl err \<Rightarrow> Some err
      | Inr review \<Rightarrow>
          (case review (bindReview embeddedOIDC subject groups) of
             Inl err \<Rightarrow> Some err
           | Inr status \<Rightarrow>
               if \<not> sas_Allowed status
               then Some (StatusError ReasonForbidden (Sprintf ''bind.kube-bind.io is forbidden: user %q is not authorized to bind resources: %s''
                            [FStr subject, FStr (sas_Reason status)]))
               else None))"

section \<open>The default cluster\<close>

definition DefaultClusterName :: string where
  "DefaultClusterName = ''default''"

definition CreateDefaultCluster :: "(ObjectMeta, 'w) access \<Rightarrow> 'w \<Rightarrow> ObjectMeta result \<times> 'w" where
  "CreateDefaultCluster ac w =
     (let cluster = emptyMeta\<lparr>m_Name := DefaultClusterName\<rparr>
      in case ac_create ac w cluster of
           (Some err, w1) \<Rightarrow> if \<not> IsAlreadyExists err then (Inl err, w1) else (Inr cluster, w1)
         | (None, w1) \<Rightarrow> (Inr cluster, w1))"

definition SeedDefaultCluster :: "(string \<Rightarrow> (ObjectMeta, 'w) access result) \<Rightarrow> 'w \<Rightarrow> error option \<times> 'w" where
  "SeedDefaultCluster getCluster w =
     (case getCluster [] of
        Inl err \<Rightarrow> (Some err, w)
      | Inr ac \<Rightarrow>
          (case CreateDefaultCluster ac w of
             (Inl err, w1) \<Rightarrow> if \<not> IsAlreadyExists err then (Some err, w1) else (None, w1)
           | (Inr _, w1) \<Rightarrow> (None, w1)))"

section \<open>The manifests of the konnector\<close>

definition KonnectorNamespace :: string where "KonnectorNamespace = ''kube-bind''"
definition KonnectorServiceAccountName :: string where "KonnectorServiceAccountName = ''konnector''"
definition KonnectorClusterRoleName :: string where "KonnectorClusterRoleName = ''kube-bind-konnector''"
definition KonnectorDeploymentName :: string where "KonnectorDeploymentName = ''konnector''"
definition KonnectorReplicas :: nat where "KonnectorReplicas = 2"
definition KonnectorHealthzPort :: nat where "KonnectorHealthzPort = 8090"

record HostAlias =
  ha_IP :: string
  ha_Hostnames :: "string list"

text \<open>A container with its environment from fields of the pod, and the path and port of its probe.\<close>

record Container =
  ct_Name :: string
  ct_Image :: string
  ct_Env :: "(string \<times> string) list"
  ct_ReadinessProbe :: "(string \<times> nat) option"

record Deployment =
  dp_meta :: ObjectMeta
  dp_Replicas :: nat
  dp_MatchLabels :: smap
  dp_PodLabels :: smap
  dp_ServiceAccountName :: string
  dp_HostAliases :: "HostAlias list"
  dp_Containers :: "Container list"

record KonnectorManifests =
  km_Namespace :: Namespace
  km_ServiceAccount :: ObjectMeta
  km_ClusterRole :: ClusterRole
  km_ClusterRoleBinding :: ClusterRoleBinding
  km_Deployment :: Deployment

definition konnectorLabels :: smap where
  "konnectorLabels = Mapping.update ''app'' ''konnector'' Mapping.empty"

definition NewKonnectorManifests :: "string \<Rightarrow> HostAlias list \<Rightarrow> KonnectorManifests" where
  "NewKonnectorManifests konnectorImage hostAliases =
     \<lparr>km_Namespace = \<lparr>ns_meta = emptyMeta\<lparr>m_Name := KonnectorNamespace\<rparr>\<rparr>,
      km_ServiceAccount = emptyMeta\<lparr>m_Name := KonnectorServiceAccountName, m_Namespace := KonnectorNamespace\<rparr>,
      km_ClusterRole = \<lparr>cr_meta = emptyMeta\<lparr>m_Name := KonnectorClusterRoleName\<rparr>,
        cr_Rules = [\<lparr>pr_APIGroups = [''*''], pr_Resources = [''*''], pr_NonResourceURLs = [], pr_Verbs = [''*'']\<rparr>],
        cr_AggregationRule = None\<rparr>,
      km_ClusterRoleBinding = \<lparr>crb_meta = emptyMeta\<lparr>m_Name := KonnectorClusterRoleName\<rparr>,
        crb_RoleRef = \<lparr>rf_APIGroup = ''rbac.authorization.k8s.io'', rf_Kind = ''ClusterRole'', rf_Name = KonnectorClusterRoleName\<rparr>,
        crb_Subjects = [\<lparr>sj_Kind = ''ServiceAccount'', sj_Namespace = KonnectorNamespace, sj_Name = KonnectorServiceAccountName\<rparr>]\<rparr>,
      km_Deployment = \<lparr>dp_meta = emptyMeta\<lparr>m_Name := KonnectorDeploymentName, m_Namespace := KonnectorNamespace,
          m_Labels := konnectorLabels\<rparr>,
        dp_Replicas = KonnectorReplicas, dp_MatchLabels = konnectorLabels, dp_PodLabels = konnectorLabels,
        dp_ServiceAccountName = KonnectorServiceAccountName, dp_HostAliases = hostAliases,
        dp_Containers = [\<lparr>ct_Name = ''konnector'', ct_Image = konnectorImage,
          ct_Env = [(''POD_NAME'', ''metadata.name''), (''POD_NAMESPACE'', ''metadata.namespace'')],
          ct_ReadinessProbe = Some (''/healthz'', KonnectorHealthzPort)\<rparr>]\<rparr>\<rparr>"

section \<open>Host aliases\<close>

fun appendAliases :: "string list \<Rightarrow> HostAlias list \<Rightarrow> HostAlias list \<Rightarrow> HostAlias list" where
  "appendAliases seen existing [] = existing"
| "appendAliases seen existing (ha # additional) =
     (if ha_IP ha \<notin> set seen then appendAliases (ha_IP ha # seen) (existing @ [ha]) additional
      else appendAliases seen existing additional)"

definition mergeHostAliases :: "HostAlias list \<Rightarrow> HostAlias list \<Rightarrow> HostAlias list" where
  "mergeHostAliases existing additional = appendAliases (map ha_IP existing) existing additional"

text \<open>
  The parser of kubeconfigs, the host of an URL and the resolver are parameters; \<open>rs_ParseIP\<close> tells
  whether an address is a loopback address, if it is an address at all.
\<close>

record resolver =
  rs_RESTConfigFromKubeConfig :: "string \<Rightarrow> restConfig result"
  rs_Hostname :: "string \<Rightarrow> string result"
  rs_ParseIP :: "string \<Rightarrow> bool option"
  rs_LookupHost :: "string \<Rightarrow> string list result"

definition resolveProviderHostAliases :: "resolver \<Rightarrow> string \<Rightarrow> HostAlias list" where
  "resolveProviderHostAliases rs providerKubeconfigData =
     (case rs_RESTConfigFromKubeConfig rs providerKubeconfigData of
        Inl err \<Rightarrow> []
      | Inr config \<Rightarrow>
          (case rs_Hostname rs (rc_Host config) of
             Inl err \<Rightarrow> []
           | Inr hostname \<Rightarrow>
               if hostname = [] \<or> rs_ParseIP rs hostname \<noteq> None then []
               else (case rs_LookupHost rs hostname of
                   Inl err \<Rightarrow> []
                 | Inr ips \<Rightarrow>
                     (case filter (\<lambda>ip. rs_ParseIP rs ip = Some False) ips of
                        [] \<Rightarrow> []
                      | ip # _ \<Rightarrow> [\<lparr>ha_IP = ip, ha_Hostnames = [hostname]\<rparr>]))))"

section \<open>Deploying into the consumer cluster\<close>

record 'w consumer_client =
  cc_namespaces :: "(Namespace, 'w) access"
  cc_serviceAccounts :: "(ObjectMeta, 'w) access"
  cc_clusterRoles :: "(ClusterRole, 'w) access"
  cc_clusterRoleBindings :: "(ClusterRoleBinding, 'w) access"
  cc_deployments :: "(Deployment, 'w) access"
  cc_secrets :: "(Secret, 'w) access"
  cc_bundles :: "(APIServiceBindingBundle, 'w) access"
  cc_getCRD :: "'w \<Rightarrow> string \<Rightarrow> CustomResourceDefinition result"
  cc_tick :: "'w \<Rightarrow> error option \<times> 'w"

text \<open>A creation for which an existing object is good enough.\<close>

definition createUnlessExists ::
  "('o, 'w) access \<Rightarrow> string \<Rightarrow> 'o \<Rightarrow> 'w \<Rightarrow> error option \<times> 'w" where
  "createUnlessExists ac what ob w =
     (case ac_create ac w ob of
        (Some err, w1) \<Rightarrow> if \<not> IsAlreadyExists err then (Some (wrapError what err), w1) else (None, w1)
      | (None, w1) \<Rightarrow> (None, w1))"

text \<open>The first container of an existing deployment gets the image; without a container Go panics.\<close>

definition ensureKonnector ::
  "'w consumer_client \<Rightarrow> string \<Rightarrow> HostAlias list \<Rightarrow> 'w \<Rightarrow> (bool result \<times> 'w) outcome" where
  "ensureKonnector c konnectorImage hostAliases w =
     (let manifests = NewKonnectorManifests konnectorImage hostAliases
      in case ac_get (cc_deployments c) w \<lparr>nn_Namespace = KonnectorNamespace, nn_Name = KonnectorDeploymentName\<rparr> of
           Inr existing \<Rightarrow>
             (case dp_Containers existing of
                [] \<Rightarrow> Panic ''index out of range [0] with length 0''
              | ct # cts \<Rightarrow>
                  (case ac_update (cc_deployments c) w
                          (existing\<lparr>dp_HostAliases := hostAliases, dp_Containers := ct\<lparr>ct_Image := konnectorImage\<rparr> # cts\<rparr>) of
                     (Some err, w1) \<Rightarrow> Returns (Inl (wrapError ''failed to update konnector deployment'' err), w1)
                   | (None, w1) \<Rightarrow> Returns (Inr False, w1)))
         | Inl err \<Rightarrow>
             if \<not> IsNotFound err then Returns (Inl (wrapError ''failed to check for existing konnector'' err), w)
             else (case createUnlessExists (cc_serviceAccounts c) ''failed to create konnector service account'' (km_ServiceAccount manifests) w of
                 (Some err1, w1) \<Rightarrow> Returns (Inl err1, w1)
               | (None, w1) \<Rightarrow>
                   (case createUnlessExists (cc_clusterRoles c) ''failed to create konnector cluster role'' (km_ClusterRole manifests) w1 of
                      (Some err2, w2) \<Rightarrow> Returns (Inl err2, w2)
                    | (None, w2) \<Rightarrow>
                        (case createUnlessExists (cc_clusterRoleBindings c) ''failed to create konnector cluster role binding''
                                (km_ClusterRoleBinding manifests) w2 of
                           (Some err3, w3) \<Rightarrow> Returns (Inl err3, w3)
                         | (None, w3) \<Rightarrow>
                             (case ac_create (cc_deployments c) w3 (km_Deployment manifests) of
                                (Some err4, w4) \<Rightarrow> Returns (Inl (wrapError ''failed to create konnector deployment'' err4), w4)
                              | (None, w4) \<Rightarrow> Returns (Inr True, w4))))))"

definition crdEstablished :: "CustomResourceDefinition \<Rightarrow> bool" where
  "crdEstablished crd = list_ex (\<lambda>cond. crc_Type cond = ''Established'' \<and> crc_Status cond = ''True'') (cdt_Conditions (crd_Status crd))"

definition waitForCRD :: "'w consumer_client \<Rightarrow> string \<Rightarrow> 'w \<Rightarrow> (error option \<times> 'w) option" where
  "waitForCRD c crdName =
     pollUntil (\<lambda>w. (Inr (case cc_getCRD c w crdName of Inl err \<Rightarrow> False | Inr crd \<Rightarrow> crdEstablished crd), w)) (cc_tick c)"

text \<open>Creating an object, or bringing the existing one up to date.\<close>

definition createOrAdjust ::
  "('o, 'w) access \<Rightarrow> string \<Rightarrow> string \<Rightarrow> NamespacedName \<Rightarrow> ('o \<Rightarrow> 'o) \<Rightarrow> 'o \<Rightarrow> 'w \<Rightarrow> error option \<times> 'w" where
  "createOrAdjust ac kind existingKind key adjust ob w =
     (case ac_create ac w ob of
        (None, w1) \<Rightarrow> (None, w1)
      | (Some err, w1) \<Rightarrow>
          if IsAlreadyExists err
          then (case ac_get ac w1 key of
              Inl err2 \<Rightarrow> (Some (wrapError (''failed to get existing '' @ existingKind) err2), w1)
            | Inr existing \<Rightarrow>
                (case ac_update ac w1 (adjust existing) of
                   (Some err2, w2) \<Rightarrow> (Some (wrapError (''failed to update '' @ existingKind) err2), w2)
                 | (None, w2) \<Rightarrow> (None, w2)))
          else (Some (wrapError (''failed to create '' @ kind) err), w1))"

definition providerSecret :: "string \<Rightarrow> string \<Rightarrow> Secret" where
  "providerSecret name providerKubeconfigData =
     \<lparr>sec_meta = emptyMeta\<lparr>m_Name := Sprintf ''kubeconfig-%s'' [FStr name], m_Namespace := KonnectorNamespace\<rparr>,
      sec_Data = Mapping.update ''kubeconfig'' providerKubeconfigData Mapping.empty, sec_Type = ''Opaque''\<rparr>"

definition providerBundle :: "string \<Rightarrow> APIServiceBindingBundle" where
  "providerBundle name =
     \<lparr>bb_Kind = [], bb_meta = emptyMeta\<lparr>m_Name := name\<rparr>,
      bb_Spec = \<lparr>bbs_KubeconfigSecretRef = \<lparr>ck_Name = Sprintf ''kubeconfig-%s'' [FStr name], ck_Key = ''kubeconfig'',
        ck_Namespace = KonnectorNamespace\<rparr>\<rparr>,
      bb_Status = \<lparr>bbt_Conditions = []\<rparr>\<rparr>"

record ApplyToConsumerResult =
  ar_KonnectorDeployed :: bool
  ar_BundleCreated :: bool
  ar_Message :: string

text \<open>
  Overrides of the request or the defaults of the manager, with what the host of the provider resolves
  to. Parsing the kubeconfig of the consumer and building the client is the parameter \<open>newClient\<close>.
\<close>

definition konnectorAliases :: "resolver \<Rightarrow> HostAlias list \<Rightarrow> string \<Rightarrow> HostAlias list \<Rightarrow> HostAlias list" where
  "konnectorAliases rs konnectorHostAliases providerKubeconfigData overrideHostAliases =
     (let hostAliases = (if overrideHostAliases \<noteq> [] then overrideHostAliases else konnectorHostAliases);
          resolved = resolveProviderHostAliases rs providerKubeconfigData
      in if resolved \<noteq> [] then mergeHostAliases hostAliases resolved else hostAliases)"

definition applyBinding ::
  "'w consumer_client \<Rightarrow> string \<Rightarrow> string \<Rightarrow> bool \<Rightarrow> 'w \<Rightarrow> ApplyToConsumerResult result \<times> 'w" where
  "applyBinding c providerKubeconfigData name konnectorDeployed w =
     (let secret = providerSecret name providerKubeconfigData; newBundle = providerBundle name
      in case createOrAdjust (cc_secrets c) ''kubeconfig secret'' ''kubeconfig secret'' (keyOfMeta (sec_meta secret))
                (\<lambda>existing. existing\<lparr>sec_Data := sec_Data secret\<rparr>) secret w of
           (Some err, w1) \<Rightarrow> (Inl err, w1)
         | (None, w1) \<Rightarrow>
             (case createOrAdjust (cc_bundles c) ''APIServiceBindingBundle'' ''bundle'' (keyOfMeta (bb_meta newBundle))
                     (\<lambda>existing. existing\<lparr>bb_Spec := bb_Spec newBundle\<rparr>) newBundle w1 of
                (Some err, w2) \<Rightarrow> (Inl err, w2)
              | (None, w2) \<Rightarrow> (Inr \<lparr>ar_KonnectorDeployed = konnectorDeployed, ar_BundleCreated = True,
                  ar_Message = ''Konnector and binding bundle applied successfully''\<rparr>, w2)))"

definition ApplyToConsumer ::
  "resolver \<Rightarrow> HostAlias list \<Rightarrow> (string \<Rightarrow> 'w consumer_client result) \<Rightarrow> string \<Rightarrow> string \<Rightarrow> string \<Rightarrow> string \<Rightarrow> HostAlias list \<Rightarrow>
     'w \<Rightarrow> (ApplyToConsumerResult result \<times> 'w) outcome option" where
  "ApplyToConsumer rs konnectorHostAliases newClient consumerKubeconfigData providerKubeconfigData name konnectorImage
       overrideHostAliases w =
     (case newClient consumerKubeconfigData of
        Inl err \<Rightarrow> Some (Returns (Inl err, w))
      | Inr c \<Rightarrow>
          (case createUnlessExists (cc_namespaces c) ''failed to create kube-bind namespace''
                  \<lparr>ns_meta = emptyMeta\<lparr>m_Name := KonnectorNamespace\<rparr>\<rparr> w of
             (Some err, w1) \<Rightarrow> Some (Returns (Inl err, w1))
           | (None, w1) \<Rightarrow>
               (case ensureKonnector c konnectorImage
                       (konnectorAliases rs konnectorHostAliases providerKubeconfigData overrideHostAliases) w1 of
                  Panic p \<Rightarrow> Some (Panic p)
                | Returns (Inl err, w2) \<Rightarrow> Some (Returns (Inl (wrapError ''failed to deploy konnector'' err), w2))
                | Returns (Inr False, w2) \<Rightarrow> Some (Returns (applyBinding c providerKubeconfigData name False w2))
                | Returns (Inr True, w2) \<Rightarrow>
                    (case waitForCRD c ''apiservicebindingbundles.kube-bind.io'' w2 of
                       None \<Rightarrow> None
                     | Some (Some err, w3) \<Rightarrow> Some (Returns (Inl (wrapError ''timed out waiting for konnector CRDs'' err), w3))
                     | Some (None, w3) \<Rightarrow> Some (Returns (applyBinding c providerKubeconfigData name True w3))))))"

section \<open>The calls return\<close>

lemma requestReady_world: "requestReady c key s = (r, s') \<Longrightarrow> rw_world s' = rw_world s"
  by (auto simp: requestReady_def Let_def split: sum.splits if_splits)

lemma pollAfterTick_returns:
  assumes "ticksDown clock tick" "\<And>s r s'. cond s = (r, s') \<Longrightarrow> clock s' = clock s"
  shows "\<exists>r. pollAfterTick cond tick s = Some r"
  using pollUntil_returns [OF assms] by (auto simp: pollAfterTick_def split: prod.splits option.splits)

lemma CreateAPIServiceExportRequest_returns:
  assumes "\<And>cl c. getCluster cl = Inr c \<Longrightarrow> ticksDown clock (rc_tick c)"
  shows "\<exists>r. CreateAPIServiceExportRequest getCluster cluster ns name spec w = Some r"
proof (cases "getCluster cluster")
  case (Inr c)
  have "ticksDown (clock \<circ> rw_world) (requestTick c)"
    using assms [OF Inr] by (auto simp: ticksDown_def requestTick_def split: prod.splits)
  then have "\<exists>r. pollAfterTick (requestReady c key) (requestTick c) s = Some r" for key s
    by (rule pollAfterTick_returns) (simp add: requestReady_world)
  with Inr show ?thesis
    by (auto simp: CreateAPIServiceExportRequest_def split: prod.splits sum.splits option.splits)
      (metis option.discI)
qed (simp add: CreateAPIServiceExportRequest_def)

lemma HandleResources_returns:
  assumes "\<And>cl c config. getCluster cl = Inr (c, config) \<Longrightarrow> ticksDown clock (cl_tick c)"
  shows "\<exists>r. HandleResources m getCluster author ident cluster pretty w = Some r"
proof (cases "getCluster cluster")
  case (Inr cc)
  obtain c config where cc: "cc = (c, config)" by fastforce
  have "\<exists>r. awaitToken c key w = Some r" for key w
    unfolding awaitToken_def by (rule pollUntil_returns [OF assms [OF Inr [unfolded cc]]]) simp
  then have "\<exists>r. GenerateKubeconfig m c config sa ns name w = Some r" for sa ns name w
    by (auto simp: GenerateKubeconfig_def Let_def split: sum.splits option.splits prod.splits) (metis option.discI)+
  with Inr cc show ?thesis
    by (auto simp: HandleResources_def split: sum.splits option.splits prod.splits) (metis option.discI)
qed (simp add: HandleResources_def)

lemma ApplyToConsumer_returns:
  assumes "\<And>k c. newClient k = Inr c \<Longrightarrow> ticksDown clock (cc_tick c)"
  shows "\<exists>r. ApplyToConsumer rs defaults newClient ck pk name img over w = Some r"
proof (cases "newClient ck")
  case (Inr c)
  have "\<exists>r. waitForCRD c crd w = Some r" for crd w
    unfolding waitForCRD_def by (rule pollUntil_returns [OF assms [OF Inr]]) simp
  with Inr show ?thesis
    by (auto simp: ApplyToConsumer_def split: sum.splits option.splits prod.splits outcome.splits bool.splits) (metis option.discI)
qed (simp add: ApplyToConsumer_def)

text \<open>A loop without an error ended because its condition held.\<close>

lemma pollUntil_ready:
  assumes "pollUntil cond tick s = Some (None, s')"
  shows "\<exists>s0. cond s0 = (Inr True, s')"
proof -
  have "fst r = None \<longrightarrow> (\<exists>s0. cond s0 = (Inr True, snd r))" if "pollUntil cond tick s = Some r" for r
    by (rule pollUntil.raw_induct [where P = "\<lambda>cond tick s r. fst r = None \<longrightarrow> (\<exists>s0. cond s0 = (Inr True, snd r))", OF _ that])
      (force split: prod.splits sum.splits if_splits option.splits)
  with assms show ?thesis by force
qed

lemma pollAfterTick_ready: "pollAfterTick cond tick s = Some (None, s') \<Longrightarrow> \<exists>s0. cond s0 = (Inr True, s')"
  by (auto simp: pollAfterTick_def split: prod.splits option.splits dest: pollUntil_ready)

lemma requestReady_True:
  "requestReady c key s = (Inr True, s') \<Longrightarrow> \<exists>req. rw_result s' = Some req \<and> rc_get c (rw_world s') key = Inr req \<and>
     rqt_Phase (rq_Status req) = APIServiceExportRequestPhaseSucceeded"
  by (auto simp: requestReady_def Let_def split: sum.splits if_splits)

lemma CreateAPIServiceExportRequest_succeeded:
  fixes w :: 'w
  assumes "CreateAPIServiceExportRequest getCluster cluster ns name spec w = Some (Inr req, w')"
  shows "rqt_Phase (rq_Status req) = APIServiceExportRequestPhaseSucceeded"
proof -
  obtain c :: "'w request_client" and created :: APIServiceExportRequest and w1 s where "pollAfterTick (requestReady c \<lparr>nn_Namespace = ns, nn_Name = m_Name (rq_meta created)\<rparr>)
      (requestTick c) \<lparr>rw_world = w1, rw_seenOnce = False, rw_result = None\<rparr> = Some (None, s)" "rw_result s = Some req"
    using assms by (auto simp: CreateAPIServiceExportRequest_def split: sum.splits prod.splits option.splits)
  with pollAfterTick_ready requestReady_True show ?thesis by (metis option.inject)
qed


text \<open>A world that is the number of ticks until the deadline, in which nothing is ever found.\<close>

definition countdown :: "nat \<Rightarrow> error option \<times> nat" where
  "countdown w = (if w = 0 then (Some (PlainError ''context deadline exceeded''), 0) else (None, w - 1))"

definition idleAccess :: "('o, nat) access" where
  "idleAccess = \<lparr>ac_get = (\<lambda>w k. Inl (StatusError ReasonNotFound ''not found'')), ac_create = (\<lambda>w ob. (None, w)),
     ac_update = (\<lambda>w ob. (None, w))\<rparr>"

definition idleClient :: "nat cluster_client" where
  "idleClient = \<lparr>cl_namespaces = idleAccess, cl_patchNamespace = (\<lambda>w old new. (None, w)),
     cl_namespacesByIdentity = (\<lambda>w i. Inr []), cl_clusterBindings = idleAccess, cl_serviceAccounts = idleAccess,
     cl_clusterRoles = idleAccess, cl_roleBindings = idleAccess, cl_secrets = idleAccess,
     cl_listExports = (\<lambda>w ns. Inr []), cl_tick = countdown\<rparr>"

definition idleRequests :: "nat request_client" where
  "idleRequests = \<lparr>rc_create = (\<lambda>w ob. (Inr ob, w)), rc_createGenerated = (\<lambda>w p ob. (Inr ob, w)),
     rc_get = (\<lambda>w k. Inl (StatusError ReasonNotFound ''not found'')), rc_tick = countdown\<rparr>"

definition idleConsumer :: "nat consumer_client" where
  "idleConsumer = \<lparr>cc_namespaces = idleAccess, cc_serviceAccounts = idleAccess, cc_clusterRoles = idleAccess,
     cc_clusterRoleBindings = idleAccess, cc_deployments = idleAccess, cc_secrets = idleAccess, cc_bundles = idleAccess,
     cc_getCRD = (\<lambda>w n. Inl (StatusError ReasonNotFound ''not found'')), cc_tick = countdown\<rparr>"

definition offline :: resolver where
  "offline = \<lparr>rs_RESTConfigFromKubeConfig = (\<lambda>k. Inl (PlainError [])), rs_Hostname = Inr, rs_ParseIP = (\<lambda>_. None),
     rs_LookupHost = (\<lambda>_. Inr [])\<rparr>"

lemma ticksDown_countdown: "ticksDown (\<lambda>w. w) countdown"
  by (auto simp: ticksDown_def countdown_def split: if_splits)


section \<open>What the consumer cluster has afterwards\<close>

text \<open>Host aliases: those there were, and then addresses that were not, each once.\<close>

lemma appendAliases_append:
  "\<exists>new. appendAliases seen existing additional = existing @ new \<and> set new \<subseteq> set additional \<and>
     distinct (map ha_IP new) \<and> ha_IP ` set new = ha_IP ` set additional - set seen"
proof (induction additional arbitrary: seen existing)
  case (Cons ha additional)
  show ?case
  proof (cases "ha_IP ha \<in> set seen")
    case True
    with Cons.IH [of seen existing] show ?thesis by auto
  next
    case False
    obtain new where "appendAliases (ha_IP ha # seen) (existing @ [ha]) additional = (existing @ [ha]) @ new"
      "set new \<subseteq> set additional" "distinct (map ha_IP new)"
      "ha_IP ` set new = ha_IP ` set additional - set (ha_IP ha # seen)" using Cons.IH by blast
    with False show ?thesis by (intro exI [of _ "ha # new"]) auto
  qed
qed simp

lemma mergeHostAliases_keeps: "prefix existing (mergeHostAliases existing additional)"
  unfolding mergeHostAliases_def using appendAliases_append by (metis prefix_def)

lemma mergeHostAliases_IPs:
  "ha_IP ` set (mergeHostAliases existing additional) = ha_IP ` set existing \<union> ha_IP ` set additional"
proof -
  obtain new where "appendAliases (map ha_IP existing) existing additional = existing @ new"
    "ha_IP ` set new = ha_IP ` set additional - set (map ha_IP existing)" using appendAliases_append by blast
  then show ?thesis by (auto simp: mergeHostAliases_def)
qed

text \<open>Stores in which a failed call changes nothing.\<close>

locale strict_store = object_store +
  assumes create_failed: "ac_create ac w ob = (Some err, w') \<Longrightarrow> w' = w"
begin

lemma createOrAdjust_post:
  assumes "createOrAdjust ac a b (keyOfMeta (meta ob)) f ob w = (None, w')"
    and "\<And>x. keyOfMeta (meta (f x)) = keyOfMeta (meta x)"
  shows "\<exists>x. ac_get ac w' (keyOfMeta (meta ob)) = Inr x \<and> (x = ob \<or> (\<exists>y. x = f y))"
    and "k \<noteq> keyOfMeta (meta ob) \<Longrightarrow> ac_get ac w' k = ac_get ac w k"
proof -
  consider (new) "ac_create ac w ob = (None, w')"
    | (old) err y where "ac_create ac w ob = (Some err, w)" "ac_get ac w (keyOfMeta (meta ob)) = Inr y"
      "ac_update ac w (f y) = (None, w')"
    using assms(1) create_failed by (fastforce simp: createOrAdjust_def split: prod.splits option.splits if_splits sum.splits)
  then have "(\<exists>x. ac_get ac w' (keyOfMeta (meta ob)) = Inr x \<and> (x = ob \<or> (\<exists>y. x = f y))) \<and>
    (\<forall>k. k \<noteq> keyOfMeta (meta ob) \<longrightarrow> ac_get ac w' k = ac_get ac w k)"
  proof cases
    case new
    from get_create [OF this] show ?thesis by simp
  next
    case old
    from get_key [OF old(2)] assms(2) have "keyOfMeta (meta (f y)) = keyOfMeta (meta ob)" by simp
    with get_update [OF old(3)] show ?thesis by auto
  qed
  then show "\<exists>x. ac_get ac w' (keyOfMeta (meta ob)) = Inr x \<and> (x = ob \<or> (\<exists>y. x = f y))"
    and "k \<noteq> keyOfMeta (meta ob) \<Longrightarrow> ac_get ac w' k = ac_get ac w k" by blast+
qed

end

record consumer_store =
  cs_namespaces :: "Namespace list"
  cs_serviceAccounts :: "ObjectMeta list"
  cs_clusterRoles :: "ClusterRole list"
  cs_clusterRoleBindings :: "ClusterRoleBinding list"
  cs_deployments :: "Deployment list"
  cs_secrets :: "Secret list"
  cs_bundles :: "APIServiceBindingBundle list"
  cs_crds :: "CustomResourceDefinition list"

definition deploymentAccess :: "(Deployment, consumer_store) access" where
  "deploymentAccess = listAccess dp_meta cs_deployments (\<lambda>f w. w\<lparr>cs_deployments := f (cs_deployments w)\<rparr>)"

definition consumerSecretAccess :: "(Secret, consumer_store) access" where
  "consumerSecretAccess = listAccess sec_meta cs_secrets (\<lambda>f w. w\<lparr>cs_secrets := f (cs_secrets w)\<rparr>)"

definition bundleAccess :: "(APIServiceBindingBundle, consumer_store) access" where
  "bundleAccess = listAccess bb_meta cs_bundles (\<lambda>f w. w\<lparr>cs_bundles := f (cs_bundles w)\<rparr>)"

text \<open>While the loop waits, definitions may appear and change.\<close>

definition consumerStore ::
  "(consumer_store \<Rightarrow> error option \<times> CustomResourceDefinition list) \<Rightarrow> consumer_store consumer_client" where
  "consumerStore tick =
     \<lparr>cc_namespaces = listAccess ns_meta cs_namespaces (\<lambda>f w. w\<lparr>cs_namespaces := f (cs_namespaces w)\<rparr>),
      cc_serviceAccounts = listAccess (\<lambda>m. m) cs_serviceAccounts (\<lambda>f w. w\<lparr>cs_serviceAccounts := f (cs_serviceAccounts w)\<rparr>),
      cc_clusterRoles = listAccess cr_meta cs_clusterRoles (\<lambda>f w. w\<lparr>cs_clusterRoles := f (cs_clusterRoles w)\<rparr>),
      cc_clusterRoleBindings = listAccess crb_meta cs_clusterRoleBindings
        (\<lambda>f w. w\<lparr>cs_clusterRoleBindings := f (cs_clusterRoleBindings w)\<rparr>),
      cc_deployments = deploymentAccess, cc_secrets = consumerSecretAccess, cc_bundles = bundleAccess,
      cc_getCRD = (\<lambda>w n. listGet crd_meta (cs_crds w) \<lparr>nn_Namespace = [], nn_Name = n\<rparr>),
      cc_tick = (\<lambda>w. case tick w of (err, crds) \<Rightarrow> (err, w\<lparr>cs_crds := crds\<rparr>))\<rparr>"

lemma listAccess_strict:
  assumes "\<And>f w. sel (upd f w) = f (sel w)"
  shows "strict_store meta (listAccess meta sel upd)"
  unfolding strict_store_def strict_store_axioms_def
  using listAccess_store [of sel upd meta, OF assms] by (auto simp: listAccess_def split: sum.splits)

interpretation deployments: strict_store dp_meta deploymentAccess
  unfolding deploymentAccess_def by (rule listAccess_strict) simp

interpretation consumer_secrets: strict_store sec_meta consumerSecretAccess
  unfolding consumerSecretAccess_def by (rule listAccess_strict) simp

interpretation bundles: strict_store bb_meta bundleAccess
  unfolding bundleAccess_def by (rule listAccess_strict) simp

lemma access_get [simp]:
  "ac_get deploymentAccess w k = listGet dp_meta (cs_deployments w) k"
  "ac_get consumerSecretAccess w k = listGet sec_meta (cs_secrets w) k"
  "ac_get bundleAccess w k = listGet bb_meta (cs_bundles w) k"
  by (simp_all add: deploymentAccess_def consumerSecretAccess_def bundleAccess_def listAccess_def)

text \<open>Each call changes the objects of its own kind.\<close>

lemma access_frame:
  assumes "\<And>f w. v (upd f w) = v w"
  shows "ac_create (listAccess meta sel upd) w ob = (e, w') \<Longrightarrow> v w' = v w"
    and "ac_update (listAccess meta sel upd) w ob = (e, w') \<Longrightarrow> v w' = v w"
    and "createUnlessExists (listAccess meta sel upd) what ob w = (e, w') \<Longrightarrow> v w' = v w"
    and "createOrAdjust (listAccess meta sel upd) a b key f ob w = (e, w') \<Longrightarrow> v w' = v w"
  using assms
  by (auto simp: listAccess_def createUnlessExists_def createOrAdjust_def split: sum.splits prod.splits option.splits if_splits)

lemmas access_defs = deploymentAccess_def consumerSecretAccess_def bundleAccess_def

lemma secret_key [simp]: "keyOfMeta (sec_meta (providerSecret name pk)) = \<lparr>nn_Namespace = KonnectorNamespace, nn_Name = ''kubeconfig-'' @ name\<rparr>"
  by (simp add: providerSecret_def keyOfMeta_def)

lemma secret_data [simp]: "Mapping.lookup (sec_Data (providerSecret name pk)) ''kubeconfig'' = Some pk"
  by (simp add: providerSecret_def)

lemma bundle_key [simp]: "keyOfMeta (bb_meta (providerBundle name)) = \<lparr>nn_Namespace = [], nn_Name = name\<rparr>"
  by (simp add: providerBundle_def keyOfMeta_def emptyMeta_def)

lemma applyBinding_post:
  assumes "applyBinding (consumerStore tick) pk name d w = (Inr r, w')"
  shows "\<exists>s. listGet sec_meta (cs_secrets w') \<lparr>nn_Namespace = KonnectorNamespace, nn_Name = ''kubeconfig-'' @ name\<rparr> = Inr s \<and>
      Mapping.lookup (sec_Data s) ''kubeconfig'' = Some pk"
    and "\<exists>b. listGet bb_meta (cs_bundles w') \<lparr>nn_Namespace = [], nn_Name = name\<rparr> = Inr b \<and> bb_Spec b = bb_Spec (providerBundle name)"
    and "k \<noteq> \<lparr>nn_Namespace = KonnectorNamespace, nn_Name = ''kubeconfig-'' @ name\<rparr> \<Longrightarrow>
      listGet sec_meta (cs_secrets w') k = listGet sec_meta (cs_secrets w) k"
    and "l \<noteq> \<lparr>nn_Namespace = [], nn_Name = name\<rparr> \<Longrightarrow> listGet bb_meta (cs_bundles w') l = listGet bb_meta (cs_bundles w) l"
    and "ar_KonnectorDeployed r = d" "cs_deployments w' = cs_deployments w" "cs_crds w' = cs_crds w"
proof -
  obtain w1 where 1: "createOrAdjust consumerSecretAccess ''kubeconfig secret'' ''kubeconfig secret'' (keyOfMeta (sec_meta (providerSecret name pk)))
        (\<lambda>existing. existing\<lparr>sec_Data := sec_Data (providerSecret name pk)\<rparr>) (providerSecret name pk) w = (None, w1)"
    and 2: "createOrAdjust bundleAccess ''APIServiceBindingBundle'' ''bundle'' (keyOfMeta (bb_meta (providerBundle name)))
        (\<lambda>existing. existing\<lparr>bb_Spec := bb_Spec (providerBundle name)\<rparr>) (providerBundle name) w1 = (None, w')"
    and r: "ar_KonnectorDeployed r = d"
    using assms by (auto simp: applyBinding_def Let_def consumerStore_def split: prod.splits option.splits)
  have f1: "v w1 = v w" if "\<And>f w. v (w\<lparr>cs_secrets := f (cs_secrets w)\<rparr>) = v w" for v :: "consumer_store \<Rightarrow> 'x"
    by (rule access_frame(4) [OF _ 1 [unfolded consumerSecretAccess_def]]) (rule that)
  have f2: "v w' = v w1" if "\<And>f w. v (w\<lparr>cs_bundles := f (cs_bundles w)\<rparr>) = v w" for v :: "consumer_store \<Rightarrow> 'x"
    by (rule access_frame(4) [OF _ 2 [unfolded bundleAccess_def]]) (rule that)
  have s: "cs_secrets w' = cs_secrets w1" using f2 [of cs_secrets] by simp
  have b: "cs_bundles w1 = cs_bundles w" using f1 [of cs_bundles] by simp
  show "\<exists>s. listGet sec_meta (cs_secrets w') \<lparr>nn_Namespace = KonnectorNamespace, nn_Name = ''kubeconfig-'' @ name\<rparr> = Inr s \<and>
      Mapping.lookup (sec_Data s) ''kubeconfig'' = Some pk"
    using consumer_secrets.createOrAdjust_post(1) [OF 1] by (auto simp: s)
  show "\<exists>b. listGet bb_meta (cs_bundles w') \<lparr>nn_Namespace = [], nn_Name = name\<rparr> = Inr b \<and> bb_Spec b = bb_Spec (providerBundle name)"
    using bundles.createOrAdjust_post(1) [OF 2] by auto
  show "k \<noteq> \<lparr>nn_Namespace = KonnectorNamespace, nn_Name = ''kubeconfig-'' @ name\<rparr> \<Longrightarrow>
      listGet sec_meta (cs_secrets w') k = listGet sec_meta (cs_secrets w) k"
    using consumer_secrets.createOrAdjust_post(2) [OF 1] by (simp add: s)
  show "l \<noteq> \<lparr>nn_Namespace = [], nn_Name = name\<rparr> \<Longrightarrow> listGet bb_meta (cs_bundles w') l = listGet bb_meta (cs_bundles w) l"
    using bundles.createOrAdjust_post(2) [OF 2] by (simp add: b)
  show "ar_KonnectorDeployed r = d" by (rule r)
  show "cs_deployments w' = cs_deployments w" "cs_crds w' = cs_crds w"
    using f1 [of cs_deployments] f2 [of cs_deployments] f1 [of cs_crds] f2 [of cs_crds] by simp_all
qed

abbreviation konnectorKey :: NamespacedName where
  "konnectorKey \<equiv> \<lparr>nn_Namespace = KonnectorNamespace, nn_Name = KonnectorDeploymentName\<rparr>"

text \<open>The konnector runs with an image and host aliases.\<close>

definition konnectorRuns :: "consumer_store \<Rightarrow> string \<Rightarrow> HostAlias list \<Rightarrow> bool" where
  "konnectorRuns w img hostAliases =
     (case listGet dp_meta (cs_deployments w) konnectorKey of
        Inl err \<Rightarrow> False
      | Inr d \<Rightarrow> dp_HostAliases d = hostAliases \<and> (case dp_Containers d of [] \<Rightarrow> False | ct # _ \<Rightarrow> ct_Image ct = img))"

lemma manifest_key [simp]: "keyOfMeta (dp_meta (km_Deployment (NewKonnectorManifests img al))) = konnectorKey"
  by (simp add: NewKonnectorManifests_def keyOfMeta_def)

lemma ensureKonnector_update:
  assumes "listGet dp_meta (cs_deployments w) konnectorKey = Inr existing"
    and "ensureKonnector (consumerStore tick) img al w = Returns (Inr deployed, w')"
  shows "\<not> deployed \<and> konnectorRuns w' img al \<and> cs_secrets w' = cs_secrets w \<and> cs_bundles w' = cs_bundles w"
proof -
  obtain ct cts where ct: "dp_Containers existing = ct # cts" and d: "\<not> deployed"
    and u: "ac_update deploymentAccess w (existing\<lparr>dp_HostAliases := al, dp_Containers := ct\<lparr>ct_Image := img\<rparr> # cts\<rparr>) = (None, w')"
    using assms by (auto simp: ensureKonnector_def consumerStore_def Let_def split: list.splits prod.splits option.splits)
  from listGet_key [OF assms(1)] deployments.get_update [OF u, of konnectorKey] have "konnectorRuns w' img al"
    by (simp add: konnectorRuns_def)
  moreover have "cs_secrets w' = cs_secrets w" "cs_bundles w' = cs_bundles w"
    by (rule access_frame(2) [OF _ u [unfolded deploymentAccess_def]], simp)+
  ultimately show ?thesis using d by simp
qed

lemma ensureKonnector_create:
  assumes "listGet dp_meta (cs_deployments w) konnectorKey = Inl err"
    and "ensureKonnector (consumerStore tick) img al w = Returns (Inr deployed, w')"
  shows "deployed \<and> konnectorRuns w' img al \<and> cs_secrets w' = cs_secrets w \<and> cs_bundles w' = cs_bundles w"
proof -
  let ?m = "NewKonnectorManifests img al" and ?c = "consumerStore tick"
  obtain w1 w2 w3 where d: "deployed"
    and c1: "createUnlessExists (cc_serviceAccounts ?c) ''failed to create konnector service account'' (km_ServiceAccount ?m) w = (None, w1)"
    and c2: "createUnlessExists (cc_clusterRoles ?c) ''failed to create konnector cluster role'' (km_ClusterRole ?m) w1 = (None, w2)"
    and c3: "createUnlessExists (cc_clusterRoleBindings ?c) ''failed to create konnector cluster role binding''
        (km_ClusterRoleBinding ?m) w2 = (None, w3)"
    and c4: "ac_create deploymentAccess w3 (km_Deployment ?m) = (None, w')"
    using assms
    by (auto simp: ensureKonnector_def Let_def split: prod.splits option.splits if_splits sum.splits)
       (auto simp: consumerStore_def split: sum.splits)
  have "v w' = v w" if "\<And>f w. v (w\<lparr>cs_serviceAccounts := f (cs_serviceAccounts w)\<rparr>) = v w"
    "\<And>f w. v (w\<lparr>cs_clusterRoles := f (cs_clusterRoles w)\<rparr>) = v w"
    "\<And>f w. v (w\<lparr>cs_clusterRoleBindings := f (cs_clusterRoleBindings w)\<rparr>) = v w"
    "\<And>f w. v (w\<lparr>cs_deployments := f (cs_deployments w)\<rparr>) = v w" for v :: "consumer_store \<Rightarrow> 'x"
  proof -
    have "v w1 = v w" by (rule access_frame(3) [OF _ c1 [unfolded consumerStore_def, simplified]]) (rule that(1))
    moreover have "v w2 = v w1" by (rule access_frame(3) [OF _ c2 [unfolded consumerStore_def, simplified]]) (rule that(2))
    moreover have "v w3 = v w2" by (rule access_frame(3) [OF _ c3 [unfolded consumerStore_def, simplified]]) (rule that(3))
    moreover have "v w' = v w3" by (rule access_frame(1) [OF _ c4 [unfolded deploymentAccess_def]]) (rule that(4))
    ultimately show ?thesis by simp
  qed
  from this [of cs_secrets] this [of cs_bundles] have "cs_secrets w' = cs_secrets w" "cs_bundles w' = cs_bundles w"
    by simp_all
  moreover have "konnectorRuns w' img al"
    using deployments.get_create [OF c4, of konnectorKey] by (simp add: konnectorRuns_def) (simp add: NewKonnectorManifests_def)
  ultimately show ?thesis using d by simp
qed

lemma waitForCRD_frame:
  assumes "waitForCRD (consumerStore tick) crd w = Some (e, w')"
  shows "cs_deployments w' = cs_deployments w \<and> cs_secrets w' = cs_secrets w \<and> cs_bundles w' = cs_bundles w"
proof -
  have "v w' = v w" if "\<And>f w. v (w\<lparr>cs_crds := f\<rparr>) = v w" for v :: "consumer_store \<Rightarrow> 'x"
  proof -
    have "v s1 = v s" if "cc_tick (consumerStore tick) s = (r, s1)" for s r s1
      using that \<open>\<And>f w. v (w\<lparr>cs_crds := f\<rparr>) = v w\<close> by (auto simp: consumerStore_def split: prod.splits)
    with pollUntil_preserves [OF assms [unfolded waitForCRD_def], of v] show ?thesis by simp
  qed
  from this [of cs_deployments] this [of cs_secrets] this [of cs_bundles] show ?thesis by simp
qed

lemma waitForCRD_established:
  assumes "waitForCRD (consumerStore tick) crd w = Some (None, w')"
  shows "\<exists>d. listGet crd_meta (cs_crds w') \<lparr>nn_Namespace = [], nn_Name = crd\<rparr> = Inr d \<and> crdEstablished d"
  using pollUntil_ready [OF assms [unfolded waitForCRD_def]] by (auto simp: consumerStore_def split: sum.splits)

lemma createNamespace_frame:
  assumes "createUnlessExists (cc_namespaces (consumerStore tick)) what ns w = (e, w')"
  shows "cs_deployments w' = cs_deployments w" "cs_secrets w' = cs_secrets w" "cs_bundles w' = cs_bundles w"
  by (rule access_frame(3) [OF _ assms [unfolded consumerStore_def, simplified]], simp)+


text \<open>An empty consumer cluster, in which the konnector establishes its definition within one tick.\<close>

definition bundleCRD :: CustomResourceDefinition where
  "bundleCRD = (let names = \<lparr>crn_Plural = [], crn_Singular = [], crn_ShortNames = [], crn_Kind = [], crn_ListKind = [], crn_Categories = []\<rparr> in
     \<lparr>crd_meta = emptyMeta\<lparr>m_Name := ''apiservicebindingbundles.kube-bind.io''\<rparr>,
      crd_Spec = \<lparr>cd_Group = ''kube-bind.io'', cd_Names = names, cd_Scope = ClusterScoped, cd_Versions = [], cd_Conversion = None\<rparr>,
      crd_Status = \<lparr>cdt_Conditions = [\<lparr>crc_Type = ''Established'', crc_Status = ''True'', crc_LastTransitionTime = 0,
        crc_Reason = [], crc_Message = []\<rparr>], cdt_AcceptedNames = names, cdt_StoredVersions = []\<rparr>\<rparr>)"

definition emptyConsumer :: consumer_store where
  "emptyConsumer = \<lparr>cs_namespaces = [], cs_serviceAccounts = [], cs_clusterRoles = [], cs_clusterRoleBindings = [],
     cs_deployments = [], cs_secrets = [], cs_bundles = [], cs_crds = []\<rparr>"

definition exampleApply :: "(ApplyToConsumerResult result \<times> consumer_store) outcome option" where
  "exampleApply = ApplyToConsumer offline [] (\<lambda>_. Inr (consumerStore (\<lambda>w. (None, [bundleCRD])))) ''c'' ''p'' ''b'' ''i'' [] emptyConsumer"


end
