(* ===== verification/Authentication.thy ===== *)
theory Authentication
  imports Sessions Consumer_Apply
begin

text \<open>
  Authentication in the backend (\<open>src/backend/auth\<close>, \<open>src/backend/client\<close>): tokens for the command line,
  cookies for the browser, the login over OpenID Connect with PKCE, and the middleware in front of the
  protected routes. Signatures, cookie encryption, JSON, base64, random numbers and the OpenID
  provider are parameters. A run of the backend is a trace of logins; the lemmas show that a request
  is only let through for an identity that the provider vouched for in a login of that session, and
  that no start of a login is used twice.
\<close>

section \<open>Requests and responses\<close>

record http_request =
  hq_Method :: string
  hq_Host :: string
  hq_Path :: string
  hq_RawQuery :: string
  hq_Query :: smap
  hq_Form :: "smap result"
  hq_Authorization :: string
  hq_Cookies :: smap
  hq_Body :: string
  hq_TLS :: bool

record Cookie =
  co_Name :: string
  co_Value :: string
  co_Expires :: time
  co_Secure :: bool

text \<open>A structured error, a plain error, a redirect (with parameters added to its query), and a body.\<close>

datatype http_response =
    ErrorResponse nat string string string
  | TextError nat string
  | RedirectTo string "(string \<times> string) list" "Cookie list"
  | Body string "Cookie list"

definition MakeCookie :: "time \<Rightarrow> string \<Rightarrow> string \<Rightarrow> bool \<Rightarrow> duration \<Rightarrow> Cookie" where
  "MakeCookie now name value secure expiration =
     \<lparr>co_Name = name, co_Value = value, co_Expires = now + expiration, co_Secure = secure\<rparr>"

record ClientParameters =
  cp_ClusterID :: string
  cp_RedirectURL :: string
  cp_SessionID :: string
  cp_ClientType :: string
  cp_ConsumerID :: string
  cp_IsClusterScoped :: bool

definition GetQueryParams :: "http_request \<Rightarrow> ClientParameters" where
  "GetQueryParams r =
     (let q = mget (hq_Query r)
      in \<lparr>cp_ClusterID = q ''cluster_id'', cp_RedirectURL = q ''redirect_url'', cp_SessionID = q ''session_id'',
          cp_ClientType = q ''client_type'', cp_ConsumerID = q ''consumer_id'', cp_IsClusterScoped = q ''cluster_id'' \<noteq> []\<rparr>)"

text \<open>The parameters that are added to an URL; setting them in the encoded query is left to the redirect.\<close>

definition nonEmptyParam :: "string \<Rightarrow> string \<Rightarrow> (string \<times> string) list" where
  "nonEmptyParam k v = (if v \<noteq> [] then [(k, v)] else [])"

definition WithParams :: "ClientParameters \<Rightarrow> (string \<times> string) list" where
  "WithParams r =
     nonEmptyParam ''cluster_id'' (cp_ClusterID r) @ nonEmptyParam ''session_id'' (cp_SessionID r) @
     nonEmptyParam ''client_type'' (cp_ClientType r) @ nonEmptyParam ''consumer_id'' (cp_ConsumerID r)"

definition ErrorCodeAuthenticationFailed :: string where "ErrorCodeAuthenticationFailed = ''AUTHENTICATION_FAILED''"
definition ErrorCodeAuthorizationFailed :: string where "ErrorCodeAuthorizationFailed = ''AUTHORIZATION_FAILED''"
definition ErrorCodeResourceNotFound :: string where "ErrorCodeResourceNotFound = ''RESOURCE_NOT_FOUND''"
definition ErrorCodeInternalError :: string where "ErrorCodeInternalError = ''INTERNAL_ERROR''"
definition ErrorCodeBadRequest :: string where "ErrorCodeBadRequest = ''BAD_REQUEST''"

definition mapErrorToCode :: "error \<Rightarrow> nat \<times> string \<times> string" where
  "mapErrorToCode err =
     (if IsNotFound err then (404, ErrorCodeResourceNotFound, ErrorString err)
      else if hasReason ReasonUnauthorized err then (401, ErrorCodeAuthenticationFailed, ErrorString err)
      else if hasReason ReasonForbidden err then (403, ErrorCodeAuthorizationFailed, ErrorString err)
      else if hasReason ReasonBadRequest err then (400, ErrorCodeBadRequest, ErrorString err)
      else (500, ErrorCodeInternalError, ErrorString err))"

definition unauthorized :: "string \<Rightarrow> http_response" where
  "unauthorized details = ErrorResponse 401 ErrorCodeAuthenticationFailed ''Authentication required'' details"

section \<open>Tokens of the command line\<close>

text \<open>The claims as they are in a token; the outer subject and issuer hide the registered ones.\<close>

record Claims =
  jc_Subject :: string
  jc_Issuer :: string
  jc_SessionID :: string
  jc_ClusterID :: string
  jc_Groups :: "string list"
  jc_RedirectURL :: string
  jc_IssuedAt :: time
  jc_ExpiresAt :: "time option"
  jc_NotBefore :: time

text \<open>
  \<open>SignedString\<close> with the private key, and \<open>ParseWithClaims\<close> with the public key: RSA signatures only,
  with the validity period checked at the given time.
\<close>

record JWTService =
  js_sign :: "Claims \<Rightarrow> string result"
  js_parse :: "time \<Rightarrow> string \<Rightarrow> Claims result"

definition GenerateToken ::
  "JWTService \<Rightarrow> time \<Rightarrow> string \<Rightarrow> string \<Rightarrow> string \<Rightarrow> string \<Rightarrow> string \<Rightarrow> string list \<Rightarrow> duration \<Rightarrow> string result" where
  "GenerateToken js now subject oidcIssuer sessionID clusterID redirectURL groups expiration =
     js_sign js \<lparr>jc_Subject = subject, jc_Issuer = oidcIssuer, jc_SessionID = sessionID, jc_ClusterID = clusterID,
       jc_Groups = groups, jc_RedirectURL = redirectURL, jc_IssuedAt = TruncateSecond now,
       jc_ExpiresAt = Some (TruncateSecond (now + expiration)), jc_NotBefore = TruncateSecond now\<rparr>"

definition ValidateToken :: "JWTService \<Rightarrow> time \<Rightarrow> string \<Rightarrow> Claims result" where
  "ValidateToken js now tokenString =
     (case js_parse js now tokenString of Inl err \<Rightarrow> Inl (wrapError ''failed to parse token'' err) | Inr claims \<Rightarrow> Inr claims)"

section \<open>The middleware\<close>

abbreviation ClientTypeUI :: string where "ClientTypeUI \<equiv> ''ui''"
abbreviation ClientTypeCLI :: string where "ClientTypeCLI \<equiv> ''cli''"

definition UIIdentity :: string where
  "UIIdentity = ''ui-identity''"

record AuthContext =
  ac_SessionState :: "State option"
  ac_ClientType :: string
  ac_IsValid :: bool

text \<open>The codec of secure cookies is bound to the name of the cookie.\<close>

record cookie_codec =
  sc_Encode :: "string \<Rightarrow> State \<Rightarrow> string result"
  sc_Decode :: "string \<Rightarrow> string \<Rightarrow> State result"

record 'w AuthMiddleware =
  am_jwtService :: JWTService
  am_cookies :: cookie_codec
  am_sessionStore :: "'w Store"
  am_embeddedOIDC :: bool
  am_getReviews :: "string \<Rightarrow> (SubjectAccessReviewSpec \<Rightarrow> SubjectAccessReviewStatus result) result"

definition generateCookieName :: "string \<Rightarrow> string" where
  "generateCookieName clusterID = (if clusterID = [] then ''kube-bind'' else ''kube-bind-'' @ clusterID)"

definition claimsState :: "Claims \<Rightarrow> State" where
  "claimsState claims =
     \<lparr>ss_Token = \<lparr>ti_Subject = jc_Subject claims, ti_Issuer = jc_Issuer claims, ti_Groups = jc_Groups claims\<rparr>,
      ss_SessionID = jc_SessionID claims, ss_ClusterID = jc_ClusterID claims, ss_RedirectURL = jc_RedirectURL claims,
      ss_CreatedAt = 0, ss_ExpiresAt = (case jc_ExpiresAt claims of None \<Rightarrow> 0 | Some t \<Rightarrow> t)\<rparr>"

definition bearerState :: "'w AuthMiddleware \<Rightarrow> time \<Rightarrow> http_request \<Rightarrow> State option" where
  "bearerState am now r =
     (if HasPrefix (hq_Authorization r) ''Bearer ''
      then (case ValidateToken (am_jwtService am) now (TrimPrefix (hq_Authorization r) ''Bearer '') of
          Inl err \<Rightarrow> None | Inr claims \<Rightarrow> Some (claimsState claims))
      else None)"

definition cookieState :: "'w AuthMiddleware \<Rightarrow> http_request \<Rightarrow> State option" where
  "cookieState am r =
     (let cookieName = generateCookieName (mget (hq_Query r) ''cluster_id'')
      in case Mapping.lookup (hq_Cookies r) cookieName of
           None \<Rightarrow> None
         | Some value \<Rightarrow>
             (case sc_Decode (am_cookies am) cookieName value of Inl err \<Rightarrow> None | Inr state \<Rightarrow> Some state))"

definition authContext :: "'w AuthMiddleware \<Rightarrow> time \<Rightarrow> http_request \<Rightarrow> AuthContext" where
  "authContext am now r =
     (case bearerState am now r of
        Some state \<Rightarrow> \<lparr>ac_SessionState = Some state, ac_ClientType = ClientTypeCLI, ac_IsValid = False\<rparr>
      | None \<Rightarrow>
          (case cookieState am r of
             Some state \<Rightarrow> \<lparr>ac_SessionState = Some state, ac_ClientType = ClientTypeUI, ac_IsValid = False\<rparr>
           | None \<Rightarrow> \<lparr>ac_SessionState = None, ac_ClientType = [], ac_IsValid = False\<rparr>))"

text \<open>
  A handler is a function of the context and the request; the middleware either calls the next one
  or responds itself.
\<close>

definition authenticate :: "'w AuthMiddleware \<Rightarrow> time \<Rightarrow> (AuthContext \<Rightarrow> http_request \<Rightarrow> 'r) \<Rightarrow> http_request \<Rightarrow> 'r" where
  "authenticate am now next_handler r = next_handler (authContext am now r) r"

definition verifyState ::
  "'w AuthMiddleware \<Rightarrow> time \<Rightarrow> 'w \<Rightarrow> (http_response \<Rightarrow> 'r) \<Rightarrow> (AuthContext \<Rightarrow> http_request \<Rightarrow> 'r) \<Rightarrow> AuthContext \<Rightarrow> http_request \<Rightarrow> 'r" where
  "verifyState am now w respond next_handler authCtx r =
     (case ac_SessionState authCtx of
        None \<Rightarrow> respond (unauthorized ''No valid session found'')
      | Some state \<Rightarrow>
          if ti_Subject (ss_Token state) = [] \<or> ti_Issuer (ss_Token state) = [] \<or> ss_SessionID state = []
          then respond (unauthorized ''Invalid session state: missing required fields'')
          else if IsExpired now state then respond (unauthorized ''Session has expired'')
          else if \<not> isValidSession (am_sessionStore am) now (ss_SessionID state) w
          then respond (unauthorized ''Session has expired or is invalid'')
          else next_handler (authCtx\<lparr>ac_IsValid := True\<rparr>) r)"

definition authorizeK8S ::
  "'w AuthMiddleware \<Rightarrow> (http_response \<Rightarrow> 'r) \<Rightarrow> (AuthContext \<Rightarrow> http_request \<Rightarrow> 'r) \<Rightarrow> AuthContext \<Rightarrow> http_request \<Rightarrow> 'r" where
  "authorizeK8S am respond next_handler authCtx r =
     (case (ac_IsValid authCtx, ac_SessionState authCtx) of
        (True, Some state) \<Rightarrow>
          (case AuthorizeRequest (am_embeddedOIDC am) (am_getReviews am) (ti_Subject (ss_Token state))
                  (ti_Groups (ss_Token state)) (ss_ClusterID state) of
             Some err \<Rightarrow>
               (case mapErrorToCode err of (statusCode, code, details) \<Rightarrow>
                  respond (ErrorResponse statusCode code
                    ''Cluster authorization failed. Missing required permissions in the cluster to access bindings.''
                    (Sprintf ''%s Start the backend with --oidc-allowed-users=%s or --oidc-allowed-groups=<group> (user must be in one of the allowed groups).''
                       [FStr details, FStr (ti_Subject (ss_Token state))])))
           | None \<Rightarrow> next_handler authCtx r)
      | _ \<Rightarrow> respond (unauthorized ''Authentication context is not valid''))"

definition AuthenticateRequest ::
  "'w AuthMiddleware \<Rightarrow> time \<Rightarrow> 'w \<Rightarrow> (http_response \<Rightarrow> 'r) \<Rightarrow> (AuthContext \<Rightarrow> http_request \<Rightarrow> 'r) \<Rightarrow> http_request \<Rightarrow> 'r" where
  "AuthenticateRequest am now w respond next_handler =
     authenticate am now (verifyState am now w respond (authorizeK8S am respond next_handler))"

definition RequireAuth ::
  "(http_response \<Rightarrow> 'r) \<Rightarrow> (AuthContext \<Rightarrow> http_request \<Rightarrow> 'r) \<Rightarrow> AuthContext \<Rightarrow> http_request \<Rightarrow> 'r" where
  "RequireAuth respond next_handler authCtx r =
     (if \<not> ac_IsValid authCtx
      then respond (unauthorized (if ac_ClientType authCtx = ClientTypeCLI then ''Valid JWT token required''
             else ''Valid authentication credentials required''))
      else next_handler authCtx r)"

section \<open>Logging in\<close>

record AuthorizeRequest =
  ar_RedirectURL :: string
  ar_SessionID :: string
  ar_ClusterID :: string
  ar_ClientType :: string
  ar_ConsumerID :: string

text \<open>What the ID token of a provider says; the token that an exchange gives may lack one.\<close>

record idToken =
  id_Subject :: string
  id_Issuer :: string
  id_Groups :: "string list"

record OIDCServiceProvider =
  op_AuthCodeURL :: "string list \<Rightarrow> string \<Rightarrow> string \<Rightarrow> string"
  op_Exchange :: "string \<Rightarrow> string \<Rightarrow> string option result"

record 'w AuthHandler =
  ah_GetOIDCProvider :: "OIDCServiceProvider result"
  ah_jwtService :: JWTService
  ah_cookies :: cookie_codec
  ah_sessionStore :: "'w Store"
  ah_tokenExpiry :: duration
  ah_DecodeRequest :: "string \<Rightarrow> string + AuthorizeRequest"
  ah_MarshalRequest :: "AuthorizeRequest \<Rightarrow> string result"
  ah_UnmarshalIDToken :: "string \<Rightarrow> idToken result"
  ah_URLEncode :: "string \<Rightarrow> string"
  ah_URLDecode :: "string \<Rightarrow> string result"
  ah_RawURLEncode :: "string \<Rightarrow> string"
  ah_RawURLDecode :: "string \<Rightarrow> string result"
  ah_QueryUnescape :: "string \<Rightarrow> string result"
  ah_ParseURL :: "string \<Rightarrow> error option"
  ah_Sum256 :: "string \<Rightarrow> string"
  ah_EncodeResponse :: "string \<Rightarrow> string"

text \<open>The error of a login: JSON for the command line, text for a browser.\<close>

definition respondWithError :: "'w AuthHandler \<Rightarrow> string \<Rightarrow> string \<Rightarrow> nat \<Rightarrow> http_response" where
  "respondWithError ah clientType message statusCode =
     (if clientType \<noteq> ClientTypeCLI then TextError statusCode message
      else TextError statusCode (ah_EncodeResponse ah message))"

text \<open>The verifier and its challenge, from 32 random bytes.\<close>

definition generatePKCE :: "'w AuthHandler \<Rightarrow> string result \<Rightarrow> (string \<times> string) result" where
  "generatePKCE ah random =
     (case random of
        Inl err \<Rightarrow> Inl err
      | Inr data \<Rightarrow>
          let verifier = ah_RawURLEncode ah data
          in Inr (verifier, ah_RawURLEncode ah (ah_Sum256 ah verifier)))"

text \<open>A body that cannot be decoded may have given the client type before the error.\<close>

definition authorizeRequestOf :: "'w AuthHandler \<Rightarrow> http_request \<Rightarrow> string + AuthorizeRequest" where
  "authorizeRequestOf ah r =
     (if hq_Method r = ''POST'' then ah_DecodeRequest ah (hq_Body r)
      else let params = GetQueryParams r
           in Inr \<lparr>ar_RedirectURL = cp_RedirectURL params, ar_SessionID = cp_SessionID params, ar_ClusterID = cp_ClusterID params,
                   ar_ClientType = cp_ClientType params, ar_ConsumerID = cp_ConsumerID params\<rparr>)"

definition HandleAuthorize :: "'w AuthHandler \<Rightarrow> time \<Rightarrow> string result \<Rightarrow> http_request \<Rightarrow> 'w \<Rightarrow> http_response \<times> 'w" where
  "HandleAuthorize ah now random r w =
     (case authorizeRequestOf ah r of
        Inl clientType \<Rightarrow> (respondWithError ah clientType ''invalid JSON request'' 400, w)
      | Inr authReq \<Rightarrow>
          let fail = (\<lambda>message status w. (respondWithError ah (ar_ClientType authReq) message status, w))
          in if ar_RedirectURL authReq = [] \<or> ar_SessionID authReq = [] then fail ''missing redirect_url or session_id'' 400 w
             else (case ah_MarshalRequest ah authReq of
                 Inl err \<Rightarrow> fail (ErrorString err) 500 w
               | Inr dataCode \<Rightarrow>
                   (case ah_GetOIDCProvider ah of
                      Inl err \<Rightarrow> fail (ErrorString err) 500 w
                    | Inr provider \<Rightarrow>
                        (case generatePKCE ah random of
                           Inl err \<Rightarrow> fail ''failed to generate PKCE'' 500 w
                         | Inr (verifier, challenge) \<Rightarrow>
                             (case st_SavePKCEVerifier (ah_sessionStore ah) now (ar_SessionID authReq) verifier w of
                                (Some err, w1) \<Rightarrow> fail ''failed to store PKCE verifier'' 500 w1
                              | (None, w1) \<Rightarrow>
                                  (RedirectTo (op_AuthCodeURL provider [''openid'', ''profile'', ''email'', ''offline_access'', ''groups'']
                                     (ah_URLEncode ah dataCode) challenge) [] [], w1))))))"

definition formValue :: "http_request \<Rightarrow> smap \<Rightarrow> string \<Rightarrow> string" where
  "formValue r form key = (if mget form key = [] then mget (hq_Query r) key else mget form key)"

text \<open>What a callback says: the request it belongs to and the code, or why it is refused.\<close>

definition callbackRequest :: "'w AuthHandler \<Rightarrow> http_request \<Rightarrow> http_response + (AuthorizeRequest \<times> string)" where
  "callbackRequest ah r =
     (case hq_Form r of
        Inl err \<Rightarrow> Inl (respondWithError ah [] ''failed to parse form'' 400)
      | Inr form \<Rightarrow>
          let state0 = formValue r form ''state'';
              state = (case ah_QueryUnescape ah state0 of Inl err \<Rightarrow> state0 | Inr s \<Rightarrow> s)
          in (case ah_URLDecode ah state of
                Inl err \<Rightarrow> Inl (respondWithError ah [] ''invalid state parameter'' 400)
              | Inr decoded \<Rightarrow>
                  (case ah_DecodeRequest ah decoded of
                     Inl clientType \<Rightarrow> Inl (respondWithError ah clientType ''invalid state format'' 400)
                   | Inr authCode \<Rightarrow>
                       if mget form ''error'' \<noteq> []
                       then Inl (respondWithError ah (ar_ClientType authCode)
                              (Sprintf ''%s: %s'' [FStr (mget form ''error''), FStr (mget form ''error_description'')]) 400)
                       else let code = formValue r form ''code''
                            in if code = [] then Inl (respondWithError ah (ar_ClientType authCode) ''no authorization code in request'' 400)
                               else Inr (authCode, code))))"

fun SplitDots :: "string \<Rightarrow> string \<Rightarrow> string list" where
  "SplitDots acc [] = [rev acc]"
| "SplitDots acc (ch # s) = (if ch = CHR ''.'' then rev acc # SplitDots [] s else SplitDots (ch # acc) s)"

definition unwrapJWT :: "'w AuthHandler \<Rightarrow> string \<Rightarrow> string result" where
  "unwrapJWT ah p =
     (case SplitDots [] p of
        _ # payload # _ \<Rightarrow>
          (case ah_RawURLDecode ah payload of
             Inl err \<Rightarrow> Inl (wrapError ''OIDC: malformed JWT payload'' err) | Inr decoded \<Rightarrow> Inr decoded)
      | parts \<Rightarrow> Inl (PlainError (Sprintf ''OIDC: malformed JWT, expected 3 parts, got %d'' [FInt (int (length parts))])))"

definition createSessionState :: "'w AuthHandler \<Rightarrow> time \<Rightarrow> AuthorizeRequest \<Rightarrow> string option \<Rightarrow> State result" where
  "createSessionState ah now authCode idTokenExtra =
     (case idTokenExtra of
        None \<Rightarrow> Inl (PlainError ''no id_token value found in token'')
      | Some jwtStr \<Rightarrow>
          (case unwrapJWT ah jwtStr of
             Inl err \<Rightarrow> Inl (wrapError ''failed to unpack ID token'' err)
           | Inr jwt \<Rightarrow>
               (case ah_UnmarshalIDToken ah jwt of
                  Inl err \<Rightarrow> Inl (wrapError ''failed to parse ID token'' err)
                | Inr tok \<Rightarrow>
                    Inr (SetExpiration now (ah_tokenExpiry ah)
                      \<lparr>ss_Token = \<lparr>ti_Subject = id_Subject tok, ti_Issuer = id_Issuer tok, ti_Groups = id_Groups tok\<rparr>,
                       ss_SessionID = ar_SessionID authCode, ss_ClusterID = ar_ClusterID authCode,
                       ss_RedirectURL = ar_RedirectURL authCode, ss_CreatedAt = 0, ss_ExpiresAt = 0\<rparr>))))"

text \<open>The part of a callback that logs in: it ends with the session saved in the store.\<close>

definition errNoVerifier :: string where
  "errNoVerifier = ''PKCE verifier not found. If you run multiple backend instances, use a shared session store (e.g. Redis) so the instance handling the callback can read the verifier stored at authorize time.''"

definition callbackLogin ::
  "'w AuthHandler \<Rightarrow> time \<Rightarrow> AuthorizeRequest \<Rightarrow> string \<Rightarrow> 'w \<Rightarrow> (http_response + string \<times> State) \<times> 'w" where
  "callbackLogin ah now authCode code w =
     (let fail = (\<lambda>message status w. (Inl (respondWithError ah (ar_ClientType authCode) message status), w))
      in case ah_GetOIDCProvider ah of
           Inl err \<Rightarrow> fail ''failed to get OIDC provider'' 500 w
         | Inr provider \<Rightarrow>
             (case st_LoadAndDeletePKCEVerifier (ah_sessionStore ah) now (ar_SessionID authCode) w of
                (Inl err, w1) \<Rightarrow> fail errNoVerifier 400 w1
              | (Inr verifier, w1) \<Rightarrow>
                  if verifier = [] then fail errNoVerifier 400 w1
                  else (case op_Exchange provider code verifier of
                      Inl err \<Rightarrow> fail ''failed to exchange authorization code for token'' 500 w1
                    | Inr idTokenExtra \<Rightarrow>
                        (case createSessionState ah now authCode idTokenExtra of
                           Inl err \<Rightarrow> fail ''failed to create user session'' 500 w1
                         | Inr sessionState \<Rightarrow>
                             (case st_Save (ah_sessionStore ah) now sessionState w1 of
                                (Some err, w2) \<Rightarrow> fail ''failed to save session state'' 500 w2
                              | (None, w2) \<Rightarrow> (Inr (verifier, sessionState), w2))))))"

definition Hour :: duration where
  "Hour = 60 * Minute"

text \<open>The part that hands out the credential.\<close>

definition callbackRespond :: "'w AuthHandler \<Rightarrow> time \<Rightarrow> AuthorizeRequest \<Rightarrow> State \<Rightarrow> http_response" where
  "callbackRespond ah now authCode sessionState =
     (let fail = (\<lambda>message. respondWithError ah (ar_ClientType authCode) message 500)
      in if ar_ClientType authCode = ClientTypeCLI
         then (case GenerateToken (ah_jwtService ah) now (ti_Subject (ss_Token sessionState)) (ti_Issuer (ss_Token sessionState))
                      (ss_SessionID sessionState) (ss_ClusterID sessionState) (ss_RedirectURL sessionState)
                      (ti_Groups (ss_Token sessionState)) (24 * Hour) of
             Inl err \<Rightarrow> fail ''failed to generate JWT token''
           | Inr jwtToken \<Rightarrow>
               (case ah_ParseURL ah (ar_RedirectURL authCode) of
                  Some err \<Rightarrow> fail ''failed to parse redirect URL''
                | None \<Rightarrow> RedirectTo (ar_RedirectURL authCode)
                    ([(''access_token'', jwtToken), (''token_type'', ''Bearer''), (''expires_in'', ''86400'')] @
                     nonEmptyParam ''cluster_id'' (ar_ClusterID authCode)) []))
         else let cookieName = generateCookieName (ar_ClusterID authCode)
              in (case sc_Encode (ah_cookies ah) cookieName sessionState of
                    Inl err \<Rightarrow> fail ''failed to encode session cookie''
                  | Inr encoded \<Rightarrow> RedirectTo (ar_RedirectURL authCode)
                      (WithParams \<lparr>cp_ClusterID = ar_ClusterID authCode, cp_RedirectURL = ar_RedirectURL authCode,
                         cp_SessionID = ar_SessionID authCode, cp_ClientType = [], cp_ConsumerID = [], cp_IsClusterScoped = False\<rparr>)
                      [MakeCookie now cookieName encoded False Hour]))"

definition HandleCallback :: "'w AuthHandler \<Rightarrow> time \<Rightarrow> http_request \<Rightarrow> 'w \<Rightarrow> http_response \<times> 'w" where
  "HandleCallback ah now r w =
     (case callbackRequest ah r of
        Inl response \<Rightarrow> (response, w)
      | Inr (authCode, code) \<Rightarrow>
          (case callbackLogin ah now authCode code w of
             (Inl response, w1) \<Rightarrow> (response, w1)
           | (Inr (verifier, sessionState), w1) \<Rightarrow> (callbackRespond ah now authCode sessionState, w1)))"

section \<open>Histories of logins\<close>

datatype auth_event = Authorized string string time | LoggedIn string State time http_response

definition authorizeEvent :: "'w AuthHandler \<Rightarrow> time \<Rightarrow> string result \<Rightarrow> http_request \<Rightarrow> 'w \<Rightarrow> auth_event list" where
  "authorizeEvent ah now random r w =
     (case (authorizeRequestOf ah r, generatePKCE ah random, fst (HandleAuthorize ah now random r w)) of
        (Inr authReq, Inr (verifier, _), RedirectTo _ _ _) \<Rightarrow> [Authorized (ar_SessionID authReq) verifier now]
      | _ \<Rightarrow> [])"

definition callbackEvent :: "'w AuthHandler \<Rightarrow> time \<Rightarrow> http_request \<Rightarrow> 'w \<Rightarrow> auth_event list" where
  "callbackEvent ah now r w =
     (case callbackRequest ah r of
        Inl _ \<Rightarrow> []
      | Inr (authCode, code) \<Rightarrow>
          (case fst (callbackLogin ah now authCode code w) of
             Inl _ \<Rightarrow> [] | Inr (verifier, s) \<Rightarrow> [LoggedIn verifier s now (fst (HandleCallback ah now r w))]))"

text \<open>The requests to both routes in any order, while the clock advances; the last event is the first of the trace.\<close>

inductive authRun :: "'w AuthHandler \<Rightarrow> 'w \<Rightarrow> time \<Rightarrow> auth_event list \<Rightarrow> 'w \<Rightarrow> time \<Rightarrow> bool"
  for ah :: "'w AuthHandler" and w0 :: 'w and t0 :: time where
  start: "authRun ah w0 t0 [] w0 t0"
| authorize: "authRun ah w0 t0 tr w t \<Longrightarrow> t \<le> now \<Longrightarrow>
    authRun ah w0 t0 (authorizeEvent ah now random r w @ tr) (snd (HandleAuthorize ah now random r w)) now"
| callback: "authRun ah w0 t0 tr w t \<Longrightarrow> t \<le> now \<Longrightarrow>
    authRun ah w0 t0 (callbackEvent ah now r w @ tr) (snd (HandleCallback ah now r w)) now"

definition starts :: "string \<Rightarrow> string \<Rightarrow> auth_event list \<Rightarrow> nat" where
  "starts i v tr = length (filter (\<lambda>e. case e of Authorized j u _ \<Rightarrow> j = i \<and> u = v | _ \<Rightarrow> False) tr)"

definition logins :: "string \<Rightarrow> string \<Rightarrow> auth_event list \<Rightarrow> nat" where
  "logins i v tr = length (filter (\<lambda>e. case e of LoggedIn u s _ _ \<Rightarrow> ss_SessionID s = i \<and> u = v | _ \<Rightarrow> False) tr)"

text \<open>The provider gave the identity of a session in the exchange of a code with the verifier.\<close>

definition vouched :: "'w AuthHandler \<Rightarrow> string \<Rightarrow> State \<Rightarrow> time \<Rightarrow> bool" where
  "vouched ah verifier s now \<longleftrightarrow> (\<exists>provider code authCode extra. ah_GetOIDCProvider ah = Inr provider \<and>
     op_Exchange provider code verifier = Inr extra \<and> createSessionState ah now authCode extra = Inr s)"

lemma counts_simps [simp]:
  "starts i v [] = 0" "logins i v [] = 0"
  "starts i v (Authorized j u x # tr) = (if j = i \<and> u = v then 1 else 0) + starts i v tr"
  "starts i v (LoggedIn u s x resp # tr) = starts i v tr"
  "logins i v (Authorized j u x # tr) = logins i v tr"
  "logins i v (LoggedIn u s x resp # tr) = (if ss_SessionID s = i \<and> u = v then 1 else 0) + logins i v tr"
  by (simp_all add: starts_def logins_def)

lemma createSessionState_fields:
  assumes "createSessionState ah now authCode extra = Inr s"
  shows "ss_SessionID s = ar_SessionID authCode \<and> ss_ClusterID s = ar_ClusterID authCode \<and>
    ss_ExpiresAt s = now + ah_tokenExpiry ah"
  using assms by (auto simp: createSessionState_def SetExpiration_def split: option.splits sum.splits)

text \<open>What the two handlers do with the store.\<close>

lemma HandleAuthorize_effect:
  "(authorizeEvent ah now random r w = [] \<and> snd (HandleAuthorize ah now random r w) = w) \<or>
   (\<exists>i v e w'. st_SavePKCEVerifier (ah_sessionStore ah) now i v w = (e, w') \<and> snd (HandleAuthorize ah now random r w) = w' \<and>
      authorizeEvent ah now random r w = (if e = None then [Authorized i v now] else []))"
proof (cases "authorizeRequestOf ah r")
  case (Inr a)
  show ?thesis
  proof (cases "ar_RedirectURL a = [] \<or> ar_SessionID a = []")
    case True
    with Inr show ?thesis
      by (auto simp: HandleAuthorize_def authorizeEvent_def respondWithError_def split: sum.splits)
  next
    case False
    with Inr show ?thesis
      by (auto simp: HandleAuthorize_def authorizeEvent_def Let_def respondWithError_def split: sum.split prod.split option.split)
  qed
qed (simp add: HandleAuthorize_def authorizeEvent_def)

lemma HandleCallback_effect:
  obtains (nothing) "callbackEvent ah now r w = []" "snd (HandleCallback ah now r w) = w"
  | (taken) i res where "callbackEvent ah now r w = []"
      "st_LoadAndDeletePKCEVerifier (ah_sessionStore ah) now i w = (res, snd (HandleCallback ah now r w))"
  | (unsaved) i res w1 s e where "callbackEvent ah now r w = []"
      "st_LoadAndDeletePKCEVerifier (ah_sessionStore ah) now i w = (res, w1)" "ss_ExpiresAt s = now + ah_tokenExpiry ah"
      "st_Save (ah_sessionStore ah) now s w1 = (Some e, snd (HandleCallback ah now r w))"
  | (login) authCode v s w1 where "callbackEvent ah now r w = [LoggedIn v s now (callbackRespond ah now authCode s)]"
      "st_LoadAndDeletePKCEVerifier (ah_sessionStore ah) now (ss_SessionID s) w = (Inr v, w1)"
      "st_Save (ah_sessionStore ah) now s w1 = (None, snd (HandleCallback ah now r w))" "vouched ah v s now"
      "ss_ExpiresAt s = now + ah_tokenExpiry ah" "ss_ClusterID s = ar_ClusterID authCode"
proof (cases "callbackRequest ah r")
  case (Inl resp)
  then show ?thesis by (intro that(1)) (simp_all add: callbackEvent_def HandleCallback_def)
next
  case (Inr ac)
  obtain a code where ac: "ac = (a, code)" by fastforce
  show ?thesis
  proof (cases "ah_GetOIDCProvider ah")
    case (Inl err)
    with Inr ac show ?thesis by (intro that(1)) (simp_all add: callbackEvent_def HandleCallback_def callbackLogin_def)
  next
    case prov: (Inr p)
    obtain res w1 where take: "st_LoadAndDeletePKCEVerifier (ah_sessionStore ah) now (ar_SessionID a) w = (res, w1)" by fastforce
    show ?thesis
    proof (cases "\<exists>v extra s. res = Inr v \<and> v \<noteq> [] \<and> op_Exchange p code v = Inr extra \<and> createSessionState ah now a extra = Inr s")
      case False
      with Inr ac prov take show ?thesis
        by (intro that(2) [of "ar_SessionID a" res])
           (auto simp: callbackEvent_def HandleCallback_def callbackLogin_def Let_def split: sum.split)
    next
      case True
      then obtain v extra s where v: "res = Inr v" "v \<noteq> []" "op_Exchange p code v = Inr extra"
        "createSessionState ah now a extra = Inr s" by blast
      note fields = createSessionState_fields [OF v(4)]
      obtain e w2 where save: "st_Save (ah_sessionStore ah) now s w1 = (e, w2)" by fastforce
      show ?thesis
      proof (cases e)
        case None
        with Inr ac prov take v save fields show ?thesis
          by (intro that(4) [of v s a w1])
             (auto simp: callbackEvent_def HandleCallback_def callbackLogin_def Let_def vouched_def)
      next
        case (Some err)
        with Inr ac prov take v save fields show ?thesis
          by (intro that(3) [of "ar_SessionID a" res w1 s err])
             (auto simp: callbackEvent_def HandleCallback_def callbackLogin_def Let_def)
      qed
    qed
  qed
qed

text \<open>The invariants of the histories that do not read the store: every login is vouched for and has its own start.\<close>

definition loginsVouched :: "'w AuthHandler \<Rightarrow> auth_event list \<Rightarrow> bool" where
  "loginsVouched ah tr \<longleftrightarrow> (\<forall>v s u resp. LoggedIn v s u resp \<in> set tr \<longrightarrow> vouched ah v s u \<and>
     (\<exists>a. resp = callbackRespond ah u a s \<and> ar_ClusterID a = ss_ClusterID s) \<and>
     (\<exists>u'. Authorized (ss_SessionID s) v u' \<in> set tr \<and> u' \<le> u \<and> u \<le> u' + PKCEVerifierTTL))"

definition loginsStarted :: "auth_event list \<Rightarrow> bool" where
  "loginsStarted tr \<longleftrightarrow> (\<forall>i v. logins i v tr \<le> starts i v tr)"

lemma loginsVouched_simps [simp]:
  "loginsVouched ah []"
  "loginsVouched ah tr \<Longrightarrow> loginsVouched ah (Authorized i v u # tr)"
  by (fastforce simp: loginsVouched_def)+

lemma loginsVouched_login:
  assumes "loginsVouched ah tr" "vouched ah v s u" "ar_ClusterID a = ss_ClusterID s"
    and "Authorized (ss_SessionID s) v u' \<in> set tr" "u' \<le> u" "u \<le> u' + PKCEVerifierTTL"
  shows "loginsVouched ah (LoggedIn v s u (callbackRespond ah u a s) # tr)"
  using assms by (fastforce simp: loginsVouched_def)

lemma loginsStarted_simps [simp]:
  "loginsStarted []"
  "loginsStarted tr \<Longrightarrow> loginsStarted (Authorized i v u # tr)"
  "loginsStarted tr \<Longrightarrow> logins (ss_SessionID s) v tr < starts (ss_SessionID s) v tr \<Longrightarrow>
     loginsStarted (LoggedIn v s u resp # tr)"
  by (auto simp: loginsStarted_def le_SucI Suc_le_eq)

section \<open>Accepted requests\<close>

text \<open>The context that the handlers behind the middleware get.\<close>

definition accepted :: "'w AuthMiddleware \<Rightarrow> time \<Rightarrow> 'w \<Rightarrow> http_request \<Rightarrow> AuthContext option" where
  "accepted am now w = AuthenticateRequest am now w (\<lambda>_. None) (\<lambda>ctx r. Some ctx)"

fun tokensOf :: "http_response \<Rightarrow> string list" where
  "tokensOf (RedirectTo url params cookies) = map snd (filter (\<lambda>p. fst p = ''access_token'') params)"
| "tokensOf _ = []"

fun cookiesOf :: "http_response \<Rightarrow> (string \<times> string) list" where
  "cookiesOf (RedirectTo url params cookies) = map (\<lambda>c. (co_Name c, co_Value c)) cookies"
| "cookiesOf _ = []"

definition handedOut :: "auth_event list \<Rightarrow> http_response set" where
  "handedOut tr = {resp. \<exists>v s u. LoggedIn v s u resp \<in> set tr}"

text \<open>
  What signatures and authenticated encryption give: a token or a cookie that passes the check is one
  that was handed out, and it reads as what was signed or encrypted.
\<close>

definition unforgeable :: "JWTService \<Rightarrow> cookie_codec \<Rightarrow> auth_event list \<Rightarrow> bool" where
  "unforgeable js sc tr \<longleftrightarrow>
     (\<forall>now tok c. js_parse js now tok = Inr c \<longrightarrow>
        (\<exists>resp\<in>handedOut tr. tok \<in> set (tokensOf resp)) \<and> (\<forall>c'. js_sign js c' = Inr tok \<longrightarrow> c' = c)) \<and>
     (\<forall>name val s. sc_Decode sc name val = Inr s \<longrightarrow>
        (\<exists>resp\<in>handedOut tr. (name, val) \<in> set (cookiesOf resp)) \<and> (\<forall>s'. sc_Encode sc name s' = Inr val \<longrightarrow> s' = s))"

lemma accepted_Some:
  assumes "accepted am now w r = Some ctx"
  obtains s where "ac_SessionState (authContext am now r) = Some s" "ctx = (authContext am now r)\<lparr>ac_IsValid := True\<rparr>"
    "\<not> IsExpired now s" "isValidSession (am_sessionStore am) now (ss_SessionID s) w"
    "AuthorizeRequest (am_embeddedOIDC am) (am_getReviews am) (ti_Subject (ss_Token s)) (ti_Groups (ss_Token s)) (ss_ClusterID s) = None"
  using assms by (auto simp: accepted_def AuthenticateRequest_def authenticate_def verifyState_def authorizeK8S_def
      split: option.splits if_splits)

lemma authContext_state:
  assumes "ac_SessionState (authContext am now r) = Some s"
  shows "(\<exists>tok c. js_parse (am_jwtService am) now tok = Inr c \<and> s = claimsState c) \<or>
    (\<exists>name val. sc_Decode (am_cookies am) name val = Inr s)"
  using assms by (auto simp: authContext_def bearerState_def cookieState_def ValidateToken_def Let_def
      split: option.splits if_splits sum.splits)

text \<open>The identity, the session and the cluster that a credential carries.\<close>

definition sameLogin :: "State \<Rightarrow> State \<Rightarrow> bool" where
  "sameLogin s s' \<longleftrightarrow> ss_Token s = ss_Token s' \<and> ss_SessionID s = ss_SessionID s' \<and> ss_ClusterID s = ss_ClusterID s'"

lemma callbackRespond_token:
  assumes "tok \<in> set (tokensOf (callbackRespond ah now a s))"
  shows "\<exists>c. js_sign (ah_jwtService ah) c = Inr tok \<and> sameLogin (claimsState c) s"
proof (cases "ar_ClientType a = ClientTypeCLI")
  case True
  with assms show ?thesis
    by (auto simp: callbackRespond_def GenerateToken_def respondWithError_def Let_def sameLogin_def claimsState_def
        nonEmptyParam_def split: sum.splits option.splits if_splits intro!: exI)
next
  case False
  with assms show ?thesis
    by (auto simp: callbackRespond_def respondWithError_def Let_def WithParams_def nonEmptyParam_def split: sum.splits if_splits)
qed

lemma callbackRespond_cookie:
  assumes "(name, val) \<in> set (cookiesOf (callbackRespond ah now a s))"
  shows "sc_Encode (ah_cookies ah) name s = Inr val \<and> name = generateCookieName (ar_ClusterID a)"
  using assms by (auto simp: callbackRespond_def respondWithError_def Let_def MakeCookie_def split: sum.splits option.splits if_splits)

lemma credential_login:
  assumes unf: "unforgeable (am_jwtService am) (am_cookies am) tr" and tr: "loginsVouched ah tr"
    and same: "am_jwtService am = ah_jwtService ah" "am_cookies am = ah_cookies ah"
    and s: "ac_SessionState (authContext am now r) = Some s"
  shows "\<exists>v s' u resp. LoggedIn v s' u resp \<in> set tr \<and> vouched ah v s' u \<and> sameLogin s s'"
  using authContext_state [OF s]
proof (elim disjE exE conjE)
  fix tok c
  assume c: "js_parse (am_jwtService am) now tok = Inr c" "s = claimsState c"
  with unf obtain v s' u resp where "LoggedIn v s' u resp \<in> set tr" "tok \<in> set (tokensOf resp)"
    and only: "\<forall>c'. js_sign (am_jwtService am) c' = Inr tok \<longrightarrow> c' = c"
    unfolding unforgeable_def handedOut_def by blast
  moreover from this tr obtain a where "resp = callbackRespond ah u a s'" "vouched ah v s' u"
    unfolding loginsVouched_def by blast
  ultimately show ?thesis using callbackRespond_token [of tok ah u a s'] same c(2) by metis
next
  fix name val
  assume c: "sc_Decode (am_cookies am) name val = Inr s"
  with unf obtain v s' u resp where "LoggedIn v s' u resp \<in> set tr" "(name, val) \<in> set (cookiesOf resp)"
    and only: "\<forall>s'. sc_Encode (am_cookies am) name s' = Inr val \<longrightarrow> s' = s"
    unfolding unforgeable_def handedOut_def by blast
  moreover from this tr obtain a where "resp = callbackRespond ah u a s'" "vouched ah v s' u"
    unfolding loginsVouched_def by blast
  ultimately show ?thesis using callbackRespond_cookie [of name val ah u a s'] same by (metis sameLogin_def)
qed

lemma generateCookieName_inj [simp]: "generateCookieName c = generateCookieName c' \<longleftrightarrow> c = c'"
  by (simp add: generateCookieName_def)

text \<open>A cookie only works for the cluster that it was issued for; the name of the cookie is authenticated.\<close>

lemma cookie_cluster:
  assumes unf: "unforgeable (am_jwtService am) (am_cookies am) tr" and tr: "loginsVouched ah tr" and same: "am_cookies am = ah_cookies ah"
    and ui: "ac_ClientType (authContext am now r) = ClientTypeUI" and s: "ac_SessionState (authContext am now r) = Some s"
  shows "ss_ClusterID s = mget (hq_Query r) ''cluster_id''"
proof -
  let ?name = "generateCookieName (mget (hq_Query r) ''cluster_id'')"
  from ui s obtain val where d: "sc_Decode (am_cookies am) ?name val = Inr s"
    by (auto simp: authContext_def cookieState_def Let_def split: option.splits sum.splits)
  with unf obtain v s' u resp where "LoggedIn v s' u resp \<in> set tr" "(?name, val) \<in> set (cookiesOf resp)"
    and only: "\<forall>s'. sc_Encode (am_cookies am) ?name s' = Inr val \<longrightarrow> s' = s"
    unfolding unforgeable_def handedOut_def by blast
  moreover from this tr obtain a where "resp = callbackRespond ah u a s'" "ar_ClusterID a = ss_ClusterID s'"
    unfolding loginsVouched_def by blast
  ultimately show ?thesis using callbackRespond_cookie [of ?name val ah u a s'] same by auto
qed

context session_store
begin

text \<open>
  The invariants that do: a live session belongs to a login, and a verifier that is still in the
  store is a start that no login has used yet.
\<close>

definition sessions_known :: "auth_event list \<Rightarrow> 'w \<Rightarrow> time \<Rightarrow> bool" where
  "sessions_known tr w t \<longleftrightarrow> (\<forall>x\<ge>t. \<forall>i s. session x w i = Some s \<longrightarrow>
     ss_SessionID s = i \<and> x < ss_ExpiresAt s \<and> (\<exists>v u resp. LoggedIn v s u resp \<in> set tr))"

definition verifiers_unused :: "auth_event list \<Rightarrow> 'w \<Rightarrow> time \<Rightarrow> bool" where
  "verifiers_unused tr w t \<longleftrightarrow> (\<forall>x\<ge>t. \<forall>i v. verifier x w i = Some v \<longrightarrow>
     logins i v tr < starts i v tr \<and> (\<exists>u. Authorized i v u \<in> set tr \<and> u \<le> t \<and> x \<le> u + PKCEVerifierTTL))"

definition auth_inv :: "'w AuthHandler \<Rightarrow> auth_event list \<Rightarrow> 'w \<Rightarrow> time \<Rightarrow> bool" where
  "auth_inv ah tr w t \<longleftrightarrow> sessions_known tr w t \<and> verifiers_unused tr w t \<and> loginsStarted tr \<and> loginsVouched ah tr"

lemma auth_inv_start:
  assumes "\<And>x i. session x w i = None" "\<And>x i. verifier x w i = None"
  shows "auth_inv ah [] w t"
  using assms by (simp add: auth_inv_def sessions_known_def verifiers_unused_def)

lemma sessions_knownD:
  assumes "sessions_known tr w t" "t \<le> x" "session x w i = Some s"
  shows "ss_SessionID s = i \<and> x < ss_ExpiresAt s \<and> (\<exists>v u resp. LoggedIn v s u resp \<in> set tr)"
  using assms by (auto simp: sessions_known_def)

lemma verifiers_unusedD:
  assumes "verifiers_unused tr w t" "t \<le> x" "verifier x w i = Some v"
  shows "logins i v tr < starts i v tr \<and> (\<exists>u. Authorized i v u \<in> set tr \<and> u \<le> t \<and> x \<le> u + PKCEVerifierTTL)"
  using assms unfolding verifiers_unused_def by blast

lemma sessions_known_frame:
  assumes "sessions_known tr w t" "t \<le> now" "\<And>x i. now \<le> x \<Longrightarrow> session x w' i = session x w i" "set tr \<subseteq> set tr'"
  shows "sessions_known tr' w' now"
  using assms unfolding sessions_known_def by (metis order_trans subsetD)

lemma verifiers_unused_frame:
  assumes "verifiers_unused tr w t" "t \<le> now"
    and "\<And>x i v. now \<le> x \<Longrightarrow> verifier x w' i = Some v \<Longrightarrow> verifier x w i = Some v"
  shows "verifiers_unused tr w' now"
  using assms unfolding verifiers_unused_def by (meson order_trans)

text \<open>Taking a verifier leaves one that no login has used.\<close>

lemma auth_inv_take:
  assumes inv: "auth_inv ah tr w t" and now: "t \<le> now" and take: "st_LoadAndDeletePKCEVerifier st now i w = (res, w1)"
  shows "auth_inv ah tr w1 now" "x \<ge> now \<Longrightarrow> verifier x w1 i = None"
    and "res = Inr v \<Longrightarrow> logins i v tr < starts i v tr"
    and "res = Inr v \<Longrightarrow> \<exists>u. Authorized i v u \<in> set tr \<and> u \<le> now \<and> now \<le> u + PKCEVerifierTTL"
proof -
  have w1: "verifier now w i = resultOption res"
    "\<And>x j. now \<le> x \<Longrightarrow> session x w1 j = session x w j \<and> verifier x w1 j = (if j = i then None else verifier x w j)"
    using take_verifier [of now i w] take by auto
  have "verifiers_unused tr w1 now"
    using inv now w1(2) by (intro verifiers_unused_frame [of tr w t now w1]) (auto simp: auth_inv_def split: if_splits)
  moreover have "sessions_known tr w1 now"
    using inv now w1(2) by (intro sessions_known_frame [of tr w t now w1 tr]) (auto simp: auth_inv_def)
  ultimately show "auth_inv ah tr w1 now" using inv by (simp add: auth_inv_def)
  show "x \<ge> now \<Longrightarrow> verifier x w1 i = None" using w1(2) by simp
  have un: "verifiers_unused tr w t" using inv by (simp add: auth_inv_def)
  assume "res = Inr v"
  with w1(1) have "verifier now w i = Some v" by simp
  with un now obtain u where "logins i v tr < starts i v tr" "Authorized i v u \<in> set tr" "u \<le> t" "now \<le> u + PKCEVerifierTTL"
    unfolding verifiers_unused_def by blast
  with now show "logins i v tr < starts i v tr"
    and "\<exists>u. Authorized i v u \<in> set tr \<and> u \<le> now \<and> now \<le> u + PKCEVerifierTTL"
    by (auto intro!: exI [of _ u])
qed

lemma auth_inv_authorize:
  assumes inv: "auth_inv ah tr w t" and now: "t \<le> now" and save: "st_SavePKCEVerifier st now i v w = (e, w')"
  shows "auth_inv ah ((if e = None then [Authorized i v now] else []) @ tr) w' now"
proof (cases "i = [] \<or> v = []")
  case True
  with save_verifier_empty [OF this, of now w] save have "e \<noteq> None" "w' = w" by auto
  with inv now sessions_known_frame [of tr w t now w tr] verifiers_unused_frame [of tr w t now w] show ?thesis
    by (auto simp: auth_inv_def)
next
  case False
  with save_verifier [of i v now w] save have e: "e = None"
    and s: "\<And>x j. now \<le> x \<Longrightarrow> session x w' j = session x w j"
    and other: "\<And>x j. now \<le> x \<Longrightarrow> j \<noteq> i \<Longrightarrow> verifier x w' j = verifier x w j"
    and this_one: "\<And>x. now \<le> x \<Longrightarrow> verifier x w' i = None \<or> verifier x w' i = Some v \<and> \<not> now + PKCEVerifierTTL < x"
    by fastforce+
  let ?tr = "Authorized i v now # tr"
  have started: "logins j u tr \<le> starts j u tr" for j u using inv by (simp add: auth_inv_def loginsStarted_def)
  have "verifiers_unused ?tr w' now"
    unfolding verifiers_unused_def
  proof (intro allI impI)
    fix x j u
    assume x: "now \<le> x" and ver: "verifier x w' j = Some u"
    show "logins j u ?tr < starts j u ?tr \<and> (\<exists>ua. Authorized j u ua \<in> set ?tr \<and> ua \<le> now \<and> x \<le> ua + PKCEVerifierTTL)"
    proof (cases "j = i")
      case True
      with this_one [OF x] ver have "u = v" "x \<le> now + PKCEVerifierTTL" by auto
      with True started [of i v] show ?thesis by auto
    next
      case False
      with other [OF x False] ver inv x now have "logins j u tr < starts j u tr \<and>
          (\<exists>ua. Authorized j u ua \<in> set tr \<and> ua \<le> t \<and> x \<le> ua + PKCEVerifierTTL)"
        by (intro verifiers_unusedD [of tr w t x j u]) (simp_all add: auth_inv_def)
      with now False show ?thesis by fastforce
    qed
  qed
  with e s inv now sessions_known_frame [of tr w t now w' ?tr] show ?thesis by (auto simp: auth_inv_def)
qed

lemma auth_inv_login:
  assumes inv: "auth_inv ah tr w t" and now: "t \<le> now" "lasting now s" "ar_ClusterID a = ss_ClusterID s"
    and take: "st_LoadAndDeletePKCEVerifier st now (ss_SessionID s) w = (Inr v, w1)"
    and save: "st_Save st now s w1 = (e, w2)" and v: "vouched ah v s now"
  shows "e = None \<and> auth_inv ah (LoggedIn v s now (callbackRespond ah now a s) # tr) w2 now"
proof -
  let ?tr = "LoggedIn v s now (callbackRespond ah now a s) # tr"
  note taken = auth_inv_take [OF inv now(1) take]
  obtain u where "Authorized (ss_SessionID s) v u \<in> set tr" "u \<le> now" "now \<le> u + PKCEVerifierTTL"
    using taken(4) by blast
  then have vouched: "loginsVouched ah ?tr"
    using inv v now(3) by (auto intro!: loginsVouched_login simp: auth_inv_def)
  have started: "loginsStarted ?tr" using inv taken(3) by (auto simp: auth_inv_def)
  from session_store.save [OF session_store_axioms now(2), of w1] save have e: "e = None"
    and w2: "\<And>x i. now \<le> x \<Longrightarrow> session x w2 i = (if i = ss_SessionID s then if x < ss_ExpiresAt s then Some s else None
      else session x w1 i)" "\<And>x i. now \<le> x \<Longrightarrow> verifier x w2 i = verifier x w1 i"
    by auto
  have "sessions_known ?tr w2 now"
    unfolding sessions_known_def
  proof (intro allI impI)
    fix x i s'
    assume "now \<le> x" "session x w2 i = Some s'"
    with taken(1) w2(1) [of x i] sessions_knownD [of tr w1 now x i s']
    show "ss_SessionID s' = i \<and> x < ss_ExpiresAt s' \<and> (\<exists>v u resp. LoggedIn v s' u resp \<in> set ?tr)"
      by (cases "i = ss_SessionID s") (force simp: auth_inv_def split: if_splits)+
  qed
  moreover have "verifiers_unused ?tr w2 now"
    unfolding verifiers_unused_def
  proof (intro allI impI)
    fix x i v'
    assume "now \<le> x" "verifier x w2 i = Some v'"
    with taken(1) taken(2) [of x] w2(2) [of x i] verifiers_unusedD [of tr w1 now x i v']
    show "logins i v' ?tr < starts i v' ?tr \<and> (\<exists>u. Authorized i v' u \<in> set ?tr \<and> u \<le> now \<and> x \<le> u + PKCEVerifierTTL)"
      by (cases "i = ss_SessionID s") (auto simp: auth_inv_def)
  qed
  ultimately show ?thesis using e started vouched by (simp add: auth_inv_def)
qed

lemma auth_inv_idle:
  assumes "auth_inv ah tr w t" "t \<le> now" "\<And>x i. session x w' i = session x w i" "\<And>x i. verifier x w' i = verifier x w i"
  shows "auth_inv ah tr w' now"
  using assms sessions_known_frame [of tr w t now w' tr] verifiers_unused_frame [of tr w t now w'] by (simp add: auth_inv_def)

lemma auth_inv_HandleAuthorize:
  assumes inv: "auth_inv ah tr w t" "t \<le> now" and st: "ah_sessionStore ah = st"
  shows "auth_inv ah (authorizeEvent ah now random r w @ tr) (snd (HandleAuthorize ah now random r w)) now"
  using HandleAuthorize_effect [of ah now random r w]
proof (elim disjE exE conjE)
  assume "authorizeEvent ah now random r w = []" "snd (HandleAuthorize ah now random r w) = w"
  with inv show ?thesis by (simp add: auth_inv_idle)
next
  fix i v e w'
  assume "st_SavePKCEVerifier (ah_sessionStore ah) now i v w = (e, w')" "snd (HandleAuthorize ah now random r w) = w'"
    "authorizeEvent ah now random r w = (if e = None then [Authorized i v now] else [])"
  with auth_inv_authorize [OF inv, of i v e w'] st show ?thesis by simp
qed

lemma auth_inv_HandleCallback:
  assumes inv: "auth_inv ah tr w t" "t \<le> now" and st: "ah_sessionStore ah = st"
    and time: "0 \<le> now" "0 < ah_tokenExpiry ah" "ah_tokenExpiry ah < 2 ^ 63"
  shows "auth_inv ah (callbackEvent ah now r w @ tr) (snd (HandleCallback ah now r w)) now"
proof -
  have lasts: "ss_ExpiresAt s = now + ah_tokenExpiry ah \<Longrightarrow> lasting now s" for s
    using time by (simp add: lasting_def)
  show ?thesis
  proof (cases rule: HandleCallback_effect [of ah now r w, case_names nothing taken unsaved login])
    case nothing
    with inv show ?thesis by (simp add: auth_inv_idle)
  next
    case (taken i res)
    with auth_inv_take(1) [OF inv] st show ?thesis by auto
  next
    case (unsaved i res w1 s e)
    with session_store.save [OF session_store_axioms lasts, of s w1] st show ?thesis by auto
  next
    case (login a v s w1)
    with auth_inv_login [OF inv lasts, of s a v w1 None] st show ?thesis by auto
  qed
qed

lemma auth_inv_run:
  assumes "authRun ah w0 t0 tr w t" "ah_sessionStore ah = st" "0 < ah_tokenExpiry ah" "ah_tokenExpiry ah < 2 ^ 63" "0 \<le> t0"
    and "\<And>x i. session x w0 i = None" "\<And>x i. verifier x w0 i = None"
  shows "auth_inv ah tr w t \<and> 0 \<le> t"
  using assms(1)
proof (induction rule: authRun.induct)
  case start
  with assms(5-) show ?case by (simp add: auth_inv_start)
qed (use assms(2-4) in \<open>auto intro: auth_inv_HandleAuthorize auth_inv_HandleCallback\<close>)

lemma accepted_vouched:
  assumes inv: "auth_inv ah tr w t" and st: "am_sessionStore am = st"
    and same: "am_jwtService am = ah_jwtService ah" "am_cookies am = ah_cookies ah"
    and unf: "unforgeable (am_jwtService am) (am_cookies am) tr" and acc: "accepted am now w r = Some ctx" and now: "t \<le> now"
  shows "\<exists>s v s' u resp. ac_SessionState ctx = Some s \<and> LoggedIn v s' u resp \<in> set tr \<and> vouched ah v s' u \<and> sameLogin s s' \<and>
    now \<le> ss_ExpiresAt s \<and> (\<exists>v s' u resp. LoggedIn v s' u resp \<in> set tr \<and> ss_SessionID s' = ss_SessionID s \<and> now < ss_ExpiresAt s') \<and>
    AuthorizeRequest (am_embeddedOIDC am) (am_getReviews am) (ti_Subject (ss_Token s)) (ti_Groups (ss_Token s)) (ss_ClusterID s) = None"
proof -
  from acc obtain s where s: "ac_SessionState (authContext am now r) = Some s" "ctx = (authContext am now r)\<lparr>ac_IsValid := True\<rparr>"
    "\<not> IsExpired now s" "isValidSession (am_sessionStore am) now (ss_SessionID s) w"
    "AuthorizeRequest (am_embeddedOIDC am) (am_getReviews am) (ti_Subject (ss_Token s)) (ti_Groups (ss_Token s)) (ss_ClusterID s) = None"
    by (rule accepted_Some)
  from s(4) load [of now "ss_SessionID s" w] st obtain s' where "session now w (ss_SessionID s) = Some s'" by auto
  with inv now sessions_knownD [of tr w t now "ss_SessionID s" s']
  have "\<exists>v s' u resp. LoggedIn v s' u resp \<in> set tr \<and> ss_SessionID s' = ss_SessionID s \<and> now < ss_ExpiresAt s'"
    by (auto simp: auth_inv_def)
  moreover have "\<exists>v s' u resp. LoggedIn v s' u resp \<in> set tr \<and> vouched ah v s' u \<and> sameLogin s s'"
    using inv by (intro credential_login [OF unf _ same s(1)]) (simp add: auth_inv_def)
  ultimately show ?thesis using s(1,2,3,5) by (auto simp: IsExpired_def)
qed

end


definition exampleClaims :: Claims where
  "exampleClaims = \<lparr>jc_Subject = ''alice'', jc_Issuer = ''https://idp'', jc_SessionID = ''s1'', jc_ClusterID = ''c1'', jc_Groups = [''dev''],
     jc_RedirectURL = ''http://localhost'', jc_IssuedAt = 2 * Second, jc_ExpiresAt = Some (2 * Second + 24 * Hour), jc_NotBefore = 2 * Second\<rparr>"

definition exampleAuthorize :: AuthorizeRequest where
  "exampleAuthorize = \<lparr>ar_RedirectURL = ''http://localhost'', ar_SessionID = ''s1'', ar_ClusterID = ''c1'', ar_ClientType = ''cli'', ar_ConsumerID = []\<rparr>"

definition exampleHandler :: "memory_Store AuthHandler" where
  "exampleHandler =
     \<lparr>ah_GetOIDCProvider = Inr \<lparr>op_AuthCodeURL = (\<lambda>scopes state challenge. state),
        op_Exchange = (\<lambda>code v. if code = ''code'' \<and> v = ''verifier'' then Inr (Some ''h.p.s'') else Inl (PlainError ''exchange''))\<rparr>,
      ah_jwtService = \<lparr>js_sign = (\<lambda>c. if c = exampleClaims then Inr ''token'' else Inl (PlainError ''sign'')),
        js_parse = (\<lambda>now tok. if tok = ''token'' then Inr exampleClaims else Inl (PlainError ''parse''))\<rparr>,
      ah_cookies = \<lparr>sc_Encode = (\<lambda>name s. Inl (PlainError ''encode'')), sc_Decode = (\<lambda>name val. Inl (PlainError ''decode''))\<rparr>,
      ah_sessionStore = memoryStore, ah_tokenExpiry = Hour, ah_DecodeRequest = (\<lambda>body. Inr exampleAuthorize),
      ah_MarshalRequest = (\<lambda>req. Inr ''state''),
      ah_UnmarshalIDToken = (\<lambda>p. Inr \<lparr>id_Subject = ''alice'', id_Issuer = ''https://idp'', id_Groups = [''dev'']\<rparr>),
      ah_URLEncode = id, ah_URLDecode = Inr, ah_RawURLEncode = id, ah_RawURLDecode = Inr, ah_QueryUnescape = Inr,
      ah_ParseURL = (\<lambda>u. None), ah_Sum256 = id, ah_EncodeResponse = id\<rparr>"

definition exampleMiddleware :: "memory_Store AuthMiddleware" where
  "exampleMiddleware =
     \<lparr>am_jwtService = ah_jwtService exampleHandler, am_cookies = ah_cookies exampleHandler, am_sessionStore = memoryStore,
      am_embeddedOIDC = False,
      am_getReviews = (\<lambda>cluster. Inr (\<lambda>spec. Inr \<lparr>sas_Allowed = (cluster = ''c1''), sas_Reason = []\<rparr>))\<rparr>"

definition exampleHttp :: "string \<Rightarrow> (string \<times> string) list \<Rightarrow> string \<Rightarrow> http_request" where
  "exampleHttp method form authorization =
     \<lparr>hq_Method = method, hq_Host = ''host'', hq_Path = [], hq_RawQuery = [], hq_Query = Mapping.empty, hq_Form = Inr (Mapping.of_alist form),
      hq_Authorization = authorization, hq_Cookies = Mapping.empty, hq_Body = [], hq_TLS = False\<rparr>"

definition exampleLogin :: "auth_event list \<times> memory_Store" where
  "exampleLogin =
     (let r1 = exampleHttp ''POST'' [] []; r2 = exampleHttp ''GET'' [(''state'', ''state''), (''code'', ''code'')] [];
          w1 = snd (HandleAuthorize exampleHandler Second (Inr ''verifier'') r1 memory_New)
      in (callbackEvent exampleHandler (2 * Second) r2 w1 @ authorizeEvent exampleHandler Second (Inr ''verifier'') r1 memory_New @ [],
          snd (HandleCallback exampleHandler (2 * Second) r2 w1)))"

definition exampleSession :: State where
  "exampleSession = \<lparr>ss_Token = \<lparr>ti_Subject = ''alice'', ti_Issuer = ''https://idp'', ti_Groups = [''dev'']\<rparr>, ss_SessionID = ''s1'',
     ss_ClusterID = ''c1'', ss_RedirectURL = ''http://localhost'', ss_CreatedAt = 2 * Second, ss_ExpiresAt = 2 * Second + Hour\<rparr>"

lemma exampleLogin_value:
  "exampleLogin =
     ([LoggedIn ''verifier'' exampleSession (2 * Second)
         (RedirectTo ''http://localhost'' [(''access_token'', ''token''), (''token_type'', ''Bearer''), (''expires_in'', ''86400''),
            (''cluster_id'', ''c1'')] []),
       Authorized ''s1'' ''verifier'' Second],
      \<lparr>mem_sessions = Mapping.update ''s1'' exampleSession Mapping.empty, mem_pkceVerifiers = Mapping.empty\<rparr>)"
  by code_simp

lemma exampleLogin_run: "authRun exampleHandler memory_New 1 (fst exampleLogin) (snd exampleLogin) (2 * Second)"
  unfolding exampleLogin_def Let_def fst_conv snd_conv
  by (rule authRun.callback [OF authRun.authorize [OF authRun.start]]) (simp_all add: Second_def)


end
