(* ===== verification/Backend_Bindable.thy ===== *)
theory Backend_Bindable
  imports Consumer_Apply
begin

text \<open>
  Bindable resources requests (\<open>src/backend/controllers/bindableresourcesrequest\<close>), the way to bind when the
  backend runs without its web front end: a request object names an identity and a template, the
  controller prepares the namespace of that consumer and writes the kubeconfig into a secret beside
  the request. The lemmas show what a request that succeeded has left behind and when it is deleted.
\<close>

section \<open>Templates and requests\<close>

record APIServiceExportTemplateSpec =
  ats_Description :: string
  ats_Scope :: InformerScope
  ats_Resources :: "APIServiceExportRequestResource list"
  ats_PermissionClaims :: "PermissionClaim list"
  ats_Namespaces :: "string list"
  ats_SchemaUpdatePolicy :: SchemaUpdatePolicy

record APIServiceExportTemplate =
  at_meta :: ObjectMeta
  at_Spec :: APIServiceExportTemplateSpec
  at_Conditions :: Conditions

text \<open>\<open>metav1.Condition\<close>, without the generation that was observed.\<close>

record StatusCondition =
  mc_Type :: string
  mc_Status :: string
  mc_LastTransitionTime :: time
  mc_Reason :: string
  mc_Message :: string

record ClusterIdentity =
  ci_Identity :: string
  ci_PrettyName :: string

record BindableResourcesRequestSpec =
  brs_TemplateRef :: string
  brs_ClusterIdentity :: ClusterIdentity
  brs_Author :: string
  brs_KubeconfigSecretRef :: "LocalSecretKeyRef option"
  brs_TTLAfterFinished :: "duration option"

abbreviation BindableResourcesRequestPhasePending :: string where "BindableResourcesRequestPhasePending \<equiv> ''Pending''"
abbreviation BindableResourcesRequestPhaseFailed :: string where "BindableResourcesRequestPhaseFailed \<equiv> ''Failed''"
abbreviation BindableResourcesRequestPhaseSucceeded :: string where "BindableResourcesRequestPhaseSucceeded \<equiv> ''Succeeded''"
abbreviation BindableResourcesRequestConditionReady :: string where "BindableResourcesRequestConditionReady \<equiv> ''Ready''"

record BindableResourcesRequestStatus =
  brt_Phase :: string
  brt_Namespace :: string
  brt_KubeconfigSecretRef :: "LocalSecretKeyRef option"
  brt_CompletionTime :: "time option"
  brt_Conditions :: "StatusCondition list"

record BindableResourcesRequest =
  br_meta :: ObjectMeta
  br_Spec :: BindableResourcesRequestSpec
  br_Status :: BindableResourcesRequestStatus

record BindingResponseAuthenticationOAuth2CodeGrant =
  og_SessionID :: string
  og_ID :: string

record BindingResourceResponse =
  brr_Kind :: string
  brr_Authentication :: "BindingResponseAuthenticationOAuth2CodeGrant option"
  brr_Kubeconfig :: string
  brr_Requests :: "string list"
  brr_ProviderNamespace :: string
  brr_BindingName :: string

text \<open>\<open>validation.IsDNS1123Label\<close> is the parameter: the reasons why a name is not a label.\<close>

definition BindableResourcesRequest_Validate :: "(string \<Rightarrow> string list) \<Rightarrow> BindableResourcesRequest \<Rightarrow> error option" where
  "BindableResourcesRequest_Validate isDNS1123Label r =
     (if brs_TemplateRef (br_Spec r) = [] then Some (PlainError ''spec.templateRef.name is required'')
      else if m_Name (br_meta r) = [] then Some (PlainError ''name is required'')
      else let errs = isDNS1123Label (m_Name (br_meta r))
           in if 0 < length errs
              then Some (PlainError (Sprintf ''name %q is not a valid DNS label: %s'' [FStr (m_Name (br_meta r)), FStr (Join errs '', '')]))
              else None)"

definition IndexBindableResourcesRequestByTemplate :: "BindableResourcesRequest \<Rightarrow> string list" where
  "IndexBindableResourcesRequestByTemplate req =
     (if brs_TemplateRef (br_Spec req) = [] then [] else [brs_TemplateRef (br_Spec req)])"

text \<open>
  \<open>meta.SetStatusCondition\<close>: the condition of the type is replaced or appended; the time of the
  transition is kept when the status is.
\<close>

fun SetStatusCondition :: "StatusCondition \<Rightarrow> StatusCondition list \<Rightarrow> StatusCondition list" where
  "SetStatusCondition c [] = [c]"
| "SetStatusCondition c (x # xs) =
     (if mc_Type x = mc_Type c
      then c\<lparr>mc_LastTransitionTime := if mc_Status x = mc_Status c then mc_LastTransitionTime x else mc_LastTransitionTime c\<rparr> # xs
      else x # SetStatusCondition c xs)"

section \<open>The controller\<close>

record 'w bindable_client =
  bc_getRequest :: "'w \<Rightarrow> NamespacedName \<Rightarrow> BindableResourcesRequest result"
  bc_updateStatus :: "'w \<Rightarrow> BindableResourcesRequest \<Rightarrow> error option \<times> 'w"
  bc_deleteRequest :: "'w \<Rightarrow> BindableResourcesRequest \<Rightarrow> error option \<times> 'w"
  bc_getTemplate :: "'w \<Rightarrow> NamespacedName \<Rightarrow> APIServiceExportTemplate result"
  bc_secrets :: "(Secret, 'w) access"

definition requestOwner :: "BindableResourcesRequest \<Rightarrow> OwnerReference" where
  "requestOwner req =
     \<lparr>or_APIVersion = ''kube-bind.io/v1alpha2'', or_Kind = ''BindableResourcesRequest'', or_Name = m_Name (br_meta req),
      or_UID = m_UID (br_meta req), or_Controller = True\<rparr>"

definition kubeconfigResponse :: "string \<Rightarrow> BindingResourceResponse" where
  "kubeconfigResponse kubeconfig =
     \<lparr>brr_Kind = ''BindingResourceResponse'', brr_Authentication = None, brr_Kubeconfig = kubeconfig, brr_Requests = [],
      brr_ProviderNamespace = [], brr_BindingName = []\<rparr>"

text \<open>\<open>json.Marshal\<close> is the parameter \<open>marshal\<close>.\<close>

definition ensureBindingResponseSecret ::
  "(BindingResourceResponse \<Rightarrow> string result) \<Rightarrow> 'w bindable_client \<Rightarrow> BindableResourcesRequest \<Rightarrow> string \<Rightarrow> string \<Rightarrow> string \<Rightarrow> 'w \<Rightarrow>
     error option \<times> 'w" where
  "ensureBindingResponseSecret marshal cl req kubeconfig secretName secretKey w =
     (case marshal (kubeconfigResponse kubeconfig) of
        Inl err \<Rightarrow> (Some (wrapError ''failed to marshal BindingResourceResponse'' err), w)
      | Inr responseBytes \<Rightarrow>
          (case ac_get (bc_secrets cl) w \<lparr>nn_Namespace = m_Namespace (br_meta req), nn_Name = secretName\<rparr> of
             Inl err \<Rightarrow>
               if \<not> IsNotFound err then (Some (wrapError ''failed to get existing secret'' err), w)
               else (case ac_create (bc_secrets cl) w
                        \<lparr>sec_meta = emptyMeta\<lparr>m_Name := secretName, m_Namespace := m_Namespace (br_meta req),
                           m_OwnerReferences := [requestOwner req]\<rparr>,
                         sec_Data = Mapping.update secretKey responseBytes Mapping.empty, sec_Type = ''Opaque''\<rparr> of
                   (None, w1) \<Rightarrow> (None, w1)
                 | (Some err2, w1) \<Rightarrow>
                     if IsAlreadyExists err2 then (None, w1) else (Some (wrapError ''failed to create secret'' err2), w1))
           | Inr existingSecret \<Rightarrow>
               let owners = m_OwnerReferences (sec_meta existingSecret);
                   owned = existingSecret\<lparr>sec_meta := (sec_meta existingSecret)\<lparr>m_OwnerReferences :=
                     if list_ex (\<lambda>ref. or_UID ref = m_UID (br_meta req)) owners then owners else owners @ [requestOwner req]\<rparr>\<rparr>
               in if mget (sec_Data owned) secretKey \<noteq> responseBytes
                  then (case ac_update (bc_secrets cl) w (owned\<lparr>sec_Data := Mapping.update secretKey responseBytes (sec_Data owned)\<rparr>) of
                      (None, w1) \<Rightarrow> (None, w1) | (Some err, w1) \<Rightarrow> (Some (wrapError ''failed to update secret'' err), w1))
                  else (None, w)))"

definition responseSecretRef :: "BindableResourcesRequest \<Rightarrow> LocalSecretKeyRef" where
  "responseSecretRef req =
     (case brs_KubeconfigSecretRef (br_Spec req) of
        Some ref \<Rightarrow> \<lparr>lk_Name = lk_Name ref, lk_Key = if lk_Key ref = [] then ''kubeconfig'' else lk_Key ref\<rparr>
      | None \<Rightarrow> \<lparr>lk_Name = m_Name (br_meta req) @ ''-binding-response'', lk_Key = ''binding-response''\<rparr>)"

definition setReady ::
  "string \<Rightarrow> string \<Rightarrow> string \<Rightarrow> time \<Rightarrow> BindableResourcesRequestStatus \<Rightarrow> BindableResourcesRequestStatus" where
  "setReady status reason message now st =
     st\<lparr>brt_Conditions := SetStatusCondition \<lparr>mc_Type = BindableResourcesRequestConditionReady, mc_Status = status,
       mc_LastTransitionTime = now, mc_Reason = reason, mc_Message = message\<rparr> (brt_Conditions st)\<rparr>"

definition templateMissing :: "string \<Rightarrow> time \<Rightarrow> BindableResourcesRequestStatus \<Rightarrow> BindableResourcesRequestStatus" where
  "templateMissing name now st =
     setReady ''False'' ''TemplateNotFound'' (Sprintf ''APIServiceExportTemplate %q not found'' [FStr name]) now
       (st\<lparr>brt_Phase := BindableResourcesRequestPhaseFailed, brt_CompletionTime := Some now\<rparr>)"

definition bindingReady :: "string \<Rightarrow> time \<Rightarrow> BindableResourcesRequestStatus \<Rightarrow> BindableResourcesRequestStatus" where
  "bindingReady secretName now st =
     setReady ''True'' ''SecretReady'' (Sprintf ''Binding response secret %q is ready'' [FStr secretName]) now
       (st\<lparr>brt_Phase := BindableResourcesRequestPhaseSucceeded, brt_CompletionTime := Some now\<rparr>)"

text \<open>The template, when one is named: an error to retry, missing, or there.\<close>

definition checkTemplate :: "'w bindable_client \<Rightarrow> string \<Rightarrow> 'w \<Rightarrow> bool result" where
  "checkTemplate cl name w =
     (if name = [] then Inr True
      else (case bc_getTemplate cl w \<lparr>nn_Namespace = [], nn_Name = name\<rparr> of
          Inr template \<Rightarrow> Inr True
        | Inl err \<Rightarrow> if IsNotFound err then Inr False else Inl (wrapError (''failed to get template '' @ quote name) err)))"

text \<open>
  The result is when to reconcile again, where 0 is not at all, or an error; the request comes back
  with its new status. Every path reads the clock at most once.
\<close>

definition bindable_reconcile ::
  "(BindingResourceResponse \<Rightarrow> string result) \<Rightarrow> Manager \<Rightarrow> (string \<Rightarrow> ('w cluster_client \<times> restConfig) result) \<Rightarrow>
     'w bindable_client \<Rightarrow> time \<Rightarrow> string \<Rightarrow> BindableResourcesRequest \<Rightarrow> 'w \<Rightarrow> (duration result \<times> BindableResourcesRequest \<times> 'w) option" where
  "bindable_reconcile marshal m getCluster cl now clusterName req0 w =
     (let ref = responseSecretRef req0;
          req = req0\<lparr>br_Status := (br_Status req0)\<lparr>brt_KubeconfigSecretRef := Some ref\<rparr>\<rparr>;
          spec = br_Spec req
      in case checkTemplate cl (brs_TemplateRef spec) w of
           Inl err \<Rightarrow> Some (Inl err, req, w)
         | Inr False \<Rightarrow> Some (Inr 0, req\<lparr>br_Status := templateMissing (brs_TemplateRef spec) now (br_Status req)\<rparr>, w)
         | Inr True \<Rightarrow>
             let pretty = ci_PrettyName (brs_ClusterIdentity spec);
                 ident = ci_Identity (brs_ClusterIdentity spec)
             in (case HandleResources m getCluster (brs_Author spec) ident clusterName (if pretty = [] then m_Name (br_meta req) else pretty) w of
                   None \<Rightarrow> None
                 | Some (Inl err, w1) \<Rightarrow>
                     Some (Inl (wrapError (''failed to handle resources for cluster identity '' @ quote ident) err),
                       req\<lparr>br_Status := setReady ''False'' ''HandleResourcesFailed'' (''Failed to handle resources: '' @ ErrorString err) now
                             (br_Status req)\<rparr>, w1)
                 | Some (Inr result, w1) \<Rightarrow>
                     let st = (br_Status req)\<lparr>brt_Namespace := hr_Namespace result\<rparr>
                     in (case ensureBindingResponseSecret marshal cl (req\<lparr>br_Status := st\<rparr>) (hr_Kubeconfig result) (lk_Name ref) (lk_Key ref) w1 of
                           (Some err, w2) \<Rightarrow>
                             Some (Inl (wrapError ''failed to ensure binding response secret'' err),
                               req\<lparr>br_Status := setReady ''False'' ''SecretCreationFailed'' (''Failed to create/update secret: '' @ ErrorString err) now st\<rparr>, w2)
                         | (None, w2) \<Rightarrow>
                             Some (Inr (case brs_TTLAfterFinished spec of Some ttl \<Rightarrow> ttl | None \<Rightarrow> 0),
                               req\<lparr>br_Status := bindingReady (lk_Name ref) now st\<rparr>, w2))))"

definition handleTTL :: "'w bindable_client \<Rightarrow> time \<Rightarrow> BindableResourcesRequest \<Rightarrow> 'w \<Rightarrow> duration result \<times> 'w" where
  "handleTTL cl now req w =
     (case (brs_TTLAfterFinished (br_Spec req), brt_CompletionTime (br_Status req)) of
        (Some ttl, Some completion) \<Rightarrow>
          let expireTime = completion + ttl
          in if expireTime < now
             then (case bc_deleteRequest cl w req of
                 (None, w1) \<Rightarrow> (Inr 0, w1)
               | (Some err, w1) \<Rightarrow> if IsNotFound err then (Inr 0, w1)
                   else (Inl (wrapError ''failed to delete expired BindableResourcesRequest'' err), w1))
             else (Inr (TimeSub expireTime now), w)
      | _ \<Rightarrow> (Inr 0, w))"

definition bindable_finished :: "BindableResourcesRequest \<Rightarrow> bool" where
  "bindable_finished req \<longleftrightarrow> brt_Phase (br_Status req) = BindableResourcesRequestPhaseSucceeded \<or>
     brt_Phase (br_Status req) = BindableResourcesRequestPhaseFailed"

definition writeStatus ::
  "'w bindable_client \<Rightarrow> BindableResourcesRequest \<Rightarrow> BindableResourcesRequest \<Rightarrow> duration result \<Rightarrow> 'w \<Rightarrow> duration result \<times> 'w" where
  "writeStatus cl original req result w =
     (if br_Status original \<noteq> br_Status req
      then (case bc_updateStatus cl w req of
          (Some err, w1) \<Rightarrow> (Inl (wrapError ''failed to update BindableResourcesRequest status'' err), w1)
        | (None, w1) \<Rightarrow> (result, w1))
      else (result, w))"

definition bindable_Reconcile ::
  "(BindingResourceResponse \<Rightarrow> string result) \<Rightarrow> Manager \<Rightarrow> (string \<Rightarrow> ('w cluster_client \<times> restConfig) result) \<Rightarrow>
     (string \<Rightarrow> 'w bindable_client result) \<Rightarrow> time \<Rightarrow> string \<Rightarrow> NamespacedName \<Rightarrow> 'w \<Rightarrow> (duration result \<times> 'w) option" where
  "bindable_Reconcile marshal m getCluster getClient now clusterName key w =
     (case getClient clusterName of
        Inl err \<Rightarrow> Some (Inl (wrapError (''failed to get client for cluster '' @ quote clusterName) err), w)
      | Inr cl \<Rightarrow>
          (case bc_getRequest cl w key of
             Inl err \<Rightarrow> Some (if IsNotFound err then Inr 0 else Inl (wrapError ''failed to get BindableResourcesRequest'' err), w)
           | Inr bindableRequest \<Rightarrow>
               if bindable_finished bindableRequest then Some (handleTTL cl now bindableRequest w)
               else (case bindable_reconcile marshal m getCluster cl now clusterName bindableRequest w of
                   None \<Rightarrow> None
                 | Some (result, req, w1) \<Rightarrow> Some (writeStatus cl bindableRequest req result w1))))"

section \<open>What a request leaves behind\<close>

lemma SetStatusCondition_ready:
  "\<exists>x\<in>set (SetStatusCondition c cs). mc_Type x = mc_Type c \<and> mc_Status x = mc_Status c \<and> mc_Reason x = mc_Reason c"
  by (induction cs) auto

lemma SetStatusCondition_others:
  "filter (\<lambda>x. mc_Type x \<noteq> mc_Type c) (SetStatusCondition c cs) = filter (\<lambda>x. mc_Type x \<noteq> mc_Type c) cs"
  by (induction cs) auto

locale secret_store = strict_store sec_meta ac for ac :: "(Secret, 'w) access"
begin

lemma ensureBindingResponseSecret_post:
  assumes "bc_secrets cl = ac" "ensureBindingResponseSecret marshal cl req kubeconfig name sk w = (None, w')"
  shows "\<exists>s. ac_get ac w' \<lparr>nn_Namespace = m_Namespace (br_meta req), nn_Name = name\<rparr> = Inr s \<and>
      marshal (kubeconfigResponse kubeconfig) = Inr (mget (sec_Data s) sk)"
    and "k \<noteq> \<lparr>nn_Namespace = m_Namespace (br_meta req), nn_Name = name\<rparr> \<Longrightarrow> ac_get ac w' k = ac_get ac w k"
proof -
  let ?key = "\<lparr>nn_Namespace = m_Namespace (br_meta req), nn_Name = name\<rparr>"
  obtain bytes where m: "marshal (kubeconfigResponse kubeconfig) = Inr bytes"
    using assms by (auto simp: ensureBindingResponseSecret_def split: sum.splits)
  have "(\<exists>s. keyOfMeta (sec_meta s) = ?key \<and> mget (sec_Data s) sk = bytes \<and> (ac_create ac w s = (None, w') \<or> ac_update ac w s = (None, w'))) \<or>
    (\<exists>s. ac_get ac w ?key = Inr s \<and> mget (sec_Data s) sk = bytes \<and> w' = w)"
  proof (cases "ac_get ac w ?key")
    case (Inl err)
    let ?s = "\<lparr>sec_meta = emptyMeta\<lparr>m_Name := name, m_Namespace := m_Namespace (br_meta req), m_OwnerReferences := [requestOwner req]\<rparr>,
      sec_Data = Mapping.update sk bytes Mapping.empty, sec_Type = ''Opaque''\<rparr>"
    from Inl assms m create_exists [of w ?s] have "ac_create ac w ?s = (None, w')"
      by (auto simp: ensureBindingResponseSecret_def keyOfMeta_def split: if_splits prod.splits option.splits)
    then show ?thesis by (intro disjI1 exI [of _ ?s]) (simp add: keyOfMeta_def)
  next
    case (Inr s)
    let ?m = "(sec_meta s)\<lparr>m_OwnerReferences := if list_ex (\<lambda>ref. or_UID ref = m_UID (br_meta req)) (m_OwnerReferences (sec_meta s))
      then m_OwnerReferences (sec_meta s) else m_OwnerReferences (sec_meta s) @ [requestOwner req]\<rparr>"
    let ?s = "s\<lparr>sec_meta := ?m, sec_Data := Mapping.update sk bytes (sec_Data s)\<rparr>"
    show ?thesis
    proof (cases "mget (sec_Data s) sk = bytes")
      case False
      with Inr assms m have "ac_update ac w ?s = (None, w')"
        by (auto simp: ensureBindingResponseSecret_def Let_def split: prod.splits option.splits)
      with get_key [OF Inr] show ?thesis by (intro disjI1 exI [of _ ?s]) (simp add: keyOfMeta_def)
    next
      case True
      with Inr assms m show ?thesis by (auto simp: ensureBindingResponseSecret_def Let_def)
    qed
  qed
  then show "\<exists>s. ac_get ac w' ?key = Inr s \<and> marshal (kubeconfigResponse kubeconfig) = Inr (mget (sec_Data s) sk)"
    and "k \<noteq> ?key \<Longrightarrow> ac_get ac w' k = ac_get ac w k"
    using get_create get_update m by fastforce+
qed

end

text \<open>A cluster with its requests beside the objects that binding a consumer needs.\<close>

type_synonym bindable_store = "provider_store \<times> BindableResourcesRequest list"

definition onFirst :: "('w \<Rightarrow> 'e \<times> 'w) \<Rightarrow> 'w \<times> 'v \<Rightarrow> 'e \<times> 'w \<times> 'v" where
  "onFirst f wv = (case f (fst wv) of (e, w) \<Rightarrow> (e, w, snd wv))"

definition besides :: "('o, 'w) access \<Rightarrow> ('o, 'w \<times> 'v) access" where
  "besides ac = \<lparr>ac_get = (\<lambda>wv. ac_get ac (fst wv)), ac_create = (\<lambda>wv ob. onFirst (\<lambda>w. ac_create ac w ob) wv),
     ac_update = (\<lambda>wv ob. onFirst (\<lambda>w. ac_update ac w ob) wv)\<rparr>"

definition besidesClient :: "'w cluster_client \<Rightarrow> ('w \<times> 'v) cluster_client" where
  "besidesClient c =
     \<lparr>cl_namespaces = besides (cl_namespaces c), cl_patchNamespace = (\<lambda>wv old new. onFirst (\<lambda>w. cl_patchNamespace c w old new) wv),
      cl_namespacesByIdentity = (\<lambda>wv. cl_namespacesByIdentity c (fst wv)), cl_clusterBindings = besides (cl_clusterBindings c),
      cl_serviceAccounts = besides (cl_serviceAccounts c), cl_clusterRoles = besides (cl_clusterRoles c),
      cl_roleBindings = besides (cl_roleBindings c), cl_secrets = besides (cl_secrets c),
      cl_listExports = (\<lambda>wv. cl_listExports c (fst wv)), cl_tick = onFirst (cl_tick c)\<rparr>"

definition bindableSecrets :: "(Secret, bindable_store) access" where
  "bindableSecrets = besides (listAccess sec_meta ps_secrets (\<lambda>f w. w\<lparr>ps_secrets := f (ps_secrets w)\<rparr>))"

definition bindableStore :: "(string \<Rightarrow> APIServiceExportTemplate result) \<Rightarrow> bindable_store bindable_client" where
  "bindableStore templates =
     \<lparr>bc_getRequest = (\<lambda>wv k. listGet br_meta (snd wv) k),
      bc_updateStatus = (\<lambda>wv r. (None, fst wv, map (\<lambda>x. if keyOfMeta (br_meta x) = keyOfMeta (br_meta r)
         then x\<lparr>br_Status := br_Status r\<rparr> else x) (snd wv))),
      bc_deleteRequest = (\<lambda>wv r. (None, fst wv, filter (\<lambda>x. keyOfMeta (br_meta x) \<noteq> keyOfMeta (br_meta r)) (snd wv))),
      bc_getTemplate = (\<lambda>wv k. templates (nn_Name k)), bc_secrets = bindableSecrets\<rparr>"

context strict_store
begin

lemma besides_strict: "strict_store meta (besides ac)"
  by unfold_locales
    (auto simp: besides_def onFirst_def get_create get_update split: prod.splits intro: get_key create_failed dest: create_exists)

end

lemma bindableSecrets_strict: "strict_store sec_meta bindableSecrets"
  unfolding bindableSecrets_def by (rule strict_store.besides_strict) (rule listAccess_strict, simp)

interpretation bindable_secrets: secret_store bindableSecrets
  unfolding secret_store_def by (rule bindableSecrets_strict)

lemma ensureBindingResponseSecret_status [simp]:
  "ensureBindingResponseSecret marshal cl (req\<lparr>br_Status := st\<rparr>) = ensureBindingResponseSecret marshal cl req"
proof -
  have "br_meta (req\<lparr>br_Status := st\<rparr>) = br_meta req" "requestOwner (req\<lparr>br_Status := st\<rparr>) = requestOwner req"
    by (simp_all add: requestOwner_def)
  then show ?thesis unfolding ensureBindingResponseSecret_def fun_eq_iff by metis
qed

lemma bindable_reconcile_Inr:
  assumes "bindable_reconcile marshal m getCluster cl now cluster req w = Some (Inr d, req', w')"
  obtains (missing) "checkTemplate cl (brs_TemplateRef (br_Spec req)) w = Inr False" "w' = w" "d = 0"
      "req' = req\<lparr>br_Status := templateMissing (brs_TemplateRef (br_Spec req)) now
        ((br_Status req)\<lparr>brt_KubeconfigSecretRef := Some (responseSecretRef req)\<rparr>)\<rparr>"
    | (bound) pretty result w1 where
      "checkTemplate cl (brs_TemplateRef (br_Spec req)) w = Inr True"
      "pretty = (if ci_PrettyName (brs_ClusterIdentity (br_Spec req)) = [] then m_Name (br_meta req)
         else ci_PrettyName (brs_ClusterIdentity (br_Spec req)))"
      "HandleResources m getCluster (brs_Author (br_Spec req)) (ci_Identity (brs_ClusterIdentity (br_Spec req))) cluster pretty w =
         Some (Inr result, w1)"
      "ensureBindingResponseSecret marshal cl req (hr_Kubeconfig result) (lk_Name (responseSecretRef req)) (lk_Key (responseSecretRef req)) w1 =
         (None, w')"
      "d = (case brs_TTLAfterFinished (br_Spec req) of Some ttl \<Rightarrow> ttl | None \<Rightarrow> 0)"
      "req' = req\<lparr>br_Status := bindingReady (lk_Name (responseSecretRef req)) now
        ((br_Status req)\<lparr>brt_KubeconfigSecretRef := Some (responseSecretRef req), brt_Namespace := hr_Namespace result\<rparr>)\<rparr>"
proof (cases "checkTemplate cl (brs_TemplateRef (br_Spec req)) w = Inr True")
  case True
  with assms show ?thesis
    by (auto simp: bindable_reconcile_def Let_def split: option.splits prod.splits sum.splits intro!: that(2))
next
  case False
  with assms show ?thesis
    by (intro that(1)) (auto simp: bindable_reconcile_def Let_def split: sum.splits bool.splits)
qed


definition exampleBindable :: BindableResourcesRequest where
  "exampleBindable = \<lparr>br_meta = emptyMeta\<lparr>m_Name := ''r'', m_Namespace := ''ns'', m_UID := ''u''\<rparr>,
     br_Spec = \<lparr>brs_TemplateRef = [], brs_ClusterIdentity = \<lparr>ci_Identity = ''b'', ci_PrettyName = []\<rparr>, brs_Author = ''me'',
       brs_KubeconfigSecretRef = None, brs_TTLAfterFinished = Some 60\<rparr>,
     br_Status = \<lparr>brt_Phase = [], brt_Namespace = [], brt_KubeconfigSecretRef = None, brt_CompletionTime = None, brt_Conditions = []\<rparr>\<rparr>"

definition exampleReconcile :: "time \<Rightarrow> bindable_store \<Rightarrow> (duration result \<times> bindable_store) option" where
  "exampleReconcile now = bindable_Reconcile (\<lambda>r. Inr (brr_Kubeconfig r)) exampleManager
     (\<lambda>_. Inr (besidesClient exampleClient, \<lparr>rc_Host = [], rc_CAData = [], rc_CAFile = []\<rparr>))
     (\<lambda>_. Inr (bindableStore (\<lambda>_. Inl (StatusError ReasonNotFound [])))) now [] \<lparr>nn_Namespace = ''ns'', nn_Name = ''r''\<rparr>"

abbreviation exampleBindables :: "bindable_store bindable_client" where
  "exampleBindables \<equiv> bindableStore (\<lambda>_. Inl (StatusError ReasonNotFound []))"


section \<open>Deletion, and what is not written\<close>

text \<open>A finished request stays as it is until its time is over, and is gone with the next reconciliation after that.\<close>

lemma finished_request_deleted:
  assumes "listGet br_meta (snd w) key = Inr req" "bindable_finished req"
    and "brs_TTLAfterFinished (br_Spec req) = Some ttl" "brt_CompletionTime (br_Status req) = Some c"
    and "bindable_Reconcile marshal m getCluster (\<lambda>_. Inr (bindableStore templates)) now cluster key w = Some (r, w')"
  shows "fst w' = fst w" "now \<le> c + ttl \<Longrightarrow> w' = w"
    and "c + ttl < now \<Longrightarrow> snd w' = filter (\<lambda>x. keyOfMeta (br_meta x) \<noteq> key) (snd w)"
  using assms listGet_key [OF assms(1)]
  by (auto simp: bindable_Reconcile_def handleTTL_def bindableStore_def Let_def split: if_splits)

text \<open>In the very instant at which the time is over, the request is neither deleted nor looked at again.\<close>

lemma ttl_boundary:
  assumes "brs_TTLAfterFinished (br_Spec req) = Some ttl" "brt_CompletionTime (br_Status req) = Some c"
  shows "handleTTL cl (c + ttl) req w = (Inr 0, w)"
  using assms by (simp add: handleTTL_def TimeSub_def)

text \<open>
  When the cache does not have a secret that exists, the creation is refused and this counts as
  success, whatever the secret contains.
\<close>

lemma stale_secret_kept:
  assumes "marshal (kubeconfigResponse kubeconfig) = Inr bytes"
    and "ac_get (bc_secrets cl) w \<lparr>nn_Namespace = m_Namespace (br_meta req), nn_Name = name\<rparr> = Inl (StatusError ReasonNotFound msg)"
    and "\<And>s. ac_create (bc_secrets cl) w s = (Some (StatusError ReasonAlreadyExists msg'), w)"
  shows "ensureBindingResponseSecret marshal cl req kubeconfig name sk w = (None, w)"
  using assms by (simp add: ensureBindingResponseSecret_def)

text \<open>The owner of a secret whose content is up to date is only set in memory.\<close>

lemma owner_not_written:
  assumes "ac_get (bc_secrets cl) w \<lparr>nn_Namespace = m_Namespace (br_meta req), nn_Name = name\<rparr> = Inr s"
    and "marshal (kubeconfigResponse kubeconfig) = Inr (mget (sec_Data s) sk)"
  shows "ensureBindingResponseSecret marshal cl req kubeconfig name sk w = (None, w)"
  using assms by (simp add: ensureBindingResponseSecret_def Let_def)

end
