(* ===== verification/Http_Api.thy ===== *)
theory Http_Api
  imports Authentication Backend_Bindable Cluster_Binding
begin

text \<open>
  The HTTP API of the backend (\<open>src/backend/http\<close>, \<open>src/backend/spaserver\<close>): the routes, the handlers behind
  the middleware and in front of it, and the server of the web front end. JSON, YAML, base64, the
  embedded OpenID provider and the files of the front end are parameters. The lemmas show that the
  protected handlers only run for accepted requests, that a refused request changes nothing, and on
  which cluster and for which consumer an accepted request acts.
\<close>

section \<open>The handler\<close>

record Collection =
  col_meta :: ObjectMeta
  col_Description :: string
  col_Templates :: "string list"

text \<open>What the manager reads from a provider cluster.\<close>

record 'w catalogue =
  ca_collections :: "'w \<Rightarrow> Collection list result"
  ca_templates :: "'w \<Rightarrow> APIServiceExportTemplate list result"
  ca_template :: "'w \<Rightarrow> NamespacedName \<Rightarrow> APIServiceExportTemplate result"

record BindingProvider =
  bp_Version :: string
  bp_ProviderPrettyName :: string
  bp_AuthenticatedURL :: "string \<times> (string \<times> string) list"

record APIServiceExportRequestResponse =
  rr_Name :: string
  rr_Spec :: APIServiceExportRequestSpec

datatype payload =
    PayloadTemplates "APIServiceExportTemplate list"
  | PayloadCollections "Collection list"
  | PayloadProvider BindingProvider
  | PayloadRequest APIServiceExportRequestResponse
  | PayloadBinding BindingResourceResponse
  | PayloadStatus ConsumerStatus
  | PayloadApplied ApplyToConsumerResult
  | PayloadClaimable "InternalAPI list"

datatype manifest =
    NamespaceManifest Namespace | ServiceAccountManifest ObjectMeta | ClusterRoleManifest ClusterRole
  | ClusterRoleBindingManifest ClusterRoleBinding | DeploymentManifest Deployment

record applyBindingRequest =
  ab_ConsumerKubeconfig :: string
  ab_BindingName :: string
  ab_HostAliases :: "string list"

datatype opened = Found "error option" | NotExist | OpenError error

text \<open>
  The fields of the handler, the clients it gets from the manager of clusters, and the functions of
  libraries it calls.
\<close>

record 'w http_handler =
  hd_authHandler :: "'w AuthHandler"
  hd_authMiddleware :: "'w AuthMiddleware"
  hd_providerPrettyName :: string
  hd_kubeManager :: Manager
  hd_konnectorHostAliases :: "HostAlias list"
  hd_getCluster :: "string \<Rightarrow> ('w cluster_client \<times> restConfig) result"
  hd_getCatalogue :: "string \<Rightarrow> 'w catalogue result"
  hd_getRequests :: "string \<Rightarrow> 'w request_client result"
  hd_newConsumer :: "string \<Rightarrow> 'w consumer_client result"
  hd_resolver :: resolver
  hd_GitVersion :: string
  hd_Marshal :: "payload \<Rightarrow> string result"
  hd_EncodeYAML :: "manifest \<Rightarrow> string result"
  hd_DecodeBind :: "string \<Rightarrow> BindableResourcesRequest result"
  hd_IsMaxBytesError :: "error \<Rightarrow> bool"
  hd_DecodeApply :: "string \<Rightarrow> applyBindingRequest result"
  hd_Base64Decode :: "string \<Rightarrow> string result"
  hd_oidcServer :: "(http_request \<Rightarrow> bool) option"
  hd_serveOIDC :: "http_request \<Rightarrow> http_response"
  hd_frontend :: string
  hd_proxy :: "http_request \<Rightarrow> http_response"
  hd_Abs :: "string \<Rightarrow> string result"
  hd_Open :: "string \<Rightarrow> opened"
  hd_file :: "string \<Rightarrow> http_response"

text \<open>A handler responds, panics or does not return.\<close>

type_synonym 'w handled = "(http_response \<times> 'w) outcome option"

definition internalError :: "string \<Rightarrow> string \<Rightarrow> http_response" where
  "internalError message details = ErrorResponse 500 ErrorCodeInternalError message details"

definition badRequest :: "string \<Rightarrow> string \<Rightarrow> http_response" where
  "badRequest message details = ErrorResponse 400 ErrorCodeBadRequest message details"

definition mappedError :: "error \<Rightarrow> string \<Rightarrow> http_response" where
  "mappedError err message = (case mapErrorToCode err of (statusCode, code, details) \<Rightarrow> ErrorResponse statusCode code message details)"

definition respondJSON :: "'w http_handler \<Rightarrow> string \<Rightarrow> payload \<Rightarrow> http_response" where
  "respondJSON h message p = (case hd_Marshal h p of Inl err \<Rightarrow> internalError message (ErrorString err) | Inr bs \<Rightarrow> Body bs [])"

section \<open>The manager's lists\<close>

definition ListCollections :: "(string \<Rightarrow> 'w catalogue result) \<Rightarrow> string \<Rightarrow> 'w \<Rightarrow> Collection list result" where
  "ListCollections getCatalogue cluster w =
     (case getCatalogue cluster of Inl err \<Rightarrow> Inl err | Inr c \<Rightarrow> ca_collections c w)"

definition ListTemplates :: "(string \<Rightarrow> 'w catalogue result) \<Rightarrow> string \<Rightarrow> 'w \<Rightarrow> APIServiceExportTemplate list result" where
  "ListTemplates getCatalogue cluster w =
     (case getCatalogue cluster of Inl err \<Rightarrow> Inl err | Inr c \<Rightarrow> ca_templates c w)"

definition GetTemplates :: "(string \<Rightarrow> 'w catalogue result) \<Rightarrow> string \<Rightarrow> string \<Rightarrow> 'w \<Rightarrow> APIServiceExportTemplate result" where
  "GetTemplates getCatalogue cluster name w =
     (case getCatalogue cluster of Inl err \<Rightarrow> Inl err | Inr c \<Rightarrow> ca_template c w \<lparr>nn_Namespace = [], nn_Name = name\<rparr>)"

definition listTemplates :: "'w http_handler \<Rightarrow> string \<Rightarrow> 'w \<Rightarrow> APIServiceExportTemplate list result" where
  "listTemplates h cluster w =
     (case ListTemplates (hd_getCatalogue h) cluster w of
        Inl err \<Rightarrow> Inl (wrapError ''failed to list collections'' err) | Inr templates \<Rightarrow> Inr templates)"

definition listCollections :: "'w http_handler \<Rightarrow> string \<Rightarrow> 'w \<Rightarrow> Collection list result" where
  "listCollections h cluster w =
     (case ListCollections (hd_getCatalogue h) cluster w of
        Inl err \<Rightarrow> Inl (wrapError ''failed to list collections'' err) | Inr collections \<Rightarrow> Inr collections)"

section \<open>Public handlers\<close>

definition konnectorImage :: "string \<Rightarrow> string" where
  "konnectorImage gitVersion =
     Sprintf ''ghcr.io/kbind-dev/konnector:%s'' [FStr (case BinaryVersion gitVersion of Inl err \<Rightarrow> ''latest'' | Inr v \<Rightarrow> v)]"

definition Objects :: "KonnectorManifests \<Rightarrow> manifest list" where
  "Objects m = [NamespaceManifest (km_Namespace m), ServiceAccountManifest (km_ServiceAccount m), ClusterRoleManifest (km_ClusterRole m),
     ClusterRoleBindingManifest (km_ClusterRoleBinding m), DeploymentManifest (km_Deployment m)]"

fun encodeManifests :: "(manifest \<Rightarrow> string result) \<Rightarrow> bool \<Rightarrow> string \<Rightarrow> manifest list \<Rightarrow> string result" where
  "encodeManifests encode later buf [] = Inr buf"
| "encodeManifests encode later buf (ob # obs) =
     (case encode ob of
        Inl err \<Rightarrow> Inl err
      | Inr yaml \<Rightarrow> encodeManifests encode True (buf @ (if later then ''---'' @ [CHR 0x0A] else []) @ yaml) obs)"

definition handleKonnectorManifests :: "'w http_handler \<Rightarrow> http_response" where
  "handleKonnectorManifests h =
     (case encodeManifests (hd_EncodeYAML h) False []
             (Objects (NewKonnectorManifests (konnectorImage (hd_GitVersion h)) (hd_konnectorHostAliases h))) of
        Inl err \<Rightarrow> internalError ''Failed to serialize konnector manifests'' (ErrorString err)
      | Inr buf \<Rightarrow> Body buf [])"

text \<open>The cookie is replaced by one that has expired, at \<open>time.Unix(0, 0)\<close>; the session stays in the store.\<close>

definition handleLogout :: "time \<Rightarrow> http_request \<Rightarrow> http_response" where
  "handleLogout unixEpoch r =
     (let clusterID = mget (hq_Query r) ''cluster_id''
      in Body ''logged out'' [\<lparr>co_Name = if clusterID \<noteq> [] then ''kube-bind-'' @ clusterID else ''kube-bind'', co_Value = [],
           co_Expires = unixEpoch, co_Secure = hq_TLS r\<rparr>])"

definition handleExportsRedirect :: "http_request \<Rightarrow> http_response" where
  "handleExportsRedirect r =
     RedirectTo (''/api/exports'' @ (if hq_RawQuery r \<noteq> [] then ''?'' @ hq_RawQuery r else [])) [] []"

definition handleServiceExport :: "'w http_handler \<Rightarrow> http_request \<Rightarrow> http_response" where
  "handleServiceExport h r =
     respondJSON h ''Failed to marshal provider information''
       (PayloadProvider \<lparr>bp_Version = (case BinaryVersion (hd_GitVersion h) of Inl err \<Rightarrow> ''v0.0.0'' | Inr ver \<Rightarrow> ver),
          bp_ProviderPrettyName = (if hd_providerPrettyName h = [] then ''backend'' else hd_providerPrettyName h),
          bp_AuthenticatedURL = (Sprintf ''http://%s/api/authorize'' [FStr (hq_Host r)], WithParams (GetQueryParams r))\<rparr>)"

definition handleBindableResources :: "'w http_handler \<Rightarrow> http_response" where
  "handleBindableResources h = respondJSON h ''Failed to marshal bindable resources'' (PayloadClaimable ClaimableAPIs)"

section \<open>Protected handlers\<close>

definition handleTemplates :: "'w http_handler \<Rightarrow> AuthContext \<Rightarrow> http_request \<Rightarrow> 'w \<Rightarrow> http_response" where
  "handleTemplates h authCtx r w =
     (if \<not> ac_IsValid authCtx
      then ErrorResponse 401 ErrorCodeAuthenticationFailed ''Authentication required''
             ''Valid authentication credentials are required to access templates''
      else (case listTemplates h (cp_ClusterID (GetQueryParams r)) w of
          Inl err \<Rightarrow> mappedError err ''Failed to retrieve templates''
        | Inr templates \<Rightarrow> respondJSON h ''Failed to encode response'' (PayloadTemplates templates)))"

definition handleCollections :: "'w http_handler \<Rightarrow> http_request \<Rightarrow> 'w \<Rightarrow> http_response" where
  "handleCollections h r w =
     (case listCollections h (cp_ClusterID (GetQueryParams r)) w of
        Inl err \<Rightarrow> mappedError err ''Failed to retrieve collections''
      | Inr collections \<Rightarrow> respondJSON h ''Failed to encode response'' (PayloadCollections collections))"

definition sessionIdentity :: "State \<Rightarrow> string" where
  "sessionIdentity state = ti_Issuer (ss_Token state) @ ''/'' @ ti_Subject (ss_Token state)"

text \<open>Who is bound: the identity of the body, or of the session when the body has the one of the front end.\<close>

definition bindConsumer :: "State \<Rightarrow> ClientParameters \<Rightarrow> string \<Rightarrow> string" where
  "bindConsumer state params ident =
     (if cp_ConsumerID params = [] then (if ident = UIIdentity then sessionIdentity state else ident) else cp_ConsumerID params)"

definition templateRequest :: "string \<Rightarrow> APIServiceExportTemplate \<Rightarrow> APIServiceExportRequestResponse" where
  "templateRequest name template =
     \<lparr>rr_Name = name, rr_Spec = \<lparr>rqs_Parameters = None, rqs_Resources = ats_Resources (at_Spec template),
        rqs_PermissionClaims = ats_PermissionClaims (at_Spec template), rqs_Namespaces = ats_Namespaces (at_Spec template),
        rqs_SchemaUpdatePolicy = ats_SchemaUpdatePolicy (at_Spec template)\<rparr>\<rparr>"

definition bindResponse ::
  "'w http_handler \<Rightarrow> State \<Rightarrow> HandleResourcesResult \<Rightarrow> APIServiceExportRequestResponse \<Rightarrow> string \<Rightarrow> http_response" where
  "bindResponse h state handleResult request exportRequestName =
     (case hd_Marshal h (PayloadRequest request) of
        Inl err \<Rightarrow> internalError ''Failed to marshal request'' (ErrorString err)
      | Inr requestBytes \<Rightarrow>
          respondJSON h ''Failed to marshal binding response''
            (PayloadBinding \<lparr>brr_Kind = ''BindingResponse'',
               brr_Authentication = Some \<lparr>og_SessionID = ss_SessionID state, og_ID = sessionIdentity state\<rparr>,
               brr_Kubeconfig = hr_Kubeconfig handleResult, brr_Requests = [requestBytes],
               brr_ProviderNamespace = hr_Namespace handleResult, brr_BindingName = exportRequestName\<rparr>))"

text \<open>The state of the session is a pointer; a handler without one would panic where it uses it.\<close>

definition handleBind :: "'w http_handler \<Rightarrow> AuthContext \<Rightarrow> http_request \<Rightarrow> 'w \<Rightarrow> 'w handled" where
  "handleBind h authCtx r w =
     (let params = GetQueryParams r; respond = (\<lambda>resp w. Some (Returns (resp, w)))
      in case hd_DecodeBind h (hq_Body r) of
           Inl err \<Rightarrow>
             respond (if hd_IsMaxBytesError h err
               then ErrorResponse 413 ErrorCodeBadRequest ''Request body too large'' ''The request body exceeds the maximum allowed size''
               else badRequest ''Invalid JSON request body'' (ErrorString err)) w
         | Inr bindRequest \<Rightarrow>
             let ident = ci_Identity (brs_ClusterIdentity (br_Spec bindRequest));
                 name = m_Name (br_meta bindRequest);
                 pretty = ci_PrettyName (brs_ClusterIdentity (br_Spec bindRequest))
             in if ident = [] then respond (badRequest ''Missing cluster identity'' ''spec.clusterIdentity.identity is required'') w
                else (case ac_SessionState authCtx of
                    None \<Rightarrow> Some (Panic ''nil pointer dereference'')
                  | Some state \<Rightarrow>
                      (case HandleResources (hd_kubeManager h) (hd_getCluster h) (ti_Subject (ss_Token state)) (bindConsumer state params ident)
                              (cp_ClusterID params) (if pretty = [] then name else pretty) w of
                         None \<Rightarrow> None
                       | Some (Inl err, w1) \<Rightarrow> respond (mappedError err ''Failed to handle cluster resources'') w1
                       | Some (Inr handleResult, w1) \<Rightarrow>
                           (case GetTemplates (hd_getCatalogue h) (cp_ClusterID params) (brs_TemplateRef (br_Spec bindRequest)) w1 of
                              Inl err \<Rightarrow> respond (mappedError err ''Failed to retrieve template'') w1
                            | Inr template \<Rightarrow>
                                let request = templateRequest name template
                                in if ident \<noteq> UIIdentity then respond (bindResponse h state handleResult request []) w1
                                   else (case CreateAPIServiceExportRequest (hd_getRequests h) (cp_ClusterID params) (hr_Namespace handleResult) name
                                                (rr_Spec request) w1 of
                                       None \<Rightarrow> None
                                     | Some (Inl err, w2) \<Rightarrow> respond (mappedError err ''Failed to create API service export request'') w2
                                     | Some (Inr exportRequest, w2) \<Rightarrow>
                                         respond (bindResponse h state handleResult request (m_Name (rq_meta exportRequest))) w2)))))"

definition handleConsumerStatus :: "'w http_handler \<Rightarrow> AuthContext \<Rightarrow> http_request \<Rightarrow> 'w \<Rightarrow> 'w handled" where
  "handleConsumerStatus h authCtx r w =
     (case ac_SessionState authCtx of
        None \<Rightarrow> Some (Panic ''nil pointer dereference'')
      | Some state \<Rightarrow>
          Some (Returns (case GetConsumerStatus (hd_getCluster h) (sessionIdentity state) (cp_ClusterID (GetQueryParams r)) w of
              Inl err \<Rightarrow> internalError ''Failed to get consumer status'' (ErrorString err)
            | Inr status \<Rightarrow> respondJSON h ''Failed to marshal consumer status'' (PayloadStatus status), w)))"

definition SplitComma :: "string \<Rightarrow> string list" where
  "SplitComma s = SplitN s (CHR '','') (Suc (length s))"

text \<open>The aliases that are given as \<open>IP:hostname1,hostname2\<close>; other entries are skipped.\<close>

definition parseHostAlias :: "string \<Rightarrow> HostAlias option" where
  "parseHostAlias entry =
     (case SplitN entry (CHR '':'') 2 of
        [ip, hosts] \<Rightarrow> if ip \<noteq> [] \<and> hosts \<noteq> [] then Some \<lparr>ha_IP = ip, ha_Hostnames = SplitComma hosts\<rparr> else None
      | _ \<Rightarrow> None)"

definition handleApplyBinding :: "'w http_handler \<Rightarrow> AuthContext \<Rightarrow> http_request \<Rightarrow> 'w \<Rightarrow> 'w handled" where
  "handleApplyBinding h authCtx r w =
     (let respond = (\<lambda>resp w. Some (Returns (resp, w)))
      in case ac_SessionState authCtx of
           None \<Rightarrow> Some (Panic ''nil pointer dereference'')
         | Some state \<Rightarrow>
             (case hd_DecodeApply h (hq_Body r) of
                Inl err \<Rightarrow> respond (badRequest ''Invalid request body'' (ErrorString err)) w
              | Inr req \<Rightarrow>
                  if ab_ConsumerKubeconfig req = [] then respond (badRequest ''Missing consumer kubeconfig'' ''consumerKubeconfig is required'') w
                  else if ab_BindingName req = [] then respond (badRequest ''Missing binding name'' ''bindingName is required'') w
                  else (case hd_Base64Decode h (ab_ConsumerKubeconfig req) of
                      Inl err \<Rightarrow> respond (badRequest ''Invalid consumer kubeconfig encoding'' ''consumerKubeconfig must be base64 encoded'') w
                    | Inr consumerKubeconfigData \<Rightarrow>
                        (case HandleResources (hd_kubeManager h) (hd_getCluster h) (ti_Subject (ss_Token state)) (sessionIdentity state)
                                (cp_ClusterID (GetQueryParams r)) (ab_BindingName req) w of
                           None \<Rightarrow> None
                         | Some (Inl err, w1) \<Rightarrow> respond (mappedError err ''Failed to prepare provider resources'') w1
                         | Some (Inr handleResult, w1) \<Rightarrow>
                             (case ApplyToConsumer (hd_resolver h) (hd_konnectorHostAliases h) (hd_newConsumer h) consumerKubeconfigData
                                     (hr_Kubeconfig handleResult) (ab_BindingName req) (konnectorImage (hd_GitVersion h))
                                     (List.map_filter parseHostAlias (ab_HostAliases req)) w1 of
                                None \<Rightarrow> None
                              | Some (Panic p) \<Rightarrow> Some (Panic p)
                              | Some (Returns (Inl err, w2)) \<Rightarrow>
                                  respond (internalError ''Failed to apply binding to consumer cluster'' (ErrorString err)) w2
                              | Some (Returns (Inr result, w2)) \<Rightarrow>
                                  respond (respondJSON h ''Failed to marshal result'' (PayloadApplied result)) w2)))))"

section \<open>The front end\<close>

definition staticSuffixes :: "string list" where
  "staticSuffixes = [''.js'', ''.css'', ''.png'', ''.jpg'', ''.jpeg'', ''.gif'', ''.svg'', ''.ico'', ''.woff'', ''.woff2'', ''.ttf'', ''.eot'']"

definition isStaticAsset :: "string \<Rightarrow> bool" where
  "isStaticAsset path \<longleftrightarrow> Contains path ''/assets/'' \<or> list_ex (\<lambda>s. suffix s path) staticSuffixes"

text \<open>A file of the front end; navigation gets the index. What \<open>http.FileServer\<close> sends for a path is \<open>hd_file\<close>.\<close>

definition SPAFileServer_ServeHTTP :: "'w http_handler \<Rightarrow> http_request \<Rightarrow> http_response" where
  "SPAFileServer_ServeHTTP h r =
     (case hd_Abs h (hq_Path r) of
        Inl err \<Rightarrow> TextError 400 ''Bad request''
      | Inr path \<Rightarrow>
          (case hd_Open h path of
             Found None \<Rightarrow> hd_file h (hq_Path r)
           | Found (Some err) \<Rightarrow> TextError 500 ''Internal Server Error''
           | OpenError err \<Rightarrow> TextError 500 ''Internal Server Error''
           | NotExist \<Rightarrow> if isStaticAsset path then TextError 404 ''404 page not found'' else hd_file h ''/''))"

section \<open>Routes\<close>

datatype protected = Templates | Collections | Bind | Ping | ConsumerStatusOf | ApplyBinding

datatype route =
    Healthz | BindableResources | KonnectorManifestsOf | Authorize | CallbackOf | Logout | Exports | ExportsRedirect
  | Protected protected | EmbeddedOIDC | FrontEnd

text \<open>In the order of registration; the first route whose path and method match gets the request.\<close>

definition fixedRoutes :: "(string \<times> string list \<times> route) list" where
  "fixedRoutes =
     [(''/healthz'', [''GET''], Healthz),
      (''/api/healthz'', [''GET''], Healthz),
      (''/api/bindable-resources'', [''GET''], BindableResources),
      (''/api/konnector-manifests'', [''GET''], KonnectorManifestsOf),
      (''/api/authorize'', [''GET'', ''POST''], Authorize),
      (''/api/callback'', [''GET''], CallbackOf),
      (''/api/logout'', [''POST''], Logout),
      (''/api/exports'', [''GET''], Exports),
      (''/exports'', [''GET''], ExportsRedirect),
      (''/api/templates'', [''GET''], Protected Templates),
      (''/api/collections'', [''GET''], Protected Collections),
      (''/api/bind'', [''POST''], Protected Bind),
      (''/api/ping'', [''GET''], Protected Ping),
      (''/api/consumer-status'', [''GET''], Protected ConsumerStatusOf),
      (''/api/apply-binding'', [''POST''], Protected ApplyBinding)]"

definition AddRoutes :: "'w http_handler \<Rightarrow> http_request \<Rightarrow> route" where
  "AddRoutes h r =
     (case find (\<lambda>(path, methods, _). path = hq_Path r \<and> hq_Method r \<in> set methods) fixedRoutes of
        Some (_, _, rt) \<Rightarrow> rt
      | None \<Rightarrow> (case hd_oidcServer h of Some serves \<Rightarrow> if serves r then EmbeddedOIDC else FrontEnd | None \<Rightarrow> FrontEnd))"

fun handleProtected :: "'w http_handler \<Rightarrow> protected \<Rightarrow> AuthContext \<Rightarrow> http_request \<Rightarrow> 'w \<Rightarrow> 'w handled" where
  "handleProtected h Templates authCtx r w = Some (Returns (handleTemplates h authCtx r w, w))"
| "handleProtected h Collections authCtx r w = Some (Returns (handleCollections h r w, w))"
| "handleProtected h Bind authCtx r w = handleBind h authCtx r w"
| "handleProtected h Ping authCtx r w = Some (Returns (Body ''pong'' [], w))"
| "handleProtected h ConsumerStatusOf authCtx r w = handleConsumerStatus h authCtx r w"
| "handleProtected h ApplyBinding authCtx r w = handleApplyBinding h authCtx r w"

text \<open>A request at a time, with random bytes for a login; \<open>time.Unix(0, 0)\<close> is a parameter.\<close>

definition serve :: "'w http_handler \<Rightarrow> time \<Rightarrow> time \<Rightarrow> string result \<Rightarrow> http_request \<Rightarrow> 'w \<Rightarrow> 'w handled" where
  "serve h unixEpoch now random r w =
     (let plain = (\<lambda>resp. Some (Returns (resp, w)))
      in case AddRoutes h r of
           Healthz \<Rightarrow> plain (Body (if hq_Path r = ''/healthz'' then ''ok'' else []) [])
         | BindableResources \<Rightarrow> plain (handleBindableResources h)
         | KonnectorManifestsOf \<Rightarrow> plain (handleKonnectorManifests h)
         | Authorize \<Rightarrow> Some (Returns (HandleAuthorize (hd_authHandler h) now random r w))
         | CallbackOf \<Rightarrow> Some (Returns (HandleCallback (hd_authHandler h) now r w))
         | Logout \<Rightarrow> plain (handleLogout unixEpoch r)
         | Exports \<Rightarrow> plain (handleServiceExport h r)
         | ExportsRedirect \<Rightarrow> plain (handleExportsRedirect r)
         | Protected p \<Rightarrow>
             AuthenticateRequest (hd_authMiddleware h) now w plain
               (RequireAuth plain (\<lambda>authCtx r. handleProtected h p authCtx r w)) r
         | EmbeddedOIDC \<Rightarrow> plain (hd_serveOIDC h r)
         | FrontEnd \<Rightarrow> plain (if HasPrefix (hd_frontend h) ''http://'' then hd_proxy h r else SPAFileServer_ServeHTTP h r))"

section \<open>Who gets to the handlers\<close>

text \<open>\<open>NewHandler\<close> gives the same keys and the same session store to both halves of the authentication.\<close>

definition NewAuthMiddleware ::
  "'w AuthHandler \<Rightarrow> bool \<Rightarrow> (string \<Rightarrow> (SubjectAccessReviewSpec \<Rightarrow> SubjectAccessReviewStatus result) result) \<Rightarrow> 'w AuthMiddleware" where
  "NewAuthMiddleware ah embeddedOIDC getReviews =
     \<lparr>am_jwtService = ah_jwtService ah, am_cookies = ah_cookies ah, am_sessionStore = ah_sessionStore ah,
      am_embeddedOIDC = embeddedOIDC, am_getReviews = getReviews\<rparr>"

text \<open>A middleware hands a request to the next handler or responds with an error.\<close>

lemma mapErrorToCode_status: "mapErrorToCode err = (status, code, details) \<Longrightarrow> status \<in> {400, 401, 403, 404, 500}"
  by (auto simp: mapErrorToCode_def split: if_splits)

lemma authorizeK8S_cases:
  "(authorizeK8S am Some (\<lambda>_ _. None) ctx r = None \<and> ac_IsValid ctx \<and> authorizeK8S am respond next_handler ctx r = next_handler ctx r) \<or>
   (\<exists>status code message details. authorizeK8S am Some (\<lambda>_ _. None) ctx r = Some (ErrorResponse status code message details) \<and>
      status \<in> {400, 401, 403, 404, 500} \<and>
      authorizeK8S am respond next_handler ctx r = respond (ErrorResponse status code message details))"
proof (cases "ac_IsValid ctx \<and> ac_SessionState ctx \<noteq> None")
  case True
  then obtain s where s: "ac_IsValid ctx" "ac_SessionState ctx = Some s" by auto
  show ?thesis
  proof (cases "AuthorizeRequest (am_embeddedOIDC am) (am_getReviews am) (ti_Subject (ss_Token s)) (ti_Groups (ss_Token s)) (ss_ClusterID s)")
    case (Some err)
    obtain status code details where m: "mapErrorToCode err = (status, code, details)" by (metis surj_pair)
    from s Some m mapErrorToCode_status [OF m] show ?thesis by (simp add: authorizeK8S_def del: Sprintf.simps)
  qed (simp add: authorizeK8S_def s)
qed (auto simp: authorizeK8S_def unauthorized_def split: option.splits bool.splits)

lemma verifyState_cases:
  "(\<exists>ctx'. verifyState am now w Inl (\<lambda>ctx r. Inr ctx) ctx r = Inr ctx' \<and> verifyState am now w respond next_handler ctx r = next_handler ctx' r) \<or>
   (\<exists>details. verifyState am now w Inl (\<lambda>ctx r. Inr ctx) ctx r = Inl (unauthorized details) \<and>
      verifyState am now w respond next_handler ctx r = respond (unauthorized details))"
  by (auto simp: verifyState_def split: option.split)

lemma AuthenticateRequest_cases:
  fixes respond :: "http_response \<Rightarrow> 'r"
  shows "(\<exists>ctx. accepted am now w r = Some ctx \<and> ac_IsValid ctx \<and> AuthenticateRequest am now w respond next_handler r = next_handler ctx r) \<or>
   (\<exists>status code message details. accepted am now w r = None \<and> status \<in> {400, 401, 403, 404, 500} \<and>
      AuthenticateRequest am now w respond next_handler r = respond (ErrorResponse status code message details))"
proof -
  let ?ctx = "authContext am now r" and ?some = "\<lambda>(ctx :: AuthContext) (r :: http_request). Some ctx"
  have eq: "AuthenticateRequest am now w respond next_handler r = verifyState am now w respond (authorizeK8S am respond next_handler) ?ctx r"
    "accepted am now w r = verifyState am now w (\<lambda>_. None) (authorizeK8S am (\<lambda>_. None) ?some) ?ctx r"
    by (simp_all add: AuthenticateRequest_def authenticate_def accepted_def)
  note v = verifyState_cases [of am now w ?ctx r respond "authorizeK8S am respond next_handler"]
    verifyState_cases [of am now w ?ctx r "\<lambda>_. None" "authorizeK8S am (\<lambda>_. None) ?some"]
  show ?thesis
  proof (cases "verifyState am now w Inl (\<lambda>ctx r. Inr ctx) ?ctx r :: http_response + AuthContext")
    case (Inl resp)
    with v obtain details where "AuthenticateRequest am now w respond next_handler r = respond (unauthorized details)" "accepted am now w r = None"
      by (auto simp: eq)
    then show ?thesis by (simp add: unauthorized_def) blast
  next
    case (Inr ctx)
    with v have "AuthenticateRequest am now w respond next_handler r = authorizeK8S am respond next_handler ctx r"
      "accepted am now w r = authorizeK8S am (\<lambda>_. None) ?some ctx r" by (auto simp: eq)
    with authorizeK8S_cases [of am ctx r respond next_handler] authorizeK8S_cases [of am ctx r "\<lambda>_. None" ?some] show ?thesis by auto
  qed
qed

lemma serve_protected:
  assumes "AddRoutes h r = Protected p"
  shows "(\<exists>ctx. accepted (hd_authMiddleware h) now w r = Some ctx \<and> serve h epoch now random r w = handleProtected h p ctx r w) \<or>
   (\<exists>status code message details. accepted (hd_authMiddleware h) now w r = None \<and> status \<in> {400, 401, 403, 404, 500} \<and>
      serve h epoch now random r w = Some (Returns (ErrorResponse status code message details, w)))"
  using AuthenticateRequest_cases [of "hd_authMiddleware h" now w r "\<lambda>resp. Some (Returns (resp, w))"
      "RequireAuth (\<lambda>resp. Some (Returns (resp, w))) (\<lambda>authCtx r. handleProtected h p authCtx r w)"]
  by (auto simp: serve_def assms RequireAuth_def)

section \<open>Histories of requests\<close>

definition serveEvents :: "'w http_handler \<Rightarrow> time \<Rightarrow> string result \<Rightarrow> http_request \<Rightarrow> 'w \<Rightarrow> auth_event list" where
  "serveEvents h now random r w =
     (case AddRoutes h r of
        Authorize \<Rightarrow> authorizeEvent (hd_authHandler h) now random r w
      | CallbackOf \<Rightarrow> callbackEvent (hd_authHandler h) now r w
      | _ \<Rightarrow> [])"

inductive serveRun :: "'w http_handler \<Rightarrow> time \<Rightarrow> 'w \<Rightarrow> time \<Rightarrow> auth_event list \<Rightarrow> 'w \<Rightarrow> time \<Rightarrow> bool"
  for h :: "'w http_handler" and epoch :: time and w0 :: 'w and t0 :: time where
  start: "serveRun h epoch w0 t0 [] w0 t0"
| request: "serveRun h epoch w0 t0 tr w t \<Longrightarrow> t \<le> now \<Longrightarrow> serve h epoch now random r w = Some (Returns (resp, w')) \<Longrightarrow>
    serveRun h epoch w0 t0 (serveEvents h now random r w @ tr) w' now"

text \<open>The clients of the clusters do not touch the session store.\<close>

definition sessionsApart :: "(time \<Rightarrow> 'w \<Rightarrow> string \<Rightarrow> State option) \<Rightarrow> (time \<Rightarrow> 'w \<Rightarrow> string \<Rightarrow> string option) \<Rightarrow> 'w http_handler \<Rightarrow> bool" where
  "sessionsApart session verifier h \<longleftrightarrow>
     (\<forall>p ctx r w resp w'. handleProtected h p ctx r w = Some (Returns (resp, w')) \<longrightarrow>
        (\<forall>x i. session x w' i = session x w i \<and> verifier x w' i = verifier x w i))"

context session_store
begin

lemma auth_inv_serve:
  assumes "auth_inv (hd_authHandler h) tr w t" "t \<le> now" "0 \<le> now" "ah_sessionStore (hd_authHandler h) = st"
    and "0 < ah_tokenExpiry (hd_authHandler h)" "ah_tokenExpiry (hd_authHandler h) < 2 ^ 63" "sessionsApart session verifier h"
    and "serve h epoch now random r w = Some (Returns (resp, w'))"
  shows "auth_inv (hd_authHandler h) (serveEvents h now random r w @ tr) w' now"
proof (cases "AddRoutes h r")
  case Authorize
  with assms(8) auth_inv_HandleAuthorize [OF assms(1,2,4), of random r] show ?thesis
    by (auto simp: serve_def serveEvents_def)
next
  case CallbackOf
  with assms(8) auth_inv_HandleCallback [OF assms(1,2,4,3,5,6), of r] show ?thesis
    by (auto simp: serve_def serveEvents_def)
next
  case (Protected p)
  have "session x w' i = session x w i \<and> verifier x w' i = verifier x w i" for x i
    using serve_protected [OF Protected, of now w epoch random] assms(7,8) unfolding sessionsApart_def by (elim disjE exE conjE) auto
  with assms(1,2) Protected show ?thesis by (simp add: serveEvents_def auth_inv_idle)
qed (use assms(1,2,8) in \<open>simp_all add: serve_def serveEvents_def auth_inv_idle\<close>)

lemma auth_inv_serveRun:
  assumes "serveRun h epoch w0 t0 tr w t" "0 \<le> t0" "ah_sessionStore (hd_authHandler h) = st"
    and "0 < ah_tokenExpiry (hd_authHandler h)" "ah_tokenExpiry (hd_authHandler h) < 2 ^ 63" "sessionsApart session verifier h"
    and "\<And>x i. session x w0 i = None" "\<And>x i. verifier x w0 i = None"
  shows "auth_inv (hd_authHandler h) tr w t \<and> 0 \<le> t"
  using assms(1)
proof (induction rule: serveRun.induct)
  case start
  with assms(2,7,8) show ?case by (simp add: auth_inv_start)
next
  case (request tr w t now random r resp w')
  with auth_inv_serve [of h tr w t now epoch random r resp w'] assms(3-6) show ?case by simp
qed

end

text \<open>
  C31: what is behind the middleware stays there. In every history of requests to the backend, a request
  to a protected route either gets an error and changes nothing, or it reaches its handler with the
  identity, the session and the cluster of a login for which the OpenID provider has vouched, and
  that identity may bind in the cluster of the session. With the cookie of a browser this
  is the cluster that the request names and on which the handler acts.
\<close>

theorem protected_routes_guarded:
  assumes "session_store (ah_sessionStore (hd_authHandler h)) session verifier"
    and "hd_authMiddleware h = NewAuthMiddleware (hd_authHandler h) embeddedOIDC getReviews"
    and "0 < ah_tokenExpiry (hd_authHandler h)" "ah_tokenExpiry (hd_authHandler h) < 2 ^ 63"
    and "sessionsApart session verifier h" "\<And>x i. session x w0 i = None" "\<And>x i. verifier x w0 i = None"
    and "serveRun h epoch w0 t0 tr w t" "0 \<le> t0" "t \<le> now"
    and "unforgeable (ah_jwtService (hd_authHandler h)) (ah_cookies (hd_authHandler h)) tr"
    and "AddRoutes h r = Protected p"
  shows "(\<exists>status code message details. status \<in> {400, 401, 403, 404, 500} \<and>
      serve h epoch now random r w = Some (Returns (ErrorResponse status code message details, w))) \<or>
    (\<exists>ctx s v s' u resp. serve h epoch now random r w = handleProtected h p ctx r w \<and> ac_SessionState ctx = Some s \<and>
      LoggedIn v s' u resp \<in> set tr \<and> vouched (hd_authHandler h) v s' u \<and> sameLogin s s' \<and>
      AuthorizeRequest embeddedOIDC getReviews (ti_Subject (ss_Token s)) (ti_Groups (ss_Token s)) (ss_ClusterID s) = None \<and>
      (ac_ClientType ctx = ClientTypeUI \<longrightarrow> ss_ClusterID s = cp_ClusterID (GetQueryParams r)))"
  using serve_protected [OF assms(12), of now w epoch random]
proof (elim disjE exE conjE)
  fix ctx
  let ?am = "hd_authMiddleware h"
  assume acc: "accepted ?am now w r = Some ctx" and run: "serve h epoch now random r w = handleProtected h p ctx r w"
  have inv: "session_store.auth_inv session verifier (hd_authHandler h) tr w t"
    using session_store.auth_inv_serveRun [OF assms(1,8,9) refl assms(3-7)] by blast
  have am: "am_sessionStore ?am = ah_sessionStore (hd_authHandler h)" "am_jwtService ?am = ah_jwtService (hd_authHandler h)"
    "am_cookies ?am = ah_cookies (hd_authHandler h)" "am_embeddedOIDC ?am = embeddedOIDC" "am_getReviews ?am = getReviews"
    by (simp_all add: assms(2) NewAuthMiddleware_def)
  have unf: "unforgeable (am_jwtService ?am) (am_cookies ?am) tr" using assms(11) am by simp
  from session_store.accepted_vouched [OF assms(1) inv am(1-3) unf acc assms(10)] obtain s v s' u resp where
    s: "ac_SessionState ctx = Some s" "LoggedIn v s' u resp \<in> set tr" "vouched (hd_authHandler h) v s' u" "sameLogin s s'"
      "AuthorizeRequest embeddedOIDC getReviews (ti_Subject (ss_Token s)) (ti_Groups (ss_Token s)) (ss_ClusterID s) = None"
    unfolding am by blast
  have "ss_ClusterID s = cp_ClusterID (GetQueryParams r)" if "ac_ClientType ctx = ClientTypeUI"
  proof -
    have "loginsVouched (hd_authHandler h) tr" using inv by (simp add: session_store.auth_inv_def [OF assms(1)])
    moreover have "ac_ClientType (authContext ?am now r) = ClientTypeUI" "ac_SessionState (authContext ?am now r) = Some s"
      using acc that s(1) by (auto elim: accepted_Some)
    ultimately show ?thesis using cookie_cluster [OF unf _ am(3)] by (simp add: GetQueryParams_def Let_def)
  qed
  with run s show ?thesis
    by (intro disjI2 exI [of _ ctx] exI [of _ s] exI [of _ v] exI [of _ s'] exI [of _ u] exI [of _ resp]) simp
qed auto

text \<open>A backend without clusters, and the login of the command line from before.\<close>

definition exampleBackend :: "memory_Store http_handler" where
  "exampleBackend =
     (let none = PlainError ''none'' in
      \<lparr>hd_authHandler = exampleHandler, hd_authMiddleware = exampleMiddleware, hd_providerPrettyName = [], hd_kubeManager = exampleManager,
       hd_konnectorHostAliases = [], hd_getCluster = (\<lambda>_. Inl none), hd_getCatalogue = (\<lambda>_. Inl none), hd_getRequests = (\<lambda>_. Inl none),
       hd_newConsumer = (\<lambda>_. Inl none), hd_resolver = offline, hd_GitVersion = [], hd_Marshal = (\<lambda>_. Inr []), hd_EncodeYAML = (\<lambda>_. Inr []),
       hd_DecodeBind = (\<lambda>_. Inr exampleBindable), hd_IsMaxBytesError = (\<lambda>_. False), hd_DecodeApply = (\<lambda>_. Inl none), hd_Base64Decode = Inr,
       hd_oidcServer = None, hd_serveOIDC = (\<lambda>_. Body [] []), hd_frontend = [], hd_proxy = (\<lambda>_. Body [] []), hd_Abs = Inr,
       hd_Open = (\<lambda>_. NotExist), hd_file = (\<lambda>_. Body [] [])\<rparr>)"

definition requestTo :: "string \<Rightarrow> string \<Rightarrow> http_request \<Rightarrow> http_request" where
  "requestTo path cluster r = r\<lparr>hq_Path := path, hq_Query := Mapping.update ''cluster_id'' cluster Mapping.empty\<rparr>"

lemma exampleBackend_apart: "sessionsApart memory_session memory_verifier exampleBackend"
  unfolding sessionsApart_def
proof (intro allI impI)
  fix p ctx r w resp w' x i
  assume "handleProtected exampleBackend p ctx r w = Some (Returns (resp, w'))"
  then have "w' = w"
    by (cases p) (auto simp: exampleBackend_def Let_def handleBind_def handleConsumerStatus_def handleApplyBinding_def HandleResources_def
        split: if_splits option.splits)
  then show "memory_session x w' i = memory_session x w i \<and> memory_verifier x w' i = memory_verifier x w i" by simp
qed

definition exampleServed :: "(auth_event list \<times> memory_Store) option" where
  "exampleServed =
     (let r1 = requestTo ''/api/authorize'' [] (exampleHttp ''POST'' [] []);
          r2 = requestTo ''/api/callback'' [] (exampleHttp ''GET'' [(''state'', ''state''), (''code'', ''code'')] [])
      in case serve exampleBackend 0 Second (Inr ''verifier'') r1 memory_New of
           Some (Returns (_, w1)) \<Rightarrow>
             (case serve exampleBackend 0 (2 * Second) (Inr ''verifier'') r2 w1 of
                Some (Returns (_, w2)) \<Rightarrow>
                  Some (serveEvents exampleBackend (2 * Second) (Inr ''verifier'') r2 w1 @
                        serveEvents exampleBackend Second (Inr ''verifier'') r1 memory_New @ [], w2)
              | _ \<Rightarrow> None)
         | _ \<Rightarrow> None)"

lemma exampleServed_login: "exampleServed = Some exampleLogin"
  unfolding exampleLogin_value by code_simp

lemma exampleServed_run: "serveRun exampleBackend 0 memory_New 1 (fst exampleLogin) (snd exampleLogin) (2 * Second)"
proof -
  have "exampleServed = Some (tr, w) \<Longrightarrow> serveRun exampleBackend 0 memory_New 1 tr w (2 * Second)" for tr w
    unfolding exampleServed_def Let_def
    by (auto simp: Second_def split: option.splits outcome.splits prod.splits
        intro!: serveRun.request [OF serveRun.request [OF serveRun.start], simplified append_Nil2])
  with exampleServed_login show ?thesis by (metis prod.collapse)
qed

theorem protected_routes_guarded_witness:
  "serve exampleBackend 0 (3 * Second) (Inr []) (requestTo ''/api/ping'' ''c1'' (exampleHttp ''GET'' [] ''Bearer token'')) (snd exampleLogin) =
     Some (Returns (Body ''pong'' [], snd exampleLogin)) \<and>
   (\<exists>(ctx :: AuthContext) s v s' u resp. ac_SessionState ctx = Some s \<and> LoggedIn v s' u resp \<in> set (fst exampleLogin) \<and>
      vouched exampleHandler v s' u \<and> sameLogin s s' \<and>
      AuthorizeRequest False (am_getReviews exampleMiddleware) (ti_Subject (ss_Token s)) (ti_Groups (ss_Token s)) (ss_ClusterID s) = None)"
proof
  let ?r = "requestTo ''/api/ping'' ''c1'' (exampleHttp ''GET'' [] ''Bearer token'')"
  show pong: "serve exampleBackend 0 (3 * Second) (Inr []) ?r (snd exampleLogin) = Some (Returns (Body ''pong'' [], snd exampleLogin))"
    unfolding exampleLogin_value by code_simp
  have unf: "unforgeable (ah_jwtService (hd_authHandler exampleBackend)) (ah_cookies (hd_authHandler exampleBackend)) (fst exampleLogin)"
    by (auto simp: unforgeable_def exampleLogin_value handedOut_def exampleHandler_def exampleBackend_def Let_def split: if_splits)
  have route: "AddRoutes exampleBackend ?r = Protected Ping" by code_simp
  have store: "session_store (ah_sessionStore (hd_authHandler exampleBackend)) memory_session memory_verifier"
    using memory.session_store_axioms by (simp add: exampleBackend_def exampleHandler_def Let_def)
  have am: "hd_authMiddleware exampleBackend =
      NewAuthMiddleware (hd_authHandler exampleBackend) False (am_getReviews exampleMiddleware)"
    by (simp add: exampleBackend_def NewAuthMiddleware_def exampleMiddleware_def exampleHandler_def Let_def)
  have h: "hd_authHandler exampleBackend = exampleHandler" by (simp add: exampleBackend_def Let_def)
  have "(\<exists>status code message details. status \<in> {400, 401, 403, 404, 500} \<and>
      serve exampleBackend 0 (3 * Second) (Inr []) ?r (snd exampleLogin) =
        Some (Returns (ErrorResponse status code message details, snd exampleLogin))) \<or>
    (\<exists>ctx s v s' u resp. serve exampleBackend 0 (3 * Second) (Inr []) ?r (snd exampleLogin) =
        handleProtected exampleBackend Ping ctx ?r (snd exampleLogin) \<and> ac_SessionState ctx = Some s \<and>
      LoggedIn v s' u resp \<in> set (fst exampleLogin) \<and> vouched (hd_authHandler exampleBackend) v s' u \<and> sameLogin s s' \<and>
      AuthorizeRequest False (am_getReviews exampleMiddleware) (ti_Subject (ss_Token s)) (ti_Groups (ss_Token s)) (ss_ClusterID s) = None \<and>
      (ac_ClientType ctx = ClientTypeUI \<longrightarrow> ss_ClusterID s = cp_ClusterID (GetQueryParams ?r)))"
    by (rule protected_routes_guarded [OF store am _ _ exampleBackend_apart _ _ exampleServed_run _ _ unf route])
       (simp_all add: h memory_session_def memory_verifier_def memory_New_def Second_def Minute_def Hour_def exampleHandler_def)
  then show "\<exists>(ctx :: AuthContext) s v s' u resp. ac_SessionState ctx = Some s \<and> LoggedIn v s' u resp \<in> set (fst exampleLogin) \<and>
      vouched exampleHandler v s' u \<and> sameLogin s s' \<and>
      AuthorizeRequest False (am_getReviews exampleMiddleware) (ti_Subject (ss_Token s)) (ti_Groups (ss_Token s)) (ss_ClusterID s) = None"
    unfolding h pong by blast
qed

section \<open>What is not guarded\<close>

text \<open>
  The access review is about the cluster of the session, and the handlers act on the cluster of the
  query. A token for the cluster \<open>c1\<close> gets a request to bind in \<open>c2\<close> through, where
  its user may not bind.
\<close>

lemma token_for_other_cluster:
  "AddRoutes exampleBackend (requestTo ''/api/bind'' ''c2'' (exampleHttp ''POST'' [] ''Bearer token'')) = Protected Bind \<and>
   accepted exampleMiddleware (3 * Second) (snd exampleLogin) (requestTo ''/api/bind'' ''c2'' (exampleHttp ''POST'' [] ''Bearer token'')) \<noteq> None \<and>
   AuthorizeRequest False (am_getReviews exampleMiddleware) ''alice'' [''dev''] ''c2'' \<noteq> None"
  unfolding exampleLogin_value by (intro conjI; code_simp)

text \<open>Whose namespace is prepared and whose kubeconfig is returned is up to the client, not to its session.\<close>

lemma bindConsumer_chosen_by_client:
  assumes "ident \<noteq> UIIdentity \<or> cp_ConsumerID params \<noteq> []"
  shows "bindConsumer s1 params ident = bindConsumer s2 params ident"
  using assms by (auto simp: bindConsumer_def)

text \<open>Logging out leaves the session in the store: a token or a copy of the cookie is accepted as before.\<close>

lemma logout_keeps_session:
  assumes "AddRoutes h r = Logout"
  shows "serve h epoch now random r w = Some (Returns (handleLogout epoch r, w))"
  using assms by (simp add: serve_def)

text \<open>Host aliases are cut at the first colon, also inside of an IPv6 address.\<close>

lemma parseHostAlias_IPv6:
  "parseHostAlias ''fd00::1:host'' = Some \<lparr>ha_IP = ''fd00'', ha_Hostnames = ['':1:host'']\<rparr> \<and> parseHostAlias ''::1:host'' = None \<and>
   parseHostAlias ''10.0.0.1:a,b'' = Some \<lparr>ha_IP = ''10.0.0.1'', ha_Hostnames = [''a'', ''b'']\<rparr>"
  by (intro conjI; code_simp)

end
