(* ===== verification/Kcp_Provider.thy ===== *)
theory Kcp_Provider
  imports Backend_Requests Backend_Bindable
begin

text \<open>
  The kcp provider of the backend (\<open>src/backend/provider/kcp\<close>): templates are made from the API bindings of
  a workspace, the schemas of a template are copied into the workspace, a role lets the backend read
  the bindings, clusters are engaged, and the external address of a cluster is derived from its
  URL. The lemmas show which templates a binding has after a reconciliation, that the copies are
  exported and never refreshed, and what two generators of an external address may mix up.
\<close>

section \<open>Bindings and schemas of kcp\<close>

record BoundAPIResource =
  bo_Group :: string
  bo_Resource :: string
  bo_SchemaName :: string

record APIBinding =
  kb_meta :: ObjectMeta
  kb_Phase :: string
  kb_BoundResources :: "BoundAPIResource list"

abbreviation APIBindingPhaseBound :: string where "APIBindingPhaseBound \<equiv> ''Bound''"

text \<open>The fields of a schema that are read; the others are one value.\<close>

record APIResourceSchemaSpec =
  ks_Scope :: ResourceScope
  ks_Versions :: "(string \<times> bool) list"
  ks_Rest :: json

record APIResourceSchema =
  kr_meta :: ObjectMeta
  kr_Spec :: APIResourceSchemaSpec

text \<open>
  \<open>controllerutil.SetOwnerReference\<close>: a reference without the controller flag replaces the one to the same
  object or is appended. The kind of the owner comes from the scheme.
\<close>

definition ownerReference :: "string \<times> string \<Rightarrow> ObjectMeta \<Rightarrow> OwnerReference" where
  "ownerReference gvk owner =
     \<lparr>or_APIVersion = fst gvk, or_Kind = snd gvk, or_Name = m_Name owner, or_UID = m_UID owner, or_Controller = False\<rparr>"

fun upsertOwnerRef :: "OwnerReference \<Rightarrow> OwnerReference list \<Rightarrow> OwnerReference list" where
  "upsertOwnerRef ref [] = [ref]"
| "upsertOwnerRef ref (x # xs) =
     (if or_APIVersion x = or_APIVersion ref \<and> or_Kind x = or_Kind ref \<and> or_Name x = or_Name ref then ref # xs
      else x # upsertOwnerRef ref xs)"

definition SetOwnerReference :: "(string \<times> string) result \<Rightarrow> ObjectMeta \<Rightarrow> ObjectMeta \<Rightarrow> ObjectMeta result" where
  "SetOwnerReference gvk owner object =
     (case gvk of
        Inl err \<Rightarrow> Inl err
      | Inr g \<Rightarrow> Inr (object\<lparr>m_OwnerReferences := upsertOwnerRef (ownerReference g owner) (m_OwnerReferences object)\<rparr>))"

section \<open>Templates of a binding\<close>

definition AnnotationOwnerBinding :: string where
  "AnnotationOwnerBinding = ''apibindingtemplate.kube-bind.io/owner-binding''"

definition templateNameForBinding :: "string \<Rightarrow> InformerScope \<Rightarrow> string" where
  "templateNameForBinding bname scope =
     (if scope = ClusterScope then bname @ ''-cluster'' else bname @ ''-namespaced'')"

record 'w template_client =
  tc_templates :: "(APIServiceExportTemplate, 'w) access"
  tc_list :: "'w \<Rightarrow> APIServiceExportTemplate list result"
  tc_delete :: "'w \<Rightarrow> APIServiceExportTemplate \<Rightarrow> error option \<times> 'w"
  tc_bindingGVK :: "(string \<times> string) result"
  tc_getAPIResourceSchema :: "'w \<Rightarrow> string \<Rightarrow> APIResourceSchema result"

definition scopedResource :: "BoundAPIResource \<Rightarrow> APIResourceSchema \<Rightarrow> InformerScope \<times> APIServiceExportResource" where
  "scopedResource boundRes schema =
     (if ks_Scope (kr_Spec schema) = ClusterScoped then ClusterScope else NamespacedScope,
      \<lparr>rr_GroupResource = \<lparr>gr_Group = bo_Group boundRes, gr_Resource = bo_Resource boundRes\<rparr>,
       rr_Versions = map fst (filter snd (ks_Versions (kr_Spec schema)))\<rparr>)"

fun groupResources ::
  "(string \<Rightarrow> APIResourceSchema result) \<Rightarrow> string \<Rightarrow> BoundAPIResource list \<Rightarrow> (InformerScope \<times> APIServiceExportResource) list result" where
  "groupResources getSchema bname [] = Inr []"
| "groupResources getSchema bname (boundRes # rest) =
     (case getSchema (bo_SchemaName boundRes) of
        Inl err \<Rightarrow> Inl (wrapError (Sprintf ''failed to get APIResourceSchema %q for binding %q'' [FStr (bo_SchemaName boundRes), FStr bname]) err)
      | Inr schema \<Rightarrow>
          (case groupResources getSchema bname rest of
             Inl err \<Rightarrow> Inl err | Inr grouped \<Rightarrow> Inr (scopedResource boundRes schema # grouped)))"

definition resourcesOf :: "InformerScope \<Rightarrow> (InformerScope \<times> APIServiceExportResource) list \<Rightarrow> APIServiceExportResource list" where
  "resourcesOf scope grouped = map snd (filter (\<lambda>sr. fst sr = scope) grouped)"

definition scopeTemplate :: "string \<Rightarrow> InformerScope \<Rightarrow> APIServiceExportResource list \<Rightarrow> APIServiceExportTemplate" where
  "scopeTemplate bname scope resources =
     \<lparr>at_meta = emptyMeta\<lparr>m_Name := templateNameForBinding bname scope,
        m_Annotations := Mapping.update AnnotationOwnerBinding bname Mapping.empty\<rparr>,
      at_Spec = \<lparr>ats_Description = [], ats_Scope = scope, ats_Resources = resources, ats_PermissionClaims = [], ats_Namespaces = [],
        ats_SchemaUpdatePolicy = []\<rparr>,
      at_Conditions = []\<rparr>"

text \<open>The order of the map over the two scopes is a parameter.\<close>

definition buildTemplates ::
  "InformerScope list \<Rightarrow> (string \<Rightarrow> APIResourceSchema result) \<Rightarrow> APIBinding \<Rightarrow> APIServiceExportTemplate list result" where
  "buildTemplates scopeOrder getSchema binding =
     (case groupResources getSchema (m_Name (kb_meta binding)) (kb_BoundResources binding) of
        Inl err \<Rightarrow> Inl err
      | Inr grouped \<Rightarrow>
          Inr (map (\<lambda>scope. scopeTemplate (m_Name (kb_meta binding)) scope (resourcesOf scope grouped))
                 (filter (\<lambda>scope. resourcesOf scope grouped \<noteq> []) scopeOrder)))"

definition ensureTemplate ::
  "'w template_client \<Rightarrow> APIBinding \<Rightarrow> APIServiceExportTemplate \<Rightarrow> 'w \<Rightarrow> error option \<times> 'w" where
  "ensureTemplate tc binding desired w =
     (let name = m_Name (at_meta desired)
      in case ac_get (tc_templates tc) w \<lparr>nn_Namespace = [], nn_Name = name\<rparr> of
           Inl err \<Rightarrow>
             if IsNotFound err
             then (case ac_create (tc_templates tc) w desired of
                 (Some err2, w1) \<Rightarrow> (Some (wrapError (''failed to create APIServiceExportTemplate '' @ quote name) err2), w1)
               | (None, w1) \<Rightarrow> (None, w1))
             else (Some (wrapError (''failed to get APIServiceExportTemplate '' @ quote name) err), w)
         | Inr existing0 \<Rightarrow>
             let specDiffers = (at_Spec existing0 \<noteq> at_Spec desired);
                 existing = existing0\<lparr>at_Spec := at_Spec desired\<rparr>;
                 update = (\<lambda>ob. case ac_update (tc_templates tc) w ob of
                     (Some err, w1) \<Rightarrow> (Some (wrapError (''failed to update APIServiceExportTemplate '' @ quote name) err), w1)
                   | (None, w1) \<Rightarrow> (None, w1))
             in if \<not> IsControlledBy (at_meta existing) (kb_meta binding)
                then (case SetOwnerReference (tc_bindingGVK tc) (kb_meta binding) (at_meta existing) of
                    Inl err \<Rightarrow> (Some (wrapError (''failed to set owner reference on APIServiceExportTemplate '' @ quote name) err), w)
                  | Inr owned \<Rightarrow> update (existing\<lparr>at_meta := owned\<rparr>))
                else if specDiffers then update existing else (None, w))"

fun ensureTemplates ::
  "'w template_client \<Rightarrow> APIBinding \<Rightarrow> APIServiceExportTemplate list \<Rightarrow> 'w \<Rightarrow> error option \<times> 'w" where
  "ensureTemplates tc binding [] w = (None, w)"
| "ensureTemplates tc binding (desired # rest) w =
     (case SetOwnerReference (tc_bindingGVK tc) (kb_meta binding) (at_meta desired) of
        Inl err \<Rightarrow> (Some (wrapError (''failed to set owner reference on APIServiceExportTemplate '' @ quote (m_Name (at_meta desired))) err), w)
      | Inr owned \<Rightarrow>
          (case ensureTemplate tc binding (desired\<lparr>at_meta := owned\<rparr>) w of
             (Some err, w1) \<Rightarrow> (Some err, w1) | (None, w1) \<Rightarrow> ensureTemplates tc binding rest w1))"

fun deleteOrphanedTemplates ::
  "'w template_client \<Rightarrow> string \<Rightarrow> string list \<Rightarrow> APIServiceExportTemplate list \<Rightarrow> 'w \<Rightarrow> error option \<times> 'w" where
  "deleteOrphanedTemplates tc bname desiredNames [] w = (None, w)"
| "deleteOrphanedTemplates tc bname desiredNames (tmpl # rest) w =
     (if mget (m_Annotations (at_meta tmpl)) AnnotationOwnerBinding \<noteq> bname \<or> m_Name (at_meta tmpl) \<in> set desiredNames
      then deleteOrphanedTemplates tc bname desiredNames rest w
      else (case tc_delete tc w tmpl of
          (Some err, w1) \<Rightarrow>
            if IsNotFound err then deleteOrphanedTemplates tc bname desiredNames rest w1
            else (Some (wrapError (''failed to delete orphaned APIServiceExportTemplate '' @ quote (m_Name (at_meta tmpl))) err), w1)
        | (None, w1) \<Rightarrow> deleteOrphanedTemplates tc bname desiredNames rest w1))"

definition pruneOrphanedTemplates :: "'w template_client \<Rightarrow> APIBinding \<Rightarrow> string list \<Rightarrow> 'w \<Rightarrow> error option \<times> 'w" where
  "pruneOrphanedTemplates tc binding desiredNames w =
     (case tc_list tc w of
        Inl err \<Rightarrow> (Some (wrapError ''failed to list APIServiceExportTemplates'' err), w)
      | Inr allTemplates \<Rightarrow> deleteOrphanedTemplates tc (m_Name (kb_meta binding)) desiredNames allTemplates w)"

definition template_reconcile :: "InformerScope list \<Rightarrow> 'w template_client \<Rightarrow> APIBinding \<Rightarrow> 'w \<Rightarrow> error option \<times> 'w" where
  "template_reconcile scopeOrder tc binding w =
     (if kb_Phase binding \<noteq> APIBindingPhaseBound \<or> kb_BoundResources binding = [] then (None, w)
      else (case buildTemplates scopeOrder (tc_getAPIResourceSchema tc w) binding of
          Inl err \<Rightarrow> (Some err, w)
        | Inr templates \<Rightarrow>
            (case ensureTemplates tc binding templates w of
               (Some err, w1) \<Rightarrow> (Some err, w1)
             | (None, w1) \<Rightarrow> pruneOrphanedTemplates tc binding (map (\<lambda>t. m_Name (at_meta t)) templates) w1)))"

definition shouldIgnore :: "string list \<Rightarrow> string \<Rightarrow> bool" where
  "shouldIgnore ignorePrefixes name = list_ex (HasPrefix name) ignorePrefixes"

definition template_Reconcile ::
  "string list \<Rightarrow> InformerScope list \<Rightarrow> (string \<Rightarrow> 'w template_client result) \<Rightarrow> ('w \<Rightarrow> NamespacedName \<Rightarrow> APIBinding result) \<Rightarrow>
     string \<Rightarrow> NamespacedName \<Rightarrow> 'w \<Rightarrow> error option \<times> 'w" where
  "template_Reconcile ignorePrefixes scopeOrder getCluster getBinding clusterName key w =
     (if shouldIgnore ignorePrefixes (nn_Name key) then (None, w)
      else (case getCluster clusterName of
          Inl err \<Rightarrow> (Some (wrapError (''failed to get client for cluster '' @ quote clusterName) err), w)
        | Inr tc \<Rightarrow>
            (case getBinding w key of
               Inl err \<Rightarrow> (if IsNotFound err then None else Some (wrapError (''failed to get APIBinding '' @ quote (nn_Name key)) err), w)
             | Inr binding \<Rightarrow> template_reconcile scopeOrder tc binding w)))"

text \<open>Which binding a changed template enqueues.\<close>

definition getTemplateMapper :: "('w \<Rightarrow> NamespacedName \<Rightarrow> APIBinding result) \<Rightarrow> ObjectMeta \<Rightarrow> 'w \<Rightarrow> NamespacedName list" where
  "getTemplateMapper getBinding meta w =
     (case Mapping.lookup (m_Annotations meta) AnnotationOwnerBinding of
        None \<Rightarrow> []
      | Some ownerName \<Rightarrow>
          let key = \<lparr>nn_Namespace = [], nn_Name = ownerName\<rparr>
          in (case getBinding w key of Inl err \<Rightarrow> [] | Inr binding \<Rightarrow> [key]))"

section \<open>The templates after a reconciliation\<close>

lemma templateNameForBinding_inj:
  "templateNameForBinding b s = templateNameForBinding b' s' \<longleftrightarrow> b = b' \<and> (s = ClusterScope \<longleftrightarrow> s' = ClusterScope)"
proof -
  have "last (x @ ''-cluster'') \<noteq> last (y @ ''-namespaced'')" for x y :: string by simp
  then have "x @ ''-cluster'' \<noteq> y @ ''-namespaced''" for x y :: string by metis
  from this [of b b'] this [of b' b] show ?thesis by (auto simp: templateNameForBinding_def)
qed

lemma upsertOwnerRef_in: "ref \<in> set (upsertOwnerRef ref refs)"
  by (induction refs) auto

definition ownedBy :: "ObjectMeta \<Rightarrow> APIServiceExportTemplate \<Rightarrow> bool" where
  "ownedBy owner t \<longleftrightarrow> (\<exists>ref\<in>set (m_OwnerReferences (at_meta t)). or_UID ref = m_UID owner)"

lemma SetOwnerReference_owner:
  assumes "SetOwnerReference gvk owner (at_meta t) = Inr m"
  shows "ownedBy owner (t\<lparr>at_meta := m\<rparr>)" "keyOfMeta m = keyOfMeta (at_meta t)" "m_Name m = m_Name (at_meta t)"
    and "m_Annotations m = m_Annotations (at_meta t)"
proof -
  from assms obtain g where m: "m = (at_meta t)\<lparr>m_OwnerReferences := upsertOwnerRef (ownerReference g owner) (m_OwnerReferences (at_meta t))\<rparr>"
    by (auto simp: SetOwnerReference_def split: sum.splits)
  show "ownedBy owner (t\<lparr>at_meta := m\<rparr>)"
    unfolding ownedBy_def by (rule bexI [of _ "ownerReference g owner"]) (simp_all add: m upsertOwnerRef_in ownerReference_def)
qed (use assms in \<open>auto simp: SetOwnerReference_def keyOfMeta_def split: sum.splits\<close>)

lemma IsControlledBy_owned: "IsControlledBy (at_meta t) owner \<Longrightarrow> ownedBy owner t"
  by (auto simp: IsControlledBy_def ownedBy_def find_Some_iff split: option.splits)

text \<open>The templates of a workspace; they have no namespace.\<close>

locale template_store = strict_store at_meta "tc_templates tc" for tc :: "'w template_client" +
  assumes list_all: "tc_list tc w = Inr ts \<Longrightarrow> t \<in> set ts \<longleftrightarrow> ac_get (tc_templates tc) w (keyOfMeta (at_meta t)) = Inr t"
    and delete: "tc_delete tc w t = (None, w') \<Longrightarrow> if k = keyOfMeta (at_meta t) then (\<exists>err. ac_get (tc_templates tc) w' k = Inl err)
      else ac_get (tc_templates tc) w' k = ac_get (tc_templates tc) w k"
    and delete_failed: "tc_delete tc w t = (Some err, w') \<Longrightarrow> w' = w \<and>
      (IsNotFound err \<longrightarrow> (\<exists>err. ac_get (tc_templates tc) w (keyOfMeta (at_meta t)) = Inl err))"
    and no_namespace: "ac_get (tc_templates tc) w k = Inr t \<Longrightarrow> nn_Namespace k = []"
begin

abbreviation tget :: "'w \<Rightarrow> NamespacedName \<Rightarrow> APIServiceExportTemplate result" where
  "tget \<equiv> ac_get (tc_templates tc)"

lemma ensureTemplate_post:
  assumes "ensureTemplate tc b desired w = (None, w')" "m_Namespace (at_meta desired) = []" "ownedBy (kb_meta b) desired"
  shows "\<exists>t. tget w' (keyOfMeta (at_meta desired)) = Inr t \<and> at_Spec t = at_Spec desired \<and> ownedBy (kb_meta b) t"
    and "k \<noteq> keyOfMeta (at_meta desired) \<Longrightarrow> tget w' k = tget w k"
proof -
  let ?k = "keyOfMeta (at_meta desired)"
  have k: "?k = \<lparr>nn_Namespace = [], nn_Name = m_Name (at_meta desired)\<rparr>" using assms(2) by (simp add: keyOfMeta_def)
  have "(\<exists>t. keyOfMeta (at_meta t) = ?k \<and> at_Spec t = at_Spec desired \<and> ownedBy (kb_meta b) t \<and>
      (ac_create (tc_templates tc) w t = (None, w') \<or> ac_update (tc_templates tc) w t = (None, w'))) \<or>
    (\<exists>t. tget w ?k = Inr t \<and> at_Spec t = at_Spec desired \<and> ownedBy (kb_meta b) t \<and> w' = w)"
  proof (cases "tget w ?k")
    case (Inl err)
    with assms show ?thesis
      by (intro disjI1 exI [of _ desired]) (auto simp: ensureTemplate_def Let_def k [symmetric] split: if_splits prod.splits option.splits)
  next
    case (Inr old)
    let ?e = "old\<lparr>at_Spec := at_Spec desired\<rparr>"
    have key: "keyOfMeta (at_meta old) = ?k" by (rule get_key [OF Inr])
    show ?thesis
    proof (cases "IsControlledBy (at_meta old) (kb_meta b)")
      case True
      then have o: "ownedBy (kb_meta b) old" "ownedBy (kb_meta b) ?e" using IsControlledBy_owned [of old] IsControlledBy_owned [of ?e] by simp_all
      with Inr True assms(1) key show ?thesis
        by (cases "at_Spec old = at_Spec desired")
           (auto simp: ensureTemplate_def Let_def k [symmetric] split: prod.splits option.splits intro!: exI [of _ ?e])
    next
      case False
      with Inr assms(1) obtain m where m: "SetOwnerReference (tc_bindingGVK tc) (kb_meta b) (at_meta ?e) = Inr m"
        "ac_update (tc_templates tc) w (?e\<lparr>at_meta := m\<rparr>) = (None, w')"
        by (auto simp: ensureTemplate_def Let_def k [symmetric] split: sum.splits prod.splits option.splits)
      from SetOwnerReference_owner [OF m(1)] key m(2) show ?thesis by (intro disjI1 exI [of _ "?e\<lparr>at_meta := m\<rparr>"]) simp
    qed
  qed
  then show "\<exists>t. tget w' ?k = Inr t \<and> at_Spec t = at_Spec desired \<and> ownedBy (kb_meta b) t"
    and "k \<noteq> ?k \<Longrightarrow> tget w' k = tget w k"
    using get_create get_update by fastforce+
qed

lemma ensureTemplates_post:
  assumes "ensureTemplates tc b ds w = (None, w')" "\<And>d. d \<in> set ds \<Longrightarrow> m_Namespace (at_meta d) = []"
    and "distinct (map (\<lambda>d. m_Name (at_meta d)) ds)"
  shows "d \<in> set ds \<Longrightarrow> \<exists>t. tget w' (keyOfMeta (at_meta d)) = Inr t \<and> at_Spec t = at_Spec d \<and> ownedBy (kb_meta b) t"
    and "nn_Name k \<notin> (\<lambda>d. m_Name (at_meta d)) ` set ds \<Longrightarrow> tget w' k = tget w k"
proof -
  have "(\<forall>d\<in>set ds. \<exists>t. tget w' (keyOfMeta (at_meta d)) = Inr t \<and> at_Spec t = at_Spec d \<and> ownedBy (kb_meta b) t) \<and>
    (\<forall>k. nn_Name k \<notin> (\<lambda>d. m_Name (at_meta d)) ` set ds \<longrightarrow> tget w' k = tget w k)"
    using assms
  proof (induction ds arbitrary: w)
    case (Cons d ds)
    from Cons.prems(1) obtain m w1 where m: "SetOwnerReference (tc_bindingGVK tc) (kb_meta b) (at_meta d) = Inr m"
      and e: "ensureTemplate tc b (d\<lparr>at_meta := m\<rparr>) w = (None, w1)" and rest: "ensureTemplates tc b ds w1 = (None, w')"
      by (auto split: sum.splits prod.splits option.splits)
    note own = SetOwnerReference_owner [OF m]
    have "m_Namespace m = []" using own(2) Cons.prems(2) [of d] by (simp add: keyOfMeta_def)
    note post = ensureTemplate_post [OF e _ own(1), simplified, OF this]
    have IH: "\<forall>d\<in>set ds. \<exists>t. tget w' (keyOfMeta (at_meta d)) = Inr t \<and> at_Spec t = at_Spec d \<and> ownedBy (kb_meta b) t"
      "\<forall>k. nn_Name k \<notin> (\<lambda>d. m_Name (at_meta d)) ` set ds \<longrightarrow> tget w' k = tget w1 k"
      using Cons.IH [OF rest] Cons.prems by auto
    from Cons.prems(3) have "nn_Name (keyOfMeta (at_meta d)) \<notin> (\<lambda>d. m_Name (at_meta d)) ` set ds" by (simp add: keyOfMeta_def)
    with IH(2) post(1) have "\<exists>t. tget w' (keyOfMeta (at_meta d)) = Inr t \<and> at_Spec t = at_Spec d \<and> ownedBy (kb_meta b) t"
      by (simp add: own(2))
    moreover have "tget w1 k = tget w k" if "nn_Name k \<noteq> m_Name (at_meta d)" for k
      using post(2) [of k] that own(3) by (cases k) (auto simp: keyOfMeta_def)
    ultimately show ?case using IH by auto
  qed simp
  then show "d \<in> set ds \<Longrightarrow> \<exists>t. tget w' (keyOfMeta (at_meta d)) = Inr t \<and> at_Spec t = at_Spec d \<and> ownedBy (kb_meta b) t"
    and "nn_Name k \<notin> (\<lambda>d. m_Name (at_meta d)) ` set ds \<Longrightarrow> tget w' k = tget w k" by blast+
qed

definition orphan :: "string \<Rightarrow> string list \<Rightarrow> APIServiceExportTemplate \<Rightarrow> bool" where
  "orphan b names t \<longleftrightarrow> mget (m_Annotations (at_meta t)) AnnotationOwnerBinding = b \<and> m_Name (at_meta t) \<notin> set names"

lemma deleteOrphanedTemplates_post:
  assumes "deleteOrphanedTemplates tc b names ts w = (None, w')"
  shows "if \<exists>t\<in>set ts. orphan b names t \<and> keyOfMeta (at_meta t) = k then \<exists>err. tget w' k = Inl err else tget w' k = tget w k"
    and "tget w k = Inl err \<Longrightarrow> \<exists>err. tget w' k = Inl err"
proof -
  have "(if \<exists>t\<in>set ts. orphan b names t \<and> keyOfMeta (at_meta t) = k then \<exists>err. tget w' k = Inl err else tget w' k = tget w k) \<and>
    ((\<exists>err. tget w k = Inl err) \<longrightarrow> (\<exists>err. tget w' k = Inl err))"
    using assms
  proof (induction ts arbitrary: w)
    case (Cons t ts)
    show ?case
    proof (cases "orphan b names t")
      case True
      then obtain w1 where rest: "deleteOrphanedTemplates tc b names ts w1 = (None, w')"
        and w1: "if k = keyOfMeta (at_meta t) then \<exists>err. tget w1 k = Inl err else tget w1 k = tget w k"
        using Cons.prems delete [of w t] delete_failed [of w t]
        by (fastforce simp: orphan_def split: prod.splits option.splits if_splits)
      from Cons.IH [OF rest] w1 True show ?thesis by (auto split: if_splits)
    next
      case False
      with Cons.prems have "deleteOrphanedTemplates tc b names ts w = (None, w')" by (auto simp: orphan_def)
      from Cons.IH [OF this] False show ?thesis by (auto split: if_splits)
    qed
  qed simp
  then show "if \<exists>t\<in>set ts. orphan b names t \<and> keyOfMeta (at_meta t) = k then \<exists>err. tget w' k = Inl err else tget w' k = tget w k"
    and "tget w k = Inl err \<Longrightarrow> \<exists>err. tget w' k = Inl err" by blast+
qed

lemma pruneOrphanedTemplates_post:
  assumes "pruneOrphanedTemplates tc b names w = (None, w')"
  shows "tget w' k = Inr t \<Longrightarrow> \<not> orphan (m_Name (kb_meta b)) names t"
    and "tget w k = Inr t \<Longrightarrow> \<not> orphan (m_Name (kb_meta b)) names t \<Longrightarrow> tget w' k = Inr t"
proof -
  from assms obtain ts where ts: "tc_list tc w = Inr ts" "deleteOrphanedTemplates tc (m_Name (kb_meta b)) names ts w = (None, w')"
    by (auto simp: pruneOrphanedTemplates_def split: sum.splits)
  note post = deleteOrphanedTemplates_post(1) [OF ts(2), of k] and all = list_all [OF ts(1)]
  have same: "tget w' k = Inr t \<Longrightarrow> tget w k = Inr t \<and> \<not> (\<exists>t\<in>set ts. orphan (m_Name (kb_meta b)) names t \<and> keyOfMeta (at_meta t) = k)" for t
    using post by (auto split: if_splits)
  show "\<not> orphan (m_Name (kb_meta b)) names t" if "tget w' k = Inr t"
    using same [OF that] all [of t] get_key [of w k t] by auto
  show "tget w' k = Inr t" if "tget w k = Inr t" "\<not> orphan (m_Name (kb_meta b)) names t"
  proof -
    have "\<not> (\<exists>t\<in>set ts. orphan (m_Name (kb_meta b)) names t \<and> keyOfMeta (at_meta t) = k)" using all that by auto
    with post that(1) show ?thesis by simp
  qed
qed

lemma template_reconcile_post:
  assumes run: "template_reconcile scopeOrder tc b w = (None, w')"
    and bound: "kb_Phase b = APIBindingPhaseBound" "kb_BoundResources b \<noteq> []" "distinct scopeOrder" "set scopeOrder = {ClusterScope, NamespacedScope}"
    and g: "groupResources (tc_getAPIResourceSchema tc w) (m_Name (kb_meta b)) (kb_BoundResources b) = Inr g"
  shows "scope \<in> set scopeOrder \<Longrightarrow> resourcesOf scope g \<noteq> [] \<Longrightarrow>
      \<exists>t. tget w' \<lparr>nn_Namespace = [], nn_Name = templateNameForBinding (m_Name (kb_meta b)) scope\<rparr> = Inr t \<and>
        at_Spec t = at_Spec (scopeTemplate (m_Name (kb_meta b)) scope (resourcesOf scope g)) \<and> ownedBy (kb_meta b) t"
    and "tget w' k = Inr t \<Longrightarrow> mget (m_Annotations (at_meta t)) AnnotationOwnerBinding = m_Name (kb_meta b) \<Longrightarrow>
      \<exists>scope\<in>set scopeOrder. resourcesOf scope g \<noteq> [] \<and> nn_Name k = templateNameForBinding (m_Name (kb_meta b)) scope"
    and "tget w k = Inr t \<Longrightarrow> mget (m_Annotations (at_meta t)) AnnotationOwnerBinding \<noteq> m_Name (kb_meta b) \<Longrightarrow>
      \<forall>scope\<in>set scopeOrder. nn_Name k \<noteq> templateNameForBinding (m_Name (kb_meta b)) scope \<Longrightarrow> tget w' k = Inr t"
proof -
  let ?b = "m_Name (kb_meta b)" and ?scopes = "filter (\<lambda>scope. resourcesOf scope g \<noteq> []) scopeOrder"
  let ?ts = "map (\<lambda>scope. scopeTemplate ?b scope (resourcesOf scope g)) ?scopes"
  have names: "map (\<lambda>t. m_Name (at_meta t)) ?ts = map (templateNameForBinding ?b) ?scopes" by (simp add: scopeTemplate_def)
  from run bound(1,2) g obtain w1 where e: "ensureTemplates tc b ?ts w = (None, w1)"
    and p: "pruneOrphanedTemplates tc b (map (\<lambda>t. m_Name (at_meta t)) ?ts) w1 = (None, w')"
    by (auto simp: template_reconcile_def buildTemplates_def split: prod.splits option.splits)
  have "inj_on (templateNameForBinding ?b) (set ?scopes)"
    using bound(4) by (auto simp: inj_on_def templateNameForBinding_inj)
  then have dist: "distinct (map (\<lambda>t. m_Name (at_meta t)) ?ts)" using bound(3) by (simp only: names) (simp add: distinct_map)
  have ns: "m_Namespace (at_meta d) = []" if "d \<in> set ?ts" for d using that by (auto simp: scopeTemplate_def emptyMeta_def)
  note post = ensureTemplates_post [OF e ns dist] and prune = pruneOrphanedTemplates_post [OF p]
  have desired: "\<not> orphan ?b (map (\<lambda>t. m_Name (at_meta t)) ?ts) t" if "tget w1 k = Inr t" "nn_Name k \<in> set (map (\<lambda>t. m_Name (at_meta t)) ?ts)" for k t
    using that get_key [OF that(1)] by (auto simp: orphan_def keyOfMeta_def)
  show "\<exists>t. tget w' \<lparr>nn_Namespace = [], nn_Name = templateNameForBinding ?b scope\<rparr> = Inr t \<and>
        at_Spec t = at_Spec (scopeTemplate ?b scope (resourcesOf scope g)) \<and> ownedBy (kb_meta b) t"
    if "scope \<in> set scopeOrder" "resourcesOf scope g \<noteq> []"
  proof -
    let ?d = "scopeTemplate ?b scope (resourcesOf scope g)"
    have d: "?d \<in> set ?ts" using that by simp
    have k: "keyOfMeta (at_meta ?d) = \<lparr>nn_Namespace = [], nn_Name = templateNameForBinding ?b scope\<rparr>"
      by (simp add: scopeTemplate_def keyOfMeta_def emptyMeta_def)
    from post(1) [OF _ d] obtain t where t: "tget w1 (keyOfMeta (at_meta ?d)) = Inr t" "at_Spec t = at_Spec ?d" "ownedBy (kb_meta b) t" by auto
    with prune(2) [OF t(1) desired [OF t(1)]] that show ?thesis unfolding k names by auto
  qed
  show "\<exists>scope\<in>set scopeOrder. resourcesOf scope g \<noteq> [] \<and> nn_Name k = templateNameForBinding ?b scope"
    if "tget w' k = Inr t" "mget (m_Annotations (at_meta t)) AnnotationOwnerBinding = ?b"
    using prune(1) [OF that(1)] that(2) get_key [OF that(1)] unfolding orphan_def names by (auto simp: keyOfMeta_def)
  show "tget w' k = Inr t" if "tget w k = Inr t" "mget (m_Annotations (at_meta t)) AnnotationOwnerBinding \<noteq> ?b"
    "\<forall>scope\<in>set scopeOrder. nn_Name k \<noteq> templateNameForBinding ?b scope"
  proof -
    have "nn_Name k \<notin> (\<lambda>d. m_Name (at_meta d)) ` set ?ts" using that(3) by (auto simp: scopeTemplate_def)
    then have "tget w1 k = Inr t" using post(2) that(1) by auto
    with prune(2) [OF this] that(2) show ?thesis by (simp add: orphan_def)
  qed
qed

end

text \<open>A workspace: its templates and its schemas by name.\<close>

record workspace =
  wk_templates :: "(string \<times> APIServiceExportTemplate) list"
  wk_schemas :: "(string \<times> APIResourceSchema) list"

definition notFound :: error where
  "notFound = StatusError ReasonNotFound ''not found''"

text \<open>Objects without a namespace, by name; \<open>rename\<close> sets the name and removes the namespace.\<close>

definition renamed :: "string \<Rightarrow> ObjectMeta \<Rightarrow> ObjectMeta" where
  "renamed n m = m\<lparr>m_Name := n, m_Namespace := []\<rparr>"

definition namedGet :: "(string \<Rightarrow> 'o \<Rightarrow> 'o) \<Rightarrow> (string \<times> 'o) list \<Rightarrow> NamespacedName \<Rightarrow> 'o result" where
  "namedGet rename obs k =
     (if nn_Namespace k \<noteq> [] then Inl notFound
      else case map_of obs (nn_Name k) of None \<Rightarrow> Inl notFound | Some ob \<Rightarrow> Inr (rename (nn_Name k) ob))"

definition namedAccess ::
  "('o \<Rightarrow> ObjectMeta) \<Rightarrow> (string \<Rightarrow> 'o \<Rightarrow> 'o) \<Rightarrow> ('w \<Rightarrow> (string \<times> 'o) list) \<Rightarrow>
     (((string \<times> 'o) list \<Rightarrow> (string \<times> 'o) list) \<Rightarrow> 'w \<Rightarrow> 'w) \<Rightarrow> ('o, 'w) access" where
  "namedAccess meta rename sel upd =
     (let put = (\<lambda>ob. upd (AList.update (m_Name (meta ob)) ob)) in
      \<lparr>ac_get = (\<lambda>w. namedGet rename (sel w)),
       ac_create = (\<lambda>w ob. if m_Namespace (meta ob) \<noteq> [] then (Some (StatusError ReasonBadRequest ''namespace''), w)
         else case map_of (sel w) (m_Name (meta ob)) of
                Some _ \<Rightarrow> (Some (StatusError ReasonAlreadyExists ''already exists''), w) | None \<Rightarrow> (None, put ob w)),
       ac_update = (\<lambda>w ob. if m_Namespace (meta ob) \<noteq> [] then (Some (StatusError ReasonBadRequest ''namespace''), w)
         else case map_of (sel w) (m_Name (meta ob)) of None \<Rightarrow> (Some notFound, w) | Some _ \<Rightarrow> (None, put ob w))\<rparr>)"

lemma namedAccess_strict:
  assumes "\<And>f w. sel (upd f w) = f (sel w)" "\<And>n ob. meta (rename n ob) = renamed n (meta ob)"
    and "\<And>ob. m_Namespace (meta ob) = [] \<Longrightarrow> rename (m_Name (meta ob)) ob = ob"
  shows "strict_store meta (namedAccess meta rename sel upd)"
  by unfold_locales
    (use assms in \<open>auto simp: namedAccess_def namedGet_def keyOfMeta_def renamed_def Let_def update_conv split: option.splits if_splits\<close>)

definition renameTemplate :: "string \<Rightarrow> APIServiceExportTemplate \<Rightarrow> APIServiceExportTemplate" where
  "renameTemplate n t = t\<lparr>at_meta := renamed n (at_meta t)\<rparr>"

definition workspaceTemplates :: "(string \<times> string) result \<Rightarrow> (workspace \<Rightarrow> string \<Rightarrow> APIResourceSchema result) \<Rightarrow> workspace template_client" where
  "workspaceTemplates gvk getSchema =
     \<lparr>tc_templates = namedAccess at_meta renameTemplate wk_templates (\<lambda>f w. w\<lparr>wk_templates := f (wk_templates w)\<rparr>),
      tc_list = (\<lambda>w. Inr (map (\<lambda>(n, t). renameTemplate n t) (AList.clearjunk (wk_templates w)))),
      tc_delete = (\<lambda>w t. case namedGet renameTemplate (wk_templates w) (keyOfMeta (at_meta t)) of
         Inl err \<Rightarrow> (Some err, w) | Inr _ \<Rightarrow> (None, w\<lparr>wk_templates := AList.delete (m_Name (at_meta t)) (wk_templates w)\<rparr>)),
      tc_bindingGVK = gvk, tc_getAPIResourceSchema = getSchema\<rparr>"

lemma set_clearjunk: "(n, t) \<in> set (AList.clearjunk al) \<longleftrightarrow> map_of al n = Some t"
  by (metis distinct_clearjunk map_of_clearjunk map_of_eq_Some_iff)

interpretation workspace_templates: template_store "workspaceTemplates gvk getSchema" for gvk getSchema
proof -
  have strict: "strict_store at_meta (tc_templates (workspaceTemplates gvk getSchema))"
    unfolding workspaceTemplates_def template_client.simps
    by (rule namedAccess_strict) (simp_all add: renameTemplate_def renamed_def)
  have get: "ac_get (tc_templates (workspaceTemplates gvk getSchema)) w = namedGet renameTemplate (wk_templates w)" for w
    by (simp add: workspaceTemplates_def namedAccess_def Let_def)
  have self: "renameTemplate (m_Name (at_meta t)) t = t" if "m_Namespace (at_meta t) = []" for t
    using that by (simp add: renameTemplate_def renamed_def)
  show "template_store (workspaceTemplates gvk getSchema)"
    unfolding template_store_def template_store_axioms_def get
  proof (intro conjI allI impI strict)
    fix w ts t
    assume "tc_list (workspaceTemplates gvk getSchema) w = Inr ts"
    then have ts: "ts = map (\<lambda>(n, t). renameTemplate n t) (AList.clearjunk (wk_templates w))" by (simp add: workspaceTemplates_def)
    show "t \<in> set ts \<longleftrightarrow> namedGet renameTemplate (wk_templates w) (keyOfMeta (at_meta t)) = Inr t"
    proof
      assume "t \<in> set ts"
      then obtain n t0 where "map_of (wk_templates w) n = Some t0" "t = renameTemplate n t0" by (auto simp: ts set_clearjunk)
      then show "namedGet renameTemplate (wk_templates w) (keyOfMeta (at_meta t)) = Inr t"
        by (simp add: namedGet_def keyOfMeta_def renameTemplate_def renamed_def)
    next
      assume "namedGet renameTemplate (wk_templates w) (keyOfMeta (at_meta t)) = Inr t"
      then obtain t0 where "map_of (wk_templates w) (m_Name (at_meta t)) = Some t0" "t = renameTemplate (m_Name (at_meta t)) t0"
        by (auto simp: namedGet_def keyOfMeta_def split: if_splits option.splits)
      then show "t \<in> set ts" unfolding ts set_map by (intro image_eqI [of _ _ "(m_Name (at_meta t), t0)"]) (simp_all add: set_clearjunk)
    qed
  qed (auto simp: workspaceTemplates_def namedGet_def keyOfMeta_def notFound_def delete_conv split: option.splits if_splits)
qed

abbreviation templateIn :: "workspace \<Rightarrow> string \<Rightarrow> APIServiceExportTemplate result" where
  "templateIn w n \<equiv> namedGet renameTemplate (wk_templates w) \<lparr>nn_Namespace = [], nn_Name = n\<rparr>"


definition kcpBinding :: APIBinding where
  "kcpBinding = \<lparr>kb_meta = emptyMeta\<lparr>m_Name := ''b'', m_UID := ''u''\<rparr>, kb_Phase = APIBindingPhaseBound,
     kb_BoundResources = [\<lparr>bo_Group = ''g'', bo_Resource = ''r'', bo_SchemaName = ''s''\<rparr>]\<rparr>"

definition kcpSchema :: APIResourceSchema where
  "kcpSchema = \<lparr>kr_meta = emptyMeta\<lparr>m_Name := ''s''\<rparr>,
     kr_Spec = \<lparr>ks_Scope = ClusterScoped, ks_Versions = [(''v1'', True), (''v0'', False)], ks_Rest = JNull\<rparr>\<rparr>"

text \<open>The binding had namespaced resources before; the template of another binding is there too.\<close>

definition exampleWorkspace :: workspace where
  "exampleWorkspace = \<lparr>wk_templates = [(''b-namespaced'', scopeTemplate ''b'' NamespacedScope []), (''x'', scopeTemplate ''c'' ClusterScope [])],
     wk_schemas = [(''s'', kcpSchema)]\<rparr>"


text \<open>
  The reference that is set does not have the controller flag that is looked for, so a template that is
  up to date is written again at every reconciliation.
\<close>

lemma SetOwnerReference_not_controlled:
  assumes "SetOwnerReference gvk owner m = Inr m'" "\<forall>ref\<in>set (m_OwnerReferences m). \<not> or_Controller ref"
  shows "\<not> IsControlledBy m' owner"
proof -
  have "\<forall>ref\<in>set (upsertOwnerRef (ownerReference g owner) refs). \<not> or_Controller ref" if "\<forall>ref\<in>set refs. \<not> or_Controller ref" for g refs
    using that by (induction refs) (auto simp: ownerReference_def)
  with assms show ?thesis
    by (auto simp: SetOwnerReference_def IsControlledBy_def find_Some_iff split: sum.splits option.splits) (metis nth_mem)
qed

text \<open>A binding that has lost all its resources keeps its templates.\<close>

lemma no_resources_no_prune:
  assumes "kb_BoundResources b = []"
  shows "template_reconcile scopeOrder tc b w = (None, w)"
  using assms by (simp add: template_reconcile_def)

section \<open>Schemas from the virtual workspace\<close>

record URL =
  url_Scheme :: string
  url_Host :: string
  url_Path :: string

definition TrimSlashes :: "string \<Rightarrow> string" where
  "TrimSlashes s = rev (dropWhile (\<lambda>c. c = CHR ''/'') (rev (dropWhile (\<lambda>c. c = CHR ''/'') s)))"

definition SplitSlash :: "string \<Rightarrow> string list" where
  "SplitSlash s = SplitN s (CHR ''/'') (Suc (length s))"

text \<open>The cluster of an URL; the two callers differ in the text of the error.\<close>

definition clusterOfPath :: "error \<Rightarrow> string \<Rightarrow> string result" where
  "clusterOfPath unexpected path =
     (let pathParts = SplitSlash (TrimSlashes path)
      in if length pathParts < 6 \<or> pathParts ! 4 \<noteq> ''clusters'' then Inl unexpected else Inr (pathParts ! 5))"

definition ExtractClusterID :: "(string \<Rightarrow> URL result) \<Rightarrow> restConfig \<Rightarrow> string result" where
  "ExtractClusterID parse clusterConfig =
     (case parse (rc_Host clusterConfig) of
        Inl err \<Rightarrow> Inl (wrapError ''failed to parse cluster host URL'' err)
      | Inr u \<Rightarrow> clusterOfPath (PlainError (''unexpected apiexport URL format: '' @ url_Path u)) (url_Path u))"

definition newVWClient :: "(string \<Rightarrow> URL result) \<Rightarrow> (string \<Rightarrow> 'c result) \<Rightarrow> string \<Rightarrow> string \<Rightarrow> 'c result" where
  "newVWClient parse newForConfig baseHost clusterID =
     (case parse baseHost of
        Inl err \<Rightarrow> Inl (wrapError ''failed to parse base config host'' err)
      | Inr u \<Rightarrow> newForConfig (Sprintf ''%s://%s/services/apiresourceschema/%s/clusters/%s''
            [FStr (url_Scheme u), FStr (url_Host u), FStr clusterID, FStr clusterID]))"

text \<open>The look-up under the read lock, and what happens under the write lock after it has failed.\<close>

definition createClient :: "(string \<Rightarrow> 'c result) \<Rightarrow> string \<Rightarrow> (string, 'c) mapping \<Rightarrow> 'c result \<times> (string, 'c) mapping" where
  "createClient newClient clusterID clients =
     (case Mapping.lookup clients clusterID of
        Some cl \<Rightarrow> (Inr cl, clients)
      | None \<Rightarrow> (case newClient clusterID of Inl err \<Rightarrow> (Inl err, clients) | Inr cl \<Rightarrow> (Inr cl, Mapping.update clusterID cl clients)))"

definition GetClient :: "(string \<Rightarrow> 'c result) \<Rightarrow> string \<Rightarrow> (string, 'c) mapping \<Rightarrow> 'c result \<times> (string, 'c) mapping" where
  "GetClient newClient clusterID clients =
     (case Mapping.lookup clients clusterID of Some cl \<Rightarrow> (Inr cl, clients) | None \<Rightarrow> createClient newClient clusterID clients)"

definition SchemaGetterWithFallback ::
  "(string \<Rightarrow> APIResourceSchema result) \<Rightarrow> string result \<Rightarrow> (string \<Rightarrow> 'c result) \<Rightarrow> ('c \<Rightarrow> string \<Rightarrow> APIResourceSchema result) \<Rightarrow>
     string \<Rightarrow> (string, 'c) mapping \<Rightarrow> APIResourceSchema result \<times> (string, 'c) mapping" where
  "SchemaGetterWithFallback workspaceGet extracted newClient vwGet name cache =
     (case workspaceGet name of
        Inr schema \<Rightarrow> (Inr schema, cache)
      | Inl err \<Rightarrow>
          if \<not> IsNotFound err then (Inl err, cache)
          else (case extracted of
              Inl err2 \<Rightarrow> (Inl (wrapError ''cannot build VW fallback client'' err2), cache)
            | Inr clusterID \<Rightarrow>
                (case GetClient newClient clusterID cache of
                   (Inl err3, cache1) \<Rightarrow> (Inl (wrapError (''failed to get VW client for cluster '' @ quote clusterID) err3), cache1)
                 | (Inr vwClient, cache1) \<Rightarrow>
                     (case vwGet vwClient name of
                        Inl err4 \<Rightarrow> (Inl (wrapError (Sprintf ''APIResourceSchema %q not found in workspace or VW'' [FStr name]) err4), cache1)
                      | Inr vwSchema \<Rightarrow> (Inr vwSchema, cache1)))))"

text \<open>A cached client is one for its cluster, so what is read does not depend on the cache.\<close>

definition cacheOk :: "(string \<Rightarrow> 'c result) \<Rightarrow> (string, 'c) mapping \<Rightarrow> bool" where
  "cacheOk newClient cache \<longleftrightarrow> (\<forall>i cl. Mapping.lookup cache i = Some cl \<longrightarrow> newClient i = Inr cl)"

lemma GetClient_ok:
  assumes "cacheOk newClient cache"
  shows "fst (GetClient newClient i cache) = newClient i \<and> cacheOk newClient (snd (GetClient newClient i cache))"
  using assms by (auto simp: GetClient_def createClient_def cacheOk_def lookup_update' split: option.split sum.split)

lemma SchemaGetterWithFallback_cache:
  assumes "cacheOk newClient cache"
  shows "fst (SchemaGetterWithFallback wsGet ex newClient vwGet name cache) = fst (SchemaGetterWithFallback wsGet ex newClient vwGet name Mapping.empty)"
    and "cacheOk newClient (snd (SchemaGetterWithFallback wsGet ex newClient vwGet name cache))"
proof -
  have e: "cacheOk newClient Mapping.empty" by (simp add: cacheOk_def)
  note ok = GetClient_ok [OF assms] and eok = GetClient_ok [OF e]
  have "fst (GetClient newClient i cache) = fst (GetClient newClient i Mapping.empty)" for i using ok eok by metis
  then show "fst (SchemaGetterWithFallback wsGet ex newClient vwGet name cache) = fst (SchemaGetterWithFallback wsGet ex newClient vwGet name Mapping.empty)"
    by (auto simp: SchemaGetterWithFallback_def split: sum.split prod.split) (metis fst_conv sum.sel sum.distinct)+
  show "cacheOk newClient (snd (SchemaGetterWithFallback wsGet ex newClient vwGet name cache))"
    using ok assms by (auto simp: SchemaGetterWithFallback_def split: sum.split prod.split) (metis snd_conv)+
qed

text \<open>Two calls that both miss get the same client: the second finds the one of the first under the write lock.\<close>

lemma createClient_twice:
  assumes "createClient newClient i cache = (Inr cl, cache1)"
  shows "createClient newClient i cache1 = (Inr cl, cache1)"
  using assms by (auto simp: createClient_def split: option.splits sum.splits)

section \<open>Copies of schemas\<close>

record 'w schema_client =
  kc_schemas :: "(APIResourceSchema, 'w) access"
  kc_templateGVK :: "(string \<times> string) result"
  kc_getAPIResourceSchema :: "'w \<Rightarrow> string \<Rightarrow> APIResourceSchema result"

definition schemaCopy :: "APIResourceSchema \<Rightarrow> APIResourceSchema" where
  "schemaCopy source =
     \<lparr>kr_meta = emptyMeta\<lparr>m_Name := m_Name (kr_meta source), m_Labels := Mapping.update ExportedCRDsLabel ''true'' Mapping.empty\<rparr>,
      kr_Spec = kr_Spec source\<rparr>"

text \<open>The spec and the label of an existing copy, and whether one of them was changed.\<close>

definition adjustSchema :: "APIResourceSchema \<Rightarrow> APIResourceSchema \<Rightarrow> APIResourceSchema \<times> bool" where
  "adjustSchema desired existing =
     (let specDiffers = (kr_Spec existing \<noteq> kr_Spec desired);
          unlabelled = (mget (m_Labels (kr_meta existing)) ExportedCRDsLabel \<noteq> ''true'');
          labels = (if unlabelled then Mapping.update ExportedCRDsLabel ''true'' (m_Labels (kr_meta existing))
                    else m_Labels (kr_meta existing))
      in (existing\<lparr>kr_Spec := kr_Spec desired, kr_meta := (kr_meta existing)\<lparr>m_Labels := labels\<rparr>\<rparr>, specDiffers \<or> unlabelled))"

definition ensureSchema :: "'w schema_client \<Rightarrow> APIServiceExportTemplate \<Rightarrow> APIResourceSchema \<Rightarrow> 'w \<Rightarrow> error option \<times> 'w" where
  "ensureSchema c tmpl source w =
     (let desired0 = schemaCopy source; name = m_Name (kr_meta desired0);
          ownerError = (\<lambda>err. Some (wrapError (''failed to set owner reference on APIResourceSchema '' @ quote name) err))
      in case SetOwnerReference (kc_templateGVK c) (at_meta tmpl) (kr_meta desired0) of
           Inl err \<Rightarrow> (ownerError err, w)
         | Inr desiredMeta \<Rightarrow>
             let desired = desired0\<lparr>kr_meta := desiredMeta\<rparr>
             in (case ac_get (kc_schemas c) w \<lparr>nn_Namespace = [], nn_Name = name\<rparr> of
                   Inl err \<Rightarrow>
                     if IsNotFound err
                     then (case ac_create (kc_schemas c) w desired of
                         (Some err2, w1) \<Rightarrow> (Some (wrapError (''failed to create APIResourceSchema '' @ quote name) err2), w1)
                       | (None, w1) \<Rightarrow> (None, w1))
                     else (Some (wrapError (''failed to get APIResourceSchema '' @ quote name) err), w)
                 | Inr existing0 \<Rightarrow>
                     let (existing, needsUpdate) = adjustSchema desired existing0;
                         update = (\<lambda>ob. case ac_update (kc_schemas c) w ob of
                             (Some err, w1) \<Rightarrow> (Some (wrapError (''failed to update APIResourceSchema '' @ quote name) err), w1)
                           | (None, w1) \<Rightarrow> (None, w1))
                     in if \<not> IsControlledBy (kr_meta existing) (at_meta tmpl)
                        then (case SetOwnerReference (kc_templateGVK c) (at_meta tmpl) (kr_meta existing) of
                            Inl err \<Rightarrow> (ownerError err, w)
                          | Inr owned \<Rightarrow> update (existing\<lparr>kr_meta := owned\<rparr>))
                        else if needsUpdate then update existing else (None, w)))"

definition inTemplate :: "APIServiceExportTemplate \<Rightarrow> BoundAPIResource \<Rightarrow> bool" where
  "inTemplate tmpl boundRes \<longleftrightarrow>
     bo_Group boundRes @ ''/'' @ bo_Resource boundRes \<in>
       set (map (\<lambda>res. gr_Group (rr_GroupResource res) @ ''/'' @ gr_Resource (rr_GroupResource res)) (ats_Resources (at_Spec tmpl)))"

fun copySchemas ::
  "'w schema_client \<Rightarrow> APIServiceExportTemplate \<Rightarrow> string \<Rightarrow> BoundAPIResource list \<Rightarrow> 'w \<Rightarrow> error option \<times> 'w" where
  "copySchemas c tmpl bname [] w = (None, w)"
| "copySchemas c tmpl bname (boundRes # rest) w =
     (if \<not> inTemplate tmpl boundRes then copySchemas c tmpl bname rest w
      else (case kc_getAPIResourceSchema c w (bo_SchemaName boundRes) of
          Inl err \<Rightarrow> (Some (wrapError (Sprintf ''failed to get APIResourceSchema %q for binding %q''
                        [FStr (bo_SchemaName boundRes), FStr bname]) err), w)
        | Inr schema \<Rightarrow>
            (case ensureSchema c tmpl schema w of
               (Some err, w1) \<Rightarrow> (Some err, w1) | (None, w1) \<Rightarrow> copySchemas c tmpl bname rest w1)))"

definition schema_reconcile :: "'w schema_client \<Rightarrow> APIServiceExportTemplate \<Rightarrow> APIBinding \<Rightarrow> 'w \<Rightarrow> error option \<times> 'w" where
  "schema_reconcile c tmpl binding w = copySchemas c tmpl (m_Name (kb_meta binding)) (kb_BoundResources binding) w"

definition schema_Reconcile ::
  "(string \<Rightarrow> 'w schema_client result) \<Rightarrow> ('w \<Rightarrow> NamespacedName \<Rightarrow> APIServiceExportTemplate result) \<Rightarrow>
     ('w \<Rightarrow> NamespacedName \<Rightarrow> APIBinding result) \<Rightarrow> string \<Rightarrow> NamespacedName \<Rightarrow> 'w \<Rightarrow> error option \<times> 'w" where
  "schema_Reconcile getCluster getTemplate getBinding clusterName key w =
     (case getCluster clusterName of
        Inl err \<Rightarrow> (Some (wrapError (''failed to get cluster '' @ quote clusterName) err), w)
      | Inr c \<Rightarrow>
          (case getTemplate w key of
             Inl err \<Rightarrow> (if IsNotFound err then None
               else Some (wrapError (''failed to get APIServiceExportTemplate '' @ quote (nn_Name key)) err), w)
           | Inr tmpl \<Rightarrow>
               (case Mapping.lookup (m_Annotations (at_meta tmpl)) AnnotationOwnerBinding of
                  None \<Rightarrow> (None, w)
                | Some bname \<Rightarrow>
                    (case getBinding w \<lparr>nn_Namespace = [], nn_Name = bname\<rparr> of
                       Inl err \<Rightarrow> (if IsNotFound err then None else Some (wrapError (''failed to get APIBinding '' @ quote bname) err), w)
                     | Inr binding \<Rightarrow>
                         if kb_Phase binding \<noteq> APIBindingPhaseBound then (None, w) else schema_reconcile c tmpl binding w))))"

locale schema_store = strict_store kr_meta "kc_schemas c" for c :: "'w schema_client" +
  assumes lookup_copy: "ac_get (kc_schemas c) w \<lparr>nn_Namespace = [], nn_Name = n\<rparr> = Inr s \<Longrightarrow> kc_getAPIResourceSchema c w n = Inr s"
    and lookup_name: "kc_getAPIResourceSchema c w n = Inr s \<Longrightarrow> m_Name (kr_meta s) = n"
begin

abbreviation sget :: "'w \<Rightarrow> string \<Rightarrow> APIResourceSchema result" where
  "sget w n \<equiv> ac_get (kc_schemas c) w \<lparr>nn_Namespace = [], nn_Name = n\<rparr>"

definition exported :: "APIResourceSchema \<Rightarrow> bool" where
  "exported s \<longleftrightarrow> mget (m_Labels (kr_meta s)) ExportedCRDsLabel = ''true''"

lemma ensureSchema_post:
  assumes "ensureSchema c tmpl s w = (None, w')"
  shows "\<exists>s'. sget w' (m_Name (kr_meta s)) = Inr s' \<and> exported s' \<and> kr_Spec s' = kr_Spec s"
    and "n \<noteq> m_Name (kr_meta s) \<Longrightarrow> sget w' n = sget w n"
proof -
  let ?k = "\<lparr>nn_Namespace = [], nn_Name = m_Name (kr_meta s)\<rparr>"
  have written: "(\<exists>s'. sget w' (m_Name (kr_meta s)) = Inr s' \<and> exported s' \<and> kr_Spec s' = kr_Spec s) \<and>
      (n \<noteq> m_Name (kr_meta s) \<longrightarrow> sget w' n = sget w n)"
    if "ac_create (kc_schemas c) w t = (None, w') \<or> ac_update (kc_schemas c) w t = (None, w')"
      "keyOfMeta (kr_meta t) = ?k" "exported t" "kr_Spec t = kr_Spec s" for t n
    using that get_create [of w t w'] get_update [of w t w'] by fastforce
  have name: "m_Name (kr_meta (schemaCopy s)) = m_Name (kr_meta s)" by (simp add: schemaCopy_def)
  have "(\<exists>s'. sget w' (m_Name (kr_meta s)) = Inr s' \<and> exported s' \<and> kr_Spec s' = kr_Spec s) \<and>
      (n \<noteq> m_Name (kr_meta s) \<longrightarrow> sget w' n = sget w n)" for n
  proof (cases "ac_get (kc_schemas c) w ?k")
    case (Inl err)
    with assms obtain m where m: "SetOwnerReference (kc_templateGVK c) (at_meta tmpl) (kr_meta (schemaCopy s)) = Inr m"
      "ac_create (kc_schemas c) w ((schemaCopy s)\<lparr>kr_meta := m\<rparr>) = (None, w')"
      by (auto simp: ensureSchema_def Let_def name split: sum.splits if_splits prod.splits option.splits)
    have l: "m_Labels m = m_Labels (kr_meta (schemaCopy s)) \<and> keyOfMeta m = ?k"
      using m(1) by (auto simp: SetOwnerReference_def schemaCopy_def keyOfMeta_def emptyMeta_def split: sum.splits)
    show ?thesis by (rule written [of "(schemaCopy s)\<lparr>kr_meta := m\<rparr>"])
      (use m(2) l in \<open>simp_all add: exported_def schemaCopy_def mget_def\<close>)
  next
    case (Inr old)
    have key: "keyOfMeta (kr_meta old) = ?k" by (rule get_key [OF Inr])
    obtain e upd where adj: "adjustSchema (schemaCopy s\<lparr>kr_meta := d\<rparr>) old = (e, upd)" for d
      by (simp add: adjustSchema_def Let_def schemaCopy_def)
    then have e: "exported e" "keyOfMeta (kr_meta e) = ?k" "kr_Spec e = kr_Spec s" "\<not> upd \<Longrightarrow> e = old"
      using key by (auto simp: adjustSchema_def Let_def exported_def mget_def keyOfMeta_def schemaCopy_def)
    consider (owner) m where "SetOwnerReference (kc_templateGVK c) (at_meta tmpl) (kr_meta e) = Inr m"
        "ac_update (kc_schemas c) w (e\<lparr>kr_meta := m\<rparr>) = (None, w')"
      | (changed) "ac_update (kc_schemas c) w e = (None, w')"
      | (same) "w' = w" "e = old"
    proof (cases "IsControlledBy (kr_meta e) (at_meta tmpl)")
      case True
      with assms Inr have "upd \<Longrightarrow> ac_update (kc_schemas c) w e = (None, w')" "\<not> upd \<Longrightarrow> w' = w"
        by (simp_all add: ensureSchema_def Let_def name adj split: sum.splits prod.splits option.splits)
      with e(4) that(2,3) show thesis by (cases upd) simp_all
    next
      case False
      with assms Inr that(1) show thesis
        by (cases "SetOwnerReference (kc_templateGVK c) (at_meta tmpl) (kr_meta e)")
           (simp_all add: ensureSchema_def Let_def name adj split: sum.splits prod.splits option.splits)
    qed
    then show ?thesis
    proof cases
      case owner
      have l: "m_Labels m = m_Labels (kr_meta e) \<and> keyOfMeta m = keyOfMeta (kr_meta e)"
        using owner(1) by (auto simp: SetOwnerReference_def keyOfMeta_def split: sum.splits)
      show ?thesis by (rule written [of "e\<lparr>kr_meta := m\<rparr>"]) (use owner(2) l e in \<open>simp_all add: exported_def\<close>)
    next
      case changed
      show ?thesis by (rule written [of e]) (use changed e in simp_all)
    next
      case same
      with Inr e show ?thesis by auto
    qed
  qed
  then show "\<exists>s'. sget w' (m_Name (kr_meta s)) = Inr s' \<and> exported s' \<and> kr_Spec s' = kr_Spec s"
    and "n \<noteq> m_Name (kr_meta s) \<Longrightarrow> sget w' n = sget w n" by blast+
qed

text \<open>The source of a copy that exists is the copy itself, so that its spec is never changed.\<close>

lemma ensureSchema_keeps_spec:
  assumes "ensureSchema c tmpl s w = (None, w')" "kc_getAPIResourceSchema c w n = Inr s" "sget w m = Inr old"
  shows "\<exists>s'. sget w' m = Inr s' \<and> kr_Spec s' = kr_Spec old \<and> (exported old \<longrightarrow> exported s')"
proof (cases "m = m_Name (kr_meta s)")
  case True
  with assms(2,3) lookup_name have "s = old" using lookup_copy by fastforce
  with ensureSchema_post(1) [OF assms(1)] True show ?thesis by auto
next
  case False
  with ensureSchema_post(2) [OF assms(1)] assms(3) show ?thesis by simp
qed

lemma copySchemas_post:
  assumes "copySchemas c tmpl b rs w = (None, w')"
  shows "(\<forall>r\<in>set rs. inTemplate tmpl r \<longrightarrow> (\<exists>s'. sget w' (bo_SchemaName r) = Inr s' \<and> exported s')) \<and>
    (\<forall>m old. sget w m = Inr old \<longrightarrow> (\<exists>s'. sget w' m = Inr s' \<and> kr_Spec s' = kr_Spec old \<and> (exported old \<longrightarrow> exported s'))) \<and>
    (\<forall>m. m \<notin> bo_SchemaName ` {r \<in> set rs. inTemplate tmpl r} \<longrightarrow> sget w' m = sget w m)"
  using assms
proof (induction rs arbitrary: w)
  case (Cons r rs)
  show ?case
  proof (cases "inTemplate tmpl r")
    case False
    with Cons.prems have "copySchemas c tmpl b rs w = (None, w')" by simp
    moreover from False have "{x \<in> set (r # rs). inTemplate tmpl x} = {x \<in> set rs. inTemplate tmpl x}" by auto
    ultimately show ?thesis using Cons.IH [of w] False by simp
  next
    case True
    with Cons.prems obtain s w1 where s: "kc_getAPIResourceSchema c w (bo_SchemaName r) = Inr s"
      and e: "ensureSchema c tmpl s w = (None, w1)" and rest: "copySchemas c tmpl b rs w1 = (None, w')"
      by (auto split: sum.splits prod.splits option.splits)
    have n: "m_Name (kr_meta s) = bo_SchemaName r" by (rule lookup_name [OF s])
    note IH = Cons.IH [OF rest] and post = ensureSchema_post [OF e, unfolded n] and keep = ensureSchema_keeps_spec [OF e s]
    have "\<exists>s'. sget w' (bo_SchemaName r) = Inr s' \<and> exported s'" using post(1) IH by blast
    moreover have "\<exists>s'. sget w' m = Inr s' \<and> kr_Spec s' = kr_Spec old \<and> (exported old \<longrightarrow> exported s')" if "sget w m = Inr old" for m old
      using keep [OF that] IH by metis
    moreover have "sget w' m = sget w m" if "m \<notin> bo_SchemaName ` {x \<in> set (r # rs). inTemplate tmpl x}" for m
    proof -
      from that True have "m \<noteq> bo_SchemaName r" by auto
      moreover from that have "m \<notin> bo_SchemaName ` {x \<in> set rs. inTemplate tmpl x}" by auto
      ultimately show ?thesis using IH post(2) by simp
    qed
    ultimately show ?thesis using IH by auto
  qed
qed auto

end

text \<open>
  The schemas of a workspace and those the virtual workspace serves. The getter does not depend on
  the cache of clients (\<open>SchemaGetterWithFallback_cache\<close>), which is empty here.
\<close>

definition renameSchema :: "string \<Rightarrow> APIResourceSchema \<Rightarrow> APIResourceSchema" where
  "renameSchema n s = s\<lparr>kr_meta := renamed n (kr_meta s)\<rparr>"

abbreviation schemaIn :: "workspace \<Rightarrow> string \<Rightarrow> APIResourceSchema result" where
  "schemaIn w n \<equiv> namedGet renameSchema (wk_schemas w) \<lparr>nn_Namespace = [], nn_Name = n\<rparr>"

definition workspaceSchemas ::
  "(string \<times> string) result \<Rightarrow> string result \<Rightarrow> (string \<Rightarrow> (string \<times> APIResourceSchema) list result) \<Rightarrow> workspace schema_client" where
  "workspaceSchemas gvk extracted vw =
     \<lparr>kc_schemas = namedAccess kr_meta renameSchema wk_schemas (\<lambda>f w. w\<lparr>wk_schemas := f (wk_schemas w)\<rparr>),
      kc_templateGVK = gvk,
      kc_getAPIResourceSchema = (\<lambda>w n. fst (SchemaGetterWithFallback (schemaIn w) extracted vw
        (\<lambda>served m. namedGet renameSchema served \<lparr>nn_Namespace = [], nn_Name = m\<rparr>) n Mapping.empty))\<rparr>"

lemma workspaceSchemas_get: "ac_get (kc_schemas (workspaceSchemas gvk extracted vw)) w = namedGet renameSchema (wk_schemas w)"
  by (simp add: workspaceSchemas_def namedAccess_def Let_def)

lemma namedGet_name: "namedGet renameSchema obs k = Inr s \<Longrightarrow> m_Name (kr_meta s) = nn_Name k"
  by (auto simp: namedGet_def renameSchema_def renamed_def split: if_splits option.splits)

interpretation workspace_schemas: schema_store "workspaceSchemas gvk extracted vw" for gvk extracted vw
proof -
  have strict: "strict_store kr_meta (kc_schemas (workspaceSchemas gvk extracted vw))"
    unfolding workspaceSchemas_def schema_client.simps
    by (rule namedAccess_strict) (simp_all add: renameSchema_def renamed_def)
  show "schema_store (workspaceSchemas gvk extracted vw)"
    unfolding schema_store_def schema_store_axioms_def workspaceSchemas_get
  proof (intro conjI allI impI strict)
    show "kc_getAPIResourceSchema (workspaceSchemas gvk extracted vw) w n = Inr s" if "schemaIn w n = Inr s" for w n s
      using that by (simp add: workspaceSchemas_def SchemaGetterWithFallback_def)
    show "m_Name (kr_meta s) = n" if "kc_getAPIResourceSchema (workspaceSchemas gvk extracted vw) w n = Inr s" for w n s
      using that by (auto simp: workspaceSchemas_def SchemaGetterWithFallback_def dest: namedGet_name split: sum.splits if_splits prod.splits)
  qed
qed

text \<open>
  After the schemas of a template are reconciled without an error, each bound resource of the
  template has an exported copy of its schema in the workspace; no copy that was there has got
  another spec, whatever the virtual workspace serves now; and no other schema has changed.
\<close>

lemma kcp_schemas:
  assumes "schema_reconcile (workspaceSchemas gvk extracted vw) tmpl b w = (None, w')"
  shows "r \<in> set (kb_BoundResources b) \<Longrightarrow> inTemplate tmpl r \<Longrightarrow>
      \<exists>s. schemaIn w' (bo_SchemaName r) = Inr s \<and> mget (m_Labels (kr_meta s)) ExportedCRDsLabel = ''true''"
    and "schemaIn w n = Inr old \<Longrightarrow> \<exists>s. schemaIn w' n = Inr s \<and> kr_Spec s = kr_Spec old"
    and "n \<notin> bo_SchemaName ` {r \<in> set (kb_BoundResources b). inTemplate tmpl r} \<Longrightarrow> schemaIn w' n = schemaIn w n"
  using workspace_schemas.copySchemas_post [OF assms [unfolded schema_reconcile_def]]
  unfolding workspaceSchemas_get workspace_schemas.exported_def by blast+

section \<open>Access to the virtual workspace\<close>

record vwRule = PolicyRule +
  vr_ResourceNames :: "string list"

record vwSubject =
  vs_Kind :: string
  vs_APIGroup :: string
  vs_Name :: string
  vs_Namespace :: string

record vwClusterRole =
  vcr_meta :: ObjectMeta
  vcr_Rules :: "vwRule list"

record vwClusterRoleBinding =
  vcb_meta :: ObjectMeta
  vcb_RoleRef :: RoleRef
  vcb_Subjects :: "vwSubject list"

definition kcpClusterNameExtraKey :: string where
  "kcpClusterNameExtraKey = ''authentication.kcp.io/cluster-name''"

definition vwRoleName :: string where
  "vwRoleName = ''kube-bind-vw-apibinding-reader''"

text \<open>The result of the review of the own identity is a parameter: the user name and the extra values.\<close>

definition discoverSubject :: "error option \<Rightarrow> (string \<times> (string, string list) mapping) result \<Rightarrow> vwSubject result" where
  "discoverSubject newForConfig review =
     (case newForConfig of
        Some err \<Rightarrow> Inl err
      | None \<Rightarrow>
          (case review of
             Inl err \<Rightarrow> Inl (wrapError ''SelfSubjectReview'' err)
           | Inr (user, extra) \<Rightarrow>
               if user = [] then Inl (PlainError ''SelfSubjectReview returned empty username'')
               else let saPrefix = ''system:serviceaccount:'';
                        clusters = Mapping.lookup_default [] extra kcpClusterNameExtraKey;
                        name = (if clusters \<noteq> [] \<and> HasPrefix user saPrefix
                                then Sprintf ''system:kcp:serviceaccount:%s:%s'' [FStr (hd clusters), FStr (TrimPrefix user saPrefix)]
                                else user)
                    in Inr \<lparr>vs_Kind = ''User'', vs_APIGroup = ''rbac.authorization.k8s.io'', vs_Name = name, vs_Namespace = []\<rparr>))"

definition vwRuleEqual :: "vwRule \<Rightarrow> vwRule \<Rightarrow> bool" where
  "vwRuleEqual a b \<longleftrightarrow> pr_APIGroups a = pr_APIGroups b \<and> pr_Resources a = pr_Resources b \<and> pr_Verbs a = pr_Verbs b \<and>
     pr_NonResourceURLs a = pr_NonResourceURLs b \<and> vr_ResourceNames a = vr_ResourceNames b"

definition vwRulesEqual :: "vwRule list \<Rightarrow> vwRule list \<Rightarrow> bool" where
  "vwRulesEqual a b \<longleftrightarrow> length a = length b \<and> list_all2 vwRuleEqual a b"

definition vwSubjectsEqual :: "vwSubject list \<Rightarrow> vwSubject list \<Rightarrow> bool" where
  "vwSubjectsEqual a b \<longleftrightarrow> length a = length b \<and> list_all2 (=) a b"

text \<open>
  What the two routines share: a missing object is created, where one that somebody else has created in
  between is taken as it is, and an object that has drifted is corrected.
\<close>

definition vwEnsure :: "string \<Rightarrow> ('o, 'w) access \<Rightarrow> ('o \<Rightarrow> bool) \<Rightarrow> ('o \<Rightarrow> 'o) \<Rightarrow> 'o \<Rightarrow> 'w \<Rightarrow> error option \<times> 'w" where
  "vwEnsure kind ac upToDate correct desired w =
     (let fail = (\<lambda>verb err. Some (wrapError (verb @ '' '' @ kind @ '' '' @ quote vwRoleName) err))
      in case ac_get ac w \<lparr>nn_Namespace = [], nn_Name = vwRoleName\<rparr> of
           Inl err \<Rightarrow>
             if IsNotFound err
             then (case ac_create ac w desired of
                 (Some cerr, w1) \<Rightarrow> (if IsAlreadyExists cerr then None else fail ''create'' cerr, w1)
               | (None, w1) \<Rightarrow> (None, w1))
             else (fail ''get'' err, w)
         | Inr existing \<Rightarrow>
             if upToDate existing then (None, w)
             else (case ac_update ac w (correct existing) of
                 (Some err, w1) \<Rightarrow> (fail ''update'' err, w1) | (None, w1) \<Rightarrow> (None, w1)))"

definition vwRules :: "vwRule list" where
  "vwRules =
     [\<lparr>pr_APIGroups = [], pr_Resources = [], pr_NonResourceURLs = [''/''], pr_Verbs = [''access''], vr_ResourceNames = []\<rparr>,
      \<lparr>pr_APIGroups = [''apis.kcp.io''], pr_Resources = [''apibindings''], pr_NonResourceURLs = [], pr_Verbs = [''get'', ''list'', ''watch''],
       vr_ResourceNames = []\<rparr>]"

definition vw_ensureClusterRole :: "(vwClusterRole, 'w) access \<Rightarrow> 'w \<Rightarrow> error option \<times> 'w" where
  "vw_ensureClusterRole ac =
     vwEnsure ''ClusterRole'' ac (\<lambda>existing. vwRulesEqual (vcr_Rules existing) vwRules) (\<lambda>existing. existing\<lparr>vcr_Rules := vwRules\<rparr>)
       \<lparr>vcr_meta = emptyMeta\<lparr>m_Name := vwRoleName\<rparr>, vcr_Rules = vwRules\<rparr>"

definition vw_ensureClusterRoleBinding :: "(vwClusterRoleBinding, 'w) access \<Rightarrow> vwSubject \<Rightarrow> 'w \<Rightarrow> error option \<times> 'w" where
  "vw_ensureClusterRoleBinding ac subject =
     vwEnsure ''ClusterRoleBinding'' ac (\<lambda>existing. vwSubjectsEqual (vcb_Subjects existing) [subject])
       (\<lambda>existing. existing\<lparr>vcb_Subjects := [subject]\<rparr>)
       \<lparr>vcb_meta = emptyMeta\<lparr>m_Name := vwRoleName\<rparr>,
        vcb_RoleRef = \<lparr>rf_APIGroup = ''rbac.authorization.k8s.io'', rf_Kind = ''ClusterRole'', rf_Name = vwRoleName\<rparr>,
        vcb_Subjects = [subject]\<rparr>"

record 'w vw_client =
  vc_clusterRoles :: "(vwClusterRole, 'w) access"
  vc_clusterRoleBindings :: "(vwClusterRoleBinding, 'w) access"

definition vwrbac_Reconcile :: "(string \<Rightarrow> 'w vw_client result) \<Rightarrow> vwSubject \<Rightarrow> string \<Rightarrow> 'w \<Rightarrow> error option \<times> 'w" where
  "vwrbac_Reconcile getCluster subject clusterName w =
     (case getCluster clusterName of
        Inl err \<Rightarrow> (Some (wrapError (''failed to get client for cluster '' @ quote clusterName) err), w)
      | Inr c \<Rightarrow>
          (case vw_ensureClusterRole (vc_clusterRoles c) w of
             (Some err, w1) \<Rightarrow> (Some err, w1)
           | (None, w1) \<Rightarrow> vw_ensureClusterRoleBinding (vc_clusterRoleBindings c) subject w1))"

lemma vwRulesEqual_iff: "vwRulesEqual a b \<longleftrightarrow> a = b"
proof -
  have "vwRuleEqual = (=)" by (intro ext) (auto simp: vwRuleEqual_def)
  then show ?thesis by (auto simp: vwRulesEqual_def list.rel_eq)
qed

lemma vwSubjectsEqual_iff: "vwSubjectsEqual a b \<longleftrightarrow> a = b"
  by (auto simp: vwSubjectsEqual_def list.rel_eq)

text \<open>Two service accounts have the same global name only if they are the same account of the same cluster.\<close>

lemma global_account_inj:
  assumes "CHR '':'' \<notin> set cluster" "CHR '':'' \<notin> set cluster'"
    and "Sprintf ''system:kcp:serviceaccount:%s:%s'' [FStr cluster, FStr nsName] = Sprintf ''system:kcp:serviceaccount:%s:%s'' [FStr cluster', FStr nsName']"
  shows "cluster = cluster' \<and> nsName = nsName'"
proof -
  have "xs = ys \<and> a = b" if "xs @ CHR '':'' # a = ys @ CHR '':'' # b" "CHR '':'' \<notin> set xs" "CHR '':'' \<notin> set ys" for xs ys a b :: string
    using that by (induction xs arbitrary: ys) (auto simp: Cons_eq_append_conv append_eq_Cons_conv)
  note sep = this
  have out: "Sprintf ''system:kcp:serviceaccount:%s:%s'' [FStr c, FStr n] = ''system:kcp:serviceaccount:'' @ c @ CHR '':'' # n" for c n :: string
    by simp
  from assms(3) have "cluster @ CHR '':'' # nsName = cluster' @ CHR '':'' # nsName'" unfolding out by (simp only: same_append_eq)
  from sep [OF this assms(1,2)] show ?thesis .
qed

context strict_store
begin

lemma vwEnsure_post:
  assumes "vwEnsure kind ac P f ob w = (None, w')" "keyOfMeta (meta ob) = \<lparr>nn_Namespace = [], nn_Name = vwRoleName\<rparr>"
    and "P ob" "\<And>x. P (f x)" "\<And>x. keyOfMeta (meta (f x)) = keyOfMeta (meta x)"
  shows "\<exists>x. ac_get ac w' (keyOfMeta (meta ob)) = Inr x \<and> P x"
    and "k \<noteq> keyOfMeta (meta ob) \<Longrightarrow> ac_get ac w' k = ac_get ac w k"
proof -
  let ?k = "keyOfMeta (meta ob)"
  consider (new) "ac_create ac w ob = (None, w')" | (fixed) y where "ac_get ac w ?k = Inr y" "ac_update ac w (f y) = (None, w')"
    | (same) y where "ac_get ac w ?k = Inr y" "P y" "w' = w"
  proof (cases "ac_get ac w ?k")
    case (Inl err)
    obtain r w1 where c: "ac_create ac w ob = (r, w1)" by fastforce
    with assms(1) Inl have "w1 = w' \<and> (case r of None \<Rightarrow> True | Some e \<Rightarrow> IsAlreadyExists e)"
      by (simp add: vwEnsure_def Let_def assms(2) [symmetric] split: if_splits option.splits)
    with c Inl create_exists [of w ob] that(1) show thesis by (cases r) auto
  next
    case (Inr y)
    obtain r w1 where "ac_update ac w (f y) = (r, w1)" by fastforce
    with assms(1) Inr that(2,3) [OF Inr] show thesis
      by (cases "P y") (simp_all add: vwEnsure_def Let_def assms(2) [symmetric] split: option.splits)
  qed
  then have "(\<exists>x. ac_get ac w' ?k = Inr x \<and> P x) \<and> (k \<noteq> ?k \<longrightarrow> ac_get ac w' k = ac_get ac w k)" for k
  proof cases
    case new
    from get_create [OF this] assms(3) show ?thesis by simp
  next
    case fixed
    from get_update [OF fixed(2)] get_key [OF fixed(1)] assms(4,5) show ?thesis by simp
  qed simp
  then show "\<exists>x. ac_get ac w' (keyOfMeta (meta ob)) = Inr x \<and> P x"
    and "k \<noteq> keyOfMeta (meta ob) \<Longrightarrow> ac_get ac w' k = ac_get ac w k" by blast+
qed

end

record vw_workspace =
  vw_clusterRoles :: "vwClusterRole list"
  vw_clusterRoleBindings :: "vwClusterRoleBinding list"

definition vwWorkspace :: "vw_workspace vw_client" where
  "vwWorkspace =
     \<lparr>vc_clusterRoles = listAccess vcr_meta vw_clusterRoles (\<lambda>f w. w\<lparr>vw_clusterRoles := f (vw_clusterRoles w)\<rparr>),
      vc_clusterRoleBindings = listAccess vcb_meta vw_clusterRoleBindings (\<lambda>f w. w\<lparr>vw_clusterRoleBindings := f (vw_clusterRoleBindings w)\<rparr>)\<rparr>"

interpretation vw_roles: strict_store vcr_meta "vc_clusterRoles vwWorkspace"
  unfolding vwWorkspace_def vw_client.simps by (rule listAccess_strict) simp

interpretation vw_bindings: strict_store vcb_meta "vc_clusterRoleBindings vwWorkspace"
  unfolding vwWorkspace_def vw_client.simps by (rule listAccess_strict) simp

text \<open>
  After a reconciliation without an error the role has exactly the two rules and the binding names
  exactly the backend as its subject; a second one changes nothing.
\<close>

lemma vwEnsure_roles:
  assumes "vwEnsure kind (vc_clusterRoleBindings vwWorkspace) P f ob w = (err, w')"
  shows "vw_clusterRoles w' = vw_clusterRoles w"
  using assms by (auto simp: vwEnsure_def vwWorkspace_def listAccess_def Let_def split: sum.splits if_splits prod.splits option.splits)

lemma vwrbac_Reconcile_post:
  assumes "vwrbac_Reconcile getCluster subject cluster w = (None, w')" "getCluster cluster = Inr vwWorkspace"
  shows "\<exists>role. listGet vcr_meta (vw_clusterRoles w') \<lparr>nn_Namespace = [], nn_Name = vwRoleName\<rparr> = Inr role \<and> vcr_Rules role = vwRules"
    and "\<exists>rb. listGet vcb_meta (vw_clusterRoleBindings w') \<lparr>nn_Namespace = [], nn_Name = vwRoleName\<rparr> = Inr rb \<and> vcb_Subjects rb = [subject]"
    and "vwrbac_Reconcile getCluster subject cluster w' = (None, w')"
proof -
  let ?k = "\<lparr>nn_Namespace = [], nn_Name = vwRoleName\<rparr>"
  have get: "ac_get (vc_clusterRoles vwWorkspace) w = listGet vcr_meta (vw_clusterRoles w)"
    "ac_get (vc_clusterRoleBindings vwWorkspace) w = listGet vcb_meta (vw_clusterRoleBindings w)" for w
    by (simp_all add: vwWorkspace_def listAccess_def)
  from assms obtain w1 where role: "vw_ensureClusterRole (vc_clusterRoles vwWorkspace) w = (None, w1)"
    and rb: "vw_ensureClusterRoleBinding (vc_clusterRoleBindings vwWorkspace) subject w1 = (None, w')"
    by (auto simp: vwrbac_Reconcile_def split: prod.splits option.splits)
  have key: "keyOfMeta (emptyMeta\<lparr>m_Name := vwRoleName\<rparr>) = ?k" by (simp add: keyOfMeta_def emptyMeta_def)
  have "\<exists>x. listGet vcr_meta (vw_clusterRoles w1) ?k = Inr x \<and> vwRulesEqual (vcr_Rules x) vwRules"
    using vw_roles.vwEnsure_post(1) [OF role [unfolded vw_ensureClusterRole_def]] by (simp add: key [simplified] get vwRulesEqual_iff)
  then show r: "\<exists>role. listGet vcr_meta (vw_clusterRoles w') ?k = Inr role \<and> vcr_Rules role = vwRules"
    using vwEnsure_roles [OF rb [unfolded vw_ensureClusterRoleBinding_def]] by (simp add: vwRulesEqual_iff)
  show b: "\<exists>rb. listGet vcb_meta (vw_clusterRoleBindings w') ?k = Inr rb \<and> vcb_Subjects rb = [subject]"
    using vw_bindings.vwEnsure_post(1) [OF rb [unfolded vw_ensureClusterRoleBinding_def]] by (simp add: key [simplified] get vwSubjectsEqual_iff)
  show "vwrbac_Reconcile getCluster subject cluster w' = (None, w')"
    using r b assms(2)
    by (auto simp: vwrbac_Reconcile_def vw_ensureClusterRole_def vw_ensureClusterRoleBinding_def vwEnsure_def get vwRulesEqual_iff vwSubjectsEqual_iff)
qed

section \<open>Clusters that come into sight\<close>

text \<open>
  The loop around the creation of the cluster object: \<open>ctxErr attempt\<close> is the error of the context if it
  ends while the loop waits after that attempt. \<open>Inl\<close> is an early return, \<open>Inr\<close> the last result.
\<close>

definition maxRetries :: nat where "maxRetries = 3"

function (sequential) createCluster ::
  "('w \<Rightarrow> error option \<times> 'w) \<Rightarrow> (nat \<Rightarrow> error option) \<Rightarrow> nat \<Rightarrow> error option \<Rightarrow> 'w \<Rightarrow> (error + error option) \<times> 'w" where
  "createCluster create ctxErr attempt lastErr w =
     (if attempt \<ge> maxRetries then (Inr lastErr, w)
      else (case create w of
          (None, w1) \<Rightarrow> (Inr None, w1)
        | (Some err, w1) \<Rightarrow>
            if IsAlreadyExists err then (Inr (Some err), w1)
            else if \<not> hasReason ReasonForbidden err then (Inl err, w1)
            else if attempt < maxRetries - 1
            then (case ctxErr attempt of
                Some cerr \<Rightarrow> (Inl cerr, w1) | None \<Rightarrow> createCluster create ctxErr (attempt + 1) (Some err) w1)
            else createCluster create ctxErr (attempt + 1) (Some err) w1))"
  by pat_completeness auto
termination by (relation "measure (\<lambda>(create, ctxErr, attempt, lastErr, w). maxRetries - attempt)") auto

declare createCluster.simps [simp del]

text \<open>The error that is returned, and whether the context given to the wrapped engagement is cancelled.\<close>

definition Engage ::
  "('w \<Rightarrow> error option \<times> 'w) \<Rightarrow> ('w \<Rightarrow> error option \<times> 'w) \<Rightarrow> (nat \<Rightarrow> error option) \<Rightarrow> 'w \<Rightarrow> (error option \<times> bool) \<times> 'w" where
  "Engage awareEngage create ctxErr w =
     (case awareEngage w of
        (Some err, w1) \<Rightarrow> ((Some err, True), w1)
      | (None, w1) \<Rightarrow>
          (case createCluster create ctxErr 0 None w1 of
             (Inl err, w2) \<Rightarrow> ((Some err, True), w2)
           | (Inr (Some err), w2) \<Rightarrow> if IsAlreadyExists err then ((None, False), w2) else ((Some err, True), w2)
           | (Inr None, w2) \<Rightarrow> ((None, False), w2)))"

text \<open>The context is cancelled exactly when an error is returned.\<close>

lemma Engage_cancel: "fst (Engage aware create ctxErr w) = (err, cancelled) \<Longrightarrow> cancelled \<longleftrightarrow> err \<noteq> None"
  by (auto simp: Engage_def split: prod.splits option.splits sum.splits if_splits)

text \<open>
  Creating the cluster object is tried at most three times, the next time only after the API server
  forbade it, and a cluster is engaged only if the last try found or made the object.
\<close>

fun tries :: "('w \<Rightarrow> error option \<times> 'w) \<Rightarrow> nat \<Rightarrow> 'w \<Rightarrow> 'w" where
  "tries create 0 w = w"
| "tries create (Suc n) w = tries create n (snd (create w))"

lemma tries_Suc: "tries create (Suc n) w = snd (create (tries create n w))"
  by (induction n arbitrary: w) simp_all

lemma createCluster_tries:
  assumes "createCluster create ctxErr attempt lastErr w = (r, w')" "attempt < maxRetries"
  shows "\<exists>n < maxRetries - attempt. w' = tries create (Suc n) w \<and>
    (\<forall>m < n. \<exists>err. fst (create (tries create m w)) = Some err \<and> hasReason ReasonForbidden err) \<and>
    (\<forall>err. r = Inr err \<longrightarrow> fst (create (tries create n w)) = err \<and>
      (err \<noteq> None \<longrightarrow> IsAlreadyExists (the err) \<or> hasReason ReasonForbidden (the err) \<and> n = maxRetries - attempt - 1))"
  using assms
proof (induction "maxRetries - attempt - 1" arbitrary: attempt lastErr w)
  case k: 0
  then have a: "\<not> attempt \<ge> maxRetries" "\<not> attempt < maxRetries - 1" "attempt + 1 \<ge> maxRetries" by simp_all
  have "w' = snd (create w) \<and> (\<forall>err. r = Inr err \<longrightarrow> fst (create w) = err \<and> (err \<noteq> None \<longrightarrow> IsAlreadyExists (the err) \<or> hasReason ReasonForbidden (the err)))"
    using k.prems(1) a by (cases "create w") (auto simp: createCluster.simps [of _ _ attempt] createCluster.simps [of _ _ "Suc attempt"] split: option.splits if_splits)
  with k show ?case by (intro exI [of _ 0]) auto
next
  case (Suc k)
  then have a: "\<not> attempt \<ge> maxRetries" "attempt < maxRetries - 1" by simp_all
  obtain c w1 where c: "create w = (c, w1)" by fastforce
  show ?case
  proof (cases "\<exists>err. c = Some err \<and> hasReason ReasonForbidden err \<and> ctxErr attempt = None")
    case True
    then obtain err where err: "c = Some err" "hasReason ReasonForbidden err" "ctxErr attempt = None" by blast
    then have ne: "\<not> IsAlreadyExists err" by (cases err) auto
    have next': "createCluster create ctxErr (attempt + 1) (Some err) w1 = (r, w')"
      using Suc.prems(1) a c err ne by (simp add: createCluster.simps [of _ _ attempt])
    have "k = maxRetries - (attempt + 1) - 1" "attempt + 1 < maxRetries" using Suc.hyps(2) a by simp_all
    from Suc.hyps(1) [OF this(1) next' this(2)] obtain n where n: "n < maxRetries - (attempt + 1)" "w' = tries create (Suc n) w1"
      "\<forall>m<n. \<exists>err. fst (create (tries create m w1)) = Some err \<and> hasReason ReasonForbidden err"
      "\<forall>err. r = Inr err \<longrightarrow> fst (create (tries create n w1)) = err \<and>
        (err \<noteq> None \<longrightarrow> IsAlreadyExists (the err) \<or> hasReason ReasonForbidden (the err) \<and> n = maxRetries - (attempt + 1) - 1)"
      by blast
    show ?thesis
    proof (intro exI [of _ "Suc n"] conjI allI impI)
      fix m assume "m < Suc n"
      then show "\<exists>err. fst (create (tries create m w)) = Some err \<and> hasReason ReasonForbidden err"
        using n(3) c err by (cases m) auto
    qed (use n c in auto)
  next
    case False
    with Suc.prems(1) a c have "w' = w1 \<and> (\<forall>err. r = Inr err \<longrightarrow> c = err \<and> (err \<noteq> None \<longrightarrow> IsAlreadyExists (the err)))"
      by (auto simp: createCluster.simps [of _ _ attempt] split: option.splits if_splits)
    with c a show ?thesis by (intro exI [of _ 0]) auto
  qed
qed

lemma Engage_ok:
  assumes "Engage aware create ctxErr w = ((None, cancelled), w')"
  shows "\<exists>w1 n. aware w = (None, w1) \<and> n < maxRetries \<and> w' = tries create (Suc n) w1 \<and>
    (case fst (create (tries create n w1)) of None \<Rightarrow> True | Some err \<Rightarrow> IsAlreadyExists err)"
proof -
  from assms obtain w1 r where aware: "aware w = (None, w1)" and run: "createCluster create ctxErr 0 None w1 = (Inr r, w')"
    and r: "case r of None \<Rightarrow> True | Some err \<Rightarrow> IsAlreadyExists err"
    by (auto simp: Engage_def split: prod.splits option.splits sum.splits if_splits)
  from createCluster_tries [OF run] obtain n where "n < maxRetries" "w' = tries create (Suc n) w1" "fst (create (tries create n w1)) = r"
    by (auto simp: maxRetries_def)
  with aware r show ?thesis by blast
qed

section \<open>External addresses\<close>

text \<open>
  The generator keeps the URL of the external address in a variable of the closure, and its path is
  set in place. The two steps of a call that touch it are apart: the path is set, and the text of
  the URL is read. \<open>toString\<close> is \<open>URL.String\<close>, \<open>parse\<close> is \<open>url.Parse\<close>.
\<close>

definition externalURL :: "(string \<Rightarrow> URL result) \<Rightarrow> string \<Rightarrow> URL option result" where
  "externalURL parse externalAddress =
     (if externalAddress = [] then Inr None
      else case parse externalAddress of Inl err \<Rightarrow> Inl (wrapError ''invalid --external-address'' err) | Inr u \<Rightarrow> Inr (Some u))"

definition setPath :: "(string \<Rightarrow> URL result) \<Rightarrow> URL option \<Rightarrow> restConfig \<Rightarrow> URL result \<times> URL option" where
  "setPath parse extURL clusterConfig =
     (case parse (rc_Host clusterConfig) of
        Inl err \<Rightarrow> (Inl err, extURL)
      | Inr u \<Rightarrow>
          (case clusterOfPath (PlainError ''invalid apiexport URL format'') (url_Path u) of
             Inl err \<Rightarrow> (Inl err, extURL)
           | Inr clusterID \<Rightarrow>
               let path = ''/clusters/'' @ clusterID
               in (Inr (u\<lparr>url_Path := path\<rparr>), map_option (\<lambda>e. e\<lparr>url_Path := path\<rparr>) extURL)))"

definition readAddress :: "(URL \<Rightarrow> string) \<Rightarrow> URL option \<Rightarrow> URL result \<Rightarrow> string result" where
  "readAddress toString extURL r =
     (case r of Inl err \<Rightarrow> Inl err | Inr u \<Rightarrow> Inr (toString (case extURL of None \<Rightarrow> u | Some e \<Rightarrow> e)))"

definition externalAddressGenerator ::
  "(string \<Rightarrow> URL result) \<Rightarrow> (URL \<Rightarrow> string) \<Rightarrow> URL option \<Rightarrow> restConfig \<Rightarrow> string result \<times> URL option" where
  "externalAddressGenerator parse toString extURL clusterConfig =
     (case setPath parse extURL clusterConfig of (r, extURL1) \<Rightarrow> (readAddress toString extURL1 r, extURL1))"

text \<open>The address of a cluster, whatever was asked before: the configured one or that of the host, with the path of the cluster.\<close>

definition addressSpec :: "(string \<Rightarrow> URL result) \<Rightarrow> (URL \<Rightarrow> string) \<Rightarrow> URL option \<Rightarrow> restConfig \<Rightarrow> string result" where
  "addressSpec parse toString external cfg =
     (case parse (rc_Host cfg) of
        Inl err \<Rightarrow> Inl err
      | Inr u \<Rightarrow> map_sum id (\<lambda>clusterID. toString ((case external of None \<Rightarrow> u | Some e \<Rightarrow> e)\<lparr>url_Path := ''/clusters/'' @ clusterID\<rparr>))
          (clusterOfPath (PlainError ''invalid apiexport URL format'') (url_Path u)))"

definition samePlace :: "URL option \<Rightarrow> URL option \<Rightarrow> bool" where
  "samePlace a b \<longleftrightarrow> map_option (\<lambda>u. (url_Scheme u, url_Host u)) a = map_option (\<lambda>u. (url_Scheme u, url_Host u)) b"

lemma externalAddressGenerator_sequential:
  assumes "samePlace ext0 ext"
  shows "fst (externalAddressGenerator parse toString ext cfg) = addressSpec parse toString ext0 cfg"
    and "samePlace ext0 (snd (externalAddressGenerator parse toString ext cfg))"
proof -
  have same: "map_option (\<lambda>e. e\<lparr>url_Path := p\<rparr>) ext = map_option (\<lambda>e. e\<lparr>url_Path := p\<rparr>) ext0" for p
    using assms by (cases ext; cases ext0) (auto simp: samePlace_def)
  show "fst (externalAddressGenerator parse toString ext cfg) = addressSpec parse toString ext0 cfg"
    by (cases ext0) (simp_all add: externalAddressGenerator_def addressSpec_def setPath_def readAddress_def Let_def same split: sum.split)
  show "samePlace ext0 (snd (externalAddressGenerator parse toString ext cfg))"
    using assms by (cases ext; cases ext0) (auto simp: externalAddressGenerator_def samePlace_def setPath_def Let_def split: sum.splits)
qed

text \<open>Two calls whose steps interleave: with an external address, the first one gets the address of the second cluster.\<close>

lemma externalAddressGenerator_race:
  assumes "setPath parse (Some ext) cfg1 = (Inr u1, ext1)" "setPath parse ext1 cfg2 = (Inr u2, ext2)"
  shows "readAddress toString ext2 (Inr u1) = addressSpec parse toString (Some ext) cfg2"
proof -
  from assms obtain v where "ext1 = Some v" "url_Scheme v = url_Scheme ext" "url_Host v = url_Host ext"
    by (auto simp: setPath_def Let_def split: sum.splits)
  then have "samePlace (Some ext) ext1" by (simp add: samePlace_def)
  from externalAddressGenerator_sequential(1) [OF this, of parse toString cfg2] assms(2)
  show ?thesis using \<open>ext1 = Some v\<close> by (auto simp: externalAddressGenerator_def readAddress_def setPath_def Let_def split: sum.splits)
qed

text \<open>Without an external address, a call uses the URL it has parsed itself.\<close>

lemma externalAddressGenerator_private:
  "readAddress toString None (fst (setPath parse None cfg)) = addressSpec parse toString None cfg"
  by (auto simp: addressSpec_def setPath_def readAddress_def Let_def split: sum.splits)

end
