(* ===== verification/Condition_Patch.thy ===== *)
theory Condition_Patch
  imports Crds
begin

text \<open>
  The three-way patch of the conditions package (\<open>patch.go\<close> of
  \<open>src/sdk/apis/third_party/conditions/util/conditions\<close>): the difference of two lists of conditions is
  computed as a list of operations, which is then applied to a third list that other processes may
  have changed. The lemmas show when applying a patch is a conflict, type by type, and what it
  leaves otherwise. The matchers of the package compare two lists up to their times and order.
\<close>

section \<open>Patches\<close>

text \<open>An operation has the conditions that its kind needs, so the pointers that are nil in Go are left out.\<close>

datatype PatchOperation = AddConditionPatch Condition | ChangeConditionPatch Condition Condition | RemoveConditionPatch Condition

type_synonym Patch = "PatchOperation list"

fun addOrChange :: "Getter \<Rightarrow> Condition \<Rightarrow> Patch" where
  "addOrChange before targetCondition =
     (case Get before (c_Type targetCondition) of
        None \<Rightarrow> [AddConditionPatch targetCondition]
      | Some currentCondition \<Rightarrow> if targetCondition \<noteq> currentCondition then [ChangeConditionPatch currentCondition targetCondition] else [])"

fun removed :: "Getter \<Rightarrow> Condition \<Rightarrow> Patch" where
  "removed after baseCondition =
     (case Get after (c_Type baseCondition) of None \<Rightarrow> [RemoveConditionPatch baseCondition] | Some _ \<Rightarrow> [])"

definition NewPatch :: "Getter \<Rightarrow> Getter \<Rightarrow> Patch" where
  "NewPatch before after =
     concat (map (addOrChange before) (g_Conditions after)) @ concat (map (removed after) (g_Conditions before))"

record applyOptions =
  ao_ownedConditions :: "ConditionType list"
  ao_forceOverwrite :: bool

type_synonym ApplyOption = "applyOptions \<Rightarrow> applyOptions"

definition isOwnedCondition :: "applyOptions \<Rightarrow> ConditionType \<Rightarrow> bool" where
  "isOwnedCondition opts t \<longleftrightarrow> t \<in> set (ao_ownedConditions opts)"

definition WithOwnedConditions :: "ConditionType list \<Rightarrow> ApplyOption" where
  "WithOwnedConditions ts opts = opts\<lparr>ao_ownedConditions := ts\<rparr>"

definition WithForceOverwrite :: "bool \<Rightarrow> ApplyOption" where
  "WithForceOverwrite v opts = opts\<lparr>ao_forceOverwrite := v\<rparr>"

definition conflict :: "string \<Rightarrow> string \<Rightarrow> ConditionType \<Rightarrow> string \<Rightarrow> error" where
  "conflict how op t detail = PlainError (''error patching conditions: The condition '' @ quote t @ '' was '' @ how @
     '' by a different process and this caused a merge/'' @ op @ ''Condition conflict'' @ detail)"

text \<open>One round of the loop: the error that ends it, and the object afterwards. \<open>diff\<close> is \<open>cmp.Diff\<close>.\<close>

fun applyOperation ::
  "'o Setter \<Rightarrow> time \<Rightarrow> (Condition \<Rightarrow> Condition \<Rightarrow> string) \<Rightarrow> applyOptions \<Rightarrow> PatchOperation \<Rightarrow> 'o \<Rightarrow> error option \<times> 'o" where
  "applyOperation I now diff opts (AddConditionPatch after) latest =
     (if ao_forceOverwrite opts \<or> isOwnedCondition opts (c_Type after) then (None, Set I now latest (Some after))
      else (case Get (s_getter I latest) (c_Type after) of
          Some latestCondition \<Rightarrow>
            if \<not> hasSameState latestCondition after
            then (Some (conflict ''modified'' ''Add'' (c_Type after) ('': '' @ diff latestCondition after)), latest)
            else (None, latest)
        | None \<Rightarrow> (None, Set I now latest (Some after))))"
| "applyOperation I now diff opts (ChangeConditionPatch before after) latest =
     (if ao_forceOverwrite opts \<or> isOwnedCondition opts (c_Type after) then (None, Set I now latest (Some after))
      else (case Get (s_getter I latest) (c_Type after) of
          None \<Rightarrow> (Some (conflict ''deleted'' ''Change'' (c_Type after) []), latest)
        | Some latestCondition \<Rightarrow>
            if latestCondition \<noteq> before
            then (if \<not> hasSameState latestCondition after
                  then (Some (conflict ''modified'' ''Change'' (c_Type after) ('': '' @ diff latestCondition after)), latest)
                  else (None, latest))
            else (None, Set I now latest (Some after))))"
| "applyOperation I now diff opts (RemoveConditionPatch before) latest =
     (if ao_forceOverwrite opts \<or> isOwnedCondition opts (c_Type before) then (None, Delete I latest (c_Type before))
      else (case Get (s_getter I latest) (c_Type before) of
          Some latestCondition \<Rightarrow>
            if \<not> hasSameState latestCondition before
            then (Some (conflict ''modified'' ''Remove'' (c_Type before) ('': '' @ diff latestCondition before)), latest)
            else (None, Delete I latest (c_Type before))
        | None \<Rightarrow> (None, Delete I latest (c_Type before))))"

fun applyOperations ::
  "'o Setter \<Rightarrow> time \<Rightarrow> (Condition \<Rightarrow> Condition \<Rightarrow> string) \<Rightarrow> applyOptions \<Rightarrow> Patch \<Rightarrow> 'o \<Rightarrow> error option \<times> 'o" where
  "applyOperations I now diff opts [] latest = (None, latest)"
| "applyOperations I now diff opts (p # ps) latest =
     (case applyOperation I now diff opts p latest of
        (Some err, latest1) \<Rightarrow> (Some err, latest1) | (None, latest1) \<Rightarrow> applyOperations I now diff opts ps latest1)"

definition appliedOptions :: "ApplyOption list \<Rightarrow> applyOptions" where
  "appliedOptions options = fold (\<lambda>opt. opt) options \<lparr>ao_ownedConditions = [], ao_forceOverwrite = False\<rparr>"

definition Patch_Apply ::
  "'o Setter \<Rightarrow> time \<Rightarrow> (Condition \<Rightarrow> Condition \<Rightarrow> string) \<Rightarrow> Patch \<Rightarrow> 'o \<Rightarrow> ApplyOption list \<Rightarrow> error option \<times> 'o" where
  "Patch_Apply I now diff p latest options =
     (if p = [] then (None, latest)
      else applyOperations I now diff (appliedOptions options) p latest)"

definition Patch_IsZero :: "Patch \<Rightarrow> bool" where
  "Patch_IsZero p \<longleftrightarrow> p = []"

section \<open>The three-way merge\<close>

fun opType :: "PatchOperation \<Rightarrow> ConditionType" where
  "opType (AddConditionPatch after) = c_Type after"
| "opType (ChangeConditionPatch before after) = c_Type after"
| "opType (RemoveConditionPatch before) = c_Type before"

text \<open>The condition an operation wants to have in the end, if any.\<close>

fun opTarget :: "PatchOperation \<Rightarrow> Condition option" where
  "opTarget (AddConditionPatch after) = Some after"
| "opTarget (ChangeConditionPatch before after) = Some after"
| "opTarget (RemoveConditionPatch before) = None"

text \<open>
  A conflict between the condition before, the one wanted and the latest one, of one type: the latest
  one is neither the one before nor in the wanted state. A missing latest condition conflicts with
  a change, and a removal only looks at the state, not at the time.
\<close>

fun conflicts :: "Condition option \<Rightarrow> Condition option \<Rightarrow> Condition option \<Rightarrow> bool" where
  "conflicts None None l \<longleftrightarrow> False"
| "conflicts None (Some a) l \<longleftrightarrow> (\<exists>c. l = Some c \<and> \<not> hasSameState c a)"
| "conflicts (Some b) (Some a) l \<longleftrightarrow> b \<noteq> a \<and> (case l of None \<Rightarrow> True | Some c \<Rightarrow> c \<noteq> b \<and> \<not> hasSameState c a)"
| "conflicts (Some b) None l \<longleftrightarrow> (\<exists>c. l = Some c \<and> \<not> hasSameState c b)"

fun opConflicts :: "PatchOperation \<Rightarrow> Condition option \<Rightarrow> bool" where
  "opConflicts (AddConditionPatch after) l \<longleftrightarrow> conflicts None (Some after) l"
| "opConflicts (ChangeConditionPatch before after) l \<longleftrightarrow> (case l of None \<Rightarrow> True | Some c \<Rightarrow> c \<noteq> before \<and> \<not> hasSameState c after)"
| "opConflicts (RemoveConditionPatch before) l \<longleftrightarrow> conflicts (Some before) None l"

definition overruled :: "applyOptions \<Rightarrow> ConditionType \<Rightarrow> bool" where
  "overruled opts t \<longleftrightarrow> ao_forceOverwrite opts \<or> isOwnedCondition opts t"

text \<open>Two conditions in the same state, or none.\<close>

definition sameState :: "Condition option \<Rightarrow> Condition option \<Rightarrow> bool" where
  "sameState a b \<longleftrightarrow> rel_option hasSameState a b"

lemma sameState_refl [simp]: "sameState a a"
  by (cases a) (simp_all add: sameState_def)

lemma sameState_simps [simp]:
  "sameState (Some a) (Some b) = hasSameState a b" "sameState None None" "\<not> sameState None (Some b)" "\<not> sameState (Some a) None"
  by (simp_all add: sameState_def)

lemma Get_type: "Get g t = Some c \<Longrightarrow> c_Type c = t"
  unfolding Get_def by (drule find_ofTypeD) simp

context condition_object
begin

lemma Get_Set_sameState: "sameState (Get (s_getter I (Set I now x (Some c))) (c_Type c)) (Some c)"
  by (cases "Get (s_getter I x) (c_Type c)") (simp_all add: Get_Set_same)

lemma applyOperation_result:
  assumes "applyOperation I now diff opts p x = (err, y)"
  shows "err = None \<longleftrightarrow> overruled opts (opType p) \<or> \<not> opConflicts p (Get (s_getter I x) (opType p))"
    and "err = None \<Longrightarrow> sameState (Get (s_getter I y) (opType p)) (opTarget p)"
    and "t \<noteq> opType p \<Longrightarrow> Get (s_getter I y) t = Get (s_getter I x) t"
proof -
  let ?l = "Get (s_getter I x) (opType p)"
  have "(err = None \<longleftrightarrow> overruled opts (opType p) \<or> \<not> opConflicts p ?l) \<and>
    (err = None \<longrightarrow> sameState (Get (s_getter I y) (opType p)) (opTarget p)) \<and>
    (t \<noteq> opType p \<longrightarrow> Get (s_getter I y) t = Get (s_getter I x) t)"
  proof (cases "overruled opts (opType p)")
    case True
    with assms show ?thesis by (cases p) (auto simp: overruled_def Get_Delete Get_Set_other Get_Set_sameState)
  next
    case False
    with assms show ?thesis
      by (cases p; cases ?l) (auto simp: overruled_def Get_Delete Get_Set_other Get_Set_sameState split: if_splits)
  qed
  then show "err = None \<longleftrightarrow> overruled opts (opType p) \<or> \<not> opConflicts p ?l"
    and "err = None \<Longrightarrow> sameState (Get (s_getter I y) (opType p)) (opTarget p)"
    and "t \<noteq> opType p \<Longrightarrow> Get (s_getter I y) t = Get (s_getter I x) t" by simp_all
qed

text \<open>With one operation per type, the operations do not disturb each other.\<close>

lemma applyOperations_result:
  assumes "applyOperations I now diff opts ps x = (err, y)" "distinct (map opType ps)"
  shows "err = None \<longleftrightarrow> (\<forall>p\<in>set ps. overruled opts (opType p) \<or> \<not> opConflicts p (Get (s_getter I x) (opType p)))"
    and "err = None \<Longrightarrow> p \<in> set ps \<Longrightarrow> sameState (Get (s_getter I y) (opType p)) (opTarget p)"
    and "t \<notin> opType ` set ps \<Longrightarrow> Get (s_getter I y) t = Get (s_getter I x) t"
proof -
  have "(err = None \<longleftrightarrow> (\<forall>p\<in>set ps. overruled opts (opType p) \<or> \<not> opConflicts p (Get (s_getter I x) (opType p)))) \<and>
    (err = None \<longrightarrow> (\<forall>p\<in>set ps. sameState (Get (s_getter I y) (opType p)) (opTarget p))) \<and>
    (\<forall>t. t \<notin> opType ` set ps \<longrightarrow> Get (s_getter I y) t = Get (s_getter I x) t)"
    using assms
  proof (induction ps arbitrary: x)
    case (Cons q qs)
    obtain err1 x1 where q: "applyOperation I now diff opts q x = (err1, x1)" by fastforce
    note one = applyOperation_result [OF q]
    show ?case
    proof (cases err1)
      case (Some e)
      with Cons.prems(1) q have y: "err = Some e" "y = x1" by simp_all
      show ?thesis using Some one(1,3) by (simp add: y)
    next
      case None
      with Cons.prems(1) q have rest: "applyOperations I now diff opts qs x1 = (err, y)" by simp
      have dist: "distinct (map opType qs)" "opType q \<notin> opType ` set qs" using Cons.prems(2) by simp_all
      note IH = Cons.IH [OF rest dist(1)]
      have same: "Get (s_getter I x1) (opType p) = Get (s_getter I x) (opType p)" if "p \<in> set qs" for p
        using one(3) that dist(2) by (metis imageI)
      have "sameState (Get (s_getter I y) (opType q)) (opTarget q)" using IH dist(2) one(2) None by simp
      with IH None one(1,3) same show ?thesis by auto
    qed
  qed simp
  then show "err = None \<longleftrightarrow> (\<forall>p\<in>set ps. overruled opts (opType p) \<or> \<not> opConflicts p (Get (s_getter I x) (opType p)))"
    and "err = None \<Longrightarrow> p \<in> set ps \<Longrightarrow> sameState (Get (s_getter I y) (opType p)) (opTarget p)"
    and "t \<notin> opType ` set ps \<Longrightarrow> Get (s_getter I y) t = Get (s_getter I x) t" by blast+
qed

end

text \<open>A new patch has one operation for each type that differs.\<close>

lemma Get_unique:
  assumes "distinctTypes (g_Conditions g)" "c \<in> set (g_Conditions g)"
  shows "Get g (c_Type c) = Some c"
proof -
  have "find (ofType (c_Type c)) cs = Some c" if "distinct (map c_Type cs)" "c \<in> set cs" for cs
    using that by (induction cs) auto
  with assms show ?thesis by (simp add: Get_def distinctTypes_def)
qed

lemma Get_in: "Get g t = Some c \<Longrightarrow> c \<in> set (g_Conditions g) \<and> c_Type c = t"
  unfolding Get_def by (drule find_ofTypeD) simp

fun diffOp :: "Condition option \<Rightarrow> Condition option \<Rightarrow> Patch" where
  "diffOp None None = []"
| "diffOp None (Some a) = [AddConditionPatch a]"
| "diffOp (Some b) (Some a) = (if b = a then [] else [ChangeConditionPatch b a])"
| "diffOp (Some b) None = [RemoveConditionPatch b]"

lemma diffOp_cases:
  assumes "p \<in> set (diffOp b a)"
  shows "opTarget p = a" "opConflicts p l \<longleftrightarrow> conflicts b a l"
    and "(\<And>c. b = Some c \<Longrightarrow> c_Type c = t) \<Longrightarrow> (\<And>c. a = Some c \<Longrightarrow> c_Type c = t) \<Longrightarrow> opType p = t"
  using assms by (cases b; cases a; auto split: if_splits)+

lemma diffOp_type:
  assumes "p \<in> set (diffOp (Get before t) (Get after t))"
  shows "opType p = t" "opTarget p = Get after t" "opConflicts p l \<longleftrightarrow> conflicts (Get before t) (Get after t) l"
  by (rule diffOp_cases [OF assms], blast dest: Get_in, blast dest: Get_in) (rule diffOp_cases [OF assms])+

lemma diffOp_Nil: "diffOp b a = [] \<longleftrightarrow> b = a"
  by (cases b; cases a) auto

lemma conflicts_refl [simp]: "\<not> conflicts a a l"
  by (cases a) auto

lemma addOrChange_diff:
  assumes "distinctTypes (g_Conditions after)" "c \<in> set (g_Conditions after)"
  shows "addOrChange before c = diffOp (Get before (c_Type c)) (Get after (c_Type c))"
  using Get_unique [OF assms] by (auto split: option.split)

lemma removed_diff:
  assumes "distinctTypes (g_Conditions before)" "c \<in> set (g_Conditions before)"
  shows "removed after c = (if Get after (c_Type c) = None then diffOp (Get before (c_Type c)) (Get after (c_Type c)) else [])"
  using Get_unique [OF assms] by (auto split: option.split)

lemma set_NewPatch:
  assumes "distinctTypes (g_Conditions before)" "distinctTypes (g_Conditions after)"
  shows "p \<in> set (NewPatch before after) \<longleftrightarrow> (\<exists>t. p \<in> set (diffOp (Get before t) (Get after t)))"
proof
  assume "p \<in> set (NewPatch before after)"
  then consider c where "c \<in> set (g_Conditions after)" "p \<in> set (addOrChange before c)"
    | c where "c \<in> set (g_Conditions before)" "p \<in> set (removed after c)"
    unfolding NewPatch_def set_append set_concat set_map by blast
  then show "\<exists>t. p \<in> set (diffOp (Get before t) (Get after t))"
  proof cases
    case 1
    with addOrChange_diff [OF assms(2) 1(1), of before] show ?thesis by metis
  next
    case 2
    with removed_diff [OF assms(1) 2(1), of after] show ?thesis by (metis empty_iff list.set(1))
  qed
next
  assume "\<exists>t. p \<in> set (diffOp (Get before t) (Get after t))"
  then obtain t where t: "p \<in> set (diffOp (Get before t) (Get after t))" ..
  show "p \<in> set (NewPatch before after)"
  proof (cases "Get after t")
    case (Some c)
    then have c: "c \<in> set (g_Conditions after)" "c_Type c = t" using Get_in by blast+
    with t addOrChange_diff [OF assms(2) c(1), of before] have "p \<in> set (addOrChange before c)" by simp
    with c(1) show ?thesis unfolding NewPatch_def set_append set_concat set_map by blast
  next
    case None
    with t obtain c where "Get before t = Some c" by (cases "Get before t") auto
    then have c: "c \<in> set (g_Conditions before)" "c_Type c = t" using Get_in by blast+
    with t None removed_diff [OF assms(1) c(1), of after] have "p \<in> set (removed after c)" by simp
    with c(1) show ?thesis unfolding NewPatch_def set_append set_concat set_map by blast
  qed
qed

lemma distinct_concat_single:
  assumes "distinct (map h xs)" "\<And>x. x \<in> set xs \<Longrightarrow> distinct (g x) \<and> f ` set (g x) \<subseteq> {h x}" "\<And>x. x \<in> set xs \<Longrightarrow> length (g x) \<le> 1"
  shows "distinct (map f (concat (map g xs)))"
  using assms
proof (induction xs)
  case (Cons x xs)
  have one: "distinct (map f (g x))" using Cons.prems(3) [of x] by (cases "g x" rule: remdups_adj.cases) auto
  have rest: "f ` set (concat (map g xs)) \<subseteq> h ` set xs"
  proof -
    have "f ` set (g y) \<subseteq> h ` set xs" if "y \<in> set xs" for y using Cons.prems(2) [of y] that by auto
    then show ?thesis unfolding set_concat set_map by blast
  qed
  have here: "f ` set (g x) \<subseteq> {h x}" "{h x} \<inter> h ` set xs = {}" using Cons.prems(1) Cons.prems(2) [of x] by simp_all
  have apart: "f ` set (g x) \<inter> f ` set (concat (map g xs)) = {}" using Int_mono [OF here(1) rest] unfolding here(2) by (simp only: subset_empty)
  have "distinct (map f (concat (map g xs)))" using Cons.prems(1) by (intro Cons.IH Cons.prems(2,3)) simp_all
  with one apart show ?case by (simp only: list.map concat.simps map_append distinct_append set_map simp_thms)
qed simp

lemma distinct_NewPatch:
  assumes "distinctTypes (g_Conditions before)" "distinctTypes (g_Conditions after)"
  shows "distinct (map opType (NewPatch before after))"
proof -
  have a: "opType ` set (addOrChange before c) \<subseteq> {c_Type c}" "length (addOrChange before c) \<le> 1" "distinct (addOrChange before c)" for c
    by (auto split: option.split)
  have r: "opType ` set (removed after c) \<subseteq> {c_Type c}" "length (removed after c) \<le> 1" "distinct (removed after c)" for c
    by (auto split: option.split)
  have "distinct (map opType (concat (map (addOrChange before) (g_Conditions after))))"
    by (rule distinct_concat_single [where h = c_Type]) (use a assms(2) in \<open>simp_all add: distinctTypes_def\<close>)
  moreover have "distinct (map opType (concat (map (removed after) (g_Conditions before))))"
    by (rule distinct_concat_single [where h = c_Type]) (use r assms(1) in \<open>simp_all add: distinctTypes_def\<close>)
  moreover have "opType ` set (concat (map (addOrChange before) (g_Conditions after))) \<subseteq> c_Type ` set (g_Conditions after)"
    using a(1) by fastforce
  moreover have "t \<notin> c_Type ` set (g_Conditions after)" if "t \<in> opType ` set (concat (map (removed after) (g_Conditions before)))" for t
  proof -
    from that obtain c where "t \<in> opType ` set (removed after c)" unfolding set_concat set_map by blast
    then have "t = c_Type c \<and> Get after (c_Type c) = None" by (cases "Get after (c_Type c)") simp_all
    then show ?thesis by (simp add: Get_def find_ofType_None)
  qed
  ultimately show ?thesis unfolding NewPatch_def map_append distinct_append by auto
qed

context condition_object
begin

lemma Patch_Apply_result:
  assumes "distinctTypes (g_Conditions before)" "distinctTypes (g_Conditions after)"
    and run: "Patch_Apply I now diff (NewPatch before after) x options = (err, y)"
  shows "err = None \<longleftrightarrow>
      (\<forall>t. overruled (appliedOptions options) t \<or> \<not> conflicts (Get before t) (Get after t) (Get (s_getter I x) t))"
    and "Get before t = Get after t \<Longrightarrow> Get (s_getter I y) t = Get (s_getter I x) t"
    and "err = None \<Longrightarrow> Get before t \<noteq> Get after t \<Longrightarrow> sameState (Get (s_getter I y) t) (Get after t)"
proof -
  let ?ps = "NewPatch before after" and ?opts = "appliedOptions options"
  have run': "applyOperations I now diff ?opts ?ps x = (err, y)" using run by (auto simp: Patch_Apply_def split: if_splits)
  note ops = set_NewPatch [OF assms(1,2)] and dist = distinct_NewPatch [OF assms(1,2)]
  note result = applyOperations_result [OF run' dist]
  have op: "\<exists>p\<in>set ?ps. p \<in> set (diffOp (Get before t) (Get after t))" if "Get before t \<noteq> Get after t" for t
  proof -
    from that obtain p where "p \<in> set (diffOp (Get before t) (Get after t))"
      using diffOp_Nil [of "Get before t" "Get after t"] by (meson hd_in_set)
    with ops show ?thesis by blast
  qed
  have conf: "(\<forall>p\<in>set ?ps. overruled ?opts (opType p) \<or> \<not> opConflicts p (Get (s_getter I x) (opType p))) \<longleftrightarrow>
      (\<forall>t. overruled ?opts t \<or> \<not> conflicts (Get before t) (Get after t) (Get (s_getter I x) t))"
    using op ops diffOp_type by (metis conflicts_refl)
  show "err = None \<longleftrightarrow> (\<forall>t. overruled ?opts t \<or> \<not> conflicts (Get before t) (Get after t) (Get (s_getter I x) t))"
    using result(1) conf by simp
  show "Get (s_getter I y) t = Get (s_getter I x) t" if "Get before t = Get after t"
  proof (rule result(3))
    show "t \<notin> opType ` set ?ps"
    proof
      assume "t \<in> opType ` set ?ps"
      then obtain p t' where "p \<in> set (diffOp (Get before t') (Get after t'))" "opType p = t" using ops by blast
      with diffOp_type(1) [of p before t' after] that diffOp_Nil [of "Get before t" "Get after t"] show False by simp
    qed
  qed
  show "sameState (Get (s_getter I y) t) (Get after t)" if "err = None" "Get before t \<noteq> Get after t"
    using op [OF that(2)] result(2) [OF that(1)] diffOp_type(1,2) by metis
qed

end

text \<open>
  C9: a patch of conditions is a three-way merge. Applying the difference of two lists of conditions to
  the latest conditions of an export fails exactly when some type is in conflict that is neither owned
  by the caller nor overwritten by force. A type that did not change between the two lists stays as it
  is in the latest conditions, also when there is an error; and without an error every type that did
  change is in the state that the second list gives it, or is gone if it is not in that list.
\<close>

theorem three_way_merge:
  assumes "distinctTypes (g_Conditions before)" "distinctTypes (g_Conditions after)"
    and "Patch_Apply APIServiceExport_Setter now diff (NewPatch before after) latest options = (err, result)"
  shows "(err = None \<longleftrightarrow> (\<forall>t. overruled (appliedOptions options) t \<or>
      \<not> conflicts (Get before t) (Get after t) (Get (s_getter APIServiceExport_Setter latest) t))) \<and>
    (\<forall>t. Get before t = Get after t \<longrightarrow>
      Get (s_getter APIServiceExport_Setter result) t = Get (s_getter APIServiceExport_Setter latest) t) \<and>
    (err = None \<longrightarrow> (\<forall>t. Get before t \<noteq> Get after t \<longrightarrow>
      sameState (Get (s_getter APIServiceExport_Setter result) t) (Get after t)))"
  using exp_obj.Patch_Apply_result [OF assms] by blast

text \<open>One process turns a condition to false while another one adds a second condition; a third change of the first one is a conflict.\<close>

definition exampleState :: "string \<Rightarrow> ConditionStatus \<Rightarrow> Condition" where
  "exampleState t st = \<lparr>c_Type = t, c_Status = st, c_Severity = [], c_LastTransitionTime = 5 * Second, c_Reason = [], c_Message = []\<rparr>"

definition exampleGetter :: "Conditions \<Rightarrow> Getter" where
  "exampleGetter cs = \<lparr>g_Name = ''dbs'', g_Kind = ''APIServiceExport'', g_Conditions = cs\<rparr>"

definition patchExample :: "Conditions \<Rightarrow> error option \<times> APIServiceExport" where
  "patchExample latest = Patch_Apply APIServiceExport_Setter (9 * Second) (\<lambda>a b. [])
     (NewPatch (exampleGetter [exampleState ''A'' ''True'']) (exampleGetter [exampleState ''A'' ''False'']))
     (exampleExport\<lparr>ex_Status := \<lparr>ext_Conditions = latest\<rparr>\<rparr>) []"

theorem three_way_merge_witness:
  "fst (patchExample [exampleState ''A'' ''True'', exampleState ''B'' ''True'']) = None \<and>
   sameState (Get (s_getter APIServiceExport_Setter (snd (patchExample [exampleState ''A'' ''True'', exampleState ''B'' ''True'']))) ''A'')
     (Some (exampleState ''A'' ''False'')) \<and>
   fst (patchExample [exampleState ''A'' ''Unknown'']) \<noteq> None"
proof -
  let ?before = "exampleGetter [exampleState ''A'' ''True'']" and ?after = "exampleGetter [exampleState ''A'' ''False'']"
  let ?run = "patchExample [exampleState ''A'' ''True'', exampleState ''B'' ''True'']"
  have d: "distinctTypes (g_Conditions ?before)" "distinctTypes (g_Conditions ?after)" by (simp_all add: distinctTypes_def exampleGetter_def)
  have ok: "fst ?run = None" by code_simp
  have run: "Patch_Apply APIServiceExport_Setter (9 * Second) (\<lambda>a b. []) (NewPatch ?before ?after)
      (exampleExport\<lparr>ex_Status := \<lparr>ext_Conditions = [exampleState ''A'' ''True'', exampleState ''B'' ''True'']\<rparr>\<rparr>) [] = (fst ?run, snd ?run)"
    by (simp add: patchExample_def)
  have g: "Get ?before ''A'' \<noteq> Get ?after ''A''" "Get ?after ''A'' = Some (exampleState ''A'' ''False'')"
    by (simp_all add: Get_def exampleGetter_def exampleState_def)
  have "sameState (Get (s_getter APIServiceExport_Setter (snd ?run)) ''A'') (Get ?after ''A'')"
    using three_way_merge [OF d run] ok g(1) by blast
  moreover have "fst (patchExample [exampleState ''A'' ''Unknown'']) \<noteq> None" by code_simp
  ultimately show ?thesis using ok g(2) by simp
qed

end
