(* ===== verification/Cli_Config.thy ===== *)
theory Cli_Config
  imports Kcp_Provider Authentication
begin

text \<open>
  The configuration of the command line tools (\<open>src/cli/pkg/config\<close>), the HTTP client (\<open>src/cli/pkg/client\<close>), the
  options that all plugins share (\<open>kubectl/base/options.go\<close>) and the login
  (\<open>kubectl/bind-login\<close>). The lemmas show that a saved configuration is read back, that a
  login is found again by the next command, what the client sends, and where the key of a server
  and the current server go wrong.
\<close>

section \<open>The configuration file\<close>

record Server =
  sv_URL :: string
  sv_Cluster :: string
  sv_AccessToken :: string
  sv_TokenType :: string
  sv_ExpiresAt :: time
  sv_Username :: string

record Config =
  cf_APIVersion :: string
  cf_Kind :: string
  cf_Servers :: "(string, Server) mapping"
  cf_Current :: string
  cf_configFile :: string

text \<open>
  The file system: a missing file is an error with the reason \<open>ReasonNotFound\<close>; \<open>fl_mkdirAll\<close> makes the
  directory of a file. The contents of files are values of a type \<open>'f\<close>, which \<open>encode\<close> and
  \<open>decode\<close> (\<open>encoding/json\<close>) write and read.
\<close>

record ('w, 'f) files =
  fl_stat :: "'w \<Rightarrow> string \<Rightarrow> error option"
  fl_read :: "'w \<Rightarrow> string \<Rightarrow> 'f result"
  fl_write :: "'w \<Rightarrow> string \<Rightarrow> 'f \<Rightarrow> error option \<times> 'w"
  fl_mkdirAll :: "'w \<Rightarrow> string \<Rightarrow> error option \<times> 'w"

text \<open>\<open>path.Clean\<close> and \<open>path.Join\<close>.\<close>

definition cleanStep :: "bool \<Rightarrow> string \<Rightarrow> string list \<Rightarrow> string list" where
  "cleanStep rooted part acc =
     (if part = [] \<or> part = ''.'' then acc
      else if part = ''..''
      then (if acc \<noteq> [] \<and> last acc \<noteq> ''..'' then butlast acc else if rooted then acc else acc @ [part])
      else acc @ [part])"

definition path_Clean :: "string \<Rightarrow> string" where
  "path_Clean s =
     (let rooted = HasPrefix s ''/''; out = Join (fold (cleanStep rooted) (SplitSlash s) []) ''/''
      in if rooted then ''/'' @ out else if out = [] then ''.'' else out)"

definition path_Join :: "string list \<Rightarrow> string" where
  "path_Join elems =
     (let nonEmpty = filter (\<lambda>e. e \<noteq> []) elems in if nonEmpty = [] then [] else path_Clean (Join nonEmpty ''/''))"

definition GetDefaultConfigFilePath :: "string result \<Rightarrow> string" where
  "GetDefaultConfigFilePath userHomeDir =
     (case userHomeDir of Inl err \<Rightarrow> path_Join [''.'', ''config''] | Inr homeDir \<Rightarrow> path_Join [homeDir, ''.kube-bind'', ''config''])"

definition NewConfig :: "string result \<Rightarrow> string \<Rightarrow> Config" where
  "NewConfig userHomeDir configFile =
     \<lparr>cf_APIVersion = ''v1'', cf_Kind = ''Config'', cf_Servers = Mapping.empty, cf_Current = [],
      cf_configFile = (if configFile = [] then GetDefaultConfigFilePath userHomeDir else configFile)\<rparr>"

definition LoadConfigFromFile ::
  "('w, 'f) files \<Rightarrow> ('f \<Rightarrow> Config result) \<Rightarrow> string result \<Rightarrow> string \<Rightarrow> 'w \<Rightarrow> Config result" where
  "LoadConfigFromFile fl decode userHomeDir configFile w =
     (if (case fl_stat fl w configFile of Some err \<Rightarrow> IsNotFound err | None \<Rightarrow> False) then Inr (NewConfig userHomeDir configFile)
      else (case fl_read fl w configFile of
          Inl err \<Rightarrow> Inl (wrapError ''unable to read config file'' err)
        | Inr data \<Rightarrow>
            (case decode data of
               Inl err \<Rightarrow> Inl (wrapError ''unable to parse config file'' err)
             | Inr config \<Rightarrow> Inr (config\<lparr>cf_configFile := configFile\<rparr>))))"

definition SaveConfig :: "('w, 'f) files \<Rightarrow> (Config \<Rightarrow> 'f result) \<Rightarrow> Config \<Rightarrow> 'w \<Rightarrow> error option \<times> 'w" where
  "SaveConfig fl encode c w =
     (case encode c of
        Inl err \<Rightarrow> (Some (wrapError ''unable to marshal config'' err), w)
      | Inr data \<Rightarrow>
          (case fl_write fl w (cf_configFile c) data of
             (Some err, w1) \<Rightarrow> (Some (wrapError (''unable to write config file '' @ cf_configFile c) err), w1)
           | (None, w1) \<Rightarrow> (None, w1)))"

text \<open>The key of a server, and its inverse.\<close>

definition buildServerKey :: "string \<Rightarrow> string \<Rightarrow> string" where
  "buildServerKey serverURL clusterID = (if clusterID = [] then serverURL else Sprintf ''%s@%s'' [FStr clusterID, FStr serverURL])"

definition parseServerKey :: "string \<Rightarrow> string \<times> string" where
  "parseServerKey key =
     (let parts = SplitN key (CHR ''@'') 2 in if length parts = 2 then (parts ! 1, parts ! 0) else (key, []))"

definition Config_Get :: "Config \<Rightarrow> string \<Rightarrow> string \<Rightarrow> Server option" where
  "Config_Get c serverURL clusterID = Mapping.lookup (cf_Servers c) (buildServerKey serverURL clusterID)"

definition addServer :: "string \<Rightarrow> Server \<Rightarrow> Config \<Rightarrow> Config" where
  "addServer name server c = c\<lparr>cf_Servers := Mapping.update name server (cf_Servers c), cf_Current := name\<rparr>"

definition AddServerWithCluster :: "string \<Rightarrow> string \<Rightarrow> Server \<Rightarrow> Config \<Rightarrow> Config" where
  "AddServerWithCluster serverURL clusterID server c = addServer (buildServerKey serverURL clusterID) server c"

definition FindServersByURL :: "string \<Rightarrow> Config \<Rightarrow> (string, Server) mapping" where
  "FindServersByURL serverURL c = Mapping.filter (\<lambda>key server. fst (parseServerKey key) = serverURL) (cf_Servers c)"

text \<open>\<open>pick\<close> is the first key in the order in which Go iterates over a map, if there is one.\<close>

definition RemoveServer :: "((string, Server) mapping \<Rightarrow> string option) \<Rightarrow> string \<Rightarrow> string \<Rightarrow> Config \<Rightarrow> Config" where
  "RemoveServer pick name cluster c =
     (let servers = Mapping.delete (buildServerKey name cluster) (cf_Servers c)
      in c\<lparr>cf_Servers := servers,
           cf_Current := (if cf_Current c = name then (case pick servers of None \<Rightarrow> [] | Some key \<Rightarrow> key) else cf_Current c)\<rparr>)"

definition GetCurrentServer :: "Config \<Rightarrow> (Server \<times> string) result" where
  "GetCurrentServer c =
     (if cf_Current c = [] then Inl (PlainError ''no current server set'')
      else (case Mapping.lookup (cf_Servers c) (cf_Current c) of
          None \<Rightarrow> Inl (PlainError (''current server '' @ quote (cf_Current c) @ '' not found in config''))
        | Some server \<Rightarrow> Inr (server, cf_Current c)))"

definition SetCurrentServer :: "string \<Rightarrow> string \<Rightarrow> Config \<Rightarrow> Config result" where
  "SetCurrentServer serverName cluster c =
     (if Mapping.lookup (cf_Servers c) (buildServerKey serverName cluster) = None
      then Inl (PlainError (''server '' @ quote serverName @ '' does not exist''))
      else Inr (c\<lparr>cf_Current := buildServerKey serverName cluster\<rparr>))"

section \<open>The HTTP client\<close>

record fullURL = URL +
  url_Query :: smap

record cli_request =
  hr_Method :: string
  hr_URL :: fullURL
  hr_Header :: smap
  hr_Body :: string

text \<open>\<open>hc_do\<close> sends a request and gives the status code and the body of the response.\<close>

record http_client =
  hc_newRequest :: "string \<Rightarrow> fullURL \<Rightarrow> error option"
  hc_do :: "cli_request \<Rightarrow> (nat \<times> string) result"

definition isTokenValid :: "time \<Rightarrow> Server \<Rightarrow> bool" where
  "isTokenValid now server \<longleftrightarrow>
     sv_AccessToken server \<noteq> [] \<and> \<not> (\<not> IsZeroTime (sv_ExpiresAt server) \<and> now + 5 * Minute > sv_ExpiresAt server)"

definition getAuthorizationHeader :: "Server \<Rightarrow> string" where
  "getAuthorizationHeader server =
     (let tokenType = (if sv_TokenType server = [] then ''Bearer'' else sv_TokenType server)
      in Sprintf ''%s %s'' [FStr tokenType, FStr (sv_AccessToken server)])"

definition addAuthHeaders :: "time \<Rightarrow> Server \<Rightarrow> smap \<Rightarrow> smap result" where
  "addAuthHeaders now s header =
     (if \<not> isTokenValid now s
      then Inl (PlainError (if sv_Cluster s \<noteq> []
         then Sprintf ''no valid authentication found for server %s with cluster %s. Please run 'kubectl bind login %s --cluster %s' first''
                [FStr (sv_URL s), FStr (sv_Cluster s), FStr (sv_URL s), FStr (sv_Cluster s)]
         else Sprintf ''no valid authentication found for server %s. Please run 'kubectl bind login %s' first'' [FStr (sv_URL s), FStr (sv_URL s)]))
      else Inr (Mapping.update ''Accept'' ''application/json'' (Mapping.update ''User-Agent'' ''kubectl-bind-cli''
             (Mapping.update ''Authorization'' (getAuthorizationHeader s) header))))"

definition buildEndpointURL :: "(string \<Rightarrow> fullURL result) \<Rightarrow> Server \<Rightarrow> string \<Rightarrow> fullURL result" where
  "buildEndpointURL parse server endpoint =
     (case parse (sv_URL server) of
        Inl err \<Rightarrow> Inl (wrapError (''invalid server URL '' @ quote (sv_URL server)) err)
      | Inr baseURL \<Rightarrow>
          if url_Scheme baseURL = [] \<or> url_Host baseURL = []
          then Inl (PlainError (''invalid server URL '' @ quote (sv_URL server) @ '': missing scheme or host''))
          else Inr (baseURL\<lparr>url_Path := path_Join [url_Path baseURL, ''api'', TrimPrefix endpoint ''/''],
                 url_Query := (if sv_Cluster server \<noteq> [] then Mapping.update ''cluster_id'' (sv_Cluster server) (url_Query baseURL)
                               else url_Query baseURL)\<rparr>))"

definition cli_send :: "http_client \<Rightarrow> time \<Rightarrow> Server \<Rightarrow> string \<Rightarrow> smap \<Rightarrow> fullURL \<Rightarrow> string \<Rightarrow> (nat \<times> string) result" where
  "cli_send hc now server verb header url body =
     (case hc_newRequest hc verb url of
        Some err \<Rightarrow> Inl err
      | None \<Rightarrow>
          (case addAuthHeaders now server header of
             Inl err \<Rightarrow> Inl err
           | Inr h \<Rightarrow> hc_do hc \<lparr>hr_Method = verb, hr_URL = url, hr_Header = h, hr_Body = body\<rparr>))"

definition cli_Get :: "http_client \<Rightarrow> time \<Rightarrow> Server \<Rightarrow> fullURL \<Rightarrow> (nat \<times> string) result" where
  "cli_Get hc now server url = cli_send hc now server ''GET'' Mapping.empty url []"

definition cli_Post :: "http_client \<Rightarrow> time \<Rightarrow> Server \<Rightarrow> fullURL \<Rightarrow> string \<Rightarrow> (nat \<times> string) result" where
  "cli_Post hc now server url body =
     cli_send hc now server ''POST'' (Mapping.update ''Content-Type'' ''application/json'' Mapping.empty) url body"

text \<open>The requests for templates and for collections differ in the endpoint and in the decoder.\<close>

definition cli_list ::
  "string \<Rightarrow> (string \<Rightarrow> fullURL result) \<Rightarrow> http_client \<Rightarrow> (string \<Rightarrow> 'a result) \<Rightarrow> time \<Rightarrow> Server \<Rightarrow> 'a result" where
  "cli_list what parse hc decode now server =
     (case buildEndpointURL parse server what of
        Inl err \<Rightarrow> Inl (wrapError (''failed to build '' @ what @ '' URL'') err)
      | Inr url \<Rightarrow>
          (case cli_Get hc now server url of
             Inl err \<Rightarrow> Inl err
           | Inr (code, body) \<Rightarrow>
               (case decode body of
                  Inl err \<Rightarrow> Inl (wrapError (''failed to decode '' @ what @ '' response'') err) | Inr r \<Rightarrow> Inr r)))"

definition cli_GetTemplates ::
  "(string \<Rightarrow> fullURL result) \<Rightarrow> http_client \<Rightarrow> (string \<Rightarrow> 'a result) \<Rightarrow> time \<Rightarrow> Server \<Rightarrow> 'a result" where
  "cli_GetTemplates = cli_list ''templates''"

definition cli_GetCollections ::
  "(string \<Rightarrow> fullURL result) \<Rightarrow> http_client \<Rightarrow> (string \<Rightarrow> 'a result) \<Rightarrow> time \<Rightarrow> Server \<Rightarrow> 'a result" where
  "cli_GetCollections = cli_list ''collections''"

definition cli_Bind ::
  "(string \<Rightarrow> fullURL result) \<Rightarrow> http_client \<Rightarrow> ('q \<Rightarrow> string result) \<Rightarrow> (string \<Rightarrow> 'a result) \<Rightarrow> time \<Rightarrow> Server \<Rightarrow> 'q \<Rightarrow> 'a result" where
  "cli_Bind parse hc encode decode now server request =
     (case buildEndpointURL parse server ''bind'' of
        Inl err \<Rightarrow> Inl (wrapError ''failed to build bind URL'' err)
      | Inr url \<Rightarrow>
          (case encode request of
             Inl err \<Rightarrow> Inl (wrapError ''failed to marshal bind request'' err)
           | Inr reqBody \<Rightarrow>
               (case cli_Post hc now server url reqBody of
                  Inl err \<Rightarrow> Inl (wrapError ''failed to send bind request'' err)
                | Inr (code, body) \<Rightarrow>
                    (case decode body of
                       Inl err \<Rightarrow> Inl (wrapError ''failed to decode bind response'' err) | Inr r \<Rightarrow> Inr r))))"

section \<open>Options of all plugins\<close>

record Options =
  op_ServerName :: string
  op_ClusterName :: string
  op_SkipInsecure :: bool
  op_ConfigFile :: string
  op_config :: "Config option"
  op_server :: "Server option"

text \<open>What completing the options calls: the file system, JSON, the home directory and the loading of the kubeconfig.\<close>

record ('w, 'f) cli_env =
  ce_files :: "('w, 'f) files"
  ce_encode :: "Config \<Rightarrow> 'f result"
  ce_decode :: "'f \<Rightarrow> Config result"
  ce_home :: "string result"
  ce_startingConfig :: "error option"

definition splitServerName :: "Options \<Rightarrow> Options" where
  "splitServerName o1 =
     (if op_ServerName o1 \<noteq> [] \<and> op_ClusterName o1 = [] \<and> Contains (op_ServerName o1) ''@''
      then let parts = SplitN (op_ServerName o1) (CHR ''@'') 2 in o1\<lparr>op_ServerName := parts ! 0, op_ClusterName := parts ! 1\<rparr>
      else o1)"

text \<open>The server of the options: the current one of the configuration, or the one that is named.\<close>

definition resolveServer :: "bool \<Rightarrow> Options \<Rightarrow> Config \<Rightarrow> Server option result" where
  "resolveServer skipValidate o1 c =
     (if op_ServerName o1 = []
      then (case GetCurrentServer c of
          Inl err \<Rightarrow> if \<not> skipValidate
            then Inl (wrapError ''no current server configured. Use 'kubectl bind-login <server> {--cluster <cluster>}' to login first'' err)
            else Inr None
        | Inr (s, key) \<Rightarrow> Inr (Some s))
      else (case Config_Get c (op_ServerName o1) (op_ClusterName o1) of
          None \<Rightarrow> if \<not> skipValidate
            then Inl (PlainError (if op_ClusterName o1 \<noteq> []
              then Sprintf ''server %q with cluster %q not found in config'' [FStr (op_ServerName o1), FStr (op_ClusterName o1)]
              else Sprintf ''server %q not found in config'' [FStr (op_ServerName o1)]))
            else Inr None
        | Some s \<Rightarrow> Inr (Some s)))"

definition withServer :: "Server option \<Rightarrow> Config \<Rightarrow> Options \<Rightarrow> Options" where
  "withServer s c o1 =
     (case s of None \<Rightarrow> o1 | Some sv \<Rightarrow> o1\<lparr>op_ServerName := sv_URL sv, op_ClusterName := sv_Cluster sv\<rparr>)\<lparr>op_server := s, op_config := Some c\<rparr>"

definition Options_Complete :: "('w, 'f) cli_env \<Rightarrow> bool \<Rightarrow> Options \<Rightarrow> 'w \<Rightarrow> Options result \<times> 'w" where
  "Options_Complete ce skipValidate o0 w =
     (case ce_startingConfig ce of
        Some err \<Rightarrow> (Inl err, w)
      | None \<Rightarrow>
          let o1 = (if op_ConfigFile o0 = [] then o0\<lparr>op_ConfigFile := GetDefaultConfigFilePath (ce_home ce)\<rparr> else o0); file = op_ConfigFile o1
          in (case fl_mkdirAll (ce_files ce) w file of
                (Some err, w1) \<Rightarrow> (Inl (wrapError ''unable to create config directory'' err), w1)
              | (None, w1) \<Rightarrow>
                  (case (if (case fl_stat (ce_files ce) w1 file of Some err \<Rightarrow> IsNotFound err | None \<Rightarrow> False)
                         then SaveConfig (ce_files ce) (ce_encode ce) (NewConfig (ce_home ce) file) w1 else (None, w1)) of
                     (Some err, w2) \<Rightarrow> (Inl (wrapError ''unable to create config file'' err), w2)
                   | (None, w2) \<Rightarrow>
                       let o2 = splitServerName o1
                       in (case LoadConfigFromFile (ce_files ce) (ce_decode ce) (ce_home ce) file w2 of
                             Inl err \<Rightarrow> (Inl (wrapError ''failed to load config'' err), w2)
                           | Inr c \<Rightarrow>
                               (case resolveServer skipValidate o2 c of
                                  Inl err \<Rightarrow> (Inl err, w2)
                                | Inr s \<Rightarrow> (Inr (withServer s c o2), w2))))))"

definition Options_Validate :: "(string \<Rightarrow> fullURL result) \<Rightarrow> Options \<Rightarrow> error option" where
  "Options_Validate parse o1 =
     (if op_ServerName o1 \<noteq> [] \<and> Contains (op_ServerName o1) ''@'' \<and> op_ClusterName o1 \<noteq> []
      then Some (PlainError ''cannot specify both server in 'server@cluster' format and --cluster flag'')
      else if op_ClusterName o1 \<noteq> [] \<and> op_ServerName o1 = [] then Some (PlainError ''cannot specify --cluster without --server'')
      else (case parse (op_ServerName o1) of Inl err \<Rightarrow> Some (wrapError ''invalid server URL'' err) | Inr u \<Rightarrow> None))"

section \<open>The login\<close>

record TokenResponse =
  to_AccessToken :: string
  to_TokenType :: string
  to_ExpiresIn :: int
  to_ExpiresAt :: time
  to_Error :: string
  to_ErrorMessage :: string
  to_Cluster :: string

text \<open>\<open>strconv.ParseInt\<close> for the base 10 and 64 bits.\<close>

definition digitsValue :: "string \<Rightarrow> int" where
  "digitsValue ds = foldl (\<lambda>n c. 10 * n + int (of_char c - 48)) 0 ds"

definition ParseInt64 :: "string \<Rightarrow> int option" where
  "ParseInt64 s =
     (let (sign, ds) = (case s of [] \<Rightarrow> (1, []) | c # cs \<Rightarrow> if c = CHR ''-'' then (-1, cs) else if c = CHR ''+'' then (1, cs) else (1, s));
          v = sign * digitsValue ds
      in if ds = [] \<or> \<not> list_all (\<lambda>c. CHR ''0'' \<le> c \<and> c \<le> CHR ''9'') ds \<or> v < - (2 ^ 63) \<or> 2 ^ 63 \<le> v then None else Some v)"

definition login_Complete :: "('w, 'f) cli_env \<Rightarrow> string list \<Rightarrow> Options \<Rightarrow> 'w \<Rightarrow> Options result \<times> 'w" where
  "login_Complete ce args o0 w =
     Options_Complete ce True (case args of [] \<Rightarrow> o0 | a # _ \<Rightarrow> o0\<lparr>op_ServerName := (if suffix ''/'' a then butlast a else a)\<rparr>) w"

text \<open>The answer of the local server to the callback: the token of the query is put into the channel unless one is there.\<close>

definition callbackToken :: "smap \<Rightarrow> TokenResponse" where
  "callbackToken query =
     \<lparr>to_AccessToken = mget query ''access_token'', to_TokenType = mget query ''token_type'',
      to_ExpiresIn = (if mget query ''expires_in'' = [] then 0 else case ParseInt64 (mget query ''expires_in'') of None \<Rightarrow> 0 | Some v \<Rightarrow> v),
      to_ExpiresAt = 0, to_Error = mget query ''error'', to_ErrorMessage = mget query ''error_description'', to_Cluster = mget query ''cluster_id''\<rparr>"

definition login_callback :: "smap \<Rightarrow> TokenResponse option \<Rightarrow> TokenResponse option" where
  "login_callback query tokenCh = (case tokenCh of None \<Rightarrow> Some (callbackToken query) | Some token \<Rightarrow> Some token)"

record AuthenticationMethod =
  me_Method :: string
  me_OAuth2CodeGrant :: "string option"

definition buildAuthURL ::
  "(string \<Rightarrow> fullURL result) \<Rightarrow> string \<Rightarrow> AuthenticationMethod list \<Rightarrow> string \<Rightarrow> string \<Rightarrow> fullURL result" where
  "buildAuthURL parse clusterName authMethods redirectURL sessionID =
     (case Option.bind (find (\<lambda>m. me_Method m = ''OAuth2CodeGrant'') authMethods) me_OAuth2CodeGrant of
        None \<Rightarrow> Inl (PlainError ''server does not support OAuth2 code grant flow'')
      | Some authenticatedURL \<Rightarrow>
          (case parse authenticatedURL of
             Inl err \<Rightarrow> Inl err
           | Inr u \<Rightarrow>
               let q = Mapping.update ''client_type'' ''cli'' (Mapping.update ''session_id'' sessionID
                         (Mapping.update ''redirect_url'' redirectURL (url_Query u)))
               in Inr (u\<lparr>url_Query := (if clusterName \<noteq> [] then Mapping.update ''cluster_id'' clusterName q else q)\<rparr>)))"

definition getProvider ::
  "(string \<Rightarrow> fullURL result) \<Rightarrow> http_client \<Rightarrow> (string \<Rightarrow> AuthenticationMethod list result) \<Rightarrow> string \<Rightarrow> AuthenticationMethod list result" where
  "getProvider parse hc decode serverName =
     (case parse serverName of
        Inl err \<Rightarrow> Inl (wrapError ''failed to parse server URL'' err)
      | Inr u \<Rightarrow>
          let url = (if \<not> Contains (url_Path u) ''/api/exports'' then u\<lparr>url_Path := ''/api/exports''\<rparr> else u)
          in (case hc_newRequest hc ''GET'' url of
                Some err \<Rightarrow> Inl (wrapError ''failed to create request'' err)
              | None \<Rightarrow>
                  (case hc_do hc \<lparr>hr_Method = ''GET'', hr_URL = url, hr_Header = Mapping.empty, hr_Body = []\<rparr> of
                     Inl err \<Rightarrow> Inl (wrapError ''failed to send request'' err)
                   | Inr (code, body) \<Rightarrow>
                       if code \<noteq> 200 then Inl (PlainError (Sprintf ''server returned status %d'' [FInt (int code)])) else decode body)))"

text \<open>
  How the wait ends: with a token in the channel, an error of the local server, or the timeout. The
  first of them depends on what the user does with the URL.
\<close>

datatype login_event = TokenReceived TokenResponse | CallbackServerError error | TimedOut

record login_env =
  le_parse :: "string \<Rightarrow> fullURL result"
  le_http :: http_client
  le_decodeProvider :: "string \<Rightarrow> AuthenticationMethod list result"
  le_sessionID :: string
  le_listen :: "nat result"
  le_await :: "fullURL \<Rightarrow> login_event"
  le_timeout :: string

definition storeToken ::
  "('w, 'f) cli_env \<Rightarrow> (string \<Rightarrow> fullURL result) \<Rightarrow> string \<Rightarrow> Config \<Rightarrow> time \<Rightarrow> TokenResponse \<Rightarrow> 'w \<Rightarrow> error option \<times> 'w" where
  "storeToken ce parse serverName config now token w =
     (let expiresAt = (if to_ExpiresIn token > 0 \<and> IsZeroTime (to_ExpiresAt token)
                       then now + wrap64 (to_ExpiresIn token * Second) else to_ExpiresAt token)
      in case parse serverName of
           Inl err \<Rightarrow> (Some (wrapError ''failed to parse server URL'' err), w)
         | Inr serverHost \<Rightarrow>
             let serverURL = Sprintf ''%s://%s'' [FStr (url_Scheme serverHost), FStr (url_Host serverHost)];
                 server = \<lparr>sv_URL = serverURL, sv_Cluster = to_Cluster token, sv_AccessToken = to_AccessToken token,
                   sv_TokenType = to_TokenType token, sv_ExpiresAt = expiresAt, sv_Username = []\<rparr>;
                 c1 = AddServerWithCluster serverURL (to_Cluster token) server config
             in (case SaveConfig (ce_files ce) (ce_encode ce) c1 w of
                   (Some err, w1) \<Rightarrow> (Some (wrapError ''failed to save config'' err), w1)
                 | (None, w1) \<Rightarrow>
                     (case SetCurrentServer serverURL (to_Cluster token) c1 of
                        Inl err \<Rightarrow> (Some (wrapError ''failed to set current server'' err), w1)
                      | Inr c2 \<Rightarrow>
                          (case SaveConfig (ce_files ce) (ce_encode ce) c2 w1 of
                             (Some err, w2) \<Rightarrow> (Some (wrapError ''failed to save current server'' err), w2)
                           | (None, w2) \<Rightarrow> (None, w2)))))"

definition login_Run :: "('w, 'f) cli_env \<Rightarrow> login_env \<Rightarrow> Options \<Rightarrow> Config \<Rightarrow> time \<Rightarrow> 'w \<Rightarrow> error option \<times> 'w" where
  "login_Run ce le o1 config now w =
     (case getProvider (le_parse le) (le_http le) (le_decodeProvider le) (op_ServerName o1) of
        Inl err \<Rightarrow> (Some (wrapError ''failed to get provider information'' err), w)
      | Inr provider \<Rightarrow>
          (case le_listen le of
             Inl err \<Rightarrow> (Some (wrapError ''failed to start callback server'' (wrapError ''failed to find available port'' err)), w)
           | Inr port \<Rightarrow>
               (case buildAuthURL (le_parse le) (op_ClusterName o1) provider
                       (Sprintf ''http://127.0.0.1:%d/callback'' [FInt (int port)]) (le_sessionID le) of
                  Inl err \<Rightarrow> (Some (wrapError ''failed to build auth URL'' err), w)
                | Inr authURL \<Rightarrow>
                    (case le_await le authURL of
                       CallbackServerError err \<Rightarrow> (Some (wrapError ''callback server error'' err), w)
                     | TimedOut \<Rightarrow> (Some (PlainError (''authentication timed out after '' @ le_timeout le)), w)
                     | TokenReceived token \<Rightarrow>
                         if to_Error token \<noteq> []
                         then (Some (PlainError (Sprintf ''authentication failed: %s - %s'' [FStr (to_Error token), FStr (to_ErrorMessage token)])), w)
                         else storeToken ce (le_parse le) (op_ServerName o1) config now token w))))"

section \<open>Keys of servers\<close>

lemma buildServerKey_cluster: "c \<noteq> [] \<Longrightarrow> buildServerKey u c = c @ CHR ''@'' # u"
  by (simp add: buildServerKey_def)

lemma SplitN_two: "sep \<notin> set xs \<Longrightarrow> SplitN (xs @ sep # ys) sep 2 = [xs, ys]"
  by (simp add: SplitN_def SplitN1_app SplitN1_last)

text \<open>A key can be taken apart again when the name of the cluster, or the URL of a server without a cluster, has no \<open>@\<close>.\<close>

lemma parse_buildServerKey:
  assumes "if c = [] then CHR ''@'' \<notin> set u else CHR ''@'' \<notin> set c"
  shows "parseServerKey (buildServerKey u c) = (u, c)"
proof (cases "c = []")
  case True
  with assms show ?thesis by (simp add: parseServerKey_def SplitN_def SplitN1_none buildServerKey_def)
next
  case False
  with assms show ?thesis unfolding buildServerKey_cluster [OF False] by (simp add: parseServerKey_def SplitN_two)
qed

lemma buildServerKey_inj:
  assumes "buildServerKey u c = buildServerKey u' c'" "CHR ''@'' \<notin> set u" "CHR ''@'' \<notin> set u'" "CHR ''@'' \<notin> set c" "CHR ''@'' \<notin> set c'"
  shows "u = u' \<and> c = c'"
proof -
  have "(u, c) = (u', c')" using parse_buildServerKey [of c u] parse_buildServerKey [of c' u'] assms by (metis (full_types))
  then show ?thesis by simp
qed

text \<open>
  The format of the option \<open>--server\<close> is the other way round: a server and a cluster joined as in a key are
  taken for each other.
\<close>

lemma server_format_reversed:
  assumes "c \<noteq> []" "CHR ''@'' \<notin> set c" "op_ServerName o1 = buildServerKey u c" "op_ClusterName o1 = []"
  shows "op_ServerName (splitServerName o1) = c \<and> op_ClusterName (splitServerName o1) = u"
proof -
  have key: "op_ServerName o1 = c @ CHR ''@'' # u" using assms(1,3) by (simp add: buildServerKey_cluster)
  have "Contains (xs @ ys) sub" if "Contains ys sub" for xs ys sub :: string
    using that by (induction xs) (auto simp: HasPrefix_def)
  moreover have "Contains (CHR ''@'' # u) ''@''" by (simp add: HasPrefix_def)
  ultimately have "Contains (op_ServerName o1) ''@''" unfolding key by blast
  with assms(1,4) show ?thesis
    using assms(2) by (simp add: splitServerName_def key SplitN_two)
qed

text \<open>
  The current server is kept as a key, but compared with the URL when a server is removed: the removal of
  the current server of a cluster leaves a configuration whose current server does not exist.
\<close>

lemma RemoveServer_dangling:
  assumes "cluster \<noteq> []" "cf_Current c = buildServerKey u cluster"
  shows "GetCurrentServer (RemoveServer pick u cluster c) = Inl (PlainError (''current server '' @ quote (buildServerKey u cluster) @ '' not found in config''))"
proof -
  have key: "buildServerKey u cluster = cluster @ CHR ''@'' # u" by (rule buildServerKey_cluster [OF assms(1)])
  have "length (buildServerKey u cluster) > length u" unfolding key by simp
  then have ne: "buildServerKey u cluster \<noteq> u" by auto
  have "buildServerKey u cluster \<noteq> []" unfolding key by simp
  with ne assms(2) show ?thesis by (simp add: RemoveServer_def GetCurrentServer_def Let_def)
qed

text \<open>
  The status code of a response is not looked at: an error response that decodes as an empty list counts
  as one. The session of a callback is not looked at either: any request to the local server
  decides the login.
\<close>

lemma cli_list_any_status:
  assumes "\<And>r. hc_do hc' r = map_sum id (\<lambda>(status, body). (code, body)) (hc_do hc r)" "hc_newRequest hc' = hc_newRequest hc"
  shows "cli_list what parse hc' decode now server = cli_list what parse hc decode now server"
  using assms by (auto simp: cli_list_def cli_Get_def cli_send_def split: sum.split option.split)

lemma callbackToken_any_session: "callbackToken (Mapping.update ''session_id'' sid query) = callbackToken query"
  by (simp add: callbackToken_def mget_def lookup_update')

section \<open>A login is found again\<close>

text \<open>The laws of files that are relied on: what was written is read, and making a directory loses nothing.\<close>

locale file_store =
  fixes fl :: "('w, 'f) files"
  assumes write_stat: "fl_write fl w p d = (None, w') \<Longrightarrow> fl_stat fl w' p = None"
    and write_read: "fl_write fl w p d = (None, w') \<Longrightarrow> fl_read fl w' p = Inr d"
    and mkdir: "fl_mkdirAll fl w p = (err, w') \<Longrightarrow> fl_stat fl w' q = fl_stat fl w q \<and> fl_read fl w' q = fl_read fl w q"

text \<open>JSON gives back what was encoded, but for the field that is left out.\<close>

definition codecOk :: "(Config \<Rightarrow> 'f result) \<Rightarrow> ('f \<Rightarrow> Config result) \<Rightarrow> bool" where
  "codecOk encode decode \<longleftrightarrow> (\<forall>c d. encode c = Inr d \<longrightarrow> decode d = Inr (c\<lparr>cf_configFile := []\<rparr>))"

context file_store
begin

lemma Save_Load:
  assumes "SaveConfig fl encode c w = (None, w')" "codecOk encode decode"
  shows "LoadConfigFromFile fl decode home (cf_configFile c) w' = Inr c" "fl_stat fl w' (cf_configFile c) = None"
proof -
  from assms(1) obtain d where d: "encode c = Inr d" "fl_write fl w (cf_configFile c) d = (None, w')"
    by (auto simp: SaveConfig_def split: sum.splits prod.splits option.splits)
  note ws = write_stat [OF d(2)] and wr = write_read [OF d(2)]
  from d(1) assms(2) have "decode d = Inr (c\<lparr>cf_configFile := []\<rparr>)" by (simp add: codecOk_def)
  with ws wr show "LoadConfigFromFile fl decode home (cf_configFile c) w' = Inr c" by (simp add: LoadConfigFromFile_def)
  show "fl_stat fl w' (cf_configFile c) = None" by (rule ws)
qed

lemma storeToken_effect:
  assumes "storeToken ce parse serverName config now token w = (None, w')" "ce_files ce = fl" "codecOk (ce_encode ce) (ce_decode ce)"
  obtains u server c where "parse serverName = Inr u"
    and "sv_URL server = Sprintf ''%s://%s'' [FStr (url_Scheme u), FStr (url_Host u)]" "sv_Cluster server = to_Cluster token"
      "sv_AccessToken server = to_AccessToken token" "sv_TokenType server = to_TokenType token"
      "sv_ExpiresAt server = (if to_ExpiresIn token > 0 \<and> IsZeroTime (to_ExpiresAt token)
         then now + wrap64 (to_ExpiresIn token * Second) else to_ExpiresAt token)"
    and "c = AddServerWithCluster (sv_URL server) (sv_Cluster server) server config"
    and "LoadConfigFromFile fl (ce_decode ce) (ce_home ce) (cf_configFile config) w' = Inr c" "fl_stat fl w' (cf_configFile config) = None"
proof -
  let ?exp = "if to_ExpiresIn token > 0 \<and> IsZeroTime (to_ExpiresAt token)
         then now + wrap64 (to_ExpiresIn token * Second) else to_ExpiresAt token"
  from assms(1) obtain u where u: "parse serverName = Inr u" by (auto simp: storeToken_def Let_def split: sum.splits)
  define url where "url = Sprintf ''%s://%s'' [FStr (url_Scheme u), FStr (url_Host u)]"
  define server where "server = \<lparr>sv_URL = url, sv_Cluster = to_Cluster token, sv_AccessToken = to_AccessToken token,
                   sv_TokenType = to_TokenType token, sv_ExpiresAt = ?exp, sv_Username = []\<rparr>"
  define c where "c = AddServerWithCluster url (to_Cluster token) server config"
  have current: "SetCurrentServer url (to_Cluster token) c = Inr c" and same: "cf_configFile c = cf_configFile config"
    by (simp_all add: c_def SetCurrentServer_def AddServerWithCluster_def addServer_def)
  from assms(1) obtain w1 where "SaveConfig fl (ce_encode ce) c w1 = (None, w')"
    unfolding storeToken_def Let_def u assms(2) sum.case url_def [symmetric] server_def [symmetric] c_def [symmetric] current
    by (auto split: prod.splits option.splits)
  from Save_Load [OF this assms(3)] same show thesis
    by (intro that [OF u, of server c]) (simp_all add: server_def c_def url_def)
qed

lemma Options_Complete_current:
  assumes "LoadConfigFromFile fl (ce_decode ce) (ce_home ce) file w = Inr c" "fl_stat fl w file = None"
    and "GetCurrentServer c = Inr (server, key)" "ce_files ce = fl" "ce_startingConfig ce = None" "fl_mkdirAll fl w file = (None, w1)"
    and "op_ServerName o0 = []" "op_ConfigFile o0 = file" "file \<noteq> []"
  shows "\<exists>o1. Options_Complete ce skipValidate o0 w = (Inr o1, w1) \<and> op_server o1 = Some server \<and> op_config o1 = Some c"
proof -
  note m = mkdir [OF assms(6)]
  have "LoadConfigFromFile fl (ce_decode ce) (ce_home ce) file w1 = LoadConfigFromFile fl (ce_decode ce) (ce_home ce) file w"
    by (simp only: LoadConfigFromFile_def m)
  with assms m show ?thesis
    by (simp add: Options_Complete_def Let_def splitServerName_def resolveServer_def withServer_def)
qed

end

text \<open>A file system that is a map of paths; directories are always there.\<close>

definition mapFiles :: "((string, 'f) mapping, 'f) files" where
  "mapFiles =
     \<lparr>fl_stat = (\<lambda>w p. if Mapping.lookup w p = None then Some notFound else None),
      fl_read = (\<lambda>w p. case Mapping.lookup w p of None \<Rightarrow> Inl notFound | Some d \<Rightarrow> Inr d),
      fl_write = (\<lambda>w p d. (None, Mapping.update p d w)),
      fl_mkdirAll = (\<lambda>w p. (None, w))\<rparr>"

interpretation map_files: file_store mapFiles
  by unfold_locales (auto simp: mapFiles_def)

lemma callbackToken_redirect:
  assumes "callbackRespond ah t authCode state = RedirectTo redirect params cookies" "ar_ClientType authCode = ClientTypeCLI"
  obtains jwt where "GenerateToken (ah_jwtService ah) t (ti_Subject (ss_Token state)) (ti_Issuer (ss_Token state)) (ss_SessionID state)
      (ss_ClusterID state) (ss_RedirectURL state) (ti_Groups (ss_Token state)) (24 * Hour) = Inr jwt"
    and "callbackToken (Mapping.of_alist params) =
      \<lparr>to_AccessToken = jwt, to_TokenType = ''Bearer'', to_ExpiresIn = 86400, to_ExpiresAt = 0, to_Error = [], to_ErrorMessage = [],
       to_Cluster = ar_ClusterID authCode\<rparr>"
proof -
  from assms obtain jwt where jwt: "GenerateToken (ah_jwtService ah) t (ti_Subject (ss_Token state)) (ti_Issuer (ss_Token state)) (ss_SessionID state)
      (ss_ClusterID state) (ss_RedirectURL state) (ti_Groups (ss_Token state)) (24 * Hour) = Inr jwt"
    and params: "params = [(''access_token'', jwt), (''token_type'', ''Bearer''), (''expires_in'', ''86400'')] @ nonEmptyParam ''cluster_id'' (ar_ClusterID authCode)"
    by (auto simp: callbackRespond_def Let_def respondWithError_def split: sum.splits option.splits if_splits)
  have day: "ParseInt64 ''86400'' = Some 86400" by code_simp
  have "callbackToken (Mapping.of_alist params) =
      \<lparr>to_AccessToken = jwt, to_TokenType = ''Bearer'', to_ExpiresIn = 86400, to_ExpiresAt = 0, to_Error = [], to_ErrorMessage = [],
       to_Cluster = ar_ClusterID authCode\<rparr>"
    by (simp add: callbackToken_def params mget_def lookup_of_alist nonEmptyParam_def day)
  with jwt show thesis by (rule that)
qed

lemma addAuthHeaders_valid:
  assumes "sv_AccessToken s \<noteq> []" "sv_TokenType s = ''Bearer''" "now + 5 * Minute \<le> sv_ExpiresAt s"
  shows "\<exists>h. addAuthHeaders now s header = Inr h \<and> mget h ''Authorization'' = ''Bearer '' @ sv_AccessToken s"
  using assms by (simp add: addAuthHeaders_def isTokenValid_def getAuthorizationHeader_def mget_def lookup_update')

text \<open>
  C36: a login with the command line is found again. When the backend has answered a login of the command
  line tool with a redirect, the local server has got its parameters and the login has ended without
  an error, then the next command, without an option that names a server, works with the cluster the
  login was for, and until five minutes before the end of the 24 hours its requests carry exactly the
  token that the backend has signed.
\<close>

theorem cli_login_used:
  assumes "callbackRespond ah t authCode state = RedirectTo redirect params cookies" "ar_ClientType authCode = ClientTypeCLI"
    and "\<forall>u. le_await le u = TokenReceived (callbackToken (Mapping.of_alist params))"
    and "codecOk (ce_encode ce) (ce_decode ce)" "ce_files ce = mapFiles" "ce_startingConfig ce = None"
    and "login_Run ce le o1 config now w = (None, w')"
    and "op_ServerName o2 = []" "op_ConfigFile o2 = cf_configFile config" "cf_configFile config \<noteq> []"
  shows "\<exists>jwt o3 server. GenerateToken (ah_jwtService ah) t (ti_Subject (ss_Token state)) (ti_Issuer (ss_Token state)) (ss_SessionID state)
      (ss_ClusterID state) (ss_RedirectURL state) (ti_Groups (ss_Token state)) (24 * Hour) = Inr jwt \<and>
    Options_Complete ce False o2 w' = (Inr o3, w') \<and> op_server o3 = Some server \<and> sv_Cluster server = ar_ClusterID authCode \<and>
    (\<forall>t'. jwt \<noteq> [] \<and> t' + 5 * Minute \<le> now + 24 * Hour \<longrightarrow>
      (\<exists>h. addAuthHeaders t' server Mapping.empty = Inr h \<and> mget h ''Authorization'' = ''Bearer '' @ jwt))"
proof -
  from callbackToken_redirect [OF assms(1,2)] obtain jwt where jwt: "GenerateToken (ah_jwtService ah) t (ti_Subject (ss_Token state))
      (ti_Issuer (ss_Token state)) (ss_SessionID state) (ss_ClusterID state) (ss_RedirectURL state) (ti_Groups (ss_Token state)) (24 * Hour) = Inr jwt"
    and token: "callbackToken (Mapping.of_alist params) = \<lparr>to_AccessToken = jwt, to_TokenType = ''Bearer'', to_ExpiresIn = 86400,
       to_ExpiresAt = 0, to_Error = [], to_ErrorMessage = [], to_Cluster = ar_ClusterID authCode\<rparr>" (is "_ = ?token")
    by blast
  have store: "storeToken ce (le_parse le) (op_ServerName o1) config now ?token w = (None, w')"
    using assms(3,7) token by (auto simp: login_Run_def split: sum.splits)
  obtain u server c where "le_parse le (op_ServerName o1) = Inr u"
    and raw: "sv_URL server = Sprintf ''%s://%s'' [FStr (url_Scheme u), FStr (url_Host u)]" "sv_Cluster server = to_Cluster ?token"
      "sv_AccessToken server = to_AccessToken ?token" "sv_TokenType server = to_TokenType ?token"
      "sv_ExpiresAt server = (if to_ExpiresIn ?token > 0 \<and> IsZeroTime (to_ExpiresAt ?token)
         then now + wrap64 (to_ExpiresIn ?token * Second) else to_ExpiresAt ?token)"
    and c: "c = AddServerWithCluster (sv_URL server) (sv_Cluster server) server config"
    and loaded: "LoadConfigFromFile mapFiles (ce_decode ce) (ce_home ce) (cf_configFile config) w' = Inr c" "fl_stat mapFiles w' (cf_configFile config) = None"
    by (rule map_files.storeToken_effect [OF store assms(5,4)]) (rule that; assumption)
  have server: "sv_Cluster server = ar_ClusterID authCode" "sv_AccessToken server = jwt" "sv_TokenType server = ''Bearer''"
    "sv_ExpiresAt server = now + wrap64 (86400 * Second)" using raw(2-5) by (simp_all add: IsZeroTime_def)
  have day: "wrap64 (86400 * Second) = 24 * Hour" by (simp add: wrap64_def Second_def Hour_def Minute_def)
  have "buildServerKey (sv_URL server) (sv_Cluster server) \<noteq> []" by (simp add: buildServerKey_def raw(1))
  then have current: "GetCurrentServer c = Inr (server, buildServerKey (sv_URL server) (sv_Cluster server))"
    by (simp add: c GetCurrentServer_def AddServerWithCluster_def addServer_def)
  have "fl_mkdirAll mapFiles w' (cf_configFile config) = (None, w')" by (simp add: mapFiles_def)
  from map_files.Options_Complete_current [OF loaded current assms(5,6) this assms(8-10), of False] obtain o3 where
    "Options_Complete ce False o2 w' = (Inr o3, w')" "op_server o3 = Some server" by blast
  moreover have "\<exists>h. addAuthHeaders t' server Mapping.empty = Inr h \<and> mget h ''Authorization'' = ''Bearer '' @ jwt"
    if "jwt \<noteq> [] \<and> t' + 5 * Minute \<le> now + 24 * Hour" for t'
    using addAuthHeaders_valid [of server t' Mapping.empty] that server day by simp
  ultimately show ?thesis using jwt server(1) by blast
qed

text \<open>A login to \<open>https://host\<close> with an empty configuration; the files hold the configuration without its path.\<close>

definition exampleCliEnv :: "((string, Config) mapping, Config) cli_env" where
  "exampleCliEnv = \<lparr>ce_files = mapFiles, ce_encode = (\<lambda>c. Inr (c\<lparr>cf_configFile := []\<rparr>)), ce_decode = Inr, ce_home = Inr ''/home/alice'',
     ce_startingConfig = None\<rparr>"

definition exampleParams :: "(string \<times> string) list" where
  "exampleParams = [(''access_token'', ''token''), (''token_type'', ''Bearer''), (''expires_in'', ''86400''), (''cluster_id'', ''c1'')]"

definition exampleLoginEnv :: login_env where
  "exampleLoginEnv =
     \<lparr>le_parse = (\<lambda>u. Inr \<lparr>url_Scheme = ''https'', url_Host = ''host'', url_Path = [], url_Query = Mapping.empty\<rparr>),
      le_http = \<lparr>hc_newRequest = (\<lambda>m u. None), hc_do = (\<lambda>r. Inr (200, []))\<rparr>,
      le_decodeProvider = (\<lambda>body. Inr [\<lparr>me_Method = ''OAuth2CodeGrant'', me_OAuth2CodeGrant = Some ''https://host/api/authorize''\<rparr>]),
      le_sessionID = ''s1'', le_listen = Inr 4000, le_await = (\<lambda>u. TokenReceived (callbackToken (Mapping.of_alist exampleParams))), le_timeout = ''5m0s''\<rparr>"

definition exampleOptions :: "string \<Rightarrow> Options" where
  "exampleOptions server = \<lparr>op_ServerName = server, op_ClusterName = [], op_SkipInsecure = False, op_ConfigFile = ''/cfg'', op_config = None, op_server = None\<rparr>"

theorem cli_login_used_witness:
  "\<exists>w' o3 server. login_Run exampleCliEnv exampleLoginEnv (exampleOptions ''https://host'') (NewConfig (Inr ''/home/alice'') ''/cfg'') (2 * Second)
      Mapping.empty = (None, w') \<and>
    Options_Complete exampleCliEnv False (exampleOptions []) w' = (Inr o3, w') \<and> op_server o3 = Some server \<and>
    (\<exists>h. addAuthHeaders (3 * Second) server Mapping.empty = Inr h \<and> mget h ''Authorization'' = ''Bearer token'')"
proof -
  let ?run = "login_Run exampleCliEnv exampleLoginEnv (exampleOptions ''https://host'') (NewConfig (Inr ''/home/alice'') ''/cfg'') (2 * Second) Mapping.empty"
  have "fst ?run = None" by code_simp
  then obtain w' where w': "?run = (None, w')" by (metis prod.collapse)
  have respond: "callbackRespond exampleHandler (2 * Second) exampleAuthorize exampleSession = RedirectTo ''http://localhost'' exampleParams []"
    by code_simp
  have codec: "codecOk (ce_encode exampleCliEnv) (ce_decode exampleCliEnv)" by (auto simp: codecOk_def exampleCliEnv_def)
  have jwt: "GenerateToken (ah_jwtService exampleHandler) (2 * Second) (ti_Subject (ss_Token exampleSession)) (ti_Issuer (ss_Token exampleSession))
      (ss_SessionID exampleSession) (ss_ClusterID exampleSession) (ss_RedirectURL exampleSession) (ti_Groups (ss_Token exampleSession)) (24 * Hour) = Inr ''token''"
    by code_simp
  have "\<exists>jwt o3 server. GenerateToken (ah_jwtService exampleHandler) (2 * Second) (ti_Subject (ss_Token exampleSession)) (ti_Issuer (ss_Token exampleSession))
      (ss_SessionID exampleSession) (ss_ClusterID exampleSession) (ss_RedirectURL exampleSession) (ti_Groups (ss_Token exampleSession)) (24 * Hour) = Inr jwt \<and>
    Options_Complete exampleCliEnv False (exampleOptions []) w' = (Inr o3, w') \<and> op_server o3 = Some server \<and>
    sv_Cluster server = ar_ClusterID exampleAuthorize \<and>
    (\<forall>t'. jwt \<noteq> [] \<and> t' + 5 * Minute \<le> 2 * Second + 24 * Hour \<longrightarrow>
      (\<exists>h. addAuthHeaders t' server Mapping.empty = Inr h \<and> mget h ''Authorization'' = ''Bearer '' @ jwt))"
    by (rule cli_login_used [OF respond _ _ codec _ _ w'])
       (simp_all add: exampleAuthorize_def exampleLoginEnv_def exampleCliEnv_def exampleOptions_def NewConfig_def)
  then obtain o3 server where r: "Options_Complete exampleCliEnv False (exampleOptions []) w' = (Inr o3, w')" "op_server o3 = Some server"
    "\<forall>t'. ''token'' \<noteq> [] \<and> t' + 5 * Minute \<le> 2 * Second + 24 * Hour \<longrightarrow>
      (\<exists>h. addAuthHeaders t' server Mapping.empty = Inr h \<and> mget h ''Authorization'' = ''Bearer '' @ ''token'')"
    unfolding jwt by (elim exE conjE) (simp only: sum.inject)
  have "3 * Second + 5 * Minute \<le> 2 * Second + 24 * Hour" by (simp add: Hour_def Minute_def Second_def)
  with r(3) have "\<exists>h. addAuthHeaders (3 * Second) server Mapping.empty = Inr h \<and> mget h ''Authorization'' = ''Bearer token''" by simp
  with w' r(1,2) show ?thesis by blast
qed

end
