(* ===== verification/Cli_Bind.thy ===== *)
theory Cli_Bind
  imports Cli_Config Http_Api Konnector
begin

text \<open>
  The commands that bind (\<open>src/cli/pkg/kubectl/bind\<close>, \<open>bind-apiservice\<close> and \<open>bind-deploy\<close>, with
  \<open>base/kubeconfig.go\<close>): the kubeconfig of a provider is kept in a secret of the consumer cluster, the
  konnector is deployed, export requests are sent to the provider and service bindings are created.
  The lemmas show that one secret is kept per provider and namespace and that no other secret is touched,
  that a service binding of another provider is never adopted, and what the options do.
\<close>

section \<open>Kubeconfigs of providers\<close>

record remote_context =
  rx_Cluster :: string
  rx_Namespace :: string

record remote_kubeconfig =
  rk_Contexts :: "(string, remote_context) mapping"
  rk_Clusters :: "(string, string) mapping"
  rk_CurrentContext :: string

definition ParseRemoteKubeconfig :: "(string \<Rightarrow> remote_kubeconfig result) \<Rightarrow> string \<Rightarrow> (string \<times> string) result" where
  "ParseRemoteKubeconfig load kubeconfig =
     (case load kubeconfig of
        Inl err \<Rightarrow> Inl err
      | Inr config \<Rightarrow>
          (case Mapping.lookup (rk_Contexts config) (rk_CurrentContext config) of
             None \<Rightarrow> Inl (PlainError (Sprintf ''current context %q of remote kubeconfig not found'' [FStr (rk_CurrentContext config)]))
           | Some c \<Rightarrow>
               (case Mapping.lookup (rk_Clusters config) (rx_Cluster c) of
                  None \<Rightarrow> Inl (PlainError (Sprintf ''cluster %q in current context %q of remote kubeconfig not found''
                            [FStr (rx_Cluster c), FStr (rk_CurrentContext config)]))
                | Some server \<Rightarrow> Inr (server, rx_Namespace c))))"

text \<open>
  The consumer cluster and the provider as the commands see them. A creation with a generated name gives
  back the object with its name. \<open>bc_apply\<close> creates or updates an object of the konnector,
  \<open>bc_tick\<close> is the wait between two polls, which fails when the context ends.
\<close>

record 'w bind_client =
  bc_namespaces :: "(Namespace, 'w) access"
  bc_secrets :: "(Secret, 'w) access"
  bc_listSecrets :: "'w \<Rightarrow> string \<Rightarrow> Secret list result"
  bc_generateSecret :: "'w \<Rightarrow> string \<Rightarrow> Secret \<Rightarrow> Secret result \<times> 'w"
  bc_bindings :: "(APIServiceBinding, 'w) access"
  bc_updateBindingStatus :: "'w \<Rightarrow> APIServiceBinding \<Rightarrow> error option \<times> 'w"
  bc_listBindings :: "'w \<Rightarrow> error option"
  bc_getCRD :: "'w \<Rightarrow> string \<Rightarrow> CustomResourceDefinition result"
  bc_getDeployment :: "'w \<Rightarrow> string \<Rightarrow> string \<Rightarrow> Deployment result"
  bc_getObject :: "'w \<Rightarrow> manifest \<Rightarrow> error option"
  bc_createObject :: "'w \<Rightarrow> manifest \<Rightarrow> error option \<times> 'w"
  bc_updateObject :: "'w \<Rightarrow> manifest \<Rightarrow> error option \<times> 'w"
  bc_createRequest :: "'w \<Rightarrow> string \<Rightarrow> string option \<Rightarrow> APIServiceExportRequest \<Rightarrow> APIServiceExportRequest result \<times> 'w"
  bc_getRequest :: "'w \<Rightarrow> NamespacedName \<Rightarrow> APIServiceExportRequest result"
  bc_tick :: "'w \<Rightarrow> error option \<times> 'w"

definition kubeBindKey :: "string \<Rightarrow> NamespacedName" where
  "kubeBindKey name = \<lparr>nn_Namespace = ''kube-bind'', nn_Name = name\<rparr>"

text \<open>The first secret for the host and the namespace; others are skipped, also those that do not parse.\<close>

fun matchingSecret :: "(string \<Rightarrow> remote_kubeconfig result) \<Rightarrow> string \<Rightarrow> string \<Rightarrow> Secret list \<Rightarrow> string" where
  "matchingSecret load remoteNamespace remoteHost [] = []"
| "matchingSecret load remoteNamespace remoteHost (s # rest) =
     (case Mapping.lookup (sec_Data s) ''kubeconfig'' of
        None \<Rightarrow> matchingSecret load remoteNamespace remoteHost rest
      | Some bs \<Rightarrow>
          (case ParseRemoteKubeconfig load bs of
             Inl err \<Rightarrow> matchingSecret load remoteNamespace remoteHost rest
           | Inr (host, ns) \<Rightarrow>
               if ns \<noteq> remoteNamespace \<or> host \<noteq> remoteHost then matchingSecret load remoteNamespace remoteHost rest
               else m_Name (sec_meta s)))"

definition FindRemoteKubeconfig :: "'w bind_client \<Rightarrow> (string \<Rightarrow> remote_kubeconfig result) \<Rightarrow> 'w \<Rightarrow> string \<Rightarrow> string \<Rightarrow> string result" where
  "FindRemoteKubeconfig c load w remoteNamespace remoteHost =
     (case bc_listSecrets c w ''kube-bind'' of
        Inl err \<Rightarrow> Inl err | Inr secrets \<Rightarrow> Inr (matchingSecret load remoteNamespace remoteHost secrets))"

definition kubeconfigSecret :: "string \<Rightarrow> string \<Rightarrow> Secret" where
  "kubeconfigSecret name kubeconfig =
     \<lparr>sec_meta = emptyMeta\<lparr>m_Namespace := ''kube-bind'', m_Name := name, m_Labels := Mapping.update LabelProviderKubeconfig ''true'' Mapping.empty\<rparr>,
      sec_Data = Mapping.update ''kubeconfig'' kubeconfig Mapping.empty, sec_Type = []\<rparr>"

definition updatedSecret :: "string \<Rightarrow> Secret \<Rightarrow> Secret" where
  "updatedSecret kubeconfig secret =
     secret\<lparr>sec_Data := Mapping.update ''kubeconfig'' kubeconfig (sec_Data secret),
            sec_meta := (sec_meta secret)\<lparr>m_Labels := Mapping.update LabelProviderKubeconfig ''true'' (m_Labels (sec_meta secret))\<rparr>\<rparr>"

definition updateSecret ::
  "'w bind_client \<Rightarrow> (string \<Rightarrow> remote_kubeconfig result) \<Rightarrow> string \<Rightarrow> string \<times> string \<Rightarrow> string \<Rightarrow> 'w \<Rightarrow> Secret result \<times> 'w" where
  "updateSecret c load kubeconfig remote name w =
     (case ac_get (bc_secrets c) w (kubeBindKey name) of
        Inl err \<Rightarrow> (Inl err, w)
      | Inr secret \<Rightarrow>
          (case Mapping.lookup (sec_Data secret) ''kubeconfig'' of
             None \<Rightarrow> (Inl (PlainError (Sprintf ''secret %s/%s does not contain a kubeconfig'' [FStr ''kube-bind'', FStr name])), w)
           | Some bs \<Rightarrow>
               (case ParseRemoteKubeconfig load bs of
                  Inl err \<Rightarrow> (Inl err, w)
                | Inr existing \<Rightarrow>
                    if existing \<noteq> remote then (Inl (StatusError ReasonAlreadyExists (Sprintf ''secret %q already exists'' [FStr (m_Name (sec_meta secret))])), w)
                    else (case ac_update (bc_secrets c) w (updatedSecret kubeconfig secret) of
                        (Some err, w1) \<Rightarrow> (Inl err, w1) | (None, w1) \<Rightarrow> (Inr (updatedSecret kubeconfig secret), w1)))))"

text \<open>The secret, and whether it was created; an update that conflicts is tried five times in all.\<close>

definition EnsureKubeconfigSecret ::
  "'w bind_client \<Rightarrow> (string \<Rightarrow> remote_kubeconfig result) \<Rightarrow> string \<Rightarrow> string \<Rightarrow> 'w \<Rightarrow> (Secret \<times> bool) result \<times> 'w" where
  "EnsureKubeconfigSecret c load kubeconfig name w =
     (case ParseRemoteKubeconfig load kubeconfig of
        Inl err \<Rightarrow> (Inl err, w)
      | Inr remote \<Rightarrow>
          if name = []
          then (case bc_generateSecret c w ''kubeconfig-'' (kubeconfigSecret [] kubeconfig) of
              (Inl err, w1) \<Rightarrow> (Inl err, w1) | (Inr secret, w1) \<Rightarrow> (Inr (secret, True), w1))
          else (case ac_get (bc_secrets c) w (kubeBindKey name) of
              Inl err \<Rightarrow>
                if \<not> IsNotFound err then (Inl err, w)
                else (case ac_create (bc_secrets c) w (kubeconfigSecret name kubeconfig) of
                    (Some err2, w1) \<Rightarrow> (Inl err2, w1) | (None, w1) \<Rightarrow> (Inr (kubeconfigSecret name kubeconfig, True), w1))
            | Inr _ \<Rightarrow>
                (case retryOnConflict (DefaultRetrySteps - 1) (updateSecret c load kubeconfig remote name) w of
                   (Inl err, w1) \<Rightarrow> (Inl err, w1) | (Inr secret, w1) \<Rightarrow> (Inr (secret, False), w1))))"

definition ensureClientSideNamespaceExists :: "'w bind_client \<Rightarrow> 'w \<Rightarrow> error option \<times> 'w" where
  "ensureClientSideNamespaceExists c w =
     (case ac_get (bc_namespaces c) w \<lparr>nn_Namespace = [], nn_Name = ''kube-bind''\<rparr> of
        Inr _ \<Rightarrow> (None, w)
      | Inl err \<Rightarrow> if \<not> IsNotFound err then (Some err, w) else ac_create (bc_namespaces c) w \<lparr>ns_meta = emptyMeta\<lparr>m_Name := ''kube-bind''\<rparr>\<rparr>)"

text \<open>What all commands do with the kubeconfig of a provider.\<close>

definition copyKubeconfig :: "'w bind_client \<Rightarrow> (string \<Rightarrow> remote_kubeconfig result) \<Rightarrow> string \<Rightarrow> 'w \<Rightarrow> (Secret \<times> bool) result \<times> 'w" where
  "copyKubeconfig c load kubeconfig w =
     (case ParseRemoteKubeconfig load kubeconfig of
        Inl err \<Rightarrow> (Inl err, w)
      | Inr (remoteHost, remoteNamespace) \<Rightarrow>
          (case FindRemoteKubeconfig c load w remoteNamespace remoteHost of
             Inl err \<Rightarrow> (Inl err, w)
           | Inr secretName \<Rightarrow> EnsureKubeconfigSecret c load kubeconfig secretName w))"

definition createKubeconfigSecret ::
  "'w bind_client \<Rightarrow> (string \<Rightarrow> remote_kubeconfig result) \<Rightarrow> string \<Rightarrow> string \<Rightarrow> string \<Rightarrow> 'w \<Rightarrow> string result \<times> 'w" where
  "createKubeconfigSecret c load remoteHost remoteNamespace kubeconfig w =
     (let find = (\<lambda>w1. case FindRemoteKubeconfig c load w1 remoteNamespace remoteHost of
            Inl err \<Rightarrow> (Inl err, w1)
          | Inr secretName \<Rightarrow>
              if secretName \<noteq> [] then (Inr secretName, w1)
              else (case EnsureKubeconfigSecret c load kubeconfig [] w1 of
                  (Inl err, w2) \<Rightarrow> (Inl err, w2)
                | (Inr (secret, created), w2) \<Rightarrow>
                    (case ParseRemoteKubeconfig load kubeconfig of Inl err \<Rightarrow> (Inl err, w2) | Inr _ \<Rightarrow> (Inr (m_Name (sec_meta secret)), w2))))
      in case ac_create (bc_namespaces c) w \<lparr>ns_meta = emptyMeta\<lparr>m_Name := ''kube-bind''\<rparr>\<rparr> of
           (Some err, w1) \<Rightarrow> if \<not> IsAlreadyExists err then (Inl err, w1) else find w1
         | (None, w1) \<Rightarrow> find w1)"

section \<open>Service bindings\<close>

definition newServiceBinding :: "string \<Rightarrow> string \<Rightarrow> APIServiceBinding" where
  "newServiceBinding name secretName =
     \<lparr>bd_Kind = ''APIServiceBinding'', bd_meta = emptyMeta\<lparr>m_Name := name\<rparr>,
      bd_Spec = \<lparr>bds_KubeconfigSecretRef = \<lparr>ck_Name = secretName, ck_Key = ''kubeconfig'', ck_Namespace = ''kube-bind''\<rparr>\<rparr>,
      bd_Status = \<lparr>bdt_ProviderPrettyName = [], bdt_Conditions = [], bdt_BoundSchemas = [], bdt_PermissionClaims = []\<rparr>\<rparr>"

fun checkCRDs :: "'w bind_client \<Rightarrow> 'w \<Rightarrow> APIServiceBinding \<Rightarrow> APIServiceExportRequestResource list \<Rightarrow> error option" where
  "checkCRDs c w existing [] = None"
| "checkCRDs c w existing (resource # rest) =
     (case bc_getCRD c w (ResourceGroupName resource) of
        Inl err \<Rightarrow> if IsNotFound err then checkCRDs c w existing rest else Some err
      | Inr crd \<Rightarrow>
          if \<not> IsOwnedByBinding (m_Name (bd_meta existing)) (m_UID (bd_meta existing)) (m_OwnerReferences (crd_meta crd))
          then Some (PlainError (Sprintf ''CustomResourceDefinition %s exists, but is not owned by kube-bind'' [FStr (m_Name (crd_meta crd))]))
          else checkCRDs c w existing rest)"

text \<open>The creation is polled after a first tick, and the first try decides; the status is written at best effort.\<close>

definition createAPIServiceBindings ::
  "'w bind_client \<Rightarrow> time \<Rightarrow> APIServiceExportRequest \<Rightarrow> string \<Rightarrow> 'w \<Rightarrow> APIServiceBinding list result \<times> 'w" where
  "createAPIServiceBindings c now request secretName w =
     (let name = m_Name (rq_meta request)
      in case ac_get (bc_bindings c) w \<lparr>nn_Namespace = [], nn_Name = name\<rparr> of
           Inr existing \<Rightarrow>
             let ref = bds_KubeconfigSecretRef (bd_Spec existing)
             in if ck_Namespace ref \<noteq> ''kube-bind'' \<or> ck_Name ref \<noteq> secretName
                then (Inl (PlainError (Sprintf ''found existing APIServiceBinding %s not from this service provider'' [FStr name])), w)
                else (case checkCRDs c w existing (rqs_Resources (rq_Spec request)) of
                    Some err \<Rightarrow> (Inl err, w) | None \<Rightarrow> (Inr [existing], w))
         | Inl err \<Rightarrow>
             if \<not> IsNotFound err then (Inl err, w)
             else (case bc_tick c w of
                 (Some cerr, w1) \<Rightarrow> (Inl cerr, w1)
               | (None, w1) \<Rightarrow>
                   (case ac_create (bc_bindings c) w1 (newServiceBinding name secretName) of
                      (Some err2, w2) \<Rightarrow> (Inl err2, w2)
                    | (None, w2) \<Rightarrow>
                        let created = MarkFalse APIServiceBinding_Setter now (newServiceBinding name secretName) ReadyCondition ''Pending''
                              ConditionSeverityInfo ''Pending'' []
                        in (Inr [created], snd (bc_updateBindingStatus c w2 created)))))"

section \<open>Export requests\<close>

record 'w cli_wait =
  cw_world :: 'w
  cw_result :: "APIServiceExportRequest option"

definition cli_requestReady :: "'w bind_client \<Rightarrow> NamespacedName \<Rightarrow> 'w cli_wait \<Rightarrow> bool result \<times> 'w cli_wait" where
  "cli_requestReady c key s =
     (case bc_getRequest c (cw_world s) key of
        Inl err \<Rightarrow>
          if IsNotFound err then (Inl (PlainError (Sprintf ''APIServiceExportRequest %s was deleted by the service provider'' [FStr (nn_Name key)])), s)
          else (Inl err, s)
      | Inr request \<Rightarrow>
          if rqt_Phase (rq_Status request) = APIServiceExportRequestPhaseSucceeded then (Inr True, s\<lparr>cw_result := Some request\<rparr>)
          else if rqt_Phase (rq_Status request) = APIServiceExportRequestPhaseFailed
          then (Inl (PlainError (Sprintf ''binding request failed: %s'' [FStr (rqt_TerminalMessage (rq_Status request))])), s)
          else (Inr False, s))"

definition cli_waitTick :: "'w bind_client \<Rightarrow> 'w cli_wait \<Rightarrow> error option \<times> 'w cli_wait" where
  "cli_waitTick c s = (case bc_tick c (cw_world s) of (err, w) \<Rightarrow> (err, s\<lparr>cw_world := w\<rparr>))"

text \<open>A name that is taken is tried a second time as the prefix of a generated one.\<close>

definition submitRequest :: "'w bind_client \<Rightarrow> string \<Rightarrow> APIServiceExportRequest \<Rightarrow> 'w \<Rightarrow> APIServiceExportRequest result \<times> 'w" where
  "submitRequest c ns request w =
     (let name = m_Name (rq_meta request)
      in case bc_createRequest c w ns (if name = [] then Some ''export-'' else None) request of
           (Inr created, w1) \<Rightarrow> (Inr created, w1)
         | (Inl err, w1) \<Rightarrow>
             if \<not> IsAlreadyExists err \<or> name = [] then (Inl err, w1)
             else bc_createRequest c w1 ns (Some (name @ ''-'')) (request\<lparr>rq_meta := (rq_meta request)\<lparr>m_Name := []\<rparr>\<rparr>))"

definition createServiceExportRequest ::
  "'w bind_client \<Rightarrow> string \<Rightarrow> APIServiceExportRequest \<Rightarrow> 'w \<Rightarrow> (APIServiceExportRequest option result \<times> 'w) option" where
  "createServiceExportRequest c ns request w =
     (case submitRequest c ns request w of
        (Inl err, w1) \<Rightarrow> Some (Inl err, w1)
      | (Inr created, w1) \<Rightarrow>
          (case pollUntil (cli_requestReady c \<lparr>nn_Namespace = ns, nn_Name = m_Name (rq_meta created)\<rparr>) (cli_waitTick c)
                  \<lparr>cw_world = w1, cw_result = None\<rparr> of
             None \<Rightarrow> None
           | Some (Some err, s) \<Rightarrow> Some (Inl err, cw_world s)
           | Some (None, s) \<Rightarrow> Some (Inr (cw_result s), cw_world s)))"

section \<open>The konnector\<close>

text \<open>The objects of the konnector.\<close>

definition getAllKonnectorResources :: "string \<Rightarrow> HostAlias list \<Rightarrow> manifest list" where
  "getAllKonnectorResources img hostAliases =
     (let labels = Mapping.update ''app'' ''konnector'' Mapping.empty in
      [NamespaceManifest \<lparr>ns_meta = emptyMeta\<lparr>m_Name := ''kube-bind''\<rparr>\<rparr>,
       ServiceAccountManifest (emptyMeta\<lparr>m_Name := ''konnector'', m_Namespace := ''kube-bind''\<rparr>),
       ClusterRoleManifest \<lparr>cr_meta = emptyMeta\<lparr>m_Name := ''kube-bind-konnector''\<rparr>,
         cr_Rules = [\<lparr>pr_APIGroups = [''*''], pr_Resources = [''*''], pr_NonResourceURLs = [], pr_Verbs = [''*'']\<rparr>], cr_AggregationRule = None\<rparr>,
       ClusterRoleBindingManifest \<lparr>crb_meta = emptyMeta\<lparr>m_Name := ''kube-bind-konnector''\<rparr>,
         crb_RoleRef = \<lparr>rf_APIGroup = ''rbac.authorization.k8s.io'', rf_Kind = ''ClusterRole'', rf_Name = ''kube-bind-konnector''\<rparr>,
         crb_Subjects = [\<lparr>sj_Kind = ''ServiceAccount'', sj_Namespace = ''kube-bind'', sj_Name = ''konnector''\<rparr>]\<rparr>,
       DeploymentManifest \<lparr>dp_meta = emptyMeta\<lparr>m_Name := ''konnector'', m_Namespace := ''kube-bind'', m_Labels := labels\<rparr>,
         dp_Replicas = 2, dp_MatchLabels = labels, dp_PodLabels = labels, dp_ServiceAccountName = ''konnector'', dp_HostAliases = hostAliases,
         dp_Containers = [\<lparr>ct_Name = ''konnector'', ct_Image = img,
           ct_Env = [(''POD_NAME'', ''metadata.name''), (''POD_NAMESPACE'', ''metadata.namespace'')],
           ct_ReadinessProbe = Some (''/healthz'', 8090)\<rparr>]\<rparr>])"

text \<open>The kind of an object of the konnector, and the resource the dynamic client is asked for.\<close>

fun manifestGVK :: "manifest \<Rightarrow> string \<times> string \<times> string" where
  "manifestGVK (NamespaceManifest _) = ([], ''v1'', ''Namespace'')"
| "manifestGVK (ServiceAccountManifest _) = ([], ''v1'', ''ServiceAccount'')"
| "manifestGVK (ClusterRoleManifest _) = (''rbac.authorization.k8s.io'', ''v1'', ''ClusterRole'')"
| "manifestGVK (ClusterRoleBindingManifest _) = (''rbac.authorization.k8s.io'', ''v1'', ''ClusterRoleBinding'')"
| "manifestGVK (DeploymentManifest _) = (''apps'', ''v1'', ''Deployment'')"

definition getGVRFromGVK :: "string \<times> string \<times> string \<Rightarrow> string \<times> string \<times> string" where
  "getGVRFromGVK gvk =
     (case map_of
        [(([], ''v1'', ''Namespace''), ([], ''v1'', ''namespaces'')),
         (([], ''v1'', ''ServiceAccount''), ([], ''v1'', ''serviceaccounts'')),
         ((''rbac.authorization.k8s.io'', ''v1'', ''ClusterRole''), (''rbac.authorization.k8s.io'', ''v1'', ''clusterroles'')),
         ((''rbac.authorization.k8s.io'', ''v1'', ''ClusterRoleBinding''), (''rbac.authorization.k8s.io'', ''v1'', ''clusterrolebindings'')),
         ((''apps'', ''v1'', ''Deployment''), (''apps'', ''v1'', ''deployments''))] gvk of
        None \<Rightarrow> ([], [], []) | Some gvr \<Rightarrow> gvr)"

lemma konnector_resources_known: "snd (snd (getGVRFromGVK (manifestGVK ob))) \<noteq> []"
  by (cases ob) (simp_all add: getGVRFromGVK_def)

definition applyResource :: "'w bind_client \<Rightarrow> manifest \<Rightarrow> 'w \<Rightarrow> error option \<times> 'w" where
  "applyResource c ob w =
     (case bc_getObject c w ob of
        Some err \<Rightarrow> if IsNotFound err then bc_createObject c w ob else (Some err, w)
      | None \<Rightarrow> bc_updateObject c w ob)"

fun applyResources :: "'w bind_client \<Rightarrow> manifest list \<Rightarrow> 'w \<Rightarrow> error option \<times> 'w" where
  "applyResources c [] w = (None, w)"
| "applyResources c (ob # obs) w =
     (case applyResource c ob w of (Some err, w1) \<Rightarrow> (Some err, w1) | (None, w1) \<Rightarrow> applyResources c obs w1)"

definition bootstrapKonnector :: "'w bind_client \<Rightarrow> string \<Rightarrow> HostAlias list \<Rightarrow> 'w \<Rightarrow> error option \<times> 'w" where
  "bootstrapKonnector c img hostAliases w = applyResources c (getAllKonnectorResources img hostAliases) w"

abbreviation cliKonnectorImage :: string where "cliKonnectorImage \<equiv> ''ghcr.io/kbind-dev/konnector''"

definition currentKonnectorVersion :: "'w bind_client \<Rightarrow> 'w \<Rightarrow> (string \<times> bool) result outcome" where
  "currentKonnectorVersion c w =
     (case bc_getDeployment c w ''kube-bind'' ''konnector'' of
        Inl err \<Rightarrow> Returns (if IsNotFound err then Inr ([], False) else Inl err)
      | Inr deployment \<Rightarrow>
          (case dp_Containers deployment of
             [] \<Rightarrow> Panic ''index out of range [0] with length 0''
           | ct # _ \<Rightarrow>
               Returns (Inr (if \<not> HasPrefix (ct_Image ct) (cliKonnectorImage @ '':'') then (''unknown'', True)
                             else (TrimPrefix (ct_Image ct) (cliKonnectorImage @ '':''), True)))))"

record cli_options =
  bo_SkipKonnector :: bool
  bo_KonnectorImageOverride :: string
  bo_DowngradeKonnector :: bool
  bo_HostAliasParsed :: "HostAlias list"
  bo_DryRun :: bool
  bo_RemoteKubeconfigFile :: string
  bo_RemoteKubeconfigNamespace :: string
  bo_RemoteKubeconfigName :: string
  bo_RemoteNamespace :: string
  bo_File :: string

definition TrimLeftV :: "string \<Rightarrow> string" where
  "TrimLeftV s = dropWhile (\<lambda>ch. ch = CHR ''v'') s"

text \<open>
  Whether the konnector is applied, and with which image. Semantic versions are a parameter: the
  parser, and the comparison, whose result is the sign of the difference.
\<close>

definition konnectorAction ::
  "(string \<Rightarrow> 'v option) \<Rightarrow> ('v \<Rightarrow> 'v \<Rightarrow> int) \<Rightarrow> string \<Rightarrow> string \<times> bool \<Rightarrow> string option" where
  "konnectorAction parseSemver compareSemver bindVersion current =
     (let img = Sprintf ''%s:%s'' [FStr cliKonnectorImage, FStr bindVersion]; (konnectorVersion, installed) = current
      in if \<not> installed then Some img
         else if konnectorVersion \<in> {''unknown'', ''latest'', ''main''} then None
         else (case (parseSemver (TrimLeftV konnectorVersion), parseSemver (TrimLeftV bindVersion)) of
             (Some konnectorSemVer, Some bindSemVer) \<Rightarrow> if compareSemver bindSemVer konnectorSemVer > 0 then Some img else None
           | _ \<Rightarrow> None))"

definition DeployKonnector ::
  "'w bind_client \<Rightarrow> (string \<Rightarrow> 'v option) \<Rightarrow> ('v \<Rightarrow> 'v \<Rightarrow> int) \<Rightarrow> string \<Rightarrow> cli_options \<Rightarrow> 'w \<Rightarrow> ((error option \<times> 'w) option) outcome" where
  "DeployKonnector c parseSemver compareSemver gitVersion opts w =
     (let ready = (\<lambda>w1. pollUntil (\<lambda>w2. (Inr (bc_listBindings c w2 = None), w2)) (bc_tick c) w1);
          after = (\<lambda>(err, w1). case err of Some e \<Rightarrow> Some (Some e, w1) | None \<Rightarrow> ready w1)
      in case BinaryVersion gitVersion of
           Inl err \<Rightarrow> Returns (Some (Some err, w))
         | Inr bindVersion \<Rightarrow>
             if bo_KonnectorImageOverride opts \<noteq> []
             then Returns (after (bootstrapKonnector c (bo_KonnectorImageOverride opts) (bo_HostAliasParsed opts) w))
             else if \<not> bo_SkipKonnector opts
             then (case currentKonnectorVersion c w of
                 Panic msg \<Rightarrow> Panic msg
               | Returns (Inl err) \<Rightarrow>
                   Returns (Some (Some (wrapError ''failed to check current konnector version in the cluster'' err), w))
               | Returns (Inr current) \<Rightarrow>
                   Returns (case konnectorAction parseSemver compareSemver bindVersion current of
                       None \<Rightarrow> ready w | Some img \<Rightarrow> after (bootstrapKonnector c img (bo_HostAliasParsed opts) w)))
             else Returns (ready w))"

text \<open>The command line and the backend deploy the same konnector.\<close>

lemma same_konnector: "getAllKonnectorResources img aliases = Objects (NewKonnectorManifests img aliases)"
  by (simp add: getAllKonnectorResources_def Objects_def NewKonnectorManifests_def konnectorLabels_def KonnectorNamespace_def
      KonnectorServiceAccountName_def KonnectorClusterRoleName_def KonnectorDeploymentName_def KonnectorReplicas_def KonnectorHealthzPort_def Let_def)

text \<open>The option to downgrade the konnector is never read.\<close>

lemma downgrade_ignored:
  "DeployKonnector c parseSemver compareSemver gitVersion (opts\<lparr>bo_DowngradeKonnector := b\<rparr>) w =
   DeployKonnector c parseSemver compareSemver gitVersion opts w"
proof -
  have "bo_KonnectorImageOverride (opts\<lparr>bo_DowngradeKonnector := b\<rparr>) = bo_KonnectorImageOverride opts"
    "bo_SkipKonnector (opts\<lparr>bo_DowngradeKonnector := b\<rparr>) = bo_SkipKonnector opts"
    "bo_HostAliasParsed (opts\<lparr>bo_DowngradeKonnector := b\<rparr>) = bo_HostAliasParsed opts" by simp_all
  then show ?thesis by (simp only: DeployKonnector_def Let_def)
qed

section \<open>The shared binder\<close>

text \<open>
  The libraries the binder calls: reading and writing kubeconfigs, the client configuration of a
  kubeconfig (its host), files, and JSON, from which either only the \<open>apiVersion\<close> is read or the
  request with it.
\<close>

record bind_libs =
  bl_Load :: "string \<Rightarrow> remote_kubeconfig result"
  bl_Write :: "remote_kubeconfig \<Rightarrow> string result"
  bl_ClientConfig :: "remote_kubeconfig \<Rightarrow> string result"
  bl_LoadFile :: "string \<Rightarrow> remote_kubeconfig result"
  bl_ReadManifest :: "string \<Rightarrow> string result"
  bl_DecodeMeta :: "string \<Rightarrow> string result"
  bl_DecodeRequest :: "string \<Rightarrow> (string \<times> APIServiceExportRequest) result"

definition getRemoteKubeconfig ::
  "'w bind_client \<Rightarrow> bind_libs \<Rightarrow> cli_options \<Rightarrow> string \<Rightarrow> string \<Rightarrow> 'w \<Rightarrow> (string \<times> string \<times> string) result" where
  "getRemoteKubeconfig c bl opts namespace name w =
     (let fromSecret = (\<lambda>namespace name. case ac_get (bc_secrets c) w \<lparr>nn_Namespace = namespace, nn_Name = name\<rparr> of
            Inl err \<Rightarrow> Inl err
          | Inr secret \<Rightarrow>
              (case Mapping.lookup (sec_Data secret) ''kubeconfig'' of
                 None \<Rightarrow> Inl (PlainError (Sprintf ''secret %s/%s does not contain a kubeconfig'' [FStr namespace, FStr name]))
               | Some bs \<Rightarrow> bl_Load bl bs));
          loaded = (if bo_RemoteKubeconfigFile opts \<noteq> [] then bl_LoadFile bl (bo_RemoteKubeconfigFile opts)
            else if bo_RemoteKubeconfigNamespace opts \<noteq> [] \<and> bo_RemoteKubeconfigName opts \<noteq> []
            then fromSecret (bo_RemoteKubeconfigNamespace opts) (bo_RemoteKubeconfigName opts)
            else fromSecret namespace name)
      in case loaded of
           Inl err \<Rightarrow> Inl err
         | Inr config \<Rightarrow>
             (case Mapping.lookup (rk_Contexts config) (rk_CurrentContext config) of
                None \<Rightarrow> Inl (PlainError (Sprintf ''current context %q not found in remote kubeconfig'' [FStr (rk_CurrentContext config)]))
              | Some ctx0 \<Rightarrow>
                  let ctx = (if bo_RemoteNamespace opts \<noteq> [] then ctx0\<lparr>rx_Namespace := bo_RemoteNamespace opts\<rparr> else ctx0);
                      config1 = config\<lparr>rk_Contexts := Mapping.update (rk_CurrentContext config) ctx (rk_Contexts config)\<rparr>
                  in if rx_Namespace ctx = []
                     then Inl (PlainError ''remote namespace is required, either as flag or in the passed remote kubeconfig'')
                     else (case bl_ClientConfig bl config1 of
                         Inl err \<Rightarrow> Inl err
                       | Inr host \<Rightarrow>
                           (case bl_Write bl config1 of Inl err \<Rightarrow> Inl err | Inr kubeconfig \<Rightarrow> Inr (kubeconfig, rx_Namespace ctx, host)))))"

text \<open>The binder passes the options on, but for the remote namespace, which is lost on the way.\<close>

definition binder_getRemoteKubeconfig ::
  "'w bind_client \<Rightarrow> bind_libs \<Rightarrow> cli_options \<Rightarrow> string \<Rightarrow> string \<Rightarrow> 'w \<Rightarrow> (string \<times> string \<times> string) result" where
  "binder_getRemoteKubeconfig c bl opts = getRemoteKubeconfig c bl (opts\<lparr>bo_RemoteNamespace := []\<rparr>)"

text \<open>The requests of a response, numbered from 0 in the first two messages and from 1 in the last one.\<close>

fun decodeRequests :: "bind_libs \<Rightarrow> nat \<Rightarrow> string list \<Rightarrow> APIServiceExportRequest list result" where
  "decodeRequests bl i [] = Inr []"
| "decodeRequests bl i (raw # rest) =
     (case bl_DecodeMeta bl raw of
        Inl err \<Rightarrow> Inl (PlainError (Sprintf ''unexpected response: failed to unmarshal request #%d: %v'' [FInt (int i), FStr (ErrorString err)]))
      | Inr apiVersion \<Rightarrow>
          if apiVersion \<noteq> SchemeGroupVersionString
          then Inl (PlainError (Sprintf ''unexpected response: request #%d is not %s, got %s'' [FInt (int i), FStr SchemeGroupVersionString, FStr apiVersion]))
          else (case bl_DecodeRequest bl raw of
              Inl err \<Rightarrow> Inl (PlainError (Sprintf ''failed to unmarshal api request #%d: %v'' [FInt (int i + 1), FStr (ErrorString err)]))
            | Inr (_, request) \<Rightarrow>
                (case decodeRequests bl (i + 1) rest of Inl err \<Rightarrow> Inl err | Inr requests \<Rightarrow> Inr (request # requests))))"

definition bindRequest ::
  "'w bind_client \<Rightarrow> bind_libs \<Rightarrow> time \<Rightarrow> string \<times> string \<times> string \<Rightarrow> APIServiceExportRequest \<Rightarrow> 'w \<Rightarrow>
     ((APIServiceBinding list result \<times> 'w) option) outcome" where
  "bindRequest c bl now remote request w =
     (case remote of (kubeconfig, ns, host) \<Rightarrow>
        (case createServiceExportRequest c ns request w of
           None \<Rightarrow> Returns None
         | Some (Inl err, w1) \<Rightarrow> Returns (Some (Inl (wrapError ''failed to create service export request'' err), w1))
         | Some (Inr result, w1) \<Rightarrow>
             (case createKubeconfigSecret c (bl_Load bl) host ns kubeconfig w1 of
                (Inl err, w2) \<Rightarrow> Returns (Some (Inl (wrapError ''failed to create kubeconfig secret'' err), w2))
              | (Inr secretName, w2) \<Rightarrow>
                  (case result of
                     None \<Rightarrow> Panic ''nil pointer dereference''
                   | Some req \<Rightarrow>
                       (case createAPIServiceBindings c now req secretName w2 of
                          (Inl err, w3) \<Rightarrow> Returns (Some (Inl (wrapError ''failed to create API service bindings'' err), w3))
                        | (Inr bindings, w3) \<Rightarrow> Returns (Some (Inr bindings, w3)))))))"

fun bindRequests ::
  "'w bind_client \<Rightarrow> bind_libs \<Rightarrow> time \<Rightarrow> string \<times> string \<times> string \<Rightarrow> APIServiceExportRequest list \<Rightarrow> APIServiceBinding list \<Rightarrow> 'w \<Rightarrow>
     ((APIServiceBinding list result \<times> 'w) option) outcome" where
  "bindRequests c bl now remote [] bindings w = Returns (Some (Inr bindings, w))"
| "bindRequests c bl now remote (request # rest) bindings w =
     (case bindRequest c bl now remote request w of
        Panic msg \<Rightarrow> Panic msg
      | Returns None \<Rightarrow> Returns None
      | Returns (Some (Inl err, w1)) \<Rightarrow> Returns (Some (Inl err, w1))
      | Returns (Some (Inr results, w1)) \<Rightarrow> bindRequests c bl now remote rest (bindings @ results) w1)"

text \<open>The deployment of the konnector, and what follows it.\<close>

definition withKonnector ::
  "'w bind_client \<Rightarrow> (string \<Rightarrow> 'v option) \<Rightarrow> ('v \<Rightarrow> 'v \<Rightarrow> int) \<Rightarrow> string \<Rightarrow> cli_options \<Rightarrow>
     ('w \<Rightarrow> ((APIServiceBinding list result \<times> 'w) option) outcome) \<Rightarrow> 'w \<Rightarrow> ((APIServiceBinding list result \<times> 'w) option) outcome" where
  "withKonnector c parseSemver compareSemver gitVersion opts next w =
     (case DeployKonnector c parseSemver compareSemver gitVersion opts w of
        Panic msg \<Rightarrow> Panic msg
      | Returns None \<Rightarrow> Returns None
      | Returns (Some (Some err, w1)) \<Rightarrow> Returns (Some (Inl (wrapError ''failed to deploy konnector'' err), w1))
      | Returns (Some (None, w1)) \<Rightarrow> next w1)"

definition BindFromResponse ::
  "'w bind_client \<Rightarrow> bind_libs \<Rightarrow> (string \<Rightarrow> 'v option) \<Rightarrow> ('v \<Rightarrow> 'v \<Rightarrow> int) \<Rightarrow> string \<Rightarrow> cli_options \<Rightarrow> time \<Rightarrow>
     BindingResourceResponse option \<Rightarrow> 'w \<Rightarrow> ((APIServiceBinding list result \<times> 'w) option) outcome" where
  "BindFromResponse c bl parseSemver compareSemver gitVersion opts now response w =
     (let return = (\<lambda>r w1. Returns (Some (r, w1)))
      in case response of
           None \<Rightarrow> return (Inl (PlainError ''unexpected response: authentication.oauth2CodeGrant is nil'')) w
         | Some resp \<Rightarrow>
             if brr_Authentication resp = None then return (Inl (PlainError ''unexpected response: authentication.oauth2CodeGrant is nil'')) w
             else (case ensureClientSideNamespaceExists c w of
                 (Some err, w1) \<Rightarrow> return (Inl (wrapError ''failed to ensure kube-bind namespace exists'' err)) w1
               | (None, w1) \<Rightarrow>
                   (case copyKubeconfig c (bl_Load bl) (brr_Kubeconfig resp) w1 of
                      (Inl err, w2) \<Rightarrow> return (Inl err) w2
                    | (Inr (secret, created), w2) \<Rightarrow>
                        if bo_DryRun opts then return (Inr []) w2
                        else (case binder_getRemoteKubeconfig c bl opts (m_Namespace (sec_meta secret)) (m_Name (sec_meta secret)) w2 of
                            Inl err \<Rightarrow> return (Inl (wrapError ''failed to get remote kubeconfig'' err)) w2
                          | Inr remote \<Rightarrow>
                              (case decodeRequests bl 0 (brr_Requests resp) of
                                 Inl err \<Rightarrow> return (Inl err) w2
                               | Inr requests \<Rightarrow>
                                   withKonnector c parseSemver compareSemver gitVersion opts (bindRequests c bl now remote requests []) w2)))))"

definition unmarshalManifest :: "bind_libs \<Rightarrow> string \<Rightarrow> APIServiceExportRequest result" where
  "unmarshalManifest bl bs =
     (case bl_DecodeRequest bl bs of
        Inl err \<Rightarrow> Inl (wrapError ''failed to unmarshal manifest'' err)
      | Inr (apiVersion, request) \<Rightarrow>
          if apiVersion \<noteq> SchemeGroupVersionString then Inl (PlainError (''invalid apiVersion '' @ quote apiVersion))
          else if rq_Kind request \<noteq> ''APIServiceExportRequest'' then Inl (PlainError (''invalid kind '' @ quote (rq_Kind request)))
          else Inr request)"

definition BindFromFile ::
  "'w bind_client \<Rightarrow> bind_libs \<Rightarrow> (string \<Rightarrow> 'v option) \<Rightarrow> ('v \<Rightarrow> 'v \<Rightarrow> int) \<Rightarrow> string \<Rightarrow> cli_options \<Rightarrow> time \<Rightarrow> 'w \<Rightarrow>
     ((APIServiceBinding list result \<times> 'w) option) outcome" where
  "BindFromFile c bl parseSemver compareSemver gitVersion opts now w =
     (let return = (\<lambda>r w1. Returns (Some (r, w1)))
      in case ensureClientSideNamespaceExists c w of
           (Some err, w1) \<Rightarrow> return (Inl (wrapError ''failed to ensure kube-bind namespace exists'' err)) w1
         | (None, w1) \<Rightarrow>
             (case binder_getRemoteKubeconfig c bl opts [] [] w1 of
                Inl err \<Rightarrow> return (Inl err) w1
              | Inr (remoteKubeconfig, _, _) \<Rightarrow>
                  (case copyKubeconfig c (bl_Load bl) remoteKubeconfig w1 of
                     (Inl err, w2) \<Rightarrow> return (Inl err) w2
                   | (Inr (secret, created), w2) \<Rightarrow>
                       if bo_DryRun opts then return (Inr []) w2
                       else (case binder_getRemoteKubeconfig c bl opts (m_Namespace (sec_meta secret)) (m_Name (sec_meta secret)) w2 of
                           Inl err \<Rightarrow> return (Inl (wrapError ''failed to get remote kubeconfig'' err)) w2
                         | Inr remote \<Rightarrow>
                             (case bl_ReadManifest bl (bo_File opts) of
                                Inl err \<Rightarrow> return (Inl (wrapError ''failed to get request manifest'' err)) w2
                              | Inr data \<Rightarrow>
                                  (case unmarshalManifest bl data of
                                     Inl err \<Rightarrow> return (Inl (wrapError ''failed to unmarshal request manifest'' err)) w2
                                   | Inr request \<Rightarrow>
                                       withKonnector c parseSemver compareSemver gitVersion opts (bindRequest c bl now remote request) w2))))))"

section \<open>Options of the commands\<close>

text \<open>
  The host aliases of the commands \<open>bind\<close> and \<open>bind apiservice\<close> are taken apart when the options are
  completed, before they are validated; an entry without a colon makes Go panic. The command
  \<open>bind deploy\<close> skips such entries.
\<close>

definition splitAlias :: "string \<Rightarrow> string list" where
  "splitAlias hostAlias = SplitN hostAlias (CHR '':'') 2"

fun completeHostAliases :: "string list \<Rightarrow> HostAlias list outcome" where
  "completeHostAliases [] = Returns []"
| "completeHostAliases (hostAlias # rest) =
     (let parts = splitAlias hostAlias
      in if length parts < 2 then Panic ''index out of range [1] with length 1''
         else (case completeHostAliases rest of
             Panic msg \<Rightarrow> Panic msg
           | Returns parsed \<Rightarrow> Returns (\<lparr>ha_IP = parts ! 0, ha_Hostnames = SplitComma (parts ! 1)\<rparr> # parsed)))"

definition deployHostAliases :: "string list \<Rightarrow> HostAlias list" where
  "deployHostAliases aliases =
     map (\<lambda>a. \<lparr>ha_IP = splitAlias a ! 0, ha_Hostnames = SplitComma (splitAlias a ! 1)\<rparr>) (filter (\<lambda>a. length (splitAlias a) = 2) aliases)"

fun validateHostAliases :: "string list \<Rightarrow> error option" where
  "validateHostAliases [] = None"
| "validateHostAliases (hostAlias # rest) =
     (let parts = splitAlias hostAlias; invalid = (\<lambda>why. Some (PlainError (''invalid konnector-host-alias entry '' @ quote hostAlias @ why)))
      in if length parts \<noteq> 2 then invalid '', expected format IP:hostname1,hostname2''
         else if parts ! 0 = [] then invalid '', IP address is empty''
         else if parts ! 1 = [] then invalid '', hostnames are empty''
         else validateHostAliases rest)"

definition bind_Validate :: "(string \<Rightarrow> fullURL result) \<Rightarrow> string list \<Rightarrow> Options \<Rightarrow> error option" where
  "bind_Validate parse aliases o1 =
     (if op_ServerName o1 = [] then Some (PlainError ''server is required'')
      else (case parse (op_ServerName o1) of
          Inl err \<Rightarrow> Some (wrapError (''invalid url '' @ quote (op_ServerName o1)) err)
        | Inr _ \<Rightarrow> (case validateHostAliases aliases of Some err \<Rightarrow> Some err | None \<Rightarrow> Options_Validate parse o1)))"

definition apiservice_Validate ::
  "(string \<Rightarrow> fullURL result) \<Rightarrow> string list \<Rightarrow> string \<Rightarrow> string \<Rightarrow> string \<Rightarrow> cli_options \<Rightarrow> string list \<Rightarrow> Options \<Rightarrow> error option" where
  "apiservice_Validate parse allowedFormats outputFormat tmpl name opts aliases o1 =
     (if bo_File opts = [] \<and> tmpl = [] then Some (PlainError ''file, template-name or --file are required'')
      else if outputFormat \<noteq> [] \<and> outputFormat \<notin> set allowedFormats
      then Some (PlainError (Sprintf ''invalid output format %q (allowed: %s)'' [FStr outputFormat, FStr (Join allowedFormats '', '')]))
      else if tmpl = [] \<and> (bo_RemoteKubeconfigNamespace opts = []) \<noteq> (bo_RemoteKubeconfigName opts = [])
      then Some (PlainError ''remote-kubeconfig-namespace and remote-kubeconfig-name must be specified together'')
      else if tmpl = [] \<and> bo_RemoteKubeconfigFile opts = [] \<and> bo_RemoteKubeconfigNamespace opts = [] \<and> bo_RemoteKubeconfigName opts = []
      then Some (PlainError ''remote-kubeconfig or remote-kubeconfig-namespace and remote-kubeconfig-name are required'')
      else if name = [] \<and> bo_File opts = [] then Some (PlainError ''name is required'')
      else (case validateHostAliases aliases of Some err \<Rightarrow> Some err | None \<Rightarrow> Options_Validate parse o1))"

definition deploy_Validate :: "(string \<Rightarrow> fullURL result) \<Rightarrow> string \<Rightarrow> string \<Rightarrow> string list \<Rightarrow> Options \<Rightarrow> error option" where
  "deploy_Validate parse secretRef fileName aliases o1 =
     (let parts = SplitN secretRef (CHR ''/'') 2
      in if secretRef = [] \<and> fileName = [] then Some (PlainError ''either --secret or --file is required'')
         else if secretRef \<noteq> [] \<and> fileName \<noteq> [] then Some (PlainError ''only one of --secret or --file can be specified'')
         else if secretRef \<noteq> [] \<and> (length parts \<noteq> 2 \<or> parts ! 0 = [] \<or> parts ! 1 = [])
         then Some (PlainError (''invalid --secret format '' @ quote secretRef @ '', expected namespace/name''))
         else (case validateHostAliases aliases of Some err \<Rightarrow> Some err | None \<Rightarrow> Options_Validate parse o1))"

section \<open>The command bind\<close>

record BindResult =
  bt_Success :: bool
  bt_Message :: string
  bt_Error :: string
  bt_ErrorDescription :: string
  bt_Response :: BindingResourceResponse

text \<open>
  The answer of the local server to the callback of the front end: the status code and the channel with
  room for one result. \<open>decode64\<close> is the URL-safe base64, \<open>decodeJSON\<close> reads the response.
\<close>

definition bind_callback ::
  "string \<Rightarrow> (string \<Rightarrow> string result) \<Rightarrow> (string \<Rightarrow> BindingResourceResponse result) \<Rightarrow> smap \<Rightarrow> BindResult option \<Rightarrow> nat \<times> BindResult option" where
  "bind_callback sessionID decode64 decodeJSON query resultCh =
     (if mget query ''session_id'' \<noteq> sessionID then (401, resultCh)
      else (case decode64 (mget query ''binding_response'') of
          Inl err \<Rightarrow> (400, resultCh)
        | Inr responseData \<Rightarrow>
            (case decodeJSON responseData of
               Inl err \<Rightarrow> (400, resultCh)
             | Inr payload \<Rightarrow>
                 (200, case resultCh of
                    Some r \<Rightarrow> Some r
                  | None \<Rightarrow> Some \<lparr>bt_Success = (mget query ''success'' = ''true''), bt_Message = mget query ''message'', bt_Error = mget query ''error'',
                      bt_ErrorDescription = mget query ''error_description'', bt_Response = payload\<rparr>))))"

text \<open>
  A query has for every key its first value, the one that is read; another value that is added comes
  after it.
\<close>

definition addQuery :: "string \<Rightarrow> string \<Rightarrow> smap \<Rightarrow> smap" where
  "addQuery k v q = (case Mapping.lookup q k of None \<Rightarrow> Mapping.update k v q | Some _ \<Rightarrow> q)"

definition buildUIURL :: "(string \<Rightarrow> fullURL result) \<Rightarrow> string \<Rightarrow> nat \<Rightarrow> string \<Rightarrow> string \<Rightarrow> string \<Rightarrow> fullURL result" where
  "buildUIURL parse serverName callbackPort sessionID backendClusterID consumerClusterID =
     (case parse serverName of
        Inl err \<Rightarrow> Inl (wrapError ''invalid server URL'' err)
      | Inr u \<Rightarrow>
          let q0 = addQuery ''redirect_url'' (''http://127.0.0.1:'' @ Itoa (int callbackPort) @ ''/callback'')
                     (addQuery ''session_id'' sessionID (url_Query u));
              q1 = (if backendClusterID \<noteq> [] then addQuery ''cluster_id'' backendClusterID q0 else q0)
          in Inr (u\<lparr>url_Query := (if consumerClusterID \<noteq> [] then addQuery ''consumer_id'' consumerClusterID q1 else q1)\<rparr>))"

text \<open>The identity of the cluster is the UID of a namespace; the advice at the end of messages is left out.\<close>

definition GetClusterIdentityFromNamespace :: "'w bind_client \<Rightarrow> string \<Rightarrow> 'w \<Rightarrow> string result" where
  "GetClusterIdentityFromNamespace c identityNamespace w =
     (case ac_get (bc_namespaces c) w \<lparr>nn_Namespace = [], nn_Name = identityNamespace\<rparr> of
        Inl err \<Rightarrow> Inl err | Inr ns \<Rightarrow> Inr (m_UID (ns_meta ns)))"

text \<open>The command \<open>cluster-identity\<close> validates its option and prints the identity.\<close>

definition identity_Validate :: "string \<Rightarrow> error option" where
  "identity_Validate identityNamespace = (if identityNamespace = [] then Some (PlainError ''namespace cannot be empty'') else None)"

definition identity_Run :: "'w bind_client \<Rightarrow> string \<Rightarrow> 'w \<Rightarrow> string result" where
  "identity_Run c identityNamespace w =
     (case GetClusterIdentityFromNamespace c identityNamespace w of
        Inl err \<Rightarrow> Inl (wrapError ''failed to get cluster identity'' err) | Inr identity \<Rightarrow> Inr (identity @ [CHR 0x0A]))"

definition getClusterIdentity :: "'w bind_client \<Rightarrow> string \<Rightarrow> string \<Rightarrow> 'w \<Rightarrow> string result" where
  "getClusterIdentity c clusterIdentity identityNamespace w =
     (if clusterIdentity \<noteq> [] then Inr clusterIdentity
      else (case GetClusterIdentityFromNamespace c identityNamespace w of
          Inl err \<Rightarrow> Inl (wrapError (''failed to get cluster identity from namespace '' @ [CHR 0x27] @ quote identityNamespace @ [CHR 0x27]) err)
        | Inr identity \<Rightarrow> Inr identity))"

text \<open>How the wait ends, and what the command does then. In a dry run the requests are printed first.\<close>

datatype bind_event = BindReceived BindResult | BindServerError error | BindCancelled

fun printRequests :: "(string \<Rightarrow> error option) \<Rightarrow> (string \<Rightarrow> error option) \<Rightarrow> nat \<Rightarrow> string list \<Rightarrow> error option" where
  "printRequests decode printObj i [] = None"
| "printRequests decode printObj i (raw # rest) =
     (case decode raw of
        Some err \<Rightarrow> Some (wrapError (Sprintf ''failed to unmarshal request %d'' [FInt (int i)]) err)
      | None \<Rightarrow>
          (case printObj raw of
             Some err \<Rightarrow> Some (wrapError (Sprintf ''failed to print request %d'' [FInt (int i)]) err)
           | None \<Rightarrow> printRequests decode printObj (i + 1) rest))"

definition bind_finish ::
  "'w bind_client \<Rightarrow> bind_libs \<Rightarrow> (string \<Rightarrow> 'v option) \<Rightarrow> ('v \<Rightarrow> 'v \<Rightarrow> int) \<Rightarrow> string \<Rightarrow> cli_options \<Rightarrow> time \<Rightarrow> (string \<Rightarrow> error option) \<Rightarrow>
     bind_event \<Rightarrow> 'w \<Rightarrow> ((APIServiceBinding list result \<times> 'w) option) outcome" where
  "bind_finish c bl parseSemver compareSemver gitVersion opts now printObj event w =
     (let fail = (\<lambda>err w1. Returns (Some (Inl err, w1)))
      in case event of
           BindServerError err \<Rightarrow> fail (wrapError ''callback server error'' err) w
         | BindCancelled \<Rightarrow> fail (PlainError ''operation cancelled'') w
         | BindReceived result \<Rightarrow>
             if bt_Error result \<noteq> []
             then fail (PlainError (Sprintf ''binding failed: %s - %s'' [FStr (bt_Error result), FStr (bt_ErrorDescription result)])) w
             else (case (if bo_DryRun opts
                         then printRequests (\<lambda>raw. case bl_DecodeRequest bl raw of Inl err \<Rightarrow> Some err | Inr _ \<Rightarrow> None) printObj 0 (brr_Requests (bt_Response result))
                         else None) of
                 Some err \<Rightarrow> fail err w
               | None \<Rightarrow>
                   (case BindFromResponse c bl parseSemver compareSemver gitVersion
                           (opts\<lparr>bo_DowngradeKonnector := False, bo_RemoteKubeconfigFile := [], bo_RemoteKubeconfigNamespace := [],
                              bo_RemoteKubeconfigName := [], bo_RemoteNamespace := [], bo_File := []\<rparr>) now (Some (bt_Response result)) w of
                      Panic msg \<Rightarrow> Panic msg
                    | Returns None \<Rightarrow> Returns None
                    | Returns (Some (Inl err, w1)) \<Rightarrow> fail (wrapError ''failed to create APIServiceBindings'' err) w1
                    | Returns (Some (Inr bindings, w1)) \<Rightarrow> Returns (Some (Inr bindings, w1)))))"

definition runWithCallback ::
  "'w bind_client \<Rightarrow> bind_libs \<Rightarrow> (string \<Rightarrow> 'v option) \<Rightarrow> ('v \<Rightarrow> 'v \<Rightarrow> int) \<Rightarrow> string \<Rightarrow> cli_options \<Rightarrow> time \<Rightarrow> (string \<Rightarrow> error option) \<Rightarrow>
     (string \<Rightarrow> fullURL result) \<Rightarrow> Options \<Rightarrow> string \<Rightarrow> string \<Rightarrow> string \<Rightarrow> nat result \<Rightarrow> (fullURL \<Rightarrow> bind_event) \<Rightarrow> 'w \<Rightarrow>
     ((APIServiceBinding list result \<times> 'w) option) outcome" where
  "runWithCallback c bl parseSemver compareSemver gitVersion opts now printObj parse o1 sessionID clusterIdentity identityNamespace listen await w =
     (let fail = (\<lambda>what err. Returns (Some (Inl (wrapError what err), w)))
      in case getClusterIdentity c clusterIdentity identityNamespace w of
           Inl err \<Rightarrow> fail ''failed to get cluster identity'' err
         | Inr identity \<Rightarrow>
             (case listen of
                Inl err \<Rightarrow> fail ''failed to start callback server'' (wrapError ''failed to find available port'' err)
              | Inr port \<Rightarrow>
                  (case buildUIURL parse (op_ServerName o1) port sessionID (op_ClusterName o1) identity of
                     Inl err \<Rightarrow> fail ''failed to build UI URL'' err
                   | Inr uiURL \<Rightarrow> bind_finish c bl parseSemver compareSemver gitVersion opts now printObj (await uiURL) w)))"

section \<open>The commands bind apiservice and bind deploy\<close>

text \<open>\<open>clientBind\<close> sends the request for a template with the name of the request and the identity of the cluster.\<close>

definition bindTemplate ::
  "'w bind_client \<Rightarrow> bind_libs \<Rightarrow> (string \<Rightarrow> string \<Rightarrow> string \<Rightarrow> BindingResourceResponse result) \<Rightarrow> string \<Rightarrow> string \<Rightarrow> string \<Rightarrow> string \<Rightarrow> 'w \<Rightarrow>
     (BindingResourceResponse \<times> Secret) result \<times> 'w" where
  "bindTemplate c bl clientBind tmpl name clusterIdentity identityNamespace w =
     (let identity = (if clusterIdentity \<noteq> [] then Inr clusterIdentity
            else case ac_get (bc_namespaces c) w \<lparr>nn_Namespace = [], nn_Name = identityNamespace\<rparr> of
                   Inl err \<Rightarrow> Inl (wrapError (if IsNotFound err
                     then ''namespace '' @ quote identityNamespace @ '' not found for cluster identity generation''
                     else ''failed to get namespace '' @ quote identityNamespace @ '' for cluster identity generation'') err)
                 | Inr ns \<Rightarrow> Inr (m_UID (ns_meta ns)))
      in case identity of
           Inl err \<Rightarrow> (Inl err, w)
         | Inr ident \<Rightarrow>
             (case clientBind name tmpl ident of
                Inl err \<Rightarrow> (Inl (wrapError (''failed to bind to template '' @ quote tmpl) err), w)
              | Inr response \<Rightarrow>
                  if brr_Authentication response = None then (Inl (PlainError ''unexpected response: authentication.oauth2CodeGrant is nil''), w)
                  else (case ensureClientSideNamespaceExists c w of
                      (Some err, w1) \<Rightarrow> (Inl (wrapError ''failed to ensure kube-bind namespace exists'' err), w1)
                    | (None, w1) \<Rightarrow>
                        (case copyKubeconfig c (bl_Load bl) (brr_Kubeconfig response) w1 of
                           (Inl err, w2) \<Rightarrow> (Inl err, w2) | (Inr (secret, created), w2) \<Rightarrow> (Inr (response, secret), w2)))))"

definition apiservice_Run ::
  "'w bind_client \<Rightarrow> bind_libs \<Rightarrow> (string \<Rightarrow> 'v option) \<Rightarrow> ('v \<Rightarrow> 'v \<Rightarrow> int) \<Rightarrow> string \<Rightarrow> cli_options \<Rightarrow> time \<Rightarrow>
     (string \<Rightarrow> string \<Rightarrow> string \<Rightarrow> BindingResourceResponse result) \<Rightarrow> string \<Rightarrow> string \<Rightarrow> string \<Rightarrow> string \<Rightarrow> 'w \<Rightarrow>
     ((APIServiceBinding list result \<times> 'w) option) outcome" where
  "apiservice_Run c bl parseSemver compareSemver gitVersion opts now clientBind tmpl name clusterIdentity identityNamespace w =
     (let wrap = (\<lambda>r. case r of
            Returns (Some (Inl err, w1)) \<Rightarrow> Returns (Some (Inl (wrapError ''failed to create bindings'' err), w1)) | x \<Rightarrow> x)
      in if tmpl \<noteq> []
         then (case bindTemplate c bl clientBind tmpl name clusterIdentity identityNamespace w of
             (Inl err, w1) \<Rightarrow> Returns (Some (Inl err, w1))
           | (Inr (response, secret), w1) \<Rightarrow> wrap (BindFromResponse c bl parseSemver compareSemver gitVersion opts now (Some response) w1))
         else if bo_File opts \<noteq> [] then wrap (BindFromFile c bl parseSemver compareSemver gitVersion opts now w)
         else Returns (Some (Inr [], w)))"

definition getBindingResponse ::
  "'w bind_client \<Rightarrow> (string \<Rightarrow> BindingResourceResponse result) \<Rightarrow> (string \<Rightarrow> BindingResourceResponse result) \<Rightarrow> (string \<Rightarrow> string result) \<Rightarrow>
     string \<Rightarrow> string \<Rightarrow> string \<Rightarrow> 'w \<Rightarrow> BindingResourceResponse result" where
  "getBindingResponse c decodeJSON decodeYAML readFile secretRef secretKey fileName w =
     (if secretRef \<noteq> []
      then let parts = SplitN secretRef (CHR ''/'') 2; ref = Sprintf ''%s/%s'' [FStr (parts ! 0), FStr (parts ! 1)]
           in (case ac_get (bc_secrets c) w \<lparr>nn_Namespace = parts ! 0, nn_Name = parts ! 1\<rparr> of
                 Inl err \<Rightarrow> Inl (wrapError (''failed to get secret '' @ ref) err)
               | Inr secret \<Rightarrow>
                   (case Mapping.lookup (sec_Data secret) secretKey of
                      None \<Rightarrow> Inl (PlainError (''secret '' @ ref @ '' does not contain key '' @ quote secretKey))
                    | Some data \<Rightarrow>
                        (case decodeJSON data of
                           Inl err \<Rightarrow> Inl (wrapError ''failed to unmarshal BindingResourceResponse from secret'' err) | Inr r \<Rightarrow> Inr r)))
      else (case readFile fileName of
          Inl err \<Rightarrow> Inl (wrapError (if fileName = ''-'' then ''failed to read from stdin'' else ''failed to read file '' @ fileName) err)
        | Inr data \<Rightarrow>
            (case decodeYAML data of
               Inr r \<Rightarrow> Inr r
             | Inl _ \<Rightarrow>
                 (case decodeJSON data of
                    Inl err \<Rightarrow> Inl (wrapError ''failed to unmarshal BindingResourceResponse'' err) | Inr r \<Rightarrow> Inr r))))"

definition bindFromKubeconfig ::
  "'w bind_client \<Rightarrow> bind_libs \<Rightarrow> (string \<Rightarrow> 'v option) \<Rightarrow> ('v \<Rightarrow> 'v \<Rightarrow> int) \<Rightarrow> string \<Rightarrow> cli_options \<Rightarrow> time \<Rightarrow> string \<Rightarrow> BindingResourceResponse \<Rightarrow> 'w \<Rightarrow>
     ((APIServiceBinding list result \<times> 'w) option) outcome" where
  "bindFromKubeconfig c bl parseSemver compareSemver gitVersion opts now kubeconfigSecretName response w =
     (let return = (\<lambda>r w1. Returns (Some (r, w1)));
          deployed = (\<lambda>w3. if brr_Requests response \<noteq> []
            then BindFromResponse c bl parseSemver compareSemver gitVersion opts now (Some response) w3 else return (Inr []) w3)
      in case ensureClientSideNamespaceExists c w of
           (Some err, w1) \<Rightarrow> return (Inl (wrapError ''failed to ensure kube-bind namespace exists'' err)) w1
         | (None, w1) \<Rightarrow>
             (case ParseRemoteKubeconfig (bl_Load bl) (brr_Kubeconfig response) of
                Inl err \<Rightarrow> return (Inl (wrapError ''failed to parse kubeconfig'' err)) w1
              | Inr (remoteHost, remoteNamespace) \<Rightarrow>
                  (case (if kubeconfigSecretName \<noteq> [] then Inr kubeconfigSecretName
                         else FindRemoteKubeconfig c (bl_Load bl) w1 remoteNamespace remoteHost) of
                     Inl err \<Rightarrow> return (Inl err) w1
                   | Inr secretName \<Rightarrow>
                       (case EnsureKubeconfigSecret c (bl_Load bl) (brr_Kubeconfig response) secretName w1 of
                          (Inl err, w2) \<Rightarrow> return (Inl err) w2
                        | (Inr _, w2) \<Rightarrow>
                            if bo_DryRun opts then return (Inr []) w2
                            else (case bl_Load bl (brr_Kubeconfig response) of
                                Inl err \<Rightarrow> return (Inl (wrapError ''failed to load remote kubeconfig'' err)) w2
                              | Inr config \<Rightarrow>
                                  (case bl_ClientConfig bl config of
                                     Inl err \<Rightarrow> return (Inl (wrapError ''failed to create remote config'' err)) w2
                                   | Inr _ \<Rightarrow>
                                       if \<not> bo_SkipKonnector opts
                                       then withKonnector c parseSemver compareSemver gitVersion opts deployed w2 else deployed w2))))))"

definition deploy_Run ::
  "'w bind_client \<Rightarrow> bind_libs \<Rightarrow> (string \<Rightarrow> 'v option) \<Rightarrow> ('v \<Rightarrow> 'v \<Rightarrow> int) \<Rightarrow> string \<Rightarrow> cli_options \<Rightarrow> time \<Rightarrow>
     (string \<Rightarrow> BindingResourceResponse result) \<Rightarrow> (string \<Rightarrow> BindingResourceResponse result) \<Rightarrow> string \<Rightarrow> string \<Rightarrow> string \<Rightarrow> 'w \<Rightarrow>
     ((APIServiceBinding list result \<times> 'w) option) outcome" where
  "deploy_Run c bl parseSemver compareSemver gitVersion opts now decodeJSON decodeYAML secretRef secretKey kubeconfigSecretName w =
     (case getBindingResponse c decodeJSON decodeYAML (bl_ReadManifest bl) secretRef secretKey (bo_File opts) w of
        Inl err \<Rightarrow> Returns (Some (Inl (wrapError ''failed to get BindingResourceResponse'' err), w))
      | Inr response \<Rightarrow>
          (case bindFromKubeconfig c bl parseSemver compareSemver gitVersion
                  (opts\<lparr>bo_RemoteKubeconfigFile := [], bo_RemoteKubeconfigNamespace := [], bo_RemoteKubeconfigName := [],
                     bo_RemoteNamespace := [], bo_File := []\<rparr>) now kubeconfigSecretName response w of
             Returns (Some (Inl err, w1)) \<Rightarrow> Returns (Some (Inl (wrapError ''failed to create bindings'' err), w1))
           | result \<Rightarrow> result))"

text \<open>The version of a provider; a constant that does not parse would make \<open>MustParse\<close> panic.\<close>

definition validateProviderVersion :: "(string \<Rightarrow> 'v option) \<Rightarrow> ('v \<Rightarrow> 'v \<Rightarrow> int) \<Rightarrow> string \<Rightarrow> error option outcome" where
  "validateProviderVersion parseSemver compareSemver providerVersion =
     (if providerVersion = []
      then Returns (Some (PlainError (''provider version '' @ quote providerVersion @ '' is empty, please update the backend to v0.5.0+'')))
      else if providerVersion = ''v0.0.0'' \<or> providerVersion = ''v0.0.0-master+$Format:%H$'' then Returns None
      else (case parseSemver (TrimPrefix providerVersion ''v'') of
          None \<Rightarrow> Returns (Some (PlainError (''provider version '' @ quote providerVersion @ '' cannot be parsed'')))
        | Some providerSemVer \<Rightarrow>
            (case parseSemver ''0.6.0'' of
               None \<Rightarrow> Panic ''semver: Parse(0.6.0)''
             | Some minVersion \<Rightarrow>
                 Returns (if compareSemver providerSemVer minVersion < 0
                   then Some (PlainError (''provider version '' @ providerVersion @ '' is not supported, must be at least v0.6.0'')) else None))))"

section \<open>One secret per provider\<close>

text \<open>The provider a secret is for, and the secrets with kubeconfigs.\<close>

definition remoteOf :: "(string \<Rightarrow> remote_kubeconfig result) \<Rightarrow> Secret \<Rightarrow> (string \<times> string) option" where
  "remoteOf load s =
     (case Mapping.lookup (sec_Data s) ''kubeconfig'' of
        None \<Rightarrow> None
      | Some bs \<Rightarrow> (case ParseRemoteKubeconfig load bs of Inl err \<Rightarrow> None | Inr remote \<Rightarrow> Some remote))"

definition secretAt :: "'w bind_client \<Rightarrow> 'w \<Rightarrow> Secret \<Rightarrow> bool" where
  "secretAt c w s \<longleftrightarrow> m_Namespace (sec_meta s) = ''kube-bind'' \<and> ac_get (bc_secrets c) w (keyOfMeta (sec_meta s)) = Inr s"

definition onePerProvider :: "'w bind_client \<Rightarrow> (string \<Rightarrow> remote_kubeconfig result) \<Rightarrow> 'w \<Rightarrow> bool" where
  "onePerProvider c load w \<longleftrightarrow> (\<forall>s s'. secretAt c w s \<longrightarrow> secretAt c w s' \<longrightarrow> remoteOf load s \<noteq> None \<longrightarrow>
     remoteOf load s = remoteOf load s' \<longrightarrow> keyOfMeta (sec_meta s) = keyOfMeta (sec_meta s'))"

lemma matchingSecret_cases:
  "(\<exists>s \<in> set ss. matchingSecret load ns host ss = m_Name (sec_meta s) \<and> remoteOf load s = Some (host, ns)) \<or>
   matchingSecret load ns host ss = [] \<and> (\<forall>s \<in> set ss. remoteOf load s \<noteq> Some (host, ns))"
  by (induction ss) (auto simp: remoteOf_def split: option.splits sum.splits)

lemma updatedSecret_meta [simp]:
  "keyOfMeta (sec_meta (updatedSecret kubeconfig s)) = keyOfMeta (sec_meta s)"
  "m_Namespace (sec_meta (updatedSecret kubeconfig s)) = m_Namespace (sec_meta s)"
  by (simp_all add: updatedSecret_def keyOfMeta_def)

definition carries :: "string \<Rightarrow> Secret \<Rightarrow> bool" where
  "carries kubeconfig s \<longleftrightarrow> m_Namespace (sec_meta s) = ''kube-bind'' \<and> Mapping.lookup (sec_Data s) ''kubeconfig'' = Some kubeconfig \<and>
     Mapping.lookup (m_Labels (sec_meta s)) LabelProviderKubeconfig = Some ''true''"

lemma carries_updated: "m_Namespace (sec_meta s) = ''kube-bind'' \<Longrightarrow> carries kubeconfig (updatedSecret kubeconfig s)"
  by (simp add: carries_def updatedSecret_def lookup_update)

lemma carries_remoteOf: "carries kubeconfig s \<Longrightarrow> ParseRemoteKubeconfig load kubeconfig = Inr remote \<Longrightarrow> remoteOf load s = Some remote"
  by (simp add: carries_def remoteOf_def)

text \<open>
  What the commands rely on of the secrets in the consumer cluster: they are stored by namespace and name,
  the name is not empty, listing gives those of the namespace, a generated name is a new one, and a call
  that fails changes nothing.
\<close>

locale kubeconfig_secrets = strict_store sec_meta "bc_secrets c" for c :: "'w bind_client" +
  assumes update_failed: "ac_update (bc_secrets c) w s = (Some err, w') \<Longrightarrow> w' = w"
    and list_all: "bc_listSecrets c w ns = Inr ss \<Longrightarrow>
      s \<in> set ss \<longleftrightarrow> m_Namespace (sec_meta s) = ns \<and> ac_get (bc_secrets c) w (keyOfMeta (sec_meta s)) = Inr s"
    and named: "ac_get (bc_secrets c) w k = Inr s \<Longrightarrow> nn_Name k \<noteq> []"
    and generate: "bc_generateSecret c w p s = (Inr s', w') \<Longrightarrow>
      s' = s\<lparr>sec_meta := (sec_meta s)\<lparr>m_Name := m_Name (sec_meta s')\<rparr>\<rparr> \<and> (\<exists>err. ac_get (bc_secrets c) w (keyOfMeta (sec_meta s')) = Inl err)"
    and get_generate: "bc_generateSecret c w p s = (Inr s', w') \<Longrightarrow>
      ac_get (bc_secrets c) w' k = (if k = keyOfMeta (sec_meta s') then Inr s' else ac_get (bc_secrets c) w k)"
    and generate_failed: "bc_generateSecret c w p s = (Inl err, w') \<Longrightarrow> w' = w"
    and namespaces: "ac_create (bc_namespaces c) w n = (e, w') \<Longrightarrow> ac_get (bc_secrets c) w' k = ac_get (bc_secrets c) w k"
begin

abbreviation sget :: "'w \<Rightarrow> NamespacedName \<Rightarrow> Secret result" where
  "sget \<equiv> ac_get (bc_secrets c)"

lemma FindRemoteKubeconfig_cases:
  assumes "FindRemoteKubeconfig c load w ns host = Inr name"
  obtains (found) s where "secretAt c w s" "name = m_Name (sec_meta s)" "name \<noteq> []" "remoteOf load s = Some (host, ns)"
  | (missing) "name = []" "\<And>s. secretAt c w s \<Longrightarrow> remoteOf load s \<noteq> Some (host, ns)"
proof -
  from assms obtain ss where ss: "bc_listSecrets c w ''kube-bind'' = Inr ss" "name = matchingSecret load ns host ss"
    by (auto simp: FindRemoteKubeconfig_def split: sum.splits)
  have all: "s \<in> set ss \<longleftrightarrow> secretAt c w s" for s using list_all [OF ss(1)] by (simp add: secretAt_def)
  from matchingSecret_cases [of ss load ns host] show thesis
  proof
    assume "\<exists>s \<in> set ss. matchingSecret load ns host ss = m_Name (sec_meta s) \<and> remoteOf load s = Some (host, ns)"
    then obtain s where s: "secretAt c w s" "name = m_Name (sec_meta s)" "remoteOf load s = Some (host, ns)" using all ss(2) by auto
    from s(1) have "sget w (keyOfMeta (sec_meta s)) = Inr s" by (simp add: secretAt_def)
    from named [OF this] s found show thesis by (simp add: keyOfMeta_def)
  next
    assume "matchingSecret load ns host ss = [] \<and> (\<forall>s \<in> set ss. remoteOf load s \<noteq> Some (host, ns))"
    with missing all ss(2) show thesis by auto
  qed
qed

lemma updateSecret_cases:
  assumes "updateSecret c load kubeconfig remote name w = (r, w')"
  obtains (failed) err where "r = Inl err" "w' = w"
  | (updated) old where "sget w (kubeBindKey name) = Inr old" "remoteOf load old = Some remote"
      "r = Inr (updatedSecret kubeconfig old)" "ac_update (bc_secrets c) w (updatedSecret kubeconfig old) = (None, w')"
proof (cases "sget w (kubeBindKey name)")
  case (Inl err)
  with assms failed [of err] show thesis by (simp add: updateSecret_def)
next
  case (Inr old)
  obtain e w1 where u: "ac_update (bc_secrets c) w (updatedSecret kubeconfig old) = (e, w1)" by fastforce
  show thesis
  proof (cases "remoteOf load old = Some remote")
    case True
    with assms Inr u have "(e = None \<longrightarrow> r = Inr (updatedSecret kubeconfig old)) \<and> (\<forall>err. e = Some err \<longrightarrow> r = Inl err) \<and> w1 = w'"
      by (auto simp: updateSecret_def remoteOf_def split: option.splits sum.splits)
    with u update_failed failed updated [OF Inr True] show thesis by (cases e) auto
  next
    case False
    with assms Inr have "w' = w \<and> (\<exists>err. r = Inl err)"
      by (auto simp: updateSecret_def remoteOf_def split: option.splits sum.splits)
    with failed show thesis by blast
  qed
qed

lemma retryOnConflict_updateSecret:
  assumes "retryOnConflict n (updateSecret c load kubeconfig remote name) w = (r, w')"
  shows "(\<exists>err. r = Inl err) \<and> w' = w \<or> updateSecret c load kubeconfig remote name w = (r, w')"
  using assms
proof (induction n)
  case (Suc n)
  obtain r1 w1 where u: "updateSecret c load kubeconfig remote name w = (r1, w1)" by fastforce
  show ?case
  proof (cases rule: updateSecret_cases [OF u])
    case (1 err)
    with Suc u show ?thesis by (simp split: if_splits)
  next
    case (2 old)
    with Suc.prems u show ?thesis by simp
  qed
qed simp

text \<open>The outcomes of the two ways to write a secret: an error and no change, or the secret is stored and no other changes.\<close>

lemma EnsureKubeconfigSecret_existing:
  assumes "EnsureKubeconfigSecret c load kubeconfig name w = (r, w')" "ParseRemoteKubeconfig load kubeconfig = Inr remote"
    and "name \<noteq> []" "sget w (kubeBindKey name) = Inr old"
  obtains (failed) err where "r = Inl err" "w' = w"
  | (updated) "r = Inr (updatedSecret kubeconfig old, False)" "remoteOf load old = Some remote" "carries kubeconfig (updatedSecret kubeconfig old)"
      "\<And>k. sget w' k = (if k = keyOfMeta (sec_meta old) then Inr (updatedSecret kubeconfig old) else sget w k)"
proof -
  obtain r1 w1 where rt: "retryOnConflict (DefaultRetrySteps - 1) (updateSecret c load kubeconfig remote name) w = (r1, w1)" by fastforce
  with assms have r: "r = (case r1 of Inl err \<Rightarrow> Inl err | Inr s \<Rightarrow> Inr (s, False))" "w1 = w'"
    by (simp_all add: EnsureKubeconfigSecret_def split: sum.splits)
  from retryOnConflict_updateSecret [OF rt] show thesis
  proof
    assume "(\<exists>err. r1 = Inl err) \<and> w1 = w"
    with r failed show thesis by auto
  next
    assume u: "updateSecret c load kubeconfig remote name w = (r1, w1)"
    show thesis
    proof (cases rule: updateSecret_cases [OF u])
      case (1 err)
      with r failed [of err] show thesis by simp
    next
      case (2 old')
      have "m_Namespace (sec_meta old) = ''kube-bind''" using get_key [OF assms(4)] by (simp add: kubeBindKey_def keyOfMeta_def)
      then have "carries kubeconfig (updatedSecret kubeconfig old)" by (rule carries_updated)
      with updated 2 get_update [OF 2(4)] r assms(4) show thesis by simp
    qed
  qed
qed

lemma EnsureKubeconfigSecret_generated:
  assumes "EnsureKubeconfigSecret c load kubeconfig [] w = (r, w')" "ParseRemoteKubeconfig load kubeconfig = Inr remote"
  obtains (failed) err where "r = Inl err" "w' = w"
  | (created) s err where "r = Inr (s, True)" "carries kubeconfig s" "sget w (keyOfMeta (sec_meta s)) = Inl err"
      "\<And>k. sget w' k = (if k = keyOfMeta (sec_meta s) then Inr s else sget w k)"
proof -
  let ?s0 = "kubeconfigSecret [] kubeconfig"
  obtain r1 w1 where g: "bc_generateSecret c w ''kubeconfig-'' ?s0 = (r1, w1)" by fastforce
  with assms have r: "r = (case r1 of Inl err \<Rightarrow> Inl err | Inr s \<Rightarrow> Inr (s, True))" "w1 = w'"
    by (simp_all add: EnsureKubeconfigSecret_def split: sum.splits)
  show thesis
  proof (cases r1)
    case (Inl err)
    with r g generate_failed failed [of err] show thesis by simp
  next
    case (Inr s)
    note gs = g [unfolded Inr]
    from generate [OF gs] obtain err where
      s: "s = ?s0\<lparr>sec_meta := (sec_meta ?s0)\<lparr>m_Name := m_Name (sec_meta s)\<rparr>\<rparr>" "sget w (keyOfMeta (sec_meta s)) = Inl err" by blast
    have "carries kubeconfig s" by (subst s(1)) (simp add: carries_def kubeconfigSecret_def lookup_update)
    with created [of s err] get_generate [OF gs] s(2) r Inr show thesis by simp
  qed
qed

text \<open>The outcomes of a copy: an error and no change, a secret that is replaced, or a new secret.\<close>

lemma copyKubeconfig_cases:
  assumes "copyKubeconfig c load kubeconfig w = (r, w')"
  obtains (failed) err where "r = Inl err" "w' = w"
  | (updated) old s where "secretAt c w old" "remoteOf load old = remoteOf load s" "keyOfMeta (sec_meta s) = keyOfMeta (sec_meta old)"
      "r = Inr (s, False)" "carries kubeconfig s" "remoteOf load s \<noteq> None"
      "\<And>k. sget w' k = (if k = keyOfMeta (sec_meta s) then Inr s else sget w k)"
  | (created) s err where "r = Inr (s, True)" "carries kubeconfig s" "remoteOf load s \<noteq> None"
      "sget w (keyOfMeta (sec_meta s)) = Inl err" "\<And>s'. secretAt c w s' \<Longrightarrow> remoteOf load s' \<noteq> remoteOf load s"
      "\<And>k. sget w' k = (if k = keyOfMeta (sec_meta s) then Inr s else sget w k)"
proof (cases "ParseRemoteKubeconfig load kubeconfig")
  case (Inl err)
  with assms failed [of err] show thesis by (simp add: copyKubeconfig_def)
next
  case remote: (Inr remote)
  obtain host ns where hn: "remote = (host, ns)" by fastforce
  show thesis
  proof (cases "FindRemoteKubeconfig c load w ns host")
    case (Inl err)
    with assms remote hn failed [of err] show thesis by (simp add: copyKubeconfig_def)
  next
    case (Inr name)
    with assms remote hn have e: "EnsureKubeconfigSecret c load kubeconfig name w = (r, w')" by (simp add: copyKubeconfig_def)
    show thesis
    proof (cases rule: FindRemoteKubeconfig_cases [OF Inr])
      case (1 old)
      then have get: "sget w (kubeBindKey name) = Inr old" by (auto simp: kubeBindKey_def keyOfMeta_def secretAt_def)
      from e remote 1(3) get show thesis
      proof (rule EnsureKubeconfigSecret_existing)
        show thesis if "r = Inr (updatedSecret kubeconfig old, False)" "remoteOf load old = Some remote" "carries kubeconfig (updatedSecret kubeconfig old)"
          "\<And>k. sget w' k = (if k = keyOfMeta (sec_meta old) then Inr (updatedSecret kubeconfig old) else sget w k)"
          using updated [OF 1(1), of "updatedSecret kubeconfig old"] that carries_remoteOf [OF that(3) remote] by simp
      qed (rule failed)
    next
      case 2
      from e [unfolded 2(1)] remote show thesis
      proof (rule EnsureKubeconfigSecret_generated)
        show thesis if "r = Inr (s, True)" "carries kubeconfig s" "sget w (keyOfMeta (sec_meta s)) = Inl err"
          "\<And>k. sget w' k = (if k = keyOfMeta (sec_meta s) then Inr s else sget w k)" for s err
          using created [of s err] that carries_remoteOf [OF that(2) remote] 2(2) hn by simp
      qed (rule failed)
    qed
  qed
qed

lemma stored_onePerProvider:
  assumes "onePerProvider c load w" "\<And>k. sget w' k = (if k = keyOfMeta (sec_meta s) then Inr s else sget w k)"
    and "\<And>s'. secretAt c w s' \<Longrightarrow> remoteOf load s' = remoteOf load s \<Longrightarrow> keyOfMeta (sec_meta s') = keyOfMeta (sec_meta s)"
  shows "onePerProvider c load w'"
proof -
  have at: "s1 = s \<or> secretAt c w s1" if "secretAt c w' s1" for s1
    using that assms(2) [of "keyOfMeta (sec_meta s1)"] unfolding secretAt_def
    by (cases "keyOfMeta (sec_meta s1) = keyOfMeta (sec_meta s)") (simp_all only: if_True if_False simp_thms sum.inject)
  show ?thesis unfolding onePerProvider_def
  proof (intro allI impI)
    fix s1 s2
    assume a: "secretAt c w' s1" "secretAt c w' s2" "remoteOf load s1 \<noteq> None" "remoteOf load s1 = remoteOf load s2"
    from at [OF a(1)] at [OF a(2)] a assms(1,3) show "keyOfMeta (sec_meta s1) = keyOfMeta (sec_meta s2)"
      unfolding onePerProvider_def by metis
  qed
qed

lemma copyKubeconfig_onePerProvider:
  assumes "copyKubeconfig c load kubeconfig w = (r, w')" "onePerProvider c load w"
  shows "onePerProvider c load w'"
proof (cases rule: copyKubeconfig_cases [OF assms(1)])
  case (2 old s)
  from assms(2) 2(7) show ?thesis
  proof (rule stored_onePerProvider)
    show "keyOfMeta (sec_meta s') = keyOfMeta (sec_meta s)" if "secretAt c w s'" "remoteOf load s' = remoteOf load s" for s'
      using assms(2) that 2(1,2,3,6) unfolding onePerProvider_def by metis
  qed
next
  case (3 s err)
  from assms(2) 3(6) show ?thesis by (rule stored_onePerProvider) (use 3(5) in blast)
qed (use assms in simp)

lemma copyKubeconfig_post:
  assumes "copyKubeconfig c load kubeconfig w = (r, w')"
  shows "case r of
      Inl err \<Rightarrow> w' = w
    | Inr (s, created) \<Rightarrow> carries kubeconfig s \<and> sget w' (keyOfMeta (sec_meta s)) = Inr s \<and>
        (\<forall>k. k \<noteq> keyOfMeta (sec_meta s) \<longrightarrow> sget w' k = sget w k) \<and>
        (if created then (\<exists>err. sget w (keyOfMeta (sec_meta s)) = Inl err) \<and> (\<forall>s'. secretAt c w s' \<longrightarrow> remoteOf load s' \<noteq> remoteOf load s)
         else \<exists>old. sget w (keyOfMeta (sec_meta s)) = Inr old \<and> remoteOf load old = remoteOf load s)"
  by (cases rule: copyKubeconfig_cases [OF assms]) (auto simp: secretAt_def)

text \<open>A later copy for the same provider creates no other secret.\<close>

lemma copyKubeconfig_again:
  assumes "copyKubeconfig c load kubeconfig w = (Inr (s, created), w')" "copyKubeconfig c load kubeconfig' w' = (Inr (s', created'), w'')"
    and "remoteOf load s' = remoteOf load s"
  shows "\<not> created'"
proof -
  from copyKubeconfig_post [OF assms(1)] have "secretAt c w' s" by (simp add: secretAt_def carries_def)
  with copyKubeconfig_post [OF assms(2)] assms(3) show ?thesis by force
qed

lemma secretAt_frame: "(\<And>k. sget w' k = sget w k) \<Longrightarrow> secretAt c w' s \<longleftrightarrow> secretAt c w s"
  by (simp add: secretAt_def)

lemma createKubeconfigSecret_post:
  assumes "createKubeconfigSecret c load host ns kubeconfig w = (r, w')" "onePerProvider c load w"
    and "ParseRemoteKubeconfig load kubeconfig = Inr (host, ns)"
  shows "onePerProvider c load w'"
    and "r = Inr name \<Longrightarrow> \<exists>s. secretAt c w' s \<and> m_Name (sec_meta s) = name \<and> remoteOf load s = Some (host, ns)"
proof -
  obtain e w1 where n: "ac_create (bc_namespaces c) w \<lparr>ns_meta = emptyMeta\<lparr>m_Name := ''kube-bind''\<rparr>\<rparr> = (e, w1)" by fastforce
  then have one: "onePerProvider c load w1" using assms(2) by (simp add: onePerProvider_def secretAt_frame [OF namespaces])
  have "onePerProvider c load w' \<and> (r = Inr name \<longrightarrow> (\<exists>s. secretAt c w' s \<and> m_Name (sec_meta s) = name \<and> remoteOf load s = Some (host, ns)))"
  proof (cases "case e of Some err \<Rightarrow> \<not> IsAlreadyExists err | None \<Rightarrow> False")
    case True
    then have "r = Inl (the e) \<and> w' = w1" using assms(1) n by (auto simp: createKubeconfigSecret_def Let_def split: option.splits)
    with one show ?thesis by simp
  next
    case ok: False
    show ?thesis
    proof (cases "FindRemoteKubeconfig c load w1 ns host")
      case (Inl err)
      with assms(1) n ok have "r = Inl err \<and> w' = w1" by (auto simp: createKubeconfigSecret_def Let_def split: option.splits)
      with one show ?thesis by simp
    next
      case (Inr found)
      show ?thesis
      proof (cases rule: FindRemoteKubeconfig_cases [OF Inr])
        case (1 s)
        with assms(1) n ok Inr have "r = Inr found \<and> w' = w1" by (auto simp: createKubeconfigSecret_def Let_def split: option.splits)
        with one 1 show ?thesis by auto
      next
        case 2
        obtain r1 w2 where e: "EnsureKubeconfigSecret c load kubeconfig [] w1 = (r1, w2)" by fastforce
        with assms(1,3) n ok Inr 2(1)
        have r: "r = (case r1 of Inl err \<Rightarrow> Inl err | Inr (s, created) \<Rightarrow> Inr (m_Name (sec_meta s)))" "w2 = w'"
          by (auto simp: createKubeconfigSecret_def Let_def split: option.splits sum.splits)
        from e assms(3) show ?thesis
        proof (rule EnsureKubeconfigSecret_generated)
          show ?thesis if "r1 = Inl err" "w2 = w1" for err using that r one by simp
          show ?thesis if s: "r1 = Inr (s, True)" "carries kubeconfig s" "sget w1 (keyOfMeta (sec_meta s)) = Inl err"
            "\<And>k. sget w2 k = (if k = keyOfMeta (sec_meta s) then Inr s else sget w1 k)" for s err
          proof -
            have rem: "remoteOf load s = Some (host, ns)" by (rule carries_remoteOf [OF s(2) assms(3)])
            have "onePerProvider c load w2" by (rule stored_onePerProvider [OF one s(4)]) (use 2(2) rem in auto)
            moreover have "secretAt c w2 s" using s(2,4) by (simp add: secretAt_def carries_def)
            ultimately show ?thesis using r rem s(1) by auto
          qed
        qed
      qed
    qed
  qed
  then show "onePerProvider c load w'"
    and "r = Inr name \<Longrightarrow> \<exists>s. secretAt c w' s \<and> m_Name (sec_meta s) = name \<and> remoteOf load s = Some (host, ns)" by blast+
qed

end

text \<open>Secrets in a list; \<open>gen\<close> gives the suffix of a generated name, and all other calls are those of \<open>base\<close>.\<close>

record cli_cluster =
  ca_secrets :: "Secret list"
  ca_namespaces :: "Namespace list"

definition namedOnly :: "('o \<Rightarrow> ObjectMeta) \<Rightarrow> ('o, 'w) access \<Rightarrow> ('o, 'w) access" where
  "namedOnly meta ac =
     \<lparr>ac_get = (\<lambda>w k. if nn_Name k = [] then Inl (PlainError ''resource name may not be empty'') else ac_get ac w k),
      ac_create = (\<lambda>w ob. if m_Name (meta ob) = [] then (Some (StatusError ReasonInvalid ''name or generateName is required''), w) else ac_create ac w ob),
      ac_update = (\<lambda>w ob. if m_Name (meta ob) = [] then (Some (PlainError ''resource name may not be empty''), w) else ac_update ac w ob)\<rparr>"

definition clusterSecrets :: "(Secret, cli_cluster) access" where
  "clusterSecrets = namedOnly sec_meta (listAccess sec_meta ca_secrets (\<lambda>f w. w\<lparr>ca_secrets := f (ca_secrets w)\<rparr>))"

definition generateIn :: "(cli_cluster \<Rightarrow> string) \<Rightarrow> cli_cluster \<Rightarrow> string \<Rightarrow> Secret \<Rightarrow> Secret result \<times> cli_cluster" where
  "generateIn gen w p s =
     (let s' = s\<lparr>sec_meta := (sec_meta s)\<lparr>m_Name := p @ gen w\<rparr>\<rparr>
      in case ac_create clusterSecrets w s' of (Some err, w1) \<Rightarrow> (Inl err, w1) | (None, w1) \<Rightarrow> (Inr s', w1))"

definition cliCluster :: "(cli_cluster \<Rightarrow> string) \<Rightarrow> cli_cluster bind_client \<Rightarrow> cli_cluster bind_client" where
  "cliCluster gen base =
     base\<lparr>bc_secrets := clusterSecrets, bc_generateSecret := generateIn gen,
       bc_listSecrets := (\<lambda>w ns. Inr (filter (\<lambda>s. m_Namespace (sec_meta s) = ns \<and> ac_get clusterSecrets w (keyOfMeta (sec_meta s)) = Inr s) (ca_secrets w))),
       bc_namespaces := listAccess ns_meta ca_namespaces (\<lambda>f w. w\<lparr>ca_namespaces := f (ca_namespaces w)\<rparr>)\<rparr>"

context strict_store
begin

lemma namedOnly_strict: "strict_store meta (namedOnly meta ac)"
  by unfold_locales (use get_key get_create get_update create_exists create_failed in
    \<open>auto simp: namedOnly_def keyOfMeta_def split: if_splits\<close>)

end

lemma clusterSecrets_strict: "strict_store sec_meta clusterSecrets"
  unfolding clusterSecrets_def by (rule strict_store.namedOnly_strict) (rule listAccess_strict, simp)

lemma clusterSecrets_get:
  "ac_get clusterSecrets w k = Inr s \<Longrightarrow> nn_Name k \<noteq> [] \<and> s \<in> set (ca_secrets w)"
  by (auto simp: clusterSecrets_def namedOnly_def listAccess_def listGet_def find_Some_iff split: if_splits option.splits)

lemma clusterSecrets_create:
  "ac_create clusterSecrets w s = (None, w') \<Longrightarrow> \<exists>err. ac_get clusterSecrets w (keyOfMeta (sec_meta s)) = Inl err"
  by (auto simp: clusterSecrets_def namedOnly_def listAccess_def keyOfMeta_def split: if_splits sum.splits)

lemma clusterSecrets_update: "ac_update clusterSecrets w s = (Some err, w') \<Longrightarrow> w' = w"
  by (auto simp: clusterSecrets_def namedOnly_def listAccess_def split: if_splits sum.splits)

lemma clusterSecrets_frame: "ac_get clusterSecrets (w\<lparr>ca_namespaces := ns\<rparr>) k = ac_get clusterSecrets w k"
  by (simp add: clusterSecrets_def namedOnly_def listAccess_def)

interpretation cli_cluster: kubeconfig_secrets "cliCluster gen base" for gen base
proof -
  have get_create: "ac_get clusterSecrets w' k = (if k = keyOfMeta (sec_meta s) then Inr s else ac_get clusterSecrets w k)"
    if "ac_create clusterSecrets w s = (None, w')" for w s w' k
    using that clusterSecrets_strict by (auto simp: strict_store_def object_store_def)
  have create_failed: "w' = w" if "ac_create clusterSecrets w s = (Some err, w')" for w s w' err
    using that clusterSecrets_strict by (auto simp: strict_store_def strict_store_axioms_def)
  show "kubeconfig_secrets (cliCluster gen base)"
    unfolding kubeconfig_secrets_def kubeconfig_secrets_axioms_def
  proof (intro conjI allI impI)
    show "strict_store sec_meta (bc_secrets (cliCluster gen base))" using clusterSecrets_strict by (simp add: cliCluster_def)
    show "ac_get (bc_secrets (cliCluster gen base)) w' k = ac_get (bc_secrets (cliCluster gen base)) w k"
      if "ac_create (bc_namespaces (cliCluster gen base)) w n = (e, w')" for w n e w' k
      using that by (auto simp: cliCluster_def listAccess_def clusterSecrets_frame split: sum.splits)
  qed (use clusterSecrets_update clusterSecrets_get clusterSecrets_create get_create create_failed in
      \<open>auto simp: cliCluster_def generateIn_def Let_def split: prod.splits option.splits\<close>)
qed

text \<open>
  C15: the consumer cluster keeps one secret per provider. Copying a kubeconfig keeps at most one secret per host
  and namespace; if it fails, it changes nothing; otherwise the secret it returns is stored in \<open>kube-bind\<close> with the
  kubeconfig and the label, no other secret has changed, and a secret is created exactly when there was none for
  the provider: a secret that is overwritten was for the same host and namespace.
\<close>

theorem one_secret_per_provider:
  assumes "kubeconfig_secrets c" "copyKubeconfig c load kubeconfig w = (r, w')"
  shows "(onePerProvider c load w \<longrightarrow> onePerProvider c load w') \<and>
    (case r of
       Inl err \<Rightarrow> w' = w
     | Inr (s, created) \<Rightarrow> carries kubeconfig s \<and> ac_get (bc_secrets c) w' (keyOfMeta (sec_meta s)) = Inr s \<and>
         (\<forall>k. k \<noteq> keyOfMeta (sec_meta s) \<longrightarrow> ac_get (bc_secrets c) w' k = ac_get (bc_secrets c) w k) \<and>
         (if created then (\<exists>err. ac_get (bc_secrets c) w (keyOfMeta (sec_meta s)) = Inl err) \<and>
            (\<forall>s'. secretAt c w s' \<longrightarrow> remoteOf load s' \<noteq> remoteOf load s)
          else \<exists>old. ac_get (bc_secrets c) w (keyOfMeta (sec_meta s)) = Inr old \<and> remoteOf load old = remoteOf load s))"
  using kubeconfig_secrets.copyKubeconfig_onePerProvider [OF assms] kubeconfig_secrets.copyKubeconfig_post [OF assms] by blast

text \<open>Two copies of kubeconfigs with one host and one namespace into an empty cluster: one secret.\<close>

definition exampleRemote :: remote_kubeconfig where
  "exampleRemote = \<lparr>rk_Contexts = Mapping.update ''d'' \<lparr>rx_Cluster = ''d'', rx_Namespace = ''kube-bind-abc''\<rparr> Mapping.empty,
     rk_Clusters = Mapping.update ''d'' ''https://provider'' Mapping.empty, rk_CurrentContext = ''d''\<rparr>"

definition loadExample :: "string \<Rightarrow> remote_kubeconfig result" where
  "loadExample kubeconfig = (if kubeconfig \<in> {''one'', ''two''} then Inr exampleRemote else Inl (PlainError ''yaml''))"

definition exampleConsumerCluster :: "cli_cluster bind_client \<Rightarrow> cli_cluster bind_client" where
  "exampleConsumerCluster base = cliCluster (\<lambda>w. replicate (Suc (length (ca_secrets w))) (CHR ''x'')) base"

lemma exampleConsumerCluster_copies:
  assumes "w0 = \<lparr>ca_secrets = [], ca_namespaces = []\<rparr>"
  shows "copyKubeconfig (exampleConsumerCluster base) loadExample ''one'' w0 =
      (Inr (kubeconfigSecret ''kubeconfig-x'' ''one'', True), w0\<lparr>ca_secrets := [kubeconfigSecret ''kubeconfig-x'' ''one'']\<rparr>)"
    and "copyKubeconfig (exampleConsumerCluster base) loadExample ''two'' (w0\<lparr>ca_secrets := [kubeconfigSecret ''kubeconfig-x'' ''one'']\<rparr>) =
      (Inr (kubeconfigSecret ''kubeconfig-x'' ''two'', False), w0\<lparr>ca_secrets := [kubeconfigSecret ''kubeconfig-x'' ''two'']\<rparr>)"
proof -
  note defs = copyKubeconfig_def FindRemoteKubeconfig_def EnsureKubeconfigSecret_def updateSecret_def exampleConsumerCluster_def cliCluster_def
    generateIn_def clusterSecrets_def namedOnly_def listAccess_def listGet_def kubeconfigSecret_def updatedSecret_def keyOfMeta_def kubeBindKey_def
    emptyMeta_def lookup_update Let_def
  have parse: "ParseRemoteKubeconfig loadExample k = (if k \<in> {''one'', ''two''} then Inr (''https://provider'', ''kube-bind-abc'') else Inl (PlainError ''yaml''))" for k
    by (simp add: ParseRemoteKubeconfig_def loadExample_def exampleRemote_def lookup_update)
  show "copyKubeconfig (exampleConsumerCluster base) loadExample ''one'' w0 =
      (Inr (kubeconfigSecret ''kubeconfig-x'' ''one'', True), w0\<lparr>ca_secrets := [kubeconfigSecret ''kubeconfig-x'' ''one'']\<rparr>)"
    using assms by (simp add: parse defs)
  show "copyKubeconfig (exampleConsumerCluster base) loadExample ''two'' (w0\<lparr>ca_secrets := [kubeconfigSecret ''kubeconfig-x'' ''one'']\<rparr>) =
      (Inr (kubeconfigSecret ''kubeconfig-x'' ''two'', False), w0\<lparr>ca_secrets := [kubeconfigSecret ''kubeconfig-x'' ''two'']\<rparr>)"
    using assms by (simp add: parse defs DefaultRetrySteps_def numeral_eq_Suc update_update)
qed

definition idleBind :: "cli_cluster bind_client" where
  "idleBind =
     \<lparr>bc_namespaces = listAccess ns_meta ca_namespaces (\<lambda>f w. w\<lparr>ca_namespaces := f (ca_namespaces w)\<rparr>), bc_secrets = clusterSecrets,
      bc_listSecrets = (\<lambda>w ns. Inr []), bc_generateSecret = (\<lambda>w p s. (Inl notFound, w)),
      bc_bindings = \<lparr>ac_get = (\<lambda>w k. Inl notFound), ac_create = (\<lambda>w b. (None, w)), ac_update = (\<lambda>w b. (None, w))\<rparr>,
      bc_updateBindingStatus = (\<lambda>w b. (None, w)), bc_listBindings = (\<lambda>w. None), bc_getCRD = (\<lambda>w n. Inl notFound),
      bc_getDeployment = (\<lambda>w ns n. Inl notFound), bc_getObject = (\<lambda>w ob. None), bc_createObject = (\<lambda>w ob. (None, w)),
      bc_updateObject = (\<lambda>w ob. (None, w)), bc_createRequest = (\<lambda>w ns p req. (Inr req, w)), bc_getRequest = (\<lambda>w k. Inl notFound),
      bc_tick = (\<lambda>w. (Some (PlainError ''context deadline exceeded''), w))\<rparr>"

theorem one_secret_per_provider_witness:
  "\<exists>w1 w2 s. copyKubeconfig (exampleConsumerCluster idleBind) loadExample ''one'' \<lparr>ca_secrets = [], ca_namespaces = []\<rparr> = (Inr (kubeconfigSecret ''kubeconfig-x'' ''one'', True), w1) \<and>
     copyKubeconfig (exampleConsumerCluster idleBind) loadExample ''two'' w1 = (Inr (s, False), w2) \<and>
     onePerProvider (exampleConsumerCluster idleBind) loadExample w2 \<and> carries ''two'' s \<and> ca_secrets w2 = [s]"
proof -
  let ?c = "exampleConsumerCluster idleBind" and ?w0 = "\<lparr>ca_secrets = [], ca_namespaces = []\<rparr>"
  note copies = exampleConsumerCluster_copies [OF refl, where base = idleBind]
  have c: "kubeconfig_secrets ?c" unfolding exampleConsumerCluster_def by (rule cli_cluster.kubeconfig_secrets_axioms)
  have "onePerProvider ?c loadExample ?w0"
    by (simp add: onePerProvider_def secretAt_def exampleConsumerCluster_def cliCluster_def clusterSecrets_def namedOnly_def listAccess_def listGet_def)
  with one_secret_per_provider [OF c copies(1)] one_secret_per_provider [OF c copies(2)] copies show ?thesis by auto
qed

section \<open>What the commands never do\<close>

text \<open>
  A binding that is returned is for the secret of the provider; a binding of the same name for another
  provider is an error, and then nothing is written.
\<close>

lemma createAPIServiceBindings_secret:
  assumes "createAPIServiceBindings c now request secretName w = (Inr bindings, w')" "b \<in> set bindings"
  shows "ck_Name (bds_KubeconfigSecretRef (bd_Spec b)) = secretName" "ck_Namespace (bds_KubeconfigSecretRef (bd_Spec b)) = ''kube-bind''"
  using assms
  by (auto simp: createAPIServiceBindings_def Let_def newServiceBinding_def MarkFalse_def split: sum.splits if_splits option.splits prod.splits)

lemma createAPIServiceBindings_other_provider:
  assumes "ac_get (bc_bindings c) w \<lparr>nn_Namespace = [], nn_Name = m_Name (rq_meta request)\<rparr> = Inr existing"
    and "ck_Name (bds_KubeconfigSecretRef (bd_Spec existing)) \<noteq> secretName"
  shows "\<exists>err. createAPIServiceBindings c now request secretName w = (Inl err, w)"
  using assms by (simp add: createAPIServiceBindings_def Let_def)

text \<open>A request without a result is never dereferenced: the wait ends without an error only when there is one.\<close>

lemma createServiceExportRequest_succeeded:
  assumes "createServiceExportRequest c ns request w = Some (Inr result, w')"
  shows "\<exists>req. result = Some req \<and> rqt_Phase (rq_Status req) = APIServiceExportRequestPhaseSucceeded"
proof -
  obtain key w1 s where p: "pollUntil (cli_requestReady c key) (cli_waitTick c) \<lparr>cw_world = w1, cw_result = None\<rparr> = Some (None, s)"
    "result = cw_result s" using assms by (auto simp: createServiceExportRequest_def split: sum.splits prod.splits option.splits)
  from pollUntil_ready [OF p(1)] obtain s0 where "cli_requestReady c key s0 = (Inr True, s)" by blast
  then show ?thesis using p(2) by (auto simp: cli_requestReady_def split: sum.splits if_splits)
qed

text \<open>
  An alias without a colon makes the completion of the options panic, though the validation that would
  follow has an error for it; where the validation has none, all aliases are parsed.
\<close>

lemma completeHostAliases_panics:
  assumes "a \<in> set aliases" "CHR '':'' \<notin> set a"
  shows "(\<exists>msg. completeHostAliases aliases = Panic msg) \<and> (\<exists>err. validateHostAliases aliases = Some err)"
proof -
  have "length (splitAlias a) = 1" using assms(2) by (simp add: splitAlias_def SplitN_def SplitN1_none)
  with assms(1) show ?thesis by (induction aliases) (auto simp: Let_def split: outcome.splits)
qed

lemma validateHostAliases_completes:
  "validateHostAliases aliases = None \<Longrightarrow> \<exists>parsed. completeHostAliases aliases = Returns parsed \<and> parsed = deployHostAliases aliases"
  by (induction aliases) (auto simp: Let_def deployHostAliases_def split: if_splits)

text \<open>The namespace option is lost: binding from a file fails for a kubeconfig without a namespace, whatever the option says.\<close>

lemma remote_namespace_lost:
  "binder_getRemoteKubeconfig c bl (opts\<lparr>bo_RemoteNamespace := ns\<rparr>) = binder_getRemoteKubeconfig c bl opts"
  by (simp add: binder_getRemoteKubeconfig_def)

text \<open>A dry run writes the secret all the same.\<close>

lemma dry_run_writes:
  assumes "bo_DryRun opts" "brr_Authentication resp \<noteq> None" "ensureClientSideNamespaceExists c w = (None, w1)"
    and "copyKubeconfig c (bl_Load bl) (brr_Kubeconfig resp) w1 = (Inr (s, created), w2)"
  shows "BindFromResponse c bl parseSemver compareSemver gitVersion opts now (Some resp) w = Returns (Some (Inr [], w2))"
  using assms by (simp add: BindFromResponse_def Let_def)

end
