(* ===== verification/Backend_Options.thy ===== *)
theory Backend_Options
  imports Http_Api Kcp_Provider
begin

text \<open>
  The start of the backend and of the konnector (\<open>src/backend/options\<close>, \<open>src/backend/oidc\<close>, \<open>src/backend/server.go\<close>,
  \<open>src/pkg/konnector/options\<close>): how the options are completed and validated, the embedded OpenID provider,
  which controllers the backend sets up, and the lazy initialisation of the OpenID client. The lemmas show
  that accepted options are well formed, and which options are never accepted.
\<close>

section \<open>Options of the backend\<close>

text \<open>
  What the options are completed with: the environment, the listener of an address, files, the random keys
  of the cookies, base64, the parser of URLs, and the library of the embedded provider, which gets a TLS
  configuration, a listener and an address and gives the client and its secret. A TLS configuration is the
  text of its CA.
\<close>

record start_env =
  se_getenv :: "string \<Rightarrow> string"
  se_listen :: "string \<Rightarrow> string result"
  se_readFile :: "string \<Rightarrow> string result"
  se_appendCerts :: "string \<Rightarrow> bool"
  se_randomKey :: "nat \<Rightarrow> string"
  se_encode64 :: "string \<Rightarrow> string"
  se_decode64 :: "string \<Rightarrow> string result"
  se_parseURL :: "string \<Rightarrow> URL result"
  se_mockOIDC :: "string option \<Rightarrow> string option \<Rightarrow> string \<Rightarrow> (string \<times> string) result"
  se_durationString :: "duration \<Rightarrow> string"

record oidc_Server =
  os_tlsConfig :: "string option"
  os_ClientID :: string
  os_ClientSecret :: string

record OIDC =
  oi_Type :: string
  oi_IssuerClientID :: string
  oi_IssuerClientSecret :: string
  oi_IssuerURL :: string
  oi_CallbackURL :: string
  oi_AuthorizeURL :: string
  oi_CAFile :: string
  oi_TLSConfig :: "string option"
  oi_OIDCServer :: "oidc_Server option"
  oi_AllowedGroups :: "string list"
  oi_AllowedUsers :: "string list"

record CookieOptions =
  ko_SigningKey :: string
  ko_EncryptionKey :: string

record Serve =
  so_ListenIP :: string
  so_ListenPort :: int
  so_ListenAddress :: string
  so_CertFile :: string
  so_KeyFile :: string
  so_Listener :: "string option"

record RedisOptions =
  ro_Address :: string
  ro_Password :: string

record KcpOptions =
  kp_APIExportEndpointSliceName :: string
  kp_APIBindingIgnorePrefixes :: "string list"

record BackendOptions =
  be_OIDC :: OIDC
  be_Cookie :: CookieOptions
  be_Serve :: Serve
  be_Redis :: RedisOptions
  be_ProviderKcp :: KcpOptions
  be_CompletedKcp :: "KcpOptions option"
  be_Provider :: string
  be_NamespacePrefix :: string
  be_PrettyName :: string
  be_ConsumerScope :: string
  be_Isolation :: string
  be_ExternalAddress :: string
  be_ExternalCAFile :: string
  be_ExternalCA :: "string option"
  be_SchemaSource :: string
  be_Frontend :: string
  be_FrontendDisabled :: bool
  be_TokenExpiry :: duration
  be_SchemaSyncInterval :: duration
  be_KonnectorHostAlias :: "string list"

abbreviation OIDCProviderTypeEmbedded :: string where "OIDCProviderTypeEmbedded \<equiv> ''embedded''"
abbreviation OIDCProviderTypeExternal :: string where "OIDCProviderTypeExternal \<equiv> ''external''"

definition KCPAPIResourceSchemaSource :: string where
  "KCPAPIResourceSchemaSource = ''APIResourceSchema.v1alpha1.apis.kcp.io''"

definition CustomResourceDefinitionSource :: string where
  "CustomResourceDefinitionSource = ''CustomResourceDefinition.v1.apiextensions.k8s.io''"

definition NewBackendOptions :: BackendOptions where
  "NewBackendOptions =
     \<lparr>be_OIDC = \<lparr>oi_Type = OIDCProviderTypeExternal, oi_IssuerClientID = [], oi_IssuerClientSecret = [], oi_IssuerURL = [], oi_CallbackURL = [],
        oi_AuthorizeURL = [], oi_CAFile = [], oi_TLSConfig = None, oi_OIDCServer = None, oi_AllowedGroups = [], oi_AllowedUsers = []\<rparr>,
      be_Cookie = \<lparr>ko_SigningKey = [], ko_EncryptionKey = []\<rparr>,
      be_Serve = \<lparr>so_ListenIP = [], so_ListenPort = 0, so_ListenAddress = ''127.0.0.1:8080'', so_CertFile = [], so_KeyFile = [], so_Listener = None\<rparr>,
      be_Redis = \<lparr>ro_Address = [], ro_Password = []\<rparr>,
      be_ProviderKcp = \<lparr>kp_APIExportEndpointSliceName = ''kube-bind.io'', kp_APIBindingIgnorePrefixes = [''kube-bind.io'', ''tenancy.kcp.io'', ''topology.kcp.io'']\<rparr>,
      be_CompletedKcp = None, be_Provider = ''kubernetes'', be_NamespacePrefix = ''cluster-'', be_PrettyName = ''Backend'',
      be_ConsumerScope = NamespacedScope, be_Isolation = IsolationPrefixed, be_ExternalAddress = [], be_ExternalCAFile = [], be_ExternalCA = None,
      be_SchemaSource = CustomResourceDefinitionSource, be_Frontend = ''embedded'', be_FrontendDisabled = False, be_TokenExpiry = 60 * Minute,
      be_SchemaSyncInterval = 5 * Minute, be_KonnectorHostAlias = []\<rparr>"

section \<open>The embedded OpenID provider\<close>

definition LoadTLSConfig :: "start_env \<Rightarrow> string \<Rightarrow> string result" where
  "LoadTLSConfig env caFile =
     (case se_readFile env caFile of
        Inl err \<Rightarrow> Inl (wrapError ''failed to read CA file'' err)
      | Inr caCert \<Rightarrow> if se_appendCerts env caCert then Inr caCert else Inl (PlainError ''failed to append CA certs from PEM''))"

definition ensureOfflineAccessScope :: "string list \<Rightarrow> string list" where
  "ensureOfflineAccessScope scopesSupported =
     (if ''offline_access'' \<in> set scopesSupported then scopesSupported else scopesSupported @ [''offline_access''])"

text \<open>The TLS configuration that is loaded is kept for the clients; the provider itself is started without one.\<close>

definition oidc_New :: "start_env \<Rightarrow> string \<Rightarrow> string option \<Rightarrow> string \<Rightarrow> oidc_Server result" where
  "oidc_New env caBundleFile listener addrOverride =
     (let server = (\<lambda>tls. case se_mockOIDC env None listener addrOverride of
            Inl err \<Rightarrow> Inl (wrapError ''failed to create mock OIDC server'' err)
          | Inr (clientID, clientSecret) \<Rightarrow> Inr \<lparr>os_tlsConfig = tls, os_ClientID = clientID, os_ClientSecret = clientSecret\<rparr>)
      in if caBundleFile \<noteq> []
         then (case LoadTLSConfig env caBundleFile of
             Inl err \<Rightarrow> Inl (wrapError ''failed to load CA bundle file'' err) | Inr tlsConfig \<Rightarrow> server (Some tlsConfig))
         else server None)"

section \<open>Completion\<close>

definition JoinHostPort :: "string \<Rightarrow> string \<Rightarrow> string" where
  "JoinHostPort host port = (if CHR '':'' \<in> set host then ''['' @ host @ '']:'' @ port else host @ '':'' @ port)"

definition Serve_Complete :: "start_env \<Rightarrow> Serve \<Rightarrow> Serve result" where
  "Serve_Complete env s =
     (case so_Listener s of
        Some _ \<Rightarrow> Inr s
      | None \<Rightarrow>
          (case se_listen env (if so_ListenIP s \<noteq> [] then JoinHostPort (so_ListenIP s) (Itoa (so_ListenPort s)) else so_ListenAddress s) of
             Inl err \<Rightarrow> Inl err | Inr listener \<Rightarrow> Inr (s\<lparr>so_Listener := Some listener\<rparr>)))"

definition embedOIDC :: "start_env \<Rightarrow> string option \<Rightarrow> OIDC \<Rightarrow> OIDC result" where
  "embedOIDC env listener oi =
     (case oidc_New env (oi_CAFile oi) listener (oi_IssuerURL oi) of
        Inl err \<Rightarrow> Inl err
      | Inr server \<Rightarrow>
          Inr (oi\<lparr>oi_OIDCServer := Some server, oi_TLSConfig := os_tlsConfig server, oi_IssuerClientID := os_ClientID server,
                 oi_IssuerClientSecret := os_ClientSecret server, oi_AllowedGroups := oi_AllowedGroups oi @ [''system:authenticated'']\<rparr>))"

definition OIDC_Complete :: "start_env \<Rightarrow> string option \<Rightarrow> OIDC \<Rightarrow> OIDC result" where
  "OIDC_Complete env listener oi =
     (case (if oi_Type oi = OIDCProviderTypeEmbedded then embedOIDC env listener oi else Inr oi) of
        Inl err \<Rightarrow> Inl err
      | Inr oi1 \<Rightarrow>
          let secret = se_getenv env ''OIDC_CLIENT_SECRET'';
              oi2 = (if secret \<noteq> [] then oi1\<lparr>oi_IssuerClientSecret := secret\<rparr> else oi1)
          in if oi_CAFile oi2 \<noteq> []
             then (case LoadTLSConfig env (oi_CAFile oi2) of
                 Inl err \<Rightarrow> Inl (wrapError ''failed to load OIDC CA file'' err) | Inr tlsConfig \<Rightarrow> Inr (oi2\<lparr>oi_TLSConfig := Some tlsConfig\<rparr>))
             else Inr oi2)"

definition Cookie_Complete :: "start_env \<Rightarrow> CookieOptions \<Rightarrow> CookieOptions" where
  "Cookie_Complete env ko =
     (let ko1 = (if ko_SigningKey ko = [] then ko\<lparr>ko_SigningKey := se_encode64 env (se_randomKey env 0)\<rparr> else ko)
      in if ko_EncryptionKey ko1 = [] then ko1\<lparr>ko_EncryptionKey := se_encode64 env (se_randomKey env 1)\<rparr> else ko1)"

definition Redis_Complete :: "start_env \<Rightarrow> RedisOptions \<Rightarrow> RedisOptions" where
  "Redis_Complete env ro = (let pwd = se_getenv env ''REDIS_PASSWORD'' in if pwd \<noteq> [] then ro\<lparr>ro_Password := pwd\<rparr> else ro)"

definition normalizeScope :: "string \<Rightarrow> string" where
  "normalizeScope scope =
     (let scope1 = (if map lowerChar scope = ''namespaced'' then NamespacedScope else scope)
      in if map lowerChar scope1 = ''cluster'' then ClusterScope else scope1)"

definition normalizeIsolation :: "string \<Rightarrow> string" where
  "normalizeIsolation isolation =
     (if map lowerChar isolation = ''prefixed'' then IsolationPrefixed
      else if map lowerChar isolation = ''namespaced'' then IsolationNamespaced
      else if map lowerChar isolation = ''none'' then IsolationNone
      else IsolationNone)"

definition completeFrontend :: "start_env \<Rightarrow> BackendOptions \<Rightarrow> BackendOptions result" where
  "completeFrontend env opts =
     (if be_FrontendDisabled opts then Inr opts
      else (case OIDC_Complete env (so_Listener (be_Serve opts)) (be_OIDC opts) of
          Inl err \<Rightarrow> Inl err
        | Inr oi \<Rightarrow> Inr (opts\<lparr>be_OIDC := oi, be_Cookie := Cookie_Complete env (be_Cookie opts), be_Redis := Redis_Complete env (be_Redis opts)\<rparr>)))"

definition readExternalCA :: "start_env \<Rightarrow> BackendOptions \<Rightarrow> BackendOptions result" where
  "readExternalCA env opts =
     (if be_ExternalCAFile opts \<noteq> [] \<and> be_ExternalCA opts \<noteq> None
      then Inl (PlainError ''cannot specify both --external-ca-file and set ExternalCA'')
      else if be_ExternalCAFile opts \<noteq> []
      then (case se_readFile env (be_ExternalCAFile opts) of
          Inl err \<Rightarrow> Inl (PlainError (''error reading external CA file: '' @ ErrorString err))
        | Inr ca \<Rightarrow> Inr (opts\<lparr>be_ExternalCA := Some ca\<rparr>))
      else Inr opts)"

definition Backend_Complete :: "start_env \<Rightarrow> BackendOptions \<Rightarrow> BackendOptions result" where
  "Backend_Complete env opts =
     (case Serve_Complete env (be_Serve opts) of
        Inl err \<Rightarrow> Inl err
      | Inr serveOptions \<Rightarrow>
          (case completeFrontend env (opts\<lparr>be_Serve := serveOptions\<rparr>) of
             Inl err \<Rightarrow> Inl err
           | Inr opts1 \<Rightarrow>
               (case readExternalCA env (opts1\<lparr>be_ConsumerScope := normalizeScope (be_ConsumerScope opts1),
                       be_Isolation := normalizeIsolation (be_Isolation opts1)\<rparr>) of
                  Inl err \<Rightarrow> Inl err
                | Inr opts2 \<Rightarrow> Inr (opts2\<lparr>be_CompletedKcp := (if be_Provider opts2 = ''kcp'' then Some (be_ProviderKcp opts2) else None)\<rparr>))))"

section \<open>Validation\<close>

definition Serve_Validate :: "Serve \<Rightarrow> error option" where
  "Serve_Validate s =
     (if so_ListenIP s = [] \<and> so_ListenAddress s = [] then Some (PlainError ''either listen-ip or listen-address must be provided'')
      else if so_CertFile s = [] \<and> so_KeyFile s \<noteq> [] then Some (PlainError ''TLS key file cannot be specified without TLS cert file'')
      else if so_CertFile s \<noteq> [] \<and> so_KeyFile s = [] then Some (PlainError ''TLS cert file cannot be specified without TLS key file'')
      else None)"

definition checkURL :: "start_env \<Rightarrow> string \<Rightarrow> string \<Rightarrow> URL result" where
  "checkURL env flag s =
     (case se_parseURL env s of
        Inl err \<Rightarrow> Inl (wrapError (flag @ '' must be a valid URL'') err)
      | Inr u \<Rightarrow>
          if url_Scheme u \<noteq> ''http'' \<and> url_Scheme u \<noteq> ''https''
          then Inl (PlainError (flag @ '' must use http or https scheme, got: '' @ url_Scheme u)) else Inr u)"

definition OIDC_Validate :: "start_env \<Rightarrow> OIDC \<Rightarrow> error option" where
  "OIDC_Validate env oi =
     (if oi_IssuerClientID oi = [] then Some (PlainError ''OIDC issuer client ID cannot be empty'')
      else if se_getenv env ''OIDC_CLIENT_SECRET'' \<noteq> [] \<and> oi_Type oi = OIDCProviderTypeEmbedded
      then Some (PlainError ''OIDC issuer client secret cannot be provided via environment variable when using embedded OIDC provider'')
      else if oi_IssuerURL oi = [] then Some (PlainError ''OIDC issuer URL cannot be empty'')
      else if oi_CallbackURL oi = [] then Some (PlainError ''OIDC callback URL cannot be empty'')
      else if oi_CAFile oi \<noteq> [] \<and> oi_TLSConfig oi \<noteq> None then Some (PlainError ''cannot use both CA file and embedded OIDC server'')
      else if oi_Type oi \<noteq> OIDCProviderTypeEmbedded \<and> oi_Type oi \<noteq> OIDCProviderTypeExternal
      then Some (PlainError (''invalid OIDC provider type: '' @ oi_Type oi))
      else (case checkURL env ''--oidc-issuer-url'' (oi_IssuerURL oi) of
          Inl err \<Rightarrow> Some err
        | Inr _ \<Rightarrow>
            (case checkURL env ''--oidc-callback-url'' (oi_CallbackURL oi) of
               Inl err \<Rightarrow> Some err
             | Inr callbackURL \<Rightarrow>
                 if \<not> HasSuffix (url_Path callbackURL) ''/api/callback''
                 then Some (PlainError (''--oidc-callback-url must end with '' @ [CHR 0x27] @ ''/api/callback'' @ [CHR 0x27] @ '', got path: '' @ url_Path callbackURL))
                 else if oi_Type oi = OIDCProviderTypeEmbedded \<and> \<not> HasSuffix (oi_IssuerURL oi) ''/oidc''
                 then Some (PlainError (''--oidc-issuer-url must end with '' @ [CHR 0x27] @ ''/oidc'' @ [CHR 0x27] @ '' when using embedded OIDC provider''))
                 else if oi_Type oi = OIDCProviderTypeExternal \<and> oi_AllowedGroups oi = [] \<and> oi_AllowedUsers oi = []
                 then Some (PlainError ''when using external OIDC provider, at least one of allowed groups or allowed users must be specified'')
                 else None)))"

definition checkKey :: "start_env \<Rightarrow> string \<Rightarrow> nat list \<Rightarrow> error option" where
  "checkKey env key validLengths =
     (case se_decode64 env key of
        Inl err \<Rightarrow> Some err
      | Inr b \<Rightarrow> if length b \<in> set validLengths then None else Some (PlainError (''invalid key length: '' @ Itoa (int (length b)))))"

text \<open>The second check is of the signing key again.\<close>

definition Cookie_Validate :: "start_env \<Rightarrow> CookieOptions \<Rightarrow> error option" where
  "Cookie_Validate env ko =
     (if ko_SigningKey ko = [] then Some (PlainError ''cookie signing key must not be empty'')
      else (case checkKey env (ko_SigningKey ko) [32, 64] of
          Some err \<Rightarrow> Some (wrapError ''invalid signing key'' err)
        | None \<Rightarrow>
            if ko_EncryptionKey ko \<noteq> []
            then (case checkKey env (ko_SigningKey ko) [16, 24, 32] of
                Some err \<Rightarrow> Some (wrapError ''invalid encryption key'' err) | None \<Rightarrow> None)
            else None))"

definition Redis_Validate :: "RedisOptions \<Rightarrow> error option" where
  "Redis_Validate ro =
     (if ro_Password ro \<noteq> [] \<and> ro_Address ro = [] then Some (PlainError ''redis-addr must be specified when using redis-password'') else None)"

fun firstError :: "error option list \<Rightarrow> error option" where
  "firstError [] = None"
| "firstError (None # rest) = firstError rest"
| "firstError (Some err # rest) = Some err"

definition validateFrontend :: "start_env \<Rightarrow> BackendOptions \<Rightarrow> error option" where
  "validateFrontend env opts =
     (if be_FrontendDisabled opts then None
      else firstError [Serve_Validate (be_Serve opts), OIDC_Validate env (be_OIDC opts), Cookie_Validate env (be_Cookie opts), Redis_Validate (be_Redis opts)])"

definition validateExternalAddress :: "start_env \<Rightarrow> string \<Rightarrow> error option" where
  "validateExternalAddress env address =
     (if address = [] then None
      else if \<not> HasPrefix address ''https://'' then Some (PlainError ''external hostname must start with https://'')
      else (case se_parseURL env address of
          Inl err \<Rightarrow> Some (PlainError (''invalid external hostname: '' @ ErrorString err)) | Inr _ \<Rightarrow> None))"

definition providerAliases :: "string \<Rightarrow> string" where
  "providerAliases p = (if p = ''kcp'' then ''kcp'' else if p = ''kubernetes'' \<or> p = [] then ''kubernetes'' else [])"

definition schemaSourceAliases :: "string \<Rightarrow> string" where
  "schemaSourceAliases s =
     (if s = CustomResourceDefinitionSource \<or> s = ''customresourcedefinitions'' then CustomResourceDefinitionSource
      else if s = ''apiresourceschemas'' \<or> s = KCPAPIResourceSchemaSource then KCPAPIResourceSchemaSource else [])"

fun validateAliases :: "string list \<Rightarrow> error option" where
  "validateAliases [] = None"
| "validateAliases (entry # rest) =
     (let parts = SplitN entry (CHR '':'') 2
      in if length parts \<noteq> 2 \<or> parts ! 0 = [] \<or> parts ! 1 = []
         then Some (PlainError (''invalid --konnector-host-alias '' @ quote entry @ '', expected format IP:hostname1,hostname2''))
         else validateAliases rest)"

text \<open>The validation also replaces the aliases of the provider and of the source of schemas.\<close>

definition validateSources :: "start_env \<Rightarrow> BackendOptions \<Rightarrow> BackendOptions result" where
  "validateSources env opts =
     (let provider = providerAliases (be_Provider opts); schemaSource = schemaSourceAliases (be_SchemaSource opts)
      in if provider = []
         then Inl (PlainError (''unknown provider '' @ quote (be_Provider opts) @ '', must be one of [ kcp kubernetes]''))
         else if schemaSource = []
         then Inl (PlainError (''unknown schema source '' @ quote (be_SchemaSource opts) @ '', must be one of ['' @ KCPAPIResourceSchemaSource @ '' '' @
                CustomResourceDefinitionSource @ '' apiresourceschemas customresourcedefinitions]''))
         else if length (SplitN schemaSource (CHR ''.'') 3) \<noteq> 3
         then Inl (PlainError (''invalid schema source: '' @ quote schemaSource))
         else if be_SchemaSyncInterval opts < 10 * Second
         then Inl (PlainError (''--schema-sync-interval must be at least 10s, got '' @ se_durationString env (be_SchemaSyncInterval opts)))
         else (case validateAliases (be_KonnectorHostAlias opts) of
             Some err \<Rightarrow> Inl err | None \<Rightarrow> Inr (opts\<lparr>be_Provider := provider, be_SchemaSource := schemaSource\<rparr>)))"

definition Backend_Validate :: "start_env \<Rightarrow> BackendOptions \<Rightarrow> BackendOptions result" where
  "Backend_Validate env opts =
     (if be_NamespacePrefix opts = [] then Inl (PlainError ''namespace prefix cannot be empty'')
      else if be_PrettyName opts = [] then Inl (PlainError ''pretty name cannot be empty'')
      else (case validateFrontend env opts of
          Some err \<Rightarrow> Inl err
        | None \<Rightarrow>
            if be_ConsumerScope opts \<noteq> NamespacedScope \<and> be_ConsumerScope opts \<noteq> ClusterScope
            then Inl (PlainError (''consumer scope must be either '' @ quote NamespacedScope @ '' or '' @ quote ClusterScope))
            else (case validateExternalAddress env (be_ExternalAddress opts) of Some err \<Rightarrow> Inl err | None \<Rightarrow> validateSources env opts)))"

section \<open>The server\<close>

text \<open>
  What \<open>NewServer\<close> is built from: the manager of consumers, the web server (its address), the client of the OpenID
  provider (a client, its secret, the callback, the issuer and a TLS configuration), the connection to Redis, the
  handler with its routes, and for each controller its construction and its registration.
\<close>

datatype session_choice = MemoryStore | RedisStore string string

record handler_args =
  hx_callback :: string
  hx_signingKey :: string
  hx_encryptionKey :: string
  hx_schemaSource :: string
  hx_scope :: string
  hx_frontend :: string
  hx_sessions :: session_choice

record ('p, 'w) server_libs =
  sl_manager :: "HostAlias list \<Rightarrow> 'w \<Rightarrow> error option \<times> 'w"
  sl_web :: "'w \<Rightarrow> string result \<times> 'w"
  sl_provider :: "string \<Rightarrow> string \<Rightarrow> string \<Rightarrow> string \<Rightarrow> string option \<Rightarrow> 'w \<Rightarrow> 'p result \<times> 'w"
  sl_redis :: "string \<Rightarrow> string \<Rightarrow> error option"
  sl_handler :: "handler_args \<Rightarrow> 'w \<Rightarrow> error option \<times> 'w"
  sl_routes :: "'w \<Rightarrow> error option \<times> 'w"
  sl_new :: "string \<Rightarrow> 'w \<Rightarrow> error option \<times> 'w"
  sl_setup :: "string \<Rightarrow> 'w \<Rightarrow> error option \<times> 'w"

record 'p backend_server =
  bs_Options :: BackendOptions
  bs_OIDC :: "'p option"
  bs_oidcOnce :: bool
  bs_oidcErr :: "error option"
  bs_Addr :: string

definition initializeOIDCProvider :: "('p, 'w) server_libs \<Rightarrow> OIDC \<Rightarrow> string \<Rightarrow> 'w \<Rightarrow> 'p result \<times> 'w" where
  "initializeOIDCProvider sl oi callback w =
     sl_provider sl (oi_IssuerClientID oi) (oi_IssuerClientSecret oi) callback (oi_IssuerURL oi) (oi_TLSConfig oi) w"

definition callbackOf :: "OIDC \<Rightarrow> string \<Rightarrow> string" where
  "callbackOf oi addr = (if oi_CallbackURL oi = [] then Sprintf ''http://%s/api/callback'' [FStr addr] else oi_CallbackURL oi)"

definition sessionStoreOf :: "('p, 'w) server_libs \<Rightarrow> RedisOptions \<Rightarrow> session_choice result" where
  "sessionStoreOf sl ro =
     (if ro_Address ro = [] then Inr MemoryStore
      else (case sl_redis sl (ro_Address ro) (ro_Password ro) of
          Some err \<Rightarrow> Inl (wrapError ''error setting up Redis session store'' err)
        | None \<Rightarrow> Inr (RedisStore (ro_Address ro) (ro_Password ro))))"

definition decodeKeys :: "start_env \<Rightarrow> CookieOptions \<Rightarrow> (string \<times> string) result" where
  "decodeKeys env ko =
     (case se_decode64 env (ko_SigningKey ko) of
        Inl err \<Rightarrow> Inl (wrapError ''error creating signing key'' err)
      | Inr signingKey \<Rightarrow>
          if ko_EncryptionKey ko = [] then Inr (signingKey, [])
          else (case se_decode64 env (ko_EncryptionKey ko) of
              Inl err \<Rightarrow> Inl (wrapError ''error creating encryption key'' err) | Inr encryptionKey \<Rightarrow> Inr (signingKey, encryptionKey)))"

definition setupHandler :: "start_env \<Rightarrow> ('p, 'w) server_libs \<Rightarrow> BackendOptions \<Rightarrow> string \<Rightarrow> 'w \<Rightarrow> error option \<times> 'w" where
  "setupHandler env sl opts callback w =
     (case decodeKeys env (be_Cookie opts) of
        Inl err \<Rightarrow> (Some err, w)
      | Inr (signingKey, encryptionKey) \<Rightarrow>
          (case sessionStoreOf sl (be_Redis opts) of
             Inl err \<Rightarrow> (Some err, w)
           | Inr sessions \<Rightarrow>
               (case sl_handler sl \<lparr>hx_callback = callback, hx_signingKey = signingKey, hx_encryptionKey = encryptionKey,
                       hx_schemaSource = be_SchemaSource opts, hx_scope = be_ConsumerScope opts, hx_frontend = be_Frontend opts,
                       hx_sessions = sessions\<rparr> w of
                  (Some err, w1) \<Rightarrow> (Some (wrapError ''error setting up HTTP Handler'' err), w1)
                | (None, w1) \<Rightarrow>
                    (case sl_routes sl w1 of
                       (Some err, w2) \<Rightarrow> (Some (wrapError ''error adding routes to HTTP Server'' err), w2) | (None, w2) \<Rightarrow> (None, w2)))))"

text \<open>The client of an external provider is made at once, that of the embedded one when it is first used.\<close>

definition setupFrontend :: "start_env \<Rightarrow> ('p, 'w) server_libs \<Rightarrow> BackendOptions \<Rightarrow> string \<Rightarrow> 'w \<Rightarrow> 'p option result \<times> 'w" where
  "setupFrontend env sl opts addr w =
     (let callback = callbackOf (be_OIDC opts) addr;
          finish = (\<lambda>provider w1. case setupHandler env sl opts callback w1 of (Some err, w2) \<Rightarrow> (Inl err, w2) | (None, w2) \<Rightarrow> (Inr provider, w2))
      in if be_FrontendDisabled opts then (Inr None, w)
         else (case oi_OIDCServer (be_OIDC opts) of
             Some _ \<Rightarrow> finish None w
           | None \<Rightarrow>
               (case initializeOIDCProvider sl (be_OIDC opts) callback w of
                  (Inl err, w1) \<Rightarrow> (Inl (wrapError ''error setting up OIDC'' err), w1)
                | (Inr provider, w1) \<Rightarrow> finish (Some provider) w1)))"

definition controllersOf :: "BackendOptions \<Rightarrow> string list" where
  "controllersOf opts =
     [''ClusterBinding'', ''RBAC'', ''APIServiceExport'', ''APIServiceNamespace'', ''ServiceExportRequest'', ''LogicalCluster''] @
     (if be_FrontendDisabled opts then [''BindableResourcesRequest''] else []) @
     (if be_Provider opts = ''kcp'' then [''APIBindingTemplate'', ''APIResourceSchema'', ''VWRBAC''] else [])"

fun setupControllers :: "('p, 'w) server_libs \<Rightarrow> string list \<Rightarrow> 'w \<Rightarrow> error option \<times> 'w" where
  "setupControllers sl [] w = (None, w)"
| "setupControllers sl (name # rest) w =
     (case sl_new sl name w of
        (Some err, w1) \<Rightarrow> (Some (wrapError (''error setting up '' @ name @ '' Controller'') err), w1)
      | (None, w1) \<Rightarrow>
          (case sl_setup sl name w1 of
             (Some err, w2) \<Rightarrow> (Some (wrapError (''error setting up '' @ name @ '' controller with manager'') err), w2)
           | (None, w2) \<Rightarrow> setupControllers sl rest w2))"

definition NewBackendServer :: "start_env \<Rightarrow> ('p, 'w) server_libs \<Rightarrow> BackendOptions \<Rightarrow> 'w \<Rightarrow> 'p backend_server result \<times> 'w" where
  "NewBackendServer env sl opts w =
     (case sl_manager sl (List.map_filter parseHostAlias (be_KonnectorHostAlias opts)) w of
        (Some err, w1) \<Rightarrow> (Inl (wrapError ''error setting up Kubernetes Manager'' err), w1)
      | (None, w1) \<Rightarrow>
          (case sl_web sl w1 of
             (Inl err, w2) \<Rightarrow> (Inl (wrapError ''error setting up HTTP Server'' err), w2)
           | (Inr addr, w2) \<Rightarrow>
               (case setupFrontend env sl opts addr w2 of
                  (Inl err, w3) \<Rightarrow> (Inl err, w3)
                | (Inr provider, w3) \<Rightarrow>
                    (case setupControllers sl (controllersOf opts) w3 of
                       (Some err, w4) \<Rightarrow> (Inl err, w4)
                     | (None, w4) \<Rightarrow>
                         (Inr \<lparr>bs_Options = opts, bs_OIDC = provider, bs_oidcOnce = False, bs_oidcErr = None, bs_Addr = addr\<rparr>, w4)))))"

text \<open>The lazy initialisation runs once; its error is kept.\<close>

definition ensureOIDC :: "('p, 'w) server_libs \<Rightarrow> 'p backend_server \<Rightarrow> 'w \<Rightarrow> error option \<times> 'p backend_server \<times> 'w" where
  "ensureOIDC sl s w =
     (let oi = be_OIDC (bs_Options s)
      in if oi_OIDCServer oi = None then (None, s, w)
         else if bs_oidcOnce s then (bs_oidcErr s, s, w)
         else (case initializeOIDCProvider sl oi (callbackOf oi (bs_Addr s)) w of
             (Inl err, w1) \<Rightarrow> (Some err, s\<lparr>bs_oidcOnce := True, bs_OIDC := None, bs_oidcErr := Some err\<rparr>, w1)
           | (Inr provider, w1) \<Rightarrow> (None, s\<lparr>bs_oidcOnce := True, bs_OIDC := Some provider, bs_oidcErr := None\<rparr>, w1)))"

definition GetOIDCProvider :: "('p, 'w) server_libs \<Rightarrow> 'p backend_server \<Rightarrow> 'w \<Rightarrow> 'p option result \<times> 'p backend_server \<times> 'w" where
  "GetOIDCProvider sl s w =
     (case ensureOIDC sl s w of (Some err, s1, w1) \<Rightarrow> (Inl err, s1, w1) | (None, s1, w1) \<Rightarrow> (Inr (bs_OIDC s1), s1, w1))"

text \<open>The program up to the start of the server; \<open>newConfig\<close> stands for the clients and the manager.\<close>

definition startBackend ::
  "start_env \<Rightarrow> ('p, 'w) server_libs \<Rightarrow> (BackendOptions \<Rightarrow> 'w \<Rightarrow> error option \<times> 'w) \<Rightarrow> BackendOptions \<Rightarrow> 'w \<Rightarrow> 'p backend_server result \<times> 'w" where
  "startBackend env sl newConfig opts w =
     (case Backend_Complete env opts of
        Inl err \<Rightarrow> (Inl err, w)
      | Inr completed \<Rightarrow>
          (case Backend_Validate env completed of
             Inl err \<Rightarrow> (Inl err, w)
           | Inr opts1 \<Rightarrow>
               (case newConfig opts1 w of (Some err, w1) \<Rightarrow> (Inl err, w1) | (None, w1) \<Rightarrow> NewBackendServer env sl opts1 w1)))"

section \<open>Options of the konnector\<close>

record KonnectorOptions =
  kn_LeaseLockName :: string
  kn_LeaseLockNamespace :: string
  kn_LeaseLockIdentity :: string

definition NewKonnectorOptions :: "(string \<Rightarrow> string) \<Rightarrow> KonnectorOptions" where
  "NewKonnectorOptions getenv =
     \<lparr>kn_LeaseLockName = ''kube-bind'',
      kn_LeaseLockNamespace = (if getenv ''POD_NAMESPACE'' = [] then ''kube-system'' else getenv ''POD_NAMESPACE''),
      kn_LeaseLockIdentity = getenv ''POD_NAME''\<rparr>"

definition Konnector_Complete :: "int \<Rightarrow> KonnectorOptions \<Rightarrow> KonnectorOptions" where
  "Konnector_Complete random kn =
     (if kn_LeaseLockIdentity kn = [] then kn\<lparr>kn_LeaseLockIdentity := Sprintf ''%d'' [FInt random]\<rparr> else kn)"

section \<open>The health endpoint of the konnector\<close>

text \<open>
  A check has a name and an error for a request. The checker is a value: a route that is registered keeps the checks
  there are at that time. The routes are in the order of their registration; \<open>router\<close> is the library that picks one.
\<close>

type_synonym 'r health_check = "string \<times> ('r \<Rightarrow> error option)"

record 'r health_server =
  hs_Routes :: "(string \<times> 'r health_check list) list"
  hs_Checker :: "'r health_check list"
  hs_ServerAddr :: string

definition NewHealthServer :: "string \<Rightarrow> 'r health_server" where
  "NewHealthServer addr =
     \<lparr>hs_Routes = [(''/healthz'', [])], hs_Checker = [], hs_ServerAddr = (if addr = [] then '':8090'' else addr)\<rparr>"

definition AddCheck :: "'r health_check \<Rightarrow> 'r health_server \<Rightarrow> 'r health_server" where
  "AddCheck check s = s\<lparr>hs_Checker := hs_Checker s @ [check]\<rparr>"

definition StartHealth :: "'r health_server \<Rightarrow> 'r health_server" where
  "StartHealth s = s\<lparr>hs_Routes := hs_Routes s @ [(''/healthz'', hs_Checker s)]\<rparr>"

definition checker_ServeHTTP :: "'r health_check list \<Rightarrow> 'r \<Rightarrow> nat \<times> smap" where
  "checker_ServeHTTP checks r =
     (if list_all (\<lambda>(name, check). check r = None) checks then 200 else 500,
      fold (\<lambda>(name, check). Mapping.update name (if check r = None then ''ok'' else ''degraded'')) checks Mapping.empty)"

definition health_response ::
  "((string \<times> 'r health_check list) list \<Rightarrow> string \<Rightarrow> 'r health_check list option) \<Rightarrow> 'r health_server \<Rightarrow> string \<Rightarrow> 'r \<Rightarrow> nat \<times> smap" where
  "health_response router s path r =
     (case router (hs_Routes s) path of None \<Rightarrow> (404, Mapping.empty) | Some checks \<Rightarrow> checker_ServeHTTP checks r)"

section \<open>What accepted options are\<close>

lemma firstError_None: "firstError errs = None \<longleftrightarrow> set errs \<subseteq> {None}"
  by (induction errs rule: firstError.induct) auto

lemma normalizeIsolation_range: "normalizeIsolation i \<in> {IsolationPrefixed, IsolationNamespaced, IsolationNone}"
  by (simp add: normalizeIsolation_def)

text \<open>An isolation that is not known, a misspelled one for instance, means no isolation.\<close>

lemma unknown_isolation_is_none:
  assumes "map lowerChar i \<noteq> ''prefixed''" "map lowerChar i \<noteq> ''namespaced''"
  shows "normalizeIsolation i = IsolationNone"
  using assms by (simp add: normalizeIsolation_def)

lemma list_of_two: "length xs = 2 \<Longrightarrow> xs = [xs ! 0, xs ! 1]"
  by (cases xs; cases "tl xs") auto

lemma validateAliases_parsed:
  "validateAliases aliases = None \<Longrightarrow> list_all (\<lambda>a. parseHostAlias a \<noteq> None) aliases"
proof (induction aliases)
  case (Cons a aliases)
  let ?p = "SplitN a (CHR '':'') 2"
  from Cons.prems have p: "length ?p = 2" "?p ! 0 \<noteq> []" "?p ! 1 \<noteq> []" and rest: "validateAliases aliases = None"
    by (auto simp: Let_def split: if_splits)
  from list_of_two [OF p(1)] obtain ip hosts where "?p = [ip, hosts]" by blast
  with p Cons.IH [OF rest] show ?case by (simp add: parseHostAlias_def)
qed simp

lemma completeFrontend_same:
  assumes "completeFrontend env opts = Inr opts1"
  shows "be_FrontendDisabled opts1 = be_FrontendDisabled opts" "be_Provider opts1 = be_Provider opts"
    and "\<not> be_FrontendDisabled opts \<Longrightarrow> OIDC_Complete env (so_Listener (be_Serve opts)) (be_OIDC opts) = Inr (be_OIDC opts1)"
  using assms by (auto simp: completeFrontend_def split: if_splits sum.splits)

lemma readExternalCA_same:
  assumes "readExternalCA env opts = Inr opts1"
  shows "opts1 = opts\<lparr>be_ExternalCA := be_ExternalCA opts1\<rparr>"
  using assms by (auto simp: readExternalCA_def split: if_splits sum.splits)

lemma Backend_Complete_parts:
  assumes "Backend_Complete env opts = Inr opts1"
  obtains serveOptions ext where "Serve_Complete env (be_Serve opts) = Inr serveOptions" "completeFrontend env (opts\<lparr>be_Serve := serveOptions\<rparr>) = Inr ext"
    and "be_OIDC opts1 = be_OIDC ext" "be_FrontendDisabled opts1 = be_FrontendDisabled opts" "be_Isolation opts1 = normalizeIsolation (be_Isolation ext)"
    and "be_Provider opts1 = be_Provider opts" "be_CompletedKcp opts1 = (if be_Provider opts = ''kcp'' then Some (be_ProviderKcp opts1) else None)"
proof -
  obtain serveOptions where s: "Serve_Complete env (be_Serve opts) = Inr serveOptions"
    using assms by (auto simp: Backend_Complete_def split: sum.splits)
  obtain ext where f: "completeFrontend env (opts\<lparr>be_Serve := serveOptions\<rparr>) = Inr ext"
    using assms s by (auto simp: Backend_Complete_def split: sum.splits)
  let ?n = "ext\<lparr>be_ConsumerScope := normalizeScope (be_ConsumerScope ext), be_Isolation := normalizeIsolation (be_Isolation ext)\<rparr>"
  obtain opts2 where r: "readExternalCA env ?n = Inr opts2"
    "opts1 = opts2\<lparr>be_CompletedKcp := (if be_Provider opts2 = ''kcp'' then Some (be_ProviderKcp opts2) else None)\<rparr>"
    using assms s f by (auto simp: Backend_Complete_def split: sum.splits)
  from readExternalCA_same [OF r(1)] obtain ca where o: "opts2 = ?n\<lparr>be_ExternalCA := ca\<rparr>" by blast
  show thesis
    using s f by (rule that) (simp_all add: r(2) o completeFrontend_same(1,2) [OF f])
qed

lemma OIDC_Complete_server:
  assumes "OIDC_Complete env listener oi = Inr oi1" "oi_OIDCServer oi = None"
  shows "oi_Type oi1 = oi_Type oi" "oi_OIDCServer oi1 \<noteq> None \<longleftrightarrow> oi_Type oi = OIDCProviderTypeEmbedded" "oi_CAFile oi1 = oi_CAFile oi"
    and "oi_CAFile oi \<noteq> [] \<Longrightarrow> oi_TLSConfig oi1 \<noteq> None"
  using assms by (auto simp: OIDC_Complete_def embedOIDC_def Let_def split: sum.splits if_splits)

lemma OIDC_Validate_None:
  assumes "OIDC_Validate env oi = None"
  shows "oi_Type oi \<in> {OIDCProviderTypeEmbedded, OIDCProviderTypeExternal}" "oi_CAFile oi = [] \<or> oi_TLSConfig oi = None"
    and "\<exists>u. se_parseURL env (oi_CallbackURL oi) = Inr u \<and> HasSuffix (url_Path u) ''/api/callback''"
    and "oi_Type oi = OIDCProviderTypeExternal \<Longrightarrow> oi_AllowedGroups oi \<noteq> [] \<or> oi_AllowedUsers oi \<noteq> []"
  using assms by (auto simp: OIDC_Validate_def checkURL_def split: if_splits sum.splits)

lemma checkKey_None: "checkKey env key ls = None \<longleftrightarrow> (\<exists>b. se_decode64 env key = Inr b \<and> length b \<in> set ls)"
  by (simp add: checkKey_def split: sum.split)

lemma Cookie_Validate_None:
  "Cookie_Validate env ko = None \<Longrightarrow> \<exists>b. se_decode64 env (ko_SigningKey ko) = Inr b \<and>
     length b \<in> (if ko_EncryptionKey ko = [] then {32, 64} else {32})"
  by (auto simp: Cookie_Validate_def checkKey_None split: if_splits option.splits)

lemma validateSources_Inr:
  assumes "validateSources env opts = Inr opts1"
  shows "opts1 = opts\<lparr>be_Provider := providerAliases (be_Provider opts), be_SchemaSource := schemaSourceAliases (be_SchemaSource opts)\<rparr>"
    and "providerAliases (be_Provider opts) \<noteq> []" "schemaSourceAliases (be_SchemaSource opts) \<noteq> []"
    and "10 * Second \<le> be_SchemaSyncInterval opts" "validateAliases (be_KonnectorHostAlias opts) = None"
  using assms by (auto simp: validateSources_def Let_def split: if_splits option.splits)

lemma Backend_Validate_Inr:
  assumes "Backend_Validate env opts = Inr opts1"
  shows "validateSources env opts = Inr opts1" "validateFrontend env opts = None" "be_ConsumerScope opts \<in> {NamespacedScope, ClusterScope}"
    and "be_NamespacePrefix opts \<noteq> []"
  using assms by (auto simp: Backend_Validate_def split: if_splits option.splits)

lemma providerAliases_range: "providerAliases p \<noteq> [] \<Longrightarrow> providerAliases p \<in> {''kcp'', ''kubernetes''} \<and> (providerAliases p = ''kcp'' \<longleftrightarrow> p = ''kcp'')"
  by (auto simp: providerAliases_def split: if_splits)

lemma schemaSourceAliases_range: "schemaSourceAliases s \<noteq> [] \<Longrightarrow> schemaSourceAliases s \<in> {CustomResourceDefinitionSource, KCPAPIResourceSchemaSource}"
  by (auto simp: schemaSourceAliases_def split: if_splits)

text \<open>What the handlers rely on when there is a front end.\<close>

definition frontendOk :: "start_env \<Rightarrow> OIDC \<Rightarrow> CookieOptions \<Rightarrow> bool" where
  "frontendOk env oi ko \<longleftrightarrow>
     (\<exists>k. se_decode64 env (ko_SigningKey ko) = Inr k \<and> length k \<in> {32, 64}) \<and>
     (\<exists>u. se_parseURL env (oi_CallbackURL oi) = Inr u \<and> HasSuffix (url_Path u) ''/api/callback'') \<and>
     (oi_OIDCServer oi \<noteq> None \<longleftrightarrow> oi_Type oi = OIDCProviderTypeEmbedded) \<and>
     (oi_OIDCServer oi \<noteq> None \<or> oi_AllowedGroups oi \<noteq> [] \<or> oi_AllowedUsers oi \<noteq> [])"


text \<open>The default options with an external provider of OpenID.\<close>

definition exampleStart :: start_env where
  "exampleStart =
     \<lparr>se_getenv = (\<lambda>_. []), se_listen = Inr, se_readFile = (\<lambda>_. Inl (PlainError ''no such file'')), se_appendCerts = (\<lambda>_. True),
      se_randomKey = (\<lambda>n. replicate 32 (CHR ''k'')), se_encode64 = (\<lambda>s. s), se_decode64 = Inr,
      se_parseURL = (\<lambda>s. Inr \<lparr>url_Scheme = ''https'', url_Host = ''host'', url_Path = drop 12 s\<rparr>),
      se_mockOIDC = (\<lambda>tls listener addr. Inr (''id'', ''secret'')), se_durationString = Itoa\<rparr>"

definition exampleBackendOptions :: BackendOptions where
  "exampleBackendOptions =
     NewBackendOptions\<lparr>be_OIDC := (be_OIDC NewBackendOptions)\<lparr>oi_IssuerClientID := ''kube-bind'', oi_IssuerURL := ''https://host'',
       oi_CallbackURL := ''https://host/api/callback'', oi_AllowedGroups := [''admins'']\<rparr>,
       be_KonnectorHostAlias := [''10.0.0.1:a,b'']\<rparr>"

definition completedExample :: BackendOptions where
  "completedExample =
     exampleBackendOptions\<lparr>be_Serve := (be_Serve exampleBackendOptions)\<lparr>so_Listener := Some ''127.0.0.1:8080''\<rparr>,
       be_Cookie := \<lparr>ko_SigningKey = replicate 32 (CHR ''k''), ko_EncryptionKey = replicate 32 (CHR ''k'')\<rparr>\<rparr>"

lemma lowerChar_scopes: "map lowerChar ''Namespaced'' = ''namespaced''" "map lowerChar ''Prefixed'' = ''prefixed''"
  by code_simp+

lemma completedExample_complete: "Backend_Complete exampleStart exampleBackendOptions = Inr completedExample"
  by (simp add: Backend_Complete_def Serve_Complete_def completeFrontend_def OIDC_Complete_def Cookie_Complete_def Redis_Complete_def
      readExternalCA_def normalizeScope_def normalizeIsolation_def lowerChar_scopes [simplified] exampleStart_def exampleBackendOptions_def completedExample_def
      NewBackendOptions_def Let_def)

lemma completedExample_valid: "Backend_Validate exampleStart completedExample = Inr completedExample"
  by (simp add: Backend_Validate_def validateFrontend_def Serve_Validate_def OIDC_Validate_def checkURL_def Cookie_Validate_def checkKey_def
      Redis_Validate_def validateExternalAddress_def validateSources_def providerAliases_def schemaSourceAliases_def CustomResourceDefinitionSource_def
      KCPAPIResourceSchemaSource_def SplitN_def HasSuffix_def suffix_def exampleStart_def exampleBackendOptions_def completedExample_def NewBackendOptions_def
      Second_def Minute_def Let_def)


text \<open>A CA file of the OpenID provider is never accepted: the completion loads it, and the validation refuses what was loaded.\<close>

lemma oidc_ca_file_refused:
  assumes "oi_CAFile (be_OIDC opts) \<noteq> []" "\<not> be_FrontendDisabled opts" "oi_OIDCServer (be_OIDC opts) = None"
    and "Backend_Complete env opts = Inr opts1"
  shows "\<exists>err. Backend_Validate env opts1 = Inl err"
proof (rule ccontr)
  assume "\<nexists>err. Backend_Validate env opts1 = Inl err"
  then obtain opts2 where v: "Backend_Validate env opts1 = Inr opts2" by (cases "Backend_Validate env opts1") auto
  from assms(4) obtain serveOptions ext where c: "completeFrontend env (opts\<lparr>be_Serve := serveOptions\<rparr>) = Inr ext" "be_OIDC opts1 = be_OIDC ext"
    "be_FrontendDisabled opts1 = be_FrontendDisabled opts" by (rule Backend_Complete_parts)
  have oc: "OIDC_Complete env (so_Listener serveOptions) (be_OIDC opts) = Inr (be_OIDC opts1)"
    using completeFrontend_same(3) [OF c(1)] assms(2) c(2) by simp
  have "OIDC_Validate env (be_OIDC opts1) = None"
    using Backend_Validate_Inr(2) [OF v] assms(2) c(3) by (auto simp: validateFrontend_def firstError_None)
  from OIDC_Validate_None(2) [OF this] OIDC_Complete_server(3,4) [OF oc assms(3)] assms(1) show False by auto
qed

text \<open>
  The encryption key is never looked at; and a signing key of 64 bytes, which the documentation allows, is refused as
  soon as there is an encryption key, which the completion makes when there is none.
\<close>

lemma encryption_key_unchecked:
  "k \<noteq> [] \<Longrightarrow> k' \<noteq> [] \<Longrightarrow> Cookie_Validate env (ko\<lparr>ko_EncryptionKey := k\<rparr>) = Cookie_Validate env (ko\<lparr>ko_EncryptionKey := k'\<rparr>)"
  by (simp add: Cookie_Validate_def split: option.split)

lemma signing_key_64_refused:
  assumes "se_decode64 env (ko_SigningKey ko) = Inr b" "length b = 64" "ko_SigningKey ko \<noteq> []" "se_encode64 env (se_randomKey env 1) \<noteq> []"
  shows "Cookie_Validate env (Cookie_Complete env ko) \<noteq> None"
proof
  assume "Cookie_Validate env (Cookie_Complete env ko) = None"
  from Cookie_Validate_None [OF this] assms show False by (auto simp: Cookie_Complete_def Let_def split: if_splits)
qed

text \<open>Bindable resources requests are served exactly when there is no front end.\<close>

lemma bindable_controller_iff: "''BindableResourcesRequest'' \<in> set (controllersOf opts) \<longleftrightarrow> be_FrontendDisabled opts"
  by (simp add: controllersOf_def)

lemma setupControllers_all:
  assumes "\<And>n w. n \<in> set names \<Longrightarrow> fst (sl_new sl n w) = None \<and> fst (sl_setup sl n w) = None"
  shows "fst (setupControllers sl names w) = None"
  using assms
proof (induction names arbitrary: w)
  case (Cons n names)
  obtain e1 w1 where 1: "sl_new sl n w = (e1, w1)" by fastforce
  obtain e2 w2 where 2: "sl_setup sl n w1 = (e2, w2)" by fastforce
  from Cons.prems [of n w] Cons.prems [of n w1] 1 2 have "e1 = None" "e2 = None" by simp_all
  with 1 2 Cons show ?case by simp
qed simp

text \<open>When the first initialisation of the embedded provider fails, every later login fails with the same error.\<close>

lemma ensureOIDC_failure_kept:
  assumes "ensureOIDC sl s w = (Some err, s1, w1)"
  shows "GetOIDCProvider sl s1 w2 = (Inl err, s1, w2)"
proof -
  from assms have "oi_OIDCServer (be_OIDC (bs_Options s1)) \<noteq> None \<and> bs_oidcOnce s1 \<and> bs_oidcErr s1 = Some err"
    by (auto simp: ensureOIDC_def Let_def split: if_splits sum.splits prod.splits)
  then show ?thesis by (simp add: GetOIDCProvider_def ensureOIDC_def Let_def)
qed

text \<open>And when it succeeds, the client is made only once.\<close>

lemma ensureOIDC_once:
  assumes "ensureOIDC sl s w = (None, s1, w1)"
  shows "ensureOIDC sl s1 w2 = (None, s1, w2)"
  using assms by (auto simp: ensureOIDC_def Let_def split: if_splits sum.splits prod.splits)

text \<open>
  A checker answers with an error exactly if a check fails. But with a router in which the first route wins, the endpoint
  of the konnector runs none of the checks that are added: the route was registered before, with no checks.
\<close>

lemma checker_ServeHTTP_ok: "fst (checker_ServeHTTP checks r) = 200 \<longleftrightarrow> (\<forall>(name, check) \<in> set checks. check r = None)"
  by (auto simp: checker_ServeHTTP_def list_all_iff)

lemma health_checks_ignored:
  assumes "\<And>routes path. router routes path = map_of routes path"
  shows "health_response router (StartHealth (fold AddCheck checks (NewHealthServer addr))) ''/healthz'' r = (200, Mapping.empty)"
proof -
  have "hs_Routes (fold AddCheck checks s) = hs_Routes s" for s :: "'a health_server"
    by (induction checks arbitrary: s) (simp_all add: AddCheck_def)
  then show ?thesis by (simp add: assms health_response_def StartHealth_def NewHealthServer_def checker_ServeHTTP_def)
qed

end
