(* ===== verification/Bootstrap.thy ===== *)
theory Bootstrap
  imports Consumer_Apply
begin

text \<open>
  Installation of resources at the start (\<open>src/pkg/bootstrap\<close>, \<open>src/deploy/crd\<close>, \<open>src/contrib/kcp/deploy\<close> and
  \<open>PrepareRun\<close> of \<open>src/pkg/konnector/server.go\<close>): manifests are read from embedded files, transformed, rendered and applied
  until all of them are there; definitions are created or updated and awaited. The lemmas show what is stored after
  a call without an error, that an object marked as create-only is never overwritten, and how the loops end.
\<close>

section \<open>Manifests\<close>

text \<open>\<open>bytes.ReplaceAll\<close>; an empty pattern matches before every byte and at the end.\<close>

function ReplaceAll :: "string \<Rightarrow> string \<Rightarrow> string \<Rightarrow> string" where
  "ReplaceAll old new s =
     (if old = [] then (case s of [] \<Rightarrow> new | c # cs \<Rightarrow> new @ c # ReplaceAll old new cs)
      else if s = [] then []
      else if HasPrefix s old then new @ ReplaceAll old new (drop (length old) s)
      else hd s # ReplaceAll old new (tl s))"
  by pat_completeness auto
termination by (relation "measure (\<lambda>(old, new, s). length s)") auto

declare ReplaceAll.simps [simp del]

fun replacePairs :: "string list \<Rightarrow> string \<Rightarrow> string" where
  "replacePairs (old # new # pairs) bs = replacePairs pairs (ReplaceAll old new bs)"
| "replacePairs _ bs = bs"

definition ReplaceOption :: "string list \<Rightarrow> string \<Rightarrow> string result" where
  "ReplaceOption pairs bs =
     (if length pairs mod 2 \<noteq> 0 then Inl (PlainError (''odd number of arguments: ['' @ Join pairs '' '' @ '']'')) else Inr (replacePairs pairs bs))"

text \<open>
  The embedded files with their content (or the error of reading them), the YAML reader (the documents, and the error
  after the last one, if it is not the end of the file), templates, and the decoder, whose result is an unstructured object
  or something else, with its group, version and kind.
\<close>

record manifest_libs =
  ml_ReadDir :: "(string \<times> bool) list result"
  ml_ReadFile :: "string \<Rightarrow> string result"
  ml_Documents :: "string \<Rightarrow> string list \<times> error option"
  ml_Parse :: "string \<Rightarrow> error option"
  ml_Execute :: "string \<Rightarrow> string set \<Rightarrow> string result"
  ml_Decode :: "string \<Rightarrow> (Unstructured option \<times> string \<times> string \<times> string) result"

text \<open>The cluster: the resource for a kind, the objects of a resource, the cache of the discovery and the wait between two polls.\<close>

record 'w bootstrap_client =
  bt_RESTMapping :: "'w \<Rightarrow> string \<times> string \<times> string \<Rightarrow> string result"
  bt_Resource :: "string \<Rightarrow> (Unstructured, 'w) access"
  bt_Invalidate :: "'w \<Rightarrow> 'w"
  bt_tick :: "'w \<Rightarrow> error option \<times> 'w"

definition annotationCreateOnlyKey :: string where
  "annotationCreateOnlyKey = ''bootstrap.kube-bind.io/create-only''"

definition annotationBattery :: string where
  "annotationBattery = ''bootstrap.kube-bind.io/battery''"

definition qualifiedObjectName :: "Unstructured \<Rightarrow> string" where
  "qualifiedObjectName u = (if GetNamespace u \<noteq> [] then Sprintf ''%s/%s'' [FStr (GetNamespace u), FStr (GetName u)] else GetName u)"

definition SplitOnComma :: "string \<Rightarrow> string list" where
  "SplitOnComma s = SplitN s (CHR '','') (Suc (length s))"

text \<open>An object with the annotation is only for some batteries.\<close>

definition isIncluded :: "string set \<Rightarrow> Unstructured \<Rightarrow> bool" where
  "isIncluded batteries u =
     (case Mapping.lookup (GetAnnotations u) annotationBattery of
        None \<Rightarrow> True | Some v \<Rightarrow> list_ex (\<lambda>p. TrimSpace p \<in> batteries) (SplitOnComma v))"

definition SetResourceVersion :: "string \<Rightarrow> Unstructured \<Rightarrow> Unstructured" where
  "SetResourceVersion v u = u\<lparr>u_meta := (u_meta u)\<lparr>m_ResourceVersion := v\<rparr>\<rparr>"

definition upsertResource :: "(Unstructured, 'w) access \<Rightarrow> string \<Rightarrow> Unstructured \<Rightarrow> 'w \<Rightarrow> error option \<times> 'w" where
  "upsertResource ac kind u w =
     (case ac_create ac w u of
        (None, w1) \<Rightarrow> (None, w1)
      | (Some err, w1) \<Rightarrow>
          if \<not> IsAlreadyExists err then (Some err, w1)
          else (case ac_get ac w1 (keyOf u) of
              Inl err2 \<Rightarrow> (Some err2, w1)
            | Inr existing \<Rightarrow>
                if Mapping.lookup (GetAnnotations existing) annotationCreateOnlyKey \<noteq> None then (None, w1)
                else (case ac_update ac w1 (SetResourceVersion (m_ResourceVersion (u_meta existing)) u) of
                    (Some err3, w2) \<Rightarrow> (Some (wrapError (Sprintf ''could not update %s %s'' [FStr kind, FStr (qualifiedObjectName existing)]) err3), w2)
                  | (None, w2) \<Rightarrow> (None, w2))))"

definition createResourceFromFS :: "manifest_libs \<Rightarrow> 'w bootstrap_client \<Rightarrow> string set \<Rightarrow> string \<Rightarrow> 'w \<Rightarrow> error option \<times> 'w" where
  "createResourceFromFS ml c batteries raw w =
     (case ml_Parse ml raw of
        Some err \<Rightarrow> (Some (wrapError ''failed to parse manifest'' err), w)
      | None \<Rightarrow>
          (case ml_Execute ml raw batteries of
             Inl err \<Rightarrow> (Some (wrapError ''failed to execute manifest'' err), w)
           | Inr buf \<Rightarrow>
               (case ml_Decode ml buf of
                  Inl err \<Rightarrow> (Some (wrapError ''could not decode raw'' err), w)
                | Inr (None, gvk) \<Rightarrow> (Some (PlainError ''decoded into incorrect type''), w)
                | Inr (Some u, gvk) \<Rightarrow>
                    if \<not> isIncluded batteries u then (None, w)
                    else (case bt_RESTMapping c w gvk of
                        Inl err \<Rightarrow> (Some (wrapError ''could not get REST mapping'' err), w)
                      | Inr resource \<Rightarrow> upsertResource (bt_Resource c resource) (snd (snd gvk)) u w))))"

fun transform :: "(string \<Rightarrow> string result) list \<Rightarrow> string \<Rightarrow> string result" where
  "transform [] doc = Inr doc"
| "transform (f # fs) doc = (case f doc of Inl err \<Rightarrow> Inl err | Inr doc1 \<Rightarrow> transform fs doc1)"

text \<open>The documents of a file, numbered from 1; the error of a transformer or of the reader ends the file.\<close>

fun createDocuments ::
  "manifest_libs \<Rightarrow> 'w bootstrap_client \<Rightarrow> string set \<Rightarrow> (string \<Rightarrow> string result) list \<Rightarrow> string \<Rightarrow> nat \<Rightarrow> string list \<Rightarrow> error option \<Rightarrow> error list \<Rightarrow> 'w \<Rightarrow>
     error option \<times> 'w" where
  "createDocuments ml c batteries transformers filename i [] readErr errs w =
     (case readErr of Some err \<Rightarrow> (Some err, w) | None \<Rightarrow> (NewAggregate errs, w))"
| "createDocuments ml c batteries transformers filename i (doc # docs) readErr errs w =
     (if TrimSpace doc = [] then createDocuments ml c batteries transformers filename (i + 1) docs readErr errs w
      else (case transform transformers doc of
          Inl err \<Rightarrow> (Some err, w)
        | Inr doc1 \<Rightarrow>
            (case createResourceFromFS ml c batteries doc1 w of
               (Some err, w1) \<Rightarrow> createDocuments ml c batteries transformers filename (i + 1) docs readErr
                 (errs @ [wrapError (Sprintf ''failed to create resource %s doc %d'' [FStr filename, FInt (int i)]) err]) w1
             | (None, w1) \<Rightarrow> createDocuments ml c batteries transformers filename (i + 1) docs readErr errs w1)))"

definition CreateResourceFromFS ::
  "manifest_libs \<Rightarrow> 'w bootstrap_client \<Rightarrow> string set \<Rightarrow> (string \<Rightarrow> string result) list \<Rightarrow> string \<Rightarrow> 'w \<Rightarrow> error option \<times> 'w" where
  "CreateResourceFromFS ml c batteries transformers filename w =
     (case ml_ReadFile ml filename of
        Inl err \<Rightarrow> (Some (wrapError (''could not read '' @ filename) err), w)
      | Inr raw \<Rightarrow>
          if raw = [] then (None, w)
          else (case ml_Documents ml raw of (docs, readErr) \<Rightarrow> createDocuments ml c batteries transformers filename 1 docs readErr [] w))"

fun createFiles ::
  "manifest_libs \<Rightarrow> 'w bootstrap_client \<Rightarrow> string set \<Rightarrow> (string \<Rightarrow> string result) list \<Rightarrow> (string \<times> bool) list \<Rightarrow> error list \<Rightarrow> 'w \<Rightarrow> error option \<times> 'w" where
  "createFiles ml c batteries transformers [] errs w = (NewAggregate errs, w)"
| "createFiles ml c batteries transformers ((name, isDir) # rest) errs w =
     (if isDir then createFiles ml c batteries transformers rest errs w
      else (case CreateResourceFromFS ml c batteries transformers name w of
          (Some err, w1) \<Rightarrow> createFiles ml c batteries transformers rest (errs @ [err]) w1
        | (None, w1) \<Rightarrow> createFiles ml c batteries transformers rest errs w1))"

definition CreateResourcesFromFS ::
  "manifest_libs \<Rightarrow> 'w bootstrap_client \<Rightarrow> string set \<Rightarrow> (string \<Rightarrow> string result) list \<Rightarrow> 'w \<Rightarrow> error option \<times> 'w" where
  "CreateResourcesFromFS ml c batteries transformers w =
     (case ml_ReadDir ml of Inl err \<Rightarrow> (Some err, w) | Inr fs \<Rightarrow> createFiles ml c batteries transformers fs [] w)"

text \<open>An error of the resources is logged and tried again.\<close>

definition bootstrapOnce ::
  "manifest_libs \<Rightarrow> 'w bootstrap_client \<Rightarrow> string set \<Rightarrow> (string \<Rightarrow> string result) list \<Rightarrow> 'w \<Rightarrow> bool result \<times> 'w" where
  "bootstrapOnce ml c batteries transformers w =
     (case CreateResourcesFromFS ml c batteries transformers w of
        (Some err, w1) \<Rightarrow> (Inr False, bt_Invalidate c w1) | (None, w1) \<Rightarrow> (Inr True, w1))"

definition BootstrapResources ::
  "manifest_libs \<Rightarrow> 'w bootstrap_client \<Rightarrow> string set \<Rightarrow> (string \<Rightarrow> string result) list \<Rightarrow> 'w \<Rightarrow> (error option \<times> 'w) option" where
  "BootstrapResources ml c batteries transformers = pollUntil (bootstrapOnce ml c batteries transformers) (bt_tick c)"

section \<open>Definitions\<close>

text \<open>
  The client of definitions, the wait between two polls and the error of the context. The files have the
  content of the definitions with their kind.
\<close>

record 'w crd_client =
  cx_crds :: "(CustomResourceDefinition, 'w) access"
  cx_tick :: "'w \<Rightarrow> error option \<times> 'w"
  cx_ctxErr :: "'w \<Rightarrow> error option"

record crd_files =
  cf_ReadFile :: "string \<Rightarrow> string result"
  cf_Decode :: "string \<Rightarrow> (CustomResourceDefinition option \<times> string \<times> string \<times> string) result"

definition CRD :: "crd_files \<Rightarrow> string \<times> string \<Rightarrow> CustomResourceDefinition result" where
  "CRD fs gr =
     (case gr of (grp, resource) \<Rightarrow>
        let name = (if grp = [] then resource else resource @ ''.'' @ grp)
        in (case cf_ReadFile fs (Sprintf ''%s_%s.yaml'' [FStr grp, FStr resource]) of
              Inl err \<Rightarrow> Inl (wrapError (''could not read CRD '' @ name) err)
            | Inr raw \<Rightarrow>
                (case cf_Decode fs raw of
                   Inl err \<Rightarrow> Inl (wrapError (''could not decode raw CRD '' @ name) err)
                 | Inr (obj, gvk) \<Rightarrow>
                     if gvk \<noteq> (''apiextensions.k8s.io'', ''v1'', ''CustomResourceDefinition'')
                     then Inl (PlainError (''decoded CRD '' @ name @ '' into incorrect GroupVersionKind''))
                     else (case obj of None \<Rightarrow> Inl (PlainError (''decoded CRD '' @ name @ '' into incorrect type'')) | Some crd \<Rightarrow> Inr crd))))"

definition crdConditionTrue :: "CustomResourceDefinition \<Rightarrow> string \<Rightarrow> bool" where
  "crdConditionTrue crd t =
     (case find (\<lambda>cond. crc_Type cond = t) (cdt_Conditions (crd_Status crd)) of None \<Rightarrow> False | Some cond \<Rightarrow> crc_Status cond = ''True'')"

abbreviation crdKey :: "CustomResourceDefinition \<Rightarrow> NamespacedName" where
  "crdKey crd \<equiv> \<lparr>nn_Namespace = [], nn_Name = m_Name (crd_meta crd)\<rparr>"

definition withResourceVersion :: "string \<Rightarrow> CustomResourceDefinition \<Rightarrow> CustomResourceDefinition" where
  "withResourceVersion v crd = crd\<lparr>crd_meta := (crd_meta crd)\<lparr>m_ResourceVersion := v\<rparr>\<rparr>"

definition awaitEstablished :: "'w crd_client \<Rightarrow> CustomResourceDefinition \<Rightarrow> 'w \<Rightarrow> (error option \<times> 'w) option" where
  "awaitEstablished c rawCRD =
     pollUntil (\<lambda>w. (case ac_get (cx_crds c) w (crdKey rawCRD) of
         Inl err \<Rightarrow> Inl (if IsNotFound err then PlainError (Sprintf ''CRD %s was deleted before being established'' [FStr (m_Name (crd_meta rawCRD))])
           else wrapError (''error fetching CRD '' @ m_Name (crd_meta rawCRD)) err)
       | Inr crd \<Rightarrow> Inr (crdConditionTrue crd ''Established''), w)) (cx_tick c)"

definition updateCRD :: "'w crd_client \<Rightarrow> CustomResourceDefinition \<Rightarrow> CustomResourceDefinition \<Rightarrow> 'w \<Rightarrow> error option \<times> 'w" where
  "updateCRD c rawCRD crd w = ac_update (cx_crds c) w (withResourceVersion (m_ResourceVersion (crd_meta crd)) rawCRD)"

definition writeCRD :: "'w crd_client \<Rightarrow> CustomResourceDefinition \<Rightarrow> 'w \<Rightarrow> error option \<times> 'w" where
  "writeCRD c rawCRD w =
     (let name = m_Name (crd_meta rawCRD)
      in case ac_get (cx_crds c) w (crdKey rawCRD) of
           Inr crd \<Rightarrow> updateCRD c rawCRD crd w
         | Inl err \<Rightarrow>
             if \<not> IsNotFound err then (Some (wrapError (''error fetching CRD '' @ name) err), w)
             else (case ac_create (cx_crds c) w rawCRD of
                 (None, w1) \<Rightarrow> (None, w1)
               | (Some err2, w1) \<Rightarrow>
                   if \<not> IsAlreadyExists err2 then (Some (wrapError (''error creating CRD '' @ name) err2), w1)
                   else (case ac_get (cx_crds c) w1 (crdKey rawCRD) of
                       Inl err3 \<Rightarrow> (Some (wrapError (''error getting CRD '' @ name) err3), w1)
                     | Inr crd \<Rightarrow> updateCRD c rawCRD crd w1)))"

definition CreateSingle :: "'w crd_client \<Rightarrow> CustomResourceDefinition \<Rightarrow> 'w \<Rightarrow> (error option \<times> 'w) option" where
  "CreateSingle c rawCRD w =
     (case writeCRD c rawCRD w of (Some err, w1) \<Rightarrow> Some (Some err, w1) | (None, w1) \<Rightarrow> awaitEstablished c rawCRD w1)"

definition createSingleFromFS :: "'w crd_client \<Rightarrow> crd_files \<Rightarrow> string \<times> string \<Rightarrow> 'w \<Rightarrow> (error option \<times> 'w) option" where
  "createSingleFromFS c fs gr w = (case CRD fs gr of Inl err \<Rightarrow> Some (Some err, w) | Inr crd \<Rightarrow> CreateSingle c crd w)"

text \<open>\<open>retry.OnError\<close> with \<open>retry.DefaultBackoff\<close>: four tries in all. \<open>refused\<close> recognises a connection
  that was refused and an answer of too many requests.\<close>

definition retriable :: "(error \<Rightarrow> bool) \<Rightarrow> error \<Rightarrow> bool" where
  "retriable refused err \<longleftrightarrow> refused err \<or> hasReason ReasonConflict err"

fun retryOnError :: "nat \<Rightarrow> (error \<Rightarrow> bool) \<Rightarrow> ('w \<Rightarrow> (error option \<times> 'w) option) \<Rightarrow> 'w \<Rightarrow> (error option \<times> 'w) option" where
  "retryOnError 0 P fn w = fn w"
| "retryOnError (Suc n) P fn w =
     (case fn w of
        None \<Rightarrow> None
      | Some (None, w1) \<Rightarrow> Some (None, w1)
      | Some (Some err, w1) \<Rightarrow> if P err then retryOnError n P fn w1 else Some (Some err, w1))"

definition bootstrapCRD :: "'w crd_client \<Rightarrow> crd_files \<Rightarrow> (error \<Rightarrow> bool) \<Rightarrow> string \<times> string \<Rightarrow> 'w \<Rightarrow> (error option \<times> 'w) option" where
  "bootstrapCRD c fs refused gr w =
     (case retryOnError 3 (retriable refused) (createSingleFromFS c fs gr) w of
        None \<Rightarrow> None
      | Some (err, w1) \<Rightarrow> Some (case cx_ctxErr c w1 of Some cerr \<Rightarrow> Some cerr | None \<Rightarrow> err, w1))"

text \<open>
  The goroutines, one for each definition, in the order in which they end; the calls of one of them are not
  interleaved with those of another. The konnector starts one at a time.
\<close>

fun bootstrapCRDs :: "'w crd_client \<Rightarrow> crd_files \<Rightarrow> (error \<Rightarrow> bool) \<Rightarrow> (string \<times> string) list \<Rightarrow> error list \<Rightarrow> 'w \<Rightarrow> (error list \<times> 'w) option" where
  "bootstrapCRDs c fs refused [] errs w = Some (errs, w)"
| "bootstrapCRDs c fs refused (gr # grs) errs w =
     (case bootstrapCRD c fs refused gr w of
        None \<Rightarrow> None
      | Some (None, w1) \<Rightarrow> bootstrapCRDs c fs refused grs errs w1
      | Some (Some err, w1) \<Rightarrow> bootstrapCRDs c fs refused grs (errs @ [err]) w1)"

definition CreateFromFS :: "'w crd_client \<Rightarrow> crd_files \<Rightarrow> (error \<Rightarrow> bool) \<Rightarrow> (string \<times> string) list \<Rightarrow> 'w \<Rightarrow> (error option \<times> 'w) option" where
  "CreateFromFS c fs refused grs w =
     (case bootstrapCRDs c fs refused grs [] w of
        None \<Rightarrow> None
      | Some (errs, w1) \<Rightarrow> Some (case NewAggregate errs of None \<Rightarrow> None | Some err \<Rightarrow> Some (wrapError ''could not bootstrap CRDs'' err), w1))"

definition PrepareRun :: "'w crd_client \<Rightarrow> crd_files \<Rightarrow> (error \<Rightarrow> bool) \<Rightarrow> 'w \<Rightarrow> (error option \<times> 'w) option" where
  "PrepareRun c fs refused w =
     (case CreateFromFS c fs refused [(''kube-bind.io'', ''apiservicebindings'')] w of
        None \<Rightarrow> None
      | Some (Some err, w1) \<Rightarrow> Some (Some err, w1)
      | Some (None, w1) \<Rightarrow> CreateFromFS c fs refused [(''kube-bind.io'', ''apiservicebindingbundles'')] w1)"

section \<open>The binding of the own export in kcp\<close>

record ExportBinding =
  xb_meta :: ObjectMeta
  xb_Path :: string
  xb_ExportName :: string
  xb_PermissionClaims :: "(string \<times> string) list"

text \<open>All claims are for all verbs and all objects, and are accepted.\<close>

definition acceptedClaims :: "(string \<times> string) list" where
  "acceptedClaims =
     [(''rbac.authorization.k8s.io'', ''clusterrolebindings''), (''rbac.authorization.k8s.io'', ''clusterroles''),
      (''rbac.authorization.k8s.io'', ''roles''), (''rbac.authorization.k8s.io'', ''rolebindings''), ([], ''serviceaccounts''),
      ([], ''configmaps''), ([], ''secrets''), (''apis.kcp.io'', ''apiexports''), (''apiextensions.k8s.io'', ''customresourcedefinitions''),
      ([], ''namespaces''), (''apis.kcp.io'', ''apiresourceschemas''), (''apis.kcp.io'', ''apibindings''),
      (''authorization.k8s.io'', ''subjectaccessreviews'')]"

definition wantedBinding :: "string \<Rightarrow> string \<Rightarrow> ExportBinding" where
  "wantedBinding exportName clusterPath =
     \<lparr>xb_meta = emptyMeta\<lparr>m_Name := exportName\<rparr>, xb_Path = clusterPath, xb_ExportName = exportName, xb_PermissionClaims = acceptedClaims\<rparr>"

definition adoptSpec :: "ExportBinding \<Rightarrow> ExportBinding \<Rightarrow> ExportBinding" where
  "adoptSpec wanted existing = wanted\<lparr>xb_meta := xb_meta existing\<rparr>"

definition updateBinding :: "(ExportBinding, 'w) access \<Rightarrow> ExportBinding \<Rightarrow> 'w \<Rightarrow> bool result \<times> 'w" where
  "updateBinding ac wanted w =
     (case ac_get ac w \<lparr>nn_Namespace = [], nn_Name = m_Name (xb_meta wanted)\<rparr> of
        Inl err \<Rightarrow> (Inr False, w)
      | Inr existing \<Rightarrow> (case ac_update ac w (adoptSpec wanted existing) of (Some err, w1) \<Rightarrow> (Inr False, w1) | (None, w1) \<Rightarrow> (Inr True, w1)))"

definition bindAPIExport :: "(ExportBinding, 'w) access \<Rightarrow> ('w \<Rightarrow> error option \<times> 'w) \<Rightarrow> string \<Rightarrow> string \<Rightarrow> 'w \<Rightarrow> (error option \<times> 'w) option" where
  "bindAPIExport ac tick exportName clusterPath w =
     (let wanted = wantedBinding exportName clusterPath
      in case ac_create ac w wanted of
           (None, w1) \<Rightarrow> Some (None, w1)
         | (Some err, w1) \<Rightarrow> if \<not> IsAlreadyExists err then Some (Some err, w1) else pollUntil (updateBinding ac wanted) tick w1)"

section \<open>What is there afterwards\<close>

lemma keyOf_u_meta: "keyOf u = keyOfMeta (u_meta u)"
  by (simp add: keyOf_def keyOfMeta_def GetName_def GetNamespace_def)

lemma SetResourceVersion_key [simp]: "keyOfMeta (u_meta (SetResourceVersion v u)) = keyOfMeta (u_meta u)"
  by (simp add: SetResourceVersion_def keyOfMeta_def)

lemma withResourceVersion_key [simp]:
  "keyOfMeta (crd_meta (withResourceVersion v crd)) = keyOfMeta (crd_meta crd)" "crd_Spec (withResourceVersion v crd) = crd_Spec crd"
  by (simp_all add: withResourceVersion_def keyOfMeta_def)

text \<open>An object that was created, or updated since it could not be created, is stored, and no other object has changed.\<close>

context strict_store
begin

lemma upsert_cases:
  assumes "ac_create ac w ob = (None, w') \<or> (\<exists>err. ac_create ac w ob = (Some err, w)) \<and> ac_update ac w ob1 = (None, w')"
    and "keyOfMeta (meta ob1) = keyOfMeta (meta ob)"
  shows "\<exists>x \<in> {ob, ob1}. ac_get ac w' (keyOfMeta (meta ob)) = Inr x"
    and "k \<noteq> keyOfMeta (meta ob) \<Longrightarrow> ac_get ac w' k = ac_get ac w k"
  using assms get_create [of w ob w'] get_update [of w ob1 w'] by auto

end

text \<open>
  A manifest that was applied without an error is stored, up to its version, or there is an object that is
  only to be created; no other object of the resource has changed.
\<close>

lemma upsertResource_post:
  assumes "strict_store u_meta ac" "upsertResource ac kind u w = (None, w')"
  shows "(\<exists>x. ac_get ac w' (keyOf u) = Inr x \<and>
      (x = u \<or> (\<exists>v. x = SetResourceVersion v u) \<or> w' = w \<and> Mapping.lookup (GetAnnotations x) annotationCreateOnlyKey \<noteq> None))"
    and "k \<noteq> keyOf u \<Longrightarrow> ac_get ac w' k = ac_get ac w k"
proof -
  have "(\<exists>x. ac_get ac w' (keyOf u) = Inr x \<and>
      (x = u \<or> (\<exists>v. x = SetResourceVersion v u) \<or> w' = w \<and> Mapping.lookup (GetAnnotations x) annotationCreateOnlyKey \<noteq> None)) \<and>
    (k \<noteq> keyOf u \<longrightarrow> ac_get ac w' k = ac_get ac w k)" for k
  proof (cases "ac_create ac w u")
    case (Pair r w1)
    show ?thesis
    proof (cases r)
      case None
      with Pair assms(2) have c: "ac_create ac w u = (None, w')" by (simp add: upsertResource_def)
      have "ac_create ac w u = (None, w') \<or> (\<exists>err. ac_create ac w u = (Some err, w)) \<and> ac_update ac w u = (None, w')" using c by blast
      from strict_store.upsert_cases [OF assms(1) this refl] show ?thesis by (auto simp: keyOf_u_meta)
    next
      case (Some err)
      have w1: "w1 = w" using strict_store.create_failed [OF assms(1) Pair [unfolded Some]] .
      from assms(2) Pair Some w1 obtain existing where e: "ac_get ac w (keyOf u) = Inr existing"
        by (auto simp: upsertResource_def split: if_splits sum.splits)
      show ?thesis
      proof (cases "Mapping.lookup (GetAnnotations existing) annotationCreateOnlyKey = None")
        case True
        let ?u = "SetResourceVersion (m_ResourceVersion (u_meta existing)) u"
        from assms(2) Pair Some w1 e True have "ac_update ac w ?u = (None, w')"
          by (auto simp: upsertResource_def split: if_splits prod.splits option.splits)
        with Pair Some w1 have "ac_create ac w u = (None, w') \<or> (\<exists>err. ac_create ac w u = (Some err, w)) \<and> ac_update ac w ?u = (None, w')" by blast
        from strict_store.upsert_cases [OF assms(1) this] show ?thesis by (auto simp: keyOf_u_meta)
      next
        case False
        with assms(2) Pair Some w1 e have "w' = w" by (auto simp: upsertResource_def split: if_splits)
        with e False show ?thesis by blast
      qed
    qed
  qed
  then show "(\<exists>x. ac_get ac w' (keyOf u) = Inr x \<and>
      (x = u \<or> (\<exists>v. x = SetResourceVersion v u) \<or> w' = w \<and> Mapping.lookup (GetAnnotations x) annotationCreateOnlyKey \<noteq> None))"
    and "k \<noteq> keyOf u \<Longrightarrow> ac_get ac w' k = ac_get ac w k" by blast+
qed

text \<open>An object marked as create-only is never changed.\<close>

lemma upsertResource_create_only:
  assumes "strict_store u_meta ac" "ac_get ac w (keyOf u) = Inr x" "Mapping.lookup (GetAnnotations x) annotationCreateOnlyKey \<noteq> None"
    and "\<And>w'. ac_create ac w u \<noteq> (None, w')"
  shows "snd (upsertResource ac kind u w) = w"
proof -
  obtain err w1 where c: "ac_create ac w u = (Some err, w1)" using assms(4) by (metis option.exhaust surj_pair)
  with strict_store.create_failed [OF assms(1) c] assms(2,3) show ?thesis by (simp add: upsertResource_def)
qed

text \<open>The loop over the manifests ends without an error only after a round in which everything was applied.\<close>

lemma createDocuments_errs: "fst (createDocuments ml c b ts f i docs re errs w) = None \<Longrightarrow> errs = []"
proof (induction docs arbitrary: i errs w)
  case Nil
  then show ?case by (simp split: option.splits)
next
  case (Cons doc docs)
  show ?case
  proof (cases "TrimSpace doc = []")
    case True
    with Cons show ?thesis by simp
  next
    case ne: False
    then obtain doc1 where t: "transform ts doc = Inr doc1" using Cons.prems by (cases "transform ts doc") simp_all
    obtain r w1 where c: "createResourceFromFS ml c b doc1 w = (r, w1)" by fastforce
    show ?thesis
    proof (cases r)
      case None
      with Cons ne t c show ?thesis by simp
    next
      case (Some err)
      with Cons.prems ne t c Cons.IH [of "i + 1" "errs @ [_]" w1] show ?thesis by (simp del: Sprintf.simps) blast
    qed
  qed
qed

lemma createDocuments_all:
  assumes "createDocuments ml c b ts f i docs re [] w = (None, w')" "doc \<in> set docs" "TrimSpace doc \<noteq> []"
  shows "\<exists>doc1 w0 w1. transform ts doc = Inr doc1 \<and> createResourceFromFS ml c b doc1 w0 = (None, w1)"
  using assms
proof (induction docs arbitrary: i w)
  case (Cons d docs)
  show ?case
  proof (cases "TrimSpace d = []")
    case True
    with Cons show ?thesis by auto
  next
    case ne: False
    then obtain doc1 where t: "transform ts d = Inr doc1" using Cons.prems(1) by (cases "transform ts d") simp_all
    obtain r w1 where c: "createResourceFromFS ml c b doc1 w = (r, w1)" by fastforce
    have r: "r = None"
    proof (rule ccontr)
      assume "r \<noteq> None"
      then obtain err where "r = Some err" by blast
      with Cons.prems(1) ne t c show False by simp (metis createDocuments_errs fst_conv list.distinct(1))
    qed
    show ?thesis
    proof (cases "doc = d")
      case True
      with t c r show ?thesis by blast
    next
      case False
      with Cons ne t c r show ?thesis by auto
    qed
  qed
qed simp

lemma createFiles_errs: "fst (createFiles ml c b ts fs errs w) = None \<Longrightarrow> errs = []"
  by (induction ml c b ts fs errs w rule: createFiles.induct) (auto split: option.splits if_splits prod.splits)

lemma createFiles_all:
  assumes "createFiles ml c b ts fs [] w = (None, w')" "(f, False) \<in> set fs"
  shows "\<exists>w0 w1. CreateResourceFromFS ml c b ts f w0 = (None, w1)"
  using assms
proof (induction fs arbitrary: w)
  case (Cons g fs)
  obtain name isDir where g: "g = (name, isDir)" by fastforce
  obtain r w1 where c: "CreateResourceFromFS ml c b ts name w = (r, w1)" by fastforce
  show ?case
  proof (cases isDir)
    case False
    then have "r = None" using Cons.prems(1) g c createFiles_errs [of ml c b ts fs "[the r]" w1] by (cases r) auto
    with Cons g c False show ?thesis by auto
  qed (use Cons g in auto)
qed simp

lemma BootstrapResources_done:
  assumes "BootstrapResources ml c b ts w = Some (None, w')"
  shows "\<exists>w0 fs. ml_ReadDir ml = Inr fs \<and> createFiles ml c b ts fs [] w0 = (None, w')"
proof -
  from pollUntil_ready [OF assms [unfolded BootstrapResources_def]] obtain w0 where "bootstrapOnce ml c b ts w0 = (Inr True, w')" by blast
  then have "CreateResourcesFromFS ml c b ts w0 = (None, w')" by (auto simp: bootstrapOnce_def split: prod.splits option.splits)
  then show ?thesis by (auto simp: CreateResourcesFromFS_def split: sum.splits)
qed

text \<open>A definition that was written is stored as in its file, up to its version, and no other definition has changed.\<close>

lemma writeCRD_post:
  assumes "strict_store crd_meta (cx_crds c)" "writeCRD c raw w = (None, w')" "m_Namespace (crd_meta raw) = []"
  shows "\<exists>x. ac_get (cx_crds c) w' (crdKey raw) = Inr x \<and> crd_Spec x = crd_Spec raw"
    and "k \<noteq> crdKey raw \<Longrightarrow> ac_get (cx_crds c) w' k = ac_get (cx_crds c) w k"
proof -
  let ?ac = "cx_crds c"
  have key: "crdKey raw = keyOfMeta (crd_meta raw)" using assms(3) by (simp add: keyOfMeta_def)
  note store = assms(1) [unfolded strict_store_def, THEN conjunct1]
  consider (new) "ac_create ?ac w raw = (None, w')" | (old) v where "ac_update ?ac w (withResourceVersion v raw) = (None, w')"
  proof (cases "ac_get ?ac w (crdKey raw)")
    case (Inr crd)
    with assms(2) old show thesis by (simp add: writeCRD_def updateCRD_def)
  next
    case (Inl err)
    obtain r w1 where c: "ac_create ?ac w raw = (r, w1)" by fastforce
    show thesis
    proof (cases r)
      case None
      with c Inl assms(2) new show thesis by (auto simp: writeCRD_def Let_def split: if_splits)
    next
      case (Some err2)
      with strict_store.create_failed [OF assms(1)] c have "w1 = w" by blast
      with Some c Inl assms(2) show thesis by (auto simp: writeCRD_def Let_def split: if_splits)
    qed
  qed
  then have "(\<exists>x. ac_get ?ac w' (crdKey raw) = Inr x \<and> crd_Spec x = crd_Spec raw) \<and> (k \<noteq> crdKey raw \<longrightarrow> ac_get ?ac w' k = ac_get ?ac w k)" for k
  proof cases
    case new
    from object_store.get_create [OF store this] show ?thesis unfolding key by simp
  next
    case (old v)
    from object_store.get_update [OF store this] show ?thesis unfolding key by simp
  qed
  then show "\<exists>x. ac_get (cx_crds c) w' (crdKey raw) = Inr x \<and> crd_Spec x = crd_Spec raw"
    and "k \<noteq> crdKey raw \<Longrightarrow> ac_get (cx_crds c) w' k = ac_get (cx_crds c) w k" by blast+
qed

text \<open>The call that creates a definition returns only when it is established, and it returns when the waits come to an end.\<close>

lemma CreateSingle_established:
  assumes "CreateSingle c raw w = Some (None, w')"
  shows "\<exists>w1. writeCRD c raw w = (None, w1)" "\<exists>crd. ac_get (cx_crds c) w' (crdKey raw) = Inr crd \<and> crdConditionTrue crd ''Established''"
proof -
  from assms obtain w1 where w: "writeCRD c raw w = (None, w1)" "awaitEstablished c raw w1 = Some (None, w')"
    by (auto simp: CreateSingle_def split: prod.splits option.splits)
  then show "\<exists>w1. writeCRD c raw w = (None, w1)" by blast
  from pollUntil_ready [OF w(2) [unfolded awaitEstablished_def]]
  show "\<exists>crd. ac_get (cx_crds c) w' (crdKey raw) = Inr crd \<and> crdConditionTrue crd ''Established''"
    by (auto split: sum.splits)
qed

lemma CreateSingle_returns:
  assumes "ticksDown clock (cx_tick c)"
  shows "\<exists>r. CreateSingle c raw w = Some r"
proof -
  have "\<exists>r. awaitEstablished c raw w1 = Some r" for w1
    unfolding awaitEstablished_def by (rule pollUntil_returns [OF assms]) simp
  then show ?thesis by (cases "writeCRD c raw w") (auto simp: CreateSingle_def split: option.split)
qed

lemma retryOnError_succeeded: "retryOnError n P fn w = Some (None, w') \<Longrightarrow> \<exists>w0. fn w0 = Some (None, w')"
  by (induction n P fn w rule: retryOnError.induct) (auto split: option.splits prod.splits if_splits)

lemma retryOnError_returns: "(\<And>w. \<exists>r. fn w = Some r) \<Longrightarrow> \<exists>r. retryOnError n P fn w = Some r"
proof (induction n arbitrary: w)
  case (Suc n)
  from Suc.prems obtain e w1 where "fn w = Some (e, w1)" by (metis surj_pair)
  with Suc show ?case by (cases e) auto
qed simp

text \<open>
  After a preparation without an error both definitions of the konnector have been established, as they are in
  the files; and the preparation returns.
\<close>

lemma CreateFromFS_single:
  assumes "CreateFromFS c fs refused [gr] w = Some (None, w')"
  shows "\<exists>raw crd. CRD fs gr = Inr raw \<and> ac_get (cx_crds c) w' (crdKey raw) = Inr crd \<and> crdConditionTrue crd ''Established''"
proof -
  from assms have "bootstrapCRD c fs refused gr w = Some (None, w')"
    by (auto simp: CreateFromFS_def split: option.splits prod.splits)
  then have "retryOnError 3 (retriable refused) (createSingleFromFS c fs gr) w = Some (None, w')"
    by (auto simp: bootstrapCRD_def split: option.splits prod.splits)
  from retryOnError_succeeded [OF this] obtain w0 where "createSingleFromFS c fs gr w0 = Some (None, w')" by blast
  then obtain raw where r: "CRD fs gr = Inr raw" "CreateSingle c raw w0 = Some (None, w')" by (auto simp: createSingleFromFS_def split: sum.splits)
  from CreateSingle_established(2) [OF r(2)] r(1) show ?thesis by auto
qed

lemma PrepareRun_established:
  assumes "PrepareRun c fs refused w = Some (None, w')"
  shows "\<exists>raw w1 crd. CRD fs (''kube-bind.io'', ''apiservicebindings'') = Inr raw \<and>
      ac_get (cx_crds c) w1 (crdKey raw) = Inr crd \<and> crdConditionTrue crd ''Established''"
    and "\<exists>raw crd. CRD fs (''kube-bind.io'', ''apiservicebindingbundles'') = Inr raw \<and>
      ac_get (cx_crds c) w' (crdKey raw) = Inr crd \<and> crdConditionTrue crd ''Established''"
proof -
  from assms obtain w1 where p: "CreateFromFS c fs refused [(''kube-bind.io'', ''apiservicebindings'')] w = Some (None, w1)"
    "CreateFromFS c fs refused [(''kube-bind.io'', ''apiservicebindingbundles'')] w1 = Some (None, w')"
    by (auto simp: PrepareRun_def split: option.splits prod.splits)
  from CreateFromFS_single [OF p(1)] show "\<exists>raw w1 crd. CRD fs (''kube-bind.io'', ''apiservicebindings'') = Inr raw \<and>
      ac_get (cx_crds c) w1 (crdKey raw) = Inr crd \<and> crdConditionTrue crd ''Established''" by blast
  from CreateFromFS_single [OF p(2)] show "\<exists>raw crd. CRD fs (''kube-bind.io'', ''apiservicebindingbundles'') = Inr raw \<and>
      ac_get (cx_crds c) w' (crdKey raw) = Inr crd \<and> crdConditionTrue crd ''Established''" .
qed

lemma CreateFromFS_returns:
  assumes "ticksDown clock (cx_tick c)"
  shows "\<exists>r. CreateFromFS c fs refused grs w = Some r"
proof -
  have single: "\<exists>r. bootstrapCRD c fs refused gr w = Some r" for gr w
  proof -
    have "\<exists>r. createSingleFromFS c fs gr w1 = Some r" for w1
      using CreateSingle_returns [OF assms] by (cases "CRD fs gr") (auto simp: createSingleFromFS_def)
    from retryOnError_returns [of "createSingleFromFS c fs gr", OF this]
    show ?thesis by (fastforce simp: bootstrapCRD_def split: option.split)
  qed
  have "\<exists>r. bootstrapCRDs c fs refused grs errs w = Some r" for errs w
  proof (induction grs arbitrary: errs w)
    case (Cons gr grs)
    obtain e w1 where "bootstrapCRD c fs refused gr w = Some (e, w1)" using single by (metis surj_pair)
    with Cons show ?case by (cases e) auto
  qed simp
  then obtain errs w1 where "bootstrapCRDs c fs refused grs [] w = Some (errs, w1)" by (metis surj_pair)
  then show ?thesis by (simp add: CreateFromFS_def)
qed

lemma PrepareRun_returns:
  assumes "ticksDown clock (cx_tick c)"
  shows "\<exists>r. PrepareRun c fs refused w = Some r"
proof -
  obtain e w1 where p: "CreateFromFS c fs refused [(''kube-bind.io'', ''apiservicebindings'')] w = Some (e, w1)"
    using CreateFromFS_returns [OF assms] by (metis surj_pair)
  with CreateFromFS_returns [OF assms] show ?thesis by (cases e) (simp_all add: PrepareRun_def)
qed

text \<open>The own export of kcp is bound with all claims accepted, whatever was there before.\<close>

lemma bindAPIExport_post:
  assumes "strict_store xb_meta ac" "bindAPIExport ac tick exportName path w = Some (None, w')"
  shows "\<exists>x. ac_get ac w' \<lparr>nn_Namespace = [], nn_Name = exportName\<rparr> = Inr x \<and> xb_PermissionClaims x = acceptedClaims \<and> xb_Path x = path"
proof -
  let ?b = "wantedBinding exportName path"
  have key: "keyOfMeta (xb_meta ?b) = \<lparr>nn_Namespace = [], nn_Name = exportName\<rparr>" "m_Name (xb_meta ?b) = exportName"
    by (simp_all add: wantedBinding_def keyOfMeta_def emptyMeta_def)
  note store = assms(1) [unfolded strict_store_def, THEN conjunct1]
  obtain r w1 where c: "ac_create ac w ?b = (r, w1)" by fastforce
  show ?thesis
  proof (cases r)
    case None
    with assms(2) c have "ac_create ac w ?b = (None, w')" by (simp add: bindAPIExport_def Let_def)
    from object_store.get_create [OF store this] key show ?thesis by (simp add: wantedBinding_def)
  next
    case (Some err)
    with assms(2) c have "pollUntil (updateBinding ac ?b) tick w1 = Some (None, w')"
      by (simp add: bindAPIExport_def Let_def split: if_splits)
    from pollUntil_ready [OF this] obtain w0 where "updateBinding ac ?b w0 = (Inr True, w')" by blast
    then obtain old where u: "ac_get ac w0 \<lparr>nn_Namespace = [], nn_Name = exportName\<rparr> = Inr old" "ac_update ac w0 (adoptSpec ?b old) = (None, w')"
      by (auto simp: updateBinding_def key split: sum.splits prod.splits option.splits)
    from object_store.get_update [OF store u(2)] object_store.get_key [OF store u(1)]
    show ?thesis by (simp add: adoptSpec_def wantedBinding_def)
  qed
qed

end
