(* ===== verification/Spec2Isabelle.thy ===== *)
theory Spec2Isabelle
  imports Service_Export Claimed_Resources Cluster_Binding Konnector Binding_Bundle Informers Namespace_Lifecycle
    Backend_Rbac Backend_Requests Http_Api Kcp_Provider Condition_Patch Cli_Bind Backend_Options Bootstrap
begin

text \<open>
  A verification development of kube-bind (kbind).

  \<^bold>\<open>The program.\<close> A service provider runs the backend (\<open>src/backend\<close>) beside its API server; a
  consumer runs the konnector (\<open>src/pkg/konnector\<close>). A consumer asks the backend for APIs with an
  \<open>APIServiceExportRequest\<close>; the backend copies the schemas into \<open>BoundSchema\<close> objects and
  creates an \<open>APIServiceExport\<close> in the namespace of the consumer. In the consumer cluster an
  \<open>APIServiceBinding\<close> names a kubeconfig secret; the konnector runs one set of controllers per
  kubeconfig, installs the CRDs of the export and then synchronises objects: specs from the consumer
  to the provider, status back, and claimed objects in the direction of their owner. A
  \<open>ClusterBinding\<close> in the consumer's namespace carries the heartbeat. Each controller is a loop
  around a work queue: it fetches an object, reconciles it with closures that read caches and call
  API servers, and commits the changed status.

  \<^bold>\<open>Modelling.\<close> Structs are records with the fields the code reads or writes, enumerations that are
  strings in Go stay strings, an error is a value of the datatype \<open>error\<close>, a result is
  \<open>error + 'a\<close>, and a panic is \<open>None\<close> of an outer option. A reconciler with its closures is a
  record of functions over the state \<open>'w\<close> of the world: API servers, caches, queues, JSON
  encoding, hashes, kubeconfig parsing and clients are such fields, so that a theorem holds whatever
  they answer unless a hypothesis names what is relied on. The interfaces that several parts share
  are locales with an interpretation on the model: \<open>condition_object\<close> (conditions of an object),
  \<open>strict_weak_order\<close> (sorting), the isolation contract, the laws of the context store, of an
  \<open>object_store\<close>, of a \<open>session_store\<close> and of a provider cluster. Time is a number of nanoseconds and durations wrap at 64 bits.

  \<^bold>\<open>Theories.\<close>

  \<^item> \<open>Prelude\<close>: errors, strings, \<open>Sprintf\<close>, sorting, durations.
  \<^item> \<open>Conditions\<close>, \<open>Condition_Patch\<close>: the conditions library (\<open>sdk/apis/third_party/conditions\<close>). C9: a patch of
    conditions is a three-way merge, with its conflicts.
  \<^item> \<open>Api_Types\<close>, \<open>Unstructured_Objects\<close>, \<open>Crds\<close>: the API types (\<open>sdk/apis/kubebind/v1alpha2\<close>), dynamic
    objects, the conversions between CRDs and bound schemas and the index functions. C6: a CRD
    survives the conversion to a bound schema and back.
  \<^item> \<open>Isolation\<close>, \<open>Controllers\<close>, \<open>Committer\<close>, \<open>Context_Store\<close>: how keys are translated between consumer
    and provider, the worker loop, the commit of a status as a patch, the store of running
    controllers.
  \<^item> \<open>Spec_Sync\<close> and \<open>Status_Sync\<close> (\<open>serviceexport/spec\<close>, \<open>serviceexport/status\<close>): C1 to C5, every call
    stays in the namespace of the consumer and carries its annotations, the copies converge, and the
    finalizer protects the provider object.
  \<^item> \<open>Service_Export\<close>: C7, C8 and C11, which controllers of an export run after a pass, with the runs
    where wrong ones are stopped, and that processing never panics.
  \<^item> \<open>Claims\<close> and \<open>Claimed_Resources\<close> (\<open>pkg/resources\<close>, \<open>claimedresources\<close>): C14 and C16 to C18, what a claim
    selects and reads, the direction of the synchronisation, idempotence, and that the wait for a
    service namespace ends.
  \<^item> \<open>Service_Binding\<close>: C19 to C21, ownership of CRDs, truth of the conditions, validation of secrets.
  \<^item> \<open>Cluster_Binding\<close>: C24 and C25, the heartbeat in the konnector and the health in the backend.
  \<^item> \<open>Konnector\<close>: C27 to C29, the sharing of cluster controllers between bindings, a state machine
    over a heap of contexts with its invariant, the independence of the order of bindings, and
    two runs that end with a controller that is not started and with a panic.
  \<^item> \<open>Backend\<close>, \<open>Backend_Rbac\<close>: C32, the roles the backend creates for an export and what they
    grant.
  \<^item> \<open>Backend_Exports\<close>: C34 and C35, the hash and condition of exports, provider namespaces.
  \<^item> \<open>Backend_Requests\<close>: C37 and C38, which requests get an export, and the phases of a request as an
    abstract machine that the controller refines.
  \<^item> \<open>Backend_Manager\<close> (\<open>backend/kubernetes\<close>): what the backend sets up for a consumer. C23: in every
    history no two identities are served with the same namespace.
  \<^item> \<open>Consumer_Apply\<close> (\<open>backend/kubernetes/manager.go\<close>): export requests of the front end, access reviews, and
    the installation in a consumer cluster. C13: the calls that wait return; C26: what an
    installation leaves behind.
  \<^item> \<open>Backend_Bindable\<close> (\<open>controllers/bindableresourcesrequest\<close>): binding without a front end. C12: a request
    settles, and one that succeeded has its kubeconfig.
  \<^item> \<open>Sessions\<close> (\<open>backend/session\<close>): the session stores. C10: memory and Redis are interchangeable.
  \<^item> \<open>Authentication\<close> (\<open>backend/auth\<close>, \<open>backend/client\<close>): tokens, cookies, the login, the middleware. C30:
    every accepted request goes back to a login for which the provider vouched.
  \<^item> \<open>Http_Api\<close> (\<open>backend/http\<close>, \<open>backend/spaserver\<close>): routes and handlers. C31: in every history of
    requests the protected handlers only run for such requests.
  \<^item> \<open>Kcp_Provider\<close> (\<open>backend/provider/kcp\<close>): templates and copies of schemas for the API bindings of a
    workspace, access to the virtual workspace, engaged clusters and external addresses. C22: the
    templates of a workspace follow its API bindings.
  \<^item> \<open>Cli_Config\<close> (\<open>cli/pkg/config\<close>, \<open>cli/pkg/client\<close>, \<open>base/options.go\<close>, \<open>bind-login\<close>): the configuration file of
    the command line, its HTTP client and the login. C36: a token that the login command stored is the one that
    later commands send.
  \<^item> \<open>Cli_Bind\<close> (\<open>base/kubeconfig.go\<close>, \<open>bind\<close>, \<open>bind-apiservice\<close>, \<open>bind-deploy\<close>): the commands that bind: kubeconfig
    secrets, deployment of the konnector, export requests and service bindings. C15: one secret per provider.
  \<^item> \<open>Backend_Options\<close> (\<open>backend/options\<close>, \<open>backend/oidc\<close>, \<open>backend/server.go\<close>, \<open>pkg/konnector/options\<close>): completion and
    validation of options, the embedded OpenID provider, the controllers that are set up, and the health endpoint of the konnector. C33: accepted options
    are well formed.
  \<^item> \<open>Bootstrap\<close> (\<open>pkg/bootstrap\<close>, \<open>deploy/crd\<close>, \<open>contrib/kcp/deploy\<close>): installation of manifests and definitions at the
    start, and that it returns with everything in place.
  \<^item> \<open>Binding_Bundle\<close> (\<open>servicebindingbundle\<close>): C39, the bindings of a bundle are the exports of its
    provider.
  \<^item> \<open>Informers\<close> (\<open>multinsinformer\<close>, \<open>dynamic\<close>): C40, which informers run, with which handlers.
  \<^item> \<open>Namespace_Lifecycle\<close>: the consumer namespaces of service namespaces.

  \<^bold>\<open>Loops and fuel.\<close> Loops over lists are structural recursion. The worker loop and the polling loop
  for a service namespace may not end by themselves: they are \<open>partial_function\<close>s into
  \<open>option\<close>, where \<open>None\<close> is a loop that does not return. C18 shows that the polling loop for a
  service namespace returns, after as many ticks as the backend needs, C13 that the loops of the
  manager return when their ticks come closer to the deadline, and the lemmas of \<open>Controllers\<close> that the worker loop
  drains a finite queue.

  \<^bold>\<open>Concurrency.\<close> An operation under a lock is one step. The goroutines of the claim controllers, the
  passes over bindings, the logins and the requests to the HTTP API are step relations, so that the theorems hold for every interleaving of
  whole steps; the informers' delays are in the freedom of the world to answer with old objects.

  \<^bold>\<open>Not modelled.\<close> Construction of clients, informers and managers; flags, tables and messages of the command
  line, the browser, and the \<open>dev\<close> plugin, which starts kind clusters and Helm; leader election;
  the web front end; generated code and the API version v1alpha1, which is only types. Logging and events have no
  effect in the model.
\<close>

end
